(* ===== verification/Prelude.thy ===== *)
theory Prelude
  imports Main "HOL-Library.Word"
begin

text \<open>
  Shared vocabulary of the development.

  \<^item> Fallible Rust code (\<open>Result<T, E>\<close>) is a sum \<open>'e + 'a\<close> with \<open>Inl\<close> for \<open>Err\<close>;
    \<open>bind_res\<close> is the question-mark operator.
  \<^item> Code that can panic returns an \<open>option\<close>: \<open>None\<close> is the panic. The release profile aborts
    on panic (\<open>panic = "abort"\<close>), so a panic ends the daemon.
  \<^item> Time is an \<open>int\<close> counting nanoseconds, the resolution of \<open>DateTime<Utc>\<close>;
    \<open>trunc_div\<close> is Rust's integer division.
  \<^item> Strings are \<open>char list\<close>s of bytes, as a Rust \<open>&str\<close> is a UTF-8 byte sequence.
\<close>

named_theorems panic_free \<open>conditions under which an operation that can panic returns\<close>
named_theorems latch_simps \<open>effect of the runtime-state operations on the safety latches\<close>
named_theorems wf_intros \<open>introduction rules for well-formedness predicates\<close>

type_synonym u8 = "8 word"
type_synonym u16 = "16 word"
type_synonym u32 = "32 word"
type_synonym u64 = "64 word"
type_synonym time = int


section \<open>Results\<close>

abbreviation Ok :: "'a \<Rightarrow> 'e + 'a" where "Ok \<equiv> Inr"
abbreviation Err :: "'e \<Rightarrow> 'e + 'a" where "Err \<equiv> Inl"

fun bind_res :: "'err + 'ok \<Rightarrow> ('ok \<Rightarrow> 'err + 'out) \<Rightarrow> 'err + 'out" where
  "bind_res (Inl why) _ = Inl why"
| "bind_res (Inr got) k = k got"

fun is_ok :: "'e + 'a \<Rightarrow> bool" where
  "is_ok (Inl _) = False"
| "is_ok (Inr _) = True"

fun map_err :: "('e \<Rightarrow> 'f) \<Rightarrow> 'e + 'a \<Rightarrow> 'f + 'a" where
  "map_err g (Inl e) = Inl (g e)"
| "map_err g (Inr a) = Inr a"

fun ok_or :: "'a option \<Rightarrow> 'e \<Rightarrow> 'e + 'a" where
  "ok_or None e = Inl e"
| "ok_or (Some a) e = Inr a"

lemma bind_res_Ok_iff: "bind_res r f = Inr b \<longleftrightarrow> (\<exists>a. r = Inr a \<and> f a = Inr b)"
  by (cases r) auto

lemma bind_res_Err_iff:
  "bind_res r f = Inl e \<longleftrightarrow> r = Inl e \<or> (\<exists>a. r = Inr a \<and> f a = Inl e)"
  by (cases r) auto

lemma is_ok_iff: "is_ok r \<longleftrightarrow> (\<exists>a. r = Inr a)"
  by (cases r) auto

lemma is_ok_bind: "is_ok (bind_res r f) \<longleftrightarrow> (\<exists>a. r = Inr a \<and> is_ok (f a))"
  by (cases r) auto

lemma is_ok_map_err [simp]: "is_ok (map_err g r) = is_ok r"
  by (cases r) auto

lemma map_err_Ok_iff [simp]: "map_err g r = Inr a \<longleftrightarrow> r = Inr a"
  by (cases r) auto

lemma ok_or_Ok_iff [simp]: "ok_or x e = Inr a \<longleftrightarrow> x = Some a"
  by (cases x) auto

lemma ok_or_is_ok [simp]: "is_ok (ok_or x e) \<longleftrightarrow> x \<noteq> None"
  by (cases x) auto

text \<open>A sequence of checks whose value is the unit, run in order and stopping at the first
  error: \<open>check1?; check2?; ...; Ok(())\<close>.\<close>

fun run_checks :: "('e + unit) list \<Rightarrow> 'e + unit" where
  "run_checks [] = Inr ()"
| "run_checks (c # cs) = bind_res c (\<lambda>_. run_checks cs)"

lemma run_checks_ok: "is_ok (run_checks cs) \<longleftrightarrow> list_all is_ok cs"
  by (induction cs) (auto simp: is_ok_bind, auto simp: is_ok_iff)

lemma unit_ok: "r = Inr () \<longleftrightarrow> is_ok (r :: 'e + unit)"
  by (cases r) auto

lemma run_checks_Ok_iff: "run_checks cs = Inr () \<longleftrightarrow> list_all is_ok cs"
  by (simp add: unit_ok run_checks_ok)


section \<open>Options\<close>

fun option_or :: "'a option \<Rightarrow> 'a option \<Rightarrow> 'a option" where
  "option_or None y = y"
| "option_or (Some x) y = Some x"

fun unwrap_or :: "'a option \<Rightarrow> 'a \<Rightarrow> 'a" where
  "unwrap_or None d = d"
| "unwrap_or (Some x) d = x"

lemma option_or_None_iff [simp]: "option_or x y = None \<longleftrightarrow> x = None \<and> y = None"
  by (cases x) auto

lemma bind_Some_iff: "Option.bind x f = Some b \<longleftrightarrow> (\<exists>a. x = Some a \<and> f a = Some b)"
  by (cases x) auto


section \<open>Machine integers\<close>

text \<open>Rust's \<open>saturating_add\<close> on \<open>u64\<close>, truncating division on signed integers.\<close>

definition saturating_add :: "u64 \<Rightarrow> u64 \<Rightarrow> u64" where
  "saturating_add a b = (if unat a + unat b < 2 ^ 64 then a + b else - 1)"

lemma unat_max_u64: "unat (- 1 :: u64) = 2 ^ 64 - 1"
  by (simp add: unsigned_minus_1_eq_mask mask_eq_exp_minus_1)

lemma unat_saturating_add: "unat (saturating_add a b) = min (unat a + unat b) (2 ^ 64 - 1)"
proof (cases "unat a + unat b < 2 ^ 64")
  case True
  then have "unat (a + b) = unat a + unat b"
    by (simp add: unat_word_ariths)
  with True show ?thesis by (simp add: saturating_add_def)
next
  case False
  then show ?thesis by (simp add: saturating_add_def unat_max_u64)
qed

lemma unat_saturating_add_ge: "unat a \<le> unat (saturating_add a b)"
  using unsigned_less [where 'a = nat, of a] by (auto simp: unat_saturating_add)

lemma saturating_add_one_neq: "a \<noteq> - 1 \<Longrightarrow> saturating_add a 1 \<noteq> a"
proof
  assume ne: "a \<noteq> - 1" and eq: "saturating_add a 1 = a"
  from eq have "min (unat a + 1) (2 ^ 64 - 1) = unat a"
    using unat_saturating_add [of a 1] by simp
  then have "unat a = 2 ^ 64 - 1" by (simp add: min_def split: if_splits)
  then have "unat a = unat (- 1 :: u64)" by (simp add: unat_max_u64)
  with ne show False by (simp add: word_unat_eq_iff)
qed

definition trunc_div :: "int \<Rightarrow> int \<Rightarrow> int" where
  "trunc_div n d = (if (n < 0) = (d < 0) then \<bar>n\<bar> div \<bar>d\<bar> else - (\<bar>n\<bar> div \<bar>d\<bar>))"

lemma trunc_div_nonneg: "0 \<le> a \<Longrightarrow> 0 < b \<Longrightarrow> trunc_div a b = a div b"
  by (simp add: trunc_div_def)

lemma trunc_div_neg: "a \<le> 0 \<Longrightarrow> 0 < b \<Longrightarrow> trunc_div a b = - ((- a) div b)"
  by (cases "a = 0") (simp_all add: trunc_div_def)

lemma trunc_div_ge_0_iff:
  assumes "0 < b"
  shows "0 \<le> trunc_div a b \<longleftrightarrow> - b < a"
proof (cases "0 \<le> a")
  case True
  then show ?thesis using assms by (simp add: trunc_div_nonneg pos_imp_zdiv_nonneg_iff)
next
  case False
  have "0 \<le> (- a) div b" using False assms by (simp add: pos_imp_zdiv_nonneg_iff)
  moreover have "0 < (- a) div b \<longleftrightarrow> b \<le> - a"
    using assms by (rule pos_imp_zdiv_pos_iff)
  ultimately show ?thesis using False assms by (auto simp: trunc_div_neg)
qed


lemma int_div_le_iff:
  assumes "0 < (c :: int)"
  shows "a div c \<le> t \<longleftrightarrow> a < (t + 1) * c"
proof
  assume "a div c \<le> t"
  then have "a div c * c \<le> t * c" using assms by (intro mult_right_mono) auto
  moreover have "a = a div c * c + a mod c" "a mod c < c" using assms by simp_all
  moreover have "(t + 1) * c = t * c + c" by (simp add: algebra_simps)
  ultimately show "a < (t + 1) * c" by linarith
next
  assume a: "a < (t + 1) * c"
  have "a div c * c \<le> a" using assms by (simp add: minus_mod_eq_div_mult [symmetric])
  then have "a div c * c < (t + 1) * c" using a by linarith
  then show "a div c \<le> t" using assms by (simp add: mult_less_cancel_right)
qed


section \<open>Rendering and text\<close>

text \<open>Decimal rendering of integers, \<open>str::trim\<close> and \<open>str::split\<close> on ASCII text. \<open>trim\<close> removes
  ASCII white space, which is what the white space of the texts handled here is.\<close>

fun digits_nat :: "nat \<Rightarrow> string" where
  "digits_nat n = (if n < 10 then [char_of (48 + n)]
                   else digits_nat (n div 10) @ [char_of (48 + n mod 10)])"

declare digits_nat.simps [simp del]

definition show_int :: "int \<Rightarrow> string" where
  "show_int i = (if i < 0 then ''-'' @ digits_nat (nat (- i)) else digits_nat (nat i))"

definition hex_digit :: "nat \<Rightarrow> char" where
  "hex_digit n = (if n < 10 then char_of (48 + n) else char_of (87 + n))"

fun hex_nat :: "nat \<Rightarrow> string" where
  "hex_nat n = (if n < 16 then [hex_digit n] else hex_nat (n div 16) @ [hex_digit (n mod 16)])"

declare hex_nat.simps [simp del]

definition is_space :: "char \<Rightarrow> bool" where
  "is_space c \<longleftrightarrow> c \<in> {CHR '' '', CHR 0x09, CHR 0x0A, CHR 0x0B, CHR 0x0C, CHR 0x0D}"

definition trim_end :: "string \<Rightarrow> string" where
  "trim_end s = rev (dropWhile is_space (rev s))"

definition trim :: "string \<Rightarrow> string" where
  "trim s = trim_end (dropWhile is_space s)"

fun split_on :: "char \<Rightarrow> string \<Rightarrow> string list" where
  "split_on c [] = [[]]"
| "split_on c (x # xs) =
     (if x = c then [] # split_on c xs
      else (case split_on c xs of [] \<Rightarrow> [[x]] | y # ys \<Rightarrow> (x # y) # ys))"

fun split_once :: "char \<Rightarrow> string \<Rightarrow> (string \<times> string) option" where
  "split_once c [] = None"
| "split_once c (x # xs) =
     (if x = c then Some ([], xs)
      else map_option (\<lambda>(k, v). (x # k, v)) (split_once c xs))"

fun join_with :: "string \<Rightarrow> string list \<Rightarrow> string" where
  "join_with sep [] = []"
| "join_with sep [x] = x"
| "join_with sep (x # y # ys) = x @ sep @ join_with sep (y # ys)"

lemma split_on_ne [simp]: "split_on c s \<noteq> []"
  by (induction s) (auto split: list.splits)

lemma split_on_no_sep: "c \<notin> set s \<Longrightarrow> split_on c s = [s]"
  by (induction s) auto

lemma split_on_append: "c \<notin> set s \<Longrightarrow> split_on c (s @ c # t) = s # split_on c t"
  by (induction s) auto

lemma split_on_join:
  "parts \<noteq> [] \<Longrightarrow> \<forall>p \<in> set parts. c \<notin> set p \<Longrightarrow> split_on c (join_with [c] parts) = parts"
proof (induction parts)
  case (Cons x xs)
  then show ?case by (cases xs) (auto simp: split_on_append split_on_no_sep)
qed simp

lemma split_once_append: "c \<notin> set k \<Longrightarrow> split_once c (k @ c # v) = Some (k, v)"
  by (induction k) auto

lemma set_digits_nat: "set (digits_nat n) \<subseteq> char_of ` {48..<58 :: nat}"
proof (induction n rule: digits_nat.induct)
  case (1 n)
  then show ?case by (subst digits_nat.simps) (auto simp: image_iff)
qed

lemma digits_nat_ne [simp]: "digits_nat n \<noteq> []"
  by (subst digits_nat.simps) simp

lemma trim_id:
  assumes "s \<noteq> []" "\<not> is_space (hd s)" "\<not> is_space (last s)"
  shows "trim s = s"
proof -
  have "dropWhile is_space s = s" using assms by (cases s) auto
  moreover have "dropWhile is_space (rev s) = rev s"
    using assms by (cases "rev s") (auto simp: last_conv_nth rev_nth hd_rev [symmetric])
  ultimately show ?thesis by (simp add: trim_def trim_end_def)
qed

end
