(* ===== verification/F64.thy ===== *)
theory F64
  imports Complex_Main "HOL-Library.Log_Nat" Prelude
begin

text \<open>
  Rust's \<open>f64\<close>: IEEE 754 binary64 with round-to-nearest, ties-to-even, as the source uses it.

  A value is a NaN, an infinity, the negative zero or \<open>Num q\<close> with the rational it denotes
  (\<open>Num 0\<close> is the positive zero). \<open>rnd\<close> rounds a rational to binary64: 53 significant bits, the
  subnormal range below \<open>2 ^ -1022\<close>, overflow to infinity from \<open>2 ^ 1024\<close>. Arithmetic computes the
  exact rational and rounds once; comparisons are the IEEE ones, in which NaN is unordered and the
  two zeros are equal. Everything is executable. The main facts are that rounding is monotone, that
  it is the identity on representable values, and its relative error; together with \<open>clamp\<close>,
  \<open>round\<close> and the helpers of \<open>number.rs\<close> they carry every bound proved about the program's
  numbers.
\<close>

section \<open>Rounding to binary64\<close>

text \<open>The exponent of the leading bit of a positive rational.\<close>

definition ilog2 :: "rat \<Rightarrow> int" where
  "ilog2 q = (let (n, d) = quotient_of q; e = bitlen n - bitlen d
              in if q < 2 powi e then e - 1 else e)"

definition round_half_even :: "rat \<Rightarrow> int" where
  "round_half_even q =
     (let f = \<lfloor>q\<rfloor>; r = q - of_int f
      in if r < 1 / 2 then f else if 1 / 2 < r then f + 1 else if even f then f else f + 1)"

text \<open>The exponent of the unit in the last place: 52 bits below the leading bit, but never below
  the subnormal spacing.\<close>

definition ulp_exp :: "rat \<Rightarrow> int" where
  "ulp_exp q = max (ilog2 \<bar>q\<bar> - 52) (- 1074)"

definition round_val :: "rat \<Rightarrow> rat" where
  "round_val q = (if q = 0 then 0
     else let u = 2 powi ulp_exp q in of_int (round_half_even (q / u)) * u)"

definition f64_limit :: rat where
  "f64_limit = 2 ^ 1024"

datatype f64 = NaN | Inf bool | NegZero | Num rat

text \<open>\<open>Inf True\<close> is negative infinity.\<close>

definition rnd :: "rat \<Rightarrow> f64" where
  "rnd q = (let v = round_val q in
     if f64_limit \<le> \<bar>v\<bar> then Inf (q < 0)
     else if v = 0 \<and> q < 0 then NegZero
     else Num v)"

subsection \<open>The leading exponent\<close>

lemma bitlen_powi_bounds:
  "0 < n \<Longrightarrow> 2 powi (bitlen n - 1) \<le> (of_int n :: rat) \<and> (of_int n :: rat) < 2 powi bitlen n"
proof -
  assume n: "0 < n"
  have le: "2 ^ nat (bitlen n - 1) \<le> n" and lt: "n < 2 ^ nat (bitlen n)"
    using bitlen_bounds [OF n] by auto
  have pos: "1 \<le> bitlen n" using n by (simp add: bitlen_ge_iff_power)
  have "(of_int (2 ^ nat (bitlen n - 1)) :: rat) \<le> of_int n" using le by (simp only: of_int_le_iff)
  moreover have "(of_int n :: rat) < of_int (2 ^ nat (bitlen n))" using lt by (simp only: of_int_less_iff)
  ultimately show ?thesis using pos by (simp add: power_int_def)
qed


lemma powi_mono_2: "(a::int) \<le> b \<Longrightarrow> (2::rat) powi a \<le> 2 powi b"
  by (simp add: power_int_increasing)

lemma powi_less_2_iff: "(2::rat) powi a < 2 powi b \<longleftrightarrow> a < b"
  using powi_mono_2 [of b a] power_int_strict_increasing [of a b "2::rat"]
  by (cases "a < b") (auto simp: not_less)

lemma powi_pos_2 [simp]: "0 < (2::rat) powi a"
  by (simp add: zero_less_power_int)

lemma powi_add_2: "(2::rat) powi (a + b) = 2 powi a * 2 powi b"
  by (simp add: power_int_add)

lemma ilog2_bounds:
  assumes "0 < q"
  shows "2 powi ilog2 q \<le> q \<and> q < 2 powi (ilog2 q + 1)"
proof -
  obtain n d where nd: "quotient_of q = (n, d)" by fastforce
  have d: "0 < d" using quotient_of_denom_pos [OF nd] .
  have q: "q = of_int n / of_int d" using quotient_of_div [OF nd] .
  have n: "0 < n" using assms d by (simp add: q zero_less_divide_iff)
  let ?e = "bitlen n - bitlen d"
  have nb: "2 powi (bitlen n - 1) \<le> (of_int n :: rat)" "(of_int n :: rat) < 2 powi bitlen n"
    using bitlen_powi_bounds [OF n] by auto
  have db: "2 powi (bitlen d - 1) \<le> (of_int d :: rat)" "(of_int d :: rat) < 2 powi bitlen d"
    using bitlen_powi_bounds [OF d] by auto
  have lo: "2 powi (?e - 1) < q"
  proof -
    have "(2::rat) powi (?e - 1) * of_int d < 2 powi (?e - 1) * 2 powi bitlen d"
      using db(2) by simp
    also have "\<dots> = 2 powi (bitlen n - 1)"
      by (simp flip: powi_add_2)
    also have "\<dots> \<le> of_int n" using nb(1) .
    finally show ?thesis using d by (simp add: q pos_less_divide_eq)
  qed
  have hi: "q < 2 powi (?e + 1)"
  proof -
    have "(of_int n :: rat) < 2 powi bitlen n" using nb(2) .
    also have "\<dots> = 2 powi (?e + 1) * 2 powi (bitlen d - 1)"
      by (simp flip: powi_add_2)
    also have "\<dots> \<le> 2 powi (?e + 1) * of_int d"
      using db(1) by simp
    finally show ?thesis using d by (simp add: q pos_divide_less_eq)
  qed
  show ?thesis
    using lo hi by (auto simp: ilog2_def nd not_less Let_def)
qed

lemma ilog2_unique:
  assumes "2 powi e \<le> q" "q < 2 powi (e + 1)"
  shows "ilog2 q = e"
proof -
  have "0 < q" using assms(1) powi_pos_2 [of e] by linarith
  then have b: "2 powi ilog2 q \<le> q" "q < 2 powi (ilog2 q + 1)" using ilog2_bounds by auto
  have "(2::rat) powi e < 2 powi (ilog2 q + 1)" "(2::rat) powi ilog2 q < 2 powi (e + 1)"
    using assms b by linarith+
  then show ?thesis by (simp add: powi_less_2_iff)
qed

lemma ilog2_mono: "0 < x \<Longrightarrow> x \<le> y \<Longrightarrow> ilog2 x \<le> ilog2 y"
proof -
  assume "0 < x" "x \<le> y"
  then have "2 powi ilog2 x \<le> x" "y < 2 powi (ilog2 y + 1)"
    using ilog2_bounds [of x] ilog2_bounds [of y] by auto
  then have "(2::rat) powi ilog2 x < 2 powi (ilog2 y + 1)" using \<open>x \<le> y\<close> by linarith
  then show ?thesis by (simp add: powi_less_2_iff)
qed

subsection \<open>Rounding to an integer, ties to even\<close>

lemma round_half_even_of_int [simp]: "round_half_even (of_int n) = n"
  by (simp add: round_half_even_def)

lemma round_half_even_bounds:
  "\<bar>of_int (round_half_even q) - q\<bar> \<le> 1 / 2"
proof -
  have f: "of_int \<lfloor>q\<rfloor> \<le> q" "q < of_int \<lfloor>q\<rfloor> + 1" by linarith+
  then show ?thesis unfolding round_half_even_def Let_def by (auto simp: abs_le_iff)
qed

lemma round_half_even_mono:
  assumes "x \<le> y"
  shows "round_half_even x \<le> round_half_even y"
proof -
  have fl: "\<lfloor>x\<rfloor> \<le> \<lfloor>y\<rfloor>" using assms by (rule floor_mono)
  have x1: "\<lfloor>x\<rfloor> \<le> round_half_even x \<and> round_half_even x \<le> \<lfloor>x\<rfloor> + 1"
    and y1: "\<lfloor>y\<rfloor> \<le> round_half_even y"
    by (auto simp: round_half_even_def Let_def)
  show ?thesis
  proof (cases "\<lfloor>x\<rfloor> = \<lfloor>y\<rfloor>")
    case True
    then have "x - of_int \<lfloor>x\<rfloor> \<le> y - of_int \<lfloor>y\<rfloor>" using assms by simp
    with True show ?thesis unfolding round_half_even_def Let_def by auto
  next
    case False
    with fl x1 y1 show ?thesis by linarith
  qed
qed

lemma round_half_even_minus: "round_half_even (- q) = - round_half_even q"
proof (cases "q = of_int \<lfloor>q\<rfloor>")
  case True
  then show ?thesis by (metis of_int_minus round_half_even_of_int)
next
  case False
  then have "q \<notin> \<int>" by (metis Ints_cases floor_of_int)
  then have fl: "\<lfloor>- q\<rfloor> = - \<lfloor>q\<rfloor> - 1"
    by (simp add: floor_minus ceiling_altdef False)
  show ?thesis unfolding round_half_even_def Let_def fl by auto
qed

subsection \<open>Rounding a rational\<close>

lemma round_val_zero [simp]: "round_val 0 = 0"
  by (simp add: round_val_def)

lemma round_val_minus: "round_val (- q) = - round_val q"
  by (simp add: round_val_def ulp_exp_def Let_def round_half_even_minus)

lemma round_val_nonneg: "0 \<le> q \<Longrightarrow> 0 \<le> round_val q"
proof -
  assume q: "0 \<le> q"
  have "0 = round_half_even (of_int 0)" by (simp only: round_half_even_of_int)
  also have "\<dots> \<le> round_half_even (q / 2 powi ulp_exp q)"
    by (rule round_half_even_mono) (use q in simp)
  finally show ?thesis by (simp add: round_val_def Let_def)
qed

lemma powi_div_int: "a \<le> b \<Longrightarrow> (2::rat) powi b / 2 powi a = of_int (2 ^ nat (b - a))"
  using power_int_diff [of "2::rat" b a] by (simp add: power_int_def [of _ "b - a"])

lemma round_val_le_powi:
  assumes "0 < x" "x \<le> 2 powi k" "ulp_exp x \<le> k"
  shows "round_val x \<le> 2 powi k"
proof -
  let ?u = "(2::rat) powi ulp_exp x"
  have "x / ?u \<le> 2 powi k / ?u" using assms(2) by (simp add: divide_right_mono)
  then have "round_half_even (x / ?u) \<le> 2 ^ nat (k - ulp_exp x)"
    using round_half_even_mono [of "x / ?u" "of_int (2 ^ nat (k - ulp_exp x))"]
    by (simp only: powi_div_int [OF assms(3)] round_half_even_of_int)
  then have "of_int (round_half_even (x / ?u)) \<le> (of_int (2 ^ nat (k - ulp_exp x)) :: rat)"
    by (simp only: of_int_le_iff)
  then have "of_int (round_half_even (x / ?u)) * ?u \<le> 2 powi k"
    by (simp only: powi_div_int [OF assms(3), symmetric] pos_le_divide_eq powi_pos_2)
  then show ?thesis using assms(1) by (simp add: round_val_def Let_def)
qed

lemma round_val_ge_powi:
  assumes "2 powi k \<le> x" "ulp_exp x \<le> k"
  shows "2 powi k \<le> round_val x"
proof -
  let ?u = "(2::rat) powi ulp_exp x"
  have "0 < x" using assms(1) powi_pos_2 [of k] by linarith
  have "2 powi k / ?u \<le> x / ?u" using assms(1) by (simp add: divide_right_mono)
  then have "2 ^ nat (k - ulp_exp x) \<le> round_half_even (x / ?u)"
    using round_half_even_mono [of "of_int (2 ^ nat (k - ulp_exp x))" "x / ?u"]
    by (simp only: powi_div_int [OF assms(2)] round_half_even_of_int)
  then have "(of_int (2 ^ nat (k - ulp_exp x)) :: rat) \<le> of_int (round_half_even (x / ?u))"
    by (simp only: of_int_le_iff)
  then have "2 powi k \<le> of_int (round_half_even (x / ?u)) * ?u"
    by (simp only: powi_div_int [OF assms(2), symmetric] pos_divide_le_eq powi_pos_2)
  then show ?thesis using \<open>0 < x\<close> by (simp add: round_val_def Let_def)
qed

lemma round_val_mono_pos:
  assumes "0 < x" "x \<le> y"
  shows "round_val x \<le> round_val y"
proof (cases "ulp_exp x = ulp_exp y")
  case True
  have "round_half_even (x / 2 powi ulp_exp y) \<le> round_half_even (y / 2 powi ulp_exp y)"
    using assms by (intro round_half_even_mono) (simp add: divide_right_mono)
  with True assms show ?thesis by (simp add: round_val_def Let_def)
next
  case False
  have le: "ilog2 x \<le> ilog2 y" using assms by (rule ilog2_mono)
  with False assms have lt: "ulp_exp x < ulp_exp y" "ilog2 x < ilog2 y"
    by (auto simp: ulp_exp_def max_def split: if_splits)
  then have uy: "ulp_exp y = ilog2 y - 52"
    using assms by (auto simp: ulp_exp_def max_def split: if_splits)
  have "x < 2 powi (ilog2 x + 1)" using ilog2_bounds assms by blast
  also have "\<dots> \<le> 2 powi ilog2 y" using lt by (intro powi_mono_2) simp
  finally have "round_val x \<le> 2 powi ilog2 y"
    using assms lt uy by (intro round_val_le_powi) auto
  also have "\<dots> \<le> round_val y"
    using ilog2_bounds [of y] assms uy by (intro round_val_ge_powi) auto
  finally show ?thesis .
qed

lemma round_val_mono:
  assumes "x \<le> y"
  shows "round_val x \<le> round_val y"
proof -
  consider "0 < x" | "x \<le> 0" "0 \<le> y" | "y < 0" by linarith
  then show ?thesis
  proof cases
    case 1
    then show ?thesis using assms round_val_mono_pos by blast
  next
    case 2
    have "round_val x \<le> 0" using round_val_nonneg [of "- x"] 2 by (simp add: round_val_minus)
    then show ?thesis using round_val_nonneg [of y] 2 by linarith
  next
    case 3
    then have "round_val (- y) \<le> round_val (- x)" using assms by (intro round_val_mono_pos) auto
    then show ?thesis by (simp add: round_val_minus)
  qed
qed


subsection \<open>Representable values and the rounding error\<close>

definition representable :: "rat \<Rightarrow> bool" where
  "representable q \<longleftrightarrow>
     (\<exists>m e. q = of_int m * 2 powi e \<and> \<bar>m\<bar> < 2 ^ 53 \<and> - 1074 \<le> e) \<and> \<bar>q\<bar> < f64_limit"

lemma round_val_exact:
  assumes q: "q = of_int m * 2 powi e" and m: "\<bar>m\<bar> < 2 ^ 53" and e: "- 1074 \<le> e"
  shows "round_val q = q"
proof (cases "q = 0")
  case False
  have "\<bar>q\<bar> = of_int \<bar>m\<bar> * 2 powi e" by (simp add: q abs_mult)
  also have "\<dots> < 2 powi 53 * 2 powi e"
  proof -
    have "(of_int \<bar>m\<bar> :: rat) < of_int (2 ^ 53)" using m by (simp only: of_int_less_iff)
    then show ?thesis by (simp add: power_int_def)
  qed
  also have "\<dots> = 2 powi (53 + e)" by (simp only: powi_add_2)
  finally have "\<bar>q\<bar> < 2 powi (53 + e)" .
  moreover have "2 powi ilog2 \<bar>q\<bar> \<le> \<bar>q\<bar>" using ilog2_bounds [of "\<bar>q\<bar>"] False by simp
  ultimately have "(2::rat) powi ilog2 \<bar>q\<bar> < 2 powi (53 + e)" by linarith
  then have "ilog2 \<bar>q\<bar> < 53 + e" by (simp only: powi_less_2_iff)
  then have ue: "ulp_exp q \<le> e" using e by (simp add: ulp_exp_def)
  have "q / 2 powi ulp_exp q = of_int (m * 2 ^ nat (e - ulp_exp q))"
    unfolding q [symmetric] using powi_div_int [OF ue] by (subst q) (simp add: times_divide_eq_right [symmetric] del: times_divide_eq_right)
  then have "of_int (round_half_even (q / 2 powi ulp_exp q)) = q / 2 powi ulp_exp q"
    by (metis round_half_even_of_int)
  then show ?thesis using False by (simp add: round_val_def Let_def)
qed simp

lemma round_val_representable: "representable q \<Longrightarrow> round_val q = q"
  using round_val_exact by (auto simp: representable_def)

lemma f64_limit_powi: "f64_limit = 2 powi 1024"
  by (simp add: f64_limit_def power_int_def)

lemma representable_of_int: "\<bar>n\<bar> < 2 ^ 53 \<Longrightarrow> representable (of_int n)"
proof -
  assume n: "\<bar>n\<bar> < 2 ^ 53"
  have "\<bar>of_int n :: rat\<bar> < of_int (2 ^ 53)" using n by (simp only: of_int_abs [symmetric] of_int_less_iff)
  also have "\<dots> \<le> f64_limit" by (simp add: f64_limit_def)
  finally show ?thesis
    unfolding representable_def by (intro conjI exI [of _ n] exI [of _ 0]) (use n in auto)
qed

lemma round_val_of_int: "\<bar>n\<bar> < 2 ^ 53 \<Longrightarrow> round_val (of_int n) = of_int n"
  by (rule round_val_representable [OF representable_of_int])

text \<open>Rounding lands on a representable value (or overflows), so it is idempotent.\<close>

lemma round_val_form: "\<exists>m e. round_val q = of_int m * 2 powi e \<and> \<bar>m\<bar> < 2 ^ 53 \<and> - 1074 \<le> e"
proof (cases "q = 0")
  case True
  then show ?thesis by (intro exI [of _ 0]) auto
next
  case False
  let ?u = "(2::rat) powi ulp_exp q" and ?n = "round_half_even (q / 2 powi ulp_exp q)"
  have e: "- 1074 \<le> ulp_exp q" by (simp add: ulp_exp_def)
  have "\<bar>q\<bar> < 2 powi (ilog2 \<bar>q\<bar> + 1)" using ilog2_bounds [of "\<bar>q\<bar>"] False by simp
  also have "\<dots> \<le> 2 powi (ulp_exp q + 53)" by (rule powi_mono_2) (simp add: ulp_exp_def)
  also have "\<dots> = 2 ^ 53 * ?u" unfolding powi_add_2 by simp
  finally have "\<bar>q\<bar> / ?u \<le> 2 ^ 53" by (simp add: pos_divide_le_eq)
  then have "q / ?u \<le> of_int (2 ^ 53)" "of_int (- (2 ^ 53)) \<le> q / ?u"
    using abs_ge_self [of "q / ?u"] abs_ge_minus_self [of "q / ?u"] by (simp_all add: abs_divide)
  then have "?n \<le> 2 ^ 53" "- (2 ^ 53) \<le> ?n"
    using round_half_even_mono round_half_even_of_int by metis+
  then consider "\<bar>?n\<bar> < 2 ^ 53" | "?n = 2 ^ 53" | "?n = - (2 ^ 53)" by linarith
  moreover have rv: "round_val q = of_int ?n * ?u" using False by (simp add: round_val_def Let_def)
  moreover have u1: "(2::rat) powi (ulp_exp q + 1) = 2 * ?u" by (simp add: powi_add_2)
  ultimately show ?thesis
  proof cases
    case 1
    then show ?thesis using rv e by blast
  next
    case 2
    then have "round_val q = of_int (2 ^ 52) * 2 powi (ulp_exp q + 1)" by (simp add: rv u1)
    moreover have "- 1074 \<le> ulp_exp q + 1" "\<bar>2 ^ 52 :: int\<bar> < 2 ^ 53" using e by simp_all
    ultimately show ?thesis by blast
  next
    case 3
    then have "round_val q = of_int (- (2 ^ 52)) * 2 powi (ulp_exp q + 1)" by (simp add: rv u1)
    moreover have "- 1074 \<le> ulp_exp q + 1" "\<bar>- (2 ^ 52) :: int\<bar> < 2 ^ 53" using e by simp_all
    ultimately show ?thesis by blast
  qed
qed

lemma round_val_idem: "round_val (round_val q) = round_val q"
  using round_val_form [of q] round_val_exact by metis

lemma representable_round_val: "\<bar>round_val q\<bar> < f64_limit \<Longrightarrow> representable (round_val q)"
  unfolding representable_def using round_val_form by blast

text \<open>Rounding moves a value by at most half a unit in the last place.\<close>

lemma round_val_error: "\<bar>round_val q - q\<bar> \<le> 2 powi ulp_exp q / 2"
proof (cases "q = 0")
  case False
  let ?u = "(2::rat) powi ulp_exp q"
  have "round_val q - q = (of_int (round_half_even (q / ?u)) - q / ?u) * ?u"
    using False by (simp add: round_val_def Let_def left_diff_distrib)
  then have "\<bar>round_val q - q\<bar> = \<bar>of_int (round_half_even (q / ?u)) - q / ?u\<bar> * ?u"
    by (simp add: abs_mult)
  also have "\<dots> \<le> 1 / 2 * ?u"
    by (rule mult_right_mono [OF round_half_even_bounds]) simp
  finally show ?thesis by simp
qed simp

lemma ulp_exp_le:
  assumes "\<bar>q\<bar> < 2 powi k" "- 1021 \<le> k"
  shows "ulp_exp q \<le> k - 53 \<or> q = 0"
proof (cases "q = 0")
  case False
  then have "2 powi ilog2 \<bar>q\<bar> \<le> \<bar>q\<bar>" using ilog2_bounds [of "\<bar>q\<bar>"] by simp
  then have "(2::rat) powi ilog2 \<bar>q\<bar> < 2 powi k" using assms by linarith
  then have "ilog2 \<bar>q\<bar> < k" by (simp only: powi_less_2_iff)
  then show ?thesis using assms by (auto simp: ulp_exp_def)
qed simp

lemma round_val_error_bound:
  assumes "\<bar>q\<bar> < 2 powi k" "- 1021 \<le> k"
  shows "\<bar>round_val q - q\<bar> \<le> 2 powi (k - 54)"
proof (cases "q = 0")
  case False
  then have "ulp_exp q \<le> k - 53" using ulp_exp_le assms by blast
  then have "(2::rat) powi ulp_exp q / 2 \<le> 2 powi (k - 53) / 2"
    by (intro divide_right_mono powi_mono_2) auto
  also have "\<dots> = 2 powi (k - 54)"
    using power_int_diff [of "2::rat" "k - 53" 1] by simp
  finally show ?thesis using round_val_error [of q] by linarith
qed simp


section \<open>The type and its operations\<close>

fun is_nan :: "f64 \<Rightarrow> bool" where
  "is_nan NaN = True"
| "is_nan _ = False"

fun is_finite :: "f64 \<Rightarrow> bool" where
  "is_finite NaN = False"
| "is_finite (Inf _) = False"
| "is_finite _ = True"

text \<open>The number a finite value denotes, and the sign bit.\<close>

fun fval :: "f64 \<Rightarrow> rat" where
  "fval (Num q) = q"
| "fval _ = 0"

fun sign_bit :: "f64 \<Rightarrow> bool" where
  "sign_bit NaN = False"
| "sign_bit (Inf s) = s"
| "sign_bit NegZero = True"
| "sign_bit (Num q) = (q < 0)"

definition signed_zero :: "bool \<Rightarrow> f64" where
  "signed_zero s = (if s then NegZero else Num 0)"

definition f64_neg :: "f64 \<Rightarrow> f64" where
  "f64_neg x = (case x of NaN \<Rightarrow> NaN | Inf s \<Rightarrow> Inf (\<not> s) | NegZero \<Rightarrow> Num 0
     | Num q \<Rightarrow> if q = 0 then NegZero else Num (- q))"

definition f64_abs :: "f64 \<Rightarrow> f64" where
  "f64_abs x = (if sign_bit x then f64_neg x else x)"

definition f64_add :: "f64 \<Rightarrow> f64 \<Rightarrow> f64" where
  "f64_add x y =
     (if is_nan x \<or> is_nan y then NaN
      else case (x, y) of
        (Inf s, Inf t) \<Rightarrow> if s = t then Inf s else NaN
      | (Inf s, _) \<Rightarrow> Inf s
      | (_, Inf t) \<Rightarrow> Inf t
      | (NegZero, NegZero) \<Rightarrow> NegZero
      | _ \<Rightarrow> rnd (fval x + fval y))"

definition f64_sub :: "f64 \<Rightarrow> f64 \<Rightarrow> f64" where
  "f64_sub x y = f64_add x (f64_neg y)"

definition f64_mul :: "f64 \<Rightarrow> f64 \<Rightarrow> f64" where
  "f64_mul x y =
     (let s = (sign_bit x \<noteq> sign_bit y) in
      if is_nan x \<or> is_nan y then NaN
      else if \<not> is_finite x then (if is_finite y \<and> fval y = 0 then NaN else Inf s)
      else if \<not> is_finite y then (if fval x = 0 then NaN else Inf s)
      else if fval x * fval y = 0 then signed_zero s
      else rnd (fval x * fval y))"

definition f64_div :: "f64 \<Rightarrow> f64 \<Rightarrow> f64" where
  "f64_div x y =
     (let s = (sign_bit x \<noteq> sign_bit y) in
      if is_nan x \<or> is_nan y then NaN
      else if \<not> is_finite x then (if is_finite y then Inf s else NaN)
      else if \<not> is_finite y then signed_zero s
      else if fval y = 0 then (if fval x = 0 then NaN else Inf s)
      else if fval x = 0 then signed_zero s
      else rnd (fval x / fval y))"

text \<open>Comparisons: every comparison with a NaN is false, the zeros are equal.\<close>

fun f64_le :: "f64 \<Rightarrow> f64 \<Rightarrow> bool" where
  "f64_le NaN _ = False"
| "f64_le _ NaN = False"
| "f64_le (Inf s) y = (s \<or> y = Inf False)"
| "f64_le x (Inf t) = (\<not> t)"
| "f64_le x y = (fval x \<le> fval y)"

definition f64_lt :: "f64 \<Rightarrow> f64 \<Rightarrow> bool" where
  "f64_lt x y \<longleftrightarrow> f64_le x y \<and> \<not> f64_le y x"

definition f64_eq :: "f64 \<Rightarrow> f64 \<Rightarrow> bool" where
  "f64_eq x y \<longleftrightarrow> f64_le x y \<and> f64_le y x"

text \<open>\<open>(lo..=hi).contains(&x)\<close>\<close>

definition in_range :: "f64 \<Rightarrow> f64 \<Rightarrow> f64 \<Rightarrow> bool" where
  "in_range lo hi x \<longleftrightarrow> f64_le lo x \<and> f64_le x hi"

text \<open>\<open>f64::clamp\<close> panics when \<open>min > max\<close> or when a bound is a NaN; a NaN argument is returned.\<close>

definition f64_clamp :: "f64 \<Rightarrow> f64 \<Rightarrow> f64 \<Rightarrow> f64 option" where
  "f64_clamp x lo hi =
     (if f64_le lo hi
      then Some (let y = (if f64_lt x lo then lo else x) in if f64_lt hi y then hi else y)
      else None)"

text \<open>\<open>f64::max\<close> and \<open>f64::min\<close> ignore a NaN operand.\<close>

definition f64_max :: "f64 \<Rightarrow> f64 \<Rightarrow> f64" where
  "f64_max x y = (if is_nan x then y else if f64_lt x y then y else x)"

definition f64_min :: "f64 \<Rightarrow> f64 \<Rightarrow> f64" where
  "f64_min x y = (if is_nan x then y else if f64_lt y x then y else x)"

text \<open>\<open>f64::round\<close>: to the nearest integer, halves away from zero.\<close>

definition round_half_away :: "rat \<Rightarrow> int" where
  "round_half_away q = (if q < 0 then - \<lfloor>- q + 1 / 2\<rfloor> else \<lfloor>q + 1 / 2\<rfloor>)"

definition f64_round :: "f64 \<Rightarrow> f64" where
  "f64_round x = (case x of
       Num q \<Rightarrow> (let n = round_half_away q in if n = 0 \<and> q < 0 then NegZero else Num (of_int n))
     | _ \<Rightarrow> x)"

text \<open>\<open>as\<close>-casts from \<open>f64\<close> to an integer type truncate and saturate; a NaN gives 0.\<close>

definition trunc_rat :: "rat \<Rightarrow> int" where
  "trunc_rat q = (if q < 0 then - \<lfloor>- q\<rfloor> else \<lfloor>q\<rfloor>)"

definition cast_int :: "int \<Rightarrow> int \<Rightarrow> f64 \<Rightarrow> int" where
  "cast_int lo hi x = (case x of
       NaN \<Rightarrow> 0
     | Inf s \<Rightarrow> if s then lo else hi
     | NegZero \<Rightarrow> 0
     | Num q \<Rightarrow> max lo (min hi (trunc_rat q)))"

abbreviation f64_to_u16 :: "f64 \<Rightarrow> u16" where
  "f64_to_u16 x \<equiv> word_of_int (cast_int 0 65535 x)"

abbreviation f64_to_u64 :: "f64 \<Rightarrow> u64" where
  "f64_to_u64 x \<equiv> word_of_int (cast_int 0 (2 ^ 64 - 1) x)"

definition f64_to_i64 :: "f64 \<Rightarrow> int" where
  "f64_to_i64 x = cast_int (- (2 ^ 63)) (2 ^ 63 - 1) x"

text \<open>An integer cast to \<open>f64\<close>, and a decimal literal, are the nearest \<open>f64\<close>.\<close>

abbreviation f64_of_int :: "int \<Rightarrow> f64" where
  "f64_of_int n \<equiv> rnd (of_int n)"

abbreviation lit :: "rat \<Rightarrow> f64" where
  "lit q \<equiv> rnd q"

definition wf_f64 :: "f64 \<Rightarrow> bool" where
  "wf_f64 x = (case x of Num q \<Rightarrow> representable q | _ \<Rightarrow> True)"



section \<open>Facts about the operations\<close>

subsection \<open>Order\<close>

lemma f64_le_refl [simp]: "f64_le x x \<longleftrightarrow> \<not> is_nan x"
  by (cases x) auto

lemma f64_le_not_nan: "f64_le x y \<Longrightarrow> \<not> is_nan x \<and> \<not> is_nan y"
  by (cases x; cases y) auto

lemma f64_le_finite: "is_finite x \<Longrightarrow> is_finite y \<Longrightarrow> f64_le x y \<longleftrightarrow> fval x \<le> fval y"
  by (cases x; cases y) auto

lemma f64_le_trans [trans]: "f64_le x y \<Longrightarrow> f64_le y z \<Longrightarrow> f64_le x z"
  by (cases x; cases y; cases z) (auto split: if_splits)

lemma f64_le_total: "\<not> is_nan x \<Longrightarrow> \<not> is_nan y \<Longrightarrow> f64_le x y \<or> f64_le y x"
  by (cases x; cases y) auto

lemma f64_lt_iff: "\<not> is_nan x \<Longrightarrow> \<not> is_nan y \<Longrightarrow> f64_lt x y \<longleftrightarrow> \<not> f64_le y x"
  using f64_le_total by (auto simp: f64_lt_def)

lemma f64_lt_nan [simp]: "is_nan x \<Longrightarrow> \<not> f64_lt x y" "is_nan y \<Longrightarrow> \<not> f64_lt x y"
  using f64_le_not_nan by (auto simp: f64_lt_def)

lemma f64_lt_imp_le: "f64_lt x y \<Longrightarrow> f64_le x y"
  by (simp add: f64_lt_def)

lemma is_finite_not_nan [simp]: "is_finite x \<Longrightarrow> \<not> is_nan x"
  by (cases x) auto

lemma f64_lt_Num [simp]: "f64_lt (Num a) (Num b) \<longleftrightarrow> a < b"
  by (auto simp: f64_lt_def)

lemma f64_lt_finite: "is_finite x \<Longrightarrow> is_finite y \<Longrightarrow> f64_lt x y \<longleftrightarrow> fval x < fval y"
  by (auto simp: f64_lt_def f64_le_finite)

lemma f64_eq_finite: "is_finite x \<Longrightarrow> is_finite y \<Longrightarrow> f64_eq x y \<longleftrightarrow> fval x = fval y"
  by (auto simp: f64_eq_def f64_le_finite)

lemma f64_eq_refl [simp]: "f64_eq x x \<longleftrightarrow> \<not> is_nan x"
  by (simp add: f64_eq_def)

lemma f64_eq_sym: "f64_eq x y \<Longrightarrow> f64_eq y x"
  by (simp add: f64_eq_def)

lemma f64_le_between_finite:
  "f64_le lo x \<Longrightarrow> f64_le x hi \<Longrightarrow> is_finite lo \<Longrightarrow> is_finite hi \<Longrightarrow> is_finite x"
  by (cases lo; cases x; cases hi) auto

lemma in_range_finite: "in_range lo hi x \<Longrightarrow> is_finite lo \<Longrightarrow> is_finite hi \<Longrightarrow> is_finite x"
  by (auto simp: in_range_def dest: f64_le_between_finite)

lemma in_range_not_nan: "in_range lo hi x \<Longrightarrow> \<not> is_nan x"
  by (auto simp: in_range_def dest: f64_le_not_nan)

lemma in_range_bounds: "in_range lo hi x \<Longrightarrow> f64_le lo hi"
  by (auto simp: in_range_def intro: f64_le_trans)

subsection \<open>Clamp\<close>

lemma f64_clamp_Some [panic_free]: "f64_le lo hi \<Longrightarrow> \<exists>y. f64_clamp x lo hi = Some y"
  by (simp add: f64_clamp_def)

lemma f64_clamp_None_iff: "f64_clamp x lo hi = None \<longleftrightarrow> \<not> f64_le lo hi"
  by (simp add: f64_clamp_def)

lemma f64_clamp_in_range:
  assumes "f64_clamp x lo hi = Some y" "\<not> is_nan x"
  shows "in_range lo hi y"
proof -
  have le: "f64_le lo hi" using assms(1) by (auto simp: f64_clamp_def split: if_splits)
  then have nn: "\<not> is_nan lo" "\<not> is_nan hi" using f64_le_not_nan by auto
  from assms(1) le have y: "y = (let z = (if f64_lt x lo then lo else x) in if f64_lt hi z then hi else z)"
    by (simp add: f64_clamp_def)
  show ?thesis
    using le nn assms(2) unfolding y Let_def in_range_def
    by (auto simp: f64_lt_iff)
qed

lemma f64_clamp_id: "in_range lo hi x \<Longrightarrow> f64_clamp x lo hi = Some x"
  using in_range_bounds [of lo hi x]
  by (auto simp: in_range_def f64_clamp_def f64_lt_def Let_def)

lemma f64_clamp_nan: "f64_le lo hi \<Longrightarrow> is_nan x \<Longrightarrow> f64_clamp x lo hi = Some x"
  by (simp add: f64_clamp_def)

lemma f64_clamp_cases:
  "f64_clamp x lo hi = Some y \<Longrightarrow> y = x \<or> y = lo \<or> y = hi"
  by (auto simp: f64_clamp_def Let_def split: if_splits)

lemma f64_clamp_finite:
  "f64_clamp x lo hi = Some y \<Longrightarrow> \<not> is_nan x \<Longrightarrow> is_finite lo \<Longrightarrow> is_finite hi \<Longrightarrow> is_finite y"
  using f64_clamp_in_range in_range_finite by blast

subsection \<open>Rounding as an operation\<close>

lemma rnd_not_nan [simp]: "\<not> is_nan (rnd q)"
  by (simp add: rnd_def Let_def)

lemma rnd_finite: "\<bar>round_val q\<bar> < f64_limit \<Longrightarrow> is_finite (rnd q) \<and> fval (rnd q) = round_val q"
  by (auto simp: rnd_def Let_def)

lemma rnd_overflow: "f64_limit \<le> \<bar>round_val q\<bar> \<Longrightarrow> rnd q = Inf (q < 0)"
  by (simp add: rnd_def)

lemma rnd_Num: "rnd q = Num r \<Longrightarrow> representable r"
  by (auto simp: rnd_def Let_def representable_round_val split: if_splits)

lemma wf_f64_rnd [wf_intros]: "wf_f64 (rnd q)"
  using rnd_Num by (auto simp: wf_f64_def split: f64.splits)

lemma rnd_zero [simp]: "rnd 0 = Num 0"
  by (simp add: rnd_def f64_limit_def)

lemma rnd_representable: "representable q \<Longrightarrow> rnd q = Num q"
  using round_val_representable [of q] by (auto simp: rnd_def representable_def)

lemma rnd_of_int: "\<bar>n\<bar> < 2 ^ 53 \<Longrightarrow> rnd (of_int n) = Num (of_int n)"
  by (rule rnd_representable [OF representable_of_int])

lemma rnd_numeral [simp]: "(numeral n :: int) < 2 ^ 53 \<Longrightarrow> rnd (numeral n) = Num (numeral n)"
  using rnd_of_int [of "numeral n"] by simp

lemma rnd_neg_numeral [simp]: "(numeral n :: int) < 2 ^ 53 \<Longrightarrow> rnd (- numeral n) = Num (- numeral n)"
  using rnd_of_int [of "- numeral n"] by simp

lemma rnd_one [simp]: "rnd 1 = Num 1"
  using rnd_of_int [of 1] by simp

lemma rnd_neg_one [simp]: "rnd (- 1) = Num (- 1)"
  using rnd_of_int [of "- 1"] by simp

lemma rnd_mono:
  assumes "x \<le> y"
  shows "f64_le (rnd x) (rnd y)"
proof -
  have ab: "round_val x \<le> round_val y" using assms by (rule round_val_mono)
  have px: "0 \<le> x \<Longrightarrow> 0 \<le> round_val x" and ny: "y < 0 \<Longrightarrow> round_val y \<le> 0"
    using round_val_nonneg [of x] round_val_nonneg [of "- y"] by (auto simp: round_val_minus)
  consider "\<bar>round_val x\<bar> < f64_limit" "\<bar>round_val y\<bar> < f64_limit"
    | "f64_limit \<le> \<bar>round_val x\<bar>" "x < 0" | "f64_limit \<le> \<bar>round_val x\<bar>" "0 \<le> x"
    | "f64_limit \<le> \<bar>round_val y\<bar>" "0 \<le> y" | "f64_limit \<le> \<bar>round_val y\<bar>" "y < 0"
    by linarith
  then show ?thesis
  proof cases
    case 1
    then show ?thesis using ab rnd_finite [of x] rnd_finite [of y] by (simp add: f64_le_finite)
  next
    case 2
    then show ?thesis using rnd_not_nan [of y] by (cases "rnd y") (simp_all add: rnd_overflow)
  next
    case 3
    then have "f64_limit \<le> \<bar>round_val y\<bar>" using ab px by linarith
    with 3 assms show ?thesis by (simp add: rnd_overflow)
  next
    case 4
    then show ?thesis using rnd_not_nan [of x]
      by (cases "rnd x") (simp_all add: rnd_overflow)
  next
    case 5
    then have "f64_limit \<le> \<bar>round_val x\<bar>" using ab ny by linarith
    with 5 assms show ?thesis by (simp add: rnd_overflow)
  qed
qed

subsection \<open>Scaling by a positive constant\<close>

lemma f64_mul_pos:
  "0 < c \<Longrightarrow> f64_mul x (Num c) =
     (case x of NaN \<Rightarrow> NaN | Inf s \<Rightarrow> Inf s | NegZero \<Rightarrow> NegZero | Num q \<Rightarrow> rnd (q * c))"
  by (auto simp: f64_mul_def signed_zero_def Let_def split: f64.splits)

lemma f64_div_pos:
  "0 < c \<Longrightarrow> f64_div x (Num c) =
     (case x of NaN \<Rightarrow> NaN | Inf s \<Rightarrow> Inf s | NegZero \<Rightarrow> NegZero | Num q \<Rightarrow> rnd (q / c))"
  by (auto simp: f64_div_def signed_zero_def Let_def split: f64.splits)

lemma rnd_sign: "0 \<le> q \<Longrightarrow> f64_le (Num 0) (rnd q)" "q \<le> 0 \<Longrightarrow> f64_le (rnd q) (Num 0)"
  using rnd_mono [of 0 q] rnd_mono [of q 0] by simp_all

lemma f64_le_NegZero_iff [simp]:
  "f64_le NegZero y \<longleftrightarrow> f64_le (Num 0) y" "f64_le y NegZero \<longleftrightarrow> f64_le y (Num 0)"
  by (cases y; simp)+

lemma f64_le_Inf [simp]: "f64_le (Inf True) y \<longleftrightarrow> \<not> is_nan y" "f64_le y (Inf False) \<longleftrightarrow> \<not> is_nan y"
  by (cases y; simp)+

lemma f64_mul_pos_mono:
  assumes "0 < c" "f64_le x y"
  shows "f64_le (f64_mul x (Num c)) (f64_mul y (Num c))"
  using assms by (cases x; cases y) (auto simp: f64_mul_pos rnd_mono rnd_sign
      zero_le_mult_iff mult_le_0_iff)

lemma f64_div_pos_mono:
  assumes "0 < c" "f64_le x y"
  shows "f64_le (f64_div x (Num c)) (f64_div y (Num c))"
  using assms by (cases x; cases y) (auto simp: f64_div_pos rnd_mono rnd_sign
      divide_right_mono zero_le_divide_iff divide_le_0_iff)


subsection \<open>Rounding to an integer, halves away from zero\<close>

lemma round_half_away_of_int [simp]: "round_half_away (of_int n) = n"
proof -
  have "\<lfloor>(of_int m :: rat) + 1 / 2\<rfloor> = m" for m by linarith
  from this [of n] this [of "- n"] show ?thesis by (simp add: round_half_away_def)
qed

lemma round_half_away_near:
  assumes "\<bar>q - of_int n\<bar> < 1 / 2"
  shows "round_half_away q = n"
proof (cases "q < 0")
  case True
  have "\<lfloor>- q + 1 / 2\<rfloor> = - n" using assms by linarith
  with True show ?thesis by (simp only: round_half_away_def) simp
next
  case False
  have "\<lfloor>q + 1 / 2\<rfloor> = n" using assms by linarith
  with False show ?thesis by (simp only: round_half_away_def) simp
qed

lemma round_half_away_error: "\<bar>of_int (round_half_away q) - q\<bar> \<le> 1 / 2"
proof (cases "q < 0")
  case True
  have "\<bar>of_int (- \<lfloor>- q + 1 / 2\<rfloor>) - q\<bar> \<le> 1 / 2" by linarith
  with True show ?thesis by (simp only: round_half_away_def if_True)
next
  case False
  have "\<bar>of_int \<lfloor>q + 1 / 2\<rfloor> - q\<bar> \<le> 1 / 2" by linarith
  with False show ?thesis by (simp only: round_half_away_def if_False)
qed

lemma round_half_away_mono:
  assumes "x \<le> y"
  shows "round_half_away x \<le> round_half_away y"
proof -
  consider "0 \<le> x" | "x < 0" "0 \<le> y" | "y < 0" by linarith
  then show ?thesis
  proof cases
    case 1
    then show ?thesis using assms by (simp add: round_half_away_def floor_mono)
  next
    case 2
    then have "- \<lfloor>- x + 1 / 2\<rfloor> \<le> \<lfloor>y + 1 / 2\<rfloor>" by linarith
    with 2 show ?thesis by (simp only: round_half_away_def) simp
  next
    case 3
    then have "\<lfloor>- y + 1 / 2\<rfloor> \<le> \<lfloor>- x + 1 / 2\<rfloor>" using assms by (intro floor_mono) simp
    with 3 assms show ?thesis by (simp add: round_half_away_def)
  qed
qed

lemma f64_round_Num: "is_finite (f64_round (Num q)) \<and> fval (f64_round (Num q)) = of_int (round_half_away q)"
  by (simp add: f64_round_def Let_def)

lemma f64_round_simps [simp]:
  "f64_round NaN = NaN" "f64_round (Inf s) = Inf s" "f64_round NegZero = NegZero"
  by (simp_all add: f64_round_def)

lemma is_nan_f64_round [simp]: "is_nan (f64_round x) = is_nan x"
  by (cases x) (auto simp: f64_round_def Let_def)

lemma round_half_away_sign: "0 \<le> q \<Longrightarrow> 0 \<le> round_half_away q" "q \<le> 0 \<Longrightarrow> round_half_away q \<le> 0"
  using round_half_away_mono [of 0 q] round_half_away_mono [of q 0] round_half_away_of_int [of 0]
  by simp_all

lemma f64_round_mono:
  assumes "f64_le x y"
  shows "f64_le (f64_round x) (f64_round y)"
  using assms round_half_away_sign f64_round_Num
  by (cases x; cases y) (auto simp: f64_le_finite round_half_away_mono)


section \<open>Rounding helpers (\<open>number.rs\<close>)\<close>

definition round2 :: "f64 \<Rightarrow> f64" where
  "round2 value = f64_div (f64_round (f64_mul value (lit 100))) (lit 100)"

definition round1 :: "f64 \<Rightarrow> f64" where
  "round1 value = f64_div (f64_round (f64_mul value (lit 10))) (lit 10)"

definition round3 :: "f64 \<Rightarrow> f64" where
  "round3 value = f64_div (f64_round (f64_mul value (lit 1000))) (lit 1000)"

lemma round2_mono: "f64_le x y \<Longrightarrow> f64_le (round2 x) (round2 y)"
  by (simp add: round2_def f64_mul_pos_mono f64_div_pos_mono f64_round_mono)

lemma is_nan_scale [simp]:
  "0 < c \<Longrightarrow> is_nan (f64_mul x (Num c)) = is_nan x"
  "0 < c \<Longrightarrow> is_nan (f64_div x (Num c)) = is_nan x"
  by (cases x; simp add: f64_mul_pos f64_div_pos)+

lemma is_nan_round2 [simp]: "is_nan (round2 x) = is_nan x"
  by (simp add: round2_def)

text \<open>A value that two decimals can write: the nearest \<open>f64\<close> to \<open>n / 100\<close>. Such values are the
  fixed points of \<open>round2\<close>, so a bound with two decimals survives it.\<close>

definition two_decimals :: "f64 \<Rightarrow> bool" where
  "two_decimals x \<longleftrightarrow> (\<exists>n :: int. \<bar>n\<bar> < 2 ^ 45 \<and> x = rnd (of_int n / 100))"

lemma cents_round_val:
  assumes n: "\<bar>n\<bar> < 2 ^ 45"
  defines "v \<equiv> round_val (of_int n / 100)"
  shows "\<bar>v - of_int n / 100\<bar> \<le> 1 / 32768" "\<bar>round_val (v * 100) - of_int n\<bar> < 1 / 2" "\<bar>v\<bar> < 2 ^ 39"
proof -
  have absn: "\<bar>of_int n :: rat\<bar> < 2 ^ 45"
    using n by (metis of_int_abs of_int_less_iff of_int_numeral of_int_power)
  have "\<bar>of_int n / 100 :: rat\<bar> < 2 powi 39" using absn by (simp add: power_int_def)
  then have "\<bar>v - of_int n / 100\<bar> \<le> 2 powi (39 - 54)"
    unfolding v_def by (rule round_val_error_bound) simp
  then show e1: "\<bar>v - of_int n / 100\<bar> \<le> 1 / 32768" by (simp add: power_int_def power_divide)
  have "\<bar>v\<bar> \<le> \<bar>of_int n / 100\<bar> + 1 / 32768" using e1 by linarith
  then have av: "\<bar>v\<bar> \<le> \<bar>of_int n\<bar> / 100 + 1 / 32768" by simp
  have "(2::rat) ^ 45 / 100 + 1 / 32768 < 2 ^ 39" by simp
  then show "\<bar>v\<bar> < 2 ^ 39" using av absn by linarith
  have "\<bar>v * 100\<bar> < 2 powi 46" using av absn by (simp add: abs_mult power_int_def)
  then have "\<bar>round_val (v * 100) - v * 100\<bar> \<le> 2 powi (46 - 54)"
    by (rule round_val_error_bound) simp
  then have e2: "\<bar>round_val (v * 100) - v * 100\<bar> \<le> 1 / 256" by (simp add: power_int_def power_divide)
  have "\<bar>v * 100 - of_int n\<bar> \<le> 100 / 32768"
    using e1 by linarith
  with e2 show "\<bar>round_val (v * 100) - of_int n\<bar> < 1 / 2" by linarith
qed

lemma rnd_div_100:
  assumes n: "\<bar>n\<bar> < 2 ^ 45"
  shows "rnd (of_int n / 100) = Num (round_val (of_int n / 100))"
proof -
  have lt: "\<bar>round_val (of_int n / 100)\<bar> < f64_limit"
    using cents_round_val(3) [OF n] by (simp add: f64_limit_def)
  have nz: "round_val (of_int n / 100) = 0 \<Longrightarrow> \<not> n < 0"
    using cents_round_val(1) [OF n] by (auto simp: abs_le_iff)
  from lt nz show ?thesis by (auto simp: rnd_def Let_def divide_less_0_iff)
qed

lemma round2_two_decimals:
  assumes "two_decimals x"
  shows "round2 x = x"
proof -
  obtain n where n: "\<bar>n\<bar> < 2 ^ 45" and x: "x = rnd (of_int n / 100)"
    using assms by (auto simp: two_decimals_def)
  let ?v = "round_val (of_int n / 100)"
  have near: "\<bar>round_val (?v * 100) - of_int n\<bar> < 1 / 2" using cents_round_val(2) [OF n] .
  have absn: "\<bar>of_int n :: rat\<bar> < 2 ^ 45"
    using n by (metis of_int_abs of_int_less_iff of_int_numeral of_int_power)
  have lim: "\<bar>round_val (?v * 100)\<bar> < f64_limit"
  proof -
    have "\<bar>round_val (?v * 100)\<bar> < 2 ^ 45 + 1" using near absn by linarith
    also have "\<dots> < f64_limit" by (simp add: f64_limit_def)
    finally show ?thesis .
  qed
  have m: "f64_mul x (Num 100) = rnd (?v * 100)"
    unfolding x rnd_div_100 [OF n] by (simp add: f64_mul_pos)
  show ?thesis
  proof (cases "round_val (?v * 100) = 0 \<and> ?v * 100 < 0")
    case True
    then have "n = 0" using near by auto
    then show ?thesis using True by simp
  next
    case False
    then have "f64_mul x (Num 100) = Num (round_val (?v * 100))"
      using lim by (auto simp: m rnd_def Let_def)
    moreover have "round_half_away (round_val (?v * 100)) = n"
      by (rule round_half_away_near) (use near in simp)
    moreover have "n = 0 \<Longrightarrow> \<not> round_val (?v * 100) < 0" by simp
    ultimately show ?thesis
      by (auto simp: round2_def f64_round_def Let_def f64_div_pos x)
  qed
qed

lemma two_decimals_finite: "two_decimals x \<Longrightarrow> is_finite x"
  by (auto simp: two_decimals_def rnd_div_100)

lemma round2_in_range:
  assumes "in_range lo hi x" "round2 lo = lo" "round2 hi = hi"
  shows "in_range lo hi (round2 x)"
  using assms round2_mono by (fastforce simp: in_range_def)

lemma two_decimals_of_int: "\<bar>n\<bar> < 2 ^ 38 \<Longrightarrow> two_decimals (Num (of_int n))"
proof -
  assume n: "\<bar>n\<bar> < 2 ^ 38"
  then have "Num (of_int n) = rnd (of_int (n * 100) / 100)"
    using rnd_of_int [of n] by simp
  moreover have "\<bar>n * 100\<bar> < 2 ^ 45" using n by (simp add: abs_mult)
  ultimately show ?thesis unfolding two_decimals_def by blast
qed

lemma two_decimals_numeral [simp]:
  "(numeral n :: int) < 2 ^ 38 \<Longrightarrow> two_decimals (Num (numeral n))"
  "(numeral n :: int) < 2 ^ 38 \<Longrightarrow> two_decimals (Num (- numeral n))"
  "two_decimals (Num 0)" "two_decimals (Num 1)"
  using two_decimals_of_int [of "numeral n"] two_decimals_of_int [of "- numeral n"]
    two_decimals_of_int [of 0] two_decimals_of_int [of 1] by simp_all

lemmas round2_numeral [simp] = two_decimals_numeral [THEN round2_two_decimals]


section \<open>Remainder\<close>

text \<open>The \<open>%\<close> operator is exact (it never rounds) and takes the sign of the dividend;
  \<open>rem_euclid\<close> moves a negative remainder up by the modulus, with one rounding.\<close>

definition f64_rem :: "f64 \<Rightarrow> f64 \<Rightarrow> f64" where
  "f64_rem x y =
     (if \<not> is_finite x \<or> is_nan y \<or> is_finite y \<and> fval y = 0 then NaN
      else if \<not> is_finite y then x
      else let r = fval x - fval y * of_int (trunc_rat (fval x / fval y))
           in if r = 0 then signed_zero (sign_bit x) else Num r)"

definition rem_euclid :: "f64 \<Rightarrow> f64 \<Rightarrow> f64" where
  "rem_euclid x y =
     (let r = f64_rem x y in if f64_lt r (lit 0) then f64_add r (f64_abs y) else r)"

lemma trunc_rat_bounds:
  "0 \<le> q \<Longrightarrow> of_int (trunc_rat q) \<le> q \<and> q < of_int (trunc_rat q) + 1"
  "q < 0 \<Longrightarrow> q \<le> of_int (trunc_rat q) \<and> of_int (trunc_rat q) - 1 < q"
  using floor_correct [of q] floor_correct [of "- q"] by (auto simp: trunc_rat_def) linarith

lemma f64_rem_pos:
  assumes "is_finite x" "0 < p"
  shows "is_finite (f64_rem x (Num p)) \<and> - p < fval (f64_rem x (Num p))
    \<and> fval (f64_rem x (Num p)) < p"
proof -
  let ?q = "fval x / p" and ?t = "of_int (trunc_rat (fval x / p)) :: rat"
  have "\<bar>?q - ?t\<bar> < 1" using trunc_rat_bounds [of ?q] by (cases "0 \<le> ?q") auto
  then have "\<bar>(?q - ?t) * p\<bar> < 1 * p"
    using assms(2) by (simp only: abs_mult) (simp add: mult_less_cancel_right)
  then have "\<bar>fval x - p * ?t\<bar> < p" using assms(2) by (simp add: algebra_simps)
  then show ?thesis using assms
    by (auto simp: f64_rem_def Let_def signed_zero_def)
qed

lemma rem_euclid_pos:
  assumes "is_finite x" "0 < p" "representable p"
  shows "in_range (Num 0) (Num p) (rem_euclid x (Num p))"
proof -
  let ?r = "f64_rem x (Num p)"
  have r: "is_finite ?r" "- p < fval ?r" "fval ?r < p" using f64_rem_pos [OF assms(1,2)] by auto
  show ?thesis
  proof (cases "fval ?r < 0")
    case True
    then have num: "?r = Num (fval ?r)" using r(1) by (cases ?r) auto
    have "rem_euclid x (Num p) = rnd (fval ?r + p)"
      using True r assms(2)
      by (subst num, simp add: rem_euclid_def Let_def f64_lt_finite)
        (subst num, simp add: f64_add_def f64_abs_def)
    moreover have "f64_le (rnd (fval ?r + p)) (rnd p)" using True by (intro rnd_mono) simp
    moreover have "f64_le (Num 0) (rnd (fval ?r + p))" using r(2) by (intro rnd_sign) simp
    ultimately show ?thesis using assms(3) by (simp add: in_range_def rnd_representable)
  next
    case False
    then show ?thesis using r
      by (auto simp: rem_euclid_def Let_def f64_lt_finite in_range_def f64_le_finite)
  qed
qed

lemma in_range_Num: "in_range (Num a) (Num b) x \<longleftrightarrow> is_finite x \<and> a \<le> fval x \<and> fval x \<le> b"
  by (cases x) (auto simp: in_range_def)

lemma rnd_between:
  assumes "a \<le> q" "q \<le> b" "rnd a = Num a" "rnd b = Num b"
  shows "\<exists>r. rnd q = (if r = 0 \<and> q < 0 then NegZero else Num r) \<and> a \<le> r \<and> r \<le> b"
proof -
  have "in_range (Num a) (Num b) (rnd q)"
    using rnd_mono [OF assms(1)] rnd_mono [OF assms(2)] assms(3,4) by (simp add: in_range_def)
  then show ?thesis by (cases "rnd q") (auto simp: in_range_Num rnd_def Let_def split: if_splits)
qed

text \<open>\<open>round2\<close> gives a two-decimal value (or a negative zero), so it is idempotent.\<close>

lemma round2_result:
  assumes "in_range (Num (- 1000000000)) (Num 1000000000) x"
  shows "two_decimals (round2 x) \<or> round2 x = NegZero"
proof (cases x)
  case (Num q)
  then have "- 100000000000 \<le> q * 100" "q * 100 \<le> 100000000000"
    using assms by (auto simp: in_range_Num)
  then obtain r where r: "rnd (q * 100) = (if r = 0 \<and> q * 100 < 0 then NegZero else Num r)"
    "- 100000000000 \<le> r" "r \<le> 100000000000"
    using rnd_between [of "- 100000000000" "q * 100" 100000000000] by auto
  have "round_half_away r \<le> round_half_away (of_int 100000000000)"
    "round_half_away (of_int (- 100000000000)) \<le> round_half_away r"
    using r by (intro round_half_away_mono; simp)+
  then have "\<bar>round_half_away r\<bar> < 2 ^ 45" by (simp only: round_half_away_of_int) simp
  then show ?thesis using r(1) Num
    by (auto simp: round2_def f64_mul_pos f64_div_pos f64_round_def Let_def two_decimals_def)
qed (use assms in \<open>auto simp: in_range_Num round2_def f64_mul_pos f64_div_pos\<close>)

lemma round2_idem:
  assumes "in_range (Num (- 1000000000)) (Num 1000000000) x"
  shows "round2 (round2 x) = round2 x"
  using round2_result [OF assms] round2_two_decimals by (auto simp: round2_def f64_mul_pos f64_div_pos)

end
