(* ===== verification/Text_Format.thy ===== *)
theory Text_Format
  imports F64
begin

text \<open>
  The text forms of numbers that the source uses: \<open>{}\<close>, \<open>{:?}\<close> and \<open>{:.N}\<close> of an \<open>f64\<close>, and
  \<open>str::parse::<f64>()\<close>. Formatting with a precision rounds the exact value to the nearest decimal,
  ties to even, and prints the sign of a negative zero. \<open>{}\<close> prints the shortest decimal that reads
  back as the same value. Parsing follows the grammar of \<open>f64::from_str\<close> and rounds the exact
  decimal once. The main fact is the round trip of two-decimal values through \<open>{:.2}\<close>.
\<close>

section \<open>Fixed precision\<close>

definition pad_left :: "nat \<Rightarrow> string \<Rightarrow> string" where
  "pad_left w s = replicate (w - length s) (CHR ''0'') @ s"

definition fixed_digits :: "nat \<Rightarrow> nat \<Rightarrow> string" where
  "fixed_digits p n = digits_nat (n div 10 ^ p) @
     (if p = 0 then [] else ''.'' @ pad_left p (digits_nat (n mod 10 ^ p)))"

definition fmt_fixed :: "nat \<Rightarrow> f64 \<Rightarrow> string" where
  "fmt_fixed p x = (case x of
       NaN \<Rightarrow> ''NaN''
     | Inf s \<Rightarrow> (if s then ''-inf'' else ''inf'')
     | _ \<Rightarrow> (if sign_bit x then ''-'' else []) @
            fixed_digits p (nat (round_half_even (\<bar>fval x\<bar> * 10 ^ p))))"

section \<open>Shortest decimal\<close>

definition ilog10 :: "rat \<Rightarrow> int" where
  "ilog10 q = (let (n, d) = quotient_of q;
                   e = int (length (digits_nat (nat n))) - int (length (digits_nat (nat d)))
               in if q < 10 powi e then e - 1 else e)"

text \<open>Decimals with \<open>p\<close> significant digits on both sides of \<open>q\<close>; those that read back as \<open>q\<close>,
  the nearer one first.\<close>

definition shortest_at :: "rat \<Rightarrow> nat \<Rightarrow> (int \<times> int) option" where
  "shortest_at q p =
     (let k = ilog10 q - int p + 1; lo = \<lfloor>q / 10 powi k\<rfloor>;
          good = (\<lambda>d. rnd (of_int d * 10 powi k) = Num q);
          cands = (if q - of_int lo * 10 powi k \<le> of_int (lo + 1) * 10 powi k - q
                   then [lo, lo + 1] else [lo + 1, lo])
      in map_option (\<lambda>d. (d, k)) (find good cands))"

fun first_some :: "('a \<Rightarrow> 'b option) \<Rightarrow> 'a list \<Rightarrow> 'b option" where
  "first_some f [] = None"
| "first_some f (x # xs) = (case f x of None \<Rightarrow> first_some f xs | Some y \<Rightarrow> Some y)"

definition shortest_digits :: "rat \<Rightarrow> string \<times> int" where
  "shortest_digits q = (case first_some (shortest_at q) [1..<18] of
       None \<Rightarrow> (''0'', 0)
     | Some (d, k) \<Rightarrow> (digits_nat (nat d), k))"

definition place_point :: "string \<Rightarrow> int \<Rightarrow> string" where
  "place_point ds k =
     (if 0 \<le> k then ds @ replicate (nat k) (CHR ''0'')
      else let f = nat (- k) in
        if f < length ds then take (length ds - f) ds @ ''.'' @ drop (length ds - f) ds
        else ''0.'' @ replicate (f - length ds) (CHR ''0'') @ ds)"

definition display_pos :: "rat \<Rightarrow> string" where
  "display_pos q = (if q = 0 then ''0'' else let (ds, k) = shortest_digits q in place_point ds k)"

definition display_f64 :: "f64 \<Rightarrow> string" where
  "display_f64 x = (case x of
       NaN \<Rightarrow> ''NaN''
     | Inf s \<Rightarrow> (if s then ''-inf'' else ''inf'')
     | _ \<Rightarrow> (if sign_bit x then ''-'' else []) @ display_pos \<bar>fval x\<bar>)"

text \<open>\<open>{:?}\<close> keeps one decimal on integers and switches to an exponent outside \<open>[1e-5, 1e16)\<close>.\<close>

definition debug_pos :: "rat \<Rightarrow> string" where
  "debug_pos q =
     (if q = 0 \<or> 1 / 100000 \<le> q \<and> q < 10 ^ 16
      then let s = display_pos q in if CHR ''.'' \<in> set s then s else s @ ''.0''
      else let (ds, k) = shortest_digits q in
        hd ds # (if tl ds = [] then [] else ''.'' @ tl ds) @ ''e'' @
        show_int (k + int (length ds) - 1))"

definition debug_f64 :: "f64 \<Rightarrow> string" where
  "debug_f64 x = (case x of
       NaN \<Rightarrow> ''NaN''
     | Inf s \<Rightarrow> (if s then ''-inf'' else ''inf'')
     | _ \<Rightarrow> (if sign_bit x then ''-'' else []) @ debug_pos \<bar>fval x\<bar>)"

section \<open>Parsing\<close>

definition is_digit :: "char \<Rightarrow> bool" where
  "is_digit c \<longleftrightarrow> 48 \<le> (of_char c :: nat) \<and> (of_char c :: nat) < 58"

definition digits_val :: "string \<Rightarrow> nat" where
  "digits_val s = foldl (\<lambda>a c. 10 * a + ((of_char c :: nat) - 48)) 0 s"

definition ascii_lower :: "char \<Rightarrow> char" where
  "ascii_lower c = (if 65 \<le> (of_char c :: nat) \<and> (of_char c :: nat) \<le> 90
                    then char_of ((of_char c :: nat) + 32) else c)"

definition eq_ignore_ascii_case :: "string \<Rightarrow> string \<Rightarrow> bool" where
  "eq_ignore_ascii_case s t \<longleftrightarrow> map ascii_lower s = map ascii_lower t"

definition split_sign :: "string \<Rightarrow> bool \<times> string" where
  "split_sign s = (case s of
       c # cs \<Rightarrow> if c = CHR ''-'' then (True, cs) else if c = CHR ''+'' then (False, cs) else (False, s)
     | [] \<Rightarrow> (False, []))"

text \<open>The exponent part: empty, or \<open>e\<close>, an optional sign and at least one digit.\<close>

definition parse_exp :: "string \<Rightarrow> int option" where
  "parse_exp s = (case s of
       [] \<Rightarrow> Some 0
     | c # cs \<Rightarrow>
         if c = CHR ''e'' \<or> c = CHR ''E''
         then (let (neg, ds) = split_sign cs in
               if ds \<noteq> [] \<and> list_all is_digit ds
               then Some (if neg then - int (digits_val ds) else int (digits_val ds)) else None)
         else None)"

definition parse_number :: "string \<Rightarrow> rat option" where
  "parse_number s =
     (let ip = takeWhile is_digit s; r = dropWhile is_digit s;
          fp = (case r of c # cs \<Rightarrow> if c = CHR ''.'' then takeWhile is_digit cs else [] | [] \<Rightarrow> []);
          r' = (case r of c # cs \<Rightarrow> if c = CHR ''.'' then dropWhile is_digit cs else r | [] \<Rightarrow> [])
      in if ip = [] \<and> fp = [] then None
         else map_option (\<lambda>e. of_nat (digits_val (ip @ fp)) * 10 powi (e - int (length fp))) (parse_exp r'))"

definition signed_rnd :: "bool \<Rightarrow> rat \<Rightarrow> f64" where
  "signed_rnd neg q = (if q = 0 then signed_zero neg else rnd (if neg then - q else q))"

definition parse_f64 :: "string \<Rightarrow> f64 option" where
  "parse_f64 s =
     (let (neg, r) = split_sign s; l = map ascii_lower r in
      if l = ''inf'' \<or> l = ''infinity'' then Some (Inf neg)
      else if l = ''nan'' then Some NaN
      else map_option (signed_rnd neg) (parse_number r))"

definition parse_f64_error :: "string \<Rightarrow> string" where
  "parse_f64_error s = (if s = [] then ''cannot parse float from empty string'' else ''invalid float literal'')"

section \<open>The round trip of two-decimal values\<close>

lemma of_char_digit: "d < 10 \<Longrightarrow> (of_char (char_of (48 + d) :: char) :: nat) = 48 + d"
  by (simp add: of_char_of take_bit_nat_eq_self)

lemma is_digit_char_of: "d < 10 \<Longrightarrow> is_digit (char_of (48 + d :: nat))"
  by (simp add: is_digit_def of_char_digit)

lemma digits_val_append: "digits_val (s @ [c]) = 10 * digits_val s + ((of_char c :: nat) - 48)"
  by (simp add: digits_val_def)

lemma digits_val_digits_nat: "digits_val (digits_nat n) = n"
proof (induction n rule: digits_nat.induct)
  case (1 n)
  show ?case
  proof (cases "n < 10")
    case True
    then show ?thesis
      by (subst digits_nat.simps) (simp add: digits_val_def of_char_digit del: of_char_of)
  next
    case False
    then have "digits_val (digits_nat n) = 10 * digits_val (digits_nat (n div 10)) + n mod 10"
      by (subst digits_nat.simps) (simp add: digits_val_append of_char_digit del: of_char_of)
    with 1 False show ?thesis by simp
  qed
qed

lemma list_all_digits_nat: "list_all is_digit (digits_nat n)"
proof (induction n rule: digits_nat.induct)
  case (1 n)
  then show ?case by (subst digits_nat.simps) (auto simp: is_digit_char_of)
qed

lemma length_digits_nat: "n < 10 ^ p \<Longrightarrow> 0 < p \<Longrightarrow> length (digits_nat n) \<le> p"
proof (induction p arbitrary: n)
  case (Suc p)
  show ?case
  proof (cases "n < 10")
    case True
    then show ?thesis by (subst digits_nat.simps) simp
  next
    case False
    then have "0 < p" using Suc.prems by (cases p) auto
    moreover have "n div 10 < 10 ^ p" using Suc.prems by (simp add: less_mult_imp_div_less)
    ultimately have "length (digits_nat (n div 10)) \<le> p" using Suc.IH by blast
    then show ?thesis using False by (subst digits_nat.simps) simp
  qed
qed simp

lemma foldl_digits_append:
  "digits_val (s @ t) = digits_val s * 10 ^ length t + digits_val t"
proof (induction t rule: rev_induct)
  case (snoc c t)
  then show ?case by (simp add: digits_val_append flip: append_assoc)
qed (simp add: digits_val_def)

lemma pad_left_digits:
  assumes "n < 10 ^ p" "0 < p"
  shows "digits_val (pad_left p (digits_nat n)) = n" "length (pad_left p (digits_nat n)) = p"
    "list_all is_digit (pad_left p (digits_nat n))"
proof -
  have z: "digits_val (replicate k (CHR ''0'')) = 0" for k
    by (induction k) (simp_all add: digits_val_def)
  have l: "length (digits_nat n) \<le> p" using length_digits_nat assms .
  show "digits_val (pad_left p (digits_nat n)) = n"
    by (simp add: pad_left_def foldl_digits_append z digits_val_digits_nat)
  show "length (pad_left p (digits_nat n)) = p" using l by (simp add: pad_left_def)
  show "list_all is_digit (pad_left p (digits_nat n))"
    using list_all_digits_nat [of n] by (auto simp: pad_left_def list_all_iff is_digit_def)
qed


lemma takeWhile_digits: "list_all is_digit ds \<Longrightarrow> \<not> is_digit c \<Longrightarrow>
  takeWhile is_digit (ds @ c # r) = ds \<and> dropWhile is_digit (ds @ c # r) = c # r"
  by (induction ds) auto

lemma takeWhile_all_digits: "list_all is_digit ds \<Longrightarrow>
  takeWhile is_digit ds = ds \<and> dropWhile is_digit ds = []"
  by (induction ds) auto

lemma not_digit_dot [simp]: "\<not> is_digit (CHR ''.'')"
  by (simp add: is_digit_def)

lemma parse_number_fixed:
  assumes "0 < p"
  shows "parse_number (fixed_digits p n) = Some (of_nat n / 10 ^ p)"
proof -
  let ?f = "pad_left p (digits_nat (n mod 10 ^ p))"
  have lt: "n mod 10 ^ p < 10 ^ p" by simp
  note f = pad_left_digits [OF lt assms]
  have s: "fixed_digits p n = digits_nat (n div 10 ^ p) @ CHR ''.'' # ?f"
    using assms by (simp add: fixed_digits_def)
  have tw: "takeWhile is_digit (fixed_digits p n) = digits_nat (n div 10 ^ p)"
    "dropWhile is_digit (fixed_digits p n) = CHR ''.'' # ?f"
    unfolding s using takeWhile_digits [OF list_all_digits_nat not_digit_dot] by auto
  have "digits_val (digits_nat (n div 10 ^ p) @ ?f) = n"
    by (simp only: foldl_digits_append f digits_val_digits_nat div_mult_mod_eq)
  moreover have "(10::rat) powi (0 - int p) = 1 / 10 ^ p"
    by (simp add: power_int_minus divide_inverse)
  moreover have "takeWhile is_digit ?f = ?f" "dropWhile is_digit ?f = []"
    using takeWhile_all_digits [OF f(3)] by auto
  ultimately show ?thesis
    unfolding parse_number_def Let_def tw using f(2) by (simp only: list.case parse_exp_def) simp
qed

lemma fixed_digits_head: "\<exists>c cs. fixed_digits p n = c # cs \<and> is_digit c"
proof -
  obtain c cs where "digits_nat (n div 10 ^ p) = c # cs"
    using digits_nat_ne [of "n div 10 ^ p"] by (cases "digits_nat (n div 10 ^ p)") auto
  moreover from this have "is_digit c"
    using list_all_digits_nat [of "n div 10 ^ p"] by simp
  ultimately show ?thesis by (simp add: fixed_digits_def)
qed

lemma is_digit_not_sign: "is_digit c \<Longrightarrow> c \<noteq> CHR ''-'' \<and> c \<noteq> CHR ''+''"
  by (auto simp: is_digit_def)

lemma is_digit_not_letter: "is_digit c \<Longrightarrow> ascii_lower c \<noteq> CHR ''i'' \<and> ascii_lower c \<noteq> CHR ''n''"
  by (auto simp: is_digit_def ascii_lower_def)

lemma parse_f64_fixed:
  assumes "0 < p"
  shows "parse_f64 ((if neg then ''-'' else []) @ fixed_digits p n) =
           Some (signed_rnd neg (of_nat n / 10 ^ p))"
proof -
  obtain c cs where h: "fixed_digits p n = c # cs" and d: "is_digit c"
    using fixed_digits_head by blast
  have sp: "split_sign ((if neg then ''-'' else []) @ fixed_digits p n) = (neg, fixed_digits p n)"
    using is_digit_not_sign [OF d] by (simp add: split_sign_def h)
  have "map ascii_lower (fixed_digits p n) \<noteq> ''inf''" "map ascii_lower (fixed_digits p n) \<noteq> ''infinity''"
    "map ascii_lower (fixed_digits p n) \<noteq> ''nan''"
    using is_digit_not_letter [OF d] by (auto simp: h)
  then show ?thesis
    by (simp add: parse_f64_def sp parse_number_fixed [OF assms] del: map_eq_Cons_conv)
qed

lemma round_half_even_near: "\<bar>q - of_int n\<bar> < 1 / 2 \<Longrightarrow> round_half_even q = n"
  using round_half_even_bounds [of q] by linarith

theorem parse_fmt_two_decimals:
  assumes "two_decimals x"
  shows "parse_f64 (fmt_fixed 2 x) = Some x"
proof -
  obtain n where n: "\<bar>n\<bar> < 2 ^ 45" and x: "x = rnd (of_int n / 100)"
    using assms by (auto simp: two_decimals_def)
  let ?v = "round_val (of_int n / 100)"
  have xv: "x = Num ?v" using x rnd_div_100 [OF n] by simp
  have e: "\<bar>?v - of_int n / 100\<bar> \<le> 1 / 32768" using cents_round_val(1) [OF n] .
  have neg: "?v < 0 \<longleftrightarrow> n < 0"
  proof (cases "n < 0")
    case True
    then have "(of_int n :: rat) \<le> - 1" by simp
    then have "?v < 0" using e by linarith
    with True show ?thesis by simp
  next
    case False
    then show ?thesis using round_val_nonneg [of "of_int n / 100"] by simp
  qed
  have "\<bar>\<bar>?v\<bar> * 100 - of_int \<bar>n\<bar>\<bar> \<le> 100 / 32768"
  proof (cases "n < 0")
    case True
    then have "\<bar>?v\<bar> = - ?v" "of_int \<bar>n\<bar> = (- of_int n :: rat)" using neg by auto
    then show ?thesis using e by linarith
  next
    case False
    then have "\<bar>?v\<bar> = ?v" "of_int \<bar>n\<bar> = (of_int n :: rat)" using neg by auto
    then show ?thesis using e by linarith
  qed
  then have "round_half_even (\<bar>?v\<bar> * 100) = \<bar>n\<bar>"
    by (intro round_half_even_near) linarith
  then have "fmt_fixed 2 x = (if n < 0 then ''-'' else []) @ fixed_digits 2 (nat \<bar>n\<bar>)"
    using neg by (simp add: fmt_fixed_def xv)
  then have "parse_f64 (fmt_fixed 2 x) = Some (signed_rnd (n < 0) (of_nat (nat \<bar>n\<bar>) / 10 ^ 2))"
    by (simp only: parse_f64_fixed [of 2] zero_less_numeral)
  also have "signed_rnd (n < 0) (of_nat (nat \<bar>n\<bar>) / 10 ^ 2) = x"
    by (simp add: signed_rnd_def signed_zero_def x abs_if)
  finally show ?thesis .
qed


section \<open>Integers\<close>

text \<open>\<open>str::parse\<close> for signed and unsigned integer types: an optional sign (an unsigned type refuses
  a minus sign), at least one digit, and a value in the range of the type.\<close>

definition parse_i64 :: "string \<Rightarrow> int option" where
  "parse_i64 s =
     (let (neg, ds) = split_sign s; v = (if neg then - int (digits_val ds) else int (digits_val ds))
      in if ds \<noteq> [] \<and> list_all is_digit ds \<and> - (2 ^ 63) \<le> v \<and> v < 2 ^ 63 then Some v else None)"

definition parse_uint :: "nat \<Rightarrow> string \<Rightarrow> nat option" where
  "parse_uint hi s =
     (let (neg, ds) = split_sign s
      in if \<not> neg \<and> ds \<noteq> [] \<and> list_all is_digit ds \<and> digits_val ds \<le> hi
         then Some (digits_val ds) else None)"

lemma split_sign_digits: "ds \<noteq> [] \<Longrightarrow> list_all is_digit ds \<Longrightarrow> split_sign ds = (False, ds)"
  by (cases ds) (auto simp: split_sign_def dest: is_digit_not_sign)

lemma split_sign_minus: "split_sign (CHR ''-'' # ds) = (True, ds)"
  by (simp add: split_sign_def)

lemma parse_i64_show_int: "- (2 ^ 63) \<le> i \<Longrightarrow> i < 2 ^ 63 \<Longrightarrow> parse_i64 (show_int i) = Some i"
  using list_all_digits_nat [of "nat i"] list_all_digits_nat [of "nat (- i)"]
  by (auto simp: parse_i64_def show_int_def split_sign_digits split_sign_minus digits_val_digits_nat)

lemma parse_uint_digits: "n \<le> hi \<Longrightarrow> parse_uint hi (digits_nat n) = Some n"
  using list_all_digits_nat [of n]
  by (simp add: parse_uint_def split_sign_digits digits_val_digits_nat)

lemma set_show_int: "set (show_int i) \<subseteq> {c. is_digit c} \<union> {CHR ''-''}"
  using list_all_digits_nat [of "nat i"] list_all_digits_nat [of "nat (- i)"]
  by (auto simp: show_int_def list_all_iff)

lemma show_int_ne [simp]: "show_int i \<noteq> []"
  by (simp add: show_int_def)

section \<open>JSON values\<close>

text \<open>\<open>serde_json::Value\<close>; an object holds its final entries. \<open>as_f64\<close> answers for every number.\<close>

datatype json = JNull | JBool bool | JNum f64 | JString string | JArray "json list" | JObject "(string \<times> json) list"

fun json_get :: "json \<Rightarrow> string \<Rightarrow> json option" where
  "json_get (JObject kvs) k = map_of kvs k"
| "json_get _ k = None"

fun json_as_f64 :: "json \<Rightarrow> f64 option" where
  "json_as_f64 (JNum x) = Some x"
| "json_as_f64 _ = None"

fun json_is_object :: "json \<Rightarrow> bool" where
  "json_is_object (JObject _) = True"
| "json_is_object _ = False"

end
