(* ===== verification/Config.thy ===== *)
theory Config
  imports Text_Format
begin

text \<open>
  Configuration structures of \<open>config.rs\<close> and their validation, which every configuration passes
  before the daemon starts (\<open>load_device_config\<close>, \<open>load_safety_config\<close>; reading and TOML decoding
  of the files is I/O outside the model). The main fact is \<open>validate_safety_config_ok\<close>: what an
  accepted safety configuration guarantees to the controller, in particular that every pair of
  bounds is finite and ordered, so that no \<open>clamp\<close> on it can panic.
\<close>

section \<open>Structures\<close>

datatype device_mode = Pipeline | Modbus | Esp32Serial | JsonBridge | Simulation

record serial_config =
  port :: string
  baudrate :: u32
  parity :: string
  stopbits :: u8
  bytesize :: u8
  timeout_ms :: u64

record read_register =
  rr_address :: u16
  rr_scale :: f64
  rr_offset :: f64
  min_valid :: f64
  max_valid :: f64

record write_register =
  wr_address :: u16
  wr_scale :: f64
  wr_offset :: f64

record registers_config =
  reg_temperature_c :: read_register
  reg_stirrer_rpm :: read_register
  reg_pressure_mpa :: read_register
  reg_shake_speed_cpm :: read_register
  reg_tilt_angle_deg :: read_register
  reg_flow_rate_l_min :: read_register
  reg_product_concentration_percent :: read_register
  reg_ph :: read_register
  reg_target_temperature_c :: write_register
  reg_target_stirrer_rpm :: write_register
  reg_target_shake_speed_cpm :: write_register
  reg_target_pressure_mpa :: write_register
  reg_heat_time_s :: write_register
  reg_hold_time_s :: write_register
  reg_cool_time_s :: write_register

record modbus_config =
  slave_id :: u8
  registers :: registers_config

record esp32_config =
  frame_prefix :: string
  command_prefix :: string
  checksum :: bool
  max_line_bytes :: nat

datatype adc_sensor = AdcTemperatureC | AdcPressureMpa | AdcStirrerRpm | AdcShakeSpeedCpm
  | AdcFlowRateLMin | AdcProductConcentrationPercent | AdcPh

record adc_config =
  adc_sensor :: "adc_sensor option"
  adc_scale :: f64
  adc_offset :: f64
  adc_min_valid :: f64
  adc_max_valid :: f64

record json_bridge_config =
  state_path :: string
  control_path :: string
  max_state_age_ms :: int
  request_id_prefix :: string
  speed_steps_per_cycle :: f64
  speed_deadband_cpm :: f64
  temperature_deadband_c :: f64
  relay_temperature_control :: bool
  bridge_adc :: adc_config

record device_config =
  mode :: device_mode
  serial :: serial_config
  modbus :: modbus_config
  esp32 :: esp32_config
  json_bridge :: json_bridge_config

record control_config =
  auto_enabled_default :: bool
  manual_lock_default :: bool
  control_interval_ms :: u64
  sensor_timeout_ms :: int
  require_device_status_for_control :: bool
  write_retry_backoff_ms :: u64
  safety_guard_timeout_ms :: u64
  ai_stop_product_concentration_percent :: f64
  require_command_ack :: bool
  command_ack_timeout_ms :: u64

record temperature_safety =
  min_c :: f64
  max_c :: f64
  max_step_c :: f64
  default_target_c :: f64

record stirrer_safety =
  min_rpm :: f64
  max_rpm :: f64
  max_step_rpm :: f64
  default_target_rpm :: f64

record optimizer_bounds =
  ob_min_temperature_c :: f64
  ob_max_temperature_c :: f64
  ob_min_stirrer_rpm :: f64
  ob_max_stirrer_rpm :: f64
  ob_min_heating_minutes :: f64
  ob_max_heating_minutes :: f64
  ob_min_stirring_minutes :: f64
  ob_max_stirring_minutes :: f64

record forbidden_control_zone =
  zone_name :: string
  zone_reason :: string
  zone_min_temperature_c :: f64
  zone_max_temperature_c :: f64
  zone_min_stirrer_rpm :: f64
  zone_max_stirrer_rpm :: f64

record safety_config =
  control :: control_config
  temperature :: temperature_safety
  stirrer :: stirrer_safety
  optimizer :: optimizer_bounds
  forbidden_control_zones :: "forbidden_control_zone list"

text \<open>Defaults for registers the configuration leaves out.\<close>

definition default_pressure_mpa_register :: read_register where
  "default_pressure_mpa_register = \<lparr>rr_address = 2, rr_scale = lit (1 / 100), rr_offset = lit 0,
     min_valid = lit 0, max_valid = lit 10\<rparr>"

definition default_shake_speed_cpm_register :: read_register where
  "default_shake_speed_cpm_register = \<lparr>rr_address = 3, rr_scale = lit 1, rr_offset = lit 0,
     min_valid = lit 0, max_valid = lit 60\<rparr>"

definition default_tilt_angle_deg_register :: read_register where
  "default_tilt_angle_deg_register = \<lparr>rr_address = 4, rr_scale = lit (1 / 100), rr_offset = lit (- 45),
     min_valid = lit (- 45), max_valid = lit 45\<rparr>"

definition default_flow_rate_l_min_register :: read_register where
  "default_flow_rate_l_min_register = \<lparr>rr_address = 5, rr_scale = lit (1 / 100), rr_offset = lit 0,
     min_valid = lit 0, max_valid = lit 20\<rparr>"

definition default_product_concentration_percent_register :: read_register where
  "default_product_concentration_percent_register = \<lparr>rr_address = 6, rr_scale = lit (1 / 10),
     rr_offset = lit 0, min_valid = lit 0, max_valid = lit 100\<rparr>"

definition default_ph_register :: read_register where
  "default_ph_register = \<lparr>rr_address = 7, rr_scale = lit (1 / 100), rr_offset = lit 0,
     min_valid = lit 0, max_valid = lit 14\<rparr>"

definition default_target_shake_speed_cpm_register :: write_register where
  "default_target_shake_speed_cpm_register = \<lparr>wr_address = 12, wr_scale = lit 1, wr_offset = lit 0\<rparr>"

definition default_target_pressure_mpa_register :: write_register where
  "default_target_pressure_mpa_register = \<lparr>wr_address = 13, wr_scale = lit (1 / 100), wr_offset = lit 0\<rparr>"

definition default_heat_time_s_register :: write_register where
  "default_heat_time_s_register = \<lparr>wr_address = 14, wr_scale = lit 1, wr_offset = lit 0\<rparr>"

definition default_hold_time_s_register :: write_register where
  "default_hold_time_s_register = \<lparr>wr_address = 15, wr_scale = lit 1, wr_offset = lit 0\<rparr>"

definition default_cool_time_s_register :: write_register where
  "default_cool_time_s_register = \<lparr>wr_address = 16, wr_scale = lit 1, wr_offset = lit 0\<rparr>"

definition default_adc_config :: adc_config where
  "default_adc_config = \<lparr>adc_sensor = None, adc_scale = lit 1, adc_offset = lit 0,
     adc_min_valid = lit 0, adc_max_valid = lit 4095\<rparr>"

definition default_json_bridge_config :: json_bridge_config where
  "default_json_bridge_config = \<lparr>state_path = ''/project/state.json'',
     control_path = ''/project/control.json'', max_state_age_ms = 6000,
     request_id_prefix = ''reactor-os'', speed_steps_per_cycle = lit 200,
     speed_deadband_cpm = lit 1, temperature_deadband_c = lit 1,
     relay_temperature_control = False, bridge_adc = default_adc_config\<rparr>"

text \<open>Defaults of the control section.\<close>

definition default_require_device_status_for_control :: bool where
  "default_require_device_status_for_control = True"

definition default_control_write_retry_backoff_ms :: u64 where
  "default_control_write_retry_backoff_ms = 5000"

definition default_safety_guard_timeout_ms :: u64 where
  "default_safety_guard_timeout_ms = 1000"

definition default_ai_stop_product_concentration_percent :: f64 where
  "default_ai_stop_product_concentration_percent = lit 95"

definition default_require_command_ack :: bool where
  "default_require_command_ack = False"

definition default_command_ack_timeout_ms :: u64 where
  "default_command_ack_timeout_ms = 2000"

section \<open>Forbidden control zones\<close>

definition zone_contains :: "forbidden_control_zone \<Rightarrow> f64 \<Rightarrow> f64 \<Rightarrow> bool" where
  "zone_contains zone temperature_c stirrer_rpm \<longleftrightarrow>
     f64_le (zone_min_temperature_c zone) temperature_c
     \<and> f64_le temperature_c (zone_max_temperature_c zone)
     \<and> f64_le (zone_min_stirrer_rpm zone) stirrer_rpm
     \<and> f64_le stirrer_rpm (zone_max_stirrer_rpm zone)"

section \<open>Validation\<close>

type_synonym check = "string + unit"

definition ensure_non_empty :: "string \<Rightarrow> string \<Rightarrow> check" where
  "ensure_non_empty field value =
     (if trim value = [] then Err (field @ '' must not be empty'') else Ok ())"

definition ensure_one_of :: "string \<Rightarrow> string \<Rightarrow> string list \<Rightarrow> check" where
  "ensure_one_of field value allowed =
     (if value \<notin> set allowed then Err (field @ '' has unsupported value '' @ value) else Ok ())"

definition ensure_in_u8 :: "string \<Rightarrow> u8 \<Rightarrow> u8 \<Rightarrow> u8 \<Rightarrow> check" where
  "ensure_in_u8 field value lo hi =
     (if \<not> (lo \<le> value \<and> value \<le> hi)
      then Err (field @ '' must be between '' @ show_int (uint lo) @ '' and '' @ show_int (uint hi))
      else Ok ())"

definition ensure_positive_u64 :: "string \<Rightarrow> u64 \<Rightarrow> check" where
  "ensure_positive_u64 field value =
     (if value = 0 then Err (field @ '' must be greater than 0'') else Ok ())"

definition ensure_positive_usize :: "string \<Rightarrow> nat \<Rightarrow> check" where
  "ensure_positive_usize field value =
     (if value = 0 then Err (field @ '' must be greater than 0'') else Ok ())"

definition ensure_positive_i64 :: "string \<Rightarrow> int \<Rightarrow> check" where
  "ensure_positive_i64 field value =
     (if value \<le> 0 then Err (field @ '' must be greater than 0'') else Ok ())"

definition ensure_finite :: "string \<Rightarrow> f64 \<Rightarrow> check" where
  "ensure_finite field value =
     (if \<not> is_finite value then Err (field @ '' must be finite'') else Ok ())"

definition ensure_non_zero_f64 :: "string \<Rightarrow> f64 \<Rightarrow> check" where
  "ensure_non_zero_f64 field value = bind_res (ensure_finite field value) (\<lambda>_.
     if f64_eq value (lit 0) then Err (field @ '' must not be zero'') else Ok ())"

definition ensure_positive_f64 :: "string \<Rightarrow> f64 \<Rightarrow> check" where
  "ensure_positive_f64 field value = bind_res (ensure_finite field value) (\<lambda>_.
     if f64_le value (lit 0) then Err (field @ '' must be greater than 0'') else Ok ())"

definition ensure_non_negative_f64 :: "string \<Rightarrow> f64 \<Rightarrow> check" where
  "ensure_non_negative_f64 field value = bind_res (ensure_finite field value) (\<lambda>_.
     if f64_lt value (lit 0) then Err (field @ '' must be greater than or equal to 0'') else Ok ())"

definition ensure_ordered_f64 :: "string \<Rightarrow> f64 \<Rightarrow> string \<Rightarrow> f64 \<Rightarrow> check" where
  "ensure_ordered_f64 min_field lo max_field hi =
     bind_res (ensure_finite min_field lo) (\<lambda>_.
     bind_res (ensure_finite max_field hi) (\<lambda>_.
     if f64_lt hi lo then Err (min_field @ '' must be less than or equal to '' @ max_field) else Ok ()))"

definition ensure_f64_range :: "string \<Rightarrow> f64 \<Rightarrow> f64 \<Rightarrow> f64 \<Rightarrow> check" where
  "ensure_f64_range field value lo hi = bind_res (ensure_finite field value) (\<lambda>_.
     if \<not> in_range lo hi value
     then Err (field @ '' must be between '' @ display_f64 lo @ '' and '' @ display_f64 hi)
     else Ok ())"

definition validate_read_register :: "string \<Rightarrow> read_register \<Rightarrow> check" where
  "validate_read_register name r = run_checks
     [ensure_non_zero_f64 (name @ ''.scale'') (rr_scale r),
      ensure_finite (name @ ''.offset'') (rr_offset r),
      ensure_ordered_f64 (name @ ''.min_valid'') (min_valid r) (name @ ''.max_valid'') (max_valid r)]"

definition validate_write_register :: "string \<Rightarrow> write_register \<Rightarrow> check" where
  "validate_write_register name r = run_checks
     [ensure_non_zero_f64 (name @ ''.scale'') (wr_scale r),
      ensure_finite (name @ ''.offset'') (wr_offset r)]"

definition validate_registers_config :: "registers_config \<Rightarrow> check" where
  "validate_registers_config r = run_checks
     [validate_read_register ''modbus.registers.temperature_c'' (reg_temperature_c r),
      validate_read_register ''modbus.registers.stirrer_rpm'' (reg_stirrer_rpm r),
      validate_read_register ''modbus.registers.pressure_mpa'' (reg_pressure_mpa r),
      validate_read_register ''modbus.registers.shake_speed_cpm'' (reg_shake_speed_cpm r),
      validate_read_register ''modbus.registers.tilt_angle_deg'' (reg_tilt_angle_deg r),
      validate_read_register ''modbus.registers.flow_rate_l_min'' (reg_flow_rate_l_min r),
      validate_read_register ''modbus.registers.product_concentration_percent''
        (reg_product_concentration_percent r),
      validate_read_register ''modbus.registers.ph'' (reg_ph r),
      validate_write_register ''modbus.registers.target_temperature_c'' (reg_target_temperature_c r),
      validate_write_register ''modbus.registers.target_stirrer_rpm'' (reg_target_stirrer_rpm r),
      validate_write_register ''modbus.registers.target_shake_speed_cpm'' (reg_target_shake_speed_cpm r),
      validate_write_register ''modbus.registers.target_pressure_mpa'' (reg_target_pressure_mpa r),
      validate_write_register ''modbus.registers.heat_time_s'' (reg_heat_time_s r),
      validate_write_register ''modbus.registers.hold_time_s'' (reg_hold_time_s r),
      validate_write_register ''modbus.registers.cool_time_s'' (reg_cool_time_s r)]"

definition validate_adc_config :: "adc_config \<Rightarrow> check" where
  "validate_adc_config c = run_checks
     [ensure_non_zero_f64 ''json_bridge.adc.scale'' (adc_scale c),
      ensure_finite ''json_bridge.adc.offset'' (adc_offset c),
      ensure_ordered_f64 ''json_bridge.adc.min_valid'' (adc_min_valid c)
        ''json_bridge.adc.max_valid'' (adc_max_valid c)]"

definition validate_optimizer_bounds :: "optimizer_bounds \<Rightarrow> check" where
  "validate_optimizer_bounds b = run_checks
     [ensure_ordered_f64 ''optimizer.min_temperature_c'' (ob_min_temperature_c b)
        ''optimizer.max_temperature_c'' (ob_max_temperature_c b),
      ensure_ordered_f64 ''optimizer.min_stirrer_rpm'' (ob_min_stirrer_rpm b)
        ''optimizer.max_stirrer_rpm'' (ob_max_stirrer_rpm b),
      ensure_ordered_f64 ''optimizer.min_heating_minutes'' (ob_min_heating_minutes b)
        ''optimizer.max_heating_minutes'' (ob_max_heating_minutes b),
      ensure_ordered_f64 ''optimizer.min_stirring_minutes'' (ob_min_stirring_minutes b)
        ''optimizer.max_stirring_minutes'' (ob_max_stirring_minutes b),
      ensure_non_negative_f64 ''optimizer.min_heating_minutes'' (ob_min_heating_minutes b),
      ensure_non_negative_f64 ''optimizer.min_stirring_minutes'' (ob_min_stirring_minutes b)]"

definition validate_forbidden_zone :: "forbidden_control_zone \<Rightarrow> check" where
  "validate_forbidden_zone z = run_checks
     [ensure_non_empty ''forbidden_control_zones.name'' (zone_name z),
      ensure_ordered_f64 ''forbidden_control_zones.min_temperature_c'' (zone_min_temperature_c z)
        ''forbidden_control_zones.max_temperature_c'' (zone_max_temperature_c z),
      ensure_ordered_f64 ''forbidden_control_zones.min_stirrer_rpm'' (zone_min_stirrer_rpm z)
        ''forbidden_control_zones.max_stirrer_rpm'' (zone_max_stirrer_rpm z)]"

definition validate_device_config :: "device_config \<Rightarrow> check" where
  "validate_device_config c = run_checks
     [ensure_non_empty ''serial.port'' (port (serial c)),
      ensure_one_of ''serial.parity'' (parity (serial c)) [''N'', ''n'', ''E'', ''e'', ''O'', ''o''],
      ensure_in_u8 ''serial.stopbits'' (stopbits (serial c)) 1 2,
      ensure_in_u8 ''serial.bytesize'' (bytesize (serial c)) 5 8,
      ensure_positive_u64 ''serial.timeout_ms'' (timeout_ms (serial c)),
      ensure_positive_usize ''esp32.max_line_bytes'' (max_line_bytes (esp32 c)),
      ensure_positive_i64 ''json_bridge.max_state_age_ms'' (max_state_age_ms (json_bridge c)),
      ensure_positive_f64 ''json_bridge.speed_steps_per_cycle'' (speed_steps_per_cycle (json_bridge c)),
      ensure_non_negative_f64 ''json_bridge.speed_deadband_cpm'' (speed_deadband_cpm (json_bridge c)),
      ensure_non_negative_f64 ''json_bridge.temperature_deadband_c''
        (temperature_deadband_c (json_bridge c)),
      validate_adc_config (bridge_adc (json_bridge c)),
      validate_registers_config (registers (modbus c))]"

definition validate_safety_config :: "safety_config \<Rightarrow> check" where
  "validate_safety_config c = run_checks (
     [ensure_positive_u64 ''control.control_interval_ms'' (control_interval_ms (control c)),
      ensure_positive_i64 ''control.sensor_timeout_ms'' (sensor_timeout_ms (control c)),
      ensure_positive_u64 ''control.write_retry_backoff_ms'' (write_retry_backoff_ms (control c)),
      ensure_positive_u64 ''control.safety_guard_timeout_ms'' (safety_guard_timeout_ms (control c)),
      ensure_f64_range ''control.ai_stop_product_concentration_percent''
        (ai_stop_product_concentration_percent (control c)) (lit 0) (lit 100),
      ensure_positive_u64 ''control.command_ack_timeout_ms'' (command_ack_timeout_ms (control c)),
      ensure_ordered_f64 ''temperature.min_c'' (min_c (temperature c))
        ''temperature.max_c'' (max_c (temperature c)),
      ensure_non_negative_f64 ''temperature.max_step_c'' (max_step_c (temperature c)),
      ensure_f64_range ''temperature.default_target_c'' (default_target_c (temperature c))
        (min_c (temperature c)) (max_c (temperature c)),
      ensure_ordered_f64 ''stirrer.min_rpm'' (min_rpm (stirrer c))
        ''stirrer.max_rpm'' (max_rpm (stirrer c)),
      ensure_non_negative_f64 ''stirrer.max_step_rpm'' (max_step_rpm (stirrer c)),
      ensure_f64_range ''stirrer.default_target_rpm'' (default_target_rpm (stirrer c))
        (min_rpm (stirrer c)) (max_rpm (stirrer c)),
      validate_optimizer_bounds (optimizer c)]
     @ map validate_forbidden_zone (forbidden_control_zones c))"

section \<open>What acceptance guarantees\<close>

lemma ensure_simps:
  "is_ok (ensure_non_empty f s) \<longleftrightarrow> trim s \<noteq> []"
  "is_ok (ensure_one_of f s l) \<longleftrightarrow> s \<in> set l"
  "is_ok (ensure_in_u8 f v a b) \<longleftrightarrow> a \<le> v \<and> v \<le> b"
  "is_ok (ensure_positive_u64 f w) \<longleftrightarrow> w \<noteq> 0"
  "is_ok (ensure_positive_usize f n) \<longleftrightarrow> n \<noteq> 0"
  "is_ok (ensure_positive_i64 f i) \<longleftrightarrow> 0 < i"
  "is_ok (ensure_finite f x) \<longleftrightarrow> is_finite x"
  "is_ok (ensure_non_zero_f64 f x) \<longleftrightarrow> is_finite x \<and> fval x \<noteq> 0"
  "is_ok (ensure_positive_f64 f x) \<longleftrightarrow> is_finite x \<and> 0 < fval x"
  "is_ok (ensure_non_negative_f64 f x) \<longleftrightarrow> is_finite x \<and> 0 \<le> fval x"
  "is_ok (ensure_ordered_f64 f x g y) \<longleftrightarrow> is_finite x \<and> is_finite y \<and> fval x \<le> fval y"
  "is_ok (ensure_f64_range f x lo hi) \<longleftrightarrow> is_finite x \<and> in_range lo hi x"
  by (auto simp: ensure_non_empty_def ensure_one_of_def ensure_in_u8_def ensure_positive_u64_def
      ensure_positive_usize_def ensure_positive_i64_def ensure_finite_def ensure_non_zero_f64_def
      ensure_positive_f64_def ensure_non_negative_f64_def ensure_ordered_f64_def ensure_f64_range_def
      f64_eq_finite f64_le_finite f64_lt_finite)

text \<open>The guarantees in the form the controller uses them.\<close>

definition safe_bounds :: "f64 \<Rightarrow> f64 \<Rightarrow> f64 \<Rightarrow> bool" where
  "safe_bounds lo hi step \<longleftrightarrow>
     is_finite lo \<and> is_finite hi \<and> f64_le lo hi \<and> is_finite step \<and> f64_le (Num 0) step"

definition wf_safety :: "safety_config \<Rightarrow> bool" where
  "wf_safety c \<longleftrightarrow>
     control_interval_ms (control c) \<noteq> 0
     \<and> 0 < sensor_timeout_ms (control c)
     \<and> write_retry_backoff_ms (control c) \<noteq> 0
     \<and> safety_guard_timeout_ms (control c) \<noteq> 0
     \<and> command_ack_timeout_ms (control c) \<noteq> 0
     \<and> in_range (Num 0) (Num 100) (ai_stop_product_concentration_percent (control c))
     \<and> safe_bounds (min_c (temperature c)) (max_c (temperature c)) (max_step_c (temperature c))
     \<and> in_range (min_c (temperature c)) (max_c (temperature c)) (default_target_c (temperature c))
     \<and> safe_bounds (min_rpm (stirrer c)) (max_rpm (stirrer c)) (max_step_rpm (stirrer c))
     \<and> in_range (min_rpm (stirrer c)) (max_rpm (stirrer c)) (default_target_rpm (stirrer c))
     \<and> is_ok (validate_optimizer_bounds (optimizer c))
     \<and> list_all (\<lambda>z. is_ok (validate_forbidden_zone z)) (forbidden_control_zones c)"

lemma validate_safety_config_iff: "validate_safety_config c = Ok () \<longleftrightarrow> wf_safety c"
  unfolding validate_safety_config_def run_checks_Ok_iff wf_safety_def safe_bounds_def
  by (auto simp: ensure_simps f64_le_finite list_all_iff in_range_finite)


section \<open>The configuration the repository ships\<close>

text \<open>\<open>config/safety.toml\<close>, with the values that section leaves to their defaults.\<close>

definition shipped_safety :: safety_config where
  "shipped_safety =
     \<lparr>control = \<lparr>auto_enabled_default = False, manual_lock_default = False,
        control_interval_ms = 2000, sensor_timeout_ms = 6000,
        require_device_status_for_control = default_require_device_status_for_control,
        write_retry_backoff_ms = default_control_write_retry_backoff_ms,
        safety_guard_timeout_ms = default_safety_guard_timeout_ms,
        ai_stop_product_concentration_percent = default_ai_stop_product_concentration_percent,
        require_command_ack = default_require_command_ack,
        command_ack_timeout_ms = default_command_ack_timeout_ms\<rparr>,
      temperature = \<lparr>min_c = lit 20, max_c = lit 160, max_step_c = lit 2, default_target_c = lit 60\<rparr>,
      stirrer = \<lparr>min_rpm = lit 0, max_rpm = lit 1200, max_step_rpm = lit 50, default_target_rpm = lit 300\<rparr>,
      optimizer = \<lparr>ob_min_temperature_c = lit 35, ob_max_temperature_c = lit 140,
        ob_min_stirrer_rpm = lit 100, ob_max_stirrer_rpm = lit 1000,
        ob_min_heating_minutes = lit 15, ob_max_heating_minutes = lit 240,
        ob_min_stirring_minutes = lit 15, ob_max_stirring_minutes = lit 240\<rparr>,
      forbidden_control_zones =
        [\<lparr>zone_name = ''hot-low-stir'',
          zone_reason = ''High temperature with weak mixing is blocked at the control layer.'',
          zone_min_temperature_c = lit 125, zone_max_temperature_c = lit 160,
          zone_min_stirrer_rpm = lit 0, zone_max_stirrer_rpm = lit 350\<rparr>]\<rparr>"

lemmas control_defaults =
  default_require_device_status_for_control_def default_control_write_retry_backoff_ms_def
  default_safety_guard_timeout_ms_def default_ai_stop_product_concentration_percent_def
  default_require_command_ack_def default_command_ack_timeout_ms_def

lemma shipped_safety_valid [simp]: "wf_safety shipped_safety"
  by (simp add: wf_safety_def shipped_safety_def control_defaults safe_bounds_def in_range_def
      validate_optimizer_bounds_def validate_forbidden_zone_def run_checks_ok ensure_simps trim_def
      trim_end_def is_space_def del: run_checks.simps)

end
