(* ===== verification/State.thy ===== *)
theory State
  imports Config
begin

text \<open>
  The shared runtime state of \<open>state.rs\<close>: sensor snapshots and their physical ranges, control
  targets, the device-status snapshot, and the runtime record with its three safety latches
  (manual lock, emergency stop, control fault). Every operation of \<open>impl RuntimeState\<close> is a
  function on the record; an operation whose Rust version returns \<open>bool\<close> returns the pair of the
  new state and that flag. The clock \<open>Utc::now()\<close> is an argument \<open>now\<close>.

  The central invariant is \<open>latches_hold\<close>: automatic control is never enabled while a latch is
  engaged.
\<close>

section \<open>Sensor snapshots\<close>

datatype sensor_source_type = SourceReal | SourceSimulation

record sensor_snapshot =
  s_temperature_c :: f64
  s_pressure_mpa :: f64
  s_stirrer_rpm :: f64
  s_shake_speed_cpm :: f64
  s_tilt_state :: u8
  s_tilt_angle_deg :: f64
  s_flow_rate_l_min :: f64
  s_product_concentration_percent :: f64
  s_ph :: f64
  s_captured_at :: time

record sensor_range =
  range_field :: string
  range_min :: f64
  range_max :: f64

definition sensor_range_validate :: "sensor_range \<Rightarrow> f64 \<Rightarrow> string + unit" where
  "sensor_range_validate r value =
     (if \<not> is_finite value \<or> \<not> in_range (range_min r) (range_max r) value
      then Err (range_field r @ '' must be between '' @ display_f64 (range_min r)
                @ '' and '' @ display_f64 (range_max r))
      else Ok ())"

definition SENSOR_TEMPERATURE_C_RANGE :: sensor_range where
  "SENSOR_TEMPERATURE_C_RANGE =
     \<lparr>range_field = ''temperature_c'', range_min = lit (- 40), range_max = lit 500\<rparr>"

definition SENSOR_PRESSURE_MPA_RANGE :: sensor_range where
  "SENSOR_PRESSURE_MPA_RANGE =
     \<lparr>range_field = ''pressure_mpa'', range_min = lit 0, range_max = lit 10\<rparr>"

definition SENSOR_STIRRER_RPM_RANGE :: sensor_range where
  "SENSOR_STIRRER_RPM_RANGE =
     \<lparr>range_field = ''stirrer_rpm'', range_min = lit 0, range_max = lit 2000\<rparr>"

definition SENSOR_SHAKE_SPEED_CPM_RANGE :: sensor_range where
  "SENSOR_SHAKE_SPEED_CPM_RANGE =
     \<lparr>range_field = ''shake_speed_cpm'', range_min = lit 0, range_max = lit 60\<rparr>"

definition SENSOR_TILT_ANGLE_DEG_RANGE :: sensor_range where
  "SENSOR_TILT_ANGLE_DEG_RANGE =
     \<lparr>range_field = ''tilt_angle_deg'', range_min = lit (- 30), range_max = lit 30\<rparr>"

definition SENSOR_FLOW_RATE_L_MIN_RANGE :: sensor_range where
  "SENSOR_FLOW_RATE_L_MIN_RANGE =
     \<lparr>range_field = ''flow_rate_l_min'', range_min = lit 0, range_max = lit 100\<rparr>"

definition SENSOR_PRODUCT_CONCENTRATION_PERCENT_RANGE :: sensor_range where
  "SENSOR_PRODUCT_CONCENTRATION_PERCENT_RANGE =
     \<lparr>range_field = ''product_concentration_percent'', range_min = lit 0, range_max = lit 100\<rparr>"

definition SENSOR_PH_RANGE :: sensor_range where
  "SENSOR_PH_RANGE = \<lparr>range_field = ''ph'', range_min = lit 0, range_max = lit 14\<rparr>"

definition validate_sensor_tilt_state :: "u8 \<Rightarrow> string + unit" where
  "validate_sensor_tilt_state value =
     (if value \<le> 1 then Ok ()
      else Err ''tilt_state must be 0 or 1 for the shake vessel binary tilt sensor'')"

definition validate_sensor_snapshot :: "sensor_snapshot \<Rightarrow> string + unit" where
  "validate_sensor_snapshot s = run_checks
     [sensor_range_validate SENSOR_TEMPERATURE_C_RANGE (s_temperature_c s),
      sensor_range_validate SENSOR_PRESSURE_MPA_RANGE (s_pressure_mpa s),
      sensor_range_validate SENSOR_STIRRER_RPM_RANGE (s_stirrer_rpm s),
      sensor_range_validate SENSOR_SHAKE_SPEED_CPM_RANGE (s_shake_speed_cpm s),
      sensor_range_validate SENSOR_TILT_ANGLE_DEG_RANGE (s_tilt_angle_deg s),
      sensor_range_validate SENSOR_FLOW_RATE_L_MIN_RANGE (s_flow_rate_l_min s),
      sensor_range_validate SENSOR_PRODUCT_CONCENTRATION_PERCENT_RANGE
        (s_product_concentration_percent s),
      sensor_range_validate SENSOR_PH_RANGE (s_ph s),
      validate_sensor_tilt_state (s_tilt_state s)]"

lemmas sensor_ranges =
  SENSOR_TEMPERATURE_C_RANGE_def SENSOR_PRESSURE_MPA_RANGE_def SENSOR_STIRRER_RPM_RANGE_def
  SENSOR_SHAKE_SPEED_CPM_RANGE_def SENSOR_TILT_ANGLE_DEG_RANGE_def SENSOR_FLOW_RATE_L_MIN_RANGE_def
  SENSOR_PRODUCT_CONCENTRATION_PERCENT_RANGE_def SENSOR_PH_RANGE_def

lemma sensor_range_validate_ok:
  "is_ok (sensor_range_validate r x) \<longleftrightarrow> is_finite x \<and> in_range (range_min r) (range_max r) x"
  by (simp add: sensor_range_validate_def)

text \<open>The physical plausibility an accepted snapshot has.\<close>

definition plausible_sample :: "sensor_snapshot \<Rightarrow> bool" where
  "plausible_sample s \<longleftrightarrow>
     in_range (Num (- 40)) (Num 500) (s_temperature_c s) \<and> in_range (Num 0) (Num 10) (s_pressure_mpa s)
     \<and> in_range (Num 0) (Num 2000) (s_stirrer_rpm s) \<and> in_range (Num 0) (Num 60) (s_shake_speed_cpm s)
     \<and> in_range (Num (- 30)) (Num 30) (s_tilt_angle_deg s)
     \<and> in_range (Num 0) (Num 100) (s_flow_rate_l_min s)
     \<and> in_range (Num 0) (Num 100) (s_product_concentration_percent s)
     \<and> in_range (Num 0) (Num 14) (s_ph s) \<and> s_tilt_state s \<le> 1"

lemma validate_sensor_snapshot_iff: "validate_sensor_snapshot s = Ok () \<longleftrightarrow> plausible_sample s"
  unfolding validate_sensor_snapshot_def run_checks_Ok_iff plausible_sample_def
  by (auto simp: sensor_range_validate_ok sensor_ranges validate_sensor_tilt_state_def in_range_Num)

section \<open>Targets, device status and the runtime record\<close>

record control_targets =
  t_temperature_c :: f64
  t_heat_time_s :: f64
  t_hold_time_s :: f64
  t_cool_time_s :: f64
  t_stirrer_rpm :: f64
  t_shake_speed_cpm :: f64
  t_target_pressure_mpa :: f64

record device_status_snapshot =
  connected :: bool
  last_seen_at :: "time option"
  last_frame_ok :: bool
  ds_relay :: "u8 option"
  ds_motor :: "u8 option"
  ds_tilt :: "u8 option"
  ds_speed_delay_us :: "u64 option"
  ds_port :: "string option"
  ds_baudrate :: "u32 option"
  last_command_request_id :: "string option"
  last_command_ok :: "bool option"
  last_command_error :: "string option"
  updated_at :: time

record runtime_state =
  latest_sample :: "sensor_snapshot option"
  targets :: control_targets
  auto_enabled :: bool
  manual_lock :: bool
  manual_lock_generation :: u64
  emergency_stop :: bool
  emergency_stop_generation :: u64
  active_batch_id :: "int option"
  last_sensor_error :: "string option"
  last_control_error :: "string option"
  control_loop_terminated :: bool
  control_fault_generation :: u64
  device_status :: "device_status_snapshot option"
  source_type :: sensor_source_type

text \<open>A batch row as the database returns it (\<open>db.rs\<close>).\<close>

record batch =
  batch_id :: int
  process_id :: "int option"
  batch_name :: string
  started_at :: time
  finished_at :: "time option"
  batch_target_temperature_c :: f64
  batch_target_stirrer_rpm :: f64
  heating_minutes :: f64
  stirring_minutes :: f64

definition timestamp_age_ms :: "time \<Rightarrow> time \<Rightarrow> int" where
  "timestamp_age_ms now timestamp = trunc_div (now - timestamp) 1000000"

definition timestamp_is_fresh :: "time \<Rightarrow> time \<Rightarrow> int \<Rightarrow> bool" where
  "timestamp_is_fresh now timestamp max_age_ms \<longleftrightarrow>
     (let age_ms = timestamp_age_ms now timestamp in 0 \<le> age_ms \<and> age_ms \<le> max_age_ms)"

definition from_safety :: "safety_config \<Rightarrow> runtime_state" where
  "from_safety safety = \<lparr>latest_sample = None,
     targets = \<lparr>t_temperature_c = default_target_c (temperature safety), t_heat_time_s = lit 300,
       t_hold_time_s = lit 600, t_cool_time_s = lit 180,
       t_stirrer_rpm = default_target_rpm (stirrer safety), t_shake_speed_cpm = lit 30,
       t_target_pressure_mpa = lit (1 / 2)\<rparr>,
     auto_enabled = False, manual_lock = manual_lock_default (control safety),
     manual_lock_generation = (if manual_lock_default (control safety) then 1 else 0),
     emergency_stop = False, emergency_stop_generation = 0, active_batch_id = None,
     last_sensor_error = None, last_control_error = None, control_loop_terminated = False,
     control_fault_generation = 0, device_status = None, source_type = SourceReal\<rparr>"

definition disable_auto_for_field_fault :: "string \<Rightarrow> runtime_state \<Rightarrow> runtime_state \<times> bool" where
  "disable_auto_for_field_fault reason rt =
     (let rt1 = rt\<lparr>last_sensor_error := Some reason\<rparr> in
      if auto_enabled rt1 then (rt1\<lparr>auto_enabled := False\<rparr>, True) else (rt1, False))"

definition reject_unpersisted_sample :: "string \<Rightarrow> runtime_state \<Rightarrow> runtime_state \<times> bool" where
  "reject_unpersisted_sample reason rt =
     disable_auto_for_field_fault reason (rt\<lparr>latest_sample := None\<rparr>)"

definition reject_unpersisted_sample_with_status ::
    "device_status_snapshot option \<Rightarrow> string \<Rightarrow> runtime_state \<Rightarrow> runtime_state \<times> bool" where
  "reject_unpersisted_sample_with_status status reason rt =
     reject_unpersisted_sample reason (rt\<lparr>device_status := status\<rparr>)"

definition latch_control_fault :: "string \<Rightarrow> runtime_state \<Rightarrow> runtime_state \<times> bool" where
  "latch_control_fault reason rt =
     (let changed = (last_control_error rt \<noteq> Some reason);
          was_auto_enabled = auto_enabled rt
      in (rt\<lparr>control_fault_generation := saturating_add (control_fault_generation rt) 1,
             last_control_error := Some reason,
             auto_enabled := False\<rparr>,
          was_auto_enabled \<or> changed))"

definition enforce_control_fault_fail_closed :: "runtime_state \<Rightarrow> runtime_state \<times> bool" where
  "enforce_control_fault_fail_closed rt =
     (if last_control_error rt \<noteq> None \<and> auto_enabled rt
      then (rt\<lparr>auto_enabled := False\<rparr>, True) else (rt, False))"

definition latch_audit_failure_after_device_action ::
    "string \<Rightarrow> string \<Rightarrow> runtime_state \<Rightarrow> runtime_state \<times> bool" where
  "latch_audit_failure_after_device_action action err =
     latch_control_fault (action @ '' audit failed after device action: '' @ err)"

definition clear_control_fault :: "runtime_state \<Rightarrow> runtime_state" where
  "clear_control_fault rt = rt\<lparr>last_control_error := None, auto_enabled := False\<rparr>"

definition engage_manual_lock :: "runtime_state \<Rightarrow> runtime_state" where
  "engage_manual_lock rt = rt\<lparr>manual_lock := True,
     manual_lock_generation := saturating_add (manual_lock_generation rt) 1, auto_enabled := False\<rparr>"

definition clear_manual_lock :: "runtime_state \<Rightarrow> runtime_state" where
  "clear_manual_lock rt = rt\<lparr>manual_lock := False, auto_enabled := False\<rparr>"

definition engage_emergency_stop :: "runtime_state \<Rightarrow> runtime_state" where
  "engage_emergency_stop rt = rt\<lparr>emergency_stop := True,
     emergency_stop_generation := saturating_add (emergency_stop_generation rt) 1,
     auto_enabled := False\<rparr>"

definition clear_emergency_stop :: "runtime_state \<Rightarrow> runtime_state" where
  "clear_emergency_stop rt = rt\<lparr>emergency_stop := False, auto_enabled := False\<rparr>"

section \<open>Device status\<close>

definition device_status_field_fault_reason ::
    "time \<Rightarrow> device_status_snapshot \<Rightarrow> int \<Rightarrow> string option" where
  "device_status_field_fault_reason now status max_age_ms =
     (if \<not> connected status then Some ''downstream device status is disconnected''
      else if \<not> last_frame_ok status
      then Some ''downstream device last upstream frame failed validation''
      else case last_seen_at status of
        None \<Rightarrow> Some ''downstream device status has no valid last_seen timestamp''
      | Some last_seen \<Rightarrow>
          (let age_ms = timestamp_age_ms now last_seen in
           if age_ms < 0 then
             Some (''downstream device status timestamp is '' @ show_int (- age_ms)
                   @ '' ms in the future'')
           else if age_ms > max_age_ms then
             Some (''downstream device status stale; last_seen is '' @ show_int age_ms
                   @ '' ms old, max '' @ show_int max_age_ms @ '' ms'')
           else None))"

definition downstream_command_fault_reason :: "device_status_snapshot \<Rightarrow> string option" where
  "downstream_command_fault_reason status =
     (if last_command_ok status \<noteq> Some False then None
      else
        (let request_id = unwrap_or (last_command_request_id status) ''unknown request'';
             detail = (case last_command_error status of
                 Some error \<Rightarrow> if trim error \<noteq> [] then error
                                else ''downstream command reported failure''
               | None \<Rightarrow> ''downstream command reported failure'')
         in Some (''downstream command '' @ request_id @ '' failed: '' @ detail)))"

text \<open>A status the controller trusts: connected, last frame valid, seen within the timeout.\<close>

definition healthy_status :: "time \<Rightarrow> int \<Rightarrow> device_status_snapshot \<Rightarrow> bool" where
  "healthy_status now timeout status \<longleftrightarrow>
     connected status \<and> last_frame_ok status \<and>
     (case last_seen_at status of None \<Rightarrow> False | Some t \<Rightarrow> timestamp_is_fresh now t timeout)"

lemma field_fault_None_iff:
  "device_status_field_fault_reason now status timeout = None \<longleftrightarrow> healthy_status now timeout status"
  by (auto simp: device_status_field_fault_reason_def healthy_status_def timestamp_is_fresh_def Let_def
      split: option.splits)

lemma command_fault_None_iff:
  "downstream_command_fault_reason status = None \<longleftrightarrow> last_command_ok status \<noteq> Some False"
  by (simp add: downstream_command_fault_reason_def Let_def)

lemma timestamp_is_fresh_iff:
  assumes "0 \<le> timeout"
  shows "timestamp_is_fresh now t timeout \<longleftrightarrow>
    t < now + 1000000 \<and> now - t < (timeout + 1) * 1000000"
proof (cases "t \<le> now")
  case True
  have "(now - t) div 1000000 \<le> timeout \<longleftrightarrow> now - t < (timeout + 1) * 1000000"
    by (rule int_div_le_iff) simp
  then show ?thesis using True
    by (simp add: timestamp_is_fresh_def timestamp_age_ms_def Let_def trunc_div_nonneg
        pos_imp_zdiv_nonneg_iff)
next
  case False
  have "0 \<le> - ((t - now) div 1000000) \<longleftrightarrow> t < now + 1000000"
    using int_div_le_iff [of 1000000 "t - now" 0] by (simp add: algebra_simps)
  moreover have "- ((t - now) div 1000000) \<le> 0" using False by (simp add: pos_imp_zdiv_nonneg_iff)
  moreover have "now - t < (timeout + 1) * 1000000" using False assms by simp
  ultimately show ?thesis using assms False
    by (auto simp: timestamp_is_fresh_def timestamp_age_ms_def Let_def trunc_div_neg)
qed

section \<open>The latch invariant\<close>

definition latches_hold :: "runtime_state \<Rightarrow> bool" where
  "latches_hold rt \<longleftrightarrow>
     (auto_enabled rt \<longrightarrow> \<not> manual_lock rt \<and> \<not> emergency_stop rt \<and> last_control_error rt = None)"

lemmas runtime_op_defs =
  disable_auto_for_field_fault_def reject_unpersisted_sample_def
  reject_unpersisted_sample_with_status_def latch_control_fault_def
  enforce_control_fault_fail_closed_def latch_audit_failure_after_device_action_def
  clear_control_fault_def engage_manual_lock_def clear_manual_lock_def
  engage_emergency_stop_def clear_emergency_stop_def

lemma latch_control_fault_simps [latch_simps]:
  "last_control_error (fst (latch_control_fault r rt)) = Some r"
  "auto_enabled (fst (latch_control_fault r rt)) = False"
  "manual_lock (fst (latch_control_fault r rt)) = manual_lock rt"
  "emergency_stop (fst (latch_control_fault r rt)) = emergency_stop rt"
  "control_loop_terminated (fst (latch_control_fault r rt)) = control_loop_terminated rt"
  "active_batch_id (fst (latch_control_fault r rt)) = active_batch_id rt"
  "control_fault_generation (fst (latch_control_fault r rt))
     = saturating_add (control_fault_generation rt) 1"
  "snd (latch_control_fault r rt) \<longleftrightarrow> auto_enabled rt \<or> last_control_error rt \<noteq> Some r"
  by (auto simp: latch_control_fault_def Let_def)

lemma disable_auto_simps [latch_simps]:
  "auto_enabled (fst (disable_auto_for_field_fault r rt)) = False"
  "snd (disable_auto_for_field_fault r rt) = auto_enabled rt"
  "manual_lock (fst (disable_auto_for_field_fault r rt)) = manual_lock rt"
  "emergency_stop (fst (disable_auto_for_field_fault r rt)) = emergency_stop rt"
  "last_control_error (fst (disable_auto_for_field_fault r rt)) = last_control_error rt"
  "last_sensor_error (fst (disable_auto_for_field_fault r rt)) = Some r"
  "auto_enabled (fst (reject_unpersisted_sample r rt)) = False"
  "latest_sample (fst (reject_unpersisted_sample r rt)) = None"
  "last_control_error (fst (reject_unpersisted_sample r rt)) = last_control_error rt"
  by (auto simp: disable_auto_for_field_fault_def reject_unpersisted_sample_def Let_def)

lemma latches_hold_auto_off [wf_intros]: "\<not> auto_enabled rt \<Longrightarrow> latches_hold rt"
  by (simp add: latches_hold_def)

lemma latches_hold_from_safety [wf_intros]: "latches_hold (from_safety safety)"
  by (simp add: from_safety_def latches_hold_def)

text \<open>Every operation of the record leaves automatic control off, whatever state it starts from
  (\<open>enforce_control_fault_fail_closed\<close> when a fault is latched).\<close>

lemma runtime_ops_auto_off:
  "\<not> auto_enabled (fst (disable_auto_for_field_fault r rt))"
  "\<not> auto_enabled (fst (reject_unpersisted_sample r rt))"
  "\<not> auto_enabled (fst (reject_unpersisted_sample_with_status st r rt))"
  "\<not> auto_enabled (fst (latch_control_fault r rt))"
  "\<not> auto_enabled (fst (latch_audit_failure_after_device_action a r rt))"
  "\<not> auto_enabled (clear_control_fault rt)"
  "\<not> auto_enabled (engage_manual_lock rt)"
  "\<not> auto_enabled (clear_manual_lock rt)"
  "\<not> auto_enabled (engage_emergency_stop rt)"
  "\<not> auto_enabled (clear_emergency_stop rt)"
  by (auto simp: runtime_op_defs Let_def)

lemma enforce_fail_closed:
  "last_control_error rt \<noteq> None \<Longrightarrow> \<not> auto_enabled (fst (enforce_control_fault_fail_closed rt))"
  "latches_hold rt \<Longrightarrow> enforce_control_fault_fail_closed rt = (rt, False)"
  by (auto simp: enforce_control_fault_fail_closed_def latches_hold_def)

lemmas runtime_ops_latches_hold [wf_intros] =
  runtime_ops_auto_off [THEN latches_hold_auto_off]


section \<open>Fitted tilt angle\<close>

text \<open>The display angle derived from the binary tilt switch. \<open>sin\<close> is the platform's
  \<open>f64::sin\<close>, a parameter.\<close>

definition timestamp_millis :: "time \<Rightarrow> int" where
  "timestamp_millis t = t div 1000000"

definition TAU :: f64 where
  "TAU = lit (628318530717958647692528676655900577 / 100000000000000000000000000000000000)"

definition fit_tilt_angle_deg :: "(f64 \<Rightarrow> f64) \<Rightarrow> u8 \<Rightarrow> f64 \<Rightarrow> time \<Rightarrow> f64 option" where
  "fit_tilt_angle_deg sin_f tilt_state shake_speed captured =
     Option.bind (if is_finite shake_speed then f64_clamp shake_speed (lit 0) (lit 60) else Some (lit 0))
       (\<lambda>speed. Some (
          if f64_le speed (lit (1 / 100)) then lit 0
          else
            let period_ms = f64_div (lit 60000) speed;
                phase = f64_div (rem_euclid (f64_of_int (timestamp_millis captured)) period_ms) period_ms;
                envelope = f64_abs (sin_f (f64_mul phase TAU));
                sign = (if tilt_state = 0 then lit (- 1) else lit 1)
            in round2 (f64_mul (f64_mul sign (lit 30)) envelope)))"

text \<open>What the code relies on of \<open>sin\<close>: a finite argument gives a value between -1 and 1.\<close>

definition sin_bounded :: "(f64 \<Rightarrow> f64) \<Rightarrow> bool" where
  "sin_bounded sin_f \<longleftrightarrow> (\<forall>x. is_finite x \<longrightarrow> in_range (Num (- 1)) (Num 1) (sin_f x))"

lemma rnd_millis_finite:
  assumes "\<bar>m\<bar> \<le> 2 ^ 63"
  shows "is_finite (f64_of_int m)"
proof -
  have 1: "(of_int m :: rat) \<le> of_int (2 ^ 63)" and 2: "of_int (- (2 ^ 63)) \<le> (of_int m :: rat)"
    using assms by (simp_all only: of_int_le_iff)
  have rep: "representable (of_int (2 ^ 63))" "representable (of_int (- (2 ^ 63)))"
    unfolding representable_def
    by (intro conjI exI [of _ 1] exI [of _ "63 :: int"] exI [of _ "- 1 :: int"];
        simp add: f64_limit_def)+
  have "in_range (Num (of_int (- (2 ^ 63)))) (Num (of_int (2 ^ 63))) (f64_of_int m)"
    using rnd_mono [OF 1] rnd_mono [OF 2] rep by (simp only: in_range_def rnd_representable)
  then show ?thesis by (simp add: in_range_Num)
qed


lemma TAU_Num: "\<exists>t. TAU = Num t \<and> 6 \<le> t"
  using rnd_between [of 6 "628318530717958647692528676655900577 / 100000000000000000000000000000000000" 7]
  by (auto simp: TAU_def split: if_splits)

lemma lit_hundredth: "1 / 128 \<le> fval (lit (1 / 100))" "is_finite (lit (1 / 100))"
proof -
  have "representable (1 / 128)" unfolding representable_def
    by (rule conjI, rule exI [of _ 1], rule exI [of _ "- 7"])
      (simp_all add: f64_limit_def power_int_def power_divide)
  then show "1 / 128 \<le> fval (lit (1 / 100))" "is_finite (lit (1 / 100))"
    using rnd_between [of "1 / 128" "1 / 100" 1] by (auto simp: rnd_representable)
qed

text \<open>The phase of the fitted wave is a number between 0 and 1.\<close>

lemma tilt_phase_range:
  assumes "1 / 128 \<le> v" "v \<le> 60" "is_finite m"
  shows "in_range (Num 0) (Num 1)
    (f64_div (rem_euclid m (f64_div (lit 60000) (Num v))) (f64_div (lit 60000) (Num v)))"
proof -
  have "1000 \<le> 60000 / v" "60000 / v \<le> 7680000" using assms by (simp_all add: field_simps)
  then obtain p where p: "rnd (60000 / v) = Num p" "1000 \<le> p"
    using rnd_between [of 1000 "60000 / v" 7680000] by (auto split: if_splits)
  then have period: "f64_div (lit 60000) (Num v) = Num p" using assms by (simp add: f64_div_pos)
  have "in_range (Num 0) (Num p) (rem_euclid m (Num p))"
    using rem_euclid_pos [of m p] rnd_Num [OF p(1)] assms(3) p(2) by simp
  moreover have "f64_div (Num 0) (Num p) = Num 0" "f64_div (Num p) (Num p) = Num 1"
    using p(2) by (simp_all add: f64_div_pos)
  ultimately show ?thesis unfolding period
    using p(2) f64_div_pos_mono [of p "Num 0" "rem_euclid m (Num p)"]
      f64_div_pos_mono [of p "rem_euclid m (Num p)" "Num p"]
    by (simp add: in_range_def)
qed

lemma tilt_scale_range:
  assumes "in_range (Num (- 1)) (Num 1) e" "\<bar>c\<bar> = 30"
  shows "in_range (Num (- 30)) (Num 30) (round2 (f64_mul (Num c) (f64_abs e)))"
proof (rule round2_in_range)
  have e: "is_finite (f64_abs e)" "0 \<le> fval (f64_abs e)" "fval (f64_abs e) \<le> 1"
    using assms(1) by (cases e; auto simp: in_range_Num f64_abs_def f64_neg_def)+
  have c: "c = 30 \<or> c = - 30" using assms(2) by linarith
  let ?q = "c * fval (f64_abs e)"
  have "- 30 \<le> ?q" "?q \<le> 30" using e c by auto
  then have "in_range (Num (- 30)) (Num 30) (rnd ?q)"
    using rnd_mono [of "- 30" ?q] rnd_mono [of ?q 30] by (simp add: in_range_def)
  then show "in_range (Num (- 30)) (Num 30) (f64_mul (Num c) (f64_abs e))"
    using e(1) c by (auto simp: f64_mul_def Let_def signed_zero_def in_range_Num)
qed simp_all

lemma fit_tilt_angle_range:
  assumes "sin_bounded sin_f" "\<bar>timestamp_millis captured\<bar> \<le> 2 ^ 63"
  shows "\<exists>angle. fit_tilt_angle_deg sin_f st shake captured = Some angle
    \<and> in_range (Num (- 30)) (Num 30) angle"
proof -
  have "\<exists>speed. (if is_finite shake then f64_clamp shake (lit 0) (lit 60) else Some (lit 0)) = Some speed
    \<and> in_range (Num 0) (Num 60) speed"
    using f64_clamp_Some [of "Num 0" "Num 60" shake] f64_clamp_in_range [of shake "Num 0" "Num 60"]
    by (auto simp: in_range_Num)
  then obtain speed where speed: "(if is_finite shake then f64_clamp shake (lit 0) (lit 60)
      else Some (lit 0)) = Some speed" "in_range (Num 0) (Num 60) speed" by blast
  show ?thesis
  proof (cases "f64_le speed (lit (1 / 100))")
    case True
    then show ?thesis using speed(1) by (simp add: fit_tilt_angle_deg_def in_range_Num)
  next
    case False
    then have v: "1 / 128 \<le> fval speed" "fval speed \<le> 60" "is_finite speed"
      using speed(2) lit_hundredth by (auto simp: in_range_Num f64_le_finite)
    then have sp: "speed = Num (fval speed)" by (cases speed) auto
    let ?per = "f64_div (lit 60000) speed"
    let ?phase = "f64_div (rem_euclid (f64_of_int (timestamp_millis captured)) ?per) ?per"
    have ph: "in_range (Num 0) (Num 1) ?phase"
      using tilt_phase_range [OF v(1,2) rnd_millis_finite [OF assms(2)]] by (subst (1 2) sp)
    obtain t where t: "TAU = Num t" "6 \<le> t" using TAU_Num by blast
    have "f64_le (f64_mul ?phase TAU) (f64_mul (Num 1) TAU)"
      "f64_le (f64_mul (Num 0) TAU) (f64_mul ?phase TAU)"
      using ph t f64_mul_pos_mono [of t] by (simp_all add: in_range_def)
    moreover have "f64_mul (Num 1) TAU = Num t" "f64_mul (Num 0) TAU = Num 0"
      using t rnd_Num [of _ t] rnd_representable [of t]
      by (auto simp: f64_mul_pos TAU_def)
    ultimately have "is_finite (f64_mul ?phase TAU)"
      by (metis in_range_def in_range_finite is_finite.simps(4))
    then have "in_range (Num (- 1)) (Num 1) (sin_f (f64_mul ?phase TAU))"
      using assms(1) by (simp add: sin_bounded_def)
    from tilt_scale_range [OF this, of "- 30"] tilt_scale_range [OF this, of 30] show ?thesis
      using speed(1) False
      by (simp add: fit_tilt_angle_deg_def Let_def f64_mul_pos)
  qed
qed

lemma tilt_angle_total: "\<exists>angle. fit_tilt_angle_deg sin_f st shake now = Some angle"
proof -
  obtain y where "f64_clamp shake (lit 0) (lit 60) = Some y"
    using f64_clamp_Some [of "lit 0" "lit 60" shake] by auto
  then show ?thesis unfolding fit_tilt_angle_deg_def by (cases "is_finite shake") simp_all
qed

end
