(* ===== verification/Control.thy ===== *)
theory Control
  imports State
begin

text \<open>
  The control decision of \<open>control.rs\<close>: the ordered interlocks, the step-limited set point, the
  forbidden zones, and the clamping of operator targets. The safety-guard process evaluates the
  same function on a decoded request (\<open>evaluate_safety_request\<close>). \<open>None\<close> is a panic in
  \<open>f64::clamp\<close>; \<open>decide_control_total\<close> and \<open>clamp_operator_targets_total\<close> show that a validated
  configuration excludes it.
\<close>

section \<open>Definitions\<close>

record safe_command =
  c_target_temperature_c :: f64
  c_heat_time_s :: f64
  c_hold_time_s :: f64
  c_cool_time_s :: f64
  c_target_stirrer_rpm :: f64
  c_target_shake_speed_cpm :: f64
  c_target_pressure_mpa :: f64
  c_reason :: string

datatype control_block_reason = AutoDisabled | ManualLock | EmergencyStop | ControlFault
  | MissingDeviceStatus | DeviceStatusFault | DownstreamCommandFault | MissingSensorSample
  | SensorStale | ForbiddenControlZone

datatype control_decision = Write safe_command | Blocked control_block_reason

definition clamp_step :: "f64 \<Rightarrow> f64 \<Rightarrow> f64 \<Rightarrow> f64 \<Rightarrow> f64 \<Rightarrow> f64 option" where
  "clamp_step current desired lo hi max_step =
     Option.bind (f64_clamp desired lo hi) (\<lambda>bounded.
     Option.bind (f64_clamp (f64_sub bounded current) (f64_neg max_step) max_step) (\<lambda>delta.
     f64_clamp (f64_add current delta) lo hi))"

definition is_forbidden_control_zone :: "safety_config \<Rightarrow> f64 \<Rightarrow> f64 \<Rightarrow> bool" where
  "is_forbidden_control_zone safety temp rpm =
     list_ex (\<lambda>zone. zone_contains zone temp rpm) (forbidden_control_zones safety)"

definition find_forbidden_control_zone ::
    "safety_config \<Rightarrow> f64 \<Rightarrow> f64 \<Rightarrow> forbidden_control_zone option" where
  "find_forbidden_control_zone safety temp rpm =
     find (\<lambda>zone. zone_contains zone temp rpm) (forbidden_control_zones safety)"

definition make_command :: "f64 \<Rightarrow> f64 \<Rightarrow> control_targets \<Rightarrow> safe_command" where
  "make_command temp rpm tg =
     \<lparr>c_target_temperature_c = round2 temp,
      c_heat_time_s = round2 (t_heat_time_s tg),
      c_hold_time_s = round2 (t_hold_time_s tg),
      c_cool_time_s = round2 (t_cool_time_s tg),
      c_target_stirrer_rpm = round2 rpm,
      c_target_shake_speed_cpm = round2 (t_shake_speed_cpm tg),
      c_target_pressure_mpa = round2 (t_target_pressure_mpa tg),
      c_reason = ''auto control within configured safety limits''\<rparr>"

text \<open>The device-status checks, which are the same under both branches once a status is there.\<close>

definition device_status_block ::
    "time \<Rightarrow> safety_config \<Rightarrow> device_status_snapshot option \<Rightarrow> control_block_reason option" where
  "device_status_block now safety status = (case status of
       None \<Rightarrow> if require_device_status_for_control (control safety)
                then Some MissingDeviceStatus else None
     | Some st \<Rightarrow>
         if device_status_field_fault_reason now st (sensor_timeout_ms (control safety)) \<noteq> None
         then Some DeviceStatusFault
         else if downstream_command_fault_reason st \<noteq> None then Some DownstreamCommandFault
         else None)"

definition decide_control_with_device_status ::
    "time \<Rightarrow> safety_config \<Rightarrow> sensor_snapshot option \<Rightarrow> control_targets \<Rightarrow> bool \<Rightarrow> bool \<Rightarrow> bool
     \<Rightarrow> string option \<Rightarrow> device_status_snapshot option \<Rightarrow> control_decision option" where
  "decide_control_with_device_status now safety sample tg auto lock estop fault status =
     (if estop then Some (Blocked EmergencyStop)
      else if lock then Some (Blocked ManualLock)
      else if fault \<noteq> None then Some (Blocked ControlFault)
      else if \<not> auto then Some (Blocked AutoDisabled)
      else case device_status_block now safety status of
        Some reason \<Rightarrow> Some (Blocked reason)
      | None \<Rightarrow>
        (case sample of
          None \<Rightarrow> Some (Blocked MissingSensorSample)
        | Some s \<Rightarrow>
          if \<not> timestamp_is_fresh now (s_captured_at s) (sensor_timeout_ms (control safety))
          then Some (Blocked SensorStale)
          else
            Option.bind (clamp_step (s_temperature_c s) (t_temperature_c tg)
                (min_c (temperature safety)) (max_c (temperature safety))
                (max_step_c (temperature safety))) (\<lambda>temp.
            Option.bind (clamp_step (s_stirrer_rpm s) (t_stirrer_rpm tg)
                (min_rpm (stirrer safety)) (max_rpm (stirrer safety))
                (max_step_rpm (stirrer safety))) (\<lambda>rpm.
            if is_forbidden_control_zone safety temp rpm then Some (Blocked ForbiddenControlZone)
            else Some (Write (make_command temp rpm tg))))))"

definition decide_control ::
    "time \<Rightarrow> safety_config \<Rightarrow> sensor_snapshot option \<Rightarrow> control_targets \<Rightarrow> bool \<Rightarrow> bool \<Rightarrow> bool
     \<Rightarrow> string option \<Rightarrow> control_decision option" where
  "decide_control now safety sample tg auto lock estop fault =
     decide_control_with_device_status now safety sample tg auto lock estop fault None"

definition clamp_operator_targets :: "safety_config \<Rightarrow> control_targets \<Rightarrow> control_targets option" where
  "clamp_operator_targets safety tg =
     Option.bind (f64_clamp (t_temperature_c tg) (min_c (temperature safety)) (max_c (temperature safety)))
       (\<lambda>temp.
     Option.bind (f64_clamp (t_heat_time_s tg) (lit 0) (lit 3600)) (\<lambda>heat.
     Option.bind (f64_clamp (t_hold_time_s tg) (lit 0) (lit 7200)) (\<lambda>hold.
     Option.bind (f64_clamp (t_cool_time_s tg) (lit 0) (lit 3600)) (\<lambda>cool.
     Option.bind (f64_clamp (t_stirrer_rpm tg) (min_rpm (stirrer safety)) (max_rpm (stirrer safety)))
       (\<lambda>rpm.
     Option.bind (f64_clamp (t_shake_speed_cpm tg) (lit 0) (lit 60)) (\<lambda>shake.
     Option.bind (f64_clamp (t_target_pressure_mpa tg) (lit 0) (lit 10)) (\<lambda>press.
     Some \<lparr>t_temperature_c = round2 temp, t_heat_time_s = round2 heat, t_hold_time_s = round2 hold,
       t_cool_time_s = round2 cool, t_stirrer_rpm = round2 rpm, t_shake_speed_cpm = round2 shake,
       t_target_pressure_mpa = round2 press\<rparr>)))))))"

subsection \<open>The safety-guard request\<close>

datatype safety_guard_request =
    DecideControl safety_config "sensor_snapshot option" control_targets bool bool bool
      "string option" "device_status_snapshot option"
  | ClampTargets safety_config control_targets

datatype safety_guard_response =
    ControlDecision control_decision
  | ClampedTargets control_targets

fun evaluate_safety_request :: "time \<Rightarrow> safety_guard_request \<Rightarrow> safety_guard_response option" where
  "evaluate_safety_request now
     (DecideControl safety sample tg auto lock estop fault status) =
     map_option ControlDecision
       (decide_control_with_device_status now safety sample tg auto lock estop fault status)"
| "evaluate_safety_request now (ClampTargets safety tg) =
     map_option ClampedTargets (clamp_operator_targets safety tg)"

section \<open>Floating-point addition\<close>

lemma f64_add_finite:
  "is_finite x \<Longrightarrow> is_finite y \<Longrightarrow> f64_add x y =
     (if x = NegZero \<and> y = NegZero then NegZero else rnd (fval x + fval y))"
  by (cases x; cases y) (auto simp: f64_add_def)

lemma fval_neg [simp]: "fval (f64_neg x) = - fval x" and is_finite_neg [simp]: "is_finite (f64_neg x) = is_finite x"
  by (cases x; auto simp: f64_neg_def)+

lemma f64_add_mono:
  assumes "is_finite x" "is_finite y" "is_finite z" "f64_le y z"
  shows "f64_le (f64_add x y) (f64_add x z)"
proof -
  have le: "fval x + fval y \<le> fval x + fval z" using assms by (simp add: f64_le_finite)
  show ?thesis using rnd_mono [OF le] assms rnd_sign [of "fval z"] rnd_sign [of "fval y"]
    by (auto simp: f64_add_finite f64_le_finite)
qed

lemma f64_add_zero_le:
  assumes "wf_f64 x" "is_finite x" "is_finite y"
  shows "f64_le (Num 0) y \<Longrightarrow> f64_le x (f64_add x y)" and "f64_le y (Num 0) \<Longrightarrow> f64_le (f64_add x y) x"
proof -
  have x: "rnd (fval x) = Num (fval x)"
    using assms(1,2) by (cases x) (auto simp: wf_f64_def rnd_representable)
  show "f64_le x (f64_add x y)" if "f64_le (Num 0) y"
    using rnd_mono [of "fval x" "fval x + fval y"] x that assms
    by (cases x; cases y) (auto simp: f64_add_finite f64_le_finite)
  show "f64_le (f64_add x y) x" if "f64_le y (Num 0)"
    using rnd_mono [of "fval x + fval y" "fval x"] x that assms
    by (cases x; cases y) (auto simp: f64_add_finite f64_le_finite)
qed

lemma f64_sub_not_nan: "is_finite x \<Longrightarrow> is_finite y \<Longrightarrow> \<not> is_nan (f64_sub x y)"
  by (simp add: f64_sub_def f64_add_finite)

section \<open>The step limiter\<close>

lemma safe_bounds_step: "safe_bounds lo hi step \<Longrightarrow> f64_le lo hi \<and> f64_le (f64_neg step) step"
  by (auto simp: safe_bounds_def f64_le_finite)

lemma clamp_step_total [panic_free]:
  assumes "safe_bounds lo hi step"
  shows "\<exists>y. clamp_step cur des lo hi step = Some y"
  using safe_bounds_step [OF assms] unfolding clamp_step_def bind_eq_Some_conv
  by (meson f64_clamp_Some)

text \<open>The set point is within the configured bounds, and no further than one step from the measured
  value whenever that value is itself within the bounds.\<close>

lemma clamp_step_range:
  assumes b: "safe_bounds lo hi step" and cur: "is_finite cur" and des: "\<not> is_nan des"
    and r: "clamp_step cur des lo hi step = Some y"
  shows "in_range lo hi y"
    and "in_range lo hi cur \<Longrightarrow> wf_f64 cur \<Longrightarrow>
      in_range (f64_add cur (f64_neg step)) (f64_add cur step) y"
proof -
  have fin: "is_finite lo" "is_finite hi" "is_finite step" and le: "f64_le lo hi"
    "f64_le (f64_neg step) step" "f64_le (Num 0) step"
    using b safe_bounds_step [OF b] by (auto simp: safe_bounds_def)
  obtain bd dl where 1: "f64_clamp des lo hi = Some bd"
    and 2: "f64_clamp (f64_sub bd cur) (f64_neg step) step = Some dl"
    and 3: "f64_clamp (f64_add cur dl) lo hi = Some y"
    using r by (auto simp: clamp_step_def bind_eq_Some_conv)
  have "is_finite bd" using f64_clamp_in_range [OF 1 des] fin in_range_finite by blast
  then have dl: "in_range (f64_neg step) step dl"
    using f64_clamp_in_range [OF 2] f64_sub_not_nan cur by blast
  then have dlf: "is_finite dl" using fin by (auto intro: in_range_finite)
  have nn: "\<not> is_nan (f64_add cur dl)" using cur dlf by (simp add: f64_add_finite)
  show "in_range lo hi y" using f64_clamp_in_range [OF 3 nn] .
  assume cr: "in_range lo hi cur" and wf: "wf_f64 cur"
  have s1: "f64_le (f64_add cur (f64_neg step)) (f64_add cur dl)"
    and s2: "f64_le (f64_add cur dl) (f64_add cur step)"
    using dl f64_add_mono cur dlf fin by (auto simp: in_range_def)
  have s3: "f64_le cur (f64_add cur step)" "f64_le (f64_add cur (f64_neg step)) cur"
    using f64_add_zero_le [OF wf cur] fin le by (auto simp: f64_le_finite)
  have c: "f64_le lo cur" "f64_le cur hi" using cr by (auto simp: in_range_def)
  from 3 consider "y = f64_add cur dl" | "y = lo" "f64_lt (f64_add cur dl) lo"
    | "y = hi" "f64_lt hi (f64_add cur dl)"
    using le by (auto simp: f64_clamp_def f64_lt_def Let_def split: if_splits)
  then show "in_range (f64_add cur (f64_neg step)) (f64_add cur step) y"
  proof cases
    case 1
    then show ?thesis using s1 s2 by (simp add: in_range_def)
  next
    case 2
    then show ?thesis using f64_le_trans [OF s1 f64_lt_imp_le] f64_le_trans [OF c(1) s3(1)]
      by (simp add: in_range_def)
  next
    case 3
    then show ?thesis using f64_le_trans [OF f64_lt_imp_le s2] f64_le_trans [OF s3(2) c(2)]
      by (simp add: in_range_def)
  qed
qed


section \<open>The decision\<close>

lemma wf_safety_bounds:
  assumes "wf_safety safety"
  shows "safe_bounds (min_c (temperature safety)) (max_c (temperature safety)) (max_step_c (temperature safety))"
    and "safe_bounds (min_rpm (stirrer safety)) (max_rpm (stirrer safety)) (max_step_rpm (stirrer safety))"
    and "0 < sensor_timeout_ms (control safety)"
  using assms by (auto simp: wf_safety_def)

lemma decide_control_total [panic_free]:
  assumes "wf_safety safety"
  shows "\<exists>d. decide_control_with_device_status now safety sample tg auto lock estop fault status = Some d"
proof -
  have "\<exists>t. clamp_step c d (min_c (temperature safety)) (max_c (temperature safety))
      (max_step_c (temperature safety)) = Some t"
    and "\<exists>t. clamp_step c d (min_rpm (stirrer safety)) (max_rpm (stirrer safety))
      (max_step_rpm (stirrer safety)) = Some t" for c d
    by (intro clamp_step_total wf_safety_bounds assms)+
  then show ?thesis
    by (auto simp: decide_control_with_device_status_def split: option.split bind_split)
      (metis option.distinct(1))+
qed

text \<open>A status does not block: absent and not required, or healthy with no failed command.\<close>

definition status_clear :: "time \<Rightarrow> safety_config \<Rightarrow> device_status_snapshot option \<Rightarrow> bool" where
  "status_clear now safety status \<longleftrightarrow> (case status of
       None \<Rightarrow> \<not> require_device_status_for_control (control safety)
     | Some st \<Rightarrow> healthy_status now (sensor_timeout_ms (control safety)) st
                  \<and> last_command_ok st \<noteq> Some False)"

lemma device_status_block_None_iff:
  "device_status_block now safety status = None \<longleftrightarrow> status_clear now safety status"
  by (auto simp: device_status_block_def status_clear_def field_fault_None_iff
      command_fault_None_iff split: option.split)

text \<open>The command for a fresh sample, as a function of the sample and the targets.\<close>

definition set_point :: "safety_config \<Rightarrow> sensor_snapshot \<Rightarrow> control_targets \<Rightarrow> (f64 \<times> f64) option" where
  "set_point safety s tg =
     Option.bind (clamp_step (s_temperature_c s) (t_temperature_c tg)
        (min_c (temperature safety)) (max_c (temperature safety)) (max_step_c (temperature safety)))
     (\<lambda>temp. map_option (Pair temp) (clamp_step (s_stirrer_rpm s) (t_stirrer_rpm tg)
        (min_rpm (stirrer safety)) (max_rpm (stirrer safety)) (max_step_rpm (stirrer safety))))"

lemma decide_write_iff:
  "decide_control_with_device_status now safety sample tg auto lock estop fault status = Some (Write cmd)
   \<longleftrightarrow> \<not> estop \<and> \<not> lock \<and> fault = None \<and> auto \<and> status_clear now safety status
     \<and> (\<exists>s temp rpm. sample = Some s
         \<and> timestamp_is_fresh now (s_captured_at s) (sensor_timeout_ms (control safety))
         \<and> set_point safety s tg = Some (temp, rpm)
         \<and> \<not> is_forbidden_control_zone safety temp rpm \<and> cmd = make_command temp rpm tg)"
  by (auto simp: decide_control_with_device_status_def set_point_def device_status_block_None_iff
      bind_eq_Some_conv split: option.split if_splits)
    (auto simp: device_status_block_None_iff [symmetric])

lemma set_point_range:
  assumes "wf_safety safety" "is_finite (s_temperature_c s)" "is_finite (s_stirrer_rpm s)"
    "\<not> is_nan (t_temperature_c tg)" "\<not> is_nan (t_stirrer_rpm tg)"
    "set_point safety s tg = Some (temp, rpm)"
  shows "in_range (min_c (temperature safety)) (max_c (temperature safety)) temp"
    and "in_range (min_rpm (stirrer safety)) (max_rpm (stirrer safety)) rpm"
    and "in_range (min_c (temperature safety)) (max_c (temperature safety)) (s_temperature_c s)
      \<Longrightarrow> wf_f64 (s_temperature_c s) \<Longrightarrow>
      in_range (f64_add (s_temperature_c s) (f64_neg (max_step_c (temperature safety))))
        (f64_add (s_temperature_c s) (max_step_c (temperature safety))) temp"
    and "in_range (min_rpm (stirrer safety)) (max_rpm (stirrer safety)) (s_stirrer_rpm s)
      \<Longrightarrow> wf_f64 (s_stirrer_rpm s) \<Longrightarrow>
      in_range (f64_add (s_stirrer_rpm s) (f64_neg (max_step_rpm (stirrer safety))))
        (f64_add (s_stirrer_rpm s) (max_step_rpm (stirrer safety))) rpm"
proof -
  from assms(6) have t: "clamp_step (s_temperature_c s) (t_temperature_c tg)
        (min_c (temperature safety)) (max_c (temperature safety)) (max_step_c (temperature safety)) = Some temp"
    and r: "clamp_step (s_stirrer_rpm s) (t_stirrer_rpm tg)
        (min_rpm (stirrer safety)) (max_rpm (stirrer safety)) (max_step_rpm (stirrer safety)) = Some rpm"
    by (auto simp: set_point_def bind_eq_Some_conv)
  note T = clamp_step_range [OF wf_safety_bounds(1) [OF assms(1)] assms(2,4) t]
  note R = clamp_step_range [OF wf_safety_bounds(2) [OF assms(1)] assms(3,5) r]
  show "in_range (min_c (temperature safety)) (max_c (temperature safety)) temp" by (rule T(1))
  show "in_range (min_rpm (stirrer safety)) (max_rpm (stirrer safety)) rpm" by (rule R(1))
  show "in_range (min_c (temperature safety)) (max_c (temperature safety)) (s_temperature_c s)
      \<Longrightarrow> wf_f64 (s_temperature_c s) \<Longrightarrow>
      in_range (f64_add (s_temperature_c s) (f64_neg (max_step_c (temperature safety))))
        (f64_add (s_temperature_c s) (max_step_c (temperature safety))) temp" by (rule T(2))
  show "in_range (min_rpm (stirrer safety)) (max_rpm (stirrer safety)) (s_stirrer_rpm s)
      \<Longrightarrow> wf_f64 (s_stirrer_rpm s) \<Longrightarrow>
      in_range (f64_add (s_stirrer_rpm s) (f64_neg (max_step_rpm (stirrer safety))))
        (f64_add (s_stirrer_rpm s) (max_step_rpm (stirrer safety))) rpm" by (rule R(2))
qed

text \<open>Bounds written with two decimals survive \<open>round2\<close>.\<close>

definition two_decimal_bounds :: "safety_config \<Rightarrow> bool" where
  "two_decimal_bounds safety \<longleftrightarrow>
     two_decimals (min_c (temperature safety)) \<and> two_decimals (max_c (temperature safety))
     \<and> two_decimals (min_rpm (stirrer safety)) \<and> two_decimals (max_rpm (stirrer safety))"

definition command_in_limits :: "safety_config \<Rightarrow> safe_command \<Rightarrow> bool" where
  "command_in_limits safety cmd \<longleftrightarrow>
     in_range (min_c (temperature safety)) (max_c (temperature safety)) (c_target_temperature_c cmd)
     \<and> in_range (min_rpm (stirrer safety)) (max_rpm (stirrer safety)) (c_target_stirrer_rpm cmd)"

lemma make_command_in_limits:
  assumes "two_decimal_bounds safety"
    "in_range (min_c (temperature safety)) (max_c (temperature safety)) temp"
    "in_range (min_rpm (stirrer safety)) (max_rpm (stirrer safety)) rpm"
  shows "command_in_limits safety (make_command temp rpm tg)"
  using assms round2_two_decimals round2_in_range
  by (simp add: command_in_limits_def two_decimal_bounds_def make_command_def)

text \<open>Targets and samples the controller may be given: a validated sample, targets without NaN.\<close>

definition usable_targets :: "control_targets \<Rightarrow> bool" where
  "usable_targets tg \<longleftrightarrow> \<not> is_nan (t_temperature_c tg) \<and> \<not> is_nan (t_stirrer_rpm tg)"

lemma plausible_finite:
  "plausible_sample s \<Longrightarrow> is_finite (s_temperature_c s) \<and> is_finite (s_stirrer_rpm s)"
  by (simp add: plausible_sample_def in_range_Num)

lemma decide_write_in_limits:
  assumes "wf_safety safety" "two_decimal_bounds safety" "usable_targets tg"
    "\<forall>s. sample = Some s \<longrightarrow> plausible_sample s"
    "decide_control_with_device_status now safety sample tg auto lock estop fault status = Some (Write cmd)"
  shows "command_in_limits safety cmd"
proof -
  obtain s temp rpm where w: "sample = Some s" "set_point safety s tg = Some (temp, rpm)"
    "cmd = make_command temp rpm tg" using assms(5) unfolding decide_write_iff by blast
  then have fin: "is_finite (s_temperature_c s)" "is_finite (s_stirrer_rpm s)"
    using assms(4) plausible_finite by auto
  show ?thesis unfolding w(3) using assms(2,3) fin w(2) set_point_range(1,2) [OF assms(1)]
    by (intro make_command_in_limits) (auto simp: usable_targets_def)
qed

lemma decide_write_step_limited:
  assumes "wf_safety safety" "usable_targets tg" "plausible_sample s"
    "wf_f64 (s_temperature_c s)" "wf_f64 (s_stirrer_rpm s)"
    "in_range (min_c (temperature safety)) (max_c (temperature safety)) (s_temperature_c s)"
    "in_range (min_rpm (stirrer safety)) (max_rpm (stirrer safety)) (s_stirrer_rpm s)"
    "decide_control_with_device_status now safety (Some s) tg auto lock estop fault status = Some (Write cmd)"
  shows "in_range (round2 (f64_add (s_temperature_c s) (f64_neg (max_step_c (temperature safety)))))
        (round2 (f64_add (s_temperature_c s) (max_step_c (temperature safety)))) (c_target_temperature_c cmd)
      \<and> in_range (round2 (f64_add (s_stirrer_rpm s) (f64_neg (max_step_rpm (stirrer safety)))))
        (round2 (f64_add (s_stirrer_rpm s) (max_step_rpm (stirrer safety)))) (c_target_stirrer_rpm cmd)"
proof -
  obtain temp rpm where w: "set_point safety s tg = Some (temp, rpm)"
    "cmd = make_command temp rpm tg" using assms(8) unfolding decide_write_iff by blast
  have fin: "is_finite (s_temperature_c s)" "is_finite (s_stirrer_rpm s)"
    and nn: "\<not> is_nan (t_temperature_c tg)" "\<not> is_nan (t_stirrer_rpm tg)"
    using assms(2,3) plausible_finite by (auto simp: usable_targets_def)
  show ?thesis
    using set_point_range(3,4) [OF assms(1) fin nn w(1)] assms(4-7) round2_mono
    by (simp add: w(2) make_command_def in_range_def)
qed

section \<open>Operator targets\<close>

lemma clamp_operator_targets_total [panic_free]:
  assumes "wf_safety safety"
  shows "\<exists>t. clamp_operator_targets safety tg = Some t"
proof -
  have "f64_le (min_c (temperature safety)) (max_c (temperature safety))"
    "f64_le (min_rpm (stirrer safety)) (max_rpm (stirrer safety))"
    using wf_safety_bounds [OF assms] by (auto simp: safe_bounds_def)
  then show ?thesis
    by (simp add: clamp_operator_targets_def f64_clamp_def)
qed


definition targets_in_limits :: "safety_config \<Rightarrow> control_targets \<Rightarrow> bool" where
  "targets_in_limits safety t \<longleftrightarrow>
     in_range (min_c (temperature safety)) (max_c (temperature safety)) (t_temperature_c t)
     \<and> in_range (Num 0) (Num 3600) (t_heat_time_s t) \<and> in_range (Num 0) (Num 7200) (t_hold_time_s t)
     \<and> in_range (Num 0) (Num 3600) (t_cool_time_s t)
     \<and> in_range (min_rpm (stirrer safety)) (max_rpm (stirrer safety)) (t_stirrer_rpm t)
     \<and> in_range (Num 0) (Num 60) (t_shake_speed_cpm t)
     \<and> in_range (Num 0) (Num 10) (t_target_pressure_mpa t)"

definition no_nan_targets :: "control_targets \<Rightarrow> bool" where
  "no_nan_targets t \<longleftrightarrow> \<not> is_nan (t_temperature_c t) \<and> \<not> is_nan (t_heat_time_s t)
     \<and> \<not> is_nan (t_hold_time_s t) \<and> \<not> is_nan (t_cool_time_s t) \<and> \<not> is_nan (t_stirrer_rpm t)
     \<and> \<not> is_nan (t_shake_speed_cpm t) \<and> \<not> is_nan (t_target_pressure_mpa t)"

lemma clamp_round2_in_range:
  assumes "f64_clamp x lo hi = Some y" "\<not> is_nan x" "round2 lo = lo" "round2 hi = hi"
  shows "in_range lo hi (round2 y)"
  using f64_clamp_in_range [OF assms(1,2)] assms(3,4) by (rule round2_in_range)

lemma clamp_operator_targets_limits:
  assumes "two_decimal_bounds safety" "no_nan_targets tg" "clamp_operator_targets safety tg = Some t"
  shows "targets_in_limits safety t"
  using assms unfolding two_decimal_bounds_def no_nan_targets_def clamp_operator_targets_def
  by (auto simp: bind_eq_Some_conv targets_in_limits_def
      intro!: clamp_round2_in_range round2_two_decimals)

lemma clamp_round2_fixed:
  assumes "f64_clamp x lo hi = Some y" "\<not> is_nan x" "two_decimals lo" "two_decimals hi"
    "in_range (Num (- 1000000000)) (Num 1000000000) lo" "in_range (Num (- 1000000000)) (Num 1000000000) hi"
  shows "f64_clamp (round2 y) lo hi = Some (round2 y) \<and> round2 (round2 y) = round2 y"
proof -
  have "in_range lo hi y" using f64_clamp_in_range [OF assms(1,2)] .
  then have "in_range (Num (- 1000000000)) (Num 1000000000) y"
    using assms(5,6) f64_le_trans unfolding in_range_def by blast
  moreover have "in_range lo hi (round2 y)"
    using clamp_round2_in_range [OF assms(1,2)] assms(3,4) round2_two_decimals by blast
  ultimately show ?thesis using round2_idem f64_clamp_id by blast
qed

text \<open>Bounds small enough for cent arithmetic to be exact.\<close>

definition moderate_bounds :: "safety_config \<Rightarrow> bool" where
  "moderate_bounds safety \<longleftrightarrow>
     list_all (in_range (Num (- 1000000000)) (Num 1000000000))
       [min_c (temperature safety), max_c (temperature safety),
        min_rpm (stirrer safety), max_rpm (stirrer safety)]"

lemma clamp_operator_targets_idem:
  assumes "two_decimal_bounds safety" "moderate_bounds safety" "no_nan_targets tg"
    "clamp_operator_targets safety tg = Some t"
  shows "clamp_operator_targets safety t = Some t"
  using assms(4) [unfolded clamp_operator_targets_def bind_eq_Some_conv]
proof (elim exE conjE)
  fix a b c d e f g
  assume cl: "f64_clamp (t_temperature_c tg) (min_c (temperature safety)) (max_c (temperature safety)) = Some a"
    "f64_clamp (t_heat_time_s tg) (lit 0) (lit 3600) = Some b"
    "f64_clamp (t_hold_time_s tg) (lit 0) (lit 7200) = Some c"
    "f64_clamp (t_cool_time_s tg) (lit 0) (lit 3600) = Some d"
    "f64_clamp (t_stirrer_rpm tg) (min_rpm (stirrer safety)) (max_rpm (stirrer safety)) = Some e"
    "f64_clamp (t_shake_speed_cpm tg) (lit 0) (lit 60) = Some f"
    "f64_clamp (t_target_pressure_mpa tg) (lit 0) (lit 10) = Some g"
    and t: "Some \<lparr>t_temperature_c = round2 a, t_heat_time_s = round2 b, t_hold_time_s = round2 c,
       t_cool_time_s = round2 d, t_stirrer_rpm = round2 e, t_shake_speed_cpm = round2 f,
       t_target_pressure_mpa = round2 g\<rparr> = Some t"
  note fixed = cl [THEN clamp_round2_fixed]
  show "clamp_operator_targets safety t = Some t" using t fixed assms(1-3)
    by (auto simp: clamp_operator_targets_def two_decimal_bounds_def moderate_bounds_def
        no_nan_targets_def in_range_Num)
qed


section \<open>Properties\<close>

text \<open>The controller cannot panic: with a safety configuration that passed validation, the decision
  is defined for every sample, targets (NaN and infinities included), latch state, device status and
  clock reading. In the release build a panic would abort the daemon.\<close>

theorem decide_never_panics:
  assumes "validate_safety_config safety = Ok ()"
  shows "\<exists>d. decide_control_with_device_status now safety sample tg auto lock estop fault status = Some d"
  using assms decide_control_total by (simp add: validate_safety_config_iff)


text \<open>A command never moves a set point further than one step from the measured value: when the
  measured temperature and stirrer speed are within the configured limits, the commanded values lie
  between the measured value minus and plus the maximal step (each bound rounded like the command).\<close>

theorem decide_step_limited:
  assumes "wf_safety safety" "usable_targets tg" "plausible_sample s"
    "wf_f64 (s_temperature_c s)" "wf_f64 (s_stirrer_rpm s)"
    "in_range (min_c (temperature safety)) (max_c (temperature safety)) (s_temperature_c s)"
    "in_range (min_rpm (stirrer safety)) (max_rpm (stirrer safety)) (s_stirrer_rpm s)"
    "decide_control_with_device_status now safety (Some s) tg auto lock estop fault status = Some (Write cmd)"
  shows "in_range (round2 (f64_add (s_temperature_c s) (f64_neg (max_step_c (temperature safety)))))
        (round2 (f64_add (s_temperature_c s) (max_step_c (temperature safety)))) (c_target_temperature_c cmd)
      \<and> in_range (round2 (f64_add (s_stirrer_rpm s) (f64_neg (max_step_rpm (stirrer safety)))))
        (round2 (f64_add (s_stirrer_rpm s) (max_step_rpm (stirrer safety)))) (c_target_stirrer_rpm cmd)"
  using assms by (rule decide_write_step_limited)


section \<open>Witnesses\<close>

text \<open>A plausible sample and a healthy device status at time 0.\<close>

definition demo_sample :: sensor_snapshot where
  "demo_sample = \<lparr>s_temperature_c = Num 60, s_pressure_mpa = Num 1, s_stirrer_rpm = Num 300,
     s_shake_speed_cpm = Num 30, s_tilt_state = 0, s_tilt_angle_deg = Num 0, s_flow_rate_l_min = Num 2,
     s_product_concentration_percent = Num 10, s_ph = Num 7, s_captured_at = 0\<rparr>"

definition demo_status :: device_status_snapshot where
  "demo_status = \<lparr>connected = True, last_seen_at = Some 0, last_frame_ok = True, ds_relay = None,
     ds_motor = None, ds_tilt = None, ds_speed_delay_us = None, ds_port = None, ds_baudrate = None,
     last_command_request_id = None, last_command_ok = None, last_command_error = None, updated_at = 0\<rparr>"

lemma demo_sample_plausible: "validate_sensor_snapshot demo_sample = Ok ()"
  by (simp add: validate_sensor_snapshot_iff plausible_sample_def demo_sample_def in_range_Num)

lemma shipped_two_decimals [simp]: "two_decimal_bounds shipped_safety"
  by (simp add: two_decimal_bounds_def shipped_safety_def)

lemma half_two_decimals: "rnd (1 / 2) = Num (1 / 2)" "round2 (Num (1 / 2)) = Num (1 / 2)"
proof -
  show r: "rnd (1 / 2) = Num (1 / 2)"
    by (rule rnd_representable, unfold representable_def, intro conjI exI [of _ 1] exI [of _ "- 1"])
      (simp_all add: f64_limit_def)
  have "two_decimals (Num (1 / 2))" unfolding two_decimals_def
    by (rule exI [of _ 50]) (simp add: r)
  then show "round2 (Num (1 / 2)) = Num (1 / 2)" by (rule round2_two_decimals)
qed

lemma demo_set_point:
  "set_point shipped_safety demo_sample (targets (from_safety shipped_safety)) = Some (Num 60, Num 300)"
  by (simp add: demo_sample_def from_safety_def shipped_safety_def set_point_def clamp_step_def
      f64_clamp_def f64_sub_def f64_neg_def f64_add_def)

lemma demo_not_forbidden: "\<not> is_forbidden_control_zone shipped_safety (Num 60) (Num 300)"
  by (simp add: is_forbidden_control_zone_def zone_contains_def shipped_safety_def)

lemma demo_status_clear: "status_clear 0 shipped_safety (Some demo_status)"
  by (simp add: status_clear_def healthy_status_def demo_status_def timestamp_is_fresh_def
      timestamp_age_ms_def trunc_div_def shipped_safety_def)

lemma demo_fresh:
  "timestamp_is_fresh 0 (s_captured_at demo_sample) (sensor_timeout_ms (control shipped_safety))"
  by (simp add: demo_sample_def timestamp_is_fresh_def timestamp_age_ms_def trunc_div_def shipped_safety_def)

lemma demo_decide:
  "decide_control_with_device_status 0 shipped_safety (Some demo_sample) (targets (from_safety shipped_safety))
     True False False None (Some demo_status)
   = Some (Write (make_command (Num 60) (Num 300) (targets (from_safety shipped_safety))))"
  unfolding decide_write_iff
  using demo_set_point demo_not_forbidden demo_status_clear demo_fresh by simp

theorem decide_never_panics_witness:
  "validate_safety_config shipped_safety = Ok () \<and>
   (\<exists>d. decide_control_with_device_status 0 shipped_safety None \<lparr>t_temperature_c = NaN,
      t_heat_time_s = NaN, t_hold_time_s = NaN, t_cool_time_s = NaN, t_stirrer_rpm = Inf True,
      t_shake_speed_cpm = NaN, t_target_pressure_mpa = NaN\<rparr> True False False None None = Some d)"
  using decide_never_panics [of shipped_safety] by (simp add: validate_safety_config_iff)

theorem decide_step_limited_witness:
  "in_range (round2 (f64_add (Num 60) (f64_neg (Num 2)))) (round2 (f64_add (Num 60) (Num 2)))
     (c_target_temperature_c (make_command (Num 60) (Num 300) (targets (from_safety shipped_safety))))"
proof -
  have "usable_targets (targets (from_safety shipped_safety))"
    by (simp add: usable_targets_def from_safety_def shipped_safety_def)
  moreover have "plausible_sample demo_sample" using demo_sample_plausible validate_sensor_snapshot_iff by simp
  moreover have "wf_f64 (s_temperature_c demo_sample)" "wf_f64 (s_stirrer_rpm demo_sample)"
    using wf_f64_rnd [of 60] wf_f64_rnd [of 300] by (simp_all add: demo_sample_def)
  moreover have "in_range (min_c (temperature shipped_safety)) (max_c (temperature shipped_safety)) (s_temperature_c demo_sample)"
    "in_range (min_rpm (stirrer shipped_safety)) (max_rpm (stirrer shipped_safety)) (s_stirrer_rpm demo_sample)"
    by (simp_all add: demo_sample_def shipped_safety_def in_range_def)
  ultimately have "in_range (round2 (f64_add (s_temperature_c demo_sample)
        (f64_neg (max_step_c (temperature shipped_safety)))))
      (round2 (f64_add (s_temperature_c demo_sample) (max_step_c (temperature shipped_safety))))
      (c_target_temperature_c (make_command (Num 60) (Num 300) (targets (from_safety shipped_safety))))"
    using decide_step_limited [OF shipped_safety_valid _ _ _ _ _ _ demo_decide] by blast
  then show ?thesis by (simp add: demo_sample_def shipped_safety_def)
qed


section \<open>Rounding after the zone check\<close>

text \<open>A value just below 125 that rounds to it.\<close>

lemma edge_rounds_into_zone: "round2 (Num (31999 / 256)) = Num 125"
proof -
  let ?x = "31999 / 256 :: rat"
  have cents: "representable (?x * 100)" unfolding representable_def
    by (rule conjI, rule exI [of _ 3199900], rule exI [of _ "- 8"])
      (simp_all add: f64_limit_def power_int_def power_divide)
  have "\<lfloor>800007 / 64 :: rat\<rfloor> = 12500" by (rule floor_unique) simp_all
  then show ?thesis using rnd_representable [OF cents]
    by (simp add: round2_def f64_mul_pos f64_div_pos f64_round_def round_half_away_def Let_def)
qed

text \<open>The forbidden-zone check is made before rounding, so a command can enter a zone: at 124 + 255/256
  degrees and 300 rpm the shipped zone (from 125.0 degrees, up to 350 rpm) does not contain the set
  point, and the command that is issued is 125.0 degrees, inside the zone.\<close>

theorem rounded_command_in_forbidden_zone:
  "\<exists>s tg cmd. validate_sensor_snapshot s = Ok () \<and>
     decide_control_with_device_status 0 shipped_safety (Some s) tg True False False None (Some demo_status)
       = Some (Write cmd)
     \<and> is_forbidden_control_zone shipped_safety (c_target_temperature_c cmd) (c_target_stirrer_rpm cmd)"
proof -
  let ?x = "31999 / 256 :: rat"
  let ?s = "demo_sample\<lparr>s_temperature_c := Num ?x\<rparr>"
  let ?tg = "(targets (from_safety shipped_safety))\<lparr>t_temperature_c := Num ?x\<rparr>"
  have rep: "representable ?x" unfolding representable_def
    by (rule conjI, rule exI [of _ 31999], rule exI [of _ "- 8"])
      (simp_all add: f64_limit_def power_int_def power_divide)
  have sp: "set_point shipped_safety ?s ?tg = Some (Num ?x, Num 300)"
    by (simp add: demo_sample_def from_safety_def shipped_safety_def set_point_def clamp_step_def
        f64_clamp_def f64_sub_def f64_neg_def f64_add_def rnd_representable [OF rep])
  have nz: "\<not> is_forbidden_control_zone shipped_safety (Num ?x) (Num 300)"
    by (simp add: is_forbidden_control_zone_def zone_contains_def shipped_safety_def)
  note r = edge_rounds_into_zone
  have "validate_sensor_snapshot ?s = Ok ()"
    by (simp add: validate_sensor_snapshot_iff plausible_sample_def demo_sample_def in_range_Num)
  moreover have "decide_control_with_device_status 0 shipped_safety (Some ?s) ?tg True False False None
      (Some demo_status) = Some (Write (make_command (Num ?x) (Num 300) ?tg))"
    unfolding decide_write_iff using sp nz demo_status_clear demo_fresh by (simp add: demo_sample_def)
  moreover have "is_forbidden_control_zone shipped_safety (round2 (Num ?x)) (round2 (Num 300))"
    unfolding r by (simp add: is_forbidden_control_zone_def zone_contains_def shipped_safety_def)
  ultimately show ?thesis by (fastforce simp: make_command_def)
qed

end
