(* ===== verification/Auth.thy ===== *)
theory Auth
  imports Text_Format
begin

text \<open>
  Sessions and roles: \<open>api_response.rs\<close> (error values), \<open>api_auth.rs\<close> (login, bearer tokens,
  permissions, password changes) and the network gate of \<open>bootstrap.rs\<close>.

  SHA-256 in hexadecimal is a parameter \<open>sha\<close>; what the proofs use of it is that its output is a
  non-empty text without a colon (\<open>hex_output\<close>). The environment variables the code reads are fields
  of \<open>auth_env\<close>. The authorization header is the text \<open>HeaderMap\<close> yields, or \<open>None\<close> when it is
  absent or not visible ASCII.
\<close>

section \<open>Errors\<close>

datatype status_code = BadRequest | Unauthorized | Forbidden | NotFound | Conflict
  | ServiceUnavailable | InternalServerError

record app_error =
  err_status :: status_code
  err_message :: string

definition bad_request :: "string \<Rightarrow> app_error" where
  "bad_request msg = \<lparr>err_status = BadRequest, err_message = msg\<rparr>"

definition unauthorized :: "string \<Rightarrow> app_error" where
  "unauthorized msg = \<lparr>err_status = Unauthorized, err_message = msg\<rparr>"

definition forbidden :: "string \<Rightarrow> app_error" where
  "forbidden msg = \<lparr>err_status = Forbidden, err_message = msg\<rparr>"

definition not_found :: "string \<Rightarrow> app_error" where
  "not_found msg = \<lparr>err_status = NotFound, err_message = msg\<rparr>"

definition conflict :: "string \<Rightarrow> app_error" where
  "conflict msg = \<lparr>err_status = Conflict, err_message = msg\<rparr>"

definition service_unavailable :: "string \<Rightarrow> app_error" where
  "service_unavailable msg = \<lparr>err_status = ServiceUnavailable, err_message = msg\<rparr>"

definition with_message_prefix :: "string \<Rightarrow> app_error \<Rightarrow> app_error" where
  "with_message_prefix prefix e = e\<lparr>err_message := prefix @ '': '' @ err_message e\<rparr>"

text \<open>An internal error hides its cause from the client.\<close>

definition internal_error :: app_error where
  "internal_error = \<lparr>err_status = InternalServerError, err_message = ''internal server error''\<rparr>"

section \<open>Roles and permissions\<close>

datatype auth_role = Operator | Engineer | Admin

datatype permission = ViewMonitor | ViewHistory | ViewAudit | ExportReports | EditProcess
  | StartStopProcess | SetSafeTargets | ApplyAiSuggestion | PermEmergencyStop | ModbusDebug
  | EditSystemConfig | DeleteData | ManageUsers | IngestSensorSample | ApplyIntegrationTask

definition all_permissions :: "permission list" where
  "all_permissions = [ViewMonitor, ViewHistory, ViewAudit, ExportReports, EditProcess,
     StartStopProcess, SetSafeTargets, ApplyAiSuggestion, PermEmergencyStop, ModbusDebug,
     EditSystemConfig, DeleteData, ManageUsers, IngestSensorSample, ApplyIntegrationTask]"

fun permission_name :: "permission \<Rightarrow> string" where
  "permission_name ViewMonitor = ''view_monitor''"
| "permission_name ViewHistory = ''view_history''"
| "permission_name ViewAudit = ''view_audit''"
| "permission_name ExportReports = ''export_reports''"
| "permission_name EditProcess = ''edit_process''"
| "permission_name StartStopProcess = ''start_stop_process''"
| "permission_name SetSafeTargets = ''set_safe_targets''"
| "permission_name ApplyAiSuggestion = ''apply_ai_suggestion''"
| "permission_name PermEmergencyStop = ''emergency_stop''"
| "permission_name ModbusDebug = ''modbus_debug''"
| "permission_name EditSystemConfig = ''edit_system_config''"
| "permission_name DeleteData = ''delete_data''"
| "permission_name ManageUsers = ''manage_users''"
| "permission_name IngestSensorSample = ''ingest_sensor_sample''"
| "permission_name ApplyIntegrationTask = ''apply_integration_task''"

fun role_allows :: "auth_role \<Rightarrow> permission \<Rightarrow> bool" where
  "role_allows Operator p \<longleftrightarrow> p \<in> {ViewMonitor, ViewHistory, ExportReports, StartStopProcess,
     SetSafeTargets, ApplyAiSuggestion, PermEmergencyStop}"
| "role_allows Engineer p \<longleftrightarrow> p \<in> {ViewMonitor, ViewHistory, ViewAudit, ExportReports, EditProcess,
     StartStopProcess, SetSafeTargets, ApplyAiSuggestion, PermEmergencyStop, ModbusDebug,
     IngestSensorSample, ApplyIntegrationTask}"
| "role_allows Admin p \<longleftrightarrow> True"

definition permission_names_for_role :: "auth_role \<Rightarrow> string list" where
  "permission_names_for_role role = map permission_name (filter (role_allows role) all_permissions)"

definition blocked_permission_names_for_role :: "auth_role \<Rightarrow> string list" where
  "blocked_permission_names_for_role role =
     map permission_name (filter (\<lambda>p. \<not> role_allows role p) all_permissions)"

fun role_name :: "auth_role \<Rightarrow> string" where
  "role_name Operator = ''operator''"
| "role_name Engineer = ''engineer''"
| "role_name Admin = ''admin''"

definition role_from_name :: "string \<Rightarrow> auth_role option" where
  "role_from_name role =
     (if role = ''operator'' then Some Operator
      else if role = ''engineer'' then Some Engineer
      else if role = ''admin'' then Some Admin
      else None)"

record auth_user =
  username :: string
  user_role :: string
  permissions :: "string list"

definition make_auth_user :: "string \<Rightarrow> auth_role \<Rightarrow> auth_user" where
  "make_auth_user name role =
     \<lparr>username = name, user_role = role_name role, permissions = permission_names_for_role role\<rparr>"

record audit_actor =
  actor_username :: string
  actor_role :: string

definition audit_actor_for_user :: "auth_user \<Rightarrow> audit_actor" where
  "audit_actor_for_user user = \<lparr>actor_username = username user, actor_role = user_role user\<rparr>"

definition system_actor :: audit_actor where
  "system_actor = \<lparr>actor_username = ''system'', actor_role = ''system''\<rparr>"

section \<open>Sessions\<close>

record auth_env =
  env_secret :: "string option"
  env_operator_password :: "string option"
  env_engineer_password :: "string option"
  env_admin_password :: "string option"

definition auth_secret :: "auth_env \<Rightarrow> string" where
  "auth_secret env = unwrap_or (env_secret env) ''xingshu-local-rbac-session-secret''"

definition auth_signature :: "(string \<Rightarrow> string) \<Rightarrow> auth_env \<Rightarrow> string \<Rightarrow> string" where
  "auth_signature sha env payload = sha (auth_secret env @ '':'' @ payload)"

definition password_override_hash :: "(string \<Rightarrow> string) \<Rightarrow> auth_env \<Rightarrow> string \<Rightarrow> string \<Rightarrow> string" where
  "password_override_hash sha env name password =
     sha (auth_secret env @ '':'' @ name @ '':'' @ password)"

definition issue_auth_token ::
    "(string \<Rightarrow> string) \<Rightarrow> auth_env \<Rightarrow> string \<Rightarrow> auth_role \<Rightarrow> int \<Rightarrow> string" where
  "issue_auth_token sha env name role expires =
     (let payload = name @ '':'' @ role_name role @ '':'' @ show_int expires
      in payload @ '':'' @ auth_signature sha env payload)"

definition timestamp_secs :: "time \<Rightarrow> int" where
  "timestamp_secs t = t div 1000000000"

definition bearer_prefix :: string where
  "bearer_prefix = ''Bearer ''"

definition authenticated_user ::
    "(string \<Rightarrow> string) \<Rightarrow> auth_env \<Rightarrow> time \<Rightarrow> string option \<Rightarrow> app_error + auth_user" where
  "authenticated_user sha env now header = (case header of
       None \<Rightarrow> Err (unauthorized ''missing bearer session token'')
     | Some h \<Rightarrow>
       if take 7 h \<noteq> bearer_prefix then Err (unauthorized ''authorization must use Bearer token'')
       else
         (let parts = split_on CHR '':'' (drop 7 h);
              part = (\<lambda>i. if i < length parts then parts ! i else []);
              name = part 0; role_text = part 1; expires_text = part 2; signature = part 3
          in if name = [] \<or> role_text = [] \<or> expires_text = [] \<or> signature = [] \<or> 4 < length parts
             then Err (unauthorized ''invalid bearer session token'')
             else case parse_i64 expires_text of
               None \<Rightarrow> Err (unauthorized ''invalid bearer session expiry'')
             | Some expires \<Rightarrow>
               if timestamp_secs now > expires then Err (unauthorized ''bearer session has expired'')
               else if auth_signature sha env (name @ '':'' @ role_text @ '':'' @ expires_text) \<noteq> signature
               then Err (unauthorized ''invalid bearer session signature'')
               else case role_from_name role_text of
                 None \<Rightarrow> Err (unauthorized ''invalid bearer session role'')
               | Some role \<Rightarrow> Ok (make_auth_user name role)))"

definition require_permission ::
    "(string \<Rightarrow> string) \<Rightarrow> auth_env \<Rightarrow> time \<Rightarrow> string option \<Rightarrow> permission \<Rightarrow> app_error + auth_user" where
  "require_permission sha env now header p =
     bind_res (authenticated_user sha env now header) (\<lambda>user.
     bind_res (ok_or (role_from_name (user_role user)) (unauthorized ''invalid bearer session role''))
       (\<lambda>role.
     if \<not> role_allows role p
     then Err (forbidden (''role '' @ [CHR 0x27] @ user_role user @ [CHR 0x27] @ '' lacks permission ''
            @ [CHR 0x27] @ permission_name p @ [CHR 0x27]))
     else Ok user))"

definition require_admin ::
    "(string \<Rightarrow> string) \<Rightarrow> auth_env \<Rightarrow> time \<Rightarrow> string option \<Rightarrow> app_error + auth_user" where
  "require_admin sha env now header =
     bind_res (authenticated_user sha env now header) (\<lambda>user.
     bind_res (ok_or (role_from_name (user_role user)) (unauthorized ''invalid bearer session role''))
       (\<lambda>role.
     if role \<noteq> Admin then Err (forbidden ''modbus debug writes require admin role'') else Ok user))"

section \<open>Login and password changes\<close>

text \<open>The stored password overrides are a map from user names to hashes.\<close>

definition candidate_accepts ::
    "(string \<Rightarrow> string) \<Rightarrow> auth_env \<Rightarrow> string \<Rightarrow> string \<Rightarrow> (string \<rightharpoonup> string) \<Rightarrow> string \<Rightarrow> string \<Rightarrow> bool" where
  "candidate_accepts sha env name password overrides candidate expected \<longleftrightarrow>
     name = candidate \<and>
     (case overrides name of
        Some hash \<Rightarrow> hash = password_override_hash sha env name password
      | None \<Rightarrow> password = expected)"

definition role_for_login ::
    "(string \<Rightarrow> string) \<Rightarrow> auth_env \<Rightarrow> string \<Rightarrow> string \<Rightarrow> (string \<rightharpoonup> string) \<Rightarrow> auth_role option" where
  "role_for_login sha env name password overrides =
     map_option (\<lambda>(_, _, role). role)
       (find (\<lambda>(candidate, expected, _). candidate_accepts sha env name password overrides candidate expected)
         [(''operator'', unwrap_or (env_operator_password env) ''operator123'', Operator),
          (''engineer'', unwrap_or (env_engineer_password env) ''engineer123'', Engineer),
          (''admin'', unwrap_or (env_admin_password env) ''admin123'', Admin)])"

record login_response =
  token :: string
  login_user :: auth_user
  expires_at :: time

definition make_login_response ::
    "(string \<Rightarrow> string) \<Rightarrow> auth_env \<Rightarrow> time \<Rightarrow> string \<Rightarrow> string \<Rightarrow> (string \<rightharpoonup> string)
     \<Rightarrow> app_error + login_response" where
  "make_login_response sha env now raw_name password overrides =
     (let name = map ascii_lower (trim raw_name) in
      case role_for_login sha env name password overrides of
        None \<Rightarrow> Err (unauthorized ''invalid username or password'')
      | Some role \<Rightarrow>
          (let expires = now + 12 * 3600 * 1000000000
           in Ok \<lparr>token = issue_auth_token sha env name role (timestamp_secs expires),
                  login_user = make_auth_user name role, expires_at = expires\<rparr>))"

definition prepare_password_change ::
    "(string \<Rightarrow> string) \<Rightarrow> auth_env \<Rightarrow> string \<Rightarrow> string \<Rightarrow> string \<Rightarrow> (string \<rightharpoonup> string)
     \<Rightarrow> app_error + string" where
  "prepare_password_change sha env name old_password new_password overrides =
     (if role_for_login sha env name old_password overrides = None
      then Err (unauthorized ''current password is incorrect'')
      else let new = trim new_password in
        if length new < 6 then Err (bad_request ''new password must be at least 6 characters'')
        else if new = old_password
        then Err (bad_request ''new password must differ from the current password'')
        else Ok (password_override_hash sha env name new))"

section \<open>The network gate (\<open>bootstrap.rs\<close>)\<close>

definition login_password_is_exposure_safe :: "string \<Rightarrow> bool" where
  "login_password_is_exposure_safe password \<longleftrightarrow>
     password \<noteq> [] \<and> 12 \<le> length password \<and> password \<noteq> ''operator123''
     \<and> password \<noteq> ''engineer123'' \<and> password \<noteq> ''admin123''"

definition auth_secret_is_exposure_safe :: "string \<Rightarrow> bool" where
  "auth_secret_is_exposure_safe secret \<longleftrightarrow>
     secret \<noteq> [] \<and> secret \<noteq> ''xingshu-local-rbac-session-secret'' \<and> 32 \<le> length secret"

definition network_login_passwords :: "auth_env \<Rightarrow> (string \<times> string) list" where
  "network_login_passwords env =
     [(''operator'', unwrap_or (env_operator_password env) ''operator123''),
      (''engineer'', unwrap_or (env_engineer_password env) ''engineer123''),
      (''admin'', unwrap_or (env_admin_password env) ''admin123'')]"

datatype gate_error = WeakSecret | WeakPasswords "string list"

text \<open>The bind address matters only by whether it is a loopback address.\<close>

definition enforce_network_auth_gate :: "auth_env \<Rightarrow> bool \<Rightarrow> gate_error + unit" where
  "enforce_network_auth_gate env loopback =
     (if loopback then Ok ()
      else if \<not> (case env_secret env of Some s \<Rightarrow> auth_secret_is_exposure_safe (trim s) | None \<Rightarrow> False)
      then Err WeakSecret
      else let weak = map fst (filter (\<lambda>(_, pw). \<not> login_password_is_exposure_safe pw)
                                 (network_login_passwords env))
           in if weak \<noteq> [] then Err (WeakPasswords weak) else Ok ())"


section \<open>Facts\<close>

definition hex_output :: "(string \<Rightarrow> string) \<Rightarrow> bool" where
  "hex_output sha \<longleftrightarrow> (\<forall>x. sha x \<noteq> [] \<and> CHR '':'' \<notin> set (sha x))"

lemma role_from_role_name [simp]: "role_from_name (role_name r) = Some r"
  by (cases r) (simp_all add: role_from_name_def)

lemma role_from_name_Some: "role_from_name t = Some r \<longleftrightarrow> t = role_name r"
  by (cases r) (auto simp: role_from_name_def)

lemma role_name_plain [simp]: "role_name r \<noteq> []" "[] \<noteq> role_name r" "CHR '':'' \<notin> set (role_name r)"
  by (cases r; simp)+

lemma role_name_inject [simp]: "role_name a = role_name b \<longleftrightarrow> a = b"
  by (cases a; cases b) simp_all

lemma show_int_no_colon [simp]: "CHR '':'' \<notin> set (show_int i)"
  using set_show_int [of i] by (auto simp: is_digit_def)

lemma all_permissions_complete: "p \<in> set all_permissions"
  by (cases p) (simp_all add: all_permissions_def)

text \<open>The four fields of an accepted token.\<close>

lemma authenticated_user_token:
  assumes "CHR '':'' \<notin> set name" "CHR '':'' \<notin> set role" "CHR '':'' \<notin> set ex" "CHR '':'' \<notin> set sig"
  shows "authenticated_user sha env now (Some (bearer_prefix @ name @ '':'' @ role @ '':'' @ ex @ '':'' @ sig)) =
    (if name = [] \<or> role = [] \<or> ex = [] \<or> sig = []
     then Err (unauthorized ''invalid bearer session token'')
     else case parse_i64 ex of
       None \<Rightarrow> Err (unauthorized ''invalid bearer session expiry'')
     | Some expires \<Rightarrow>
       if timestamp_secs now > expires then Err (unauthorized ''bearer session has expired'')
       else if auth_signature sha env (name @ '':'' @ role @ '':'' @ ex) \<noteq> sig
       then Err (unauthorized ''invalid bearer session signature'')
       else case role_from_name role of
         None \<Rightarrow> Err (unauthorized ''invalid bearer session role'')
       | Some r \<Rightarrow> Ok (make_auth_user name r))"
proof -
  have p: "split_on CHR '':'' (name @ '':'' @ role @ '':'' @ ex @ '':'' @ sig) = [name, role, ex, sig]"
    using assms by (simp add: split_on_append split_on_no_sep)
  have b: "take 7 (bearer_prefix @ r) = bearer_prefix" "drop 7 (bearer_prefix @ r) = r" for r
    by (simp_all add: bearer_prefix_def)
  show ?thesis
    unfolding authenticated_user_def option.case b p Let_def by (simp split: option.split)
qed

lemma issued_token_accepted:
  assumes "hex_output sha" "name \<noteq> []" "CHR '':'' \<notin> set name" "- (2 ^ 63) \<le> expires" "expires < 2 ^ 63"
  shows "authenticated_user sha env now (Some (bearer_prefix @ issue_auth_token sha env name role expires)) =
    (if timestamp_secs now > expires then Err (unauthorized ''bearer session has expired'')
     else Ok (make_auth_user name role))"
proof -
  have tok: "bearer_prefix @ issue_auth_token sha env name role expires =
    bearer_prefix @ name @ '':'' @ role_name role @ '':'' @ show_int expires @ '':''
      @ auth_signature sha env (name @ '':'' @ role_name role @ '':'' @ show_int expires)"
    by (simp add: issue_auth_token_def Let_def)
  have sig: "auth_signature sha env x \<noteq> []" "CHR '':'' \<notin> set (auth_signature sha env x)" for x
    using assms(1) by (auto simp: hex_output_def auth_signature_def)
  show ?thesis unfolding tok using assms(2-5) sig
    by (subst authenticated_user_token) (simp_all add: parse_i64_show_int)
qed

lemma role_for_login_Some:
  "role_for_login sha env name password overrides = Some role \<longleftrightarrow>
     name = role_name role \<and>
     (case overrides name of
        Some hash \<Rightarrow> hash = password_override_hash sha env name password
      | None \<Rightarrow> password = (case role of
          Operator \<Rightarrow> unwrap_or (env_operator_password env) ''operator123''
        | Engineer \<Rightarrow> unwrap_or (env_engineer_password env) ''engineer123''
        | Admin \<Rightarrow> unwrap_or (env_admin_password env) ''admin123''))"
proof -
  consider "name = role_name Operator" | "name = role_name Engineer" | "name = role_name Admin"
    | "\<forall>r. name \<noteq> role_name r" by (metis auth_role.exhaust)
  then show ?thesis
  proof cases
    case 4
    then have "name \<noteq> ''operator''" "name \<noteq> ''engineer''" "name \<noteq> ''admin''"
      by (metis role_name.simps)+
    with 4 show ?thesis by (simp add: role_for_login_def candidate_accepts_def)
  qed (cases role; cases "overrides name"; simp add: role_for_login_def candidate_accepts_def)+
qed

section \<open>Properties\<close>

text \<open>C13: A session works until it expires and no longer: the token that a login returns is accepted as
  that user with that role at every moment up to its expiry twelve hours later, and is refused as
  expired after it.\<close>

theorem login_session_roundtrip:
  assumes "hex_output sha" "make_login_response sha env now name password overrides = Ok resp"
    "0 \<le> now" "now < 2 ^ 64 * 100000000"
  shows "authenticated_user sha env later (Some (bearer_prefix @ token resp)) =
    (if timestamp_secs later > timestamp_secs (now + 12 * 3600 * 1000000000)
     then Err (unauthorized ''bearer session has expired'') else Ok (login_user resp))"
proof -
  let ?e = "now + 12 * 3600 * 1000000000"
  obtain role where role: "role_for_login sha env (map ascii_lower (trim name)) password overrides = Some role"
    and resp: "token resp = issue_auth_token sha env (map ascii_lower (trim name)) role (timestamp_secs ?e)"
      "login_user resp = make_auth_user (map ascii_lower (trim name)) role"
    using assms(2) by (auto simp: make_login_response_def Let_def split: option.splits)
  have n: "map ascii_lower (trim name) = role_name role" using role by (simp add: role_for_login_Some)
  have "?e div 1000000000 \<le> (2 ^ 64 * 100000000 + 12 * 3600 * 1000000000) div 1000000000"
    using assms(4) by (intro zdiv_mono1) auto
  moreover have "0 \<le> ?e div 1000000000" using assms(3) by (intro pos_imp_zdiv_nonneg_iff [THEN iffD2]) auto
  ultimately have "- (2 ^ 63) \<le> timestamp_secs ?e" "timestamp_secs ?e < 2 ^ 63"
    unfolding timestamp_secs_def by simp_all
  then show ?thesis
    unfolding resp n using issued_token_accepted [OF assms(1), of "role_name role"] by simp
qed

text \<open>Authorization is sound and complete: a request passes a permission check exactly when its
  bearer token has four non-empty fields, is not expired, carries the signature of its own first three
  fields under the server's secret, and names a role that has the permission.\<close>

theorem require_permission_iff:
  assumes "CHR '':'' \<notin> set name" "CHR '':'' \<notin> set role" "CHR '':'' \<notin> set ex" "CHR '':'' \<notin> set sig"
  shows "require_permission sha env now
      (Some (bearer_prefix @ name @ '':'' @ role @ '':'' @ ex @ '':'' @ sig)) p = Ok user \<longleftrightarrow>
    name \<noteq> [] \<and> sig \<noteq> []
    \<and> (\<exists>expires. parse_i64 ex = Some expires \<and> timestamp_secs now \<le> expires)
    \<and> sig = sha (auth_secret env @ '':'' @ name @ '':'' @ role @ '':'' @ ex)
    \<and> (\<exists>r. role = role_name r \<and> role_allows r p \<and> user = make_auth_user name r)"
proof -
  have ne: "parse_i64 [] = None" by (simp add: parse_i64_def split_sign_def)
  have "role_from_name (user_role (make_auth_user name r)) = Some r" for r by (simp add: make_auth_user_def)
  then show ?thesis
    unfolding require_permission_def authenticated_user_token [OF assms] bind_res_Ok_iff
    using ne by (auto simp: auth_signature_def role_from_name_Some split: option.splits if_splits) 
qed

text \<open>The roles are ordered: whatever an operator may do an engineer may do, and whatever an engineer
  may do an administrator may do; data deletion, user management and system configuration are reserved
  to administrators, and sample ingestion and remote task dispatch are closed to operators.\<close>

theorem roles_ordered:
  "{p. role_allows Operator p} \<subseteq> {p. role_allows Engineer p} \<and> {p. role_allows Engineer p} \<subseteq> {p. role_allows Admin p}
   \<and> {p. role_allows Admin p \<and> \<not> role_allows Engineer p} = {EditSystemConfig, DeleteData, ManageUsers}
   \<and> {p. role_allows Engineer p \<and> \<not> role_allows Operator p}
      = {ViewAudit, EditProcess, ModbusDebug, IngestSensorSample, ApplyIntegrationTask}"
proof (intro conjI)
  show "{p. role_allows Admin p \<and> \<not> role_allows Engineer p} = {EditSystemConfig, DeleteData, ManageUsers}"
  proof (intro set_eqI)
    fix p show "p \<in> {p. role_allows Admin p \<and> \<not> role_allows Engineer p} \<longleftrightarrow> p \<in> {EditSystemConfig, DeleteData, ManageUsers}"
      by (cases p) simp_all
  qed
  show "{p. role_allows Engineer p \<and> \<not> role_allows Operator p}
      = {ViewAudit, EditProcess, ModbusDebug, IngestSensorSample, ApplyIntegrationTask}"
  proof (intro set_eqI)
    fix p show "p \<in> {p. role_allows Engineer p \<and> \<not> role_allows Operator p} \<longleftrightarrow>
      p \<in> {ViewAudit, EditProcess, ModbusDebug, IngestSensorSample, ApplyIntegrationTask}"
      by (cases p) simp_all
  qed
qed auto

text \<open>A password override hash is a session signature: both hash the secret, a colon and
  colon-separated text, with no domain separation. The hash stored for the user name \<open>operator\<close> with the
  password \<open>admin:9999999999\<close> completes a token that is accepted with the administrator role.\<close>

theorem password_hash_is_admin_signature:
  assumes "hex_output sha" "timestamp_secs now \<le> 9999999999"
  shows "authenticated_user sha env now (Some (bearer_prefix @ ''operator:admin:9999999999:''
      @ password_override_hash sha env ''operator'' ''admin:9999999999''))
    = Ok (make_auth_user ''operator'' Admin)"
proof -
  have sig: "auth_signature sha env (''operator'' @ '':'' @ ''admin'' @ '':'' @ ''9999999999'')
      = password_override_hash sha env ''operator'' ''admin:9999999999''"
    by (simp add: auth_signature_def password_override_hash_def)
  have h: "password_override_hash sha env ''operator'' ''admin:9999999999'' \<noteq> []"
    "CHR '':'' \<notin> set (password_override_hash sha env ''operator'' ''admin:9999999999'')"
    using assms(1) by (auto simp: hex_output_def password_override_hash_def)
  have ex: "parse_i64 ''9999999999'' = Some 9999999999"
    by (simp add: parse_i64_def split_sign_def is_digit_def digits_val_def)
  have "authenticated_user sha env now (Some (bearer_prefix @ ''operator'' @ '':'' @ ''admin'' @ '':''
      @ ''9999999999'' @ '':'' @ password_override_hash sha env ''operator'' ''admin:9999999999''))
    = Ok (make_auth_user ''operator'' Admin)"
    using h assms(2) ex
    by (subst authenticated_user_token) (simp_all add: sig role_from_name_def del: append.simps)
  then show ?thesis by simp
qed

text \<open>A password change takes effect: after an accepted change is stored, the account logs in with the
  trimmed new password in the same role as before.\<close>

theorem password_change_effective:
  assumes "prepare_password_change sha env name old new overrides = Ok hash"
  shows "role_for_login sha env name (trim new) (overrides(name \<mapsto> hash))
      = role_for_login sha env name old overrides
    \<and> role_for_login sha env name old overrides \<noteq> None \<and> 6 \<le> length (trim new) \<and> trim new \<noteq> old"
proof -
  obtain role where role: "role_for_login sha env name old overrides = Some role"
    and rest: "6 \<le> length (trim new)" "trim new \<noteq> old" "hash = password_override_hash sha env name (trim new)"
    using assms by (auto simp: prepare_password_change_def Let_def split: if_splits)
  then have "role_for_login sha env name (trim new) (overrides(name \<mapsto> hash)) = Some role"
    by (simp add: role_for_login_Some)
  with role rest show ?thesis by simp
qed

text \<open>The network gate closes the default credentials: a daemon allowed to listen on a non-loopback
  address signs with a secret of at least 32 characters that is not the published one, and every
  configured login password has at least 12 characters, so no published default password logs in.\<close>

theorem network_gate_closes_defaults:
  assumes "enforce_network_auth_gate env False = Ok ()"
    "role_for_login sha env name password Map.empty = Some role"
  shows "12 \<le> length password \<and> password \<notin> {''operator123'', ''engineer123'', ''admin123''}
    \<and> (\<exists>s. env_secret env = Some s \<and> 32 \<le> length (trim s)
        \<and> trim s \<noteq> ''xingshu-local-rbac-session-secret'')"
proof -
  have "(case env_secret env of Some s \<Rightarrow> auth_secret_is_exposure_safe (trim s) | None \<Rightarrow> False)"
    and w: "\<forall>(n, pw) \<in> set (network_login_passwords env). login_password_is_exposure_safe pw"
    using assms(1) by (auto simp: enforce_network_auth_gate_def Let_def filter_empty_conv split: if_splits)
  moreover have "login_password_is_exposure_safe password"
    using assms(2) w by (cases role) (auto simp: role_for_login_Some network_login_passwords_def)
  ultimately show ?thesis
    by (auto simp: auth_secret_is_exposure_safe_def login_password_is_exposure_safe_def split: option.splits)
qed


section \<open>Witnesses\<close>

text \<open>A hash for the witnesses: it keeps its input readable and never produces a colon.\<close>

definition plain_hash :: "string \<Rightarrow> string" where
  "plain_hash s = CHR ''h'' # map (\<lambda>c. if c = CHR '':'' then CHR ''_'' else c) s"

definition default_env :: auth_env where
  "default_env = \<lparr>env_secret = None, env_operator_password = None, env_engineer_password = None,
     env_admin_password = None\<rparr>"

definition hardened_env :: auth_env where
  "hardened_env = \<lparr>env_secret = Some ''a-site-secret-of-forty-characters-long!'', env_operator_password = Some ''operator-long-pw'',
     env_engineer_password = Some ''engineer-long-pw'', env_admin_password = Some ''admin-long-pw''\<rparr>"

lemma plain_hash_hex: "hex_output plain_hash"
  by (auto simp: hex_output_def plain_hash_def)

theorem login_session_roundtrip_witness:
  "\<exists>resp. make_login_response plain_hash default_env 0 ''admin'' ''admin123'' Map.empty = Ok resp
     \<and> authenticated_user plain_hash default_env 0 (Some (bearer_prefix @ token resp)) = Ok (login_user resp)"
proof -
  have "role_for_login plain_hash default_env ''admin'' ''admin123'' Map.empty = Some Admin"
    by (simp add: role_for_login_Some default_env_def)
  moreover have "map ascii_lower (trim ''admin'') = ''admin''"
    by (simp add: trim_def trim_end_def is_space_def ascii_lower_def)
  ultimately obtain resp where r: "make_login_response plain_hash default_env 0 ''admin'' ''admin123'' Map.empty = Ok resp"
    by (simp add: make_login_response_def Let_def)
  have "authenticated_user plain_hash default_env 0 (Some (bearer_prefix @ token resp)) = Ok (login_user resp)"
    using login_session_roundtrip [OF plain_hash_hex r] by (simp add: timestamp_secs_def)
  with r show ?thesis by blast
qed

theorem require_permission_iff_witness:
  "require_permission plain_hash default_env 0
     (Some (bearer_prefix @ ''operator'' @ '':'' @ ''operator'' @ '':'' @ ''60'' @ '':''
        @ plain_hash (auth_secret default_env @ '':'' @ ''operator'' @ '':'' @ ''operator'' @ '':'' @ ''60'')))
     PermEmergencyStop = Ok (make_auth_user ''operator'' Operator)"
proof -
  let ?s = "plain_hash (auth_secret default_env @ '':'' @ ''operator'' @ '':'' @ ''operator'' @ '':'' @ ''60'')"
  have c: "CHR '':'' \<notin> set ''operator''" "CHR '':'' \<notin> set ''60''" by simp_all
  have s: "CHR '':'' \<notin> set ?s" "?s \<noteq> []" using plain_hash_hex by (auto simp: hex_output_def)
  have ex: "parse_i64 ''60'' = Some 60" by (simp add: parse_i64_def split_sign_def is_digit_def digits_val_def)
  have "timestamp_secs 0 \<le> 60" by (simp add: timestamp_secs_def)
  moreover have "''operator'' = role_name Operator \<and> role_allows Operator PermEmergencyStop" by simp
  ultimately show ?thesis
    using require_permission_iff [OF c(1) c(1) c(2) s(1), of plain_hash default_env 0 PermEmergencyStop
        "make_auth_user ''operator'' Operator"] s(2) ex
    by blast
qed

theorem password_hash_is_admin_signature_witness:
  "authenticated_user plain_hash default_env 0 (Some (bearer_prefix @ ''operator:admin:9999999999:''
      @ password_override_hash plain_hash default_env ''operator'' ''admin:9999999999''))
    = Ok (make_auth_user ''operator'' Admin)"
  by (rule password_hash_is_admin_signature [OF plain_hash_hex]) (simp add: timestamp_secs_def)

theorem password_change_effective_witness:
  "\<exists>hash. prepare_password_change plain_hash default_env ''admin'' ''admin123'' '' better-pass '' Map.empty = Ok hash
     \<and> role_for_login plain_hash default_env ''admin'' ''better-pass'' [''admin'' \<mapsto> hash] = Some Admin"
proof -
  have t: "trim '' better-pass '' = ''better-pass''" by (simp add: trim_def trim_end_def is_space_def)
  have r: "role_for_login plain_hash default_env ''admin'' ''admin123'' Map.empty = Some Admin"
    by (simp add: role_for_login_Some default_env_def)
  obtain hash where h: "prepare_password_change plain_hash default_env ''admin'' ''admin123'' '' better-pass '' Map.empty = Ok hash"
    by (simp add: prepare_password_change_def r t)
  from password_change_effective [OF h] r t h show ?thesis by auto
qed

theorem network_gate_closes_defaults_witness:
  "enforce_network_auth_gate hardened_env False = Ok ()
   \<and> role_for_login plain_hash hardened_env ''admin'' ''admin-long-pw'' Map.empty = Some Admin
   \<and> 12 \<le> length ''admin-long-pw''"
proof -
  have t: "trim ''a-site-secret-of-forty-characters-long!'' = ''a-site-secret-of-forty-characters-long!''"
    by (rule trim_id) (simp_all add: is_space_def)
  have g: "enforce_network_auth_gate hardened_env False = Ok ()"
    by (simp add: enforce_network_auth_gate_def hardened_env_def auth_secret_is_exposure_safe_def t
        network_login_passwords_def login_password_is_exposure_safe_def)
  have r: "role_for_login plain_hash hardened_env ''admin'' ''admin-long-pw'' Map.empty = Some Admin"
    by (simp add: role_for_login_Some hardened_env_def)
  from network_gate_closes_defaults [OF g r] g r show ?thesis by blast
qed

end
