(* ===== verification/Control_Loop.thy ===== *)
theory Control_Loop
  imports Control Auth
begin

text \<open>
  The supervision loop of \<open>main.rs\<close>: one iteration reads the device, updates the shared runtime
  state, takes a decision, passes the final interlock and writes to the device.

  The runtime state is shared with the HTTP handlers. Whenever the loop does not hold the lock,
  other tasks may change it: before each lock acquisition the state is passed through an arbitrary
  function \<open>interfere p\<close> of the environment, indexed by the program point \<open>p\<close>. The clock, the
  results of device reads, of database calls, of the guard process and of the handshake are also
  inputs from the environment (\<open>loop_env\<close>). The output records the audit events the loop tried to
  insert and the commands it gave to the device.

  Time arithmetic is on unbounded integers: the overflow panic of adding a huge backoff to a
  \<open>DateTime\<close> is not modelled.
\<close>

section \<open>Handshake types (\<open>device.rs\<close>)\<close>

datatype ack_status = Confirmed | Rejected string | Timeout | Unverified

record command_ack =
  ack_request_id :: string
  ack_status_of :: ack_status
  accepted_targets :: "control_targets option"

definition command_ack_unverified :: "string \<Rightarrow> command_ack" where
  "command_ack_unverified rid =
     \<lparr>ack_request_id = rid, ack_status_of = Unverified, accepted_targets = None\<rparr>"

text \<open>An \<open>anyhow\<close> error is its chain of messages: \<open>{err}\<close> is the first, \<open>{err:#}\<close> all of them.\<close>

type_synonym anyhow = "string list"

definition err_display :: "anyhow \<Rightarrow> string" where
  "err_display e = (case e of [] \<Rightarrow> [] | m # _ \<Rightarrow> m)"

definition err_alternate :: "anyhow \<Rightarrow> string" where
  "err_alternate e = join_with '': '' e"

section \<open>Debug rendering\<close>

fun debug_reason :: "control_block_reason \<Rightarrow> string" where
  "debug_reason AutoDisabled = ''AutoDisabled''"
| "debug_reason ManualLock = ''ManualLock''"
| "debug_reason EmergencyStop = ''EmergencyStop''"
| "debug_reason ControlFault = ''ControlFault''"
| "debug_reason MissingDeviceStatus = ''MissingDeviceStatus''"
| "debug_reason DeviceStatusFault = ''DeviceStatusFault''"
| "debug_reason DownstreamCommandFault = ''DownstreamCommandFault''"
| "debug_reason MissingSensorSample = ''MissingSensorSample''"
| "debug_reason SensorStale = ''SensorStale''"
| "debug_reason ForbiddenControlZone = ''ForbiddenControlZone''"

definition debug_string :: "string \<Rightarrow> string" where
  "debug_string s = [CHR 0x22] @ concat (map (\<lambda>c.
     if c = CHR 0x22 then [CHR 0x5C, CHR 0x22]
     else if c = CHR 0x5C then [CHR 0x5C, CHR 0x5C]
     else if c = CHR 0x0A then [CHR 0x5C, CHR ''n'']
     else if c = CHR 0x0D then [CHR 0x5C, CHR ''r'']
     else if c = CHR 0x09 then [CHR 0x5C, CHR ''t'']
     else if c = CHR 0x00 then [CHR 0x5C, CHR ''0'']
     else if of_char c < (32 :: nat) \<or> c = CHR 0x7F
     then [CHR 0x5C] @ ''u{'' @ hex_nat (of_char c) @ ''}''
     else [c]) s) @ [CHR 0x22]"

definition debug_command :: "safe_command \<Rightarrow> string" where
  "debug_command c = ''SafeCommand { target_temperature_c: '' @ debug_f64 (c_target_temperature_c c)
     @ '', heat_time_s: '' @ debug_f64 (c_heat_time_s c)
     @ '', hold_time_s: '' @ debug_f64 (c_hold_time_s c)
     @ '', cool_time_s: '' @ debug_f64 (c_cool_time_s c)
     @ '', target_stirrer_rpm: '' @ debug_f64 (c_target_stirrer_rpm c)
     @ '', target_shake_speed_cpm: '' @ debug_f64 (c_target_shake_speed_cpm c)
     @ '', target_pressure_mpa: '' @ debug_f64 (c_target_pressure_mpa c)
     @ '', reason: '' @ debug_string (c_reason c) @ '' }''"

definition debug_ids :: "int list \<Rightarrow> string" where
  "debug_ids ids = ''['' @ join_with '', '' (map show_int ids) @ '']''"

definition debug_opt_id :: "int option \<Rightarrow> string" where
  "debug_opt_id x = (case x of None \<Rightarrow> ''None'' | Some i \<Rightarrow> ''Some('' @ show_int i @ '')'')"

section \<open>Pure parts\<close>

text \<open>Derived equality on commands compares the floats.\<close>

definition command_eq :: "safe_command \<Rightarrow> safe_command \<Rightarrow> bool" where
  "command_eq a b \<longleftrightarrow>
     f64_eq (c_target_temperature_c a) (c_target_temperature_c b)
     \<and> f64_eq (c_heat_time_s a) (c_heat_time_s b) \<and> f64_eq (c_hold_time_s a) (c_hold_time_s b)
     \<and> f64_eq (c_cool_time_s a) (c_cool_time_s b)
     \<and> f64_eq (c_target_stirrer_rpm a) (c_target_stirrer_rpm b)
     \<and> f64_eq (c_target_shake_speed_cpm a) (c_target_shake_speed_cpm b)
     \<and> f64_eq (c_target_pressure_mpa a) (c_target_pressure_mpa b) \<and> c_reason a = c_reason b"

definition scaled :: "f64 \<Rightarrow> int" where
  "scaled value = f64_to_i64 (f64_round (f64_mul value (lit 100)))"

record safe_command_fingerprint =
  fp_target_temperature_c :: int
  fp_heat_time_s :: int
  fp_hold_time_s :: int
  fp_cool_time_s :: int
  fp_target_stirrer_rpm :: int
  fp_target_shake_speed_cpm :: int
  fp_target_pressure_mpa :: int

definition fingerprint_of :: "safe_command \<Rightarrow> safe_command_fingerprint" where
  "fingerprint_of c =
     \<lparr>fp_target_temperature_c = scaled (c_target_temperature_c c),
      fp_heat_time_s = scaled (c_heat_time_s c), fp_hold_time_s = scaled (c_hold_time_s c),
      fp_cool_time_s = scaled (c_cool_time_s c),
      fp_target_stirrer_rpm = scaled (c_target_stirrer_rpm c),
      fp_target_shake_speed_cpm = scaled (c_target_shake_speed_cpm c),
      fp_target_pressure_mpa = scaled (c_target_pressure_mpa c)\<rparr>"

record last_written =
  lw_fingerprint :: safe_command_fingerprint
  written_at :: time

definition matches_recent ::
    "time \<Rightarrow> last_written \<Rightarrow> safe_command_fingerprint \<Rightarrow> safety_config \<Rightarrow> bool" where
  "matches_recent now lw fp safety \<longleftrightarrow>
     lw_fingerprint lw = fp
     \<and> now - written_at lw \<le> sensor_timeout_ms (control safety) * 1000000"

definition automatic_batch_state_is_consistent :: "int option \<Rightarrow> batch list \<Rightarrow> string + unit" where
  "automatic_batch_state_is_consistent active unfinished =
     (let unfinished_ids = map batch_id unfinished;
          unexpected_ids = map batch_id (filter (\<lambda>b. active \<noteq> Some (batch_id b)) unfinished);
          active_missing = (case active of None \<Rightarrow> False
             | Some a \<Rightarrow> \<not> list_ex (\<lambda>b. batch_id b = a) unfinished)
      in if unexpected_ids = [] \<and> \<not> active_missing then Ok ()
         else Err (''database has unfinished batch records '' @ debug_ids unfinished_ids
                   @ '' while runtime active batch is '' @ debug_opt_id active))"

fun automatic_final_interlock_fault_reason :: "control_decision \<Rightarrow> string option" where
  "automatic_final_interlock_fault_reason (Write c) =
     Some (''automatic control final interlock produced a different command fingerprint: ''
           @ debug_command c)"
| "automatic_final_interlock_fault_reason (Blocked r) =
     (if r \<in> {AutoDisabled, ManualLock, EmergencyStop, ControlFault} then None
      else Some (''automatic control final interlock blocked by Blocked('' @ debug_reason r @ '')''))"

fun ack_status_token :: "ack_status \<Rightarrow> string" where
  "ack_status_token Confirmed = ''confirmed''"
| "ack_status_token (Rejected _) = ''rejected''"
| "ack_status_token Timeout = ''timeout''"
| "ack_status_token Unverified = ''unverified''"

record ack_outcome =
  confirmed :: bool
  retry :: bool
  fault :: "(string \<times> string) option"

definition classify_ack_outcome :: "ack_status \<Rightarrow> bool \<Rightarrow> u64 \<Rightarrow> ack_outcome" where
  "classify_ack_outcome status require_ack ack_timeout_ms =
     (let legacy_unverified = (status = Unverified \<and> \<not> require_ack) in
      if status = Confirmed \<or> legacy_unverified
      then \<lparr>confirmed = True, retry = False, fault = None\<rparr>
      else
        \<lparr>confirmed = False, retry = (status = Timeout),
         fault = Some (case status of
             Rejected detail \<Rightarrow> (''downstream rejected command: '' @ detail, ''device_write_rejected'')
           | Timeout \<Rightarrow> (''command ack timeout after '' @ show_int (uint ack_timeout_ms)
                         @ '' ms; delivery unconfirmed'', ''device_write_unconfirmed'')
           | _ \<Rightarrow> (''require_command_ack is enabled but the device mode has not implemented a handshake ACK'',
                   ''device_write_unconfirmed''))\<rparr>)"

text \<open>The decision on a runtime snapshot: a configured guard process that answers with a decision is
  believed, anything else falls back to the in-process evaluation.\<close>

definition request_of :: "safety_config \<Rightarrow> runtime_state \<Rightarrow> safety_guard_request" where
  "request_of safety rt = DecideControl safety (latest_sample rt) (targets rt) (auto_enabled rt)
     (manual_lock rt) (emergency_stop rt) (last_control_error rt) (device_status rt)"

definition decide_control_with_optional_guard ::
    "time \<Rightarrow> safety_config \<Rightarrow> runtime_state \<Rightarrow> (string + safety_guard_response) option
     \<Rightarrow> control_decision option" where
  "decide_control_with_optional_guard now safety rt guard = (case guard of
       Some (Inr (ControlDecision d)) \<Rightarrow> Some d
     | _ \<Rightarrow> (case evaluate_safety_request now (request_of safety rt) of
           None \<Rightarrow> None
         | Some (ControlDecision d) \<Rightarrow> Some d
         | Some (ClampedTargets _) \<Rightarrow> Some (Blocked ControlFault)))"

definition ensure_automatic_control_write_still_current ::
    "time \<Rightarrow> safety_config \<Rightarrow> runtime_state \<Rightarrow> (string + safety_guard_response) option \<Rightarrow> safe_command
     \<Rightarrow> (control_decision + int option) option" where
  "ensure_automatic_control_write_still_current now safety rt guard command =
     map_option (\<lambda>d. case d of
         Write current \<Rightarrow> if command_eq current command then Ok (active_batch_id rt) else Err d
       | Blocked _ \<Rightarrow> Err d)
       (decide_control_with_optional_guard now safety rt guard)"

definition retry_deadline :: "time \<Rightarrow> u64 \<Rightarrow> time" where
  "retry_deadline now backoff_ms =
     now + (if uint backoff_ms \<le> 2 ^ 63 - 1 then uint backoff_ms * 1000000 else 5 * 1000000000)"

section \<open>Audit events\<close>

record audit_event =
  ev_actor :: audit_actor
  ev_batch :: "int option"
  ev_type :: string
  ev_command :: "safe_command option"
  ev_reason :: string

definition audit_field_input_auto_disable :: "int option \<Rightarrow> bool \<Rightarrow> string \<Rightarrow> audit_event list" where
  "audit_field_input_auto_disable batch auto_was_disabled reason =
     (if \<not> auto_was_disabled then []
      else [\<lparr>ev_actor = system_actor, ev_batch = batch, ev_type = ''field_input_fault_auto_disabled'', ev_command = None,
             ev_reason = ''field input fault disabled automatic control: '' @ reason\<rparr>])"

definition audit_downstream_control_fault :: "int option \<Rightarrow> bool \<Rightarrow> string \<Rightarrow> audit_event list" where
  "audit_downstream_control_fault batch should_audit reason =
     (if \<not> should_audit then []
      else [\<lparr>ev_actor = system_actor, ev_batch = batch, ev_type = ''downstream_command_fault'', ev_command = None,
             ev_reason = ''downstream command fault latched; automatic control disabled: '' @ reason\<rparr>])"

definition audit_control_fault_auto_disable :: "int option \<Rightarrow> audit_event list" where
  "audit_control_fault_auto_disable batch =
     [\<lparr>ev_actor = system_actor, ev_batch = batch, ev_type = ''control_fault_auto_disabled'', ev_command = None,
       ev_reason = ''control fault was already latched; automatic control forced disabled''\<rparr>]"

definition audit_automatic_batch_recovery_block :: "int option \<Rightarrow> bool \<Rightarrow> string \<Rightarrow> audit_event list" where
  "audit_automatic_batch_recovery_block batch should_audit reason =
     (if \<not> should_audit then []
      else [\<lparr>ev_actor = system_actor, ev_batch = batch, ev_type = ''unfinished_batch_recovery_auto_blocked'', ev_command = None,
             ev_reason = ''automatic control blocked by unfinished batch recovery: '' @ reason\<rparr>])"

definition audit_automatic_final_interlock_block :: "int option \<Rightarrow> bool \<Rightarrow> string \<Rightarrow> audit_event list" where
  "audit_automatic_final_interlock_block batch should_audit reason =
     (if \<not> should_audit then []
      else [\<lparr>ev_actor = system_actor, ev_batch = batch, ev_type = ''automatic_final_interlock_blocked'', ev_command = None,
             ev_reason = ''automatic control final interlock failed: '' @ reason\<rparr>])"

definition audit_device_write_handshake_fault ::
    "int option \<Rightarrow> bool \<Rightarrow> string \<Rightarrow> safe_command \<Rightarrow> string \<Rightarrow> audit_event list" where
  "audit_device_write_handshake_fault batch should_audit event_type command reason =
     (if \<not> should_audit then []
      else [\<lparr>ev_actor = system_actor, ev_batch = batch, ev_type = event_type, ev_command = Some command, ev_reason = reason\<rparr>])"


section \<open>One iteration\<close>

datatype loop_point = PInput | PReadBatch | PSample | PReadFailed | PEnforce | PDecide | PRetry
  | PRecent | PSnapshot | PBatchFault | PRecheck | PLive | PInterlockFault | PWrite | PAckFault

record loop_env =
  e_clock :: "loop_point \<Rightarrow> time"
  e_interfere :: "loop_point \<Rightarrow> runtime_state \<Rightarrow> runtime_state"
  e_read :: "(anyhow + sensor_snapshot \<times> device_status_snapshot option) option"
  e_status_read :: "(anyhow + device_status_snapshot option) option"
  e_insert_sample :: "anyhow + unit"
  e_guard_decide :: "string + safety_guard_response"
  e_decide_joined :: bool
  e_unfinished :: "anyhow + batch list"
  e_guard_recheck :: "string + safety_guard_response"
  e_recheck_joined :: bool
  e_write :: "anyhow + command_ack"
  e_audit_write :: "anyhow + unit"

text \<open>\<open>None\<close> in \<open>e_read\<close> and \<open>e_status_read\<close> is the expiry of the read budget.\<close>

record loop_config =
  lc_safety :: safety_config
  lc_mode :: device_mode
  lc_guard :: bool
  lc_persist :: bool

record loop_vars =
  last_written_command :: "last_written option"
  retry_after :: "time option"
  command_seq :: u64

record loop_out =
  o_runtime :: runtime_state
  o_vars :: loop_vars
  o_events :: "audit_event list"
  o_writes :: "(safe_command \<times> string) list"

definition initial_vars :: loop_vars where
  "initial_vars = \<lparr>last_written_command = None, retry_after = None, command_seq = 0\<rparr>"

subsection \<open>Input\<close>

definition pipeline_sample_reason :: "time \<Rightarrow> safety_config \<Rightarrow> sensor_snapshot option \<Rightarrow> string option" where
  "pipeline_sample_reason now safety sample = (case sample of
       None \<Rightarrow> Some ''waiting for external data pipeline sample''
     | Some s \<Rightarrow>
         (let age_ms = timestamp_age_ms now (s_captured_at s) in
          if age_ms < 0 then
            Some (''external data pipeline sample timestamp is '' @ show_int (- age_ms)
                  @ '' ms in the future; check controller clock synchronization'')
          else if age_ms > sensor_timeout_ms (control safety) then
            Some (''external data pipeline sample stale; last sample is '' @ show_int age_ms
                  @ '' ms old, max '' @ show_int (sensor_timeout_ms (control safety)) @ '' ms'')
          else None))"

definition pipeline_input :: "time \<Rightarrow> safety_config \<Rightarrow> runtime_state \<Rightarrow> runtime_state \<times> audit_event list" where
  "pipeline_input now safety rt = (case pipeline_sample_reason now safety (latest_sample rt) of
       None \<Rightarrow> (rt, [])
     | Some reason \<Rightarrow>
         (let (rt1, disabled) = disable_auto_for_field_fault reason rt
          in (rt1, audit_field_input_auto_disable (active_batch_id rt) disabled reason)))"

definition accept_sample_and_audit_faults ::
    "time \<Rightarrow> safety_config \<Rightarrow> sensor_snapshot \<Rightarrow> device_status_snapshot option \<Rightarrow> runtime_state
     \<Rightarrow> runtime_state \<times> audit_event list" where
  "accept_sample_and_audit_faults now safety sample status rt =
     (let rt1 = rt\<lparr>latest_sample := Some sample, last_sensor_error := None, device_status := status\<rparr>;
          batch = active_batch_id rt1
      in case status of
           None \<Rightarrow> (rt1, [])
         | Some st \<Rightarrow>
             (case device_status_field_fault_reason now st (sensor_timeout_ms (control safety)) of
                Some reason \<Rightarrow>
                  (let (rt2, disabled) = disable_auto_for_field_fault reason rt1
                   in (rt2, audit_field_input_auto_disable batch disabled reason))
              | None \<Rightarrow>
                  (case downstream_command_fault_reason st of
                     Some reason \<Rightarrow>
                       (let (rt2, should_audit) = latch_control_fault reason rt1
                        in (rt2, audit_downstream_control_fault batch should_audit reason))
                   | None \<Rightarrow> (rt1, []))))"

text \<open>The failed command a status reports is latched after the sample has been refused.\<close>

definition latch_status_command_fault ::
    "int option \<Rightarrow> device_status_snapshot option \<Rightarrow> runtime_state \<Rightarrow> runtime_state \<times> audit_event list" where
  "latch_status_command_fault batch status rt =
     (case Option.bind status downstream_command_fault_reason of
        None \<Rightarrow> (rt, [])
      | Some reason \<Rightarrow>
          (let (rt1, should_audit) = latch_control_fault reason rt
           in (rt1, audit_downstream_control_fault batch should_audit reason)))"

definition reject_sample ::
    "int option \<Rightarrow> device_status_snapshot option \<Rightarrow> string \<Rightarrow> runtime_state
     \<Rightarrow> runtime_state \<times> audit_event list" where
  "reject_sample batch status reason rt =
     (let (rt1, disabled) = reject_unpersisted_sample_with_status status reason rt;
          (rt2, events) = latch_status_command_fault batch status rt1
      in (rt2, audit_field_input_auto_disable batch disabled reason @ events))"

definition device_input :: "loop_config \<Rightarrow> loop_env \<Rightarrow> runtime_state \<Rightarrow> runtime_state \<times> audit_event list" where
  "device_input cfg env rt =
     (let safety = lc_safety cfg;
          budget_ms = (if 0 \<le> sensor_timeout_ms (control safety)
                       then sensor_timeout_ms (control safety) else 1);
          read_result = (case e_read env of Some r \<Rightarrow> r
            | None \<Rightarrow> Err [''device read timed out after '' @ show_int budget_ms @ '' ms''])
      in case read_result of
        Inr (sample, status) \<Rightarrow>
          (let rt1 = e_interfere env PReadBatch rt;
               batch = active_batch_id rt1;
               rt2 = e_interfere env PSample rt1
           in case validate_sensor_snapshot sample of
                Inl why \<Rightarrow> reject_sample batch status (''sensor sample rejected: '' @ why) rt2
              | Inr _ \<Rightarrow>
                  if \<not> lc_persist cfg
                  then accept_sample_and_audit_faults (e_clock env PSample) safety sample status rt2
                  else (case e_insert_sample env of
                      Inl err \<Rightarrow> reject_sample batch status
                        (''sensor sample persistence failed: '' @ err_alternate err) rt2
                    | Inr _ \<Rightarrow>
                        accept_sample_and_audit_faults (e_clock env PSample) safety sample status rt2))
      | Inl err \<Rightarrow>
          (let reason = err_display err;
               status = (case e_status_read env of Some (Inr st) \<Rightarrow> st | _ \<Rightarrow> None);
               rt1 = e_interfere env PReadFailed rt;
               rt2 = rt1\<lparr>latest_sample := None, device_status := status\<rparr>;
               batch = active_batch_id rt2;
               (rt3, disabled) = disable_auto_for_field_fault reason rt2;
               (rt4, events) = latch_status_command_fault batch status rt3
           in (rt4, audit_field_input_auto_disable batch disabled reason @ events)))"

definition input_phase :: "loop_config \<Rightarrow> loop_env \<Rightarrow> runtime_state \<Rightarrow> runtime_state \<times> audit_event list" where
  "input_phase cfg env rt =
     (if lc_mode cfg = Pipeline
      then pipeline_input (e_clock env PInput) (lc_safety cfg) (e_interfere env PInput rt)
      else device_input cfg env (e_interfere env PInput rt))"

definition enforce_phase :: "loop_env \<Rightarrow> runtime_state \<Rightarrow> runtime_state \<times> audit_event list" where
  "enforce_phase env rt =
     (let rt1 = e_interfere env PEnforce rt;
          (rt2, disabled) = enforce_control_fault_fail_closed rt1
      in (rt2, if disabled then audit_control_fault_auto_disable (active_batch_id rt1) else []))"

subsection \<open>Writing\<close>

text \<open>What the iteration does once the final interlock has been passed.\<close>

definition deliver ::
    "loop_config \<Rightarrow> loop_env \<Rightarrow> safe_command \<Rightarrow> int option \<Rightarrow> runtime_state \<Rightarrow> loop_vars \<Rightarrow> loop_out" where
  "deliver cfg env command batch rt vars =
     (let ctl = control (lc_safety cfg);
          seq = command_seq vars + 1;
          rid = ''auto-'' @ show_int (timestamp_millis (e_clock env PWrite)) @ ''-'' @ show_int (uint seq);
          cleared = vars\<lparr>command_seq := seq, last_written_command := None, retry_after := None\<rparr>;
          backed_off = cleared\<lparr>retry_after :=
             Some (retry_deadline (e_clock env PAckFault) (write_retry_backoff_ms ctl))\<rparr>;
          rt1 = e_interfere env PAckFault rt
      in case e_write env of
        Inr ack \<Rightarrow>
          (let outcome = classify_ack_outcome (ack_status_of ack) (require_command_ack ctl)
                 (command_ack_timeout_ms ctl)
           in if confirmed outcome then
             (let event = \<lparr>ev_actor = system_actor, ev_batch = batch, ev_type = ''device_write'', ev_command = Some command,
                    ev_reason = c_reason command @ ''|ack='' @ ack_status_token (ack_status_of ack)
                      @ ''|rid='' @ ack_request_id ack\<rparr>
              in case e_audit_write env of
                Inl err \<Rightarrow> \<lparr>o_runtime = fst (latch_audit_failure_after_device_action
                              ''automatic control device_write'' (err_display err) rt1),
                            o_vars = cleared, o_events = [event], o_writes = [(command, rid)]\<rparr>
              | Inr _ \<Rightarrow> \<lparr>o_runtime = rt1,
                            o_vars = cleared\<lparr>last_written_command :=
                              Some \<lparr>lw_fingerprint = fingerprint_of command,
                                    written_at = e_clock env PAckFault\<rparr>\<rparr>,
                            o_events = [event], o_writes = [(command, rid)]\<rparr>)
             else case fault outcome of
               None \<Rightarrow> \<lparr>o_runtime = rt1, o_vars = vars\<lparr>command_seq := seq\<rparr>, o_events = [],
                         o_writes = [(command, rid)]\<rparr>
             | Some (fault_reason, event_type) \<Rightarrow>
                 (let (rt2, should_audit) = latch_control_fault fault_reason rt1
                  in \<lparr>o_runtime = rt2,
                      o_vars = (if retry outcome then backed_off else cleared),
                      o_events = audit_device_write_handshake_fault batch should_audit event_type
                        command (fault_reason @ ''|rid='' @ ack_request_id ack),
                      o_writes = [(command, rid)]\<rparr>))
      | Inl err \<Rightarrow>
          \<lparr>o_runtime = fst (latch_control_fault (err_display err) rt1),
           o_vars = backed_off,
           o_events = [\<lparr>ev_actor = system_actor, ev_batch = batch, ev_type = ''device_write_failed'', ev_command = Some command,
             ev_reason = ''device write failed; automatic control disabled: '' @ err_display err\<rparr>],
           o_writes = [(command, rid)]\<rparr>)"

text \<open>The verdict of the final interlock from the guard's answer and the live decision.\<close>

definition interlock_verdict ::
    "loop_config \<Rightarrow> loop_env \<Rightarrow> safe_command \<Rightarrow> runtime_state \<Rightarrow> runtime_state
     \<Rightarrow> control_decision + int option \<Rightarrow> loop_vars \<Rightarrow> control_decision \<Rightarrow> loop_out" where
  "interlock_verdict cfg env command snapshot live guard_recheck vars live_decision =
     (let cleared = vars\<lparr>last_written_command := None, retry_after := None\<rparr>;
          skipped = \<lparr>o_runtime = live, o_vars = cleared, o_events = [], o_writes = []\<rparr>;
          command_still_current = (case live_decision of
              Write current \<Rightarrow> command_eq current command | Blocked _ \<Rightarrow> False);
          batch_still_current = (active_batch_id live = active_batch_id snapshot)
      in if is_ok guard_recheck \<and> command_still_current \<and> \<not> batch_still_current then skipped
         else
           (case (case guard_recheck of
                Inr _ \<Rightarrow> if command_still_current then None else Some live_decision
              | Inl decision \<Rightarrow> Some decision) of
             None \<Rightarrow> deliver cfg env command (active_batch_id live) live vars
           | Some decision \<Rightarrow>
               (case automatic_final_interlock_fault_reason decision of
                  None \<Rightarrow> skipped
                | Some reason \<Rightarrow>
                    (let rt1 = e_interfere env PInterlockFault live;
                         (rt2, should_audit) = latch_control_fault reason rt1
                     in \<lparr>o_runtime = rt2, o_vars = cleared,
                         o_events = audit_automatic_final_interlock_block
                           (active_batch_id rt1) should_audit reason, o_writes = []\<rparr>))))"

text \<open>The final interlock: batch consistency on a snapshot, guard re-decision on that snapshot, then
  an in-process decision on the live state, which must give the same command for the same batch.\<close>

definition interlocked_write ::
    "loop_config \<Rightarrow> loop_env \<Rightarrow> safe_command \<Rightarrow> runtime_state \<Rightarrow> loop_vars \<Rightarrow> loop_out option" where
  "interlocked_write cfg env command rt vars =
     (let safety = lc_safety cfg;
          cleared = vars\<lparr>last_written_command := None, retry_after := None\<rparr>;
          snapshot = e_interfere env PSnapshot rt
      in case e_unfinished env of
        Inl err \<Rightarrow>
          Some \<lparr>o_runtime = fst (latch_control_fault
                  (''automatic control blocked until unfinished batch state can be verified: ''
                   @ err_display err) (e_interfere env PBatchFault snapshot)),
                o_vars = cleared,
                o_events = audit_control_fault_auto_disable (active_batch_id snapshot), o_writes = []\<rparr>
      | Inr unfinished \<Rightarrow>
        (case automatic_batch_state_is_consistent (active_batch_id snapshot) unfinished of
          Inl reason \<Rightarrow>
            (let (rt1, should_audit) = latch_control_fault reason (e_interfere env PBatchFault snapshot)
             in Some \<lparr>o_runtime = rt1, o_vars = cleared,
                  o_events = audit_automatic_batch_recovery_block (active_batch_id snapshot)
                    should_audit reason, o_writes = []\<rparr>)
        | Inr _ \<Rightarrow>
            Option.bind
              (if e_recheck_joined env
               then ensure_automatic_control_write_still_current (e_clock env PRecheck) safety snapshot
                 (if lc_guard cfg then Some (e_guard_recheck env) else None) command
               else Some (Err (Blocked ControlFault))) (\<lambda>guard_recheck.
            let live = e_interfere env PLive snapshot in
            map_option (interlock_verdict cfg env command snapshot live guard_recheck vars)
              (decide_control_with_optional_guard (e_clock env PLive) safety live None))))"

definition act_phase ::
    "loop_config \<Rightarrow> loop_env \<Rightarrow> control_decision \<Rightarrow> runtime_state \<Rightarrow> loop_vars \<Rightarrow> loop_out option" where
  "act_phase cfg env decision rt vars =
     (let idle = \<lparr>o_runtime = rt, o_vars = vars, o_events = [], o_writes = []\<rparr> in
      case decision of
        Blocked _ \<Rightarrow> Some (idle\<lparr>o_vars := vars\<lparr>last_written_command := None, retry_after := None\<rparr>\<rparr>)
      | Write command \<Rightarrow>
          if (case retry_after vars of None \<Rightarrow> False | Some deadline \<Rightarrow> e_clock env PRetry < deadline)
          then Some idle
          else if (case last_written_command vars of None \<Rightarrow> False
              | Some lw \<Rightarrow> matches_recent (e_clock env PRecent) lw (fingerprint_of command) (lc_safety cfg))
          then Some idle
          else interlocked_write cfg env command rt vars)"

definition control_loop_iteration ::
    "loop_config \<Rightarrow> loop_env \<Rightarrow> runtime_state \<Rightarrow> loop_vars \<Rightarrow> loop_out option" where
  "control_loop_iteration cfg env rt vars =
     (let (rt1, ev1) = input_phase cfg env rt;
          (rt2, ev2) = enforce_phase env rt1;
          rt3 = e_interfere env PDecide rt2
      in Option.bind
           (if e_decide_joined env
            then decide_control_with_optional_guard (e_clock env PDecide) (lc_safety cfg) rt3
              (if lc_guard cfg then Some (e_guard_decide env) else None)
            else Some (Blocked ControlFault)) (\<lambda>decision.
         map_option (\<lambda>out. out\<lparr>o_events := ev1 @ ev2 @ o_events out\<rparr>)
           (act_phase cfg env decision rt3 vars)))"

text \<open>The loop over a finite prefix of its iterations; the loop itself never ends.\<close>

fun control_loop :: "loop_config \<Rightarrow> loop_env list \<Rightarrow> runtime_state \<Rightarrow> loop_vars \<Rightarrow> loop_out option" where
  "control_loop cfg [] rt vars =
     Some \<lparr>o_runtime = rt, o_vars = vars, o_events = [], o_writes = []\<rparr>"
| "control_loop cfg (env # envs) rt vars =
     Option.bind (control_loop_iteration cfg env rt vars) (\<lambda>out.
     map_option (\<lambda>rest. rest\<lparr>o_events := o_events out @ o_events rest,
                              o_writes := o_writes out @ o_writes rest\<rparr>)
       (control_loop cfg envs (o_runtime out) (o_vars out)))"

text \<open>The monitor that observes the end of the loop task.\<close>

definition control_loop_terminated_monitor :: "runtime_state \<Rightarrow> runtime_state" where
  "control_loop_terminated_monitor rt =
     fst (latch_control_fault
       ''control loop task terminated; automatic control disabled until process restart and field re-verification''
       (rt\<lparr>auto_enabled := False, control_loop_terminated := True\<rparr>))"


section \<open>Structure of an iteration\<close>

text \<open>The state on which the iteration decides, and the live state of the final interlock.\<close>

definition decide_state :: "loop_config \<Rightarrow> loop_env \<Rightarrow> runtime_state \<Rightarrow> runtime_state" where
  "decide_state cfg env rt =
     e_interfere env PDecide (fst (enforce_phase env (fst (input_phase cfg env rt))))"

definition live_state :: "loop_config \<Rightarrow> loop_env \<Rightarrow> runtime_state \<Rightarrow> runtime_state" where
  "live_state cfg env rt = e_interfere env PLive (e_interfere env PSnapshot (decide_state cfg env rt))"

lemma iteration_cases:
  assumes "control_loop_iteration cfg env rt vars = Some out"
  obtains d act where "act_phase cfg env d (decide_state cfg env rt) vars = Some act"
    "o_runtime out = o_runtime act" "o_vars out = o_vars act" "o_writes out = o_writes act"
  using assms
  by (auto simp: control_loop_iteration_def decide_state_def Let_def bind_eq_Some_conv split: prod.splits)

lemma act_phase_cases:
  assumes "act_phase cfg env d rt vars = Some out"
  obtains "o_runtime out = rt" "o_writes out = []"
  | command where "d = Write command" "interlocked_write cfg env command rt vars = Some out"
  using assms
  by (cases d) (auto simp: act_phase_def Let_def split: if_splits)

lemma interlock_verdict_cases:
  obtains r where "o_writes (interlock_verdict cfg env command snap live recheck vars d) = []"
    "o_runtime (interlock_verdict cfg env command snap live recheck vars d)
      = fst (latch_control_fault r (e_interfere env PInterlockFault live))"
  | "o_writes (interlock_verdict cfg env command snap live recheck vars d) = []"
    "o_runtime (interlock_verdict cfg env command snap live recheck vars d) = live"
  | current where "interlock_verdict cfg env command snap live recheck vars d
      = deliver cfg env command (active_batch_id live) live vars"
    "active_batch_id live = active_batch_id snap" "d = Write current" "command_eq current command"
proof -
  let ?v = "interlock_verdict cfg env command snap live recheck vars d"
  let ?same = "case d of Write c \<Rightarrow> command_eq c command | Blocked _ \<Rightarrow> False"
  let ?dec = "case recheck of Inr _ \<Rightarrow> if ?same then None else Some d | Inl e \<Rightarrow> Some e"
  consider "is_ok recheck \<and> ?same \<and> active_batch_id live \<noteq> active_batch_id snap"
    | "\<not> (is_ok recheck \<and> ?same \<and> active_batch_id live \<noteq> active_batch_id snap)" "?dec = None"
    | e where "\<not> (is_ok recheck \<and> ?same \<and> active_batch_id live \<noteq> active_batch_id snap)" "?dec = Some e"
    by blast
  then show thesis
  proof cases
    case 1
    then show thesis using that(2) by (simp add: interlock_verdict_def Let_def)
  next
    case 2
    then obtain c where "d = Write c" "command_eq c command"
      by (auto split: sum.splits if_splits control_decision.splits)
    moreover have "active_batch_id live = active_batch_id snap"
      using 2 by (auto split: sum.splits if_splits)
    moreover have "?v = deliver cfg env command (active_batch_id live) live vars"
      unfolding interlock_verdict_def Let_def 2(2) using 2(1) by auto
    ultimately show thesis using that(3) by blast
  next
    case 3
    have v: "?v = (case automatic_final_interlock_fault_reason e of
        None \<Rightarrow> \<lparr>o_runtime = live, o_vars = vars\<lparr>last_written_command := None, retry_after := None\<rparr>,
          o_events = [], o_writes = []\<rparr>
      | Some reason \<Rightarrow> \<lparr>o_runtime = fst (latch_control_fault reason (e_interfere env PInterlockFault live)),
          o_vars = vars\<lparr>last_written_command := None, retry_after := None\<rparr>,
          o_events = audit_automatic_final_interlock_block
            (active_batch_id (e_interfere env PInterlockFault live))
            (snd (latch_control_fault reason (e_interfere env PInterlockFault live))) reason,
          o_writes = []\<rparr>)"
      unfolding interlock_verdict_def Let_def 3(2) case_prod_beta using 3(1) by auto
    show thesis
      by (cases "automatic_final_interlock_fault_reason e") (use that(1,2) in \<open>simp_all add: v\<close>)
  qed
qed

text \<open>The three ways the final interlock ends: a fault latched, the cycle skipped, or the command
  delivered, which needs a consistent batch and a live decision for the same command.\<close>

lemma interlocked_write_cases:
  assumes "interlocked_write cfg env command rt vars = Some out"
  defines "snap \<equiv> e_interfere env PSnapshot rt"
  defines "live \<equiv> e_interfere env PLive snap"
  obtains r p x where "o_writes out = []" "x \<in> {snap, live}"
    "o_runtime out = fst (latch_control_fault r (e_interfere env p x))"
  | "o_writes out = []" "o_runtime out = live"
  | current unfinished where "out = deliver cfg env command (active_batch_id live) live vars"
    "active_batch_id live = active_batch_id snap" "e_unfinished env = Ok unfinished"
    "automatic_batch_state_is_consistent (active_batch_id snap) unfinished = Ok ()"
    "decide_control_with_optional_guard (e_clock env PLive) (lc_safety cfg) live None = Some (Write current)"
    "command_eq current command"
proof (cases "e_unfinished env")
  case (Inl err)
  then show thesis using assms(1) that(1) [of snap]
    by (auto simp: interlocked_write_def Let_def snap_def)
next
  case (Inr unfinished)
  show thesis
  proof (cases "automatic_batch_state_is_consistent (active_batch_id snap) unfinished")
    case (Inl reason)
    then show thesis using assms(1) Inr that(1) [of snap reason PBatchFault]
      by (auto simp: interlocked_write_def Let_def snap_def split: prod.splits)
  next
    case cons: (Inr u)
    obtain recheck d where d: "decide_control_with_optional_guard (e_clock env PLive) (lc_safety cfg) live None = Some d"
      and out: "out = interlock_verdict cfg env command snap live recheck vars d"
      using assms(1) Inr cons unfolding interlocked_write_def Let_def snap_def live_def
      by (auto simp: bind_eq_Some_conv)
    from interlock_verdict_cases [of cfg env command snap live recheck vars d] show thesis
    proof cases
      case 1
      then show thesis using that(1) [of live] out by auto
    next
      case 2
      then show thesis using that(2) out by simp
    next
      case 3
      then show thesis using that(3) out d Inr cons by simp
    qed
  qed
qed

lemma deliver_cases:
  obtains r where "o_runtime (deliver cfg env command b rt vars)
      = fst (latch_control_fault r (e_interfere env PAckFault rt))"
  | ack where "o_runtime (deliver cfg env command b rt vars) = e_interfere env PAckFault rt"
    "e_write env = Ok ack" "e_audit_write env = Ok ()"
    "confirmed (classify_ack_outcome (ack_status_of ack) (require_command_ack (control (lc_safety cfg)))
       (command_ack_timeout_ms (control (lc_safety cfg))))"
proof (cases "e_write env")
  case (Inl err)
  then show thesis using that(1) by (simp add: deliver_def Let_def)
next
  case (Inr ack)
  let ?o = "classify_ack_outcome (ack_status_of ack) (require_command_ack (control (lc_safety cfg)))
       (command_ack_timeout_ms (control (lc_safety cfg)))"
  have f: "\<not> confirmed ?o \<Longrightarrow> fault ?o \<noteq> None" by (auto simp: classify_ack_outcome_def Let_def split: if_splits)
  show thesis
  proof (cases "confirmed ?o")
    case True
    then show thesis using Inr that
      by (cases "e_audit_write env") (auto simp: deliver_def Let_def latch_audit_failure_after_device_action_def)
  next
    case False
    then show thesis using Inr that(1) f
      by (auto simp: deliver_def Let_def case_prod_beta)
  qed
qed

section \<open>Invariants of the loop\<close>

text \<open>A property of the runtime state that the loop's own updates keep. The loop then keeps it
  whenever the tasks it runs beside keep it (the rely condition), at every iteration.\<close>

definition rely :: "loop_env \<Rightarrow> (runtime_state \<Rightarrow> bool) \<Rightarrow> bool" where
  "rely env good \<longleftrightarrow> (\<forall>p rt. good rt \<longrightarrow> good (e_interfere env p rt))"

locale loop_invariant =
  fixes good :: "runtime_state \<Rightarrow> bool"
  assumes inv_latch: "good rt \<Longrightarrow> good (fst (latch_control_fault r rt))"
    and inv_disable: "good rt \<Longrightarrow> good (fst (disable_auto_for_field_fault r rt))"
    and inv_enforce: "good rt \<Longrightarrow> good (fst (enforce_control_fault_fail_closed rt))"
    and inv_drop_sample: "good rt \<Longrightarrow> good (rt\<lparr>latest_sample := None\<rparr>)"
    and inv_status: "good rt \<Longrightarrow> good (rt\<lparr>device_status := st\<rparr>)"
    and inv_accept: "good rt \<Longrightarrow> validate_sensor_snapshot s = Ok () \<Longrightarrow>
      good (rt\<lparr>latest_sample := Some s, last_sensor_error := None\<rparr>)"
begin

lemma inv_latch_case: "good rt \<Longrightarrow> latch_control_fault r rt = (rt', b) \<Longrightarrow> good rt'"
  using inv_latch [of rt r] by simp

lemma inv_disable_case: "good rt \<Longrightarrow> disable_auto_for_field_fault r rt = (rt', b) \<Longrightarrow> good rt'"
  using inv_disable [of rt r] by simp

lemma inv_pipeline_input: "good rt \<Longrightarrow> good (fst (pipeline_input now safety rt))"
  using inv_disable_case
  by (auto simp: pipeline_input_def split: option.split prod.split)

lemma inv_accept_sample:
  assumes "good rt" "validate_sensor_snapshot s = Ok ()"
  shows "good (fst (accept_sample_and_audit_faults now safety s st rt))"
proof -
  let ?rt = "rt\<lparr>latest_sample := Some s, last_sensor_error := None, device_status := st\<rparr>"
  have 1: "good ?rt" using inv_status [OF inv_accept [OF assms], of st] by simp
  from inv_latch_case [OF 1] inv_disable_case [OF 1] 1 show ?thesis
    by (auto simp: accept_sample_and_audit_faults_def Let_def split: option.split prod.split)
qed

lemma inv_latch_status: "good rt \<Longrightarrow> good (fst (latch_status_command_fault b st rt))"
  using inv_latch_case by (auto simp: latch_status_command_fault_def split: option.split prod.split)

lemma inv_reject_sample: "good rt \<Longrightarrow> good (fst (reject_sample b st r rt))"
  using inv_latch_status inv_disable [OF inv_drop_sample [OF inv_status]]
  by (auto simp: reject_sample_def Let_def reject_unpersisted_sample_with_status_def
      reject_unpersisted_sample_def split: prod.split) (metis fst_conv)

lemma inv_device_input:
  assumes "good rt" "rely env good"
  shows "good (fst (device_input cfg env rt))"
proof -
  have i: "good (e_interfere env p x)" if "good x" for p x using assms(2) that by (simp add: rely_def)
  have read_failed: "good (rt\<lparr>latest_sample := None, device_status := st\<rparr>)" if "good rt" for rt st
    using inv_status [OF inv_drop_sample [OF that], of st] by simp
  have acc: "good (fst (accept_sample_and_audit_faults now safety s st (e_interfere env PSample
      (e_interfere env PReadBatch rt))))" if "validate_sensor_snapshot s = Inr u" for s st now safety u
    using that by (intro inv_accept_sample i assms(1)) simp
  have rej: "good (fst (reject_sample b st r (e_interfere env PSample (e_interfere env PReadBatch rt))))"
    for b st r by (intro inv_reject_sample i assms(1))
  have fail: "good x" if "disable_auto_for_field_fault r ((e_interfere env PReadFailed rt)
      \<lparr>latest_sample := None, device_status := st\<rparr>) = (y, b)"
    "latch_status_command_fault bt st' y = (x, e)" for x y b r st st' bt e
    using inv_disable_case [OF read_failed [OF i [OF assms(1)]] that(1)] inv_latch_status that(2)
    by (metis fst_conv)
  show ?thesis
    using acc rej fail unfolding device_input_def Let_def
    by (auto split: option.split sum.split prod.split)
qed

lemma inv_input_phase: "good rt \<Longrightarrow> rely env good \<Longrightarrow> good (fst (input_phase cfg env rt))"
  using inv_pipeline_input inv_device_input by (simp add: input_phase_def rely_def)

lemma inv_enforce_phase: "good rt \<Longrightarrow> rely env good \<Longrightarrow> good (fst (enforce_phase env rt))"
  using inv_enforce by (simp add: enforce_phase_def rely_def Let_def split: prod.split) (metis fst_conv)

lemma inv_deliver:
  assumes "good rt" "rely env good"
  shows "good (o_runtime (deliver cfg env command b rt vars))"
proof -
  have 1: "good (e_interfere env PAckFault rt)" using assms by (simp add: rely_def)
  then show ?thesis using inv_latch [OF 1] by (metis deliver_cases)
qed

lemma inv_interlocked_write:
  assumes "good rt" "rely env good" "interlocked_write cfg env command rt vars = Some out"
  shows "good (o_runtime out)"
proof -
  have i: "good (e_interfere env p x)" if "good x" for p x using assms(2) that by (simp add: rely_def)
  from assms(3) show ?thesis
    by (rule interlocked_write_cases) (use i assms(1,2) inv_latch inv_deliver in auto)
qed

lemma inv_iteration:
  assumes "good rt" "rely env good" "control_loop_iteration cfg env rt vars = Some out"
  shows "good (o_runtime out)"
proof -
  have 3: "good (decide_state cfg env rt)"
    using inv_enforce_phase [OF inv_input_phase [OF assms(1,2)] assms(2)] assms(2)
    by (simp add: rely_def decide_state_def)
  from assms(3) obtain d act where "act_phase cfg env d (decide_state cfg env rt) vars = Some act"
    "o_runtime out = o_runtime act" by (rule iteration_cases)
  with 3 inv_interlocked_write [OF 3 assms(2)] show ?thesis by (auto elim: act_phase_cases)
qed

lemma inv_loop:
  assumes "good rt" "\<forall>env \<in> set envs. rely env good" "control_loop cfg envs rt vars = Some out"
  shows "good (o_runtime out)"
  using assms
proof (induction envs arbitrary: rt vars out)
  case (Cons env envs)
  then obtain out1 rest where "control_loop_iteration cfg env rt vars = Some out1"
    "control_loop cfg envs (o_runtime out1) (o_vars out1) = Some rest" "o_runtime out = o_runtime rest"
    by (auto simp: bind_eq_Some_conv)
  with Cons inv_iteration show ?case by (metis list.set_intros)
qed auto

end

text \<open>The invariants of this program: the latches hold; the stored sample is plausible and the
  targets usable; the fault generation never decreases; a dead supervisor stays recorded.\<close>

definition data_ok :: "runtime_state \<Rightarrow> bool" where
  "data_ok rt \<longleftrightarrow> (\<forall>s. latest_sample rt = Some s \<longrightarrow> plausible_sample s) \<and> usable_targets (targets rt)"

interpretation latches: loop_invariant latches_hold
  by unfold_locales (auto simp: latches_hold_def runtime_op_defs Let_def)

interpretation data: loop_invariant data_ok
  by unfold_locales
    (auto simp: data_ok_def runtime_op_defs Let_def validate_sensor_snapshot_iff)

interpretation generation: loop_invariant "\<lambda>rt. g \<le> unat (control_fault_generation rt)" for g
  by unfold_locales (auto simp: runtime_op_defs Let_def
      intro: order_trans [OF _ unat_saturating_add_ge])

interpretation terminated: loop_invariant control_loop_terminated
  by unfold_locales (auto simp: runtime_op_defs Let_def)


section \<open>Facts about the pure parts\<close>

lemma batch_consistent_iff:
  "automatic_batch_state_is_consistent active unfinished = Ok ()
   \<longleftrightarrow> batch_id ` set unfinished = set_option active"
proof (cases active)
  case (Some a)
  have "batch_id ` set unfinished = {a} \<longleftrightarrow>
    (\<forall>b \<in> set unfinished. a = batch_id b) \<and> (\<exists>b \<in> set unfinished. batch_id b = a)"
    by auto (metis imageE insertI1)
  moreover have "automatic_batch_state_is_consistent active unfinished = Ok () \<longleftrightarrow>
    (\<forall>b \<in> set unfinished. a = batch_id b) \<and> (\<exists>b \<in> set unfinished. batch_id b = a)"
    by (simp add: Some automatic_batch_state_is_consistent_def Let_def filter_empty_conv list_ex_iff)
      blast
  ultimately show ?thesis using Some by simp
qed (auto simp: automatic_batch_state_is_consistent_def Let_def)

lemma confirmed_iff:
  "confirmed (classify_ack_outcome st req ms) \<longleftrightarrow> st = Confirmed \<or> st = Unverified \<and> \<not> req"
  by (auto simp: classify_ack_outcome_def Let_def)

lemma decide_in_process:
  "decide_control_with_optional_guard now safety rt None =
     decide_control_with_device_status now safety (latest_sample rt) (targets rt) (auto_enabled rt)
       (manual_lock rt) (emergency_stop rt) (last_control_error rt) (device_status rt)"
  by (simp add: decide_control_with_optional_guard_def request_of_def option.map_comp
      split: option.split) 

lemma optional_guard_total [panic_free]:
  "wf_safety safety \<Longrightarrow> \<exists>d. decide_control_with_optional_guard now safety rt guard = Some d"
  using decide_control_total [of safety now "latest_sample rt" "targets rt" "auto_enabled rt" "manual_lock rt"
      "emergency_stop rt" "last_control_error rt" "device_status rt"]
  by (auto simp: decide_control_with_optional_guard_def request_of_def
      split: option.split sum.split safety_guard_response.split)

lemma f64_eq_in_range: "f64_eq x y \<Longrightarrow> in_range lo hi x \<Longrightarrow> in_range lo hi y"
  using f64_le_trans unfolding f64_eq_def in_range_def by blast

lemma command_eq_in_limits: "command_eq a b \<Longrightarrow> command_in_limits safety a \<Longrightarrow> command_in_limits safety b"
  using f64_eq_in_range by (auto simp: command_eq_def command_in_limits_def)

lemma o_writes_deliver: "\<exists>rid. o_writes (deliver cfg env command b rt vars) = [(command, rid)]"
  by (auto simp: deliver_def Let_def case_prod_beta split: sum.split option.split)

text \<open>What a device write implies about the state at the final interlock.\<close>

lemma iteration_write:
  assumes "control_loop_iteration cfg env rt vars = Some out" "o_writes out \<noteq> []"
  obtains command current rid unfinished where
    "o_writes out = [(command, rid)]" "command_eq current command"
    "decide_control_with_device_status (e_clock env PLive) (lc_safety cfg)
       (latest_sample (live_state cfg env rt)) (targets (live_state cfg env rt))
       (auto_enabled (live_state cfg env rt)) (manual_lock (live_state cfg env rt))
       (emergency_stop (live_state cfg env rt)) (last_control_error (live_state cfg env rt))
       (device_status (live_state cfg env rt)) = Some (Write current)"
    "e_unfinished env = Ok unfinished"
    "batch_id ` set unfinished = set_option (active_batch_id (live_state cfg env rt))"
    "o_runtime out = o_runtime (deliver cfg env command
       (active_batch_id (live_state cfg env rt)) (live_state cfg env rt) vars)"
proof -
  from assms(1) obtain d act where a: "act_phase cfg env d (decide_state cfg env rt) vars = Some act"
    "o_runtime out = o_runtime act" "o_writes out = o_writes act" by (rule iteration_cases)
  then obtain command where "interlocked_write cfg env command (decide_state cfg env rt) vars = Some act"
    using assms(2) by (auto elim: act_phase_cases)
  then show thesis
  proof (cases rule: interlocked_write_cases)
    case (3 current unfinished)
    from o_writes_deliver obtain rid where "o_writes act = [(command, rid)]" using 3(1) by metis
    with 3 a show thesis using that [of command rid current unfinished]
      by (simp add: live_state_def decide_in_process batch_consistent_iff)
  qed (use a assms(2) in auto)
qed

lemma iteration_total [panic_free]:
  assumes "wf_safety (lc_safety cfg)"
  shows "\<exists>out. control_loop_iteration cfg env rt vars = Some out"
proof -
  have d: "decide_control_with_optional_guard now (lc_safety cfg) x g \<noteq> None" for now x g
    using optional_guard_total [OF assms] by (metis option.distinct(1))
  have e: "ensure_automatic_control_write_still_current now (lc_safety cfg) x g c \<noteq> None" for now x g c
    using d by (simp add: ensure_automatic_control_write_still_current_def)
  have i: "interlocked_write cfg env c x vars \<noteq> None" for c x
    using d e by (simp add: interlocked_write_def Let_def case_prod_beta bind_eq_None_conv
        split: sum.split del: not_None_eq)
  have a: "act_phase cfg env dd x vars \<noteq> None" for dd x
    using i by (simp add: act_phase_def Let_def split: control_decision.split)
  have "control_loop_iteration cfg env rt vars \<noteq> None"
    using a d by (simp add: control_loop_iteration_def Let_def case_prod_beta bind_eq_None_conv
        del: not_None_eq)
  then show ?thesis by blast
qed

section \<open>Properties\<close>

text \<open>C2: The loop writes to the device only on a state that permits it. Whatever other tasks do to
  the runtime state between lock acquisitions and whatever the guard process answers, a command is
  sent at most once per iteration, and only if the live state read immediately before the write has
  automatic control enabled, no manual lock, no emergency stop, no latched fault, a device status
  that does not block, a sample that is fresh at that moment, and an active batch that is exactly the
  unfinished batch of the database.\<close>

theorem loop_write_interlocked:
  assumes "control_loop_iteration cfg env rt vars = Some out" "o_writes out \<noteq> []"
  defines "live \<equiv> live_state cfg env rt" and "safety \<equiv> lc_safety cfg"
  shows "length (o_writes out) = 1
    \<and> auto_enabled live \<and> \<not> manual_lock live \<and> \<not> emergency_stop live \<and> last_control_error live = None
    \<and> status_clear (e_clock env PLive) safety (device_status live)
    \<and> (\<exists>s. latest_sample live = Some s \<and>
        timestamp_is_fresh (e_clock env PLive) (s_captured_at s) (sensor_timeout_ms (control safety)))
    \<and> (\<exists>unfinished. e_unfinished env = Ok unfinished
        \<and> batch_id ` set unfinished = set_option (active_batch_id live))"
  using assms(1,2) unfolding live_def safety_def
  by (rule iteration_write) (auto simp: decide_write_iff)


text \<open>C3: A write that is not confirmed fails closed: if the device call fails, the handshake is
  rejected, times out or is missing while required, or the audit record of the write cannot be stored,
  then the iteration ends with a latched control fault and automatic control off.\<close>

theorem loop_unconfirmed_write_fails_closed:
  assumes "control_loop_iteration cfg env rt vars = Some out" "o_writes out \<noteq> []"
    "\<forall>ack. e_write env = Ok ack \<and> e_audit_write env = Ok () \<longrightarrow>
      ack_status_of ack \<noteq> Confirmed \<and>
      (ack_status_of ack = Unverified \<longrightarrow> require_command_ack (control (lc_safety cfg)))"
  shows "\<not> auto_enabled (o_runtime out) \<and> last_control_error (o_runtime out) \<noteq> None"
  using assms(1,2)
proof (rule iteration_write)
  fix com :: safe_command and live
  assume o: "o_runtime out = o_runtime (deliver cfg env com
      (active_batch_id (live_state cfg env rt)) (live_state cfg env rt) vars)"
  show ?thesis
  proof (rule deliver_cases [of cfg env com "active_batch_id (live_state cfg env rt)" "live_state cfg env rt" vars])
    fix r assume "o_runtime (deliver cfg env com (active_batch_id (live_state cfg env rt))
      (live_state cfg env rt) vars) = fst (latch_control_fault r (e_interfere env PAckFault (live_state cfg env rt)))"
    then show ?thesis by (simp add: o latch_simps)
  next
    fix ack assume "e_write env = Ok ack" "e_audit_write env = Ok ()"
      "confirmed (classify_ack_outcome (ack_status_of ack) (require_command_ack (control (lc_safety cfg)))
         (command_ack_timeout_ms (control (lc_safety cfg))))"
    with assms(3) show ?thesis by (auto simp: confirmed_iff)
  qed
qed


text \<open>C6: The latch invariant of the whole loop: if it holds initially and the tasks running beside the
  loop keep it, then after any number of iterations automatic control is not enabled while a manual
  lock, an emergency stop or a control fault is latched.\<close>

theorem control_loop_latches:
  assumes "latches_hold rt" "\<forall>env \<in> set envs. rely env latches_hold"
    "control_loop cfg envs rt vars = Some out" "auto_enabled (o_runtime out)"
  shows "\<not> manual_lock (o_runtime out) \<and> \<not> emergency_stop (o_runtime out)
    \<and> last_control_error (o_runtime out) = None"
  using latches.inv_loop [OF assms(1-3)] assms(4) by (simp add: latches_hold_def)


section \<open>Witnesses\<close>

text \<open>A running plant under the shipped configuration: a fresh plausible sample, a healthy device,
  automatic control on, and an environment that does not interfere.\<close>

definition demo_runtime :: runtime_state where
  "demo_runtime = (from_safety shipped_safety)\<lparr>auto_enabled := True\<rparr>"

definition demo_cfg :: loop_config where
  "demo_cfg = \<lparr>lc_safety = shipped_safety, lc_mode = Esp32Serial, lc_guard = False, lc_persist = True\<rparr>"

definition demo_env :: "anyhow + command_ack \<Rightarrow> loop_env" where
  "demo_env w = \<lparr>e_clock = (\<lambda>_. 0), e_interfere = (\<lambda>_ rt. rt),
     e_read = Some (Ok (demo_sample, Some demo_status)), e_status_read = None, e_insert_sample = Ok (),
     e_guard_decide = Err [], e_decide_joined = True, e_unfinished = Ok [], e_guard_recheck = Err [],
     e_recheck_joined = True, e_write = w, e_audit_write = Ok ()\<rparr>"

lemmas demo_defs = demo_sample_def demo_status_def demo_runtime_def demo_cfg_def demo_env_def

lemma demo_live: "live_state demo_cfg (demo_env w) demo_runtime
    = demo_runtime\<lparr>latest_sample := Some demo_sample, device_status := Some demo_status\<rparr>"
  using demo_sample_plausible
  by (simp add: live_state_def decide_state_def enforce_phase_def input_phase_def device_input_def
      accept_sample_and_audit_faults_def device_status_field_fault_reason_def timestamp_age_ms_def
      trunc_div_def downstream_command_fault_reason_def enforce_control_fault_fail_closed_def
      demo_cfg_def demo_env_def demo_runtime_def demo_status_def from_safety_def Let_def
      shipped_safety_def)


definition demo_command :: safe_command where
  "demo_command = make_command (Num 60) (Num 300) (targets (from_safety shipped_safety))"

abbreviation demo_live_state :: runtime_state where
  "demo_live_state \<equiv> demo_runtime\<lparr>latest_sample := Some demo_sample, device_status := Some demo_status\<rparr>"

lemma demo_decision:
  "decide_control_with_optional_guard 0 shipped_safety demo_live_state None = Some (Write demo_command)"
proof -
  note demo_set_point demo_not_forbidden demo_status_clear demo_fresh
  moreover have "\<not> manual_lock_default (control shipped_safety)" by (simp add: shipped_safety_def)
  ultimately show ?thesis unfolding decide_in_process decide_write_iff demo_command_def
    by (simp add: demo_runtime_def from_safety_def)
qed

lemma demo_command_eq: "command_eq demo_command demo_command"
  by (simp add: command_eq_def demo_command_def make_command_def from_safety_def shipped_safety_def
      half_two_decimals)

lemma demo_iteration:
  "\<exists>out. control_loop_iteration demo_cfg (demo_env w) demo_runtime initial_vars = Some out
     \<and> o_writes out \<noteq> []
     \<and> o_writes out = o_writes (deliver demo_cfg (demo_env w) demo_command None demo_live_state initial_vars)
     \<and> o_runtime out = o_runtime (deliver demo_cfg (demo_env w) demo_command None demo_live_state initial_vars)"
proof -
  have d: "decide_state demo_cfg (demo_env w) demo_runtime = demo_live_state"
    using demo_live [of w] by (simp add: live_state_def demo_env_def)
  have b: "active_batch_id demo_live_state = None" by (simp add: demo_runtime_def from_safety_def)
  have iw: "interlocked_write demo_cfg (demo_env w) demo_command demo_live_state initial_vars
      = Some (deliver demo_cfg (demo_env w) demo_command None demo_live_state initial_vars)"
    using b by (simp add: interlocked_write_def Let_def demo_env_def demo_cfg_def
        automatic_batch_state_is_consistent_def ensure_automatic_control_write_still_current_def
        demo_decision demo_command_eq interlock_verdict_def)
  have "act_phase demo_cfg (demo_env w) (Write demo_command) demo_live_state initial_vars
      = Some (deliver demo_cfg (demo_env w) demo_command None demo_live_state initial_vars)"
    using iw by (simp add: act_phase_def initial_vars_def)
  moreover have "control_loop_iteration demo_cfg (demo_env w) demo_runtime initial_vars =
      map_option (\<lambda>out. out\<lparr>o_events := snd (input_phase demo_cfg (demo_env w) demo_runtime)
        @ snd (enforce_phase (demo_env w) (fst (input_phase demo_cfg (demo_env w) demo_runtime)))
        @ o_events out\<rparr>)
      (act_phase demo_cfg (demo_env w) (Write demo_command) demo_live_state initial_vars)"
    unfolding control_loop_iteration_def Let_def case_prod_beta d [unfolded decide_state_def]
    by (simp add: demo_env_def demo_cfg_def demo_decision)
  ultimately have "\<exists>ev. control_loop_iteration demo_cfg (demo_env w) demo_runtime initial_vars =
      Some ((deliver demo_cfg (demo_env w) demo_command None demo_live_state initial_vars)\<lparr>o_events := ev\<rparr>)"
    by auto
  then show ?thesis
    using o_writes_deliver [of demo_cfg "demo_env w" demo_command None demo_live_state initial_vars]
    by auto
qed


theorem loop_write_interlocked_witness:
  "\<exists>out. control_loop_iteration demo_cfg (demo_env (Err [''serial port closed''])) demo_runtime initial_vars = Some out
     \<and> length (o_writes out) = 1
     \<and> auto_enabled (live_state demo_cfg (demo_env (Err [''serial port closed''])) demo_runtime)"
proof -
  obtain out where "control_loop_iteration demo_cfg (demo_env (Err [''serial port closed''])) demo_runtime initial_vars = Some out"
    "o_writes out \<noteq> []" using demo_iteration by blast
  with loop_write_interlocked [OF this] show ?thesis by blast
qed

lemma demo_data_ok: "data_ok (live_state demo_cfg (demo_env w) demo_runtime)"
  unfolding demo_live using demo_sample_plausible validate_sensor_snapshot_iff
  by (simp add: data_ok_def usable_targets_def demo_runtime_def from_safety_def shipped_safety_def)

lemma demo_safety [simp]: "lc_safety demo_cfg = shipped_safety"
  by (simp add: demo_cfg_def)


theorem loop_unconfirmed_write_fails_closed_witness:
  "\<exists>out. control_loop_iteration demo_cfg (demo_env (Ok \<lparr>ack_request_id = ''r'', ack_status_of = Timeout,
       accepted_targets = None\<rparr>)) demo_runtime initial_vars = Some out
     \<and> \<not> auto_enabled (o_runtime out) \<and> last_control_error (o_runtime out) \<noteq> None"
proof -
  let ?w = "Ok \<lparr>ack_request_id = ''r'', ack_status_of = Timeout, accepted_targets = None\<rparr> :: anyhow + command_ack"
  obtain out where o: "control_loop_iteration demo_cfg (demo_env ?w) demo_runtime initial_vars = Some out"
    "o_writes out \<noteq> []" using demo_iteration by blast
  have "\<forall>ack. e_write (demo_env ?w) = Ok ack \<and> e_audit_write (demo_env ?w) = Ok () \<longrightarrow>
      ack_status_of ack \<noteq> Confirmed \<and>
      (ack_status_of ack = Unverified \<longrightarrow> require_command_ack (control (lc_safety demo_cfg)))"
    by (simp add: demo_env_def)
  from loop_unconfirmed_write_fails_closed [OF o this] o(1) show ?thesis by blast
qed


lemma demo_rely: "rely (demo_env w) P"
  by (simp add: rely_def demo_env_def)

lemma demo_latches: "latches_hold demo_runtime"
  by (simp add: latches_hold_def demo_runtime_def from_safety_def shipped_safety_def)

lemma demo_iteration_confirmed:
  "\<exists>out. control_loop_iteration demo_cfg (demo_env (Ok \<lparr>ack_request_id = ''r'', ack_status_of = Confirmed,
       accepted_targets = None\<rparr>)) demo_runtime initial_vars = Some out \<and> auto_enabled (o_runtime out)"
proof -
  let ?w = "Ok \<lparr>ack_request_id = ''r'', ack_status_of = Confirmed, accepted_targets = None\<rparr> :: anyhow + command_ack"
  have "o_runtime (deliver demo_cfg (demo_env ?w) demo_command None demo_live_state initial_vars) = demo_live_state"
    by (simp add: deliver_def demo_env_def Let_def confirmed_iff)
  then show ?thesis using demo_iteration [of ?w] by (auto simp: demo_runtime_def)
qed

theorem control_loop_latches_witness:
  "\<exists>out. control_loop demo_cfg [demo_env (Ok \<lparr>ack_request_id = ''r'', ack_status_of = Confirmed,
       accepted_targets = None\<rparr>)] demo_runtime initial_vars = Some out
     \<and> auto_enabled (o_runtime out) \<and> \<not> manual_lock (o_runtime out) \<and> \<not> emergency_stop (o_runtime out)
     \<and> last_control_error (o_runtime out) = None"
proof -
  let ?e = "demo_env (Ok \<lparr>ack_request_id = ''r'', ack_status_of = Confirmed, accepted_targets = None\<rparr>)"
  obtain out where "control_loop_iteration demo_cfg ?e demo_runtime initial_vars = Some out"
    "auto_enabled (o_runtime out)" using demo_iteration_confirmed by blast
  then obtain all where "control_loop demo_cfg [?e] demo_runtime initial_vars = Some all"
    "auto_enabled (o_runtime all)" by auto
  with control_loop_latches [OF demo_latches _ this] show ?thesis by (auto simp: demo_rely)
qed

end
