(* ===== verification/Api_Env.thy ===== *)
theory Api_Env
  imports Control_Loop
begin

text \<open>
  The setting in which the HTTP handlers of \<open>api.rs\<close> run. A handler is an \<open>async\<close> function over the
  shared application state: between its lock acquisitions other tasks run, and the database and the
  device answer as they like. A handler is therefore a function of an environment \<open>api_env\<close> and a
  state \<open>hstate\<close>; every lock acquisition, database call and device call consumes one tick, and the
  environment gives for each tick what the other tasks do to the runtime state before it, the clock and
  the answer of the external call. The result is \<open>None\<close> when the handler panics.

  While a handler holds the lock across a database call no other task changes the state: the body of
  \<open>with_lock\<close> receives the answer of the unfinished-batch query of its own tick.
\<close>

text \<open>A stored process: its definition and steps; a step as it is stored.\<close>

record process_step =
  step_id :: int
  step_target_temperature_c :: f64
  step_ramp_rate_c_min :: f64
  step_duration_minutes :: f64
  step_target_stirrer_rpm :: f64
  step_target_shake_speed_cpm :: f64
  step_target_pressure_mpa :: f64

record process_detail =
  process_name :: string
  process_description :: string
  process_status :: string
  process_steps :: "process_step list"

record new_process_step =
  ns_name :: string
  ns_target_temperature_c :: f64
  ns_ramp_rate_c_min :: f64
  ns_duration_minutes :: f64
  ns_target_stirrer_rpm :: f64
  ns_target_shake_speed_cpm :: f64
  ns_target_pressure_mpa :: f64
  ns_cooling_mode :: string

record api_env =
  a_safety :: safety_config
  a_clock :: "nat \<Rightarrow> time"
  a_interfere :: "nat \<Rightarrow> runtime_state \<Rightarrow> runtime_state"
  a_unfinished :: "nat \<Rightarrow> anyhow + batch list"
  a_audit :: "nat \<Rightarrow> anyhow + unit"
  a_write :: "nat \<Rightarrow> anyhow + unit"
  a_expired :: "nat \<Rightarrow> bool"
  a_sample :: "nat \<Rightarrow> anyhow + unit"
  a_create_batch :: "nat \<Rightarrow> anyhow + batch"
  a_finish_batch :: "nat \<Rightarrow> anyhow + unit"
  a_batch_by_id :: "nat \<Rightarrow> anyhow + batch option"
  a_mark_applied :: "nat \<Rightarrow> anyhow + bool"
  a_process_detail :: "nat \<Rightarrow> anyhow + process_detail option"

text \<open>The database calls that change a table other than the audit trail, as issued.\<close>

datatype db_action =
  CreateBatch "int option" string f64 f64 f64 f64
| FinishBatch int
| MarkProcessApplied int
| InsertSample "int option" sensor_snapshot
| InsertRecommendation int f64 f64 f64 f64 f64 string
| InsertProductResult int f64 f64 string
| CreateProcess string string
| UpdateProcess int string string string
| AddProcessStep int new_process_step
| UpdateProcessStep int int new_process_step

record hstate =
  h_rt :: runtime_state
  h_tick :: nat
  h_events :: "audit_event list"
  h_writes :: "safe_command list"
  h_db :: "db_action list"

type_synonym 'a handler = "api_env \<Rightarrow> hstate \<Rightarrow> ((app_error + 'a) \<times> hstate) option"

section \<open>Combinators\<close>

definition hreturn :: "'a \<Rightarrow> 'a handler" where
  "hreturn x = (\<lambda>env s. Some (Ok x, s))"

definition hresult :: "app_error + 'a \<Rightarrow> 'a handler" where
  "hresult r = (\<lambda>env s. Some (r, s))"

definition hfail :: "app_error \<Rightarrow> 'a handler" where
  "hfail e = hresult (Err e)"

definition hbind :: "'a handler \<Rightarrow> ('a \<Rightarrow> 'b handler) \<Rightarrow> 'b handler" where
  "hbind h k = (\<lambda>env s. case h env s of
       None \<Rightarrow> None
     | Some (Inl e, s1) \<Rightarrow> Some (Inl e, s1)
     | Some (Inr a, s1) \<Rightarrow> k a env s1)"

text \<open>A value whose computation can panic.\<close>

definition hpanic :: "'a option \<Rightarrow> 'a handler" where
  "hpanic x = (\<lambda>env s. map_option (\<lambda>a. (Ok a, s)) x)"

text \<open>The question mark on an \<open>anyhow\<close> result: the cause is logged, the client sees an internal error.\<close>

definition hany :: "anyhow + 'a \<Rightarrow> 'a handler" where
  "hany r = hresult (map_err (\<lambda>_. internal_error) r)"

text \<open>A handler whose failure is inspected instead of propagated: \<open>if let Err(err) = h.await\<close>.\<close>

definition hattempt :: "'a handler \<Rightarrow> (app_error + 'a) handler" where
  "hattempt h = (\<lambda>env s. map_option (\<lambda>(r, s1). (Ok r, s1)) (h env s))"

definition with_lock ::
    "(api_env \<Rightarrow> time \<Rightarrow> anyhow + batch list \<Rightarrow> runtime_state \<Rightarrow> (app_error + 'a) \<times> runtime_state)
     \<Rightarrow> 'a handler" where
  "with_lock body = (\<lambda>env s.
     let t = h_tick s;
         (r, rt) = body env (a_clock env t) (a_unfinished env t) (a_interfere env t (h_rt s))
     in Some (r, s\<lparr>h_rt := rt, h_tick := t + 1\<rparr>))"

definition read_lock :: "(runtime_state \<Rightarrow> 'a) \<Rightarrow> 'a handler" where
  "read_lock f = with_lock (\<lambda>env now unf rt. (Ok (f rt), rt))"

definition insert_event ::
    "audit_actor \<Rightarrow> int option \<Rightarrow> string \<Rightarrow> safe_command option \<Rightarrow> string \<Rightarrow> (anyhow + unit) handler" where
  "insert_event actor batch event_type command reason = (\<lambda>env s.
     let t = h_tick s;
         event = \<lparr>ev_actor = actor, ev_batch = batch, ev_type = event_type, ev_command = command,
                  ev_reason = reason\<rparr>
     in case a_audit env t of
          Inl err \<Rightarrow> Some (Ok (Err err), s\<lparr>h_tick := t + 1\<rparr>)
        | Inr _ \<Rightarrow> Some (Ok (Ok ()), s\<lparr>h_tick := t + 1, h_events := h_events s @ [event]\<rparr>))"

definition device_write :: "safe_command \<Rightarrow> (anyhow + unit) handler" where
  "device_write command = (\<lambda>env s.
     let t = h_tick s in
     Some (Ok (a_write env t), s\<lparr>h_tick := t + 1, h_writes := h_writes s @ [command]\<rparr>))"

text \<open>A call to the database that leaves no trace in this model besides its answer.\<close>

definition db_call :: "(api_env \<Rightarrow> nat \<Rightarrow> 'a) \<Rightarrow> 'a handler" where
  "db_call f = (\<lambda>env s. Some (Ok (f env (h_tick s)), s\<lparr>h_tick := h_tick s + 1\<rparr>))"

text \<open>A database call that changes a table.\<close>

definition db_exec :: "db_action \<Rightarrow> (api_env \<Rightarrow> nat \<Rightarrow> 'a) \<Rightarrow> 'a handler" where
  "db_exec act f = (\<lambda>env s.
     Some (Ok (f env (h_tick s)), s\<lparr>h_tick := h_tick s + 1, h_db := h_db s @ [act]\<rparr>))"

definition safety_of :: "safety_config handler" where
  "safety_of = (\<lambda>env s. Some (Ok (a_safety env), s))"

section \<open>What a handler keeps\<close>

text \<open>A predicate on the runtime state that the other tasks keep, at every tick.\<close>

definition api_rely :: "(runtime_state \<Rightarrow> bool) \<Rightarrow> api_env \<Rightarrow> bool" where
  "api_rely P env \<longleftrightarrow> (\<forall>t rt. P rt \<longrightarrow> P (a_interfere env t rt))"

definition keeps :: "(runtime_state \<Rightarrow> bool) \<Rightarrow> 'a handler \<Rightarrow> bool" where
  "keeps P h \<longleftrightarrow> (\<forall>env s r s'. api_rely P env \<longrightarrow> P (h_rt s) \<longrightarrow> h env s = Some (r, s') \<longrightarrow> P (h_rt s'))"

named_theorems keeps_intros \<open>composition rules for handlers that keep a predicate\<close>

lemma keepsI:
  "(\<And>env s r s'. api_rely P env \<Longrightarrow> P (h_rt s) \<Longrightarrow> h env s = Some (r, s') \<Longrightarrow> P (h_rt s')) \<Longrightarrow> keeps P h"
  by (simp add: keeps_def)

lemma keepsD: "keeps P h \<Longrightarrow> api_rely P env \<Longrightarrow> P (h_rt s) \<Longrightarrow> h env s = Some (r, s') \<Longrightarrow> P (h_rt s')"
  by (simp add: keeps_def)

lemma keeps_trivial [keeps_intros]:
  "keeps P (hreturn x)" "keeps P (hresult r)" "keeps P (hfail e)" "keeps P (hpanic y)" "keeps P (hany a)"
  "keeps P safety_of" "keeps P (db_call f)" "keeps P (db_exec act g)" "keeps P (device_write c)"
  by (auto simp: keeps_def hreturn_def hresult_def hfail_def hpanic_def hany_def safety_of_def db_call_def
      db_exec_def device_write_def Let_def)

lemma keeps_insert_event [keeps_intros]: "keeps P (insert_event actor b t c r)"
  by (auto simp: keeps_def insert_event_def Let_def split: sum.splits)

lemma keeps_bind [keeps_intros]:
  assumes "keeps P h" "\<And>a. keeps P (k a)"
  shows "keeps P (hbind h k)"
proof (rule keepsI)
  fix env s r s'
  assume rely: "api_rely P env" and P: "P (h_rt s)" and run: "hbind h k env s = Some (r, s')"
  from run obtain r1 s1 where h: "h env s = Some (r1, s1)"
    by (auto simp: hbind_def split: option.splits)
  have P1: "P (h_rt s1)" by (rule keepsD [OF assms(1) rely P h])
  show "P (h_rt s')"
  proof (cases r1)
    case (Inl e)
    then show ?thesis using run h P1 by (simp add: hbind_def)
  next
    case (Inr a)
    then have "k a env s1 = Some (r, s')" using run h by (simp add: hbind_def)
    then show ?thesis by (rule keepsD [OF assms(2) rely P1])
  qed
qed

lemma keeps_attempt [keeps_intros]: "keeps P h \<Longrightarrow> keeps P (hattempt h)"
  by (fastforce simp: keeps_def hattempt_def)

lemma keeps_lock [keeps_intros]:
  assumes "\<And>env now unf rt. P rt \<Longrightarrow> P (snd (body env now unf rt))"
  shows "keeps P (with_lock body)"
proof (rule keepsI)
  fix env s r s'
  assume rely: "api_rely P env" and P: "P (h_rt s)" and run: "with_lock body env s = Some (r, s')"
  have "P (a_interfere env (h_tick s) (h_rt s))" using rely P by (simp add: api_rely_def)
  from assms [OF this] run show "P (h_rt s')" by (auto simp: with_lock_def case_prod_beta Let_def)
qed

lemma keeps_read [keeps_intros]: "keeps P (read_lock f)"
  unfolding read_lock_def by (rule keeps_lock) simp

lemma keeps_if [keeps_intros]: "(b \<Longrightarrow> keeps P h) \<Longrightarrow> (\<not> b \<Longrightarrow> keeps P g) \<Longrightarrow> keeps P (if b then h else g)"
  by simp

lemma keeps_case [keeps_intros]:
  "keeps P h \<Longrightarrow> (\<And>x. keeps P (k x)) \<Longrightarrow> keeps P (case y of None \<Rightarrow> h | Some x \<Rightarrow> k x)"
  "(\<And>e. keeps P (f e)) \<Longrightarrow> (\<And>x. keeps P (g x)) \<Longrightarrow> keeps P (case z of Inl e \<Rightarrow> f e | Inr x \<Rightarrow> g x)"
  by (auto split: option.splits sum.splits)

text \<open>Unfolding a successful run of a sequence.\<close>

lemma hbind_Ok_iff:
  "hbind h k env s = Some (Inr b, s') \<longleftrightarrow>
     (\<exists>a s1. h env s = Some (Inr a, s1) \<and> k a env s1 = Some (Inr b, s'))"
  by (auto simp: hbind_def split: option.splits prod.splits sum.splits)

lemma with_lock_Some:
  "with_lock body env s = Some (r, s') \<longleftrightarrow>
     (\<exists>rt. body env (a_clock env (h_tick s)) (a_unfinished env (h_tick s))
        (a_interfere env (h_tick s) (h_rt s)) = (r, rt)
      \<and> s' = s\<lparr>h_rt := rt, h_tick := h_tick s + 1\<rparr>)"
  by (auto simp: with_lock_def Let_def split: prod.splits)

text \<open>What each primitive does when it succeeds.\<close>

named_theorems run_simps \<open>successful runs of the handler primitives\<close>

lemma run_primitives [run_simps]:
  "hreturn x env s = Some (Inr a, s') \<longleftrightarrow> a = x \<and> s' = s"
  "hresult r env s = Some (Inr a, s') \<longleftrightarrow> r = Inr a \<and> s' = s"
  "hfail e env s \<noteq> Some (Inr a, s')"
  "hpanic y env s = Some (Inr a, s') \<longleftrightarrow> y = Some a \<and> s' = s"
  "hany z env s = Some (Inr a, s') \<longleftrightarrow> z = Inr a \<and> s' = s"
  "safety_of env s = Some (Inr safety, s') \<longleftrightarrow> safety = a_safety env \<and> s' = s"
  "db_exec act g env s = Some (Inr v, s') \<longleftrightarrow>
     v = g env (h_tick s) \<and> s' = s\<lparr>h_tick := h_tick s + 1, h_db := h_db s @ [act]\<rparr>"
  "db_call f env s = Some (Inr b, s') \<longleftrightarrow> b = f env (h_tick s) \<and> s' = s\<lparr>h_tick := h_tick s + 1\<rparr>"
  "device_write c env s = Some (Inr w, s') \<longleftrightarrow>
     w = a_write env (h_tick s) \<and> s' = s\<lparr>h_tick := h_tick s + 1, h_writes := h_writes s @ [c]\<rparr>"
  by (auto simp: hreturn_def hresult_def hfail_def hpanic_def hany_def safety_of_def db_call_def
      db_exec_def device_write_def Let_def split: sum.splits)

lemma run_insert_event [run_simps]:
  "insert_event actor b ty c r env s = Some (Inr x, s') \<longleftrightarrow>
     x = a_audit env (h_tick s)
     \<and> s' = s\<lparr>h_tick := h_tick s + 1, h_events := h_events s @
          (case a_audit env (h_tick s) of Inl _ \<Rightarrow> []
           | Inr _ \<Rightarrow> [\<lparr>ev_actor = actor, ev_batch = b, ev_type = ty, ev_command = c, ev_reason = r\<rparr>])\<rparr>"
  by (cases "a_audit env (h_tick s)") (auto simp: insert_event_def Let_def)

lemma run_read [run_simps]:
  "read_lock f env s = Some (Inr x, s') \<longleftrightarrow>
     x = f (a_interfere env (h_tick s) (h_rt s))
     \<and> s' = s\<lparr>h_rt := a_interfere env (h_tick s) (h_rt s), h_tick := h_tick s + 1\<rparr>"
  by (auto simp: read_lock_def with_lock_Some)

lemmas run_lock [run_simps] = with_lock_Some hbind_Ok_iff

text \<open>No handler built from these combinators panics unless a computation in it does.\<close>

definition returns :: "'a handler \<Rightarrow> bool" where
  "returns h \<longleftrightarrow> (\<forall>env s. wf_safety (a_safety env) \<longrightarrow> h env s \<noteq> None)"

named_theorems returns_intros \<open>handlers that cannot panic under a valid configuration\<close>

lemma returns_trivial [returns_intros]:
  "returns (hreturn x)" "returns (hresult r)" "returns (hfail e)" "returns (hany a)" "returns (db_call f)"
  "returns (db_exec act h)"
  "returns (device_write c)" "returns (with_lock body)" "returns (read_lock g)" "returns (hpanic (Some y))"
  by (auto simp: returns_def hreturn_def hresult_def hfail_def hany_def db_call_def db_exec_def
      device_write_def with_lock_def read_lock_def hpanic_def Let_def split: prod.splits)

lemma returns_insert_event [returns_intros]: "returns (insert_event actor b t c r)"
  by (auto simp: returns_def insert_event_def Let_def split: sum.splits)

lemma returns_bind [returns_intros]: "returns h \<Longrightarrow> (\<And>a. returns (k a)) \<Longrightarrow> returns (hbind h k)"
  by (auto simp: returns_def hbind_def split: option.splits prod.splits sum.splits)

lemma returns_attempt [returns_intros]: "returns h \<Longrightarrow> returns (hattempt h)"
  by (auto simp: returns_def hattempt_def)

lemma returns_case [returns_intros]:
  "(b \<Longrightarrow> returns h) \<Longrightarrow> (\<not> b \<Longrightarrow> returns g) \<Longrightarrow> returns (if b then h else g)"
  "returns h \<Longrightarrow> (\<And>x. returns (k x)) \<Longrightarrow> returns (case y of None \<Rightarrow> h | Some x \<Rightarrow> k x)"
  "(\<And>e. returns (f e)) \<Longrightarrow> (\<And>x. returns (g' x)) \<Longrightarrow> returns (case z of Inl e \<Rightarrow> f e | Inr x \<Rightarrow> g' x)"
  by (auto split: option.splits sum.splits)

text \<open>A computation on the configuration that cannot fail when the configuration is valid.\<close>

lemma returns_safety [returns_intros]:
  assumes "\<And>safety. wf_safety safety \<Longrightarrow> f safety \<noteq> None" "\<And>x. returns (k x)"
  shows "returns (hbind safety_of (\<lambda>safety. hbind (hpanic (f safety)) k))"
  using assms by (fastforce simp: returns_def hbind_def safety_of_def hpanic_def)

end
