(* ===== verification/Memory.thy ===== *)
theory Memory
  imports Config
begin

text \<open>
  The AI memory of \<open>memory.rs\<close>: objective weights, recommendation bounds that tighten the configured
  optimizer bounds, reference batches, forbidden zones, and the sensor limits behind the alarms.
  Reading and TOML decoding of the file is I/O outside the model; \<open>ai_memory_validate\<close> is the check
  that \<open>load_ai_memory\<close> applies to the decoded value.
\<close>

section \<open>Structures\<close>

record memory_profile =
  profile_name :: string
  profile_version :: string
  reactor_model :: string
  material_family :: string

record objective_memory =
  optimize_for :: string
  yield_weight :: f64
  product_ratio_weight :: f64
  objective_notes :: string

record memory_bounds =
  mb_min_temperature_c :: "f64 option"
  mb_max_temperature_c :: "f64 option"
  mb_min_stirrer_rpm :: "f64 option"
  mb_max_stirrer_rpm :: "f64 option"
  mb_min_heating_minutes :: "f64 option"
  mb_max_heating_minutes :: "f64 option"
  mb_min_stirring_minutes :: "f64 option"
  mb_max_stirring_minutes :: "f64 option"

record recommendation_memory =
  rec_enabled :: bool
  use_reference_batches :: bool
  rec_bounds :: memory_bounds

record reference_batch =
  ref_id :: string
  ref_temperature_c :: f64
  ref_stirrer_rpm :: f64
  ref_heating_minutes :: f64
  ref_stirring_minutes :: f64
  ref_yield_percent :: f64
  ref_product_ratio :: f64
  ref_notes :: string

record memory_zone =
  mz_name :: string
  mz_reason :: string
  mz_min_temperature_c :: "f64 option"
  mz_max_temperature_c :: "f64 option"
  mz_min_stirrer_rpm :: "f64 option"
  mz_max_stirrer_rpm :: "f64 option"
  mz_min_heating_minutes :: "f64 option"
  mz_max_heating_minutes :: "f64 option"
  mz_min_stirring_minutes :: "f64 option"
  mz_max_stirring_minutes :: "f64 option"

record sensor_limit =
  limit_label :: string
  limit_unit :: string
  normal_min :: "f64 option"
  normal_max :: "f64 option"
  hard_min :: "f64 option"
  hard_max :: "f64 option"
  limit_suggestion :: string

record sensor_limits =
  lim_temperature_c :: "sensor_limit option"
  lim_pressure_mpa :: "sensor_limit option"
  lim_stirrer_rpm :: "sensor_limit option"
  lim_shake_speed_cpm :: "sensor_limit option"
  lim_tilt_angle_deg :: "sensor_limit option"
  lim_flow_rate_l_min :: "sensor_limit option"
  lim_product_concentration_percent :: "sensor_limit option"
  lim_ph :: "sensor_limit option"

datatype limit_level = Warning | High

record limit_alarm =
  la_level :: limit_level
  la_current_value :: f64
  la_limit_value :: f64
  la_message :: string
  la_suggestion :: string

record ai_memory =
  profile :: memory_profile
  objective :: objective_memory
  recommendation :: recommendation_memory
  sensor_limits_of :: sensor_limits
  reference_batches :: "reference_batch list"
  forbidden_zones :: "memory_zone list"
  operator_notes :: "(string \<times> string) list"

definition default_memory_bounds :: memory_bounds where
  "default_memory_bounds = \<lparr>mb_min_temperature_c = None, mb_max_temperature_c = None, mb_min_stirrer_rpm = None, mb_max_stirrer_rpm = None, mb_min_heating_minutes = None, mb_max_heating_minutes = None, mb_min_stirring_minutes = None, mb_max_stirring_minutes = None\<rparr>"

definition default_memory_profile :: memory_profile where
  "default_memory_profile = \<lparr>profile_name = ''default'', profile_version = ''0'',
     reactor_model = ''unknown'', material_family = ''unknown''\<rparr>"

definition default_objective_memory :: objective_memory where
  "default_objective_memory = \<lparr>optimize_for = ''yield_percent_with_product_ratio'',
     yield_weight = lit (8 / 10), product_ratio_weight = lit (2 / 10), objective_notes = []\<rparr>"

definition default_recommendation_memory :: recommendation_memory where
  "default_recommendation_memory = \<lparr>rec_enabled = False, use_reference_batches = False,
     rec_bounds = default_memory_bounds\<rparr>"

section \<open>Objective weights\<close>

definition finite_or :: "f64 \<Rightarrow> f64 \<Rightarrow> f64" where
  "finite_or value fallback = (if is_finite value then value else fallback)"

definition EPSILON :: f64 where
  "EPSILON = Num (1 / 2 ^ 52)"

definition weights :: "objective_memory \<Rightarrow> f64 \<times> f64" where
  "weights o' =
     (let yw = f64_max (finite_or (yield_weight o') (lit (8 / 10))) (lit 0);
          rw = f64_max (finite_or (product_ratio_weight o') (lit (2 / 10))) (lit 0)
      in if f64_le (f64_add yw rw) EPSILON then (lit (8 / 10), lit (2 / 10)) else (yw, rw))"

section \<open>Bounds\<close>

definition tighten_min :: "f64 option \<Rightarrow> f64 \<Rightarrow> f64" where
  "tighten_min m base = (case m of None \<Rightarrow> base | Some v \<Rightarrow> f64_max base v)"

definition tighten_max :: "f64 option \<Rightarrow> f64 \<Rightarrow> f64" where
  "tighten_max m base = (case m of None \<Rightarrow> base | Some v \<Rightarrow> f64_min base v)"

definition tighten :: "memory_bounds \<Rightarrow> optimizer_bounds \<Rightarrow> optimizer_bounds" where
  "tighten m base = \<lparr>
     ob_min_temperature_c = tighten_min (mb_min_temperature_c m) (ob_min_temperature_c base),
     ob_max_temperature_c = tighten_max (mb_max_temperature_c m) (ob_max_temperature_c base),
     ob_min_stirrer_rpm = tighten_min (mb_min_stirrer_rpm m) (ob_min_stirrer_rpm base),
     ob_max_stirrer_rpm = tighten_max (mb_max_stirrer_rpm m) (ob_max_stirrer_rpm base),
     ob_min_heating_minutes = tighten_min (mb_min_heating_minutes m) (ob_min_heating_minutes base),
     ob_max_heating_minutes = tighten_max (mb_max_heating_minutes m) (ob_max_heating_minutes base),
     ob_min_stirring_minutes = tighten_min (mb_min_stirring_minutes m) (ob_min_stirring_minutes base),
     ob_max_stirring_minutes = tighten_max (mb_max_stirring_minutes m) (ob_max_stirring_minutes base)\<rparr>"

definition effective_optimizer_bounds :: "ai_memory \<Rightarrow> optimizer_bounds \<Rightarrow> optimizer_bounds" where
  "effective_optimizer_bounds memory base =
     (if \<not> rec_enabled (recommendation memory) then base
      else let bounds = tighten (rec_bounds (recommendation memory)) base in
        if f64_lt (ob_max_temperature_c bounds) (ob_min_temperature_c bounds)
           \<or> f64_lt (ob_max_stirrer_rpm bounds) (ob_min_stirrer_rpm bounds)
           \<or> f64_lt (ob_max_heating_minutes bounds) (ob_min_heating_minutes bounds)
           \<or> f64_lt (ob_max_stirring_minutes bounds) (ob_min_stirring_minutes bounds)
        then base else bounds)"

section \<open>Validation\<close>

definition mem_validate_finite :: "string \<Rightarrow> f64 \<Rightarrow> check" where
  "mem_validate_finite name value =
     (if is_finite value then Ok () else Err (name @ '' must be finite''))"

definition mem_validate_range :: "string \<Rightarrow> f64 \<Rightarrow> f64 \<Rightarrow> f64 \<Rightarrow> check" where
  "mem_validate_range name value lo hi =
     (if is_finite value \<and> in_range lo hi value then Ok ()
      else Err (name @ '' must be between '' @ display_f64 lo @ '' and '' @ display_f64 hi))"

definition validate_optional_pair :: "string \<Rightarrow> string \<Rightarrow> f64 option \<Rightarrow> f64 option \<Rightarrow> check" where
  "validate_optional_pair label field lo hi = run_checks
     [case lo of None \<Rightarrow> Ok () | Some v \<Rightarrow> mem_validate_finite (label @ ''.'' @ field @ ''.min'') v,
      case hi of None \<Rightarrow> Ok () | Some v \<Rightarrow> mem_validate_finite (label @ ''.'' @ field @ ''.max'') v,
      case (lo, hi) of (Some a, Some b) \<Rightarrow>
          if f64_lt b a then Err (label @ ''.'' @ field @ '' min cannot exceed max'') else Ok ()
      | _ \<Rightarrow> Ok ()]"

definition memory_bounds_validate :: "string \<Rightarrow> memory_bounds \<Rightarrow> check" where
  "memory_bounds_validate label m = run_checks [
     validate_optional_pair label ''temperature_c'' (mb_min_temperature_c m) (mb_max_temperature_c m),
     validate_optional_pair label ''stirrer_rpm'' (mb_min_stirrer_rpm m) (mb_max_stirrer_rpm m),
     validate_optional_pair label ''heating_minutes'' (mb_min_heating_minutes m) (mb_max_heating_minutes m),
     validate_optional_pair label ''stirring_minutes'' (mb_min_stirring_minutes m) (mb_max_stirring_minutes m)]"

definition memory_zone_validate :: "memory_zone \<Rightarrow> check" where
  "memory_zone_validate z = run_checks [
     validate_optional_pair ''forbidden_zones'' ''temperature_c'' (mz_min_temperature_c z) (mz_max_temperature_c z),
     validate_optional_pair ''forbidden_zones'' ''stirrer_rpm'' (mz_min_stirrer_rpm z) (mz_max_stirrer_rpm z),
     validate_optional_pair ''forbidden_zones'' ''heating_minutes'' (mz_min_heating_minutes z) (mz_max_heating_minutes z),
     validate_optional_pair ''forbidden_zones'' ''stirring_minutes'' (mz_min_stirring_minutes z) (mz_max_stirring_minutes z)]"

definition sensor_limit_validate :: "string \<Rightarrow> sensor_limit \<Rightarrow> check" where
  "sensor_limit_validate name l = run_checks
     [validate_optional_pair name ''normal'' (normal_min l) (normal_max l),
      validate_optional_pair name ''hard'' (hard_min l) (hard_max l)]"

definition configured_limits :: "sensor_limits \<Rightarrow> (string \<times> sensor_limit option) list" where
  "configured_limits ls = [
     (''temperature_c'', lim_temperature_c ls),
     (''pressure_mpa'', lim_pressure_mpa ls),
     (''stirrer_rpm'', lim_stirrer_rpm ls),
     (''shake_speed_cpm'', lim_shake_speed_cpm ls),
     (''tilt_angle_deg'', lim_tilt_angle_deg ls),
     (''flow_rate_l_min'', lim_flow_rate_l_min ls),
     (''product_concentration_percent'', lim_product_concentration_percent ls),
     (''ph'', lim_ph ls)]"

definition sensor_limits_validate :: "sensor_limits \<Rightarrow> check" where
  "sensor_limits_validate ls = run_checks (map (\<lambda>(name, limit).
     case limit of None \<Rightarrow> Ok () | Some l \<Rightarrow> sensor_limit_validate name l) (configured_limits ls))"

definition configured_count :: "sensor_limits \<Rightarrow> nat" where
  "configured_count ls = length (filter (\<lambda>(_, limit). limit \<noteq> None) (configured_limits ls))"

definition reference_batch_validate :: "reference_batch \<Rightarrow> check" where
  "reference_batch_validate b = run_checks
     [mem_validate_finite ''reference_batches.target_temperature_c'' (ref_temperature_c b),
      mem_validate_finite ''reference_batches.target_stirrer_rpm'' (ref_stirrer_rpm b),
      mem_validate_finite ''reference_batches.heating_minutes'' (ref_heating_minutes b),
      mem_validate_finite ''reference_batches.stirring_minutes'' (ref_stirring_minutes b),
      mem_validate_range ''reference_batches.yield_percent'' (ref_yield_percent b) (lit 0) (lit 100),
      mem_validate_range ''reference_batches.product_ratio'' (ref_product_ratio b) (lit 0) (lit 1)]"

definition ai_memory_validate :: "ai_memory \<Rightarrow> check" where
  "ai_memory_validate m = run_checks (
     [if \<not> is_finite (yield_weight (objective m)) \<or> \<not> is_finite (product_ratio_weight (objective m))
      then Err ''AI memory objective weights must be finite'' else Ok (),
      memory_bounds_validate ''recommendation.bounds'' (rec_bounds (recommendation m))]
     @ map reference_batch_validate (reference_batches m)
     @ map memory_zone_validate (forbidden_zones m)
     @ [sensor_limits_validate (sensor_limits_of m)])"

definition validate_against_optimizer_bounds :: "ai_memory \<Rightarrow> optimizer_bounds \<Rightarrow> check" where
  "validate_against_optimizer_bounds m base =
     (let bounds = tighten (rec_bounds (recommendation m)) base in run_checks
       [ai_memory_validate m,
        if f64_lt (ob_max_temperature_c bounds) (ob_min_temperature_c bounds)
        then Err ''AI memory temperature bounds do not intersect configured safety optimizer bounds'' else Ok (),
        if f64_lt (ob_max_stirrer_rpm bounds) (ob_min_stirrer_rpm bounds)
        then Err ''AI memory stirrer bounds do not intersect configured safety optimizer bounds'' else Ok (),
        if f64_lt (ob_max_heating_minutes bounds) (ob_min_heating_minutes bounds)
        then Err ''AI memory heating bounds do not intersect configured safety optimizer bounds'' else Ok (),
        if f64_lt (ob_max_stirring_minutes bounds) (ob_min_stirring_minutes bounds)
        then Err ''AI memory stirring bounds do not intersect configured safety optimizer bounds'' else Ok ()])"

section \<open>Zones and limits\<close>

text \<open>\<open>check_dimension\<close> updates two flags: whether any dimension is constrained, and whether all
  constrained dimensions match.\<close>

definition check_dimension :: "f64 option \<Rightarrow> f64 option \<Rightarrow> f64 \<Rightarrow> bool \<times> bool \<Rightarrow> bool \<times> bool" where
  "check_dimension lo hi value flags =
     (if lo = None \<and> hi = None then flags
      else (True, snd flags
              \<and> \<not> (case lo of Some a \<Rightarrow> f64_lt value a | None \<Rightarrow> False)
              \<and> \<not> (case hi of Some b \<Rightarrow> f64_lt b value | None \<Rightarrow> False)))"

definition memory_zone_contains :: "memory_zone \<Rightarrow> f64 \<Rightarrow> f64 \<Rightarrow> f64 \<Rightarrow> f64 \<Rightarrow> bool" where
  "memory_zone_contains z temp rpm heat stir =
     (let f1 = check_dimension (mz_min_temperature_c z) (mz_max_temperature_c z) temp (False, True);
          f2 = check_dimension (mz_min_stirrer_rpm z) (mz_max_stirrer_rpm z) rpm f1;
          f3 = check_dimension (mz_min_heating_minutes z) (mz_max_heating_minutes z) heat f2;
          f4 = check_dimension (mz_min_stirring_minutes z) (mz_max_stirring_minutes z) stir f3
      in fst f4 \<and> snd f4)"

definition make_limit_alarm :: "sensor_limit \<Rightarrow> limit_level \<Rightarrow> f64 \<Rightarrow> f64 \<Rightarrow> string \<Rightarrow> limit_alarm" where
  "make_limit_alarm l level current limit direction =
     (let name = (if limit_label l = [] then ''sensor'' else limit_label l);
          unit = (if limit_unit l = [] then [] else '' '' @ limit_unit l)
      in \<lparr>la_level = level, la_current_value = current, la_limit_value = limit,
          la_message = name @ '' '' @ direction @ '': current '' @ fmt_fixed 2 current @ unit
            @ '', limit '' @ fmt_fixed 2 limit @ unit,
          la_suggestion = limit_suggestion l\<rparr>)"

definition sensor_limit_check :: "sensor_limit \<Rightarrow> f64 \<Rightarrow> limit_alarm option" where
  "sensor_limit_check l value =
     (if (case hard_min l of Some a \<Rightarrow> f64_lt value a | None \<Rightarrow> False)
      then Some (make_limit_alarm l High value (the (hard_min l)) ''below hard minimum'')
      else if (case hard_max l of Some b \<Rightarrow> f64_lt b value | None \<Rightarrow> False)
      then Some (make_limit_alarm l High value (the (hard_max l)) ''above hard maximum'')
      else if (case normal_min l of Some a \<Rightarrow> f64_lt value a | None \<Rightarrow> False)
      then Some (make_limit_alarm l Warning value (the (normal_min l)) ''below normal range'')
      else if (case normal_max l of Some b \<Rightarrow> f64_lt b value | None \<Rightarrow> False)
      then Some (make_limit_alarm l Warning value (the (normal_max l)) ''above normal range'')
      else None)"

record ai_memory_summary =
  sum_profile_name :: string
  sum_profile_version :: string
  sum_enabled :: bool
  sum_objective :: string
  sum_reference_batch_count :: nat
  sum_forbidden_zone_count :: nat
  sum_sensor_limit_count :: nat

definition summary_of :: "ai_memory \<Rightarrow> ai_memory_summary" where
  "summary_of m = \<lparr>sum_profile_name = profile_name (profile m),
     sum_profile_version = profile_version (profile m), sum_enabled = rec_enabled (recommendation m),
     sum_objective = optimize_for (objective m),
     sum_reference_batch_count = length (reference_batches m),
     sum_forbidden_zone_count = length (forbidden_zones m),
     sum_sensor_limit_count = configured_count (sensor_limits_of m)\<rparr>"

section \<open>Facts\<close>

lemma f64_max_ge: "\<not> is_nan b \<Longrightarrow> f64_le b (f64_max b v)"
  by (auto simp: f64_max_def dest: f64_lt_imp_le)

lemma f64_min_le: "\<not> is_nan b \<Longrightarrow> f64_le (f64_min b v) b"
  by (auto simp: f64_min_def dest: f64_lt_imp_le)

lemma f64_max_min_not_nan:
  "\<not> is_nan b \<Longrightarrow> \<not> is_nan (f64_max b v)" "\<not> is_nan b \<Longrightarrow> \<not> is_nan (f64_min b v)"
  using f64_max_ge f64_min_le f64_le_not_nan by blast+

lemma tighten_bounds:
  assumes "is_finite lo" "is_finite hi" "\<not> f64_lt (tighten_max m2 hi) (tighten_min m1 lo)"
  shows "f64_le lo (tighten_min m1 lo)" "f64_le (tighten_max m2 hi) hi"
    "f64_le (tighten_min m1 lo) (tighten_max m2 hi)"
    "is_finite (tighten_min m1 lo)" "is_finite (tighten_max m2 hi)"
proof -
  have n: "\<not> is_nan lo" "\<not> is_nan hi" using assms(1,2) by simp_all
  show a: "f64_le lo (tighten_min m1 lo)" using n f64_max_ge by (auto simp: tighten_min_def split: option.split)
  show b: "f64_le (tighten_max m2 hi) hi" using n f64_min_le by (auto simp: tighten_max_def split: option.split)
  have nn: "\<not> is_nan (tighten_min m1 lo)" "\<not> is_nan (tighten_max m2 hi)" using a b f64_le_not_nan by blast+
  show c: "f64_le (tighten_min m1 lo) (tighten_max m2 hi)"
    using assms(3) nn f64_le_total by (auto simp: f64_lt_iff)
  have "in_range lo hi (tighten_min m1 lo)" "in_range lo hi (tighten_max m2 hi)"
    using a b c f64_le_trans unfolding in_range_def by blast+
  then show "is_finite (tighten_min m1 lo)" "is_finite (tighten_max m2 hi)"
    using assms(1,2) in_range_finite by blast+
qed

text \<open>Bounds inside other bounds.\<close>

definition bounds_within :: "optimizer_bounds \<Rightarrow> optimizer_bounds \<Rightarrow> bool" where
  "bounds_within b base \<longleftrightarrow>
     f64_le (ob_min_temperature_c base) (ob_min_temperature_c b) \<and> f64_le (ob_max_temperature_c b) (ob_max_temperature_c base)
     \<and> f64_le (ob_min_stirrer_rpm base) (ob_min_stirrer_rpm b) \<and> f64_le (ob_max_stirrer_rpm b) (ob_max_stirrer_rpm base)
     \<and> f64_le (ob_min_heating_minutes base) (ob_min_heating_minutes b) \<and> f64_le (ob_max_heating_minutes b) (ob_max_heating_minutes base)
     \<and> f64_le (ob_min_stirring_minutes base) (ob_min_stirring_minutes b) \<and> f64_le (ob_max_stirring_minutes b) (ob_max_stirring_minutes base)"

lemma validate_optimizer_bounds_iff:
  "is_ok (validate_optimizer_bounds b) \<longleftrightarrow>
     is_finite (ob_min_temperature_c b) \<and> is_finite (ob_max_temperature_c b) \<and> f64_le (ob_min_temperature_c b) (ob_max_temperature_c b)
     \<and> is_finite (ob_min_stirrer_rpm b) \<and> is_finite (ob_max_stirrer_rpm b) \<and> f64_le (ob_min_stirrer_rpm b) (ob_max_stirrer_rpm b)
     \<and> is_finite (ob_min_heating_minutes b) \<and> is_finite (ob_max_heating_minutes b) \<and> f64_le (ob_min_heating_minutes b) (ob_max_heating_minutes b)
     \<and> is_finite (ob_min_stirring_minutes b) \<and> is_finite (ob_max_stirring_minutes b) \<and> f64_le (ob_min_stirring_minutes b) (ob_max_stirring_minutes b)
     \<and> f64_le (Num 0) (ob_min_heating_minutes b) \<and> f64_le (Num 0) (ob_min_stirring_minutes b)"
  unfolding validate_optimizer_bounds_def run_checks_ok
  by (auto simp: ensure_simps f64_le_finite)

section \<open>Properties\<close>

lemma effective_bounds_valid:
  assumes "is_ok (validate_optimizer_bounds base)"
  shows "is_ok (validate_optimizer_bounds (effective_optimizer_bounds m base))
    \<and> bounds_within (effective_optimizer_bounds m base) base"
proof (cases "effective_optimizer_bounds m base = base")
  case True
  then show ?thesis using assms by (simp add: bounds_within_def validate_optimizer_bounds_iff)
next
  case False
  let ?b = "tighten (rec_bounds (recommendation m)) base"
  from False have b: "effective_optimizer_bounds m base = ?b"
    "\<not> f64_lt (ob_max_temperature_c ?b) (ob_min_temperature_c ?b)"
    "\<not> f64_lt (ob_max_stirrer_rpm ?b) (ob_min_stirrer_rpm ?b)"
    "\<not> f64_lt (ob_max_heating_minutes ?b) (ob_min_heating_minutes ?b)"
    "\<not> f64_lt (ob_max_stirring_minutes ?b) (ob_min_stirring_minutes ?b)"
    by (auto simp: effective_optimizer_bounds_def Let_def split: if_splits)
  have fin: "is_finite (ob_min_temperature_c base)" "is_finite (ob_max_temperature_c base)" "is_finite (ob_min_stirrer_rpm base)" "is_finite (ob_max_stirrer_rpm base)" "is_finite (ob_min_heating_minutes base)" "is_finite (ob_max_heating_minutes base)" "is_finite (ob_min_stirring_minutes base)" "is_finite (ob_max_stirring_minutes base)"
    "f64_le (Num 0) (ob_min_heating_minutes base)" "f64_le (Num 0) (ob_min_stirring_minutes base)"
    using assms by (simp_all add: validate_optimizer_bounds_iff)
  note T = tighten_bounds [OF fin(1,2)] and R = tighten_bounds [OF fin(3,4)]
    and H = tighten_bounds [OF fin(5,6)] and S = tighten_bounds [OF fin(7,8)]
  note d = b(2-5) [unfolded tighten_def optimizer_bounds.simps]
  show ?thesis
    unfolding b(1) validate_optimizer_bounds_iff bounds_within_def tighten_def optimizer_bounds.simps
    using T [OF d(1)] R [OF d(2)] H [OF d(3)] S [OF d(4)]
      f64_le_trans [OF fin(9) H(1) [OF d(3)]] f64_le_trans [OF fin(10) S(1) [OF d(4)]] by simp
qed

text \<open>The memory file can only tighten the optimizer: whatever bounds it contains, NaN, infinities
  and empty intersections included, the effective bounds are valid optimizer bounds inside the
  configured ones.\<close>

theorem memory_only_tightens:
  assumes "is_ok (validate_optimizer_bounds base)"
  shows "is_ok (validate_optimizer_bounds (effective_optimizer_bounds m base))
    \<and> bounds_within (effective_optimizer_bounds m base) base"
  using assms by (rule effective_bounds_valid)

text \<open>Sensor alarms rank by severity: a value raises a high alarm exactly when it is beyond a hard
  limit, raises no alarm exactly when it is beyond no limit at all, and otherwise a warning.\<close>

theorem sensor_limit_severity:
  "(map_option la_level (sensor_limit_check l v) = Some High \<longleftrightarrow>
      (\<exists>a. hard_min l = Some a \<and> f64_lt v a) \<or> (\<exists>b. hard_max l = Some b \<and> f64_lt b v))
   \<and> (sensor_limit_check l v = None \<longleftrightarrow>
      list_all (\<lambda>m. case m of Some a \<Rightarrow> \<not> f64_lt v a | None \<Rightarrow> True) [hard_min l, normal_min l]
      \<and> list_all (\<lambda>m. case m of Some b \<Rightarrow> \<not> f64_lt b v | None \<Rightarrow> True) [hard_max l, normal_max l])"
  by (auto simp: sensor_limit_check_def make_limit_alarm_def Let_def split: option.splits)

lemma check_dimension_eq:
  "check_dimension lo hi v (h, m) = (h \<or> lo \<noteq> None \<or> hi \<noteq> None,
     m \<and> list_all (\<lambda>x. case x of Some a \<Rightarrow> \<not> f64_lt v a | None \<Rightarrow> True) [lo]
       \<and> list_all (\<lambda>x. case x of Some b \<Rightarrow> \<not> f64_lt b v | None \<Rightarrow> True) [hi])"
  by (auto simp: check_dimension_def split: option.splits)

section \<open>Witnesses\<close>

definition demo_memory :: ai_memory where
  "demo_memory = \<lparr>profile = default_memory_profile, objective = default_objective_memory,
     recommendation = \<lparr>rec_enabled = True, use_reference_batches = False,
       rec_bounds = default_memory_bounds\<lparr>mb_min_temperature_c := Some (Num 50), mb_max_stirrer_rpm := Some NaN\<rparr>\<rparr>,
     sensor_limits_of = \<lparr>lim_temperature_c = None, lim_pressure_mpa = None, lim_stirrer_rpm = None, lim_shake_speed_cpm = None, lim_tilt_angle_deg = None, lim_flow_rate_l_min = None, lim_product_concentration_percent = None, lim_ph = None\<rparr>,
     reference_batches = [], forbidden_zones = [], operator_notes = []\<rparr>"

theorem memory_only_tightens_witness:
  "is_ok (validate_optimizer_bounds (effective_optimizer_bounds demo_memory (optimizer shipped_safety)))
   \<and> bounds_within (effective_optimizer_bounds demo_memory (optimizer shipped_safety)) (optimizer shipped_safety)"
  by (rule memory_only_tightens) (use shipped_safety_valid in \<open>simp only: wf_safety_def\<close>)

end
