(* ===== verification/Interlock.thy ===== *)
theory Interlock
  imports Api_Env Memory
begin

text \<open>
  The checks that \<open>api.rs\<close> runs before a risk-increasing action: batch consistency, the latch and
  field-state interlock, freshness of the sample, health of the device status, validation of targets,
  and the alarms of a sample. The functions are pure: the clock and the database answer are arguments.
\<close>

section \<open>Unfinished batches\<close>

record unfinished_batch_status =
  unfinished_batch_ids :: "int list"
  unexpected_batch_ids :: "int list"
  runtime_active_batch_missing :: bool

definition unfinished_batch_status_from_batches :: "batch list \<Rightarrow> runtime_state \<Rightarrow> unfinished_batch_status" where
  "unfinished_batch_status_from_batches unfinished rt =
     \<lparr>unfinished_batch_ids = map batch_id unfinished,
      unexpected_batch_ids = map batch_id (filter (\<lambda>b. active_batch_id rt \<noteq> Some (batch_id b)) unfinished),
      runtime_active_batch_missing = (case active_batch_id rt of None \<Rightarrow> False
        | Some a \<Rightarrow> \<not> list_ex (\<lambda>b. batch_id b = a) unfinished)\<rparr>"

definition batch_status_is_consistent :: "unfinished_batch_status \<Rightarrow> bool" where
  "batch_status_is_consistent st \<longleftrightarrow> unexpected_batch_ids st = [] \<and> \<not> runtime_active_batch_missing st"

definition has_unfinished_batch :: "unfinished_batch_status \<Rightarrow> runtime_state \<Rightarrow> bool" where
  "has_unfinished_batch st rt \<longleftrightarrow> active_batch_id rt \<noteq> None \<or> unfinished_batch_ids st \<noteq> []"

definition recovery_required :: "unfinished_batch_status \<Rightarrow> bool" where
  "recovery_required st \<longleftrightarrow> \<not> batch_status_is_consistent st"

definition batch_status_reason :: "unfinished_batch_status \<Rightarrow> runtime_state \<Rightarrow> string" where
  "batch_status_reason st rt =
     ''database has unfinished batch records '' @ debug_ids (unfinished_batch_ids st)
     @ '' while runtime active batch is '' @ debug_opt_id (active_batch_id rt)"

section \<open>Field state\<close>

datatype target_update_interlock_mode = AutoEnable | BatchStart | DesiredTargets | ModbusDebugWrite
  | ComponentControl | ProcessStart | V1ProcessLoad

fun mode_description :: "target_update_interlock_mode \<Rightarrow> string" where
  "mode_description AutoEnable = ''automatic control enable''"
| "mode_description BatchStart = ''batch start''"
| "mode_description DesiredTargets = ''target update''"
| "mode_description ModbusDebugWrite = ''Modbus target write''"
| "mode_description ComponentControl = ''component control''"
| "mode_description ProcessStart = ''process start''"
| "mode_description V1ProcessLoad = ''v1 process load''"

definition fresh_sample_for_realtime ::
    "safety_config \<Rightarrow> time \<Rightarrow> runtime_state \<Rightarrow> app_error + sensor_snapshot" where
  "fresh_sample_for_realtime safety now rt = (case last_sensor_error rt of
       Some error \<Rightarrow> Err (service_unavailable (''sensor data unavailable; '' @ error))
     | None \<Rightarrow>
       (case latest_sample rt of
          None \<Rightarrow> Err (service_unavailable
            ''sensor data unavailable; waiting for ESP32/data pipeline sample'')
        | Some sample \<Rightarrow>
            (let age_ms = timestamp_age_ms now (s_captured_at sample) in
             if age_ms < 0 then
               Err (service_unavailable (''sensor data timestamp is '' @ show_int (- age_ms)
                 @ '' ms in the future; check controller clock synchronization''))
             else if age_ms > sensor_timeout_ms (control safety) then
               Err (service_unavailable (''sensor data stale; last data pipeline sample is ''
                 @ show_int age_ms @ '' ms old''))
             else Ok sample)))"

definition ensure_fresh_sample :: "safety_config \<Rightarrow> time \<Rightarrow> runtime_state \<Rightarrow> app_error + unit" where
  "ensure_fresh_sample safety now rt = bind_res (fresh_sample_for_realtime safety now rt) (\<lambda>_. Ok ())"

definition ensure_proven_healthy_device_status ::
    "safety_config \<Rightarrow> time \<Rightarrow> runtime_state \<Rightarrow> string \<Rightarrow> app_error + unit" where
  "ensure_proven_healthy_device_status safety now rt action = (case device_status rt of
       None \<Rightarrow>
         if require_device_status_for_control (control safety)
         then Err (service_unavailable (''device status unavailable; '' @ action
                @ '' blocked until downstream status is proven healthy''))
         else Ok ()
     | Some status \<Rightarrow>
         (case device_status_field_fault_reason now status (sensor_timeout_ms (control safety)) of
            Some reason \<Rightarrow> Err (service_unavailable
              (''device status is not healthy; '' @ action @ '' blocked: '' @ reason))
          | None \<Rightarrow>
            (case downstream_command_fault_reason status of
               Some reason \<Rightarrow> Err (service_unavailable
                 (''downstream command fault is still reported; '' @ action
                  @ '' blocked until maintenance clears the fault: '' @ reason))
             | None \<Rightarrow> Ok ())))"

definition ensure_target_update_interlock_clear ::
    "safety_config \<Rightarrow> time \<Rightarrow> runtime_state \<Rightarrow> target_update_interlock_mode \<Rightarrow> app_error + unit" where
  "ensure_target_update_interlock_clear safety now rt md =
     (if emergency_stop rt then
        Err (conflict (''emergency stop is active; '' @ mode_description md @ '' blocked''))
      else if manual_lock rt then
        Err (conflict (''manual lock is active; '' @ mode_description md @ '' blocked''))
      else case last_control_error rt of
        Some error \<Rightarrow> Err (service_unavailable (''last device control write failed; ''
          @ mode_description md @ '' blocked until maintenance clears the fault: '' @ error))
      | None \<Rightarrow> run_checks
          [ensure_proven_healthy_device_status safety now rt (mode_description md),
           ensure_fresh_sample safety now rt])"

definition ensure_persisted_batch_status_consistent ::
    "unfinished_batch_status \<Rightarrow> runtime_state \<Rightarrow> target_update_interlock_mode \<Rightarrow> app_error + unit" where
  "ensure_persisted_batch_status_consistent st rt md =
     (if recovery_required st
      then Err (conflict (mode_description md @ '' blocked until unfinished batch recovery is resolved: ''
                          @ batch_status_reason st rt))
      else Ok ())"

definition ensure_no_active_batch_for_reset :: "runtime_state \<Rightarrow> string \<Rightarrow> app_error + unit" where
  "ensure_no_active_batch_for_reset rt action = (case active_batch_id rt of
       Some b \<Rightarrow> Err (conflict (''active batch '' @ show_int b
         @ '' is still open; retry stop/finish to close production state before '' @ action))
     | None \<Rightarrow> Ok ())"

text \<open>The answer of the unfinished-batch query is an argument of the checks that make it.\<close>

definition ensure_no_unfinished_batch_recovery_for_reset ::
    "anyhow + batch list \<Rightarrow> runtime_state \<Rightarrow> string \<Rightarrow> app_error + unit" where
  "ensure_no_unfinished_batch_recovery_for_reset unfinished rt action =
     bind_res (map_err (\<lambda>_. internal_error) unfinished) (\<lambda>batches.
     let st = unfinished_batch_status_from_batches batches rt in
     if recovery_required st
     then Err (conflict (action @ '' blocked until unfinished batch recovery is resolved: ''
                         @ batch_status_reason st rt))
     else Ok ())"

definition ensure_manual_unlock_interlock_clear ::
    "safety_config \<Rightarrow> time \<Rightarrow> anyhow + batch list \<Rightarrow> runtime_state \<Rightarrow> app_error + unit" where
  "ensure_manual_unlock_interlock_clear safety now unfinished rt =
     (if emergency_stop rt then
        Err (conflict ''emergency stop is active; manual lock unlock blocked'')
      else case last_control_error rt of
        Some error \<Rightarrow> Err (service_unavailable
          (''last device control write failed; manual lock unlock blocked until maintenance clears the fault: ''
           @ error))
      | None \<Rightarrow> run_checks
          [ensure_no_unfinished_batch_recovery_for_reset unfinished rt ''manual lock unlock'',
           ensure_proven_healthy_device_status safety now rt ''manual lock unlock'',
           ensure_fresh_sample safety now rt])"

definition ensure_no_unclosed_db_batch_except ::
    "anyhow + batch list \<Rightarrow> runtime_state \<Rightarrow> int option \<Rightarrow> app_error + unit" where
  "ensure_no_unclosed_db_batch_except unfinished rt allowed =
     bind_res (map_err (\<lambda>_. internal_error) unfinished) (\<lambda>batches.
     let expected = (case allowed of
             Some a \<Rightarrow> if active_batch_id rt = None then rt\<lparr>active_batch_id := Some a\<rparr> else rt
           | None \<Rightarrow> rt);
         st = unfinished_batch_status_from_batches batches expected
     in if recovery_required st
        then Err (conflict (''unfinished batch recovery must be resolved before starting new production: ''
                            @ batch_status_reason st expected))
        else case find (\<lambda>b. active_batch_id rt \<noteq> Some (batch_id b) \<and> allowed \<noteq> Some (batch_id b)) batches of
          Some b \<Rightarrow> Err (conflict (''database still has unfinished batch '' @ show_int (batch_id b)
            @ ''; close or repair it before starting new production''))
        | None \<Rightarrow> Ok ())"

definition ensure_no_unclosed_db_batch_for_new_production ::
    "anyhow + batch list \<Rightarrow> runtime_state \<Rightarrow> app_error + unit" where
  "ensure_no_unclosed_db_batch_for_new_production unfinished rt =
     ensure_no_unclosed_db_batch_except unfinished rt None"

definition ensure_process_can_start ::
    "safety_config \<Rightarrow> time \<Rightarrow> anyhow + batch list \<Rightarrow> runtime_state \<Rightarrow> app_error + unit" where
  "ensure_process_can_start safety now unfinished rt =
     (if active_batch_id rt \<noteq> None
      then Err (conflict ''device is busy running an active process batch'')
      else run_checks
        [ensure_no_unclosed_db_batch_for_new_production unfinished rt,
         ensure_target_update_interlock_clear safety now rt ProcessStart])"

section \<open>Latch generations\<close>

record safety_latch_generations =
  gen_manual_lock :: u64
  gen_emergency_stop :: u64
  gen_control_fault :: u64

definition latches_from_runtime :: "runtime_state \<Rightarrow> safety_latch_generations" where
  "latches_from_runtime rt = \<lparr>gen_manual_lock = manual_lock_generation rt,
     gen_emergency_stop = emergency_stop_generation rt, gen_control_fault = control_fault_generation rt\<rparr>"

definition latches_changed_since :: "safety_latch_generations \<Rightarrow> runtime_state \<Rightarrow> bool" where
  "latches_changed_since g rt \<longleftrightarrow>
     gen_manual_lock g \<noteq> manual_lock_generation rt
     \<or> gen_emergency_stop g \<noteq> emergency_stop_generation rt
     \<or> gen_control_fault g \<noteq> control_fault_generation rt"

definition ensure_safety_latches_unchanged_for_commit ::
    "runtime_state \<Rightarrow> safety_latch_generations option \<Rightarrow> string \<Rightarrow> (app_error + unit) \<times> runtime_state" where
  "ensure_safety_latches_unchanged_for_commit rt acknowledged action = (case acknowledged of
       Some g \<Rightarrow>
         if latches_changed_since g rt
         then (Err (conflict (action @ '' blocked: a safety latch fired during the audit window; field state changed, so the risk-increasing commit was refused. Re-verify field state before retrying'')),
               rt\<lparr>auto_enabled := False\<rparr>)
         else (Ok (), rt)
     | None \<Rightarrow> (Ok (), rt))"

section \<open>Validation of targets\<close>

definition api_validate_range :: "string \<Rightarrow> f64 \<Rightarrow> f64 \<Rightarrow> f64 \<Rightarrow> app_error + unit" where
  "api_validate_range field value lo hi =
     (if \<not> is_finite value \<or> \<not> in_range lo hi value
      then Err (bad_request (field @ '' must be between '' @ display_f64 lo @ '' and '' @ display_f64 hi))
      else Ok ())"

definition validate_target_temperature :: "safety_config \<Rightarrow> f64 \<Rightarrow> app_error + unit" where
  "validate_target_temperature safety value = run_checks
     [api_validate_range ''target_temp'' value (lit 0) (lit 500),
      if f64_lt (max_c (temperature safety)) value
      then Err (bad_request (''target_temp exceeds device maximum temperature ''
             @ fmt_fixed 1 (max_c (temperature safety))))
      else Ok ()]"

definition validate_stir_speed :: "safety_config \<Rightarrow> f64 \<Rightarrow> app_error + unit" where
  "validate_stir_speed safety value = run_checks
     [api_validate_range ''stir_speed'' value (lit 0) (lit 2000),
      if f64_lt (max_rpm (stirrer safety)) value
      then Err (bad_request (''stir_speed exceeds device maximum RPM ''
             @ fmt_fixed 0 (max_rpm (stirrer safety))))
      else Ok ()]"

definition validate_target_pair_allowed :: "safety_config \<Rightarrow> f64 \<Rightarrow> f64 \<Rightarrow> app_error + unit" where
  "validate_target_pair_allowed safety temp rpm =
     (case find_forbidden_control_zone safety temp rpm of
        Some zone \<Rightarrow> Err (forbidden (''target pair temp='' @ fmt_fixed 1 temp @ '' degC rpm=''
          @ fmt_fixed 1 rpm @ '' enters forbidden control zone '' @ zone_name zone @ '': '' @ zone_reason zone))
      | None \<Rightarrow> Ok ())"

definition ensure_targets_allowed :: "safety_config \<Rightarrow> control_targets \<Rightarrow> app_error + unit" where
  "ensure_targets_allowed safety tg =
     validate_target_pair_allowed safety (t_temperature_c tg) (t_stirrer_rpm tg)"

definition round_targets :: "control_targets \<Rightarrow> control_targets" where
  "round_targets tg = \<lparr>t_temperature_c = round2 (t_temperature_c tg),
     t_heat_time_s = round2 (t_heat_time_s tg), t_hold_time_s = round2 (t_hold_time_s tg),
     t_cool_time_s = round2 (t_cool_time_s tg), t_stirrer_rpm = round2 (t_stirrer_rpm tg),
     t_shake_speed_cpm = round2 (t_shake_speed_cpm tg),
     t_target_pressure_mpa = round2 (t_target_pressure_mpa tg)\<rparr>"

definition validate_operator_targets :: "safety_config \<Rightarrow> control_targets \<Rightarrow> app_error + control_targets" where
  "validate_operator_targets safety tg =
     bind_res (run_checks
       [map_err (with_message_prefix ''temperature_c'') (validate_target_temperature safety (t_temperature_c tg)),
        map_err (with_message_prefix ''stirrer_rpm'') (validate_stir_speed safety (t_stirrer_rpm tg)),
        api_validate_range ''shake_speed_cpm'' (t_shake_speed_cpm tg) (lit 0) (lit 60),
        api_validate_range ''target_pressure_mpa'' (t_target_pressure_mpa tg) (lit 0) (lit 10),
        api_validate_range ''heat_time_s'' (t_heat_time_s tg) (lit 0) (lit 3600),
        api_validate_range ''hold_time_s'' (t_hold_time_s tg) (lit 0) (lit 7200),
        api_validate_range ''cool_time_s'' (t_cool_time_s tg) (lit 0) (lit 3600)])
     (\<lambda>_. Ok (round_targets tg))"

definition validate_v1_process_targets :: "safety_config \<Rightarrow> control_targets \<Rightarrow> app_error + control_targets" where
  "validate_v1_process_targets safety tg =
     bind_res (run_checks
       [validate_target_temperature safety (t_temperature_c tg),
        api_validate_range ''heat_time_s'' (t_heat_time_s tg) (lit 0)
          (f64_mul (ob_max_heating_minutes (optimizer safety)) (lit 60)),
        api_validate_range ''hold_time_s'' (t_hold_time_s tg) (lit 0)
          (f64_mul (ob_max_stirring_minutes (optimizer safety)) (lit 60)),
        api_validate_range ''cool_time_s'' (t_cool_time_s tg) (lit 0) (lit 3600),
        validate_stir_speed safety (t_stirrer_rpm tg),
        api_validate_range ''shake_speed'' (t_shake_speed_cpm tg) (lit 0) (lit 60),
        api_validate_range ''target_pressure'' (t_target_pressure_mpa tg) (lit 0) (lit 10)])
     (\<lambda>_. Ok (round_targets tg))"

definition validate_batch_start_targets :: "safety_config \<Rightarrow> control_targets \<Rightarrow> app_error + control_targets" where
  "validate_batch_start_targets safety tg =
     bind_res (run_checks
       [validate_target_temperature safety (t_temperature_c tg),
        validate_stir_speed safety (t_stirrer_rpm tg),
        validate_target_pair_allowed safety (t_temperature_c tg) (t_stirrer_rpm tg),
        api_validate_range ''target_shake_speed_cpm'' (t_shake_speed_cpm tg) (lit 0) (lit 60),
        api_validate_range ''heating_minutes'' (f64_div (t_heat_time_s tg) (lit 60)) (lit 0)
          (ob_max_heating_minutes (optimizer safety)),
        api_validate_range ''stirring_minutes'' (f64_div (t_hold_time_s tg) (lit 60)) (lit 0)
          (ob_max_stirring_minutes (optimizer safety)),
        api_validate_range ''cool_time_s'' (t_cool_time_s tg) (lit 0) (lit 3600),
        api_validate_range ''target_pressure_mpa'' (t_target_pressure_mpa tg) (lit 0) (lit 10)])
     (\<lambda>_. Ok (round_targets tg))"

fun optional_present_number :: "f64 option option \<Rightarrow> string \<Rightarrow> app_error + f64 option" where
  "optional_present_number (Some (Some n)) field =
     (if is_finite n then Ok (Some n) else Err (bad_request (field @ '' must be finite'')))"
| "optional_present_number (Some None) field = Err (bad_request (field @ '' must not be null''))"
| "optional_present_number None field = Ok None"

fun optional_present_i64 :: "int option option \<Rightarrow> string \<Rightarrow> app_error + int option" where
  "optional_present_i64 (Some (Some i)) field = Ok (Some i)"
| "optional_present_i64 (Some None) field = Err (bad_request (field @ '' must not be null''))"
| "optional_present_i64 None field = Ok None"

definition safe_command_from_runtime_targets :: "control_targets \<Rightarrow> string \<Rightarrow> safe_command" where
  "safe_command_from_runtime_targets tg reason =
     \<lparr>c_target_temperature_c = t_temperature_c tg, c_heat_time_s = t_heat_time_s tg,
      c_hold_time_s = t_hold_time_s tg, c_cool_time_s = t_cool_time_s tg,
      c_target_stirrer_rpm = t_stirrer_rpm tg, c_target_shake_speed_cpm = t_shake_speed_cpm tg,
      c_target_pressure_mpa = t_target_pressure_mpa tg, c_reason = reason\<rparr>"

text \<open>The fail-safe targets: minimal temperature and stirring, everything else zero.\<close>

definition process_stop_targets :: "safety_config \<Rightarrow> control_targets option" where
  "process_stop_targets safety =
     map_option (\<lambda>t. t\<lparr>t_heat_time_s := lit 0, t_hold_time_s := lit 0, t_cool_time_s := lit 0,
         t_shake_speed_cpm := lit 0, t_target_pressure_mpa := lit 0\<rparr>)
       (clamp_operator_targets safety
         \<lparr>t_temperature_c = min_c (temperature safety), t_heat_time_s = lit 0, t_hold_time_s = lit 0,
          t_cool_time_s = lit 0, t_stirrer_rpm = min_rpm (stirrer safety), t_shake_speed_cpm = lit 0,
          t_target_pressure_mpa = lit 0\<rparr>)"

section \<open>Facts\<close>

lemma batch_status_consistent_iff:
  "recovery_required (unfinished_batch_status_from_batches unfinished rt) \<longleftrightarrow>
     automatic_batch_state_is_consistent (active_batch_id rt) unfinished \<noteq> Ok ()"
  by (auto simp: recovery_required_def batch_status_is_consistent_def Let_def
      unfinished_batch_status_from_batches_def automatic_batch_state_is_consistent_def split: if_splits)

lemma recovery_required_iff:
  "recovery_required (unfinished_batch_status_from_batches unfinished rt) \<longleftrightarrow>
     batch_id ` set unfinished \<noteq> set_option (active_batch_id rt)"
  by (simp add: batch_status_consistent_iff batch_consistent_iff)

text \<open>A sample the handlers accept as current.\<close>

definition fresh_input :: "time \<Rightarrow> safety_config \<Rightarrow> runtime_state \<Rightarrow> bool" where
  "fresh_input now safety rt \<longleftrightarrow> last_sensor_error rt = None \<and>
     (\<exists>s. latest_sample rt = Some s
        \<and> timestamp_is_fresh now (s_captured_at s) (sensor_timeout_ms (control safety)))"

lemma ensure_fresh_sample_iff: "ensure_fresh_sample safety now rt = Ok () \<longleftrightarrow> fresh_input now safety rt"
  by (auto simp: ensure_fresh_sample_def fresh_sample_for_realtime_def fresh_input_def
      timestamp_is_fresh_def Let_def split: option.splits)

lemma ensure_healthy_iff:
  "ensure_proven_healthy_device_status safety now rt action = Ok ()
   \<longleftrightarrow> status_clear now safety (device_status rt)"
  by (auto simp: ensure_proven_healthy_device_status_def status_clear_def
      field_fault_None_iff [symmetric] command_fault_None_iff [symmetric] split: option.splits)

text \<open>The state in which risk may be increased.\<close>

definition field_clear :: "time \<Rightarrow> safety_config \<Rightarrow> runtime_state \<Rightarrow> bool" where
  "field_clear now safety rt \<longleftrightarrow>
     \<not> emergency_stop rt \<and> \<not> manual_lock rt \<and> last_control_error rt = None
     \<and> status_clear now safety (device_status rt) \<and> fresh_input now safety rt"

lemma interlock_clear_iff:
  "ensure_target_update_interlock_clear safety now rt md = Ok () \<longleftrightarrow> field_clear now safety rt"
  by (auto simp: ensure_target_update_interlock_clear_def field_clear_def ensure_healthy_iff
      ensure_fresh_sample_iff bind_res_Ok_iff split: option.splits)

lemma manual_unlock_clear_iff:
  "ensure_manual_unlock_interlock_clear safety now unfinished rt = Ok () \<longleftrightarrow>
     \<not> emergency_stop rt \<and> last_control_error rt = None
     \<and> (\<exists>batches. unfinished = Ok batches \<and> batch_id ` set batches = set_option (active_batch_id rt))
     \<and> status_clear now safety (device_status rt) \<and> fresh_input now safety rt"
  by (auto simp: ensure_manual_unlock_interlock_clear_def ensure_healthy_iff ensure_fresh_sample_iff
      ensure_no_unfinished_batch_recovery_for_reset_def bind_res_Ok_iff recovery_required_iff Let_def
      split: option.splits)

lemma reset_recovery_iff:
  "ensure_no_unfinished_batch_recovery_for_reset unfinished rt action = Ok () \<longleftrightarrow>
     (\<exists>batches. unfinished = Ok batches \<and> batch_id ` set batches = set_option (active_batch_id rt))"
  by (auto simp: ensure_no_unfinished_batch_recovery_for_reset_def bind_res_Ok_iff recovery_required_iff Let_def)

lemma latches_changed_iff:
  "latches_changed_since (latches_from_runtime a) b \<longleftrightarrow>
     manual_lock_generation a \<noteq> manual_lock_generation b
     \<or> emergency_stop_generation a \<noteq> emergency_stop_generation b
     \<or> control_fault_generation a \<noteq> control_fault_generation b"
  by (simp add: latches_changed_since_def latches_from_runtime_def)

lemma process_stop_targets_total [panic_free]: "wf_safety safety \<Longrightarrow> process_stop_targets safety \<noteq> None"
  using clamp_operator_targets_total by (fastforce simp: process_stop_targets_def)

lemma api_validate_range_ok:
  "is_ok (api_validate_range f x lo hi) \<longleftrightarrow> is_finite x \<and> in_range lo hi x"
  by (simp add: api_validate_range_def)

end
