(* ===== verification/Safety_Api.thy ===== *)
theory Safety_Api
  imports Interlock
begin

text \<open>
  The safety handlers of \<open>api.rs\<close>: enabling automatic control, manual lock, emergency stop, the resets,
  operator targets and the ingestion of pipeline samples. Each handler checks the session's permission
  first; \<open>session p\<close> stands for \<open>require_permission(&headers, p)\<close> (theory \<open>Auth\<close>).
\<close>

type_synonym session = "permission \<Rightarrow> app_error + auth_user"

section \<open>Lock bodies\<close>

text \<open>A sequence of checks under the lock: the first failure is returned and the state is left as it is.\<close>

definition lock_checks ::
    "(app_error + unit) list \<Rightarrow> runtime_state \<Rightarrow> (app_error + 'a) \<times> runtime_state
     \<Rightarrow> (app_error + 'a) \<times> runtime_state" where
  "lock_checks checks rt cont = (case run_checks checks of Inl e \<Rightarrow> (Err e, rt) | Inr _ \<Rightarrow> cont)"

text \<open>The opening of the risk-increasing handlers: automatic control goes off and a snapshot is taken.\<close>

definition disarm :: "runtime_state handler" where
  "disarm = with_lock (\<lambda>env now unf rt. let rt1 = rt\<lparr>auto_enabled := False\<rparr> in (Ok rt1, rt1))"

text \<open>A check of a snapshot outside the lock, at the current clock and database answer.\<close>

definition check_snapshot ::
    "(safety_config \<Rightarrow> time \<Rightarrow> anyhow + batch list \<Rightarrow> app_error + unit) \<Rightarrow> unit handler" where
  "check_snapshot f = (\<lambda>env s.
     let t = h_tick s in Some (f (a_safety env) (a_clock env t) (a_unfinished env t), s\<lparr>h_tick := t + 1\<rparr>))"

definition persisted_batch_check ::
    "anyhow + batch list \<Rightarrow> runtime_state \<Rightarrow> target_update_interlock_mode \<Rightarrow> app_error + unit" where
  "persisted_batch_check unfinished rt md =
     bind_res (map_err (\<lambda>_. internal_error) unfinished) (\<lambda>batches.
     ensure_persisted_batch_status_consistent (unfinished_batch_status_from_batches batches rt) rt md)"

section \<open>Automatic control\<close>

definition set_auto :: "session \<Rightarrow> bool \<Rightarrow> unit handler" where
  "set_auto session enabled =
     hbind (hresult (session SetSafeTargets)) (\<lambda>user.
     let actor = audit_actor_for_user user in
     hbind
       (if enabled then
          hbind disarm (\<lambda>rt.
          hbind (check_snapshot (\<lambda>safety now unf. ensure_target_update_interlock_clear safety now rt AutoEnable))
            (\<lambda>_.
          hbind (check_snapshot (\<lambda>safety now unf. persisted_batch_check unf rt AutoEnable)) (\<lambda>_.
          hreturn (Some (latches_from_runtime rt)))))
        else hbind disarm (\<lambda>_. hreturn None)) (\<lambda>acknowledged.
     hbind (insert_event actor None (if enabled then ''auto_enabled'' else ''auto_disabled'') None
              ''operator changed automatic control state'') (\<lambda>audited.
     hbind (hany audited) (\<lambda>_.
     if enabled then
       with_lock (\<lambda>env now unf rt.
         lock_checks [ensure_target_update_interlock_clear (a_safety env) now rt AutoEnable] rt
         (if (case acknowledged of Some g \<Rightarrow> latches_changed_since g rt | None \<Rightarrow> False)
          then (Err (conflict ''automatic control enable safety state changed during audit; operator must re-check field state''),
                rt\<lparr>auto_enabled := False\<rparr>)
          else lock_checks [persisted_batch_check unf rt AutoEnable] rt
            (Ok (), rt\<lparr>auto_enabled := True\<rparr>)))
     else hreturn ()))))"

section \<open>Manual lock\<close>

text \<open>The final generation check runs under a read lock that is released before the lock is cleared.\<close>

definition set_manual_lock :: "session \<Rightarrow> bool \<Rightarrow> unit handler" where
  "set_manual_lock session locked =
     hbind (hresult (session SetSafeTargets)) (\<lambda>user.
     let actor = audit_actor_for_user user in
     if locked then
       hbind (with_lock (\<lambda>env now unf rt. (Ok (), engage_manual_lock rt))) (\<lambda>_.
       hbind (insert_event actor None ''manual_lock_on'' None
                ''operator enabled manual lock; automatic control disabled'') (\<lambda>audited.
       hany audited))
     else
       hbind disarm (\<lambda>rt.
       hbind (check_snapshot (\<lambda>safety now unf. ensure_manual_unlock_interlock_clear safety now unf rt)) (\<lambda>_.
       let acknowledged = latches_from_runtime rt in
       hbind (read_lock (\<lambda>rt. rt)) (\<lambda>interlock_rt.
       hbind (check_snapshot (\<lambda>safety now unf.
                ensure_manual_unlock_interlock_clear safety now unf interlock_rt)) (\<lambda>_.
       hbind (insert_event actor None ''manual_lock_off'' None
                ''operator requested manual lock disable; awaiting final generation re-check before clearing'')
         (\<lambda>audited.
       hbind (hany audited) (\<lambda>_.
       hbind (read_lock (latches_changed_since acknowledged)) (\<lambda>refused.
       if refused then
         hbind (insert_event actor None ''manual_unlock_refused'' None
                  ''manual lock unlock refused: a safety latch fired during the audit window; the preceding manual_lock_off did NOT take effect and manual lock remains engaged'')
           (\<lambda>audited.
         hbind (hany audited) (\<lambda>_.
         hbind disarm (\<lambda>_.
         hfail (conflict ''manual lock unlock blocked: a safety latch fired during the audit window; field state changed, so the unlock was refused. Re-verify field state before retrying''))))
       else with_lock (\<lambda>env now unf rt. (Ok (), clear_manual_lock rt))))))))))"

section \<open>Resets\<close>

definition reset_checks ::
    "safety_config \<Rightarrow> time \<Rightarrow> anyhow + batch list \<Rightarrow> runtime_state \<Rightarrow> string \<Rightarrow> string \<Rightarrow> (app_error + unit) list" where
  "reset_checks safety now unf rt active_action action =
     [ensure_no_active_batch_for_reset rt active_action,
      ensure_no_unfinished_batch_recovery_for_reset unf rt action,
      ensure_fresh_sample safety now rt,
      ensure_proven_healthy_device_status safety now rt action]"

definition reset_control_fault :: "session \<Rightarrow> unit handler" where
  "reset_control_fault session =
     hbind (hresult (session SetSafeTargets)) (\<lambda>user.
     let actor = audit_actor_for_user user in
     hbind (with_lock (\<lambda>env now unf rt. case last_control_error rt of
         None \<Rightarrow> (Err (conflict ''no latched device control fault to reset''), rt)
       | Some error \<Rightarrow>
           if control_loop_terminated rt
           then (Err (conflict ''control loop task has terminated; this fault cannot be cleared via the API. Restart the daemon process and re-verify field state before re-enabling automatic control''), rt)
           else let rt1 = rt\<lparr>auto_enabled := False\<rparr> in
             lock_checks (reset_checks (a_safety env) now unf rt1 ''resetting the control fault''
                 ''control fault reset'') rt1
               (Ok (error, control_fault_generation rt1), rt1))) (\<lambda>(error, generation).
     hbind (insert_event actor None ''control_fault_reset'' None
              ''operator acknowledged device write fault after field verification; automatic control remains disabled'')
       (\<lambda>audited.
     hbind (hany audited) (\<lambda>_.
     with_lock (\<lambda>env now unf rt.
       let rt1 = rt\<lparr>auto_enabled := False\<rparr> in
       lock_checks (reset_checks (a_safety env) now unf rt1 ''resetting the control fault''
           ''control fault reset after audit'') rt1
         (if control_fault_generation rt1 \<noteq> generation \<or> last_control_error rt1 \<noteq> Some error
          then (Err (conflict ''latched control fault changed during reset; maintenance must re-verify field state''), rt1)
          else (Ok (), clear_control_fault rt1)))))))"

definition reset_emergency_stop :: "session \<Rightarrow> unit handler" where
  "reset_emergency_stop session =
     hbind (hresult (session PermEmergencyStop)) (\<lambda>user.
     let actor = audit_actor_for_user user in
     hbind (with_lock (\<lambda>env now unf rt.
         if \<not> emergency_stop rt
         then (Err (conflict ''emergency stop is not active; reset is not required''), rt)
         else let rt1 = rt\<lparr>auto_enabled := False\<rparr> in (Ok rt1, rt1))) (\<lambda>rt.
     hbind (check_snapshot (\<lambda>safety now unf.
              run_checks (reset_checks safety now unf rt ''resetting emergency stop'' ''emergency stop reset'')))
       (\<lambda>_.
     hbind (insert_event actor None ''emergency_stop_reset'' None ''operator reset emergency stop flag'')
       (\<lambda>audited.
     hbind (hany audited) (\<lambda>_.
     with_lock (\<lambda>env now unf rt2.
       if \<not> emergency_stop rt2 \<or> emergency_stop_generation rt2 \<noteq> emergency_stop_generation rt
       then (Err (conflict ''emergency stop changed during reset; operator must re-check field state''),
             rt2\<lparr>auto_enabled := False\<rparr>)
       else lock_checks [ensure_no_active_batch_for_reset rt2 ''resetting emergency stop after audit'',
                         ensure_no_unfinished_batch_recovery_for_reset unf rt2 ''emergency stop reset after audit'',
                         ensure_fresh_sample (a_safety env) now rt2] rt2
         (case ensure_proven_healthy_device_status (a_safety env) now rt2 ''emergency stop reset after audit'' of
            Inl err \<Rightarrow> (Err err, rt2\<lparr>auto_enabled := False\<rparr>)
          | Inr _ \<Rightarrow> (Ok (), clear_emergency_stop rt2))))))))"

section \<open>Targets\<close>

text \<open>Derived equality of targets compares the floats.\<close>

definition targets_eq :: "control_targets \<Rightarrow> control_targets \<Rightarrow> bool" where
  "targets_eq a b \<longleftrightarrow>
     f64_eq (t_temperature_c a) (t_temperature_c b) \<and> f64_eq (t_heat_time_s a) (t_heat_time_s b)
     \<and> f64_eq (t_hold_time_s a) (t_hold_time_s b) \<and> f64_eq (t_cool_time_s a) (t_cool_time_s b)
     \<and> f64_eq (t_stirrer_rpm a) (t_stirrer_rpm b) \<and> f64_eq (t_shake_speed_cpm a) (t_shake_speed_cpm b)
     \<and> f64_eq (t_target_pressure_mpa a) (t_target_pressure_mpa b)"

definition commit_targets_after_final_interlock ::
    "control_targets \<Rightarrow> target_update_interlock_mode \<Rightarrow> control_targets option
     \<Rightarrow> safety_latch_generations option \<Rightarrow> unit handler" where
  "commit_targets_after_final_interlock tg md expected acknowledged =
     hbind (db_call (\<lambda>env t. a_unfinished env t)) (\<lambda>queried.
     hbind (hany queried) (\<lambda>unfinished.
     with_lock (\<lambda>env now unf rt.
       lock_checks [ensure_target_update_interlock_clear (a_safety env) now rt md] rt
       (case ensure_safety_latches_unchanged_for_commit rt acknowledged (mode_description md) of
          (Inl e, rt1) \<Rightarrow> (Err e, rt1)
        | (Inr _, rt1) \<Rightarrow>
          lock_checks [ensure_persisted_batch_status_consistent
              (unfinished_batch_status_from_batches unfinished rt1) rt1 md] rt1
          (if (case expected of Some cur \<Rightarrow> \<not> targets_eq (targets rt1) cur | None \<Rightarrow> False)
           then (Err (conflict (mode_description md
                   @ '' saw stale runtime targets; retry after re-reading current targets'')),
                 rt1\<lparr>auto_enabled := False\<rparr>)
           else (Ok (), rt1\<lparr>targets := tg\<rparr>))))))"

definition set_targets :: "session \<Rightarrow> f64 \<Rightarrow> f64 \<Rightarrow> f64 option option \<Rightarrow> control_targets handler" where
  "set_targets session temp rpm shake =
     hbind (hresult (session SetSafeTargets)) (\<lambda>user.
     let actor = audit_actor_for_user user in
     hbind (read_lock targets) (\<lambda>current.
     hbind safety_of (\<lambda>safety.
     hbind (hresult (optional_present_number shake ''shake_speed_cpm'')) (\<lambda>shake_speed.
     hbind (hresult (validate_operator_targets safety
              (current\<lparr>t_temperature_c := temp, t_stirrer_rpm := rpm,
                 t_shake_speed_cpm := unwrap_or shake_speed (t_shake_speed_cpm current)\<rparr>))) (\<lambda>tg.
     hbind (hresult (ensure_targets_allowed safety tg)) (\<lambda>_.
     hbind disarm (\<lambda>rt.
     hbind (check_snapshot (\<lambda>safety now unf.
              ensure_target_update_interlock_clear safety now rt DesiredTargets)) (\<lambda>_.
     hbind (insert_event actor None ''operator_targets_updated''
              (Some (safe_command_from_runtime_targets tg ''operator target request after safety validation''))
              ''operator changed desired targets after configured safety validation'') (\<lambda>audited.
     hbind (hany audited) (\<lambda>_.
     hbind (commit_targets_after_final_interlock tg DesiredTargets (Some current)
              (Some (latches_from_runtime rt))) (\<lambda>_.
     hreturn tg)))))))))))"

section \<open>Emergency stop\<close>

definition latch_control_write_fault :: "anyhow \<Rightarrow> unit handler" where
  "latch_control_write_fault err =
     with_lock (\<lambda>env now unf rt. (Ok (), fst (latch_control_fault (err_display err) rt)))"

text \<open>The device call under a time budget: the outer error is the expiry, the inner result is the
  device's own answer. The handler inspects the outer result only.\<close>

definition bounded_device_write :: "safe_command \<Rightarrow> (anyhow + (anyhow + unit)) handler" where
  "bounded_device_write command = (\<lambda>env s.
     let t = h_tick s;
         budget_ms = (if 0 \<le> sensor_timeout_ms (control (a_safety env))
                      then sensor_timeout_ms (control (a_safety env)) else 1)
     in Some (Ok (if a_expired env t
                  then Err [''emergency stop target write timed out after '' @ show_int budget_ms @ '' ms'']
                  else Ok (a_write env t)),
              s\<lparr>h_tick := t + 1, h_writes := h_writes s @ [command]\<rparr>))"

definition emergency_stop_handler :: "session \<Rightarrow> unit handler" where
  "emergency_stop_handler session =
     hbind (hresult (session PermEmergencyStop)) (\<lambda>user.
     let actor = audit_actor_for_user user in
     hbind (with_lock (\<lambda>env now unf rt. (Ok (), engage_emergency_stop rt))) (\<lambda>_.
     hbind safety_of (\<lambda>safety.
     hbind (hpanic (process_stop_targets safety)) (\<lambda>stop_targets.
     let stop_command = safe_command_from_runtime_targets stop_targets ''emergency stop fail-safe targets'' in
     hbind (bounded_device_write stop_command) (\<lambda>stop_write.
     case stop_write of
       Inl err \<Rightarrow>
         hbind (latch_control_write_fault err) (\<lambda>_.
         hbind (insert_event actor None ''emergency_stop'' (Some stop_command)
                  (''operator triggered emergency stop; fail-safe target write FAILED, downstream may still hold previous targets: ''
                   @ err_display err @ ''; activate hardware e-stop'')) (\<lambda>_.
         hfail (service_unavailable (''emergency stop engaged but fail-safe targets could not be delivered to downstream device: ''
                   @ err_display err @ ''; activate hardware e-stop immediately''))))
     | Inr _ \<Rightarrow>
         hbind (insert_event actor None ''emergency_stop'' (Some stop_command)
                  ''operator triggered emergency stop; fail-safe targets delivered to downstream device; automatic control disabled'')
           (\<lambda>audited.
         case audited of
           Inl err \<Rightarrow>
             hbind (with_lock (\<lambda>env now unf rt. (Ok (), fst (latch_control_fault
                      (''emergency stop audit failed after fail-safe state change: '' @ err_display err) rt)))) (\<lambda>_.
             hfail internal_error)
         | Inr _ \<Rightarrow> hreturn ()))))))"

section \<open>Runs\<close>

lemma lock_checks_Inr [run_simps]:
  "lock_checks cs rt k = (Inr x, rt') \<longleftrightarrow> list_all is_ok cs \<and> k = (Inr x, rt')"
  using run_checks_Ok_iff [of cs] by (cases "run_checks cs") (auto simp: lock_checks_def)

lemma case_check_Inr [run_simps]:
  "(case c of Inl e \<Rightarrow> (Inl (f e), st e) | Inr (_ :: unit) \<Rightarrow> k) = (Inr x, rt') \<longleftrightarrow> c = Inr () \<and> k = (Inr x, rt')"
  by (cases c) auto

lemma run_disarm [run_simps]:
  "disarm env s = Some (Inr rt, s') \<longleftrightarrow>
     rt = (a_interfere env (h_tick s) (h_rt s))\<lparr>auto_enabled := False\<rparr>
     \<and> s' = s\<lparr>h_rt := rt, h_tick := h_tick s + 1\<rparr>"
  by (auto simp: disarm_def with_lock_Some Let_def)

lemma run_check_snapshot [run_simps]:
  "check_snapshot f env s = Some (Inr x, s') \<longleftrightarrow>
     f (a_safety env) (a_clock env (h_tick s)) (a_unfinished env (h_tick s)) = Ok ()
     \<and> s' = s\<lparr>h_tick := h_tick s + 1\<rparr>"
  by (auto simp: check_snapshot_def Let_def)

text \<open>The persisted batches agree with the runtime state.\<close>

definition batches_agree :: "anyhow + batch list \<Rightarrow> runtime_state \<Rightarrow> bool" where
  "batches_agree unfinished rt \<longleftrightarrow>
     (\<exists>batches. unfinished = Ok batches \<and> batch_id ` set batches = set_option (active_batch_id rt))"

lemma persisted_batch_check_iff: "persisted_batch_check unf rt md = Ok () \<longleftrightarrow> batches_agree unf rt"
  by (auto simp: persisted_batch_check_def batches_agree_def bind_res_Ok_iff recovery_required_iff
      ensure_persisted_batch_status_consistent_def split: sum.splits)

text \<open>The generations of two states agree.\<close>

definition same_generations :: "runtime_state \<Rightarrow> runtime_state \<Rightarrow> bool" where
  "same_generations a b \<longleftrightarrow> \<not> latches_changed_since (latches_from_runtime a) b"

lemma latches_changed_same: "latches_changed_since (latches_from_runtime a) b \<longleftrightarrow> \<not> same_generations a b"
  by (simp add: same_generations_def)

lemmas gate_iff = unit_ok [symmetric] interlock_clear_iff persisted_batch_check_iff ensure_fresh_sample_iff
  ensure_healthy_iff reset_recovery_iff manual_unlock_clear_iff latches_changed_same batches_agree_def [symmetric]

lemma no_active_batch_iff: "ensure_no_active_batch_for_reset rt action = Ok () \<longleftrightarrow> active_batch_id rt = None"
  by (simp add: ensure_no_active_batch_for_reset_def split: option.splits)

section \<open>Properties\<close>

text \<open>C10: A request to enable automatic control succeeds exactly when the session has the permission, the
  field is clear and the persisted batches agree with the runtime both before and after the audit row is
  written, the audit row could be written, and no safety latch changed its generation in between, whatever
  the other tasks do between the lock acquisitions; it then leaves automatic control on in the state that
  passed the last check, with the operator's audit row appended.\<close>

theorem set_auto_enable_iff:
  "set_auto session True env s = Some (Ok (), s') \<longleftrightarrow>
     (\<exists>user seen live. session SetSafeTargets = Ok user
        \<and> seen = (a_interfere env (h_tick s) (h_rt s))\<lparr>auto_enabled := False\<rparr>
        \<and> field_clear (a_clock env (h_tick s + 1)) (a_safety env) seen
        \<and> batches_agree (a_unfinished env (h_tick s + 2)) seen
        \<and> a_audit env (h_tick s + 3) = Ok ()
        \<and> live = a_interfere env (h_tick s + 4) seen
        \<and> field_clear (a_clock env (h_tick s + 4)) (a_safety env) live
        \<and> same_generations seen live
        \<and> batches_agree (a_unfinished env (h_tick s + 4)) live
        \<and> s' = s\<lparr>h_rt := live\<lparr>auto_enabled := True\<rparr>, h_tick := h_tick s + 5,
              h_events := h_events s @ [\<lparr>ev_actor = audit_actor_for_user user, ev_batch = None,
                 ev_type = ''auto_enabled'', ev_command = None,
                 ev_reason = ''operator changed automatic control state''\<rparr>]\<rparr>)"
  by (simp add: set_auto_def run_simps Let_def gate_iff eval_nat_numeral cong: conj_cong) auto

text \<open>The conditions under which a latch may be reset.\<close>

definition reset_permitted ::
    "time \<Rightarrow> safety_config \<Rightarrow> anyhow + batch list \<Rightarrow> runtime_state \<Rightarrow> bool" where
  "reset_permitted now safety unfinished rt \<longleftrightarrow>
     active_batch_id rt = None \<and> unfinished = Ok [] \<and> fresh_input now safety rt
     \<and> status_clear now safety (device_status rt)"

lemma reset_permitted_iff:
  "reset_permitted now safety unfinished rt \<longleftrightarrow>
     active_batch_id rt = None \<and> batches_agree unfinished rt \<and> fresh_input now safety rt
     \<and> status_clear now safety (device_status rt)"
  by (auto simp: reset_permitted_def batches_agree_def)

lemma reset_checks_iff:
  "list_all is_ok (reset_checks safety now unf rt a b) \<longleftrightarrow> reset_permitted now safety unf rt"
  by (simp add: reset_checks_def gate_iff no_active_batch_iff reset_permitted_iff)

text \<open>A control fault is cleared exactly when the session has the permission, a fault is latched, the
  control loop is alive, no batch is open or recorded as unfinished, and the sample and the device status
  are fresh and healthy both before and after the audit row, and the latched fault at the end is the one
  acknowledged at the start (same text, same generation); automatic control then stays off.\<close>

theorem reset_control_fault_iff:
  "reset_control_fault session env s = Some (Ok (), s') \<longleftrightarrow>
     (\<exists>user fault_text seen live. session SetSafeTargets = Ok user
        \<and> seen = (a_interfere env (h_tick s) (h_rt s))\<lparr>auto_enabled := False\<rparr>
        \<and> last_control_error seen = Some fault_text \<and> \<not> control_loop_terminated seen
        \<and> reset_permitted (a_clock env (h_tick s)) (a_safety env) (a_unfinished env (h_tick s)) seen
        \<and> a_audit env (h_tick s + 1) = Ok ()
        \<and> live = (a_interfere env (h_tick s + 2) seen)\<lparr>auto_enabled := False\<rparr>
        \<and> reset_permitted (a_clock env (h_tick s + 2)) (a_safety env) (a_unfinished env (h_tick s + 2)) live
        \<and> control_fault_generation live = control_fault_generation seen
        \<and> last_control_error live = Some fault_text
        \<and> s' = s\<lparr>h_rt := clear_control_fault live, h_tick := h_tick s + 3,
              h_events := h_events s @ [\<lparr>ev_actor = audit_actor_for_user user, ev_batch = None,
                 ev_type = ''control_fault_reset'', ev_command = None,
                 ev_reason = ''operator acknowledged device write fault after field verification; automatic control remains disabled''\<rparr>]\<rparr>)"
  by (simp add: reset_control_fault_def run_simps Let_def reset_checks_iff eval_nat_numeral
      split: option.splits cong: conj_cong) auto

text \<open>An emergency stop is reset exactly when the session has the permission, the stop is active, its
  generation has not changed during the request, and the reset conditions hold before and after the audit
  row.\<close>

theorem reset_emergency_stop_iff:
  "reset_emergency_stop session env s = Some (Ok (), s') \<longleftrightarrow>
     (\<exists>user seen live. session PermEmergencyStop = Ok user
        \<and> seen = (a_interfere env (h_tick s) (h_rt s))\<lparr>auto_enabled := False\<rparr>
        \<and> emergency_stop seen
        \<and> reset_permitted (a_clock env (h_tick s + 1)) (a_safety env) (a_unfinished env (h_tick s + 1)) seen
        \<and> a_audit env (h_tick s + 2) = Ok ()
        \<and> live = a_interfere env (h_tick s + 3) seen
        \<and> emergency_stop live \<and> emergency_stop_generation live = emergency_stop_generation seen
        \<and> reset_permitted (a_clock env (h_tick s + 3)) (a_safety env) (a_unfinished env (h_tick s + 3)) live
        \<and> s' = s\<lparr>h_rt := clear_emergency_stop live, h_tick := h_tick s + 4,
              h_events := h_events s @ [\<lparr>ev_actor = audit_actor_for_user user, ev_batch = None,
                 ev_type = ''emergency_stop_reset'', ev_command = None,
                 ev_reason = ''operator reset emergency stop flag''\<rparr>]\<rparr>)"
  by (simp add: reset_emergency_stop_def run_simps Let_def reset_checks_iff run_checks_Ok_iff
      eval_nat_numeral cong: conj_cong)
     (auto simp: gate_iff no_active_batch_iff reset_permitted_iff)

text \<open>A manual-lock release succeeds exactly when the session has the permission, the unlock
  conditions hold on two snapshots, the audit row is written and no latch generation has changed when the
  final re-check reads the state. The lock is then cleared in whatever state the other tasks have produced
  by the time the write lock is taken: that last interference is not checked.\<close>

theorem manual_unlock_iff:
  "set_manual_lock session False env s = Some (Ok (), s') \<longleftrightarrow>
     (\<exists>user seen again checked. session SetSafeTargets = Ok user
        \<and> seen = (a_interfere env (h_tick s) (h_rt s))\<lparr>auto_enabled := False\<rparr>
        \<and> ensure_manual_unlock_interlock_clear (a_safety env) (a_clock env (h_tick s + 1))
            (a_unfinished env (h_tick s + 1)) seen = Ok ()
        \<and> again = a_interfere env (h_tick s + 2) seen
        \<and> ensure_manual_unlock_interlock_clear (a_safety env) (a_clock env (h_tick s + 3))
            (a_unfinished env (h_tick s + 3)) again = Ok ()
        \<and> a_audit env (h_tick s + 4) = Ok ()
        \<and> checked = a_interfere env (h_tick s + 5) again \<and> same_generations seen checked
        \<and> s' = s\<lparr>h_rt := clear_manual_lock (a_interfere env (h_tick s + 6) checked),
              h_tick := h_tick s + 7,
              h_events := h_events s @ [\<lparr>ev_actor = audit_actor_for_user user, ev_batch = None,
                 ev_type = ''manual_lock_off'', ev_command = None,
                 ev_reason = ''operator requested manual lock disable; awaiting final generation re-check before clearing''\<rparr>]\<rparr>)"
proof -
  have "(hbind (insert_event a b c d e) (\<lambda>w. hbind (hany w) (\<lambda>_. hbind disarm (\<lambda>_. hfail f)))) env' q
      \<noteq> Some (Ok (), s')" for a b c d e f env' q by (simp add: run_simps)
  then show ?thesis
    by (simp add: set_manual_lock_def run_simps Let_def latches_changed_same eval_nat_numeral
      if_distrib [of "\<lambda>h. h _ _"] if_distribR cong: conj_cong) auto
qed

section \<open>Invariants of the handlers\<close>

lemma keeps_check_snapshot [keeps_intros]: "keeps P (check_snapshot f)"
  by (auto simp: keeps_def check_snapshot_def Let_def)

lemma keeps_bounded_write [keeps_intros]: "keeps P (bounded_device_write c)"
  by (auto simp: keeps_def bounded_device_write_def Let_def)

lemma returns_api_steps [returns_intros]:
  "returns (check_snapshot f)" "returns (bounded_device_write c)" "returns disarm"
  "returns (latch_control_write_fault e)"
  by (auto simp: returns_def check_snapshot_def bounded_device_write_def disarm_def with_lock_def
      latch_control_write_fault_def Let_def)

lemma snd_lock_checks: "snd (lock_checks cs rt k) = (if list_all is_ok cs then snd k else rt)"
  using run_checks_Ok_iff [of cs] by (cases "run_checks cs") (auto simp: lock_checks_def)

text \<open>A predicate kept by the state changes the handlers make. Enabling automatic control happens only on
  a clear field.\<close>

locale api_invariant =
  fixes good :: "runtime_state \<Rightarrow> bool"
  assumes inv_auto_off: "good rt \<Longrightarrow> good (rt\<lparr>auto_enabled := False\<rparr>)"
    and inv_auto_on: "good rt \<Longrightarrow> field_clear now safety rt \<Longrightarrow> good (rt\<lparr>auto_enabled := True\<rparr>)"
    and inv_latch: "good rt \<Longrightarrow> good (fst (latch_control_fault r rt))"
    and inv_engage_manual: "good rt \<Longrightarrow> good (engage_manual_lock rt)"
    and inv_clear_manual: "good rt \<Longrightarrow> good (clear_manual_lock rt)"
    and inv_engage_stop: "good rt \<Longrightarrow> good (engage_emergency_stop rt)"
    and inv_clear_stop: "good rt \<Longrightarrow> good (clear_emergency_stop rt)"
begin

lemma keeps_disarm: "keeps good disarm"
  unfolding disarm_def by (rule keeps_lock) (simp add: Let_def inv_auto_off)

lemma keeps_latch_control_write_fault: "keeps good (latch_control_write_fault e)"
  unfolding latch_control_write_fault_def by (rule keeps_lock) (simp add: inv_latch)

lemmas keeps_steps = keeps_intros keeps_disarm keeps_latch_control_write_fault

lemma keeps_set_auto: "keeps good (set_auto session enabled)"
  unfolding set_auto_def Let_def
  by (intro keeps_steps)
     (auto simp: snd_lock_checks interlock_clear_iff unit_ok [symmetric] inv_auto_off intro: inv_auto_on)

lemma keeps_set_manual_lock: "keeps good (set_manual_lock session locked)"
  unfolding set_manual_lock_def Let_def
  by (intro keeps_steps) (simp_all add: inv_engage_manual inv_clear_manual)

lemma keeps_reset_emergency_stop: "keeps good (reset_emergency_stop session)"
  unfolding reset_emergency_stop_def Let_def
  by (intro keeps_steps) (auto simp: snd_lock_checks inv_auto_off inv_clear_stop split: sum.splits)

lemma keeps_emergency_stop: "keeps good (emergency_stop_handler session)"
  unfolding emergency_stop_handler_def Let_def
  by (intro keeps_steps) (simp_all add: inv_engage_stop inv_latch)

end

locale resettable_invariant = api_invariant +
  assumes inv_clear_fault: "good rt \<Longrightarrow> good (clear_control_fault rt)"
begin

lemma keeps_reset_control_fault: "keeps good (reset_control_fault session)"
  unfolding reset_control_fault_def Let_def
  by (intro keeps_steps)
     (auto simp: snd_lock_checks inv_auto_off inv_clear_fault intro!: keeps_steps split: option.splits)

end

locale target_invariant = api_invariant +
  fixes admissible :: "control_targets \<Rightarrow> bool"
  assumes inv_targets: "good rt \<Longrightarrow> admissible tg \<Longrightarrow> good (rt\<lparr>targets := tg\<rparr>)"
begin

lemma keeps_commit_targets:
  "admissible tg \<Longrightarrow> keeps good (commit_targets_after_final_interlock tg md expected ack)"
  unfolding commit_targets_after_final_interlock_def
  by (intro keeps_steps)
     (auto simp: ensure_safety_latches_unchanged_for_commit_def snd_lock_checks inv_auto_off
       inv_targets split: option.splits)

end

interpretation api_latches: resettable_invariant latches_hold
  by unfold_locales (auto simp: latches_hold_def field_clear_def runtime_op_defs Let_def)

interpretation api_latches: target_invariant latches_hold "\<lambda>_. True"
  by unfold_locales (auto simp: latches_hold_def)

interpretation api_data: resettable_invariant data_ok
  by unfold_locales (auto simp: data_ok_def runtime_op_defs Let_def)

interpretation api_data: target_invariant data_ok usable_targets
  by unfold_locales (auto simp: data_ok_def)

text \<open>A dead control loop leaves a latched fault behind.\<close>

definition terminated_faulted :: "runtime_state \<Rightarrow> bool" where
  "terminated_faulted rt \<longleftrightarrow> (control_loop_terminated rt \<longrightarrow> last_control_error rt \<noteq> None)"

interpretation api_terminated: api_invariant terminated_faulted
  by unfold_locales (auto simp: terminated_faulted_def runtime_op_defs Let_def)

interpretation api_terminated: target_invariant terminated_faulted "\<lambda>_. True"
  by unfold_locales (auto simp: terminated_faulted_def)

section \<open>Targets: what a successful request commits\<close>

definition operator_ranges :: "safety_config \<Rightarrow> control_targets \<Rightarrow> bool" where
  "operator_ranges safety tg \<longleftrightarrow>
     in_range (lit 0) (lit 500) (t_temperature_c tg) \<and> f64_le (t_temperature_c tg) (max_c (temperature safety))
     \<and> in_range (lit 0) (lit 2000) (t_stirrer_rpm tg) \<and> f64_le (t_stirrer_rpm tg) (max_rpm (stirrer safety))
     \<and> in_range (lit 0) (lit 60) (t_shake_speed_cpm tg) \<and> in_range (lit 0) (lit 10) (t_target_pressure_mpa tg)
     \<and> in_range (lit 0) (lit 3600) (t_heat_time_s tg) \<and> in_range (lit 0) (lit 7200) (t_hold_time_s tg)
     \<and> in_range (lit 0) (lit 3600) (t_cool_time_s tg)"

lemma finite_not_lt: "is_finite x \<Longrightarrow> is_finite y \<Longrightarrow> \<not> f64_lt y x \<longleftrightarrow> f64_le x y"
  by (auto simp: f64_lt_finite f64_le_finite)

lemma api_range_ok: "is_ok (api_validate_range f x (Num a) (Num b)) \<longleftrightarrow> in_range (Num a) (Num b) x"
  by (auto simp: api_validate_range_def in_range_Num)

lemma wf_safety_maxima: "wf_safety safety \<Longrightarrow> is_finite (max_c (temperature safety))"
  "wf_safety safety \<Longrightarrow> is_finite (max_rpm (stirrer safety))"
  by (auto simp: wf_safety_def safe_bounds_def)

lemma target_temperature_ok:
  "wf_safety safety \<Longrightarrow> is_ok (validate_target_temperature safety x) \<longleftrightarrow>
     in_range (lit 0) (lit 500) x \<and> f64_le x (max_c (temperature safety))"
  by (auto simp: validate_target_temperature_def run_checks_ok api_range_ok in_range_Num
      finite_not_lt [symmetric] wf_safety_maxima simp del: run_checks.simps)

lemma stir_speed_ok:
  "wf_safety safety \<Longrightarrow> is_ok (validate_stir_speed safety x) \<longleftrightarrow>
     in_range (lit 0) (lit 2000) x \<and> f64_le x (max_rpm (stirrer safety))"
  by (auto simp: validate_stir_speed_def run_checks_ok api_range_ok in_range_Num
      finite_not_lt [symmetric] wf_safety_maxima simp del: run_checks.simps)

lemma validate_operator_targets_iff:
  assumes "wf_safety safety"
  shows "validate_operator_targets safety tg = Ok t \<longleftrightarrow> operator_ranges safety tg \<and> t = round_targets tg"
  using assms
  by (auto simp: validate_operator_targets_def bind_res_Ok_iff run_checks_Ok_iff target_temperature_ok
      stir_speed_ok operator_ranges_def api_range_ok simp del: run_checks.simps)

lemma run_commit_targets:
  "commit_targets_after_final_interlock tg md (Some cur) (Some (latches_from_runtime seen)) env s
       = Some (Ok (), s') \<longleftrightarrow>
     (\<exists>live. live = a_interfere env (h_tick s + 1) (h_rt s)
        \<and> field_clear (a_clock env (h_tick s + 1)) (a_safety env) live
        \<and> same_generations seen live \<and> batches_agree (a_unfinished env (h_tick s)) live
        \<and> targets_eq (targets live) cur
        \<and> s' = s\<lparr>h_rt := live\<lparr>targets := tg\<rparr>, h_tick := h_tick s + 2\<rparr>)"
  by (simp add: commit_targets_after_final_interlock_def run_simps gate_iff eval_nat_numeral
      ensure_safety_latches_unchanged_for_commit_def ensure_persisted_batch_status_consistent_def
      cong: conj_cong)
     (auto simp: batches_agree_def recovery_required_iff)

lemma targets_allowed_iff: "ensure_targets_allowed safety x = Ok () \<longleftrightarrow>
    find_forbidden_control_zone safety (t_temperature_c x) (t_stirrer_rpm x) = None"
  by (simp add: ensure_targets_allowed_def validate_target_pair_allowed_def split: option.splits)

text \<open>The shake speed of a request: absent keeps the current one.\<close>

fun requested_shake :: "f64 option option \<Rightarrow> f64 \<Rightarrow> f64" where
  "requested_shake (Some (Some v)) cur = v"
| "requested_shake _ cur = cur"

lemma requested_shake_eq:
  "optional_present_number shake f = Ok v \<Longrightarrow> unwrap_or v cur = requested_shake shake cur"
  by (cases "(shake, f)" rule: optional_present_number.cases) (auto split: if_splits)

lemma run_set_targets:
  "set_targets session temp rpm shake env s = Some (Ok tg, s') \<longleftrightarrow>
     (\<exists>user current v seen mid. session SetSafeTargets = Ok user
        \<and> current = targets (a_interfere env (h_tick s) (h_rt s))
        \<and> optional_present_number shake ''shake_speed_cpm'' = Ok v
        \<and> validate_operator_targets (a_safety env) (current\<lparr>t_temperature_c := temp, t_stirrer_rpm := rpm,
             t_shake_speed_cpm := unwrap_or v (t_shake_speed_cpm current)\<rparr>) = Ok tg
        \<and> ensure_targets_allowed (a_safety env) tg = Ok ()
        \<and> seen = (a_interfere env (h_tick s + 1) (a_interfere env (h_tick s) (h_rt s)))\<lparr>auto_enabled := False\<rparr>
        \<and> field_clear (a_clock env (h_tick s + 2)) (a_safety env) seen
        \<and> a_audit env (h_tick s + 3) = Ok ()
        \<and> mid = s\<lparr>h_rt := seen, h_tick := h_tick s + 4, h_events := h_events s @
             [\<lparr>ev_actor = audit_actor_for_user user, ev_batch = None, ev_type = ''operator_targets_updated'',
               ev_command = Some (safe_command_from_runtime_targets tg ''operator target request after safety validation''),
               ev_reason = ''operator changed desired targets after configured safety validation''\<rparr>]\<rparr>
        \<and> commit_targets_after_final_interlock tg DesiredTargets (Some current)
             (Some (latches_from_runtime seen)) env mid = Some (Ok (), s'))"
  by (simp add: set_targets_def run_simps Let_def interlock_clear_iff eval_nat_numeral cong: conj_cong)

text \<open>C12: When a target update succeeds, the returned targets are the requested set-points over the
  current times and pressure, rounded to two decimals; the request was inside the operator ranges and below
  the device maxima; the committed pair is outside every forbidden zone; and at the moment of the commit the
  field was clear, no latch had changed since the acknowledgement, the persisted batches agreed and nobody
  had changed the targets in between. The committed runtime targets are the returned ones.\<close>

theorem set_targets_committed:
  assumes "wf_safety (a_safety env)"
    and "set_targets session temp rpm shake env s = Some (Ok tg, s')"
  shows "\<exists>current live. current = targets (a_interfere env (h_tick s) (h_rt s))
     \<and> operator_ranges (a_safety env) (current\<lparr>t_temperature_c := temp, t_stirrer_rpm := rpm,
          t_shake_speed_cpm := requested_shake shake (t_shake_speed_cpm current)\<rparr>)
     \<and> tg = round_targets (current\<lparr>t_temperature_c := temp, t_stirrer_rpm := rpm,
          t_shake_speed_cpm := requested_shake shake (t_shake_speed_cpm current)\<rparr>)
     \<and> find_forbidden_control_zone (a_safety env) (t_temperature_c tg) (t_stirrer_rpm tg) = None
     \<and> field_clear (a_clock env (h_tick s + 5)) (a_safety env) live
     \<and> same_generations (a_interfere env (h_tick s + 1) (a_interfere env (h_tick s) (h_rt s))) live
     \<and> batches_agree (a_unfinished env (h_tick s + 4)) live
     \<and> targets_eq (targets live) current \<and> h_rt s' = live\<lparr>targets := tg\<rparr>"
proof -
  from assms(2) obtain user v seen mid where
    v: "optional_present_number shake ''shake_speed_cpm'' = Ok v"
    and ok: "validate_operator_targets (a_safety env)
        ((targets (a_interfere env (h_tick s) (h_rt s)))\<lparr>t_temperature_c := temp, t_stirrer_rpm := rpm,
           t_shake_speed_cpm := unwrap_or v (t_shake_speed_cpm (targets (a_interfere env (h_tick s) (h_rt s))))\<rparr>) = Ok tg"
      "ensure_targets_allowed (a_safety env) tg = Ok ()"
    and seen: "seen = (a_interfere env (h_tick s + 1) (a_interfere env (h_tick s) (h_rt s)))\<lparr>auto_enabled := False\<rparr>"
    and mid': "\<exists>e. mid = s\<lparr>h_rt := seen, h_tick := h_tick s + 4, h_events := e\<rparr>"
    and commit: "commit_targets_after_final_interlock tg DesiredTargets
        (Some (targets (a_interfere env (h_tick s) (h_rt s)))) (Some (latches_from_runtime seen)) env mid = Some (Ok (), s')"
    unfolding run_set_targets by blast
  from mid' have mid: "h_rt mid = seen" "h_tick mid = h_tick s + 4" by auto
  have gen: "same_generations seen x = same_generations (a_interfere env (h_tick s + 1) (a_interfere env (h_tick s) (h_rt s))) x" for x
    by (simp add: seen same_generations_def latches_changed_iff)
  show ?thesis
    using ok commit requested_shake_eq [OF v] gen
    by (simp add: run_commit_targets validate_operator_targets_iff [OF assms(1)] targets_allowed_iff mid
        eval_nat_numeral) auto
qed

section \<open>Emergency stop\<close>

lemma emergency_stop_cases:
  fixes s :: hstate
  assumes "session PermEmergencyStop = Ok user" "process_stop_targets (a_safety env) = Some stop"
  defines "command \<equiv> safe_command_from_runtime_targets stop ''emergency stop fail-safe targets''"
    and "engaged \<equiv> engage_emergency_stop (a_interfere env (h_tick s) (h_rt s))"
  shows "\<exists>r s'. emergency_stop_handler session env s = Some (r, s')
     \<and> h_writes s' = h_writes s @ [command]
     \<and> (r = Ok () \<longleftrightarrow> \<not> a_expired env (h_tick s + 1) \<and> a_audit env (h_tick s + 2) = Ok ())
     \<and> (if r = Ok () then h_rt s' = engaged
        else \<exists>t m. h_rt s' = fst (latch_control_fault m (a_interfere env t engaged)))"
  using assms(1,2)
  by (cases "a_audit env (h_tick s + 2)"; cases "a_audit env (h_tick s + 3)")
     (auto simp: emergency_stop_handler_def hbind_def hresult_def with_lock_def safety_of_def hpanic_def
      bounded_device_write_def latch_control_write_fault_def insert_event_def hfail_def hreturn_def
      Let_def command_def engaged_def eval_nat_numeral)

text \<open>C11: With the permission and a valid configuration the emergency stop always answers: it writes the
  fail-safe targets to the device exactly once, leaves the stop latched and automatic control off whatever
  the other tasks do (as long as they do not release the stop), and reports success only when the write did
  not run out of its time budget and the audit row was written; otherwise a control fault is latched too.\<close>

theorem emergency_stop_latches:
  assumes "wf_safety (a_safety env)" "session PermEmergencyStop = Ok user"
    and "api_rely emergency_stop env"
  shows "\<exists>stop r s'. process_stop_targets (a_safety env) = Some stop
     \<and> emergency_stop_handler session env s = Some (r, s')
     \<and> h_writes s' = h_writes s @ [safe_command_from_runtime_targets stop ''emergency stop fail-safe targets'']
     \<and> emergency_stop (h_rt s') \<and> \<not> auto_enabled (h_rt s')
     \<and> (r = Ok () \<longleftrightarrow> \<not> a_expired env (h_tick s + 1) \<and> a_audit env (h_tick s + 2) = Ok ())
     \<and> (r \<noteq> Ok () \<longrightarrow> last_control_error (h_rt s') \<noteq> None)"
proof -
  from process_stop_targets_total [OF assms(1)] obtain stop where stop: "process_stop_targets (a_safety env) = Some stop"
    by auto
  let ?engaged = "engage_emergency_stop (a_interfere env (h_tick s) (h_rt s))"
  have eng: "emergency_stop ?engaged" "\<not> auto_enabled ?engaged"
    by (simp_all add: engage_emergency_stop_def)
  then have "emergency_stop (a_interfere env t ?engaged)" for t using assms(3) by (simp add: api_rely_def)
  with eng emergency_stop_cases [of session user env stop s, OF assms(2) stop] stop show ?thesis
    by (auto simp: latch_simps split: if_splits)
qed

text \<open>The device's own answer is not inspected: when the write returns an error inside its time budget,
  the handler reports success, latches no fault and records that the targets were delivered.\<close>

theorem emergency_stop_ignores_device_error:
  assumes "wf_safety (a_safety env)" "session PermEmergencyStop = Ok user"
    and "a_write env (h_tick s + 1) = Err e" "\<not> a_expired env (h_tick s + 1)" "a_audit env (h_tick s + 2) = Ok ()"
  shows "\<exists>s' ev. emergency_stop_handler session env s = Some (Ok (), s')
     \<and> last_control_error (h_rt s') = last_control_error (a_interfere env (h_tick s) (h_rt s))
     \<and> h_events s' = h_events s @ [ev]
     \<and> ev_reason ev = ''operator triggered emergency stop; fail-safe targets delivered to downstream device; automatic control disabled''"
proof -
  from process_stop_targets_total [OF assms(1)] obtain stop where "process_stop_targets (a_safety env) = Some stop"
    by auto
  then show ?thesis using assms(2-)
    by (simp add: emergency_stop_handler_def hbind_def hresult_def with_lock_def safety_of_def hpanic_def
      bounded_device_write_def insert_event_def hreturn_def Let_def engage_emergency_stop_def)
qed

section \<open>Invariants as properties\<close>

lemma keeps_set_targets_latches: "keeps latches_hold (set_targets session temp rpm shake)"
  unfolding set_targets_def Let_def
  by (intro keeps_intros api_latches.keeps_disarm api_latches.keeps_commit_targets) simp

lemma returns_commit_targets [returns_intros]: "returns (commit_targets_after_final_interlock tg md e a)"
  unfolding commit_targets_after_final_interlock_def by (intro returns_intros)

lemma returns_safety_pure [returns_intros]: "(\<And>x. returns (k x)) \<Longrightarrow> returns (hbind safety_of k)"
  by (auto simp: returns_def hbind_def safety_of_def)

lemma returns_reset_control_fault: "returns (reset_control_fault session)"
  unfolding reset_control_fault_def Let_def
  by (intro returns_intros) (auto intro!: returns_intros split: prod.split)

lemma returns_safety_handlers:
  "returns (set_auto session enabled) \<and> returns (set_manual_lock session locked)
   \<and> returns (reset_control_fault session) \<and> returns (reset_emergency_stop session)
   \<and> returns (emergency_stop_handler session) \<and> returns (set_targets session temp rpm shake)"
  unfolding set_auto_def set_manual_lock_def reset_emergency_stop_def emergency_stop_handler_def
    set_targets_def Let_def
  by (intro conjI returns_intros process_stop_targets_total returns_reset_control_fault)

text \<open>The states in which a fault reset can end.\<close>

lemma lock_checks_cases:
  "lock_checks cs rt k = (if list_all is_ok cs then k else (Err (projl (run_checks cs)), rt))"
  using run_checks_Ok_iff [of cs] by (cases "run_checks cs") (auto simp: lock_checks_def)

lemma reset_control_fault_states:
  fixes env :: api_env and s :: hstate
  defines "seen \<equiv> (a_interfere env (h_tick s) (h_rt s))\<lparr>auto_enabled := False\<rparr>"
  defines "live \<equiv> (a_interfere env (h_tick s + 2) seen)\<lparr>auto_enabled := False\<rparr>"
  assumes "reset_control_fault session env s = Some (r, s')"
  shows "h_rt s' \<in> {h_rt s, a_interfere env (h_tick s) (h_rt s), seen, live}
     \<or> h_rt s' = clear_control_fault live \<and> \<not> control_loop_terminated seen
       \<and> control_fault_generation live = control_fault_generation seen"
  using assms(3)
  by (auto simp: reset_control_fault_def hbind_def hresult_def with_lock_def lock_checks_cases insert_event_def
      hany_def seen_def live_def Let_def split: sum.splits option.splits if_splits prod.splits)

text \<open>A terminated control loop stays faulted: the reset handler cannot clear the fault of a dead
  supervisor, not even when the loop dies while the reset is under way, because its death moves the fault
  generation.\<close>

theorem reset_never_clears_dead_loop:
  assumes "reset_control_fault session env s = Some (r, s')" "terminated_faulted (h_rt s)"
    and "api_rely terminated_faulted env"
    and "\<forall>t rt. control_loop_terminated (a_interfere env t rt) \<noteq> control_loop_terminated rt \<longrightarrow>
           control_fault_generation (a_interfere env t rt) \<noteq> control_fault_generation rt"
  shows "terminated_faulted (h_rt s')"
proof -
  let ?seen = "(a_interfere env (h_tick s) (h_rt s))\<lparr>auto_enabled := False\<rparr>"
  have keep: "terminated_faulted (rt\<lparr>auto_enabled := False\<rparr>)" "terminated_faulted (a_interfere env t rt)"
    if "terminated_faulted rt" for rt t
    using that assms(3) by (auto simp: api_rely_def terminated_faulted_def)
  have "terminated_faulted (clear_control_fault ((a_interfere env (h_tick s + 2) ?seen)\<lparr>auto_enabled := False\<rparr>))"
    if "\<not> control_loop_terminated ?seen"
      "control_fault_generation (a_interfere env (h_tick s + 2) ?seen) = control_fault_generation ?seen"
    using that assms(4) [rule_format, of "h_tick s + 2" ?seen]
    by (auto simp: terminated_faulted_def clear_control_fault_def)
  then show ?thesis
    using reset_control_fault_states [OF assms(1)] keep assms(2) by auto
qed

section \<open>Witnesses\<close>

definition demo_session :: session where
  "demo_session = (\<lambda>_. Ok (make_auth_user ''op'' Operator))"

definition demo_api :: "(nat \<Rightarrow> anyhow + unit) \<Rightarrow> api_env" where
  "demo_api w = \<lparr>a_safety = shipped_safety, a_clock = (\<lambda>_. 0), a_interfere = (\<lambda>_ rt. rt),
     a_unfinished = (\<lambda>_. Ok []), a_audit = (\<lambda>_. Ok ()), a_write = w, a_expired = (\<lambda>_. False),
     a_sample = (\<lambda>_. Ok ()), a_create_batch = (\<lambda>_. Err []), a_finish_batch = (\<lambda>_. Ok ()),
     a_batch_by_id = (\<lambda>_. Ok None), a_mark_applied = (\<lambda>_. Ok True), a_process_detail = (\<lambda>_. Ok None)\<rparr>"

definition demo_hstate :: "string option \<Rightarrow> hstate" where
  "demo_hstate f = \<lparr>h_rt = (from_safety shipped_safety)\<lparr>latest_sample := Some demo_sample,
       device_status := Some demo_status, last_control_error := f\<rparr>,
     h_tick = 0, h_events = [], h_writes = [], h_db = []\<rparr>"

lemma demo_field_clear:
  "field_clear 0 shipped_safety (h_rt (demo_hstate None))"
  using demo_status_clear demo_fresh
  by (simp add: field_clear_def fresh_input_def demo_hstate_def from_safety_def shipped_safety_def
      control_defaults)

theorem emergency_stop_latches_witness:
  "\<exists>stop r s'. process_stop_targets shipped_safety = Some stop
     \<and> emergency_stop_handler demo_session (demo_api (\<lambda>_. Ok ())) (demo_hstate None) = Some (r, s')
     \<and> emergency_stop (h_rt s') \<and> r = Ok ()"
  using emergency_stop_latches [of "demo_api (\<lambda>_. Ok ())" demo_session _ "demo_hstate None"]
  by (force simp: demo_api_def demo_session_def api_rely_def)

theorem emergency_stop_ignores_device_error_witness:
  "\<exists>s'. emergency_stop_handler demo_session (demo_api (\<lambda>_. Err [''serial port closed''])) (demo_hstate None)
       = Some (Ok (), s') \<and> last_control_error (h_rt s') = None"
  using emergency_stop_ignores_device_error [of "demo_api (\<lambda>_. Err [''serial port closed''])" demo_session _
      "demo_hstate None" "[''serial port closed'']"]
  by (force simp: demo_api_def demo_session_def demo_hstate_def from_safety_def)

theorem reset_never_clears_dead_loop_witness:
  "\<exists>r s'. reset_control_fault demo_session (demo_api (\<lambda>_. Ok ())) (demo_hstate (Some ''fault'')) = Some (r, s')
     \<and> terminated_faulted (h_rt s')"
proof -
  let ?env = "demo_api (\<lambda>_. Ok ())" and ?s = "demo_hstate (Some ''fault'')"
  have "wf_safety (a_safety ?env)" by (simp add: demo_api_def)
  then obtain r s' where run: "reset_control_fault demo_session ?env ?s = Some (r, s')"
    using returns_reset_control_fault unfolding returns_def by (metis option.exhaust surj_pair)
  moreover have "terminated_faulted (h_rt s')"
    by (rule reset_never_clears_dead_loop [OF run])
       (simp_all add: demo_api_def terminated_faulted_def demo_hstate_def api_rely_def)
  ultimately show ?thesis by blast
qed

lemma demo_disarmed: "(h_rt (demo_hstate None))\<lparr>auto_enabled := False\<rparr> = h_rt (demo_hstate None)"
  by (simp add: demo_hstate_def from_safety_def)

lemma demo_targets_request:
  "\<exists>s'. set_targets demo_session (Num 60) (Num 300) None (demo_api (\<lambda>_. Ok ())) (demo_hstate None)
     = Some (Ok (round_targets (targets (from_safety shipped_safety))), s')"
proof -
  let ?tg = "targets (from_safety shipped_safety)"
  have tg: "targets (h_rt (demo_hstate None)) = ?tg" "?tg\<lparr>t_temperature_c := Num 60, t_stirrer_rpm := Num 300\<rparr> = ?tg"
    by (simp_all add: demo_hstate_def from_safety_def shipped_safety_def)
  have "operator_ranges shipped_safety ?tg" "targets_eq ?tg ?tg"
    by (simp_all add: operator_ranges_def targets_eq_def from_safety_def shipped_safety_def in_range_Num f64_eq_def
        half_two_decimals)
  moreover have "ensure_targets_allowed shipped_safety (round_targets ?tg) = Ok ()"
    by (simp add: targets_allowed_iff round_targets_def from_safety_def shipped_safety_def
        find_forbidden_control_zone_def zone_contains_def)
  moreover have "batches_agree (Ok []) (h_rt (demo_hstate None))" "same_generations rt rt" for rt
    by (simp_all add: batches_agree_def demo_hstate_def from_safety_def same_generations_def latches_changed_iff)
  ultimately show ?thesis
    by (simp add: run_set_targets run_commit_targets demo_session_def demo_api_def demo_disarmed tg
        validate_operator_targets_iff demo_field_clear)
qed

theorem set_targets_committed_witness:
  "\<exists>s'. set_targets demo_session (Num 60) (Num 300) None (demo_api (\<lambda>_. Ok ())) (demo_hstate None)
       = Some (Ok (round_targets (targets (from_safety shipped_safety))), s')
     \<and> targets (h_rt s') = round_targets (targets (from_safety shipped_safety))"
proof -
  obtain s' where run: "set_targets demo_session (Num 60) (Num 300) None (demo_api (\<lambda>_. Ok ())) (demo_hstate None)
     = Some (Ok (round_targets (targets (from_safety shipped_safety))), s')"
    using demo_targets_request by blast
  have "wf_safety (a_safety (demo_api (\<lambda>_. Ok ())))" by (simp add: demo_api_def)
  from set_targets_committed [OF this run] run show ?thesis by force
qed

end
