(* ===== verification/Operator_Text.thy ===== *)
theory Operator_Text
  imports Prelude
begin

text \<open>
  Text that people enter: the UTF-8 decoding and encoding that \<open>str::chars\<close> and \<open>String::push\<close> perform, and
  the normalisation of labels and reasons (\<open>api.rs\<close>: \<open>clean_label\<close>, \<open>normalize_operator_text\<close>) before they
  reach the audit trail.
\<close>

section \<open>UTF-8\<close>

definition byte_in :: "nat \<Rightarrow> nat \<Rightarrow> char \<Rightarrow> bool" where
  "byte_in lo hi c \<longleftrightarrow> lo \<le> (of_char c :: nat) \<and> (of_char c :: nat) \<le> hi"

text \<open>\<open>String::from_utf8\<close>: well-formed sequences, without surrogates and over-long forms.\<close>

fun valid_utf8 :: "string \<Rightarrow> bool" where
  "valid_utf8 [] = True"
| "valid_utf8 (a # r) =
     (if byte_in 0 0x7F a then valid_utf8 r
      else if byte_in 0xC2 0xDF a then
        (case r of b # r' \<Rightarrow> byte_in 0x80 0xBF b \<and> valid_utf8 r' | [] \<Rightarrow> False)
      else if byte_in 0xE0 0xEF a then
        (case r of b # c # r' \<Rightarrow>
             byte_in (if byte_in 0xE0 0xE0 a then 0xA0 else 0x80) (if byte_in 0xED 0xED a then 0x9F else 0xBF) b
             \<and> byte_in 0x80 0xBF c \<and> valid_utf8 r'
         | _ \<Rightarrow> False)
      else if byte_in 0xF0 0xF4 a then
        (case r of b # c # d # r' \<Rightarrow>
             byte_in (if byte_in 0xF0 0xF0 a then 0x90 else 0x80) (if byte_in 0xF4 0xF4 a then 0x8F else 0xBF) b
             \<and> byte_in 0x80 0xBF c \<and> byte_in 0x80 0xBF d \<and> valid_utf8 r'
         | _ \<Rightarrow> False)
      else False)"

text \<open>\<open>str::chars\<close> on a well-formed string, and the bytes that \<open>String::push\<close> appends for a scalar value.\<close>

fun utf8_chars :: "string \<Rightarrow> nat list" where
  "utf8_chars [] = []"
| "utf8_chars (a # r) =
     (if byte_in 0 0x7F a then of_char a # utf8_chars r
      else if byte_in 0 0xDF a then
        (case r of b # r' \<Rightarrow> ((of_char a mod 32) * 64 + of_char b mod 64) # utf8_chars r' | [] \<Rightarrow> [])
      else if byte_in 0 0xEF a then
        (case r of b # c # r' \<Rightarrow>
             ((of_char a mod 16) * 4096 + (of_char b mod 64) * 64 + of_char c mod 64) # utf8_chars r'
         | _ \<Rightarrow> [])
      else
        (case r of b # c # d # r' \<Rightarrow>
             ((of_char a mod 8) * 262144 + (of_char b mod 64) * 4096 + (of_char c mod 64) * 64
               + of_char d mod 64) # utf8_chars r'
         | _ \<Rightarrow> []))"

definition utf8_char :: "nat \<Rightarrow> string" where
  "utf8_char c =
     (if c < 0x80 then [char_of c]
      else if c < 0x800 then [char_of (0xC0 + c div 64), char_of (0x80 + c mod 64)]
      else if c < 0x10000 then
        [char_of (0xE0 + c div 4096), char_of (0x80 + c div 64 mod 64), char_of (0x80 + c mod 64)]
      else [char_of (0xF0 + c div 262144), char_of (0x80 + c div 4096 mod 64),
            char_of (0x80 + c div 64 mod 64), char_of (0x80 + c mod 64)])"

definition utf8_string :: "nat list \<Rightarrow> string" where
  "utf8_string cs = concat (map utf8_char cs)"

lemma of_char_of [simp]: "n < 256 \<Longrightarrow> (of_char (char_of n :: char) :: nat) = n"
  by simp

lemma base64_digits:
  "(c :: nat) = c div 64 * 64 + c mod 64" "c div 64 = c div 4096 * 64 + c div 64 mod 64"
  "c div 4096 = c div 262144 * 64 + c div 4096 mod 64"
  using div_mult_mod_eq [of "c div 64" 64] div_mult_mod_eq [of "c div 4096" 64]
  by (simp_all flip: div_mult2_eq)

lemma join_digits:
  "(c :: nat) = q * 64 + y \<Longrightarrow> q = p * 64 + x \<Longrightarrow> c = p * 4096 + x * 64 + y"
  "(c :: nat) = q * 64 + y \<Longrightarrow> q = p * 64 + x \<Longrightarrow> p = n * 64 + z \<Longrightarrow> c = n * 262144 + z * 4096 + x * 64 + y"
  by simp_all

lemma lead_bytes:
  "x < 32 \<Longrightarrow> (192 + x) mod 32 = (x :: nat)" "x < 16 \<Longrightarrow> (224 + x) mod 16 = x" "x < 8 \<Longrightarrow> (240 + x) mod 8 = x"
  "x < 64 \<Longrightarrow> (128 + x) mod 64 = x"
  using mod_mult_self3 [of 6 32 x] mod_mult_self3 [of 14 16 x] mod_mult_self3 [of 30 8 x] mod_mult_self3 [of 2 64 x]
  by simp_all

lemma utf8_chars_two:
  "\<lbrakk>2 \<le> x; x < 32; y < 64\<rbrakk> \<Longrightarrow> utf8_chars (char_of (192 + x) # char_of (128 + y) # r) = (x * 64 + y) # utf8_chars r"
  by (simp add: byte_in_def lead_bytes)

lemma utf8_chars_three:
  "\<lbrakk>x < 16; y < 64; z < 64\<rbrakk> \<Longrightarrow> utf8_chars (char_of (224 + x) # char_of (128 + y) # char_of (128 + z) # r)
     = (x * 4096 + y * 64 + z) # utf8_chars r"
  by (simp add: byte_in_def lead_bytes)

lemma utf8_chars_four:
  "\<lbrakk>x < 8; y < 64; z < 64; w < 64\<rbrakk> \<Longrightarrow>
     utf8_chars (char_of (240 + x) # char_of (128 + y) # char_of (128 + z) # char_of (128 + w) # r)
     = (x * 262144 + y * 4096 + z * 64 + w) # utf8_chars r"
  by (simp add: byte_in_def lead_bytes)

lemma utf8_char_decode: "c < 0x110000 \<Longrightarrow> utf8_chars (utf8_char c @ r) = c # utf8_chars r"
proof -
  assume c: "c < 0x110000"
  note d = base64_digits [of c]
  consider "c < 0x80" | "0x80 \<le> c" "c < 0x800" | "0x800 \<le> c" "c < 0x10000" | "0x10000 \<le> c" by linarith
  then show ?thesis
  proof cases
    case 1
    then show ?thesis by (simp add: utf8_char_def byte_in_def)
  next
    case 2
    have x: "2 \<le> c div 64" "c div 64 < 32"
      using 2 div_le_mono [of 128 c 64] less_mult_imp_div_less [of c 32 64] by simp_all
    show ?thesis using 2 utf8_chars_two [OF x, of "c mod 64" r] d(1) by (simp add: utf8_char_def del: utf8_chars.simps)
  next
    case 3
    have x: "c div 4096 < 16" using 3 less_mult_imp_div_less [of c 16 4096] by simp
    show ?thesis using 3 utf8_chars_three [OF x, of "c div 64 mod 64" "c mod 64" r]
      by (simp add: utf8_char_def join_digits(1) [OF d(1,2), symmetric] del: utf8_chars.simps)
  next
    case 4
    have x: "c div 262144 < 8" using c less_mult_imp_div_less [of c 8 262144] by simp
    show ?thesis using 4 utf8_chars_four [OF x, of "c div 4096 mod 64" "c div 64 mod 64" "c mod 64" r]
      by (simp add: utf8_char_def join_digits(2) [OF d, symmetric] del: utf8_chars.simps)
  qed
qed

lemma utf8_roundtrip: "(\<forall>c \<in> set cs. c < 0x110000) \<Longrightarrow> utf8_chars (utf8_string cs) = cs"
  by (induction cs) (simp_all add: utf8_string_def utf8_char_decode)

lemma utf8_bounds:
  "(a :: nat) mod 32 * 64 + b mod 64 < 0x110000" "a mod 16 * 4096 + b mod 64 * 64 + c mod 64 < 0x110000"
  "a \<le> 243 \<Longrightarrow> 240 \<le> a \<Longrightarrow> a mod 8 * 262144 + b mod 64 * 4096 + c mod 64 * 64 + d mod 64 < 0x110000"
  "128 \<le> b \<Longrightarrow> b \<le> 143 \<Longrightarrow> 4 * 262144 + b mod 64 * 4096 + c mod 64 * 64 + d mod 64 < 0x110000"
proof -
  have m: "n mod 64 < 64" "n mod 32 < 32" "n mod 16 < 16" for n :: nat by simp_all
  show "a mod 32 * 64 + b mod 64 < 0x110000" using m(2) [of a] m(1) [of b] by linarith
  show "a mod 16 * 4096 + b mod 64 * 64 + c mod 64 < 0x110000"
    using m(3) [of a] m(1) [of b] m(1) [of c] by linarith
  assume "a \<le> 243" "240 \<le> a"
  then have "a mod 8 \<le> 3" using mod_mult_self3 [of 30 8 "a - 240"] by simp
  then show "a mod 8 * 262144 + b mod 64 * 4096 + c mod 64 * 64 + d mod 64 < 0x110000"
    using m(1) [of b] m(1) [of c] m(1) [of d] by linarith
next
  have m: "n mod 64 < 64" for n :: nat by simp
  assume "128 \<le> b" "b \<le> 143"
  then have "b mod 64 \<le> 15" using mod_mult_self3 [of 2 64 "b - 128"] by simp
  then show "4 * 262144 + b mod 64 * 4096 + c mod 64 * 64 + d mod 64 < 0x110000"
    using m [of c] m [of d] by linarith
qed

lemma valid_utf8_bound: "valid_utf8 s \<Longrightarrow> \<forall>c \<in> set (utf8_chars s). c < 0x110000"
proof (induction s rule: valid_utf8.induct)
  case (2 a r)
  let ?a = "of_char a :: nat"
  consider "?a \<le> 0x7F" | "0xC2 \<le> ?a" "?a \<le> 0xDF" | "0xE0 \<le> ?a" "?a \<le> 0xEF" | "0xF0 \<le> ?a" "?a \<le> 0xF4"
    using 2(5) by (auto simp: byte_in_def split: if_splits)
  then show ?case
  proof cases
    case 1
    then show ?thesis using 2(1,5) by (simp add: byte_in_def)
  next
    case 2
    with \<open>valid_utf8 (a # r)\<close> obtain b r' where r: "r = b # r'" "valid_utf8 r'"
      by (auto simp: byte_in_def split: list.splits)
    then show ?thesis using "2.IH"(2) 2 utf8_bounds(1) [of ?a "of_char b"] by (simp add: byte_in_def)
  next
    case 3
    with \<open>valid_utf8 (a # r)\<close> obtain b c r' where r: "r = b # c # r'" "valid_utf8 r'"
      by (auto simp: byte_in_def split: list.splits)
    then show ?thesis using "2.IH"(3) 3 utf8_bounds(2) [of ?a "of_char b" "of_char c"] by (simp add: byte_in_def)
  next
    case 4
    with \<open>valid_utf8 (a # r)\<close> obtain b c d r' where r: "r = b # c # d # r'" "valid_utf8 r'"
      and b: "?a = 0xF4 \<Longrightarrow> 128 \<le> (of_char b :: nat) \<and> (of_char b :: nat) \<le> 143"
      by (auto simp: byte_in_def split: list.splits if_splits)
    have "?a mod 8 * 262144 + of_char b mod 64 * 4096 + of_char c mod 64 * 64 + of_char d mod 64 < 0x110000"
      using 4 b utf8_bounds(3) [of ?a "of_char b" "of_char c" "of_char d"]
        utf8_bounds(4) [of "of_char b" "of_char c" "of_char d"] by (cases "?a = 0xF4") simp_all
    then show ?thesis using r "2.IH"(4) 4 by (simp add: byte_in_def)
  qed
qed simp

section \<open>Normalising operator text\<close>

text \<open>\<open>char::is_control\<close> (category Cc) and \<open>char::is_whitespace\<close> (property White_Space).\<close>

definition is_control :: "nat \<Rightarrow> bool" where
  "is_control c \<longleftrightarrow> c < 0x20 \<or> 0x7F \<le> c \<and> c \<le> 0x9F"

definition is_whitespace :: "nat \<Rightarrow> bool" where
  "is_whitespace c \<longleftrightarrow> 0x09 \<le> c \<and> c \<le> 0x0D \<or> 0x2000 \<le> c \<and> c \<le> 0x200A
     \<or> c \<in> {0x20, 0x85, 0xA0, 0x1680, 0x2028, 0x2029, 0x202F, 0x205F, 0x3000}"

text \<open>\<open>str::trim\<close> on the characters of a string.\<close>

definition trim_chars :: "nat list \<Rightarrow> nat list" where
  "trim_chars cs = rev (dropWhile is_whitespace (rev (dropWhile is_whitespace cs)))"

definition is_invisible_format_char :: "nat \<Rightarrow> bool" where
  "is_invisible_format_char c \<longleftrightarrow> c \<in> {0x00AD, 0x034F, 0x061C, 0x180E, 0xFEFF}
     \<or> 0x200B \<le> c \<and> c \<le> 0x200F \<or> 0x202A \<le> c \<and> c \<le> 0x202E \<or> 0x2060 \<le> c \<and> c \<le> 0x206F"

fun normalize_loop :: "nat \<Rightarrow> nat list \<Rightarrow> bool \<Rightarrow> nat \<Rightarrow> nat list \<Rightarrow> nat list" where
  "normalize_loop max_chars normalized pending_space count [] = normalized"
| "normalize_loop max_chars normalized pending_space count (ch # rest) =
     (if is_invisible_format_char ch then normalize_loop max_chars normalized pending_space count rest
      else if is_control ch \<or> is_whitespace ch
      then normalize_loop max_chars normalized (normalized \<noteq> []) count rest
      else if pending_space \<and> max_chars \<le> count then normalized
      else let (normalized, count) = (if pending_space then (normalized @ [0x20], count + 1) else (normalized, count))
        in if max_chars \<le> count then normalized
           else normalize_loop max_chars (normalized @ [ch]) False (count + 1) rest)"

definition normalize_operator_text :: "string \<Rightarrow> nat \<Rightarrow> string" where
  "normalize_operator_text value max_chars =
     utf8_string (normalize_loop max_chars [] False 0 (utf8_chars value))"

definition clean_label :: "string option \<Rightarrow> string \<Rightarrow> nat \<Rightarrow> string" where
  "clean_label value fallback max_chars =
     (case Option.bind value (\<lambda>v. let n = normalize_operator_text v max_chars in if n = [] then None else Some n) of
        Some cleaned \<Rightarrow> cleaned
      | None \<Rightarrow> normalize_operator_text fallback max_chars)"

text \<open>A visible character takes part in the result as it is; the rest becomes single spaces.\<close>

definition visible :: "nat \<Rightarrow> bool" where
  "visible c \<longleftrightarrow> \<not> is_invisible_format_char c \<and> \<not> is_control c \<and> \<not> is_whitespace c"

definition tidy :: "nat list \<Rightarrow> bool" where
  "tidy cs \<longleftrightarrow> (\<forall>c \<in> set cs. c = 0x20 \<or> visible c) \<and> (cs \<noteq> [] \<longrightarrow> hd cs \<noteq> 0x20)
     \<and> (\<forall>i. Suc i < length cs \<longrightarrow> cs ! i = 0x20 \<longrightarrow> cs ! Suc i \<noteq> 0x20)"

lemma space_not_visible [simp]: "\<not> visible 32"
  by (simp add: visible_def is_whitespace_def)

lemma tidy_Nil [simp]: "tidy []"
  by (simp add: tidy_def)

lemma tidy_snoc:
  "tidy cs \<Longrightarrow> visible c \<Longrightarrow> tidy (cs @ [c])"
  "tidy cs \<Longrightarrow> cs \<noteq> [] \<Longrightarrow> last cs \<noteq> 32 \<Longrightarrow> tidy (cs @ [32])"
proof -
  assume t: "tidy cs" and c: "visible c"
  then show "tidy (cs @ [c])" by (auto simp: tidy_def nth_append hd_append split: if_splits)
next
  assume t: "tidy cs" and ne: "cs \<noteq> []" "last cs \<noteq> 32"
  have "cs ! i \<noteq> 32" if "Suc i = length cs" for i
    using ne that by (cases cs rule: rev_cases) simp_all
  then show "tidy (cs @ [32])" using t ne by (auto simp: tidy_def nth_append less_Suc_eq split: if_splits)
qed

lemma normalize_loop_tidy:
  assumes "tidy out" "count = length out" "count \<le> n" "out \<noteq> [] \<Longrightarrow> last out \<noteq> 32" "pending \<Longrightarrow> out \<noteq> []"
  shows "tidy (normalize_loop n out pending count cs) \<and> length (normalize_loop n out pending count cs) \<le> n"
  using assms
proof (induction n out pending count cs rule: normalize_loop.induct)
  case (2 n out pending count ch rest)
  have ch: "ch \<noteq> 32" if "\<not> is_whitespace ch" using that by (auto simp: is_whitespace_def)
  have vis: "visible ch" if "\<not> is_invisible_format_char ch" "\<not> (is_control ch \<or> is_whitespace ch)"
    using that by (simp add: visible_def)
  show ?case using 2 ch vis tidy_snoc(1) [of out ch] tidy_snoc(2) [of out] tidy_snoc(1) [of "out @ [32]" ch]
    by (auto simp: Let_def)
qed simp

lemma normalize_loop_set: "set (normalize_loop n out pending count cs) \<subseteq> insert 32 (set out \<union> set cs)"
proof (induction n out pending count cs rule: normalize_loop.induct)
  case (2 n out pending count ch rest)
  show ?case
  proof (cases "is_invisible_format_char ch \<or> is_control ch \<or> is_whitespace ch")
    case True
    then show ?thesis using "2.IH"(1,2) by auto
  next
    case False
    then show ?thesis using "2.IH"(3) [OF _ _ _ refl]
      by (cases pending; cases "n \<le> count"; cases "n \<le> count + 1") auto
  qed
qed auto

lemma filter_visible_snoc:
  "filter visible (out @ [32]) = filter visible out" "visible c \<Longrightarrow> filter visible (out @ [c]) = filter visible out @ [c]"
  by simp_all

lemma normalize_loop_visible:
  "(\<exists>cut. filter visible out @ filter visible cs = filter visible (normalize_loop n out pending count cs) @ cut)
   \<and> (length (normalize_loop n out pending count cs) < n \<longrightarrow> count = length out \<longrightarrow>
        filter visible (normalize_loop n out pending count cs) = filter visible out @ filter visible cs)"
proof (induction n out pending count cs rule: normalize_loop.induct)
  case (2 n out pending count ch rest)
  consider "is_invisible_format_char ch" | "\<not> is_invisible_format_char ch" "is_control ch \<or> is_whitespace ch"
    | "visible ch" by (auto simp: visible_def)
  then show ?case
  proof cases
    case 3
    then have vis: "\<not> is_invisible_format_char ch" "\<not> (is_control ch \<or> is_whitespace ch)"
      by (simp_all add: visible_def)
    show ?thesis
    proof (cases pending)
      case True
      show ?thesis using "2.IH"(3) [OF vis _ refl] vis 3 True
        by (cases "n \<le> count"; cases "n \<le> count + 1") simp_all
    next
      case False
      show ?thesis using "2.IH"(3) [OF vis _ refl] vis 3 False by (cases "n \<le> count") auto
    qed
  next
    case 1
    then have "\<not> visible ch" by (simp add: visible_def)
    then show ?thesis using "2.IH"(1) 1 by auto
  next
    case 2
    then have "\<not> visible ch" by (auto simp: visible_def)
    then show ?thesis using "2.IH"(2) 2 by auto
  qed
qed simp

lemmas normalize_eval = normalize_operator_text_def byte_in_def is_control_def is_whitespace_def
  is_invisible_format_char_def utf8_string_def utf8_char_def char_of_def bit_0

text \<open>Operator text is cleaned: for every well-formed input the result has at most the requested number
  of characters, contains no control, format or white-space character except single inner spaces, does not
  begin with a space, and its visible characters are an initial part of the visible characters of the
  input; all of them when the result is shorter than the limit.\<close>

theorem operator_text_normalized:
  assumes "valid_utf8 value"
  shows "tidy (utf8_chars (normalize_operator_text value n))
    \<and> length (utf8_chars (normalize_operator_text value n)) \<le> n
    \<and> (\<exists>cut. filter visible (utf8_chars value) = filter visible (utf8_chars (normalize_operator_text value n)) @ cut)
    \<and> (length (utf8_chars (normalize_operator_text value n)) < n \<longrightarrow>
         filter visible (utf8_chars (normalize_operator_text value n)) = filter visible (utf8_chars value))"
proof -
  let ?out = "normalize_loop n [] False 0 (utf8_chars value)"
  have "set ?out \<subseteq> insert 32 (set (utf8_chars value))" using normalize_loop_set [of n "[]"] by simp
  then have "utf8_chars (normalize_operator_text value n) = ?out"
    unfolding normalize_operator_text_def using valid_utf8_bound [OF assms] by (intro utf8_roundtrip) auto
  then show ?thesis
    using normalize_loop_tidy [of "[]" 0 n False "utf8_chars value"]
      normalize_loop_visible [where n = n and out = "[]" and pending = False and count = 0 and cs = "utf8_chars value"] by simp
qed

theorem operator_text_normalized_witness:
  "valid_utf8 '' heat  up '' \<and> normalize_operator_text '' heat  up '' 240 = ''heat up''
   \<and> tidy (utf8_chars (normalize_operator_text '' heat  up '' 240))"
proof -
  have v: "valid_utf8 '' heat  up ''" by (simp add: byte_in_def)
  have "normalize_operator_text '' heat  up '' 240 = ''heat up''" by (simp add: normalize_eval)
  then show ?thesis using v operator_text_normalized [OF v, of 240] by blast
qed

text \<open>The limit is checked after the separating space has been written: a text cut at a word boundary keeps
  a trailing space, and normalising it again shortens it.\<close>

lemma normalize_not_idempotent:
  "normalize_operator_text ''ab cd'' 3 = ''ab ''" "normalize_operator_text ''ab '' 3 = ''ab''"
  by (simp_all add: normalize_eval)

end
