(* ===== verification/Process_Api.thy ===== *)
theory Process_Api
  imports Safety_Api Operator_Text "HOL-Library.Sublist"
begin

text \<open>
  Starting and stopping a process (\<open>api.rs\<close>): the targets of a stored process, the start sequence
  (check, create the batch, write to the device, audit, mark, commit), its rollback, and the stop sequence.
  A start touches the device before it commits, so every later failure has to be compensated: the central
  fact is that a start that wrote to the device and does not succeed ends with a latched control fault and
  automatic control off.
\<close>

section \<open>Targets of a stored process\<close>

definition validate_persisted_process_step :: "safety_config \<Rightarrow> process_step \<Rightarrow> app_error + unit" where
  "validate_persisted_process_step safety step =
     (let field = (\<lambda>name. ''process step '' @ show_int (step_id step) @ '' '' @ name) in
      run_checks
       [map_err (with_message_prefix (field ''target_temperature_c''))
          (validate_target_temperature safety (step_target_temperature_c step)),
        api_validate_range (field ''ramp_rate_c_min'') (step_ramp_rate_c_min step) (lit (- 20)) (lit 20),
        api_validate_range (field ''duration_minutes'') (step_duration_minutes step) (lit 1)
          (f64_max (ob_max_stirring_minutes (optimizer safety)) (ob_max_heating_minutes (optimizer safety))),
        map_err (with_message_prefix (field ''target_stirrer_rpm''))
          (validate_stir_speed safety (step_target_stirrer_rpm step)),
        api_validate_range (field ''target_shake_speed_cpm'') (step_target_shake_speed_cpm step) (lit 0) (lit 60),
        api_validate_range (field ''target_pressure_mpa'') (step_target_pressure_mpa step) (lit 0) (lit 10),
        map_err (with_message_prefix (field ''target pair''))
          (validate_target_pair_allowed safety (step_target_temperature_c step) (step_target_stirrer_rpm step))])"

definition process_step_duration_seconds :: "process_step \<Rightarrow> string \<Rightarrow> f64 \<Rightarrow> app_error + f64" where
  "process_step_duration_seconds step role max_minutes =
     bind_res (api_validate_range (''process step '' @ show_int (step_id step) @ '' '' @ role @ ''_duration_minutes'')
         (step_duration_minutes step) (lit 1) max_minutes)
       (\<lambda>_. Ok (f64_mul (step_duration_minutes step) (lit 60)))"

definition targets_from_process_steps :: "safety_config \<Rightarrow> process_step list \<Rightarrow> app_error + control_targets" where
  "targets_from_process_steps safety steps =
     bind_res (run_checks (map (validate_persisted_process_step safety) steps)) (\<lambda>_.
     case steps of
       [] \<Rightarrow> Err (bad_request ''process must contain at least one step'')
     | first # rest \<Rightarrow>
         (let hold = (case rest of second # _ \<Rightarrow> second | [] \<Rightarrow> first);
              final = last steps
          in bind_res (process_step_duration_seconds first ''heating'' (ob_max_heating_minutes (optimizer safety)))
            (\<lambda>heat.
          bind_res (process_step_duration_seconds hold ''stirring'' (ob_max_stirring_minutes (optimizer safety)))
            (\<lambda>hold_time.
          bind_res (if 2 < length steps then process_step_duration_seconds final ''cooling'' (lit 60) else Ok (lit 180))
            (\<lambda>cool.
          let tg = \<lparr>t_temperature_c = round2 (step_target_temperature_c first), t_heat_time_s = round2 heat,
                t_hold_time_s = round2 hold_time, t_cool_time_s = round2 cool,
                t_stirrer_rpm = round2 (step_target_stirrer_rpm hold),
                t_shake_speed_cpm = round2 (step_target_shake_speed_cpm hold),
                t_target_pressure_mpa = round2 (step_target_pressure_mpa hold)\<rparr>
          in bind_res (ensure_targets_allowed safety tg) (\<lambda>_. Ok tg))))))"

definition seconds_to_minutes :: "f64 option \<Rightarrow> f64" where
  "seconds_to_minutes seconds = round2 (f64_div (unwrap_or seconds (lit 3600)) (lit 60))"

section \<open>Device commands\<close>

text \<open>The first block holds a read lock across the database query.\<close>

definition start_process_on_device :: "control_targets \<Rightarrow> int option \<Rightarrow> unit handler" where
  "start_process_on_device tg pending =
     hbind (with_lock (\<lambda>env now unf rt.
         (run_checks
            [if active_batch_id rt \<noteq> None then Err (conflict ''device is busy running an active process batch'') else Ok (),
             ensure_no_unclosed_db_batch_except unf rt pending,
             ensure_target_update_interlock_clear (a_safety env) now rt ProcessStart], rt))) (\<lambda>_.
     hbind (device_write (safe_command_from_runtime_targets tg ''process start target write accepted by safety gate''))
       (\<lambda>written. case written of
          Inr _ \<Rightarrow> hreturn ()
        | Inl err \<Rightarrow>
            hbind (latch_control_write_fault err) (\<lambda>_.
            hfail (service_unavailable (''device process start command failed: '' @ err_display err)))))"

definition stop_process_on_device :: "control_targets \<Rightarrow> unit handler" where
  "stop_process_on_device tg =
     hbind (device_write (safe_command_from_runtime_targets tg ''process stop target write'')) (\<lambda>written.
     case written of
       Inr _ \<Rightarrow> hreturn ()
     | Inl err \<Rightarrow>
         hbind (latch_control_write_fault err) (\<lambda>_.
         hfail (service_unavailable (''device process stop command failed: '' @ err_display err))))"

definition latch_tail_failure_after_device_action :: "string \<Rightarrow> string \<Rightarrow> unit handler" where
  "latch_tail_failure_after_device_action action err =
     with_lock (\<lambda>env now unf rt.
       (Ok (), fst (latch_control_fault (action @ '' failed after device action: '' @ err) rt)))"

section \<open>Rollback and commit\<close>

definition rollback_failed_activation :: "int \<Rightarrow> control_targets option \<Rightarrow> string option handler" where
  "rollback_failed_activation batch activation =
     hbind safety_of (\<lambda>safety.
     hbind (hpanic (process_stop_targets safety)) (\<lambda>stopped.
     hbind (case activation of
         None \<Rightarrow> hreturn None
       | Some tg \<Rightarrow>
           hbind (hattempt (stop_process_on_device stopped)) (\<lambda>r. case r of
               Inr _ \<Rightarrow> hreturn None
             | Inl err \<Rightarrow>
                 with_lock (\<lambda>env now unf rt.
                   (Ok (Some (err_message err)),
                    fst (latch_control_fault
                      (''activation rollback stop command failed after device start; field may still be running: '' @ err_message err)
                      (rt\<lparr>active_batch_id := Some batch, auto_enabled := False, targets := tg\<rparr>)))))) (\<lambda>failed.
     case failed of
       Some msg \<Rightarrow> hreturn (Some msg)
     | None \<Rightarrow>
         hbind (with_lock (\<lambda>env now unf rt.
           let rt1 = (if active_batch_id rt = Some batch then rt\<lparr>active_batch_id := None, auto_enabled := False\<rparr> else rt)
           in (Ok (), rt1\<lparr>targets := stopped\<rparr>))) (\<lambda>_.
         hbind (db_exec (FinishBatch batch) a_finish_batch) (\<lambda>_.
         hreturn None)))))"

definition tail_error_with_activation_rollback :: "string \<Rightarrow> string option \<Rightarrow> string" where
  "tail_error_with_activation_rollback err rollback = (case rollback of
       Some stop_error \<Rightarrow> err @ ''; activation rollback stop command also failed, field may still be running: '' @ stop_error
     | None \<Rightarrow> err)"

definition audit_start_failed_before_activation ::
    "int option \<Rightarrow> control_targets \<Rightarrow> string \<Rightarrow> app_error \<Rightarrow> audit_actor \<Rightarrow> unit handler" where
  "audit_start_failed_before_activation batch tg start_kind err actor =
     (let reason = start_kind @ '' start failed before activation: '' @ err_message err in
      hbind (insert_event actor batch ''process_start_failed'' (Some (safe_command_from_runtime_targets tg reason)) reason)
        (\<lambda>_. hreturn ()))"

definition commit_process_activation_after_final_interlock ::
    "int \<Rightarrow> control_targets \<Rightarrow> bool \<Rightarrow> safety_latch_generations option \<Rightarrow> unit handler" where
  "commit_process_activation_after_final_interlock batch tg enable acknowledged =
     hbind (db_call (\<lambda>env t. a_unfinished env t)) (\<lambda>queried.
     hbind (hany queried) (\<lambda>unfinished.
     with_lock (\<lambda>env now unf rt.
       lock_checks [ensure_target_update_interlock_clear (a_safety env) now rt ProcessStart] rt
       (case ensure_safety_latches_unchanged_for_commit rt acknowledged ''process activation'' of
          (Inl e, rt1) \<Rightarrow> (Err e, rt1)
        | (Inr _, rt1) \<Rightarrow>
          (case active_batch_id rt1 of
             Some active \<Rightarrow> (Err (conflict (''device is busy running active batch '' @ show_int active
               @ ''; process start cannot commit activation'')), rt1)
           | None \<Rightarrow>
             let activation = rt1\<lparr>active_batch_id := Some batch\<rparr> in
             lock_checks [ensure_persisted_batch_status_consistent
                 (unfinished_batch_status_from_batches unfinished activation) activation ProcessStart] rt1
             (Ok (), rt1\<lparr>targets := tg, active_batch_id := Some batch, auto_enabled := enable\<rparr>))))))"

section \<open>The start sequence\<close>

definition process_detail_or_bad_request :: "process_detail option handler" where
  "process_detail_or_bad_request =
     hbind (db_call (\<lambda>env t. a_process_detail env t)) (\<lambda>queried. case queried of
       Inr detail \<Rightarrow> hreturn detail
     | Inl err \<Rightarrow>
         if sublist ''invalid process step in database'' (err_alternate err)
         then hfail (bad_request (err_alternate err)) else hfail internal_error)"

definition start_reason :: "string \<Rightarrow> string" where
  "start_reason event_type =
     (if event_type = ''process_applied'' then ''process applied from persisted process definition''
      else if event_type = ''ainas_process_started'' then ''process started by AINAS remote task''
      else ''process started from persisted process definition'')"

definition activation_failed :: "int \<Rightarrow> control_targets \<Rightarrow> string \<Rightarrow> string \<Rightarrow> app_error \<Rightarrow> 'a handler" where
  "activation_failed batch tg action err response =
     hbind (rollback_failed_activation batch (Some tg)) (\<lambda>rollback.
     hbind (latch_tail_failure_after_device_action action (tail_error_with_activation_rollback err rollback)) (\<lambda>_.
     hfail response))"

definition activate_process ::
    "int \<Rightarrow> string \<Rightarrow> audit_actor \<Rightarrow> control_targets \<Rightarrow> batch \<Rightarrow> safety_latch_generations \<Rightarrow> unit handler" where
  "activate_process pid event_type actor tg b acknowledged =
     hbind (insert_event actor (Some (batch_id b)) event_type
         (Some (safe_command_from_runtime_targets tg (start_reason event_type))) (start_reason event_type)) (\<lambda>audited.
     case audited of
       Inl err \<Rightarrow> activation_failed (batch_id b) tg ''process start audit'' (err_alternate err) internal_error
     | Inr _ \<Rightarrow>
     hbind (db_exec (MarkProcessApplied pid) a_mark_applied) (\<lambda>marked.
     case marked of
       Inl err \<Rightarrow> activation_failed (batch_id b) tg ''process start state commit'' (err_alternate err) internal_error
     | Inr found \<Rightarrow>
     if \<not> found
     then activation_failed (batch_id b) tg ''process start state commit'' ''process not found after device start''
            (not_found ''process not found'')
     else
     hbind (hattempt (commit_process_activation_after_final_interlock (batch_id b) tg True (Some acknowledged)))
       (\<lambda>committed. case committed of
          Inl err \<Rightarrow> activation_failed (batch_id b) tg ''process start final interlock'' (err_message err) err
        | Inr _ \<Rightarrow> hreturn ())))"

text \<open>From the device write on, with the batch created.\<close>

definition start_with_batch ::
    "int \<Rightarrow> string \<Rightarrow> audit_actor \<Rightarrow> control_targets \<Rightarrow> batch \<Rightarrow> safety_latch_generations
     \<Rightarrow> (batch \<times> control_targets) handler" where
  "start_with_batch pid event_type actor tg b acknowledged =
     hbind (hattempt (start_process_on_device tg (Some (batch_id b)))) (\<lambda>started.
     case started of
       Inl err \<Rightarrow>
         hbind (audit_start_failed_before_activation (Some (batch_id b)) tg ''process'' err actor) (\<lambda>_.
         hbind (db_exec (FinishBatch (batch_id b)) a_finish_batch) (\<lambda>_.
         hfail err))
     | Inr _ \<Rightarrow>
         hbind (activate_process pid event_type actor tg b acknowledged) (\<lambda>_.
         hreturn (b, tg)))"

definition start_process_lifecycle ::
    "int \<Rightarrow> string \<Rightarrow> string option \<Rightarrow> audit_actor \<Rightarrow> (batch \<times> control_targets) handler" where
  "start_process_lifecycle pid event_type name_override actor =
     hbind process_detail_or_bad_request (\<lambda>found.
     case found of None \<Rightarrow> hfail (not_found ''process not found'') | Some detail \<Rightarrow>
     if process_steps detail = []
     then hfail (bad_request ''process must contain at least one step before starting'')
     else
     hbind safety_of (\<lambda>safety.
     hbind (hresult (targets_from_process_steps safety (process_steps detail))) (\<lambda>tg.
     hbind disarm (\<lambda>rt.
     hbind (check_snapshot (\<lambda>safety now unf. ensure_process_can_start safety now unf rt)) (\<lambda>_.
     hbind (db_exec (CreateBatch (Some pid) (unwrap_or name_override (process_name detail)) (t_temperature_c tg)
         (t_stirrer_rpm tg) (seconds_to_minutes (Some (t_heat_time_s tg))) (seconds_to_minutes (Some (t_hold_time_s tg))))
         a_create_batch) (\<lambda>created.
     hbind (hany created) (\<lambda>b.
     start_with_batch pid event_type actor tg b (latches_from_runtime rt))))))))"

section \<open>The stop sequence\<close>

definition stop_process_reason :: "string \<Rightarrow> string" where
  "stop_process_reason event_type =
     (if event_type = ''ai_process_stopped'' then ''process stopped by AI master control after safety evaluation''
      else if event_type = ''ainas_process_stopped'' then ''process stopped by AINAS remote task''
      else ''process stopped by operator'')"

record process_stop_response =
  stopped_batch_id :: int
  stop_process_id :: "int option"
  stop_batch :: "batch option"
  stop_recovery :: "string option"
  stop_active_batch_id :: "int option"
  stop_auto_enabled :: bool
  stopped_targets :: control_targets

text \<open>The clean-up shared by the two successful ends.\<close>

definition clear_stopped_batch :: "int \<Rightarrow> control_targets \<Rightarrow> unit handler" where
  "clear_stopped_batch b stopped = with_lock (\<lambda>env now unf rt.
     let rt1 = (if active_batch_id rt = Some b then rt\<lparr>active_batch_id := None\<rparr> else rt)
     in (Ok (), rt1\<lparr>auto_enabled := False, targets := stopped\<rparr>))"

text \<open>Closing the batch record: a finished one is kept, an open one is finished and read again.\<close>

definition close_batch_record :: "int \<Rightarrow> batch \<Rightarrow> batch handler" where
  "close_batch_record b record =
     (if finished_at record \<noteq> None then hreturn record
      else
        hbind (db_exec (FinishBatch b) a_finish_batch) (\<lambda>finished. case finished of
          Inl err \<Rightarrow>
            hbind (latch_tail_failure_after_device_action ''process stop batch finish'' (err_alternate err)) (\<lambda>_.
            hfail internal_error)
        | Inr _ \<Rightarrow>
        hbind (db_call (\<lambda>env t. a_batch_by_id env t)) (\<lambda>reloaded. case reloaded of
          Inl err \<Rightarrow>
            hbind (latch_tail_failure_after_device_action ''process stop batch reload'' (err_alternate err)) (\<lambda>_.
            hfail internal_error)
        | Inr None \<Rightarrow>
            hbind (latch_tail_failure_after_device_action ''process stop batch reload''
                     ''stopped batch not found after device stop'') (\<lambda>_.
            hfail (not_found ''stopped batch not found''))
        | Inr (Some record) \<Rightarrow> hreturn record)))"

text \<open>The end of a stop: the audit row and the clean-up.\<close>

definition finish_stop ::
    "audit_actor \<Rightarrow> int option \<Rightarrow> string \<Rightarrow> string \<Rightarrow> string \<Rightarrow> int \<Rightarrow> control_targets \<Rightarrow> 'a \<Rightarrow> 'a handler" where
  "finish_stop actor ref ty reason action b stopped resp =
     hbind (insert_event actor ref ty (Some (safe_command_from_runtime_targets stopped reason)) reason) (\<lambda>audited.
     case audited of
       Inl err \<Rightarrow> hbind (latch_tail_failure_after_device_action action (err_alternate err)) (\<lambda>_. hfail internal_error)
     | Inr _ \<Rightarrow> hbind (clear_stopped_batch b stopped) (\<lambda>_. hreturn resp))"

text \<open>The re-check of the active batch after the stop command, under the lock.\<close>

definition confirm_stopped :: "int \<Rightarrow> control_targets \<Rightarrow> unit handler" where
  "confirm_stopped b stopped = with_lock (\<lambda>env now unf rt.
     if active_batch_id rt \<noteq> Some b
     then (Err (conflict ''active batch changed during process stop; verify field state before retrying''),
           fst (latch_control_fault (''process stop active batch changed after stop command; expected ''
             @ show_int b @ '', found '' @ debug_opt_id (active_batch_id rt)
             @ ''; production record was not closed'') (rt\<lparr>auto_enabled := False, targets := stopped\<rparr>)))
     else (Ok (), rt\<lparr>auto_enabled := False, targets := stopped\<rparr>))"

definition close_stopped_process ::
    "string \<Rightarrow> string \<Rightarrow> audit_actor \<Rightarrow> int \<Rightarrow> control_targets \<Rightarrow> batch option \<Rightarrow> process_stop_response handler" where
  "close_stopped_process event_type stop_reason actor b stopped record = (case record of
       None \<Rightarrow>
         let recovery = ''active runtime batch '' @ show_int b
               @ '' record was missing; risk-reducing stop target was still written and runtime active state was cleared''
         in finish_stop actor None ''process_stop_recovery_missing_batch'' recovery
              ''process stop missing batch recovery audit'' b stopped
              \<lparr>stopped_batch_id = b, stop_process_id = None, stop_batch = None,
               stop_recovery = Some recovery, stop_active_batch_id = None, stop_auto_enabled = False,
               stopped_targets = stopped\<rparr>
     | Some record \<Rightarrow>
         hbind (close_batch_record b record) (\<lambda>closed.
         finish_stop actor (Some b) event_type stop_reason ''process stop audit'' b stopped
           \<lparr>stopped_batch_id = b, stop_process_id = process_id closed, stop_batch = Some closed,
            stop_recovery = None, stop_active_batch_id = None, stop_auto_enabled = False,
            stopped_targets = stopped\<rparr>))"

definition expected_process_check :: "int option \<Rightarrow> batch option \<Rightarrow> app_error + unit" where
  "expected_process_check expected_pid record = (case (expected_pid, record) of
       (Some pid, None) \<Rightarrow> Err (not_found ''active batch not found'')
     | (Some pid, Some r) \<Rightarrow>
         if process_id r \<noteq> Some pid
         then Err (conflict (''active batch belongs to process '' @ debug_opt_id (process_id r)
           @ '', not process '' @ show_int pid)) else Ok ()
     | (None, _) \<Rightarrow> Ok ())"

definition stop_process_lifecycle ::
    "int option \<Rightarrow> string \<Rightarrow> string option \<Rightarrow> audit_actor \<Rightarrow> process_stop_response handler" where
  "stop_process_lifecycle expected_pid event_type operator_reason actor =
     hbind (read_lock active_batch_id) (\<lambda>active.
     case active of None \<Rightarrow> hfail (conflict ''no active process batch to stop'') | Some b \<Rightarrow>
     hbind (db_call (\<lambda>env t. a_batch_by_id env t)) (\<lambda>queried.
     hbind (hany queried) (\<lambda>record.
     hbind (hresult (expected_process_check expected_pid record)) (\<lambda>_.
     hbind safety_of (\<lambda>safety.
     hbind (hpanic (process_stop_targets safety)) (\<lambda>stopped.
     hbind (stop_process_on_device stopped) (\<lambda>_.
     hbind (confirm_stopped b stopped) (\<lambda>_.
     close_stopped_process event_type (clean_label operator_reason (stop_process_reason event_type) 240) actor b
       stopped record))))))))"

section \<open>The endpoints\<close>

definition apply_process :: "session \<Rightarrow> int \<Rightarrow> (batch \<times> control_targets) handler" where
  "apply_process session pid =
     hbind (hresult (session StartStopProcess)) (\<lambda>user.
     start_process_lifecycle pid ''process_applied'' None (audit_actor_for_user user))"

definition start_process :: "session \<Rightarrow> int \<Rightarrow> string option \<Rightarrow> (batch \<times> control_targets) handler" where
  "start_process session pid name =
     hbind (hresult (session StartStopProcess)) (\<lambda>user.
     start_process_lifecycle pid ''process_started''
       (Option.bind name (\<lambda>n. if trim n = [] then None else Some (trim n))) (audit_actor_for_user user))"

definition stop_process_by_id :: "session \<Rightarrow> int \<Rightarrow> string option \<Rightarrow> process_stop_response handler" where
  "stop_process_by_id session pid reason =
     hbind (hresult (session StartStopProcess)) (\<lambda>user.
     stop_process_lifecycle (Some pid) ''process_stopped'' reason (audit_actor_for_user user))"

definition stop_current_process :: "session \<Rightarrow> string option \<Rightarrow> process_stop_response handler" where
  "stop_current_process session reason =
     hbind (hresult (session StartStopProcess)) (\<lambda>user.
     stop_process_lifecycle None ''process_stopped'' reason (audit_actor_for_user user))"

section \<open>Failing closed\<close>

text \<open>A state with automatic control off and a latched control fault; a handler whose every failure ends in
  such a state; a handler that does not fail; one that does not touch the device.\<close>

definition faulted :: "runtime_state \<Rightarrow> bool" where
  "faulted rt \<longleftrightarrow> \<not> auto_enabled rt \<and> last_control_error rt \<noteq> None"

definition fails_faulted :: "'a handler \<Rightarrow> bool" where
  "fails_faulted h \<longleftrightarrow> (\<forall>env s e s'. h env s = Some (Inl e, s') \<longrightarrow> faulted (h_rt s'))"

definition never_fails :: "'a handler \<Rightarrow> bool" where
  "never_fails h \<longleftrightarrow> (\<forall>env s e s'. h env s \<noteq> Some (Inl e, s'))"

definition no_writes :: "'a handler \<Rightarrow> bool" where
  "no_writes h \<longleftrightarrow> (\<forall>env s r s'. h env s = Some (r, s') \<longrightarrow> h_writes s' = h_writes s)"

named_theorems fault_intros \<open>composition of handlers that fail closed\<close>

lemma hbind_Err_iff:
  "hbind h k env s = Some (Inl e, s') \<longleftrightarrow>
     h env s = Some (Inl e, s') \<or> (\<exists>a s1. h env s = Some (Inr a, s1) \<and> k a env s1 = Some (Inl e, s'))"
  by (auto simp: hbind_def split: option.splits prod.splits sum.splits)

lemma hbind_Some_iff:
  "hbind h k env s = Some (r, s') \<longleftrightarrow>
     (\<exists>e. h env s = Some (Inl e, s') \<and> r = Inl e) \<or> (\<exists>a s1. h env s = Some (Inr a, s1) \<and> k a env s1 = Some (r, s'))"
  by (auto simp: hbind_def split: option.splits prod.splits sum.splits)

lemma never_fails_intros [fault_intros]:
  "never_fails (hreturn x)" "never_fails safety_of" "never_fails (hpanic y)" "never_fails (db_call f)"
  "never_fails (db_exec act g)" "never_fails (device_write c)" "never_fails (insert_event a b ty c' r)"
  "never_fails (hattempt h)" "never_fails (latch_control_write_fault e)"
  "never_fails (latch_tail_failure_after_device_action act' err)" "never_fails disarm" "never_fails (read_lock f')"
  "never_fails (clear_stopped_batch i tg)"
  by (auto simp: never_fails_def hreturn_def safety_of_def hpanic_def db_call_def db_exec_def device_write_def
      insert_event_def hattempt_def latch_control_write_fault_def latch_tail_failure_after_device_action_def
      with_lock_def disarm_def read_lock_def clear_stopped_batch_def Let_def split: sum.splits)

lemma never_fails_bind [fault_intros]:
  "never_fails h \<Longrightarrow> (\<And>a. never_fails (k a)) \<Longrightarrow> never_fails (hbind h k)"
  by (auto simp: never_fails_def hbind_Err_iff)

lemma never_fails_lock: "(\<And>env now unf rt. is_ok (fst (body env now unf rt))) \<Longrightarrow> never_fails (with_lock body)"
  by (auto simp: never_fails_def with_lock_Some is_ok_iff) (metis Inl_Inr_False fst_conv)

lemma never_fails_case [fault_intros]:
  "never_fails h \<Longrightarrow> (\<And>x. never_fails (k x)) \<Longrightarrow> never_fails (case y of None \<Rightarrow> h | Some x \<Rightarrow> k x)"
  "(\<And>e. never_fails (f e)) \<Longrightarrow> (\<And>x. never_fails (g x)) \<Longrightarrow> never_fails (case z of Inl e \<Rightarrow> f e | Inr x \<Rightarrow> g x)"
  by (auto split: option.splits sum.splits)

lemma fails_faulted_bind [fault_intros]:
  "fails_faulted h \<Longrightarrow> (\<And>a. fails_faulted (k a)) \<Longrightarrow> fails_faulted (hbind h k)"
  by (auto simp: fails_faulted_def hbind_Err_iff)

lemma never_fails_faulted: "never_fails h \<Longrightarrow> fails_faulted h"
  by (simp add: fails_faulted_def never_fails_def)

lemmas never_fails_steps [fault_intros] = never_fails_intros [THEN never_fails_faulted]

lemma fails_faulted_case [fault_intros]:
  "fails_faulted h \<Longrightarrow> (\<And>x. fails_faulted (k x)) \<Longrightarrow> fails_faulted (case y of None \<Rightarrow> h | Some x \<Rightarrow> k x)"
  "(\<And>e. fails_faulted (f e)) \<Longrightarrow> (\<And>x. fails_faulted (g x)) \<Longrightarrow> fails_faulted (case z of Inl e \<Rightarrow> f e | Inr x \<Rightarrow> g x)"
  "(c \<Longrightarrow> fails_faulted h) \<Longrightarrow> (\<not> c \<Longrightarrow> fails_faulted h') \<Longrightarrow> fails_faulted (if c then h else h')"
  by (auto split: option.splits sum.splits)

lemma fails_after_latch [fault_intros]:
  "fails_faulted (hbind (latch_tail_failure_after_device_action act err) (\<lambda>_. hfail e))"
  "fails_faulted (hbind (latch_control_write_fault er) (\<lambda>_. hfail e))"
  by (auto simp: fails_faulted_def hbind_Err_iff latch_tail_failure_after_device_action_def
      latch_control_write_fault_def with_lock_def hfail_def hresult_def faulted_def latch_simps Let_def)

lemma rollback_never_fails [fault_intros]: "never_fails (rollback_failed_activation b tg)"
  unfolding rollback_failed_activation_def
  by (intro fault_intros never_fails_lock) (simp_all add: Let_def)

lemma activation_failed_faulted [fault_intros]: "fails_faulted (activation_failed b tg act err e)"
  unfolding activation_failed_def
  by (intro fault_intros never_fails_faulted [OF rollback_never_fails])

lemma activate_process_faulted: "fails_faulted (activate_process pid ty actor tg b g)"
  unfolding activate_process_def by (intro fault_intros)

lemma stop_process_on_device_faulted [fault_intros]: "fails_faulted (stop_process_on_device tg)"
  unfolding stop_process_on_device_def by (intro fault_intros)

lemma close_batch_record_faulted [fault_intros]: "fails_faulted (close_batch_record b r)"
  unfolding close_batch_record_def by (intro fault_intros)

text \<open>A handler that, once it has written to the device, fails only into a faulted state; one that leaves
  both the runtime state and the device alone.\<close>

definition device_fails_closed :: "'a handler \<Rightarrow> bool" where
  "device_fails_closed h \<longleftrightarrow>
     (\<forall>env s e s'. h env s = Some (Inl e, s') \<longrightarrow> h_writes s' \<noteq> h_writes s \<longrightarrow> faulted (h_rt s'))"

definition quiet :: "'a handler \<Rightarrow> bool" where
  "quiet h \<longleftrightarrow> (\<forall>env s r s'. h env s = Some (r, s') \<longrightarrow> h_rt s' = h_rt s \<and> h_writes s' = h_writes s)"

lemma device_fails_closed_weaken:
  "fails_faulted h \<Longrightarrow> device_fails_closed h" "no_writes h' \<Longrightarrow> device_fails_closed h'"
  by (auto simp: fails_faulted_def device_fails_closed_def no_writes_def)

lemma device_fails_closed_bind:
  "no_writes h \<Longrightarrow> (\<And>a. device_fails_closed (k a)) \<Longrightarrow> device_fails_closed (hbind h k)"
  by (fastforce simp: device_fails_closed_def no_writes_def hbind_Err_iff)

lemma device_fails_closed_attempt:
  assumes "device_fails_closed h" "\<And>e. quiet (f e)" "\<And>x. fails_faulted (g x)"
  shows "device_fails_closed (hbind (hattempt h) (\<lambda>r. case r of Inl e \<Rightarrow> f e | Inr x \<Rightarrow> g x))"
  unfolding device_fails_closed_def
proof (intro allI impI)
  fix env s e s'
  assume run: "hbind (hattempt h) (\<lambda>r. case r of Inl e \<Rightarrow> f e | Inr x \<Rightarrow> g x) env s = Some (Err e, s')"
    and w: "h_writes s' \<noteq> h_writes s"
  then obtain r s1 where h: "h env s = Some (r, s1)" and k: "(case r of Inl e \<Rightarrow> f e | Inr x \<Rightarrow> g x) env s1 = Some (Err e, s')"
    by (auto simp: hbind_Err_iff hattempt_def)
  show "faulted (h_rt s')"
  proof (cases r)
    case (Inl e1)
    with k assms(2) have "h_rt s' = h_rt s1" "h_writes s' = h_writes s1" by (auto simp: quiet_def)
    with h Inl w assms(1) show ?thesis by (auto simp: device_fails_closed_def)
  next
    case (Inr x)
    with k assms(3) show ?thesis by (auto simp: fails_faulted_def)
  qed
qed

lemma quiet_intros:
  "quiet (hreturn x)" "quiet (hfail e)" "quiet (db_exec act g)" "quiet (insert_event a b ty c r)"
  by (auto simp: quiet_def hreturn_def hfail_def hresult_def db_exec_def insert_event_def Let_def split: sum.splits)

lemma quiet_bind: "quiet h \<Longrightarrow> (\<And>a. quiet (k a)) \<Longrightarrow> quiet (hbind h k)"
  by (fastforce simp: quiet_def hbind_Some_iff)

lemma no_writes_intros:
  "no_writes (hreturn x)" "no_writes (hfail e)" "no_writes (hresult r)" "no_writes safety_of" "no_writes (db_call f)"
  "no_writes (db_exec act g)" "no_writes disarm" "no_writes (check_snapshot p)" "no_writes (hany a)"
  "no_writes (with_lock body)"
  by (auto simp: no_writes_def hreturn_def hfail_def hresult_def safety_of_def db_call_def db_exec_def disarm_def
      check_snapshot_def hany_def with_lock_def Let_def split: prod.splits)

lemma no_writes_bind: "no_writes h \<Longrightarrow> (\<And>a. no_writes (k a)) \<Longrightarrow> no_writes (hbind h k)"
  by (fastforce simp: no_writes_def hbind_Some_iff)

lemma no_writes_detail: "no_writes process_detail_or_bad_request"
  unfolding process_detail_or_bad_request_def
  by (rule no_writes_bind) (auto intro: no_writes_intros split: sum.splits)

lemma start_on_device_fails_closed: "device_fails_closed (start_process_on_device tg p)"
  unfolding start_process_on_device_def
  by (rule device_fails_closed_bind [OF no_writes_intros(10)], rule device_fails_closed_weaken(1), intro fault_intros)

lemma device_fails_closed_case:
  "device_fails_closed h \<Longrightarrow> (\<And>x. device_fails_closed (k x)) \<Longrightarrow> device_fails_closed (case y of None \<Rightarrow> h | Some x \<Rightarrow> k x)"
  "(c \<Longrightarrow> device_fails_closed h) \<Longrightarrow> (\<not> c \<Longrightarrow> device_fails_closed h') \<Longrightarrow> device_fails_closed (if c then h else h')"
  by (auto split: option.splits)

lemma start_with_batch_fails_closed: "device_fails_closed (start_with_batch pid event_type actor tg b g)"
  unfolding start_with_batch_def
  by (rule device_fails_closed_attempt [OF start_on_device_fails_closed])
     (auto simp: audit_start_failed_before_activation_def Let_def
       intro!: quiet_bind quiet_intros fails_faulted_bind activate_process_faulted never_fails_steps)

lemma start_lifecycle_fails_closed: "device_fails_closed (start_process_lifecycle pid event_type name actor)"
  unfolding start_process_lifecycle_def
  apply (rule device_fails_closed_bind [OF no_writes_detail])
  apply (rule device_fails_closed_case)
   apply (rule device_fails_closed_weaken(2) [OF no_writes_intros(2)])
  apply (rule device_fails_closed_case)
   apply (rule device_fails_closed_weaken(2) [OF no_writes_intros(2)])
  apply (rule device_fails_closed_bind, rule no_writes_intros)+
  by (rule start_with_batch_fails_closed)

text \<open>C14: A process start that has written to the device and does not succeed fails closed: whatever the
  other tasks do, whichever step fails (the device, the audit row, marking the process, the final interlock,
  even the rollback's own stop command), it ends with automatic control off and a latched control fault.\<close>

theorem start_failure_fails_closed:
  assumes "start_process_lifecycle pid event_type name actor env s = Some (Err e, s')"
    and "h_writes s' \<noteq> h_writes s"
  shows "\<not> auto_enabled (h_rt s') \<and> last_control_error (h_rt s') \<noteq> None"
  using start_lifecycle_fails_closed assms unfolding device_fails_closed_def faulted_def by blast

section \<open>A successful start\<close>

lemma run_attempt [run_simps]: "hattempt h env s = Some (Inr r, s') \<longleftrightarrow> h env s = Some (r, s')"
  by (auto simp: hattempt_def)

lemma run_commit_activation:
  "commit_process_activation_after_final_interlock b tg en (Some (latches_from_runtime seen)) env s = Some (Ok (), s') \<longleftrightarrow>
     (\<exists>live. live = a_interfere env (h_tick s + 1) (h_rt s)
        \<and> field_clear (a_clock env (h_tick s + 1)) (a_safety env) live \<and> same_generations seen live
        \<and> active_batch_id live = None
        \<and> (\<exists>batches. a_unfinished env (h_tick s) = Ok batches \<and> batch_id ` set batches = {b})
        \<and> s' = s\<lparr>h_rt := live\<lparr>targets := tg, active_batch_id := Some b, auto_enabled := en\<rparr>, h_tick := h_tick s + 2\<rparr>)"
  by (simp add: commit_process_activation_after_final_interlock_def run_simps gate_iff eval_nat_numeral Let_def
      ensure_safety_latches_unchanged_for_commit_def ensure_persisted_batch_status_consistent_def
      split: option.splits cong: conj_cong)
     (auto simp: recovery_required_iff)

lemma activation_failed_not_ok: "activation_failed b tg act err e env s \<noteq> Some (Ok x, s')"
  by (simp add: activation_failed_def run_simps)

lemma run_activate:
  assumes "activate_process pid ty actor tg b g env s = Some (Ok (), s')"
  shows "\<exists>s1. commit_process_activation_after_final_interlock (batch_id b) tg True (Some g) env s1 = Some (Ok (), s')
     \<and> h_rt s1 = h_rt s \<and> h_tick s1 = h_tick s + 2 \<and> h_writes s1 = h_writes s"
  using assms
  by (auto simp: activate_process_def run_simps activation_failed_not_ok eval_nat_numeral split_sum_ex
      split: sum.splits if_splits)

lemma run_start_on_device:
  assumes "start_process_on_device tg p env s = Some (Ok (), s')"
  shows "h_rt s' = a_interfere env (h_tick s) (h_rt s) \<and> h_tick s' = h_tick s + 2
     \<and> field_clear (a_clock env (h_tick s)) (a_safety env) (h_rt s')
     \<and> a_write env (h_tick s + 1) = Ok ()
     \<and> h_writes s' = h_writes s @ [safe_command_from_runtime_targets tg ''process start target write accepted by safety gate'']"
  using assms
  by (auto simp: start_process_on_device_def run_simps bind_res_Ok_iff interlock_clear_iff split: sum.splits)

lemma run_start_with_batch:
  "start_with_batch pid event_type actor tg b g env s = Some (Ok y, s') \<longleftrightarrow>
     y = (b, tg) \<and> (\<exists>s1. start_process_on_device tg (Some (batch_id b)) env s = Some (Ok (), s1)
       \<and> activate_process pid event_type actor tg b g env s1 = Some (Ok (), s'))"
  by (auto simp: start_with_batch_def run_simps split_sum_ex)

lemma run_detail:
  "process_detail_or_bad_request env s = Some (Ok d, s') \<longleftrightarrow>
     a_process_detail env (h_tick s) = Ok d \<and> s' = s\<lparr>h_tick := h_tick s + 1\<rparr>"
  by (cases "a_process_detail env (h_tick s)") (auto simp: process_detail_or_bad_request_def run_simps)

lemma start_success_run:
  assumes "start_process_lifecycle pid event_type name actor env s = Some (Ok (b, tg), s')"
  shows "\<exists>detail seen s1 db. a_process_detail env (h_tick s) = Ok (Some detail)
     \<and> targets_from_process_steps (a_safety env) (process_steps detail) = Ok tg
     \<and> seen = (a_interfere env (h_tick s + 1) (h_rt s))\<lparr>auto_enabled := False\<rparr>
     \<and> a_create_batch env (h_tick s + 3) = Ok b
     \<and> s1 = s\<lparr>h_rt := seen, h_tick := h_tick s + 4, h_db := db\<rparr>
     \<and> (\<exists>s2. start_process_on_device tg (Some (batch_id b)) env s1 = Some (Ok (), s2)
        \<and> activate_process pid event_type actor tg b (latches_from_runtime seen) env s2 = Some (Ok (), s'))"
proof (cases "a_process_detail env (h_tick s)")
  case (Inr found)
  then obtain detail where "found = Some detail" "process_steps detail \<noteq> []"
    using assms unfolding start_process_lifecycle_def by (cases found) (auto simp: run_simps run_detail split: if_splits)
  with assms Inr show ?thesis unfolding start_process_lifecycle_def
    by (auto simp: run_simps run_detail run_start_with_batch eval_nat_numeral)
qed (use assms in \<open>auto simp: start_process_lifecycle_def run_simps run_detail\<close>)

lemma process_targets_allowed:
  "targets_from_process_steps safety steps = Ok tg \<Longrightarrow>
   find_forbidden_control_zone safety (t_temperature_c tg) (t_stirrer_rpm tg) = None"
  by (auto simp: targets_from_process_steps_def bind_res_Ok_iff Let_def targets_allowed_iff split: list.splits if_splits)

text \<open>C15: A successful process start is a safe one: the targets come from the stored steps and lie outside
  every forbidden zone; exactly one command, carrying them, was accepted by the device; at the commit the
  field was clear, no batch was active, the batch created for this start was the only unfinished one and no
  latch had moved since the first check; and the commit sets targets, active batch and automatic control
  together.\<close>

theorem start_success_committed:
  assumes "start_process_lifecycle pid event_type name actor env s = Some (Ok (b, tg), s')"
  shows "\<exists>detail live. a_process_detail env (h_tick s) = Ok (Some detail)
     \<and> targets_from_process_steps (a_safety env) (process_steps detail) = Ok tg
     \<and> find_forbidden_control_zone (a_safety env) (t_temperature_c tg) (t_stirrer_rpm tg) = None
     \<and> a_create_batch env (h_tick s + 3) = Ok b \<and> a_write env (h_tick s + 5) = Ok ()
     \<and> h_writes s' = h_writes s @ [safe_command_from_runtime_targets tg
          ''process start target write accepted by safety gate'']
     \<and> field_clear (a_clock env (h_tick s + 9)) (a_safety env) live \<and> active_batch_id live = None
     \<and> same_generations (a_interfere env (h_tick s + 1) (h_rt s)) live
     \<and> (\<exists>batches. a_unfinished env (h_tick s + 8) = Ok batches \<and> batch_id ` set batches = {batch_id b})
     \<and> h_rt s' = live\<lparr>targets := tg, active_batch_id := Some (batch_id b), auto_enabled := True\<rparr>"
proof -
  obtain detail seen s1 s2 db where d: "a_process_detail env (h_tick s) = Ok (Some detail)"
    "targets_from_process_steps (a_safety env) (process_steps detail) = Ok tg"
    and seen: "seen = (a_interfere env (h_tick s + 1) (h_rt s))\<lparr>auto_enabled := False\<rparr>"
    and c: "a_create_batch env (h_tick s + 3) = Ok b" and s1: "s1 = s\<lparr>h_rt := seen, h_tick := h_tick s + 4, h_db := db\<rparr>"
    and dev: "start_process_on_device tg (Some (batch_id b)) env s1 = Some (Ok (), s2)"
    and act: "activate_process pid event_type actor tg b (latches_from_runtime seen) env s2 = Some (Ok (), s')"
    using start_success_run [OF assms] by blast
  from run_start_on_device [OF dev] s1 have s2: "h_tick s2 = h_tick s + 6" "a_write env (h_tick s + 5) = Ok ()"
    "h_writes s2 = h_writes s @ [safe_command_from_runtime_targets tg ''process start target write accepted by safety gate'']"
    by (simp_all add: eval_nat_numeral)
  obtain s3 where s3: "commit_process_activation_after_final_interlock (batch_id b) tg True (Some (latches_from_runtime seen)) env s3
      = Some (Ok (), s')" "h_rt s3 = h_rt s2" "h_tick s3 = h_tick s + 8" "h_writes s3 = h_writes s2"
    using run_activate [OF act] s2(1) by auto
  have gen: "same_generations seen x = same_generations (a_interfere env (h_tick s + 1) (h_rt s)) x" for x
    by (simp add: seen same_generations_def latches_changed_iff)
  from s3(1) [unfolded run_commit_activation] s3(3,4) d c s2 process_targets_allowed [OF d(2)] show ?thesis
    by (auto simp: gen eval_nat_numeral)
qed

section \<open>Stopping\<close>

text \<open>The part of a stop after the device has taken the stop targets.\<close>

lemma close_batch_writes: "no_writes (close_batch_record b r)"
  unfolding close_batch_record_def
  by (auto intro!: no_writes_bind no_writes_intros split: sum.splits option.splits
      simp: latch_tail_failure_after_device_action_def)

lemma run_clear_stopped [run_simps]:
  "clear_stopped_batch b stopped env s = Some (Inr x, s') \<longleftrightarrow>
     (\<exists>live. live = a_interfere env (h_tick s) (h_rt s)
        \<and> s' = s\<lparr>h_rt := (if active_batch_id live = Some b then live\<lparr>active_batch_id := None\<rparr> else live)
             \<lparr>auto_enabled := False, targets := stopped\<rparr>, h_tick := h_tick s + 1\<rparr>)"
  by (auto simp: clear_stopped_batch_def with_lock_Some Let_def)

lemma run_stop_on_device:
  "stop_process_on_device tg env s = Some (Ok (), s') \<longleftrightarrow>
     a_write env (h_tick s) = Ok () \<and> s' = s\<lparr>h_tick := h_tick s + 1,
       h_writes := h_writes s @ [safe_command_from_runtime_targets tg ''process stop target write'']\<rparr>"
  by (cases "a_write env (h_tick s)") (auto simp: stop_process_on_device_def run_simps)

lemma finish_stop_faulted [fault_intros]: "fails_faulted (finish_stop actor ref ty reason action b stopped resp)"
  unfolding finish_stop_def by (intro fault_intros)

lemma finish_stop_Ok:
  "finish_stop actor ref ty reason action b stopped resp env s = Some (Ok y, s') \<Longrightarrow>
     y = resp \<and> \<not> auto_enabled (h_rt s') \<and> active_batch_id (h_rt s') \<noteq> Some b \<and> targets (h_rt s') = stopped
     \<and> h_writes s' = h_writes s"
  by (auto simp: finish_stop_def run_simps split: sum.splits if_splits)

lemma confirm_stopped_faulted [fault_intros]: "fails_faulted (confirm_stopped b stopped)"
  by (auto simp: fails_faulted_def confirm_stopped_def with_lock_Some faulted_def latch_simps split: if_splits)

lemma close_stopped_faulted [fault_intros]:
  "fails_faulted (close_stopped_process event_type stop_reason actor b stopped record)"
  unfolding close_stopped_process_def Let_def by (intro fault_intros)

lemma no_writes_more: "no_writes (hpanic y)" "no_writes (read_lock f)"
  by (auto simp: no_writes_def hpanic_def read_lock_def with_lock_def Let_def)

lemma stop_tail_fails_closed:
  "device_fails_closed (hbind (stop_process_on_device stopped) (\<lambda>_. hbind (confirm_stopped b stopped) (\<lambda>_.
      close_stopped_process ty reason actor b stopped rcd)))"
  by (rule device_fails_closed_weaken(1)) (intro fault_intros)

lemma stop_lifecycle_fails_closed: "device_fails_closed (stop_process_lifecycle pid ty reason actor)"
  unfolding stop_process_lifecycle_def
  apply (rule device_fails_closed_bind [OF no_writes_more(2)])
  apply (rule device_fails_closed_case)
   apply (rule device_fails_closed_weaken(2) [OF no_writes_intros(2)])
  apply (rule device_fails_closed_bind, rule no_writes_intros no_writes_more(1))+
  by (rule stop_tail_fails_closed)

lemma close_stopped_Ok:
  assumes "close_stopped_process ty reason actor b stopped rcd env s = Some (Ok resp, s')"
  shows "stopped_batch_id resp = b \<and> stopped_targets resp = stopped \<and> \<not> auto_enabled (h_rt s')
     \<and> active_batch_id (h_rt s') \<noteq> Some b \<and> targets (h_rt s') = stopped \<and> h_writes s' = h_writes s"
proof (cases rcd)
  case None
  then show ?thesis using assms by (auto simp: close_stopped_process_def Let_def dest!: finish_stop_Ok)
next
  case (Some r)
  then obtain closed s1 where c: "close_batch_record b r env s = Some (Ok closed, s1)"
    and f: "finish_stop actor (Some b) ty reason ''process stop audit'' b stopped
      \<lparr>stopped_batch_id = b, stop_process_id = process_id closed, stop_batch = Some closed,
            stop_recovery = None, stop_active_batch_id = None, stop_auto_enabled = False,
            stopped_targets = stopped\<rparr> env s1 = Some (Ok resp, s')"
    using assms by (auto simp: close_stopped_process_def hbind_Ok_iff)
  from c close_batch_writes [of b r] have "h_writes s1 = h_writes s" unfolding no_writes_def by blast
  with finish_stop_Ok [OF f] show ?thesis by auto
qed

text \<open>C16: A process stop either takes effect or fails closed. When it succeeds, the device accepted
  exactly the fail-safe stop command, automatic control is off, the stopped batch is no longer active and
  the stop targets are the runtime targets. When it fails after writing to the device, automatic control is
  off and a control fault is latched.\<close>

theorem stop_takes_effect_or_fails_closed:
  assumes "stop_process_lifecycle pid event_type stop_reason actor env s = Some (r, s')"
    and "h_writes s' \<noteq> h_writes s"
  shows "\<not> auto_enabled (h_rt s') \<and> (case r of
       Inl e \<Rightarrow> last_control_error (h_rt s') \<noteq> None
     | Inr resp \<Rightarrow> process_stop_targets (a_safety env) = Some (stopped_targets resp)
         \<and> targets (h_rt s') = stopped_targets resp \<and> active_batch_id (h_rt s') \<noteq> Some (stopped_batch_id resp)
         \<and> h_writes s' = h_writes s @ [safe_command_from_runtime_targets (stopped_targets resp) ''process stop target write'']
         \<and> a_write env (h_tick s + 2) = Ok ())"
proof (cases r)
  case (Inl e)
  then show ?thesis using stop_lifecycle_fails_closed assms unfolding device_fails_closed_def faulted_def by fastforce
next
  case (Inr resp)
  obtain b where b: "active_batch_id (a_interfere env (h_tick s) (h_rt s)) = Some b"
    using assms(1) Inr by (cases "active_batch_id (a_interfere env (h_tick s) (h_rt s))")
      (auto simp: stop_process_lifecycle_def run_simps)
  then obtain rcd stopped s1 s2 where st: "process_stop_targets (a_safety env) = Some stopped"
    and w: "stop_process_on_device stopped env (s\<lparr>h_rt := a_interfere env (h_tick s) (h_rt s), h_tick := h_tick s + 2\<rparr>) = Some (Ok (), s1)"
    and c: "confirm_stopped b stopped env s1 = Some (Ok (), s2)"
    and k: "close_stopped_process event_type (clean_label stop_reason (stop_process_reason event_type) 240) actor b stopped rcd env s2 = Some (Ok resp, s')"
    using assms(1) Inr by (auto simp: stop_process_lifecycle_def run_simps eval_nat_numeral)
  have "h_writes s2 = h_writes s1"
    using c by (auto simp: confirm_stopped_def with_lock_Some split: if_splits)
  with close_stopped_Ok [OF k] w [unfolded run_stop_on_device] st Inr show ?thesis by auto
qed

section \<open>Witnesses\<close>

definition demo_step :: process_step where
  "demo_step = \<lparr>step_id = 1, step_target_temperature_c = Num 60, step_ramp_rate_c_min = Num 1,
     step_duration_minutes = Num 30, step_target_stirrer_rpm = Num 300, step_target_shake_speed_cpm = Num 0,
     step_target_pressure_mpa = Num 1\<rparr>"

definition demo_batch :: batch where
  "demo_batch = \<lparr>batch_id = 7, process_id = Some 1, batch_name = ''p'', started_at = 0, finished_at = None,
     batch_target_temperature_c = Num 60, batch_target_stirrer_rpm = Num 300, heating_minutes = Num 30,
     stirring_minutes = Num 30\<rparr>"

definition demo_process_env :: "anyhow + unit \<Rightarrow> api_env" where
  "demo_process_env w = (demo_api (\<lambda>_. w))\<lparr>a_unfinished := (\<lambda>t. Ok (if t < 4 then [] else [demo_batch])),
     a_create_batch := (\<lambda>_. Ok demo_batch), a_batch_by_id := (\<lambda>_. Ok (Some demo_batch)),
     a_process_detail := (\<lambda>_. Ok (Some \<lparr>process_name = ''p'', process_description = '''', process_status = ''draft'', process_steps = [demo_step]\<rparr>))\<rparr>"

lemma demo_process_env_simps [simp]:
  "a_safety (demo_process_env w) = shipped_safety" "a_clock (demo_process_env w) t = 0"
  "a_interfere (demo_process_env w) t rt = rt" "a_audit (demo_process_env w) t = Ok ()"
  "a_write (demo_process_env w) t = w" "a_create_batch (demo_process_env w) t = Ok demo_batch"
  "a_finish_batch (demo_process_env w) t = Ok ()" "a_batch_by_id (demo_process_env w) t = Ok (Some demo_batch)"
  "a_mark_applied (demo_process_env w) t = Ok True"
  "a_unfinished (demo_process_env w) t = Ok (if t < 4 then [] else [demo_batch])"
  "a_process_detail (demo_process_env w) t = Ok (Some \<lparr>process_name = ''p'', process_description = '''', process_status = ''draft'', process_steps = [demo_step]\<rparr>)"
  by (simp_all add: demo_process_env_def demo_api_def)

definition demo_process_targets :: control_targets where
  "demo_process_targets = \<lparr>t_temperature_c = Num 60, t_heat_time_s = Num 1800, t_hold_time_s = Num 1800,
     t_cool_time_s = Num 180, t_stirrer_rpm = Num 300, t_shake_speed_cpm = Num 0, t_target_pressure_mpa = Num 1\<rparr>"

lemma demo_process_targets: "targets_from_process_steps shipped_safety [demo_step] = Ok demo_process_targets"
  by (simp add: targets_from_process_steps_def validate_persisted_process_step_def process_step_duration_seconds_def
      validate_target_temperature_def validate_stir_speed_def validate_target_pair_allowed_def ensure_targets_allowed_def
      find_forbidden_control_zone_def zone_contains_def api_validate_range_def in_range_Num demo_step_def
      shipped_safety_def demo_process_targets_def f64_max_def f64_mul_pos)

lemma demo_can_start:
  "ensure_process_can_start shipped_safety 0 (Ok []) (h_rt (demo_hstate None)) = Ok ()"
  using demo_field_clear
  by (simp add: ensure_process_can_start_def ensure_no_unclosed_db_batch_for_new_production_def
      ensure_no_unclosed_db_batch_except_def interlock_clear_iff bind_res_Ok_iff recovery_required_iff Let_def)
     (simp add: demo_hstate_def from_safety_def)

lemma demo_open_batch:
  "ensure_no_unclosed_db_batch_except (Ok [demo_batch]) (h_rt (demo_hstate None)) (Some 7) = Ok ()"
  by (simp add: ensure_no_unclosed_db_batch_except_def recovery_required_iff Let_def demo_hstate_def from_safety_def
      demo_batch_def)

lemma demo_start_on_device:
  assumes "h_rt s = h_rt (demo_hstate None)" "4 \<le> h_tick s"
  shows "start_process_on_device tg (Some 7) (demo_process_env w) s =
    (let s1 = s\<lparr>h_tick := h_tick s + 2,
           h_writes := h_writes s @ [safe_command_from_runtime_targets tg ''process start target write accepted by safety gate'']\<rparr>
     in case w of Inr _ \<Rightarrow> Some (Ok (), s1)
        | Inl err \<Rightarrow> Some (Err (service_unavailable (''device process start command failed: '' @ err_display err)),
            s1\<lparr>h_rt := fst (latch_control_fault (err_display err) (h_rt s)), h_tick := h_tick s + 3\<rparr>))"
proof -
  have "active_batch_id (h_rt (demo_hstate None)) = None" by (simp add: demo_hstate_def from_safety_def)
  then show ?thesis
    using assms demo_open_batch demo_field_clear
    by (cases w) (simp_all add: start_process_on_device_def hbind_def with_lock_def device_write_def hreturn_def hfail_def
      hresult_def latch_control_write_fault_def interlock_clear_iff [THEN iffD2] Let_def)
qed

lemma demo_start_prefix:
  "start_process_lifecycle 1 ty None actor (demo_process_env w) (demo_hstate None) =
     start_with_batch 1 ty actor demo_process_targets demo_batch (latches_from_runtime (h_rt (demo_hstate None)))
       (demo_process_env w) ((demo_hstate None)\<lparr>h_tick := 4,
          h_db := [CreateBatch (Some 1) ''p'' (Num 60) (Num 300) (seconds_to_minutes (Some (Num 1800)))
            (seconds_to_minutes (Some (Num 1800)))]\<rparr>)"
proof -
  have "h_tick (demo_hstate None) = 0" "h_db (demo_hstate None) = []" by (simp_all add: demo_hstate_def)
  then show ?thesis using demo_can_start
    by (simp add: start_process_lifecycle_def process_detail_or_bad_request_def hbind_def db_call_def hreturn_def
      safety_of_def hresult_def demo_process_targets disarm_def with_lock_def check_snapshot_def db_exec_def hany_def
      demo_disarmed Let_def demo_process_targets_def numeral_eq_Suc)
qed

theorem start_failure_fails_closed_witness:
  "\<exists>e s'. start_process_lifecycle 1 ''process_started'' None system_actor
       (demo_process_env (Err [''serial port closed''])) (demo_hstate None) = Some (Err e, s')
     \<and> h_writes s' \<noteq> h_writes (demo_hstate None) \<and> \<not> auto_enabled (h_rt s') \<and> last_control_error (h_rt s') \<noteq> None"
proof -
  let ?env = "demo_process_env (Err [''serial port closed''])"
  have b: "batch_id demo_batch = 7" by (simp add: demo_batch_def)
  obtain e s' where run: "start_process_lifecycle 1 ''process_started'' None system_actor ?env (demo_hstate None) = Some (Err e, s')"
    "h_writes s' \<noteq> h_writes (demo_hstate None)"
    unfolding demo_start_prefix start_with_batch_def b
    by (simp add: hbind_def hattempt_def demo_start_on_device audit_start_failed_before_activation_def insert_event_def
        db_exec_def hfail_def hresult_def hreturn_def Let_def)
  from start_failure_fails_closed [OF run] run show ?thesis by blast
qed

lemma demo_start_success:
  "\<exists>s'. start_process_lifecycle 1 ''process_started'' None system_actor (demo_process_env (Ok ())) (demo_hstate None)
     = Some (Ok (demo_batch, demo_process_targets), s')"
proof -
  have b: "batch_id demo_batch = 7" by (simp add: demo_batch_def)
  have idle: "active_batch_id (h_rt (demo_hstate None)) = None" by (simp add: demo_hstate_def from_safety_def)
  have gen: "same_generations rt rt" for rt by (simp add: same_generations_def latches_changed_iff)
  have "commit_process_activation_after_final_interlock 7 tg True (Some (latches_from_runtime (h_rt (demo_hstate None))))
      (demo_process_env (Ok ())) s = Some (Ok (), s\<lparr>h_rt := (h_rt s)\<lparr>targets := tg, active_batch_id := Some 7, auto_enabled := True\<rparr>,
        h_tick := h_tick s + 2\<rparr>)" if "h_rt s = h_rt (demo_hstate None)" "4 \<le> h_tick s" for s tg
    using that demo_field_clear idle gen by (simp add: run_commit_activation b)
  then show ?thesis
    unfolding demo_start_prefix start_with_batch_def b
    by (simp add: hbind_def hattempt_def demo_start_on_device activate_process_def insert_event_def db_exec_def
        hreturn_def Let_def b)
qed

theorem start_success_committed_witness:
  "\<exists>s'. start_process_lifecycle 1 ''process_started'' None system_actor (demo_process_env (Ok ())) (demo_hstate None)
       = Some (Ok (demo_batch, demo_process_targets), s')
     \<and> auto_enabled (h_rt s') \<and> active_batch_id (h_rt s') = Some (batch_id demo_batch)"
proof -
  obtain s' where run: "start_process_lifecycle 1 ''process_started'' None system_actor (demo_process_env (Ok ())) (demo_hstate None)
      = Some (Ok (demo_batch, demo_process_targets), s')" using demo_start_success by blast
  from start_success_committed [OF run] run show ?thesis by force
qed

definition demo_running :: hstate where
  "demo_running = (demo_hstate None)\<lparr>h_rt := (h_rt (demo_hstate None))\<lparr>active_batch_id := Some 7, auto_enabled := True\<rparr>\<rparr>"

theorem stop_takes_effect_or_fails_closed_witness:
  "\<exists>r s'. stop_process_lifecycle (Some 1) ''process_stopped'' (Some ''done'') system_actor (demo_process_env (Ok ())) demo_running
       = Some (r, s') \<and> h_writes s' \<noteq> h_writes demo_running \<and> \<not> auto_enabled (h_rt s')"
proof -
  obtain stop where stop: "process_stop_targets shipped_safety = Some stop"
    using process_stop_targets_total [OF shipped_safety_valid] by blast
  obtain r s' where run: "stop_process_lifecycle (Some 1) ''process_stopped'' (Some ''done'') system_actor (demo_process_env (Ok ())) demo_running
      = Some (r, s')" "h_writes s' \<noteq> h_writes demo_running"
    by (simp add: stop_process_lifecycle_def hbind_def read_lock_def with_lock_def db_call_def hany_def hresult_def
        expected_process_check_def safety_of_def hpanic_def stop stop_process_on_device_def device_write_def hreturn_def
        confirm_stopped_def close_stopped_process_def close_batch_record_def finish_stop_def db_exec_def insert_event_def
        clear_stopped_batch_def demo_batch_def demo_running_def Let_def)
  from stop_takes_effect_or_fails_closed [OF run] run show ?thesis by blast
qed

section \<open>Latches and totality\<close>

named_theorems latch_keeps \<open>handlers that keep automatic control off under every latch\<close>

lemmas [latch_keeps] = api_latches.keeps_disarm api_latches.keeps_latch_control_write_fault

lemma keeps_commit_activation [latch_keeps]:
  "keeps latches_hold (commit_process_activation_after_final_interlock b tg en g)"
  unfolding commit_process_activation_after_final_interlock_def
  by (intro keeps_intros)
     (auto simp: snd_lock_checks unit_ok [symmetric] interlock_clear_iff field_clear_def latches_hold_def
        ensure_safety_latches_unchanged_for_commit_def Let_def split: option.splits)

lemma keeps_tail_failure [latch_keeps]: "keeps latches_hold (latch_tail_failure_after_device_action a e)"
  unfolding latch_tail_failure_after_device_action_def by (rule keeps_lock) (simp add: wf_intros)

lemma keeps_device_commands [latch_keeps]:
  "keeps latches_hold (stop_process_on_device tg)" "keeps latches_hold (start_process_on_device tg p)"
  unfolding stop_process_on_device_def start_process_on_device_def
  by (intro keeps_intros latch_keeps; simp)+

lemma keeps_rollback [latch_keeps]: "keeps latches_hold (rollback_failed_activation b tg)"
  unfolding rollback_failed_activation_def
  by (intro keeps_intros latch_keeps) (auto simp: latches_hold_def latch_simps Let_def)

lemma keeps_activation_failed [latch_keeps]: "keeps latches_hold (activation_failed b tg a e r)"
  unfolding activation_failed_def by (intro keeps_intros latch_keeps)

lemma keeps_stop_parts [latch_keeps]:
  "keeps latches_hold (confirm_stopped b tg)" "keeps latches_hold (clear_stopped_batch b tg)"
  unfolding confirm_stopped_def clear_stopped_batch_def
  by (rule keeps_lock; auto simp: latches_hold_def latch_simps Let_def)+

lemma keeps_stop_records [latch_keeps]:
  "keeps latches_hold (close_batch_record b r)" "keeps latches_hold (finish_stop a ref t why act b st resp)"
  unfolding close_batch_record_def finish_stop_def by (intro keeps_intros latch_keeps)+

lemma keeps_process_start [latch_keeps]: "keeps latches_hold (start_process_lifecycle pid ty name actor)"
  unfolding start_process_lifecycle_def start_with_batch_def activate_process_def process_detail_or_bad_request_def
    audit_start_failed_before_activation_def Let_def
  by (intro keeps_intros latch_keeps)

lemma keeps_process_stop [latch_keeps]: "keeps latches_hold (stop_process_lifecycle pid ty reason actor)"
  unfolding stop_process_lifecycle_def close_stopped_process_def Let_def
  by (intro keeps_intros latch_keeps)

lemma returns_process_parts [returns_intros]:
  "returns (stop_process_on_device tg)" "returns (start_process_on_device tg p)"
  "returns (latch_tail_failure_after_device_action a e)" "returns (confirm_stopped b tg)"
  "returns (clear_stopped_batch b tg)" "returns (commit_process_activation_after_final_interlock b tg en g)"
  "returns (audit_start_failed_before_activation ob tg k er actor)" "returns (process_detail_or_bad_request)"
  unfolding stop_process_on_device_def start_process_on_device_def latch_tail_failure_after_device_action_def
    confirm_stopped_def clear_stopped_batch_def commit_process_activation_after_final_interlock_def
    audit_start_failed_before_activation_def process_detail_or_bad_request_def Let_def
  by (intro returns_intros)+

lemma returns_rollback [returns_intros]: "returns (rollback_failed_activation b tg)"
  unfolding rollback_failed_activation_def
  by (rule returns_safety [OF process_stop_targets_total]) (assumption | intro returns_intros)+

lemma returns_activation_failed [returns_intros]: "returns (activation_failed b tg a e r)"
  unfolding activation_failed_def by (intro returns_intros)

lemma returns_stop_records [returns_intros]:
  "returns (close_batch_record b r)" "returns (finish_stop a ref t why act b st resp)"
  unfolding close_batch_record_def finish_stop_def by (intro returns_intros)+

lemma returns_process_start [returns_intros]: "returns (start_process_lifecycle p ty name actor)"
  unfolding start_process_lifecycle_def start_with_batch_def activate_process_def Let_def
  by (intro returns_intros)

lemma returns_process_stop [returns_intros]: "returns (stop_process_lifecycle q ty reason actor)"
proof -
  have tail: "returns (hbind (stop_process_on_device st) (\<lambda>_. hbind (confirm_stopped b st) (\<lambda>_.
      close_stopped_process ty label actor b st r)))" for b st r label
    unfolding close_stopped_process_def Let_def by (intro returns_intros)
  show ?thesis
    unfolding stop_process_lifecycle_def
    apply (rule returns_bind, rule returns_intros)
    apply (rule returns_case, rule returns_intros)
    apply (rule returns_bind, rule returns_intros)+
    by (rule returns_safety [OF process_stop_targets_total tail])
qed

end
