(* ===== verification/Production_Api.thy ===== *)
theory Production_Api
  imports Process_Api
begin

text \<open>
  Production requests that do not go through a stored process (\<open>api.rs\<close>): starting and finishing a batch,
  and the control and process requests of the version-1 interface. They share the device commands, the
  rollback and the final interlock of \<open>Process_Api\<close>.
\<close>

section \<open>Optional request fields\<close>

text \<open>A field of a JSON body that may be absent (\<open>None\<close>), null (\<open>Some None\<close>) or present.\<close>

fun optional_present_bool :: "bool option option \<Rightarrow> string \<Rightarrow> app_error + bool option" where
  "optional_present_bool (Some (Some b)) field = Ok (Some b)"
| "optional_present_bool (Some None) field = Err (bad_request (field @ '' must not be null''))"
| "optional_present_bool None field = Ok None"

definition optional_number_field :: "json \<Rightarrow> string \<Rightarrow> app_error + f64 option" where
  "optional_number_field value field = (case json_get value field of
       None \<Rightarrow> Ok None
     | Some v \<Rightarrow>
         bind_res (ok_or (json_as_f64 v) (bad_request (field @ '' must be a number''))) (\<lambda>number.
         if \<not> is_finite number then Err (bad_request (field @ '' must be finite'')) else Ok (Some number)))"

definition ensure_reactor_device_id :: "string \<Rightarrow> app_error + unit" where
  "ensure_reactor_device_id device_id =
     (if device_id = ''reactor_001'' then Ok () else Err (not_found ''device not found''))"

section \<open>Starting a batch\<close>

record start_batch_request =
  sb_name :: "string option"
  sb_process_id :: "int option option"
  sb_target_temperature_c :: "f64 option option"
  sb_target_stirrer_rpm :: "f64 option option"
  sb_target_shake_speed_cpm :: "f64 option option"
  sb_heating_minutes :: "f64 option option"
  sb_stirring_minutes :: "f64 option option"

definition has_explicit_control_field :: "start_batch_request \<Rightarrow> bool" where
  "has_explicit_control_field req \<longleftrightarrow>
     sb_target_temperature_c req \<noteq> None \<or> sb_target_stirrer_rpm req \<noteq> None
     \<or> sb_target_shake_speed_cpm req \<noteq> None \<or> sb_heating_minutes req \<noteq> None \<or> sb_stirring_minutes req \<noteq> None"

text \<open>The validation of the request against the current targets: the process and the applied targets.\<close>

definition batch_request_targets ::
    "safety_config \<Rightarrow> control_targets \<Rightarrow> start_batch_request \<Rightarrow> app_error + int option \<times> control_targets" where
  "batch_request_targets safety current req =
     bind_res (optional_present_number (sb_target_temperature_c req) ''target_temperature_c'') (\<lambda>t.
     let temp = unwrap_or t (t_temperature_c current) in
     bind_res (validate_target_temperature safety temp) (\<lambda>_.
     bind_res (optional_present_number (sb_target_stirrer_rpm req) ''target_stirrer_rpm'') (\<lambda>r.
     let rpm = unwrap_or r (t_stirrer_rpm current) in
     bind_res (validate_stir_speed safety rpm) (\<lambda>_.
     bind_res (validate_target_pair_allowed safety temp rpm) (\<lambda>_.
     bind_res (optional_present_number (sb_target_shake_speed_cpm req) ''target_shake_speed_cpm'') (\<lambda>k.
     let shake = unwrap_or k (t_shake_speed_cpm current) in
     bind_res (api_validate_range ''target_shake_speed_cpm'' shake (lit 0) (lit 60)) (\<lambda>_.
     bind_res (optional_present_number (sb_heating_minutes req) ''heating_minutes'') (\<lambda>h.
     let heating = unwrap_or h (lit 60) in
     bind_res (api_validate_range ''heating_minutes'' heating (lit 0) (ob_max_heating_minutes (optimizer safety))) (\<lambda>_.
     bind_res (optional_present_number (sb_stirring_minutes req) ''stirring_minutes'') (\<lambda>st.
     let stirring = unwrap_or st (lit 60) in
     bind_res (api_validate_range ''stirring_minutes'' stirring (lit 0) (ob_max_stirring_minutes (optimizer safety))) (\<lambda>_.
     bind_res (optional_present_i64 (sb_process_id req) ''process_id'') (\<lambda>pid.
     bind_res (validate_batch_start_targets safety
        \<lparr>t_temperature_c = temp, t_heat_time_s = f64_mul heating (lit 60), t_hold_time_s = f64_mul stirring (lit 60),
         t_cool_time_s = t_cool_time_s current, t_stirrer_rpm = rpm, t_shake_speed_cpm = shake,
         t_target_pressure_mpa = t_target_pressure_mpa current\<rparr>) (\<lambda>applied.
     Ok (pid, applied))))))))))))))"

text \<open>From the device command on: \<open>kind\<close> names the request in the failure audit, \<open>label\<close> the action in a
  latched fault. The device write failing closes the pending batch record; anything failing later rolls the
  activation back.\<close>

definition activate_batch ::
    "string \<Rightarrow> string \<Rightarrow> string \<Rightarrow> string \<Rightarrow> audit_actor \<Rightarrow> control_targets \<Rightarrow> int \<Rightarrow> bool \<Rightarrow> safety_latch_generations
     \<Rightarrow> unit handler" where
  "activate_batch kind label event reason actor tg b enable acknowledged =
     hbind (hattempt (start_process_on_device tg (Some b))) (\<lambda>started.
     case started of
       Inl err \<Rightarrow>
         hbind (audit_start_failed_before_activation (Some b) tg kind err actor) (\<lambda>_.
         hbind (db_exec (FinishBatch b) a_finish_batch) (\<lambda>_.
         hfail err))
     | Inr _ \<Rightarrow>
     hbind (insert_event actor (Some b) event (Some (safe_command_from_runtime_targets tg reason)) reason) (\<lambda>audited.
     case audited of
       Inl err \<Rightarrow> activation_failed b tg (label @ '' audit'') (err_alternate err) internal_error
     | Inr _ \<Rightarrow>
     hbind (hattempt (commit_process_activation_after_final_interlock b tg enable (Some acknowledged))) (\<lambda>committed.
     case committed of
       Inl err \<Rightarrow> activation_failed b tg (label @ '' final interlock'') (err_message err) err
     | Inr _ \<Rightarrow> hreturn ())))"

definition start_batch :: "session \<Rightarrow> start_batch_request \<Rightarrow> batch handler" where
  "start_batch session req =
     hbind (hresult (session StartStopProcess)) (\<lambda>user.
     let actor = audit_actor_for_user user in
     if \<not> has_explicit_control_field req
     then hfail (bad_request ''batch start must include at least one explicit target or duration field'')
     else
     hbind (read_lock targets) (\<lambda>current.
     hbind safety_of (\<lambda>safety.
     hbind (hresult (batch_request_targets safety current req)) (\<lambda>(pid, applied).
     let heating = round2 (f64_div (t_heat_time_s applied) (lit 60));
         stirring = round2 (f64_div (t_hold_time_s applied) (lit 60));
         name = clean_label (sb_name req) ''batch'' 160 in
     hbind disarm (\<lambda>rt.
     hbind (check_snapshot (\<lambda>safety now unf. run_checks
         [ensure_no_unclosed_db_batch_for_new_production unf rt,
          ensure_target_update_interlock_clear safety now rt BatchStart])) (\<lambda>_.
     hbind (db_exec (CreateBatch pid name (t_temperature_c applied) (t_stirrer_rpm applied) heating stirring)
         a_create_batch) (\<lambda>created.
     hbind (hany created) (\<lambda>b.
     hbind (activate_batch ''batch'' ''batch start'' ''batch_started'' ''batch started and runtime targets updated''
         actor applied (batch_id b) False (latches_from_runtime rt)) (\<lambda>_.
     hreturn b)))))))))"

section \<open>Finishing a batch\<close>

text \<open>The tail of a failed step after the device has been stopped: the fault is latched only when the batch
  was the active one.\<close>

definition finish_failed :: "bool \<Rightarrow> string \<Rightarrow> string \<Rightarrow> app_error \<Rightarrow> 'a handler" where
  "finish_failed was_active action err response =
     (if was_active
      then hbind (latch_tail_failure_after_device_action action err) (\<lambda>_. hfail response)
      else hfail response)"

definition with_stop_targets :: "control_targets option \<Rightarrow> runtime_state \<Rightarrow> runtime_state" where
  "with_stop_targets stopped rt = (case stopped of Some tg \<Rightarrow> rt\<lparr>targets := tg\<rparr> | None \<Rightarrow> rt)"

definition finish_missing_active_batch_recovery :: "int \<Rightarrow> unit handler" where
  "finish_missing_active_batch_recovery b =
     hbind safety_of (\<lambda>safety.
     hbind (hpanic (process_stop_targets safety)) (\<lambda>stopped.
     hbind (stop_process_on_device stopped) (\<lambda>_.
     hbind (with_lock (\<lambda>env now unf rt. (Ok (), rt\<lparr>auto_enabled := False, targets := stopped\<rparr>))) (\<lambda>_.
     finish_stop system_actor None ''batch_finish_recovery_missing_batch''
       (''active runtime batch '' @ show_int b
        @ '' record was missing during finish; risk-reducing stop target was still written and runtime active state was cleared'')
       ''batch finish missing batch recovery audit'' b stopped ()))))"

text \<open>The checks before the device is touched: \<open>active\<close> is the batch the runtime ran when the request came.\<close>

definition finish_batch_checks :: "int \<Rightarrow> int option \<Rightarrow> batch \<Rightarrow> app_error + unit" where
  "finish_batch_checks b active record = run_checks
     [if finished_at record \<noteq> None \<and> active \<noteq> Some b then Err (conflict ''batch is already finished'') else Ok (),
      case active of
        Some a \<Rightarrow> if a \<noteq> b then Err (conflict (''active batch is '' @ show_int a @ ''; cannot finish batch ''
                    @ show_int b @ '' while another batch is running'')) else Ok ()
      | None \<Rightarrow> Ok ()]"

definition confirm_finish :: "int \<Rightarrow> bool \<Rightarrow> control_targets option \<Rightarrow> unit handler" where
  "confirm_finish b was_active stopped = with_lock (\<lambda>env now unf rt.
     let rt1 = with_stop_targets stopped (rt\<lparr>auto_enabled := False\<rparr>) in
     if was_active \<and> active_batch_id rt \<noteq> Some b
     then (Err (conflict ''active batch changed during batch finish; verify field state before retrying''),
           fst (latch_control_fault (''batch finish active batch changed after stop command; expected ''
             @ show_int b @ '', found '' @ debug_opt_id (active_batch_id rt)
             @ ''; production record was not closed'') rt1))
     else (Ok (), rt1))"

definition close_finished_batch :: "audit_actor \<Rightarrow> int \<Rightarrow> bool \<Rightarrow> control_targets option \<Rightarrow> batch \<Rightarrow> unit handler" where
  "close_finished_batch actor b was_active stopped record =
     hbind (if finished_at record = None
            then hbind (db_exec (FinishBatch b) a_finish_batch) (\<lambda>finished. case finished of
                Inl err \<Rightarrow> finish_failed was_active ''batch finish state commit'' (err_alternate err) internal_error
              | Inr _ \<Rightarrow> hreturn ())
            else hreturn ()) (\<lambda>_.
     hbind (db_call (\<lambda>env t. a_batch_by_id env t)) (\<lambda>queried.
     hbind (hany queried) (\<lambda>reloaded. case reloaded of
       None \<Rightarrow> finish_failed was_active ''batch finish state commit'' ''batch disappeared after finish update''
                 (not_found ''batch not found after finish update'')
     | Some done \<Rightarrow>
     if finished_at done = None
     then finish_failed was_active ''batch finish state commit'' ''batch finish update did not mark the batch finished''
            (conflict ''batch finish update did not mark the batch finished'')
     else
     hbind (insert_event actor (Some b) ''batch_finished''
         (map_option (\<lambda>tg. safe_command_from_runtime_targets tg ''active batch finished; device stop targets written'') stopped)
         ''batch finished; automatic control disabled'') (\<lambda>audited. case audited of
       Inl err \<Rightarrow> finish_failed was_active ''batch finish audit'' (err_alternate err) internal_error
     | Inr _ \<Rightarrow>
         with_lock (\<lambda>env now unf rt.
           let rt1 = (if active_batch_id rt = Some b then rt\<lparr>active_batch_id := None\<rparr> else rt)
           in (Ok (), with_stop_targets stopped (rt1\<lparr>auto_enabled := False\<rparr>)))))))"

definition finish_batch :: "session \<Rightarrow> int \<Rightarrow> unit handler" where
  "finish_batch session b =
     hbind (hresult (session StartStopProcess)) (\<lambda>user.
     let actor = audit_actor_for_user user in
     hbind (read_lock active_batch_id) (\<lambda>active.
     hbind (db_call (\<lambda>env t. a_batch_by_id env t)) (\<lambda>queried.
     hbind (hany queried) (\<lambda>found. case found of
       None \<Rightarrow>
         if active = Some b then finish_missing_active_batch_recovery b
         else hfail (not_found ''batch not found'')
     | Some record \<Rightarrow>
     hbind (hresult (finish_batch_checks b active record)) (\<lambda>_.
     let was_active = (active = Some b) in
     hbind (if was_active
            then hbind safety_of (\<lambda>safety.
                 hbind (hpanic (process_stop_targets safety)) (\<lambda>tg.
                 hbind (stop_process_on_device tg) (\<lambda>_.
                 hreturn (Some tg))))
            else hreturn None) (\<lambda>stopped.
     hbind (confirm_finish b was_active stopped) (\<lambda>_.
     close_finished_batch actor b was_active stopped record)))))))"

section \<open>Control requests of the version-1 interface\<close>

record v1_control_params =
  v1_heat_time :: "f64 option option"
  v1_hold_time :: "f64 option option"
  v1_cool_time :: "f64 option option"
  v1_stir_speed :: "f64 option option"
  v1_shake_speed :: "f64 option option"
  v1_target_temp :: "f64 option option"
  v1_target_pressure :: "f64 option option"

text \<open>The ranges are checked on the values as given; the result is rounded afterwards.\<close>

definition check_v1_targets :: "safety_config \<Rightarrow> control_targets \<Rightarrow> bool \<Rightarrow> app_error + control_targets" where
  "check_v1_targets safety tg running =
     bind_res (run_checks
       [api_validate_range ''heat_time'' (t_heat_time_s tg) (lit 0)
          (f64_mul (ob_max_heating_minutes (optimizer safety)) (lit 60)),
        api_validate_range ''hold_time'' (t_hold_time_s tg) (lit 0)
          (f64_mul (ob_max_stirring_minutes (optimizer safety)) (lit 60)),
        api_validate_range ''cool_time'' (t_cool_time_s tg) (lit 0) (lit 3600),
        validate_stir_speed safety (t_stirrer_rpm tg),
        api_validate_range ''shake_speed'' (t_shake_speed_cpm tg) (lit 0) (lit 60),
        validate_target_temperature safety (t_temperature_c tg),
        validate_target_pair_allowed safety (t_temperature_c tg) (t_stirrer_rpm tg),
        api_validate_range ''target_pressure'' (t_target_pressure_mpa tg) (lit 0) (lit 10),
        if running \<and> f64_eq (t_stirrer_rpm tg) (lit 0) \<and> f64_eq (t_shake_speed_cpm tg) (lit 0)
        then Err (bad_request ''stir_speed and shake_speed cannot both be 0 while running'') else Ok ()])
     (\<lambda>_. Ok (round_targets tg))"

definition validate_v1_control_params ::
    "safety_config \<Rightarrow> v1_control_params \<Rightarrow> bool \<Rightarrow> app_error + control_targets" where
  "validate_v1_control_params safety params running =
     bind_res (optional_present_number (v1_heat_time params) ''heat_time'') (\<lambda>heat.
     bind_res (optional_present_number (v1_hold_time params) ''hold_time'') (\<lambda>hold.
     bind_res (optional_present_number (v1_cool_time params) ''cool_time'') (\<lambda>cool.
     bind_res (optional_present_number (v1_stir_speed params) ''stir_speed'') (\<lambda>stir.
     bind_res (optional_present_number (v1_shake_speed params) ''shake_speed'') (\<lambda>shake.
     bind_res (optional_present_number (v1_target_temp params) ''target_temp'') (\<lambda>temp.
     bind_res (optional_present_number (v1_target_pressure params) ''target_pressure'') (\<lambda>pressure.
     if heat = None \<and> hold = None \<and> cool = None \<and> stir = None \<and> shake = None \<and> temp = None \<and> pressure = None
     then Err (bad_request ''control params must include at least one recognized control parameter'')
     else check_v1_targets safety
       \<lparr>t_temperature_c = unwrap_or temp (lit 120), t_heat_time_s = unwrap_or heat (lit 300),
        t_hold_time_s = unwrap_or hold (lit 600), t_cool_time_s = unwrap_or cool (lit 180),
        t_stirrer_rpm = unwrap_or stir (lit 800), t_shake_speed_cpm = unwrap_or shake (lit 30),
        t_target_pressure_mpa = unwrap_or pressure (lit (1 / 2))\<rparr> running)))))))"

text \<open>The estimate is the rounded sum of the phases, cast to an integer.\<close>

definition estimated_duration :: "control_targets \<Rightarrow> int" where
  "estimated_duration tg =
     (f64_to_i64 (f64_round (f64_add (f64_add (t_heat_time_s tg) (t_hold_time_s tg)) (t_cool_time_s tg))))"

definition v1_reason :: string where
  "v1_reason = ''v1 control request accepted after document range validation''"

text \<open>The end of the request: with \<open>auto_start\<close> a batch is created and activated, otherwise only the targets
  change.\<close>

definition v1_commit ::
    "bool \<Rightarrow> string \<Rightarrow> string option \<Rightarrow> audit_actor \<Rightarrow> control_targets \<Rightarrow> runtime_state \<Rightarrow> unit handler" where
  "v1_commit auto_start device_id command_id actor tg rt =
     (if auto_start
      then hbind (db_exec (CreateBatch None (device_id @ '':'' @ unwrap_or command_id ''process'')
               (t_temperature_c tg) (t_stirrer_rpm tg) (seconds_to_minutes (Some (t_heat_time_s tg)))
               (seconds_to_minutes (Some (t_hold_time_s tg)))) a_create_batch) (\<lambda>created.
           hbind (hany created) (\<lambda>b.
           activate_batch ''v1 control'' ''v1 auto_start'' ''v1_control_accepted'' v1_reason actor tg
             (batch_id b) True (latches_from_runtime rt)))
      else hbind (insert_event actor None ''v1_control_accepted''
               (Some (safe_command_from_runtime_targets tg v1_reason)) v1_reason) (\<lambda>audited.
           hbind (hany audited) (\<lambda>_.
           commit_targets_after_final_interlock tg DesiredTargets None (Some (latches_from_runtime rt)))))"

definition v1_auto_start_precheck :: "bool \<Rightarrow> unit handler" where
  "v1_auto_start_precheck auto_start =
     (if auto_start
      then hbind (read_lock (\<lambda>rt. rt)) (\<lambda>rt.
           if active_batch_id rt \<noteq> None then hfail (conflict ''device is busy running an active batch'')
           else check_snapshot (\<lambda>safety now unf. ensure_no_unclosed_db_batch_for_new_production unf rt))
      else hreturn ())"

definition v1_control ::
    "session \<Rightarrow> string \<Rightarrow> string option \<Rightarrow> bool option option \<Rightarrow> v1_control_params \<Rightarrow> int handler" where
  "v1_control session device_id command_id auto_start_field params =
     hbind (hresult (ensure_reactor_device_id device_id)) (\<lambda>_.
     hbind (hresult (session SetSafeTargets)) (\<lambda>user.
     hbind (hresult (optional_present_bool auto_start_field ''auto_start'')) (\<lambda>requested.
     let auto_start = unwrap_or requested False in
     hbind safety_of (\<lambda>safety.
     hbind (hresult (validate_v1_control_params safety params auto_start)) (\<lambda>tg.
     hbind (v1_auto_start_precheck auto_start) (\<lambda>_.
     hbind disarm (\<lambda>rt.
     hbind (check_snapshot (\<lambda>safety now unf. ensure_target_update_interlock_clear safety now rt DesiredTargets)) (\<lambda>_.
     hbind (v1_commit auto_start device_id command_id (audit_actor_for_user user) tg rt) (\<lambda>_.
     hreturn (estimated_duration tg))))))))))"

section \<open>Process requests of the version-1 interface\<close>

record v1_process_phase =
  ph_phase :: string
  ph_params :: json

text \<open>What the loop over the phases has collected.\<close>

record v1_process_acc =
  acc_target_temperature :: "f64 option"
  acc_stirrer_rpm :: "f64 option"
  acc_shake_speed_cpm :: "f64 option"
  acc_target_pressure_mpa :: "f64 option"
  acc_heat_time_s :: "f64 option"
  acc_hold_time_s :: "f64 option"
  acc_cool_time_s :: "f64 option"
  acc_total_seconds :: f64
  acc_saw_control_param :: bool

definition empty_acc :: v1_process_acc where
  "empty_acc = \<lparr>acc_target_temperature = None, acc_stirrer_rpm = None, acc_shake_speed_cpm = None,
     acc_target_pressure_mpa = None, acc_heat_time_s = None, acc_hold_time_s = None, acc_cool_time_s = None,
     acc_total_seconds = lit 0, acc_saw_control_param = False\<rparr>"

definition v1_phase_duration :: "safety_config \<Rightarrow> string \<Rightarrow> f64 \<Rightarrow> v1_process_acc \<Rightarrow> app_error + v1_process_acc" where
  "v1_phase_duration safety name duration acc =
     bind_res
       (if name = ''heating'' then
          bind_res (api_validate_range ''heating duration'' duration (lit 0)
              (f64_mul (ob_max_heating_minutes (optimizer safety)) (lit 60)))
            (\<lambda>_. Ok (acc\<lparr>acc_heat_time_s := Some duration\<rparr>))
        else if name = ''holding'' then
          bind_res (api_validate_range ''holding duration'' duration (lit 0)
              (f64_mul (ob_max_stirring_minutes (optimizer safety)) (lit 60)))
            (\<lambda>_. Ok (acc\<lparr>acc_hold_time_s := Some duration\<rparr>))
        else if name = ''cooling'' then
          bind_res (api_validate_range ''cooling duration'' duration (lit 0) (lit 3600))
            (\<lambda>_. Ok (acc\<lparr>acc_cool_time_s := Some duration\<rparr>))
        else bind_res (api_validate_range ''duration'' duration (lit 0) (lit 7200)) (\<lambda>_. Ok acc))
     (\<lambda>acc. Ok (acc\<lparr>acc_total_seconds := f64_add (acc_total_seconds acc) duration, acc_saw_control_param := True\<rparr>))"

text \<open>An optional number of a phase: validated and recorded when present.\<close>

definition v1_phase_number ::
    "json \<Rightarrow> string \<Rightarrow> (f64 \<Rightarrow> app_error + unit) \<Rightarrow> (f64 \<Rightarrow> v1_process_acc \<Rightarrow> v1_process_acc) \<Rightarrow> v1_process_acc
     \<Rightarrow> app_error + v1_process_acc" where
  "v1_phase_number params field check_number upd acc =
     bind_res (optional_number_field params field) (\<lambda>found. case found of
       None \<Rightarrow> Ok acc
     | Some x \<Rightarrow> bind_res (check_number x) (\<lambda>_. Ok ((upd x acc)\<lparr>acc_saw_control_param := True\<rparr>)))"

definition v1_phase_step :: "safety_config \<Rightarrow> v1_process_phase \<Rightarrow> v1_process_acc \<Rightarrow> app_error + v1_process_acc" where
  "v1_phase_step safety ph acc =
     (let name = trim (ph_phase ph); params = ph_params ph in
      if name = [] then Err (bad_request ''phase must not be blank'')
      else if \<not> json_is_object params then Err (bad_request ''phase params must be an object'')
      else
      bind_res (bind_res (optional_number_field params ''duration'') (\<lambda>found. case found of
          None \<Rightarrow> Ok acc
        | Some duration \<Rightarrow> v1_phase_duration safety name duration acc)) (\<lambda>acc.
      if name \<notin> {''heating'', ''holding'', ''cooling''}
      then Err (bad_request (''unsupported process phase '' @ [CHR 0x27] @ ph_phase ph @ [CHR 0x27]))
      else
      bind_res (v1_phase_number params ''target_temp'' (validate_target_temperature safety)
          (\<lambda>x a. a\<lparr>acc_target_temperature := Some x\<rparr>) acc) (\<lambda>acc.
      bind_res (v1_phase_number params ''stir_speed'' (validate_stir_speed safety)
          (\<lambda>x a. a\<lparr>acc_stirrer_rpm := Some x\<rparr>) acc) (\<lambda>acc.
      bind_res (v1_phase_number params ''shake_speed'' (\<lambda>x. api_validate_range ''shake_speed'' x (lit 0) (lit 60))
          (\<lambda>x a. a\<lparr>acc_shake_speed_cpm := Some x\<rparr>) acc) (\<lambda>acc.
      v1_phase_number params ''target_pressure'' (\<lambda>x. api_validate_range ''target_pressure'' x (lit 0) (lit 10))
          (\<lambda>x a. a\<lparr>acc_target_pressure_mpa := Some x\<rparr>) acc)))))"

fun v1_phases :: "safety_config \<Rightarrow> v1_process_phase list \<Rightarrow> v1_process_acc \<Rightarrow> app_error + v1_process_acc" where
  "v1_phases safety [] acc = Ok acc"
| "v1_phases safety (ph # rest) acc = bind_res (v1_phase_step safety ph acc) (v1_phases safety rest)"

definition v1_process_targets :: "safety_config \<Rightarrow> v1_process_phase list \<Rightarrow> app_error + f64 \<times> control_targets" where
  "v1_process_targets safety phases =
     (if phases = [] then Err (bad_request ''phases must not be empty'')
      else bind_res (v1_phases safety phases empty_acc) (\<lambda>acc.
      if \<not> acc_saw_control_param acc
      then Err (bad_request ''process phases must include at least one recognized control parameter'')
      else
      bind_res (validate_v1_process_targets safety
        \<lparr>t_temperature_c = unwrap_or (acc_target_temperature acc) (lit 120),
         t_heat_time_s = unwrap_or (acc_heat_time_s acc) (lit 300), t_hold_time_s = unwrap_or (acc_hold_time_s acc) (lit 600),
         t_cool_time_s = unwrap_or (acc_cool_time_s acc) (lit 180), t_stirrer_rpm = unwrap_or (acc_stirrer_rpm acc) (lit 800),
         t_shake_speed_cpm = unwrap_or (acc_shake_speed_cpm acc) (lit 30),
         t_target_pressure_mpa = unwrap_or (acc_target_pressure_mpa acc) (lit (1 / 2))\<rparr>) (\<lambda>tg.
      bind_res (ensure_targets_allowed safety tg) (\<lambda>_.
      Ok (acc_total_seconds acc, tg)))))"

definition v1_process :: "session \<Rightarrow> string \<Rightarrow> v1_process_phase list \<Rightarrow> (int \<times> control_targets) handler" where
  "v1_process session device_id phases =
     hbind (hresult (ensure_reactor_device_id device_id)) (\<lambda>_.
     hbind (hresult (session EditProcess)) (\<lambda>user.
     let actor = audit_actor_for_user user; reason = ''v1 process accepted after document range validation'' in
     hbind safety_of (\<lambda>safety.
     hbind (hresult (v1_process_targets safety phases)) (\<lambda>(total, tg).
     hbind (with_lock (\<lambda>env now unf rt.
         let rt1 = rt\<lparr>auto_enabled := False\<rparr> in
         lock_checks [ensure_target_update_interlock_clear (a_safety env) now rt1 V1ProcessLoad] rt1
           (Ok (latches_from_runtime rt1), rt1))) (\<lambda>acknowledged.
     hbind (insert_event actor None ''v1_process_loaded'' (Some (safe_command_from_runtime_targets tg reason)) reason)
       (\<lambda>audited.
     hbind (hany audited) (\<lambda>_.
     hbind (commit_targets_after_final_interlock tg V1ProcessLoad None (Some acknowledged)) (\<lambda>_.
     hreturn ((f64_to_i64 (f64_round total)), tg)))))))))"

section \<open>Starts fail closed\<close>

named_theorems closed_intros \<open>handlers that fail closed once they have written to the device\<close>

lemma device_fails_closed_then:
  "device_fails_closed h \<Longrightarrow> (\<And>a. never_fails (k a)) \<Longrightarrow> device_fails_closed (hbind h k)"
  by (auto simp: device_fails_closed_def never_fails_def hbind_Err_iff)

lemma device_fails_closed_pair: "(\<And>x y. device_fails_closed (k x y)) \<Longrightarrow> device_fails_closed (case p of (x, y) \<Rightarrow> k x y)"
  by (cases p) simp

lemma no_writes_if: "no_writes h \<Longrightarrow> no_writes h' \<Longrightarrow> no_writes (if c then h else h')"
  by simp

lemma no_writes_events: "no_writes (insert_event a b ty c r)"
  by (auto simp: no_writes_def insert_event_def Let_def split: sum.splits)

lemma no_writes_commit: "no_writes (commit_targets_after_final_interlock tg md expected g)"
  unfolding commit_targets_after_final_interlock_def by (intro no_writes_bind no_writes_intros)

lemmas no_writes_rules = no_writes_intros no_writes_more no_writes_if no_writes_events no_writes_commit no_writes_bind
lemmas closed_rules = device_fails_closed_bind device_fails_closed_case device_fails_closed_pair

lemma activate_batch_fails_closed: "device_fails_closed (activate_batch kind label event reason actor tg b enable g)"
  unfolding activate_batch_def
  by (rule device_fails_closed_attempt [OF start_on_device_fails_closed])
     (auto simp: audit_start_failed_before_activation_def Let_def
       intro!: quiet_bind quiet_intros fault_intros)

lemma start_batch_fails_closed: "device_fails_closed (start_batch session req)"
  unfolding start_batch_def Let_def
  by (intro closed_rules device_fails_closed_then [OF activate_batch_fails_closed] device_fails_closed_weaken(2)
      no_writes_rules fault_intros)

lemma v1_commit_fails_closed: "device_fails_closed (v1_commit auto device_id cid actor tg rt)"
  unfolding v1_commit_def
  by (intro device_fails_closed_case(2) device_fails_closed_bind [OF no_writes_intros(6)]
      device_fails_closed_bind [OF no_writes_intros(9)] activate_batch_fails_closed)
     (intro device_fails_closed_weaken(2) no_writes_rules)

lemma v1_control_fails_closed: "device_fails_closed (v1_control session device_id cid auto params)"
  unfolding v1_control_def v1_auto_start_precheck_def Let_def
  by (intro closed_rules device_fails_closed_then [OF v1_commit_fails_closed] no_writes_rules fault_intros)

text \<open>Starting production fails closed on every path: a batch start or a version-1 control request that
  wrote to the device and does not succeed ends with automatic control off and a latched control fault,
  whatever the device, the database and the other tasks do.\<close>

theorem production_start_fails_closed:
  assumes "start_batch session req env s = Some (Err e, s')
      \<or> v1_control session device_id cid auto params env s = Some (Err e, s')"
    and "h_writes s' \<noteq> h_writes s"
  shows "\<not> auto_enabled (h_rt s') \<and> last_control_error (h_rt s') \<noteq> None"
  using start_batch_fails_closed v1_control_fails_closed assms unfolding device_fails_closed_def faulted_def by blast

section \<open>What a successful request commits\<close>

lemma not_Err_unit: "(\<forall>e. z \<noteq> Err e) \<longleftrightarrow> z = Ok ()"
  by (cases z) auto

text \<open>Ticks in unary, so that positions reached by different numbers of steps compare.\<close>

lemma tick_eval:
  "(2 :: nat) = Suc (Suc 0)" "(3 :: nat) = Suc (Suc (Suc 0))" "(4 :: nat) = Suc (Suc (Suc (Suc 0)))"
  "(5 :: nat) = Suc (Suc (Suc (Suc (Suc 0))))" "(6 :: nat) = Suc (Suc (Suc (Suc (Suc (Suc 0)))))"
  "(7 :: nat) = Suc (Suc (Suc (Suc (Suc (Suc (Suc 0))))))" "(8 :: nat) = Suc (Suc (Suc (Suc (Suc (Suc (Suc (Suc 0)))))))"
  "(9 :: nat) = Suc (Suc (Suc (Suc (Suc (Suc (Suc (Suc (Suc 0))))))))"
  by simp_all

lemma run_activate_batch:
  assumes "activate_batch kind label event reason actor tg b en (latches_from_runtime seen) env s = Some (Ok (), s')"
  shows "\<exists>live. a_write env (h_tick s + 1) = Ok () \<and> h_tick s' = h_tick s + 5
     \<and> h_writes s' = h_writes s @ [safe_command_from_runtime_targets tg ''process start target write accepted by safety gate'']
     \<and> field_clear (a_clock env (h_tick s + 4)) (a_safety env) live \<and> same_generations seen live
     \<and> active_batch_id live = None
     \<and> (\<exists>batches. a_unfinished env (h_tick s + 3) = Ok batches \<and> batch_id ` set batches = {b})
     \<and> h_rt s' = live\<lparr>targets := tg, active_batch_id := Some b, auto_enabled := en\<rparr>"
proof -
  obtain s1 s2 where dev: "start_process_on_device tg (Some b) env s = Some (Ok (), s1)"
    and commit: "commit_process_activation_after_final_interlock b tg en (Some (latches_from_runtime seen)) env s2 = Some (Ok (), s')"
    and s2: "h_tick s2 = h_tick s1 + 1" "h_writes s2 = h_writes s1"
    using assms by (auto simp: activate_batch_def run_simps activation_failed_not_ok split_sum_ex not_Err_unit split: sum.splits)
  from run_start_on_device [OF dev] commit [unfolded run_commit_activation] s2 show ?thesis
    by (auto simp: eval_nat_numeral)
qed

lemma run_commit_targets_any:
  "commit_targets_after_final_interlock tg md None (Some (latches_from_runtime seen)) env s = Some (Ok (), s') \<longleftrightarrow>
     (\<exists>live. live = a_interfere env (h_tick s + 1) (h_rt s)
        \<and> field_clear (a_clock env (h_tick s + 1)) (a_safety env) live
        \<and> same_generations seen live \<and> batches_agree (a_unfinished env (h_tick s)) live
        \<and> s' = s\<lparr>h_rt := live\<lparr>targets := tg\<rparr>, h_tick := h_tick s + 2\<rparr>)"
  by (simp add: commit_targets_after_final_interlock_def run_simps gate_iff eval_nat_numeral
      ensure_safety_latches_unchanged_for_commit_def ensure_persisted_batch_status_consistent_def
      cong: conj_cong)
     (auto simp: batches_agree_def recovery_required_iff)

lemma same_generations_disarmed [simp]: "same_generations (rt\<lparr>auto_enabled := b\<rparr>) = same_generations rt"
  by (rule ext) (simp add: same_generations_def latches_changed_iff)

text \<open>A successful batch start commits what was asked for on a clear field: the targets are the validated
  ones, the device accepted exactly one command carrying them, and at the commit the field was clear, no
  latch had moved since the request disarmed automatic control, no batch was active and the new batch was
  the only unfinished one; automatic control stays off.\<close>

theorem batch_start_committed:
  assumes "start_batch session req env s = Some (Ok b, s')"
  shows "\<exists>pid tg live. is_ok (session StartStopProcess)
     \<and> batch_request_targets (a_safety env) (targets (a_interfere env (h_tick s) (h_rt s))) req = Ok (pid, tg)
     \<and> a_create_batch env (h_tick s + 3) = Ok b \<and> a_write env (h_tick s + 5) = Ok ()
     \<and> h_writes s' = h_writes s @ [safe_command_from_runtime_targets tg ''process start target write accepted by safety gate'']
     \<and> field_clear (a_clock env (h_tick s + 8)) (a_safety env) live \<and> active_batch_id live = None
     \<and> same_generations (a_interfere env (h_tick s + 1) (a_interfere env (h_tick s) (h_rt s))) live
     \<and> (\<exists>batches. a_unfinished env (h_tick s + 7) = Ok batches \<and> batch_id ` set batches = {batch_id b})
     \<and> h_rt s' = live\<lparr>targets := tg, active_batch_id := Some (batch_id b), auto_enabled := False\<rparr>"
proof -
  let ?rt1 = "a_interfere env (h_tick s + 1) (a_interfere env (h_tick s) (h_rt s))"
  obtain user pid tg s1 db where "session StartStopProcess = Ok user"
    and v: "batch_request_targets (a_safety env) (targets (a_interfere env (h_tick s) (h_rt s))) req = Ok (pid, tg)"
    and c: "a_create_batch env (h_tick s + 3) = Ok b"
    and s1: "s1 = s\<lparr>h_rt := ?rt1\<lparr>auto_enabled := False\<rparr>, h_tick := h_tick s + 4, h_db := db\<rparr>"
    and act: "activate_batch ''batch'' ''batch start'' ''batch_started'' ''batch started and runtime targets updated''
      (audit_actor_for_user user) tg (batch_id b) False (latches_from_runtime (?rt1\<lparr>auto_enabled := False\<rparr>)) env s1
      = Some (Ok (), s')"
    using assms by (auto simp: start_batch_def run_simps tick_eval split: if_splits)
  from run_activate_batch [OF act] s1 have r: "\<exists>live. a_write env (h_tick s + 5) = Ok ()
     \<and> h_writes s' = h_writes s @ [safe_command_from_runtime_targets tg ''process start target write accepted by safety gate'']
     \<and> field_clear (a_clock env (h_tick s + 8)) (a_safety env) live \<and> same_generations ?rt1 live
     \<and> active_batch_id live = None
     \<and> (\<exists>batches. a_unfinished env (h_tick s + 7) = Ok batches \<and> batch_id ` set batches = {batch_id b})
     \<and> h_rt s' = live\<lparr>targets := tg, active_batch_id := Some (batch_id b), auto_enabled := False\<rparr>"
    by (simp add: add.commute)
  with v c \<open>session StartStopProcess = Ok user\<close> show ?thesis by auto
qed

lemma run_v1_commit:
  assumes "v1_commit auto device_id cid actor tg (seen\<lparr>auto_enabled := False\<rparr>) env s = Some (Ok (), s')"
  shows "\<exists>live. field_clear (a_clock env (h_tick s' - 1)) (a_safety env) live \<and> same_generations seen live
     \<and> (if auto
        then \<exists>b. h_writes s' = h_writes s @ [safe_command_from_runtime_targets tg
              ''process start target write accepted by safety gate''] \<and> active_batch_id live = None
          \<and> h_rt s' = live\<lparr>targets := tg, active_batch_id := Some b, auto_enabled := True\<rparr>
        else h_writes s' = h_writes s \<and> h_rt s' = live\<lparr>targets := tg\<rparr>)"
proof (cases auto)
  case True
  then obtain b :: batch and db where act: "activate_batch ''v1 control'' ''v1 auto_start'' ''v1_control_accepted'' v1_reason actor tg
      (batch_id b) True (latches_from_runtime (seen\<lparr>auto_enabled := False\<rparr>)) env
      (s\<lparr>h_tick := Suc (h_tick s), h_db := db\<rparr>) = Some (Ok (), s')"
    using assms by (auto simp: v1_commit_def run_simps)
  from run_activate_batch [OF act] True show ?thesis by (auto simp: tick_eval)
next
  case False
  with assms show ?thesis
    by (auto simp: v1_commit_def run_simps run_commit_targets_any split: sum.splits)
qed

text \<open>A successful version-1 control request commits the validated targets on a clear field with
  unchanged latches. With \<open>auto_start\<close> the device accepted exactly one command carrying them and the commit
  activates the new batch and automatic control together; without it the device is not touched and only the
  targets change.\<close>

theorem v1_control_committed:
  assumes "v1_control session device_id cid auto params env s = Some (Ok d, s')"
  shows "\<exists>en tg live seen. optional_present_bool auto ''auto_start'' = Ok en
     \<and> validate_v1_control_params (a_safety env) params (unwrap_or en False) = Ok tg \<and> d = estimated_duration tg
     \<and> seen = (if unwrap_or en False then a_interfere env (h_tick s + 2) (a_interfere env (h_tick s) (h_rt s))
               else a_interfere env (h_tick s) (h_rt s))
     \<and> field_clear (a_clock env (h_tick s' - 1)) (a_safety env) live \<and> same_generations seen live
     \<and> (if unwrap_or en False
        then \<exists>b. h_writes s' = h_writes s @ [safe_command_from_runtime_targets tg
              ''process start target write accepted by safety gate''] \<and> active_batch_id live = None
          \<and> h_rt s' = live\<lparr>targets := tg, active_batch_id := Some b, auto_enabled := True\<rparr>
        else h_writes s' = h_writes s \<and> h_rt s' = live\<lparr>targets := tg\<rparr>)"
proof -
  obtain user en where u: "session SetSafeTargets = Ok user" and en: "optional_present_bool auto ''auto_start'' = Ok en"
    using assms by (auto simp: v1_control_def run_simps)
  let ?seen = "if unwrap_or en False then a_interfere env (h_tick s + 2) (a_interfere env (h_tick s) (h_rt s))
               else a_interfere env (h_tick s) (h_rt s)"
  obtain tg t where v: "validate_v1_control_params (a_safety env) params (unwrap_or en False) = Ok tg" "d = estimated_duration tg"
    and c: "v1_commit (unwrap_or en False) device_id cid (audit_actor_for_user user) tg (?seen\<lparr>auto_enabled := False\<rparr>) env
      (s\<lparr>h_rt := ?seen\<lparr>auto_enabled := False\<rparr>, h_tick := t\<rparr>) = Some (Ok (), s')"
    using assms u en
    by (cases "unwrap_or en False") (auto simp: v1_control_def v1_auto_start_precheck_def run_simps tick_eval split: if_splits)
  from run_v1_commit [OF c] en v show ?thesis by (cases "unwrap_or en False") simp_all
qed

section \<open>Finishing\<close>

lemma finish_missing_faulted: "fails_faulted (finish_missing_active_batch_recovery b)"
  unfolding finish_missing_active_batch_recovery_def
  by (intro fault_intros never_fails_faulted [OF never_fails_lock]) simp

lemma finish_failed_faulted: "fails_faulted (finish_failed True action err e)"
  unfolding finish_failed_def by (simp add: fault_intros)

lemma confirm_finish_run:
  "confirm_finish b True (Some tg) env s = Some (r, s') \<Longrightarrow>
     (case r of Inl e \<Rightarrow> faulted (h_rt s') | Inr _ \<Rightarrow> \<not> auto_enabled (h_rt s') \<and> targets (h_rt s') = tg)
     \<and> h_writes s' = h_writes s"
  by (auto simp: confirm_finish_def with_stop_targets_def with_lock_Some faulted_def latch_simps Let_def split: if_splits)

lemma map_err_Err: "map_err f z = Err e \<longleftrightarrow> (\<exists>x. z = Err x \<and> e = f x)"
  by (cases z) auto

lemma close_finished_run:
  assumes "close_finished_batch actor b True (Some tg) rcd env s = Some (r, s')"
  shows "h_writes s' = h_writes s \<and> (case r of
       Inl e \<Rightarrow> faulted (h_rt s') \<or> h_rt s' = h_rt s \<and> (\<exists>x. a_batch_by_id env (h_tick s' - 1) = Err x)
     | Inr _ \<Rightarrow> \<not> auto_enabled (h_rt s') \<and> targets (h_rt s') = tg \<and> active_batch_id (h_rt s') \<noteq> Some b)"
proof -
  have failed: "finish_failed True act err e env t = Some (q, t') \<Longrightarrow>
      h_writes t' = h_writes t \<and> faulted (h_rt t') \<and> q = Inl e" for act err e t q t'
    by (auto simp: finish_failed_def hbind_Some_iff latch_tail_failure_after_device_action_def with_lock_Some
        hfail_def hresult_def faulted_def latch_simps)
  show ?thesis
    using assms
    by (auto simp: close_finished_batch_def hbind_Some_iff db_exec_def db_call_def hany_def hresult_def hreturn_def
        insert_event_def with_lock_Some with_stop_targets_def map_err_Err Let_def
        split: if_splits sum.splits option.splits dest!: failed)
qed

lemma finish_missing_run:
  assumes "finish_missing_active_batch_recovery b env s = Some (Ok (), s')"
  shows "\<exists>tg. process_stop_targets (a_safety env) = Some tg \<and> \<not> auto_enabled (h_rt s') \<and> targets (h_rt s') = tg
     \<and> active_batch_id (h_rt s') \<noteq> Some b"
  using assms by (auto simp: finish_missing_active_batch_recovery_def run_simps run_stop_on_device dest!: finish_stop_Ok)

lemma finish_known_run:
  assumes "hbind (stop_process_on_device tg) (\<lambda>_. hbind (confirm_finish b True (Some tg)) (\<lambda>_.
      close_finished_batch actor b True (Some tg) rcd)) env s = Some (r, s')"
  shows "\<not> auto_enabled (h_rt s') \<and> (case r of
       Inl e \<Rightarrow> last_control_error (h_rt s') \<noteq> None \<or> (\<exists>x. a_batch_by_id env (h_tick s' - 1) = Err x)
     | Inr _ \<Rightarrow> targets (h_rt s') = tg \<and> active_batch_id (h_rt s') \<noteq> Some b)"
proof (cases "stop_process_on_device tg env s")
  case (Some p)
  obtain q s1 where p: "p = (q, s1)" by (cases p)
  show ?thesis
  proof (cases q)
    case (Inl e)
    then have "faulted (h_rt s')" "r = Inl e"
      using assms Some p stop_process_on_device_faulted [of tg] by (auto simp: hbind_def fails_faulted_def)
    then show ?thesis by (simp add: faulted_def)
  next
    case (Inr u)
    then have k: "hbind (confirm_finish b True (Some tg)) (\<lambda>_. close_finished_batch actor b True (Some tg) rcd) env s1
        = Some (r, s')" using assms Some p by (simp add: hbind_def)
    show ?thesis using k
      by (auto simp: hbind_Some_iff faulted_def dest!: confirm_finish_run close_finished_run split: sum.splits)
  qed
qed (use assms in \<open>simp add: hbind_def\<close>)

lemma finish_idle_writes:
  "no_writes (hbind (confirm_finish b False None) (\<lambda>_. close_finished_batch actor b False None rcd))"
  unfolding confirm_finish_def close_finished_batch_def finish_failed_def
  by (auto intro!: no_writes_rules split: sum.splits option.splits simp: latch_tail_failure_after_device_action_def)

lemma finish_batch_run:
  assumes "finish_batch session b env s = Some (r, s')" "h_writes s' \<noteq> h_writes s"
  obtains (missing) s1 where "finish_missing_active_batch_recovery b env s1 = Some (r, s')"
  | (stopped) tg actor rcd s1 where "process_stop_targets (a_safety env) = Some tg"
      "hbind (stop_process_on_device tg) (\<lambda>_. hbind (confirm_finish b True (Some tg)) (\<lambda>_.
         close_finished_batch actor b True (Some tg) rcd)) env s1 = Some (r, s')"
proof -
  let ?s1 = "s\<lparr>h_rt := a_interfere env (h_tick s) (h_rt s), h_tick := h_tick s + 2\<rparr>"
  obtain user rec where u: "session StartStopProcess = Ok user" and q: "a_batch_by_id env (h_tick s + 1) = Ok rec"
    using assms by (cases "session StartStopProcess"; cases "a_batch_by_id env (h_tick s + 1)")
      (auto simp: finish_batch_def hbind_def hresult_def read_lock_def with_lock_def db_call_def hany_def Let_def)
  note unf = finish_batch_def hbind_def hresult_def read_lock_def with_lock_def db_call_def hany_def Let_def
  show thesis
  proof (cases rec)
    case None
    then show thesis using assms u q missing [of ?s1]
      by (auto simp: unf hfail_def split: if_splits)
  next
    case (Some rcd)
    show thesis
    proof (cases "active_batch_id (a_interfere env (h_tick s) (h_rt s)) = Some b")
      case True
      then show thesis using assms u q Some stopped [of _ "audit_actor_for_user user" rcd ?s1]
        by (auto simp: unf safety_of_def hpanic_def hreturn_def split: sum.splits option.splits prod.splits)
    next
      case False
      have idle: "hbind (confirm_finish b False None) (\<lambda>_. close_finished_batch (audit_actor_for_user user) b False None rcd) env ?s1
          = Some (r, s') \<or> h_writes s' = h_writes s"
        using assms(1) u q Some False by (auto simp: unf hreturn_def split: sum.splits)
      then show thesis using finish_idle_writes assms(2) unfolding no_writes_def by fastforce
    qed
  qed
qed

text \<open>Finishing a batch that runs stops it first. Whatever happens after the stop command went out,
  automatic control is off at the end; a success means that the runtime holds the fail-safe targets and the
  batch is no longer active; a failure leaves a latched control fault, unless it was the reload of the batch
  record that failed.\<close>

theorem finish_batch_outcome:
  assumes "finish_batch session b env s = Some (r, s')" "h_writes s' \<noteq> h_writes s"
  shows "\<not> auto_enabled (h_rt s') \<and> (case r of
       Inl e \<Rightarrow> last_control_error (h_rt s') \<noteq> None \<or> (\<exists>x. a_batch_by_id env (h_tick s' - 1) = Err x)
     | Inr _ \<Rightarrow> process_stop_targets (a_safety env) = Some (targets (h_rt s')) \<and> active_batch_id (h_rt s') \<noteq> Some b)"
  using assms
proof (cases rule: finish_batch_run)
  case (missing s1)
  then show ?thesis using finish_missing_faulted [of b] finish_missing_run [of b env s1 s']
    by (cases r) (auto simp: fails_faulted_def faulted_def)
next
  case (stopped tg actor rcd s1)
  from finish_known_run [OF stopped(2)] stopped(1) show ?thesis by (auto split: sum.splits)
qed

section \<open>Witnesses\<close>

definition demo_request :: start_batch_request where
  "demo_request = \<lparr>sb_name = Some ''trial'', sb_process_id = None, sb_target_temperature_c = Some (Some (Num 60)),
     sb_target_stirrer_rpm = None, sb_target_shake_speed_cpm = None, sb_heating_minutes = None,
     sb_stirring_minutes = None\<rparr>"

definition demo_batch_targets :: control_targets where
  "demo_batch_targets = \<lparr>t_temperature_c = Num 60, t_heat_time_s = Num 3600, t_hold_time_s = Num 3600,
     t_cool_time_s = Num 180, t_stirrer_rpm = Num 300, t_shake_speed_cpm = Num 30, t_target_pressure_mpa = Num (1 / 2)\<rparr>"

lemmas validate_eval = validate_target_temperature_def validate_stir_speed_def validate_target_pair_allowed_def
  ensure_targets_allowed_def find_forbidden_control_zone_def zone_contains_def api_validate_range_def in_range_Num
  shipped_safety_def round_targets_def f64_mul_pos f64_div_pos

lemma demo_batch_request:
  "batch_request_targets shipped_safety (targets (h_rt (demo_hstate None))) demo_request = Ok (None, demo_batch_targets)"
  by (simp add: batch_request_targets_def validate_batch_start_targets_def validate_eval demo_request_def
      demo_hstate_def from_safety_def demo_batch_targets_def half_two_decimals Let_def)

lemma demo_batch_prefix:
  "\<exists>db. start_batch demo_session demo_request (demo_process_env w) (demo_hstate None) =
     hbind (activate_batch ''batch'' ''batch start'' ''batch_started'' ''batch started and runtime targets updated''
         (audit_actor_for_user (make_auth_user ''op'' Operator)) demo_batch_targets 7 False
         (latches_from_runtime (h_rt (demo_hstate None)))) (\<lambda>_. hreturn demo_batch)
       (demo_process_env w) ((demo_hstate None)\<lparr>h_tick := 4, h_db := db\<rparr>)"
proof -
  have s: "h_tick (demo_hstate None) = 0" "h_db (demo_hstate None) = []" by (simp_all add: demo_hstate_def)
  have g: "ensure_no_unclosed_db_batch_for_new_production (Ok []) (h_rt (demo_hstate None)) = Ok ()"
    "ensure_target_update_interlock_clear shipped_safety 0 (h_rt (demo_hstate None)) BatchStart = Ok ()"
    using demo_can_start demo_field_clear
    by (auto simp: ensure_process_can_start_def bind_res_Ok_iff interlock_clear_iff split: if_splits)
  have ex: "has_explicit_control_field demo_request" by (simp add: has_explicit_control_field_def demo_request_def)
  have b: "batch_id demo_batch = 7" by (simp add: demo_batch_def)
  show ?thesis
    by (rule exI [of _ "[CreateBatch None (clean_label (sb_name demo_request) ''batch'' 160) (Num 60) (Num 300)
        (round2 (f64_div (Num 3600) (Num 60))) (round2 (f64_div (Num 3600) (Num 60)))]"])
      (simp add: start_batch_def hbind_def hresult_def demo_session_def ex read_lock_def with_lock_def safety_of_def
      demo_batch_request disarm_def check_snapshot_def db_exec_def hany_def demo_disarmed Let_def g s b tick_eval,
      simp add: demo_batch_targets_def)
qed

theorem production_start_fails_closed_witness:
  "\<exists>e s'. start_batch demo_session demo_request (demo_process_env (Err [''serial port closed''])) (demo_hstate None)
       = Some (Err e, s')
     \<and> h_writes s' \<noteq> h_writes (demo_hstate None) \<and> \<not> auto_enabled (h_rt s') \<and> last_control_error (h_rt s') \<noteq> None"
proof -
  obtain e s' where run: "start_batch demo_session demo_request (demo_process_env (Err [''serial port closed''])) (demo_hstate None)
      = Some (Err e, s')" "h_writes s' \<noteq> h_writes (demo_hstate None)"
    using demo_batch_prefix [of "Err [''serial port closed'']"]
    by (auto simp: activate_batch_def hbind_def hattempt_def demo_start_on_device audit_start_failed_before_activation_def
        insert_event_def db_exec_def hfail_def hresult_def hreturn_def Let_def)
  from production_start_fails_closed [OF disjI1 [OF run(1)] run(2)] run show ?thesis by blast
qed

lemma demo_commit:
  assumes "h_rt s = h_rt (demo_hstate None)" "4 \<le> h_tick s"
  shows "commit_process_activation_after_final_interlock 7 tg en (Some (latches_from_runtime (h_rt (demo_hstate None))))
      (demo_process_env (Ok ())) s = Some (Ok (), s\<lparr>h_rt := (h_rt s)\<lparr>targets := tg, active_batch_id := Some 7, auto_enabled := en\<rparr>,
        h_tick := h_tick s + 2\<rparr>)"
proof -
  have "batch_id demo_batch = 7" by (simp add: demo_batch_def)
  moreover have "active_batch_id (h_rt (demo_hstate None)) = None" by (simp add: demo_hstate_def from_safety_def)
  moreover have "same_generations rt rt" for rt by (simp add: same_generations_def latches_changed_iff)
  ultimately show ?thesis using assms demo_field_clear by (simp add: run_commit_activation)
qed

theorem batch_start_committed_witness:
  "\<exists>s'. start_batch demo_session demo_request (demo_process_env (Ok ())) (demo_hstate None) = Some (Ok demo_batch, s')
     \<and> active_batch_id (h_rt s') = Some (batch_id demo_batch) \<and> \<not> auto_enabled (h_rt s')"
proof -
  obtain s' where run: "start_batch demo_session demo_request (demo_process_env (Ok ())) (demo_hstate None) = Some (Ok demo_batch, s')"
    using demo_batch_prefix [of "Ok ()"]
    by (auto simp: activate_batch_def hbind_def hattempt_def demo_start_on_device insert_event_def demo_commit
        hreturn_def Let_def)
  from batch_start_committed [OF run] run show ?thesis by force
qed

definition demo_v1_params :: "f64 \<Rightarrow> v1_control_params" where
  "demo_v1_params temp = \<lparr>v1_heat_time = None, v1_hold_time = None, v1_cool_time = None, v1_stir_speed = Some (Some (Num 300)),
     v1_shake_speed = None, v1_target_temp = Some (Some temp), v1_target_pressure = None\<rparr>"

definition demo_v1_targets :: "f64 \<Rightarrow> control_targets" where
  "demo_v1_targets temp = \<lparr>t_temperature_c = temp, t_heat_time_s = Num 300, t_hold_time_s = Num 600,
     t_cool_time_s = Num 180, t_stirrer_rpm = Num 300, t_shake_speed_cpm = Num 30, t_target_pressure_mpa = Num (1 / 2)\<rparr>"

lemma demo_v1_validated:
  assumes "0 \<le> q" "q < 125"
  shows "validate_v1_control_params shipped_safety (demo_v1_params (Num q)) auto = Ok (demo_v1_targets (round2 (Num q)))"
  using assms
  by (simp add: validate_v1_control_params_def demo_v1_params_def check_v1_targets_def validate_eval demo_v1_targets_def
      half_two_decimals f64_eq_def)

theorem v1_control_committed_witness:
  "\<exists>s'. v1_control demo_session ''reactor_001'' None (Some (Some True)) (demo_v1_params (Num 60)) (demo_process_env (Ok ()))
       (demo_hstate None) = Some (Ok (estimated_duration (demo_v1_targets (Num 60))), s') \<and> auto_enabled (h_rt s')"
proof -
  let ?env = "demo_process_env (Ok ())" and ?s = "demo_hstate None"
  have s: "h_tick ?s = 0" "active_batch_id (h_rt ?s) = None" "batch_id demo_batch = 7"
    by (simp_all add: demo_hstate_def from_safety_def demo_batch_def)
  have g: "ensure_no_unclosed_db_batch_for_new_production (Ok []) (h_rt ?s) = Ok ()"
    "ensure_target_update_interlock_clear shipped_safety 0 (h_rt ?s) DesiredTargets = Ok ()"
    using demo_can_start demo_field_clear
    by (auto simp: ensure_process_can_start_def bind_res_Ok_iff interlock_clear_iff split: if_splits)
  obtain s' where run: "v1_control demo_session ''reactor_001'' None (Some (Some True)) (demo_v1_params (Num 60)) ?env ?s
      = Some (Ok (estimated_duration (demo_v1_targets (Num 60))), s')"
    by (simp add: v1_control_def hbind_def hresult_def ensure_reactor_device_id_def demo_session_def safety_of_def
        demo_v1_validated v1_auto_start_precheck_def read_lock_def with_lock_def check_snapshot_def g s disarm_def
        demo_disarmed v1_commit_def db_exec_def hany_def activate_batch_def hattempt_def demo_start_on_device
        insert_event_def demo_commit hreturn_def Let_def)
  from v1_control_committed [OF run] run show ?thesis by auto
qed

text \<open>The forbidden-zone check of a version-1 control request precedes the rounding of its targets: with
  the shipped configuration a request just below the zone is accepted, and the targets that are sent to the
  device and committed lie inside it.\<close>

theorem v1_targets_in_forbidden_zone:
  "\<exists>params tg. validate_v1_control_params shipped_safety params True = Ok tg
     \<and> is_forbidden_control_zone shipped_safety (t_temperature_c tg) (t_stirrer_rpm tg)"
proof -
  have "is_forbidden_control_zone shipped_safety (Num 125) (Num 300)"
    by (simp add: is_forbidden_control_zone_def zone_contains_def shipped_safety_def)
  moreover have "validate_v1_control_params shipped_safety (demo_v1_params (Num (31999 / 256))) True
      = Ok (demo_v1_targets (Num 125))"
    by (simp add: demo_v1_validated edge_rounds_into_zone)
  ultimately show ?thesis by (fastforce simp: demo_v1_targets_def)
qed

text \<open>The batch record as the database reports it after the update.\<close>

definition demo_finish_env :: "anyhow + batch option \<Rightarrow> api_env" where
  "demo_finish_env reload = (demo_process_env (Ok ()))\<lparr>a_batch_by_id := (\<lambda>t. if t \<le> 1 then Ok (Some demo_batch) else reload)\<rparr>"

lemma demo_finish_env_simps [simp]:
  "a_safety (demo_finish_env r) = shipped_safety" "a_interfere (demo_finish_env r) t rt = rt"
  "a_audit (demo_finish_env r) t = Ok ()" "a_write (demo_finish_env r) t = Ok ()"
  "a_finish_batch (demo_finish_env r) t = Ok ()"
  "a_batch_by_id (demo_finish_env r) t = (if t \<le> 1 then Ok (Some demo_batch) else r)"
  by (simp_all add: demo_finish_env_def)

lemmas finish_eval = finish_batch_def hbind_def hresult_def read_lock_def with_lock_def db_call_def hany_def
  finish_batch_checks_def safety_of_def hpanic_def stop_process_on_device_def device_write_def hreturn_def
  confirm_finish_def with_stop_targets_def close_finished_batch_def db_exec_def insert_event_def finish_failed_def
  demo_session_def demo_running_def demo_batch_def Let_def

theorem finish_batch_outcome_witness:
  "\<exists>s'. finish_batch demo_session 7 (demo_finish_env (Ok (Some (demo_batch\<lparr>finished_at := Some 0\<rparr>)))) demo_running
       = Some (Ok (), s')
     \<and> h_writes s' \<noteq> h_writes demo_running \<and> active_batch_id (h_rt s') \<noteq> Some 7 \<and> \<not> auto_enabled (h_rt s')"
proof -
  obtain stop where stop: "process_stop_targets shipped_safety = Some stop"
    using process_stop_targets_total [OF shipped_safety_valid] by blast
  obtain s' where run: "finish_batch demo_session 7 (demo_finish_env (Ok (Some (demo_batch\<lparr>finished_at := Some 0\<rparr>)))) demo_running
      = Some (Ok (), s')" "h_writes s' \<noteq> h_writes demo_running"
    by (simp add: finish_eval stop demo_hstate_def)
  from finish_batch_outcome [OF run] run show ?thesis by auto
qed

text \<open>The exception in the outcome of finishing a batch is real: when the database fails while the
  record is read back, the request fails after the device was stopped, no control fault is latched, and
  the batch stays active in the runtime although its record is closed.\<close>

theorem finish_reload_failure_not_latched:
  "\<exists>e s'. finish_batch demo_session 7 (demo_finish_env (Err [''disk I/O error''])) demo_running = Some (Err e, s')
     \<and> h_writes s' \<noteq> h_writes demo_running \<and> FinishBatch 7 \<in> set (h_db s')
     \<and> last_control_error (h_rt s') = None \<and> active_batch_id (h_rt s') = Some 7"
proof -
  obtain stop where stop: "process_stop_targets shipped_safety = Some stop"
    using process_stop_targets_total [OF shipped_safety_valid] by blast
  then show ?thesis by (simp add: finish_eval demo_hstate_def from_safety_def)
qed

section \<open>Latches and totality\<close>

lemma v1_process_targets_allowed:
  "v1_process_targets safety phases = Ok (d, tg) \<Longrightarrow>
   find_forbidden_control_zone safety (t_temperature_c tg) (t_stirrer_rpm tg) = None"
  by (auto simp: v1_process_targets_def bind_res_Ok_iff targets_allowed_iff split: if_splits)

lemma keeps_pair [keeps_intros]: "(\<And>x y. keeps P (k x y)) \<Longrightarrow> keeps P (case p of (x, y) \<Rightarrow> k x y)"
  by (cases p) simp

lemma returns_pair [returns_intros]: "(\<And>x y. returns (k x y)) \<Longrightarrow> returns (case p of (x, y) \<Rightarrow> k x y)"
  by (cases p) simp

lemma keeps_activate_batch [latch_keeps]:
  "keeps latches_hold (activate_batch kind label event reason actor tg b en g)"
  unfolding activate_batch_def audit_start_failed_before_activation_def Let_def by (intro keeps_intros latch_keeps)

lemma keeps_commit_any [latch_keeps]: "keeps latches_hold (commit_targets_after_final_interlock tg md expected g)"
  by (rule api_latches.keeps_commit_targets) simp

lemma keeps_finish_parts [latch_keeps]:
  "keeps latches_hold (confirm_finish b w st)" "keeps latches_hold (finish_failed w act err e)"
  "keeps latches_hold (close_finished_batch actor b w st r)"
proof -
  show "keeps latches_hold (confirm_finish b w st)"
    unfolding confirm_finish_def
    by (rule keeps_lock) (auto simp: latches_hold_def with_stop_targets_def latch_simps Let_def split: option.splits)
  show failed: "keeps latches_hold (finish_failed w act err e :: 'x handler)" for act err e
    unfolding finish_failed_def by (intro keeps_intros latch_keeps)
  show "keeps latches_hold (close_finished_batch actor b w st r)"
    unfolding close_finished_batch_def finish_failed_def
    by (intro keeps_intros latch_keeps) (auto simp: latches_hold_def with_stop_targets_def Let_def split: option.splits)
qed

lemma keeps_production [latch_keeps]:
  "keeps latches_hold (start_batch session req)" "keeps latches_hold (finish_batch session b)"
  "keeps latches_hold (v1_control session device_id cid auto params)" "keeps latches_hold (v1_process session device_id phases)"
proof -
  have missing: "keeps latches_hold (finish_missing_active_batch_recovery b)"
    unfolding finish_missing_active_batch_recovery_def by (intro keeps_intros latch_keeps) (simp add: latches_hold_def)
  show "keeps latches_hold (start_batch session req)"
    unfolding start_batch_def Let_def by (intro keeps_intros latch_keeps)
  show "keeps latches_hold (finish_batch session b)"
    unfolding finish_batch_def Let_def by (intro keeps_intros latch_keeps missing)
  show "keeps latches_hold (v1_control session device_id cid auto params)"
    unfolding v1_control_def v1_auto_start_precheck_def v1_commit_def Let_def by (intro keeps_intros latch_keeps)
  show "keeps latches_hold (v1_process session device_id phases)"
    unfolding v1_process_def Let_def by (intro keeps_intros latch_keeps) (auto simp: snd_lock_checks latches_hold_def)
qed

lemma returns_production [returns_intros]:
  "returns (start_batch session req)" "returns (finish_batch session b)"
  "returns (v1_control session device_id cid auto params)" "returns (v1_process session device_id phases)"
proof -
  have act: "returns (activate_batch kind label event reason actor tg b en g)" for kind label event reason actor tg b en g
    unfolding activate_batch_def by (intro returns_intros)
  have small: "returns disarm" "returns (check_snapshot f)" "returns (commit_targets_after_final_interlock tg md x g)"
    for f tg md x g
    unfolding disarm_def commit_targets_after_final_interlock_def
    by (intro returns_intros | simp add: returns_def check_snapshot_def Let_def)+
  show "returns (start_batch session req)"
    unfolding start_batch_def Let_def by (intro returns_intros act small) (simp add: returns_def safety_of_def)
  show "returns (v1_control session device_id cid auto params)"
    unfolding v1_control_def v1_auto_start_precheck_def v1_commit_def Let_def
    by (intro returns_intros act small) (simp add: returns_def safety_of_def)
  show "returns (v1_process session device_id phases)"
    unfolding v1_process_def Let_def by (intro returns_intros small) (simp add: returns_def safety_of_def)
  have missing: "returns (finish_missing_active_batch_recovery b)"
    unfolding finish_missing_active_batch_recovery_def
    by (rule returns_safety [OF process_stop_targets_total]) (assumption | intro returns_intros)+
  have stop: "returns (hbind safety_of (\<lambda>safety. hbind (hpanic (process_stop_targets safety)) (\<lambda>tg.
      hbind (stop_process_on_device tg) (\<lambda>_. hreturn (Some tg)))))"
    by (rule returns_safety [OF process_stop_targets_total]) (assumption | intro returns_intros)+
  show "returns (finish_batch session b)"
    unfolding finish_batch_def confirm_finish_def close_finished_batch_def finish_failed_def Let_def
    by (intro returns_intros missing stop)
qed

end
