(* ===== verification/Esp32.thy ===== *)
theory Esp32
  imports Control_Loop Operator_Text
begin

unbundle bit_operations_syntax

text \<open>
  The ESP32 serial protocol of \<open>device.rs\<close>: text frames of fields separated by a bar, closed by an XOR
  checksum, for samples, commands and acknowledgements; the bounded line reader; and the command
  handshake. A Rust string is its list of bytes, so \<open>as_bytes\<close> is the identity.

  The main facts: a built sample or acknowledgement frame parses back to what was put in; every change of
  one byte of a checksummed body is refused; a line never grows past its bound; the handshake returns once
  the clock passes the deadline, and answers \<open>Confirmed\<close> only for an acknowledgement of the request itself.
\<close>

section \<open>Checksums\<close>

definition checksum_byte :: "string \<Rightarrow> u8" where
  "checksum_byte bytes = foldl (\<lambda>acc b. acc XOR of_char b) 0 bytes"

definition hex_upper :: "nat \<Rightarrow> char" where
  "hex_upper n = (if n < 10 then char_of (48 + n) else char_of (55 + n))"

definition checksum_hex :: "string \<Rightarrow> string" where
  "checksum_hex bytes = (let n = unat (checksum_byte bytes) in [hex_upper (n div 16), hex_upper (n mod 16)])"

section \<open>Building frames\<close>

definition close_frame :: "string \<Rightarrow> bool \<Rightarrow> string" where
  "close_frame body checksum_enabled =
     (if checksum_enabled then body @ ''|chk='' @ checksum_hex body @ [CHR 0x0A] else body @ [CHR 0x0A])"

definition field_text :: "string \<times> string \<Rightarrow> string" where
  "field_text = (\<lambda>(key, value). ''|'' @ key @ ''='' @ value)"

definition frame_body :: "string \<Rightarrow> (string \<times> string) list \<Rightarrow> string" where
  "frame_body prefix fs = prefix @ concat (map field_text fs)"

definition command_fields :: "safe_command \<Rightarrow> (string \<times> string) list" where
  "command_fields c =
     [(''heat_time'', fmt_fixed 2 (c_heat_time_s c)), (''hold_time'', fmt_fixed 2 (c_hold_time_s c)),
      (''cool_time'', fmt_fixed 2 (c_cool_time_s c)), (''target_temp'', fmt_fixed 2 (c_target_temperature_c c)),
      (''stir_speed'', fmt_fixed 2 (c_target_stirrer_rpm c)),
      (''shake_speed'', fmt_fixed 2 (c_target_shake_speed_cpm c)),
      (''target_pressure'', fmt_fixed 2 (c_target_pressure_mpa c))]"

definition build_esp32_command :: "string \<Rightarrow> safe_command \<Rightarrow> bool \<Rightarrow> string" where
  "build_esp32_command prefix command checksum_enabled =
     close_frame (frame_body prefix ((''v'', ''1'') # command_fields command)) checksum_enabled"

definition build_esp32_command_with_rid :: "string \<Rightarrow> safe_command \<Rightarrow> string \<Rightarrow> bool \<Rightarrow> string" where
  "build_esp32_command_with_rid prefix command request_id checksum_enabled =
     close_frame (frame_body prefix ((''v'', ''1'') # (''rid'', request_id) # command_fields command)) checksum_enabled"

record esp32_ack =
  ea_request_id :: string
  ea_ok :: bool
  ea_error :: "string option"

definition build_esp32_ack_frame :: "string \<Rightarrow> string \<Rightarrow> bool \<Rightarrow> string option \<Rightarrow> bool \<Rightarrow> string" where
  "build_esp32_ack_frame prefix request_id ok error checksum_enabled =
     close_frame (frame_body prefix
       ([(''v'', ''1''), (''type'', ''ack''), (''rid'', request_id), (''ok'', if ok then ''1'' else ''0'')]
        @ (case error of Some err \<Rightarrow> [(''err'', err)] | None \<Rightarrow> []))) checksum_enabled"

definition build_esp32_sample_frame :: "string \<Rightarrow> sensor_snapshot \<Rightarrow> bool \<Rightarrow> string" where
  "build_esp32_sample_frame prefix sample checksum_enabled =
     close_frame (frame_body prefix
       [(''v'', ''1''), (''seq'', ''0''), (''ms'', show_int (max 0 (timestamp_millis (s_captured_at sample)))),
        (''temp'', fmt_fixed 2 (s_temperature_c sample)), (''pressure'', fmt_fixed 2 (s_pressure_mpa sample)),
        (''stir_speed'', fmt_fixed 2 (s_stirrer_rpm sample)),
        (''shake_speed'', fmt_fixed 2 (s_shake_speed_cpm sample)),
        (''tilt_state'', digits_nat (unat (s_tilt_state sample))),
        (''flow_rate'', fmt_fixed 2 (s_flow_rate_l_min sample)),
        (''product_concentration'', fmt_fixed 2 (s_product_concentration_percent sample)),
        (''ph'', fmt_fixed 2 (s_ph sample))]) checksum_enabled"

section \<open>Parsing frames\<close>

type_synonym frame_fields = "string \<rightharpoonup> string"

text \<open>The loop over the parts after the prefix. \<open>kind\<close> is the word the error messages of the two parsers
  differ in; the last checksum field wins and its index is kept.\<close>

fun collect_fields ::
    "string \<Rightarrow> nat \<Rightarrow> string list \<Rightarrow> frame_fields \<Rightarrow> (string \<times> nat) option
     \<Rightarrow> anyhow + frame_fields \<times> (string \<times> nat) option" where
  "collect_fields kind index [] fs chk = Ok (fs, chk)"
| "collect_fields kind index (part # parts) fs chk = (case split_once (CHR ''='') part of
       None \<Rightarrow> Err [''invalid '' @ kind @ '' field '' @ part]
     | Some (key, value) \<Rightarrow>
         if key = ''chk'' then collect_fields kind (Suc index) parts fs (Some (value, index))
         else collect_fields kind (Suc index) parts (fs(key \<mapsto> value)) chk)"

definition verify_checksum ::
    "string \<Rightarrow> string \<Rightarrow> string list \<Rightarrow> (string \<times> nat) option \<Rightarrow> anyhow + unit" where
  "verify_checksum kind mismatch parts chk = (case chk of
       None \<Rightarrow> Err [kind @ '' missing checksum'']
     | Some (value, index) \<Rightarrow>
         let expected = checksum_hex (join_with ''|'' (take index parts)) in
         if eq_ignore_ascii_case value expected then Ok ()
         else Err [mismatch @ '' checksum mismatch expected '' @ expected @ '' got '' @ value])"

definition parse_fields :: "string \<Rightarrow> string \<Rightarrow> string \<Rightarrow> string \<Rightarrow> bool \<Rightarrow> anyhow + frame_fields" where
  "parse_fields kind mismatch line expected_prefix checksum_enabled =
     (let parts = split_on (CHR ''|'') (trim line) in
      if hd parts \<noteq> expected_prefix then Err [''unexpected '' @ kind @ '' prefix'']
      else bind_res (collect_fields kind 1 (tl parts) Map.empty None) (\<lambda>(fs, chk).
        if checksum_enabled then bind_res (verify_checksum kind mismatch parts chk) (\<lambda>_. Ok fs)
        else Ok fs))"

definition required_field :: "frame_fields \<Rightarrow> string \<Rightarrow> anyhow + string" where
  "required_field fs key = ok_or (fs key) [''esp32 frame missing field '' @ key]"

definition parse_f64_value :: "string \<Rightarrow> string \<Rightarrow> anyhow + f64" where
  "parse_f64_value key value = (case parse_f64 value of
       None \<Rightarrow> Err [''invalid esp32 field '' @ key @ '': '' @ parse_f64_error value]
     | Some x \<Rightarrow> if is_finite x then Ok x
                 else Err [''invalid esp32 field '' @ key @ '': non-finite value''])"

fun parse_optional_f64_any :: "frame_fields \<Rightarrow> string list \<Rightarrow> anyhow + f64 option" where
  "parse_optional_f64_any fs [] = Ok None"
| "parse_optional_f64_any fs (key # keys) = (case fs key of
       Some value \<Rightarrow> bind_res (parse_f64_value key value) (\<lambda>x. Ok (Some x))
     | None \<Rightarrow> parse_optional_f64_any fs keys)"

fun parse_f64_any :: "frame_fields \<Rightarrow> string list \<Rightarrow> string \<Rightarrow> anyhow + f64" where
  "parse_f64_any fs [] canonical = Err [''esp32 frame missing field '' @ canonical]"
| "parse_f64_any fs (key # keys) canonical = (case fs key of
       Some value \<Rightarrow> parse_f64_value key value
     | None \<Rightarrow> parse_f64_any fs keys canonical)"

definition parse_tilt_state_value :: "string \<Rightarrow> string \<Rightarrow> anyhow + u8" where
  "parse_tilt_state_value key value =
     (if trim value = ''0'' then Ok 0 else if trim value = ''1'' then Ok 1
      else Err [''invalid esp32 field '' @ key @ '': tilt state must be 0 or 1, got '' @ trim value])"

fun parse_tilt_state_any :: "frame_fields \<Rightarrow> string list \<Rightarrow> string \<Rightarrow> anyhow + u8" where
  "parse_tilt_state_any fs [] canonical = Err [''esp32 frame missing field '' @ canonical]"
| "parse_tilt_state_any fs (key # keys) canonical = (case fs key of
       Some value \<Rightarrow> parse_tilt_state_value key value
     | None \<Rightarrow> parse_tilt_state_any fs keys canonical)"

text \<open>\<open>None\<close> is the panic of the clamp inside the fitted tilt angle; it does not occur (its bounds are
  literals), which the round trip below shows.\<close>

definition parse_esp32_frame ::
    "(f64 \<Rightarrow> f64) \<Rightarrow> time \<Rightarrow> string \<Rightarrow> string \<Rightarrow> bool \<Rightarrow> (anyhow + sensor_snapshot) option" where
  "parse_esp32_frame sin_f now line expected_prefix checksum_enabled =
     (case bind_res (parse_fields ''esp32 frame'' ''esp32'' line expected_prefix checksum_enabled) (\<lambda>fs.
           bind_res (required_field fs ''v'') (\<lambda>version.
           if version \<noteq> ''1'' then Err [''unsupported esp32 frame version '' @ version]
           else bind_res (parse_f64_any fs [''shake_speed'', ''shake''] ''shake_speed'') (\<lambda>shake.
             bind_res (parse_tilt_state_any fs [''tilt_state'', ''tilt''] ''tilt_state'') (\<lambda>tilt.
             Ok (fs, shake, tilt))))) of
        Inl e \<Rightarrow> Some (Err e)
      | Inr (fs, shake, tilt) \<Rightarrow>
          map_option (\<lambda>angle.
            bind_res (parse_f64_any fs [''temp'', ''temperature''] ''temp'') (\<lambda>temp.
            bind_res (parse_f64_any fs [''pressure''] ''pressure'') (\<lambda>pressure.
            bind_res (parse_f64_any fs [''stir_speed'', ''rpm''] ''stir_speed'') (\<lambda>rpm.
            bind_res (parse_f64_any fs [''flow_rate'', ''flow''] ''flow_rate'') (\<lambda>flow.
            bind_res (parse_optional_f64_any fs [''product_concentration'', ''conc'', ''concentration''])
              (\<lambda>conc.
            bind_res (parse_optional_f64_any fs [''ph'']) (\<lambda>ph.
            Ok \<lparr>s_temperature_c = temp, s_pressure_mpa = pressure, s_stirrer_rpm = rpm,
                s_shake_speed_cpm = shake, s_tilt_state = tilt, s_tilt_angle_deg = angle,
                s_flow_rate_l_min = flow, s_product_concentration_percent = unwrap_or conc (lit 0),
                s_ph = unwrap_or ph (lit 7), s_captured_at = now\<rparr>)))))))
          (fit_tilt_angle_deg sin_f tilt shake now))"

definition parse_esp32_ack_frame :: "string \<Rightarrow> string \<Rightarrow> bool \<Rightarrow> anyhow + esp32_ack" where
  "parse_esp32_ack_frame line expected_prefix checksum_enabled =
     bind_res (parse_fields ''esp32 ack frame'' ''esp32 ack'' line expected_prefix checksum_enabled) (\<lambda>fs.
     bind_res (required_field fs ''v'') (\<lambda>version.
     if version \<noteq> ''1'' then Err [''unsupported esp32 ack frame version'']
     else bind_res (required_field fs ''type'') (\<lambda>ty.
     if ty \<noteq> ''ack'' then Err [''esp32 frame is not an ack'']
     else bind_res (required_field fs ''rid'') (\<lambda>rid.
     bind_res (required_field fs ''ok'') (\<lambda>ok.
     if ok = ''1'' \<or> ok = ''true''
     then Ok \<lparr>ea_request_id = rid, ea_ok = True, ea_error = fs ''err''\<rparr>
     else if ok = ''0'' \<or> ok = ''false''
     then Ok \<lparr>ea_request_id = rid, ea_ok = False, ea_error = fs ''err''\<rparr>
     else Err [''invalid esp32 ack ok field '' @ ok])))))"

section \<open>The bounded line reader\<close>

text \<open>One call of \<open>read\<close> on a one-byte buffer: a byte, the end of the stream, or an error (a time-out is
  one). A list of such results is the future of the port; an exhausted list stays at its end.\<close>

datatype read_event = Byte char | Eof | ReadFailed

fun read_bytes :: "nat \<Rightarrow> string \<Rightarrow> read_event list \<Rightarrow> (anyhow + string) \<times> read_event list" where
  "read_bytes max_bytes buf [] = (Ok buf, [])"
| "read_bytes max_bytes buf (Eof # evs) = (Ok buf, evs)"
| "read_bytes max_bytes buf (ReadFailed # evs) = (Err [''read failed''], evs)"
| "read_bytes max_bytes buf (Byte c # evs) =
     (if c = CHR 0x0A \<or> max_bytes < length (buf @ [c]) then (Ok (buf @ [c]), evs)
      else read_bytes max_bytes (buf @ [c]) evs)"

definition read_bounded_line :: "nat \<Rightarrow> read_event list \<Rightarrow> (anyhow + nat \<times> string) \<times> read_event list" where
  "read_bounded_line max_bytes evs = (case read_bytes max_bytes [] evs of
       (Inl e, evs') \<Rightarrow> (Err e, evs')
     | (Inr buf, evs') \<Rightarrow>
         (if valid_utf8 buf then Ok (length buf, buf) else Err [''serial line is not valid UTF-8''], evs'))"

section \<open>The command handshake\<close>

definition ack_of_frame :: "esp32_ack \<Rightarrow> ack_status" where
  "ack_of_frame ack = (if ea_ok ack then Confirmed
     else Rejected (unwrap_or (ea_error ack) ''downstream rejected command''))"

text \<open>The waiting loop. The list of clock readings gives one reading per round; \<open>None\<close> means that the loop
  is still waiting when they run out.\<close>

fun handshake_loop ::
    "esp32_config \<Rightarrow> string \<Rightarrow> time \<Rightarrow> time list \<Rightarrow> read_event list \<Rightarrow> command_ack option" where
  "handshake_loop cfg request_id deadline [] evs = None"
| "handshake_loop cfg request_id deadline (now # clocks) evs =
     (if deadline \<le> now
      then Some \<lparr>ack_request_id = request_id, ack_status_of = Timeout, accepted_targets = None\<rparr>
      else case read_bounded_line (max_line_bytes cfg) evs of
        (Inl _, evs') \<Rightarrow> handshake_loop cfg request_id deadline clocks evs'
      | (Inr (n, line), evs') \<Rightarrow>
          if n = 0 then handshake_loop cfg request_id deadline clocks evs'
          else case parse_esp32_ack_frame line (frame_prefix cfg) (checksum cfg) of
            Inl _ \<Rightarrow> handshake_loop cfg request_id deadline clocks evs'
          | Inr ack \<Rightarrow>
              if ea_request_id ack = request_id
              then Some \<lparr>ack_request_id = request_id, ack_status_of = ack_of_frame ack, accepted_targets = None\<rparr>
              else handshake_loop cfg request_id deadline clocks evs')"

text \<open>The acknowledged write: the frame that goes out, and the answer. \<open>opened\<close> is the result of writing,
  flushing and cloning the port.\<close>

definition esp32_write_targets :: "esp32_config \<Rightarrow> safe_command \<Rightarrow> anyhow + unit \<Rightarrow> string \<times> (anyhow + unit)" where
  "esp32_write_targets cfg command written =
     (build_esp32_command (command_prefix cfg) command (checksum cfg), written)"

definition esp32_write_targets_acknowledged ::
    "esp32_config \<Rightarrow> safe_command \<Rightarrow> string \<Rightarrow> time \<Rightarrow> anyhow + unit \<Rightarrow> time list \<Rightarrow> read_event list
     \<Rightarrow> string \<times> (anyhow + command_ack) option" where
  "esp32_write_targets_acknowledged cfg command request_id deadline opened clocks evs =
     (build_esp32_command_with_rid (command_prefix cfg) command request_id (checksum cfg),
      case opened of Inl e \<Rightarrow> Some (Err e)
      | Inr _ \<Rightarrow> map_option Ok (handshake_loop cfg request_id deadline clocks evs))"

section \<open>Modbus registers\<close>

definition decode_read_register :: "u16 \<Rightarrow> read_register \<Rightarrow> anyhow + f64" where
  "decode_read_register raw register =
     (let value = f64_add (f64_mul (f64_of_int (uint raw)) (rr_scale register)) (rr_offset register) in
      if \<not> in_range (min_valid register) (max_valid register) value
      then Err [''register '' @ show_int (uint (rr_address register)) @ '' value '' @ display_f64 value
                @ '' outside valid range '' @ display_f64 (min_valid register) @ ''..''
                @ display_f64 (max_valid register)]
      else Ok (round2 value))"

definition encode_write_register :: "f64 \<Rightarrow> write_register \<Rightarrow> anyhow + u16" where
  "encode_write_register value register =
     (if f64_eq (wr_scale register) (lit 0)
      then Err [''register '' @ show_int (uint (wr_address register)) @ '' has zero scale'']
      else let raw = f64_round (f64_div (f64_sub value (wr_offset register)) (wr_scale register)) in
        if \<not> in_range (lit 0) (f64_of_int 65535) raw
        then Err [''value '' @ display_f64 value @ '' cannot be encoded for register ''
                  @ show_int (uint (wr_address register))]
        else Ok (f64_to_u16 raw))"

definition decode_write_register :: "u16 \<Rightarrow> write_register \<Rightarrow> f64" where
  "decode_write_register raw register =
     round2 (f64_add (f64_mul (f64_of_int (uint raw)) (wr_scale register)) (wr_offset register))"

text \<open>The RTU client of \<open>tokio_modbus\<close> is a parameter: reading and writing one holding register in a state
  of the bus.\<close>

type_synonym 's rtu_read = "u16 \<Rightarrow> 's \<Rightarrow> (anyhow + u16) \<times> 's"
type_synonym 's rtu_write = "u16 \<Rightarrow> u16 \<Rightarrow> 's \<Rightarrow> (anyhow + unit) \<times> 's"

definition bus_bind :: "('e + 'a) \<times> 's \<Rightarrow> ('a \<Rightarrow> 's \<Rightarrow> ('e + 'b) \<times> 's) \<Rightarrow> ('e + 'b) \<times> 's" where
  "bus_bind p k = (case p of (Inl e, s) \<Rightarrow> (Inl e, s) | (Inr a, s) \<Rightarrow> k a s)"

definition modbus_write_targets :: "'s rtu_write \<Rightarrow> registers_config \<Rightarrow> safe_command \<Rightarrow> 's \<Rightarrow> (anyhow + unit) \<times> 's" where
  "modbus_write_targets write_reg regs command s =
     bus_bind (encode_write_register (c_target_temperature_c command) (reg_target_temperature_c regs), s) (\<lambda>temp s.
     bus_bind (write_reg (wr_address (reg_target_temperature_c regs)) temp s) (\<lambda>_ s.
     bus_bind (encode_write_register (c_target_stirrer_rpm command) (reg_target_stirrer_rpm regs), s) (\<lambda>stir s.
     bus_bind (write_reg (wr_address (reg_target_stirrer_rpm regs)) stir s) (\<lambda>_ s. (Ok (), s)))))"

definition modbus_write_targets_acknowledged ::
    "'s rtu_write \<Rightarrow> 's rtu_read \<Rightarrow> registers_config \<Rightarrow> safe_command \<Rightarrow> string \<Rightarrow> 's \<Rightarrow> (anyhow + command_ack) \<times> 's" where
  "modbus_write_targets_acknowledged write_reg read_reg regs command request_id s =
     (let rt = reg_target_temperature_c regs; rs = reg_target_stirrer_rpm regs in
      bus_bind (encode_write_register (c_target_temperature_c command) rt, s) (\<lambda>temp s.
      bus_bind (encode_write_register (c_target_stirrer_rpm command) rs, s) (\<lambda>stir s.
      bus_bind (write_reg (wr_address rt) temp s) (\<lambda>_ s.
      bus_bind (write_reg (wr_address rs) stir s) (\<lambda>_ s.
      bus_bind (read_reg (wr_address rt) s) (\<lambda>held_temp s.
      bus_bind (read_reg (wr_address rs) s) (\<lambda>held_stir s.
      if held_temp \<noteq> temp \<or> held_stir \<noteq> stir
      then (Ok \<lparr>ack_request_id = request_id, ack_status_of = Rejected
             (''modbus read-back mismatch: target_temperature_c held ''
              @ display_f64 (decode_write_register held_temp rt) @ '' sent ''
              @ display_f64 (c_target_temperature_c command) @ '', target_stirrer_rpm held ''
              @ display_f64 (decode_write_register held_stir rs) @ '' sent ''
              @ display_f64 (c_target_stirrer_rpm command)), accepted_targets = None\<rparr>, s)
      else (Ok \<lparr>ack_request_id = request_id, ack_status_of = Confirmed,
             accepted_targets = Some \<lparr>t_temperature_c = decode_write_register held_temp rt,
               t_heat_time_s = c_heat_time_s command, t_hold_time_s = c_hold_time_s command,
               t_cool_time_s = c_cool_time_s command, t_stirrer_rpm = decode_write_register held_stir rs,
               t_shake_speed_cpm = c_target_shake_speed_cpm command,
               t_target_pressure_mpa = c_target_pressure_mpa command\<rparr>\<rparr>, s))))))))"

section \<open>Frames as lists of parts\<close>

definition part_of :: "string \<times> string \<Rightarrow> string" where
  "part_of = (\<lambda>(key, value). key @ ''='' @ value)"

lemma frame_body_join: "frame_body prefix fs = join_with ''|'' (prefix # map part_of fs)"
proof (induction fs arbitrary: prefix)
  case (Cons f fs)
  have "frame_body prefix (f # fs) = prefix @ ''|'' @ frame_body (part_of f) fs"
    by (simp add: frame_body_def field_text_def part_of_def split: prod.splits)
  with Cons show ?case by simp
qed (simp add: frame_body_def)

lemma join_with_snoc: "ps \<noteq> [] \<Longrightarrow> join_with sep (ps @ [p]) = join_with sep ps @ sep @ p"
  by (induction ps rule: induct_list012) auto

lemma join_split: "join_with [c] (split_on c s) = s"
proof (induction s)
  case (Cons x s)
  then show ?case by (cases "split_on c s"; cases "tl (split_on c s)") auto
qed simp

text \<open>The parts a frame is closed with.\<close>

definition closing :: "string \<Rightarrow> bool \<Rightarrow> string list" where
  "closing body checksum_enabled = (if checksum_enabled then [''chk='' @ checksum_hex body] else [])"

lemma close_frame_join:
  "ps \<noteq> [] \<Longrightarrow> close_frame (join_with ''|'' ps) b = join_with ''|'' (ps @ closing (join_with ''|'' ps) b) @ [CHR 0x0A]"
  by (simp add: close_frame_def closing_def join_with_snoc)

lemma hex_upper_props:
  assumes "n < 16"
  shows "\<not> is_space (hex_upper n)" "hex_upper n \<noteq> CHR ''|''" "hex_upper n \<noteq> CHR ''=''" "hex_upper n \<noteq> CHR 0x0A"
proof -
  have "list_all (\<lambda>n. \<not> is_space (hex_upper n) \<and> hex_upper n \<noteq> CHR ''|'' \<and> hex_upper n \<noteq> CHR ''=''
      \<and> hex_upper n \<noteq> CHR 0x0A) [0..<16]" by code_simp
  with assms show "\<not> is_space (hex_upper n)" "hex_upper n \<noteq> CHR ''|''" "hex_upper n \<noteq> CHR ''=''" "hex_upper n \<noteq> CHR 0x0A"
    by (auto simp: list_all_iff)
qed

lemma of_char_small: "k < 256 \<Longrightarrow> (of_char (char_of k :: char) :: nat) = k"
  by (simp add: of_char_of take_bit_nat_eq_self)

lemma hex_upper_value:
  assumes "n < 16"
  shows "(of_char (ascii_lower (hex_upper n)) :: nat) = (if n < 10 then 48 + n else 87 + n)"
proof (cases "n < 10")
  case True
  then have "(of_char (hex_upper n) :: nat) = 48 + n" by (simp add: hex_upper_def of_char_small del: of_char_of)
  then show ?thesis using True by (simp add: ascii_lower_def)
next
  case False
  then have "(of_char (hex_upper n) :: nat) = 55 + n" using assms
    by (simp add: hex_upper_def of_char_small del: of_char_of)
  then show ?thesis using False assms by (simp add: ascii_lower_def of_char_small del: of_char_of)
qed

lemma hex_upper_inj: "m < 16 \<Longrightarrow> n < 16 \<Longrightarrow> ascii_lower (hex_upper m) = ascii_lower (hex_upper n) \<longleftrightarrow> m = n"
proof
  assume mn: "m < 16" "n < 16" and eq: "ascii_lower (hex_upper m) = ascii_lower (hex_upper n)"
  have "(if m < 10 then 48 + m else 87 + m) = (if n < 10 then 48 + n else 87 + n)"
    unfolding hex_upper_value [OF mn(1), symmetric] hex_upper_value [OF mn(2), symmetric] by (simp only: eq)
  then show "m = n" using mn by (simp split: if_splits)
qed simp

lemma unat_u8_less: "unat (w :: u8) div 16 < 16" "unat (w :: u8) mod 16 < 16"
  using unsigned_less [where 'a = nat, of w] by (auto simp: less_mult_imp_div_less)

lemma checksum_hex_eq_iff:
  "eq_ignore_ascii_case (checksum_hex a) (checksum_hex b) \<longleftrightarrow> checksum_byte a = checksum_byte b"
proof
  assume "eq_ignore_ascii_case (checksum_hex a) (checksum_hex b)"
  then have "unat (checksum_byte a) div 16 = unat (checksum_byte b) div 16"
    "unat (checksum_byte a) mod 16 = unat (checksum_byte b) mod 16"
    by (simp_all add: eq_ignore_ascii_case_def checksum_hex_def Let_def hex_upper_inj unat_u8_less)
  then have "unat (checksum_byte a) = unat (checksum_byte b)" by (metis div_mult_mod_eq)
  then show "checksum_byte a = checksum_byte b" by (simp add: word_unat_eq_iff)
qed (simp add: eq_ignore_ascii_case_def checksum_hex_def)

lemma checksum_hex_chars: "c \<in> set (checksum_hex s) \<Longrightarrow> \<not> is_space c \<and> c \<noteq> CHR ''|'' \<and> c \<noteq> CHR ''='' \<and> c \<noteq> CHR 0x0A"
  using hex_upper_props unat_u8_less by (auto simp: checksum_hex_def Let_def)

lemma checksum_hex_ne [simp]: "checksum_hex s \<noteq> []" by (simp add: checksum_hex_def Let_def)

text \<open>The XOR of a changed byte differs.\<close>

lemma foldl_xor: "foldl (\<lambda>acc b. acc XOR of_char b) a s = a XOR foldl (\<lambda>acc b. acc XOR of_char b) (0 :: u8) s"
proof (induction s arbitrary: a)
  case (Cons x s)
  show ?case using Cons.IH [of "a XOR of_char x"] Cons.IH [of "of_char x"]
    by (simp add: xor.assoc)
qed simp

lemma checksum_byte_append: "checksum_byte (s @ t) = checksum_byte s XOR checksum_byte t"
  unfolding checksum_byte_def by (subst foldl_append, subst foldl_xor) simp

lemma checksum_byte_Cons: "checksum_byte (c # t) = of_char c XOR checksum_byte t"
  using checksum_byte_append [of "[c]" t] by (simp add: checksum_byte_def)

lemma of_char_u8_inj: "(of_char c :: u8) = of_char d \<longleftrightarrow> c = d"
proof
  assume "(of_char c :: u8) = of_char d"
  then have "unat (of_char c :: u8) = unat (of_char d :: u8)" by simp
  moreover have "unat (of_char e :: u8) = of_char e" for e :: char
    by (simp only: of_nat_of_char [where 'a = u8, of e, symmetric] unat_of_nat) simp
  ultimately show "c = d" by simp
qed simp

lemma checksum_change:
  assumes "i < length s" "c \<noteq> s ! i"
  shows "checksum_byte (s[i := c]) \<noteq> checksum_byte s"
proof -
  have s: "s = take i s @ s ! i # drop (Suc i) s" using assms(1) by (simp add: id_take_nth_drop)
  have "s[i := c] = take i s @ c # drop (Suc i) s" using assms(1) by (simp add: upd_conv_take_nth_drop)
  moreover have "a XOR (x XOR b) = a XOR (y XOR b) \<longleftrightarrow> x = y" for a b x y :: u8
    by (auto simp: bit_eq_iff bit_xor_iff)
  ultimately show ?thesis using assms(2) of_char_u8_inj
    by (subst (2) s) (simp add: checksum_byte_append checksum_byte_Cons)
qed

section \<open>Reading back a built frame\<close>

definition clean_prefix :: "string \<Rightarrow> bool" where
  "clean_prefix prefix \<longleftrightarrow> prefix \<noteq> [] \<and> \<not> is_space (hd prefix) \<and> CHR ''|'' \<notin> set prefix"

definition clean_field :: "string \<times> string \<Rightarrow> bool" where
  "clean_field = (\<lambda>(key, value). CHR ''='' \<notin> set key \<and> CHR ''|'' \<notin> set key \<and> key \<noteq> ''chk'' \<and> CHR ''|'' \<notin> set value)"

definition add_field :: "frame_fields \<Rightarrow> string \<times> string \<Rightarrow> frame_fields" where
  "add_field m f = m(fst f \<mapsto> snd f)"

lemma add_field_pair [simp]: "add_field m (k, v) = m(k \<mapsto> v)"
  by (simp add: add_field_def)

lemma checksum_hex_no_bar [simp]: "CHR ''|'' \<notin> set (checksum_hex s)"
  using checksum_hex_chars by blast

lemma trim_newline:
  assumes "s \<noteq> []" "\<not> is_space (hd s)" "\<not> is_space (last s)"
  shows "trim (s @ [CHR 0x0A]) = s"
proof -
  have "dropWhile is_space (s @ [CHR 0x0A]) = s @ [CHR 0x0A]" using assms by (cases s) auto
  then have "trim (s @ [CHR 0x0A]) = trim_end s" by (simp add: trim_def trim_end_def is_space_def)
  moreover have "trim s = trim_end s" using assms by (cases s) (auto simp: trim_def)
  ultimately show ?thesis using trim_id assms by simp
qed

lemma collect_clean:
  "list_all clean_field fs \<Longrightarrow>
   collect_fields kind i (map part_of fs @ rest) m chk
     = collect_fields kind (i + length fs) rest (foldl add_field m fs) chk"
proof (induction fs arbitrary: i m)
  case (Cons f fs)
  obtain k v where f: "f = (k, v)" by force
  have "split_once (CHR ''='') (part_of f) = Some (k, v)"
    using Cons.prems by (simp add: f part_of_def clean_field_def split_once_append)
  then show ?case using Cons by (simp add: f clean_field_def)
qed simp

lemma part_of_clean: "clean_field f \<Longrightarrow> CHR ''|'' \<notin> set (part_of f)"
  by (auto simp: clean_field_def part_of_def split: prod.splits)

lemma join_ne: "p \<noteq> [] \<Longrightarrow> join_with sep (p # ps) \<noteq> []"
  by (cases ps) auto

lemma hd_join: "p \<noteq> [] \<Longrightarrow> hd (join_with sep (p # ps)) = hd p"
  by (cases ps) auto

lemma last_join: "sep \<noteq> [] \<Longrightarrow> last (p # ps) \<noteq> [] \<Longrightarrow> last (join_with sep (p # ps)) = last (last (p # ps))"
proof (induction ps arbitrary: p)
  case (Cons q ps)
  then have "join_with sep (q # ps) \<noteq> []" by (cases ps) auto
  with Cons show ?case by simp
qed simp

lemma parse_fields_built:
  assumes prefix: "clean_prefix prefix" and fs: "list_all clean_field fs" "fs \<noteq> []"
    and closed: "b \<or> (snd (last fs) \<noteq> [] \<and> \<not> is_space (last (snd (last fs))))"
  shows "parse_fields kind mm (close_frame (frame_body prefix fs) b) prefix b
     = Ok (foldl add_field Map.empty fs)"
proof -
  let ?ps = "prefix # map part_of fs" and ?body = "frame_body prefix fs"
  let ?all = "?ps @ closing ?body b"
  have body: "?body = join_with ''|'' ?ps" by (rule frame_body_join)
  have line: "close_frame ?body b = join_with ''|'' ?all @ [CHR 0x0A]"
    unfolding body by (rule close_frame_join) simp
  have nobar: "\<forall>p \<in> set ?all. CHR ''|'' \<notin> set p"
    using prefix fs(1) part_of_clean
    by (auto simp: clean_prefix_def list_all_iff closing_def)
  have "last ?all \<noteq> [] \<and> \<not> is_space (last (last ?all))"
  proof (cases b)
    case True
    then show ?thesis using checksum_hex_chars [of "last (checksum_hex ?body)" ?body]
      by (simp add: closing_def)
  next
    case False
    then show ?thesis using closed fs(2) by (auto simp: closing_def last_map part_of_def split: prod.splits)
  qed
  then have "trim (close_frame ?body b) = join_with ''|'' ?all"
    unfolding line using prefix hd_join [of prefix "''|''"] last_join [of "''|''" prefix "map part_of fs @ closing ?body b"]
    by (intro trim_newline) (auto simp: clean_prefix_def dest: join_ne)
  then have split: "split_on (CHR ''|'') (trim (close_frame ?body b)) = ?all"
    using split_on_join [of ?all] nobar by simp
  have "take (Suc (length fs)) ?all = ?ps" by simp
  then have "verify_checksum kind mm ?all (Some (checksum_hex ?body, Suc (length fs))) = Ok ()"
    using body by (simp add: verify_checksum_def Let_def eq_ignore_ascii_case_def)
  then show ?thesis
    using collect_clean [OF fs(1), of kind 1 "closing ?body b" Map.empty None]
    unfolding parse_fields_def split Let_def
    by (cases b) (simp_all add: closing_def)
qed

section \<open>Properties\<close>

text \<open>An acknowledgement frame reads back as what was put in: request id, outcome and error text, with
  and without checksum, for any prefix that does not start with white space and any texts without the field
  separator (without a checksum the last field must not end in white space, which the reader trims).\<close>

lemma ack_frame_roundtrip:
  assumes "clean_prefix prefix" "CHR ''|'' \<notin> set rid" "\<forall>e. error = Some e \<longrightarrow> CHR ''|'' \<notin> set e"
    and "b \<or> (\<forall>e. error = Some e \<longrightarrow> e \<noteq> [] \<and> \<not> is_space (last e))"
  shows "parse_esp32_ack_frame (build_esp32_ack_frame prefix rid ok error b) prefix b
     = Ok \<lparr>ea_request_id = rid, ea_ok = ok, ea_error = error\<rparr>"
proof -
  let ?fs = "[(''v'', ''1''), (''type'', ''ack''), (''rid'', rid), (''ok'', if ok then ''1'' else ''0'')]
    @ (case error of Some err \<Rightarrow> [(''err'', err)] | None \<Rightarrow> [])"
  have "parse_fields ''esp32 ack frame'' ''esp32 ack'' (build_esp32_ack_frame prefix rid ok error b) prefix b
      = Ok (foldl add_field Map.empty ?fs)"
    unfolding build_esp32_ack_frame_def
    by (rule parse_fields_built [OF assms(1)])
       (use assms(2-4) in \<open>auto simp: clean_field_def is_space_def split: option.splits if_splits\<close>)
  then show ?thesis
    by (cases error) (simp_all add: parse_esp32_ack_frame_def required_field_def)
qed

lemma fixed_digits_chars: "c \<in> set (fixed_digits p n) \<Longrightarrow> is_digit c \<or> c = CHR ''.''"
proof -
  have "is_digit (CHR ''0'')" by (simp add: is_digit_def)
  then show "c \<in> set (fixed_digits p n) \<Longrightarrow> is_digit c \<or> c = CHR ''.''"
    using list_all_digits_nat by (auto simp: fixed_digits_def pad_left_def list_all_iff split: if_splits)
qed

lemma fmt_fixed_chars: "is_finite x \<Longrightarrow> c \<in> set (fmt_fixed p x) \<Longrightarrow> is_digit c \<or> c = CHR ''.'' \<or> c = CHR ''-''"
  using fixed_digits_chars by (cases x) (auto simp: fmt_fixed_def split: if_splits)

lemma fmt_fixed_no_bar: "is_finite x \<Longrightarrow> CHR ''|'' \<notin> set (fmt_fixed p x)"
  using fmt_fixed_chars [of x "CHR ''|''" p] by (auto simp: is_digit_def)

lemma fmt_fixed_last: "is_finite x \<Longrightarrow> fmt_fixed p x \<noteq> [] \<and> \<not> is_space (last (fmt_fixed p x))"
proof
  assume x: "is_finite x"
  obtain c cs where "fixed_digits p (nat (round_half_even (\<bar>fval x\<bar> * 10 ^ p))) = c # cs"
    using fixed_digits_head by blast
  then show "fmt_fixed p x \<noteq> []" using x by (cases x) (auto simp: fmt_fixed_def)
  then have "last (fmt_fixed p x) \<in> set (fmt_fixed p x)" by simp
  from fmt_fixed_chars [OF x this] show "\<not> is_space (last (fmt_fixed p x))"
    by (auto simp: is_digit_def is_space_def)
qed

lemma show_int_no_bar: "CHR ''|'' \<notin> set (show_int i)"
  using set_show_int [of i] by (auto simp: is_digit_def)

lemma bit_digits: "digits_nat 0 = ''0''" "digits_nat (Suc 0) = ''1''"
  by code_simp+

lemma digits_tilt: "s_tilt_state s \<in> {0, 1} \<Longrightarrow> CHR ''|'' \<notin> set (digits_nat (unat (s_tilt_state s)))
  \<and> parse_tilt_state_value k (digits_nat (unat (s_tilt_state s))) = Ok (s_tilt_state s)"
  by (auto simp: bit_digits parse_tilt_state_value_def trim_def trim_end_def is_space_def)


section \<open>Corruption\<close>

lemma hd_split_on: "hd (split_on c s) = takeWhile (\<lambda>x. x \<noteq> c) s"
  by (induction s) (auto split: list.splits)

lemma takeWhile_no_bar: "c \<notin> set s \<Longrightarrow> takeWhile (\<lambda>x. x \<noteq> c) (s @ c # t) = s"
  by (induction s) auto

lemma split_on_snoc: "c \<notin> set t \<Longrightarrow> split_on c (s @ c # t) = split_on c s @ [t]"
  by (induction s) (auto simp: split_on_no_sep split: list.splits)

lemma not_ok_Err: "(r :: 'e + unit) \<noteq> Ok () \<Longrightarrow> \<exists>e. r = Err e"
  by (cases r) auto

lemma collect_last_chk:
  "collect_fields kind i (ps @ [''chk='' @ x]) m chk = Ok (fs, ch) \<Longrightarrow> ch = Some (x, i + length ps)"
  by (induction ps arbitrary: i m chk) (auto split: option.splits prod.splits if_splits, force+)

lemma last_dropWhile: "dropWhile P s \<noteq> [] \<Longrightarrow> last (dropWhile P s) = last s"
  by (induction s) (auto split: if_splits)

lemma dropWhile_hd: "t \<noteq> [] \<Longrightarrow> \<not> P (hd t) \<Longrightarrow> dropWhile P t = t"
  by (cases t) auto

lemma trim_closed:
  assumes "s \<noteq> []" "\<not> is_space (last s)"
  shows "trim (s @ [CHR 0x0A]) = dropWhile is_space s"
proof -
  have "dropWhile is_space (s @ [CHR 0x0A]) = dropWhile is_space s @ [CHR 0x0A]"
    using dropWhile_append1 [where P = is_space, OF last_in_set [OF assms(1)] assms(2)] .
  moreover have "dropWhile is_space (rev (dropWhile is_space s)) = rev (dropWhile is_space s)"
  proof (rule dropWhile_hd)
    show ne: "rev (dropWhile is_space s) \<noteq> []"
      using assms last_in_set [OF assms(1)] by (auto simp: dropWhile_eq_Nil_conv)
    then show "\<not> is_space (hd (rev (dropWhile is_space s)))"
      using assms(2) last_dropWhile [of is_space s] by (simp add: hd_rev)
  qed
  moreover have "is_space (CHR 0x0A)" by (simp add: is_space_def)
  ultimately show ?thesis by (simp add: trim_def trim_end_def)
qed

lemma parse_fields_corrupt:
  assumes prefix: "clean_prefix prefix" and i: "i < length (prefix @ CHR ''|'' # rest)"
    and c: "c \<noteq> (prefix @ CHR ''|'' # rest) ! i"
  defines "body \<equiv> prefix @ CHR ''|'' # rest"
  shows "\<exists>e. parse_fields kind mm (body[i := c] @ ''|chk='' @ checksum_hex body @ [CHR 0x0A]) prefix True = Err e"
proof -
  let ?b = "body[i := c]" and ?x = "''chk='' @ checksum_hex body"
  let ?line = "?b @ ''|chk='' @ checksum_hex body @ [CHR 0x0A]"
  have line: "?line = (?b @ CHR ''|'' # ?x) @ [CHR 0x0A]" by simp
  have x: "CHR ''|'' \<notin> set ?x" "\<not> is_space (last ?x)"
    using checksum_hex_chars [of "last (checksum_hex body)" body] by simp_all
  then have trim: "trim ?line = dropWhile is_space (?b @ CHR ''|'' # ?x)"
    unfolding line by (intro trim_closed) simp_all
  have bar: "\<not> is_space (CHR ''|'')" by (simp add: is_space_def)
  obtain p ps where p: "prefix = p # ps" "\<not> is_space p" "CHR ''|'' \<notin> set ps"
    using prefix by (cases prefix) (auto simp: clean_prefix_def)
  show ?thesis
  proof (cases "is_space (hd ?b)")
    case True
    with p have i0: "i = 0" by (cases i) (simp_all add: body_def)
    have "dropWhile is_space (?b @ CHR ''|'' # ?x) = dropWhile is_space ps @ CHR ''|'' # rest @ CHR ''|'' # ?x"
      using True p bar by (auto simp: body_def i0 dropWhile_append)
    moreover have "CHR ''|'' \<notin> set (dropWhile is_space ps)" using p(3) set_dropWhileD by fast
    ultimately have "hd (split_on (CHR ''|'') (trim ?line)) = dropWhile is_space ps"
      unfolding trim hd_split_on using takeWhile_no_bar by simp
    moreover have "length (dropWhile is_space ps) < length prefix"
      using length_dropWhile_le [of is_space ps] p(1) by simp
    ultimately have "hd (split_on (CHR ''|'') (trim ?line)) \<noteq> prefix" by auto
    then show ?thesis unfolding parse_fields_def Let_def by simp
  next
    case False
    then have "dropWhile is_space (?b @ CHR ''|'' # ?x) = ?b @ CHR ''|'' # ?x"
      using i by (cases ?b) (auto simp: body_def)
    then have split: "split_on (CHR ''|'') (trim ?line) = split_on (CHR ''|'') ?b @ [?x]"
      unfolding trim using split_on_snoc [OF x(1)] by simp
    have "checksum_byte ?b \<noteq> checksum_byte body" using checksum_change i c unfolding body_def by blast
    then have mis: "\<not> eq_ignore_ascii_case (checksum_hex body) (checksum_hex ?b)"
      using checksum_hex_eq_iff by metis
    have chk: "ch = Some (checksum_hex body, length (split_on (CHR ''|'') ?b))"
      if "collect_fields kind 1 (tl (split_on (CHR ''|'') ?b @ [?x])) Map.empty None = Ok (fs, ch)" for fs ch
      using that collect_last_chk [of kind 1 "tl (split_on (CHR ''|'') ?b)" "checksum_hex body" Map.empty None fs ch]
      by (simp del: collect_fields.simps)
    have "verify_checksum kind mm (split_on (CHR ''|'') ?b @ [?x])
        (Some (checksum_hex body, length (split_on (CHR ''|'') ?b))) \<noteq> Ok ()"
      using mis join_split [of "CHR ''|''" ?b] by (simp add: verify_checksum_def Let_def)
    then obtain e where ver: "verify_checksum kind mm (split_on (CHR ''|'') ?b @ [?x])
        (Some (checksum_hex body, length (split_on (CHR ''|'') ?b))) = Err e" using not_ok_Err by blast
    show ?thesis
    proof (cases "collect_fields kind 1 (tl (split_on (CHR ''|'') ?b @ [?x])) Map.empty None")
      case (Inl e)
      then show ?thesis unfolding parse_fields_def split Let_def by (simp only: bind_res.simps) auto
    next
      case (Inr q)
      then obtain fs where "collect_fields kind 1 (tl (split_on (CHR ''|'') ?b @ [?x])) Map.empty None
          = Ok (fs, Some (checksum_hex body, length (split_on (CHR ''|'') ?b)))"
        using chk by (cases q) blast
      then show ?thesis unfolding parse_fields_def split Let_def by (simp only: bind_res.simps prod.case ver) auto
    qed
  qed
qed


section \<open>The line bound\<close>

lemma read_bytes_bound:
  "read_bytes n buf evs = (Ok line, evs') \<Longrightarrow> length buf \<le> n \<Longrightarrow> length line \<le> Suc n"
proof (induction n buf evs rule: read_bytes.induct)
  case (4 n buf c evs)
  then show ?case by (auto split: if_splits)
qed auto

text \<open>A line is never longer than the configured bound plus the byte that reached it, whatever the
  peer sends.\<close>

lemma read_bounded_line_bound:
  "read_bounded_line max_bytes evs = (Ok (n, line), evs') \<Longrightarrow> n = length line \<and> n \<le> Suc max_bytes"
  using read_bytes_bound [of max_bytes "[]" evs]
  by (auto simp: read_bounded_line_def split: prod.splits sum.splits if_splits)

section \<open>The handshake\<close>

text \<open>The handshake ends: as soon as one clock reading is at or past the deadline the loop has
  returned, whatever the port delivered (silence, errors, garbage or stale acknowledgements).\<close>

theorem handshake_returns:
  "\<exists>t \<in> set clocks. deadline \<le> t \<Longrightarrow> \<exists>ack. handshake_loop cfg rid deadline clocks evs = Some ack"
proof (induction clocks arbitrary: evs)
  case (Cons now clocks)
  then show ?case by (auto split: prod.splits sum.splits)
qed simp

fun bytes_of :: "read_event list \<Rightarrow> string" where
  "bytes_of [] = []"
| "bytes_of (Byte c # evs) = c # bytes_of evs"
| "bytes_of (_ # evs) = bytes_of evs"

lemma read_bytes_sublist:
  "read_bytes n buf evs = (r, evs') \<Longrightarrow> \<exists>dropped. buf @ bytes_of evs = dropped @ bytes_of evs'
     \<and> (\<forall>line. r = Ok line \<longrightarrow> dropped = line)"
proof (induction n buf evs rule: read_bytes.induct)
  case (4 n buf c evs)
  then show ?case by (fastforce split: if_splits)
qed auto

lemma read_line_sublist:
  assumes "read_bounded_line n evs = (r, evs')"
  shows "\<exists>dropped. bytes_of evs = dropped @ bytes_of evs' \<and> (\<forall>k line. r = Ok (k, line) \<longrightarrow> dropped = line)"
proof -
  obtain q evs1 where q: "read_bytes n [] evs = (q, evs1)" by force
  from read_bytes_sublist [OF q] assms q show ?thesis
    by (auto simp: read_bounded_line_def split: sum.splits if_splits)
qed

lemma handshake_line:
  "handshake_loop cfg rid deadline clocks evs = Some a \<Longrightarrow> ack_status_of a \<noteq> Timeout \<Longrightarrow>
   \<exists>pre line post ack. bytes_of evs = pre @ line @ post
     \<and> parse_esp32_ack_frame line (frame_prefix cfg) (checksum cfg) = Ok ack
     \<and> ea_request_id ack = rid \<and> a = \<lparr>ack_request_id = rid, ack_status_of = ack_of_frame ack, accepted_targets = None\<rparr>"
proof (induction clocks arbitrary: evs)
  case (Cons now clocks)
  obtain r evs' where r: "read_bounded_line (max_line_bytes cfg) evs = (r, evs')" by force
  obtain d where d: "bytes_of evs = d @ bytes_of evs'" "\<forall>k line. r = Ok (k, line) \<longrightarrow> d = line"
    using read_line_sublist [OF r] by blast
  have step: ?case if "handshake_loop cfg rid deadline clocks evs' = Some a"
    using Cons.IH [OF that Cons.prems(2)] d(1) by (metis append_assoc)
  have hit: ?case if "r = Ok (k, line)" "parse_esp32_ack_frame line (frame_prefix cfg) (checksum cfg) = Ok ack"
    "ea_request_id ack = rid" "a = \<lparr>ack_request_id = rid, ack_status_of = ack_of_frame ack, accepted_targets = None\<rparr>"
    for k line ack
    using that d by (intro exI [of _ "[]"] exI [of _ line] exI [of _ "bytes_of evs'"] exI [of _ ack]) simp
  have "\<not> deadline \<le> now" using Cons.prems by auto
  then show ?case using Cons.prems(1) r step hit by (auto split: sum.splits if_splits prod.splits)
qed simp


text \<open>Printable text: what the frames carry.\<close>

definition ascii_text :: "string \<Rightarrow> bool" where
  "ascii_text s \<longleftrightarrow> list_all (\<lambda>c. byte_in 0 0x7F c \<and> c \<noteq> CHR 0x0A) s"

lemma ascii_text_simps [simp]:
  "ascii_text []" "ascii_text (c # s) \<longleftrightarrow> byte_in 0 0x7F c \<and> c \<noteq> CHR 0x0A \<and> ascii_text s"
  "ascii_text (s @ t) \<longleftrightarrow> ascii_text s \<and> ascii_text t"
  by (auto simp: ascii_text_def)

lemma ascii_checksum: "ascii_text (checksum_hex s)"
proof -
  have "n < 16 \<Longrightarrow> byte_in 0 0x7F (hex_upper n)" for n
    by (cases "n < 10") (simp_all add: byte_in_def hex_upper_def of_char_small del: of_char_of)
  then have "n < 16 \<Longrightarrow> ascii_text [hex_upper n]" for n using hex_upper_props(4) by simp
  from this [OF unat_u8_less(1)] this [OF unat_u8_less(2)] show ?thesis
    by (simp add: checksum_hex_def Let_def)
qed

lemma valid_utf8_ascii: "ascii_text s \<Longrightarrow> valid_utf8 (s @ [CHR 0x0A])"
  by (induction s) (simp_all add: byte_in_def)

lemma read_bytes_line:
  "ascii_text s \<Longrightarrow> length buf + length s \<le> n \<Longrightarrow>
   read_bytes n buf (map Byte (s @ [CHR 0x0A]) @ evs) = (Ok (buf @ s @ [CHR 0x0A]), evs)"
proof (induction s arbitrary: buf)
  case (Cons c s)
  then show ?case using Cons.IH [of "buf @ [c]"] by simp
qed simp

lemma read_whole_line:
  "ascii_text s \<Longrightarrow> length s \<le> n \<Longrightarrow>
   read_bounded_line n (map Byte (s @ [CHR 0x0A]) @ evs) = (Ok (Suc (length s), s @ [CHR 0x0A]), evs)"
  using read_bytes_line [of s "[]" n evs] valid_utf8_ascii [of s] by (simp add: read_bounded_line_def)

lemma ack_frame_text:
  assumes "ascii_text prefix" "ascii_text rid" "\<forall>e. err = Some e \<longrightarrow> ascii_text e"
  shows "\<exists>s. build_esp32_ack_frame prefix rid ok err b = s @ [CHR 0x0A] \<and> ascii_text s"
  using assms ascii_checksum
  by (auto simp: build_esp32_ack_frame_def close_frame_def frame_body_def field_text_def byte_in_def
      split: option.splits)

lemma handshake_first_line:
  assumes "clean_prefix (frame_prefix cfg)" "ascii_text (frame_prefix cfg)" "ascii_text rid" "CHR ''|'' \<notin> set rid"
    and "\<forall>e. err = Some e \<longrightarrow> ascii_text e \<and> CHR ''|'' \<notin> set e" "checksum cfg"
    and "length (build_esp32_ack_frame (frame_prefix cfg) rid ok err True) \<le> Suc (max_line_bytes cfg)"
    and "now < deadline"
  shows "handshake_loop cfg rid deadline (now # cs)
       (map Byte (build_esp32_ack_frame (frame_prefix cfg) rid ok err True) @ evs)
     = Some \<lparr>ack_request_id = rid, ack_status_of = (if ok then Confirmed
         else Rejected (unwrap_or err ''downstream rejected command'')), accepted_targets = None\<rparr>"
proof -
  obtain s where s: "build_esp32_ack_frame (frame_prefix cfg) rid ok err True = s @ [CHR 0x0A]" "ascii_text s"
    using ack_frame_text [of "frame_prefix cfg" rid err ok True] assms(2,3,5) by blast
  have "length s \<le> max_line_bytes cfg" using assms(7) s(1) by simp
  moreover have "parse_esp32_ack_frame (s @ [CHR 0x0A]) (frame_prefix cfg) True
      = Ok \<lparr>ea_request_id = rid, ea_ok = ok, ea_error = err\<rparr>"
    using ack_frame_roundtrip [of "frame_prefix cfg" rid err True ok] assms(1,4,5) s(1) by auto
  ultimately show ?thesis using assms(8) read_whole_line [of s "max_line_bytes cfg" evs] s assms(6)
    by (simp add: ack_of_frame_def)
qed

text \<open>The handshake finds its acknowledgement: when, after any number of complete lines that are not
  an acknowledgement of this request (samples, garbage, stale acknowledgements), the device's frame for the
  request arrives before the deadline and fits the line bound, the write is answered \<open>Confirmed\<close> or
  \<open>Rejected\<close> exactly as the frame says.\<close>

theorem handshake_completes:
  assumes "clean_prefix (frame_prefix cfg)" "ascii_text (frame_prefix cfg)" "ascii_text rid" "CHR ''|'' \<notin> set rid"
    and "\<forall>e. err = Some e \<longrightarrow> ascii_text e \<and> CHR ''|'' \<notin> set e" "checksum cfg"
    and "length (build_esp32_ack_frame (frame_prefix cfg) rid ok err True) \<le> Suc (max_line_bytes cfg)"
    and "\<forall>l \<in> set noise. ascii_text l \<and> length l \<le> max_line_bytes cfg
      \<and> (\<forall>a. parse_esp32_ack_frame (l @ [CHR 0x0A]) (frame_prefix cfg) True = Ok a \<longrightarrow> ea_request_id a \<noteq> rid)"
    and "length noise < length clocks" "\<forall>t \<in> set clocks. t < deadline"
  shows "handshake_loop cfg rid deadline clocks (map Byte (concat (map (\<lambda>l. l @ [CHR 0x0A]) noise)
       @ build_esp32_ack_frame (frame_prefix cfg) rid ok err True) @ evs)
     = Some \<lparr>ack_request_id = rid, ack_status_of = (if ok then Confirmed
         else Rejected (unwrap_or err ''downstream rejected command'')), accepted_targets = None\<rparr>"
  using assms(8-10)
proof (induction noise arbitrary: clocks)
  case Nil
  then obtain now cs where c: "clocks = now # cs" "\<not> deadline \<le> now" by (cases clocks) auto
  then show ?case using handshake_first_line [OF assms(1-7), of now deadline cs evs] by simp
next
  case (Cons l noise)
  then obtain now cs where c: "clocks = now # cs" "\<not> deadline \<le> now" by (cases clocks) auto
  let ?rest = "map Byte (concat (map (\<lambda>l. l @ [CHR 0x0A]) noise)
       @ build_esp32_ack_frame (frame_prefix cfg) rid ok err True) @ evs"
  have "handshake_loop cfg rid deadline cs ?rest = Some \<lparr>ack_request_id = rid, ack_status_of = (if ok then Confirmed
         else Rejected (unwrap_or err ''downstream rejected command'')), accepted_targets = None\<rparr>"
    using Cons.IH [of cs] Cons.prems c(1) by simp
  then show ?case
    using c Cons.prems(1) read_whole_line [of l "max_line_bytes cfg" ?rest] assms(6)
    by (auto split: sum.splits)
qed

section \<open>Modbus read-back\<close>

lemma round_integral: "is_finite (f64_round x) \<Longrightarrow> \<exists>n. fval (f64_round x) = of_int n"
  using f64_round_Num by (cases x) (auto intro: exI [of _ 0])

lemma encode_write_register_exact:
  assumes "encode_write_register value register = Ok raw"
  shows "of_int (uint raw) = fval (f64_round (f64_div (f64_sub value (wr_offset register)) (wr_scale register)))"
proof -
  let ?r = "f64_round (f64_div (f64_sub value (wr_offset register)) (wr_scale register))"
  have r: "in_range (Num 0) (Num 65535) ?r" "raw = f64_to_u16 ?r"
    using assms by (auto simp: encode_write_register_def Let_def split: if_splits)
  then have fin: "is_finite ?r" "0 \<le> fval ?r" "fval ?r \<le> 65535" by (auto simp: in_range_Num)
  then obtain n :: int where n: "fval ?r = of_int n" using round_integral by blast
  then have "0 \<le> n" "n \<le> 65535" using fin(2,3) by (simp_all flip: of_int_le_iff)
  moreover have "cast_int 0 65535 ?r = n"
    using fin n \<open>0 \<le> n\<close> \<open>n \<le> 65535\<close> by (cases ?r) (auto simp: cast_int_def trunc_rat_def)
  ultimately show ?thesis using r(2) n by (simp add: uint_word_of_int)
qed

text \<open>C30: The Modbus write is confirmed only by what the slave holds: a \<open>Confirmed\<close> answer means both
  set-points were encodable without wrap-around, both writes succeeded, and reading the two registers back
  returned exactly the encoded words; the accepted targets are the values those words stand for.\<close>

theorem modbus_confirmed_means_held:
  assumes "modbus_write_targets_acknowledged w rd regs command rid s = (Ok ack, s')"
    and "ack_status_of ack = Confirmed"
  shows "\<exists>temp stir s1 s2 s3. encode_write_register (c_target_temperature_c command) (reg_target_temperature_c regs) = Ok temp
     \<and> encode_write_register (c_target_stirrer_rpm command) (reg_target_stirrer_rpm regs) = Ok stir
     \<and> w (wr_address (reg_target_temperature_c regs)) temp s = (Ok (), s1)
     \<and> w (wr_address (reg_target_stirrer_rpm regs)) stir s1 = (Ok (), s2)
     \<and> rd (wr_address (reg_target_temperature_c regs)) s2 = (Ok temp, s3)
     \<and> rd (wr_address (reg_target_stirrer_rpm regs)) s3 = (Ok stir, s')
     \<and> of_int (uint temp) = fval (f64_round (f64_div (f64_sub (c_target_temperature_c command)
          (wr_offset (reg_target_temperature_c regs))) (wr_scale (reg_target_temperature_c regs))))
     \<and> map_option t_temperature_c (accepted_targets ack) = Some (decode_write_register temp (reg_target_temperature_c regs))
     \<and> map_option t_stirrer_rpm (accepted_targets ack) = Some (decode_write_register stir (reg_target_stirrer_rpm regs))"
  using assms encode_write_register_exact
  by (auto simp: modbus_write_targets_acknowledged_def bus_bind_def Let_def split: prod.splits sum.splits if_splits)

section \<open>Witnesses\<close>

definition demo_prefix :: string where "demo_prefix = ''XS''"

definition demo_esp32 :: esp32_config where
  "demo_esp32 = \<lparr>frame_prefix = demo_prefix, command_prefix = ''XC'', checksum = True, max_line_bytes = 512\<rparr>"

lemma demo_prefix_clean: "clean_prefix demo_prefix" "ascii_text demo_prefix"
  by (simp_all add: clean_prefix_def demo_prefix_def is_space_def byte_in_def)



theorem handshake_returns_witness:
  "\<exists>ack. handshake_loop demo_esp32 ''7'' 100 [20, 60, 120] [Byte (CHR ''x''), ReadFailed] = Some ack"
  by (rule handshake_returns) simp

lemma demo_handshake_length:
  "length (build_esp32_ack_frame demo_prefix ''7'' True None True) \<le> Suc (max_line_bytes demo_esp32)"
  by (simp add: build_esp32_ack_frame_def close_frame_def frame_body_def field_text_def demo_prefix_def
      demo_esp32_def checksum_hex_def Let_def)

theorem handshake_completes_witness:
  "handshake_loop demo_esp32 ''7'' 100 [20] (map Byte (concat (map (\<lambda>l. l @ [CHR 0x0A]) [])
       @ build_esp32_ack_frame (frame_prefix demo_esp32) ''7'' True None True) @ [])
     = Some \<lparr>ack_request_id = ''7'', ack_status_of = Confirmed, accepted_targets = None\<rparr>"
  using handshake_completes [of demo_esp32 "''7''" None True "[]" "[20]" 100 "[]"] demo_prefix_clean demo_handshake_length
  by (simp add: demo_esp32_def byte_in_def)



definition demo_read_reg :: read_register where
  "demo_read_reg = \<lparr>rr_address = 0, rr_scale = Num 1, rr_offset = Num 0, min_valid = Num 0, max_valid = Num 1000\<rparr>"

definition demo_write_reg :: "u16 \<Rightarrow> write_register" where
  "demo_write_reg a = \<lparr>wr_address = a, wr_scale = Num 1, wr_offset = Num 0\<rparr>"

definition demo_regs :: registers_config where
  "demo_regs = \<lparr>reg_temperature_c = demo_read_reg, reg_stirrer_rpm = demo_read_reg, reg_pressure_mpa = demo_read_reg,
     reg_shake_speed_cpm = demo_read_reg, reg_tilt_angle_deg = demo_read_reg, reg_flow_rate_l_min = demo_read_reg,
     reg_product_concentration_percent = demo_read_reg, reg_ph = demo_read_reg,
     reg_target_temperature_c = demo_write_reg 100, reg_target_stirrer_rpm = demo_write_reg 101,
     reg_target_shake_speed_cpm = demo_write_reg 102, reg_target_pressure_mpa = demo_write_reg 103,
     reg_heat_time_s = demo_write_reg 104, reg_hold_time_s = demo_write_reg 105, reg_cool_time_s = demo_write_reg 106\<rparr>"

definition demo_setpoint :: safe_command where
  "demo_setpoint = \<lparr>c_target_temperature_c = Num 60, c_heat_time_s = Num 0, c_hold_time_s = Num 0, c_cool_time_s = Num 0,
     c_target_stirrer_rpm = Num 300, c_target_shake_speed_cpm = Num 0, c_target_pressure_mpa = Num 0, c_reason = []\<rparr>"

definition bank_write :: "(u16 \<Rightarrow> u16) rtu_write" where
  "bank_write a v s = (Ok (), s(a := v))"

definition bank_read :: "(u16 \<Rightarrow> u16) rtu_read" where
  "bank_read a s = (Ok (s a), s)"

lemma demo_round: "round_half_away 60 = 60" "round_half_away 300 = 300"
  using round_half_away_of_int [of 60] round_half_away_of_int [of 300] by simp_all

lemma demo_encode: "encode_write_register (Num 60) (demo_write_reg a) = Ok 60"
  "encode_write_register (Num 300) (demo_write_reg a) = Ok 300"
  by (simp_all add: encode_write_register_def demo_write_reg_def f64_eq_def f64_sub_def f64_div_def f64_add_def
      f64_neg_def signed_zero_def f64_round_def Let_def in_range_def cast_int_def trunc_rat_def demo_round)

theorem modbus_confirmed_means_held_witness:
  "\<exists>ack s'. modbus_write_targets_acknowledged bank_write bank_read demo_regs demo_setpoint ''7'' (\<lambda>_. 0) = (Ok ack, s')
     \<and> ack_status_of ack = Confirmed \<and> s' 100 = 60 \<and> s' 101 = 300
     \<and> map_option t_temperature_c (accepted_targets ack) = Some (decode_write_register 60 (demo_write_reg 100))"
proof -
  obtain ack s' where run: "modbus_write_targets_acknowledged bank_write bank_read demo_regs demo_setpoint ''7'' (\<lambda>_. 0)
      = (Ok ack, s')" "ack_status_of ack = Confirmed" "s' 100 = 60" "s' 101 = 300"
    by (simp add: modbus_write_targets_acknowledged_def bus_bind_def bank_write_def bank_read_def demo_encode
        demo_regs_def demo_setpoint_def Let_def) (simp add: demo_write_reg_def)
  from modbus_confirmed_means_held [OF run(1,2)] run show ?thesis
    by (auto simp: demo_encode demo_regs_def demo_setpoint_def)
qed

end
