(* ===== verification/Json_Bridge.thy ===== *)
theory Json_Bridge
  imports Esp32
begin

unbundle bit_operations_syntax

text \<open>
  Component commands and the JSON bridge (\<open>device.rs\<close>). A bridge process reports the state of the field in one
  file and takes one atomic command at a time from another. Reading and decoding the state file and replacing
  the control file are outside: a read is an argument \<open>anyhow + json_bridge_state\<close>, a write a function that says
  whether replacing the file succeeded. \<open>from_ms\<close> stands for \<open>DateTime::from_timestamp_millis\<close>, which refuses
  values outside the calendar; a \<open>stamp\<close> is the time and the sequence number in a request id.
\<close>

section \<open>Component commands\<close>

record component_command =
  cc_component_id :: string
  cc_action :: string
  cc_value :: "json option"

definition component_number :: "component_command \<Rightarrow> string \<Rightarrow> anyhow + f64" where
  "component_number command field =
     bind_res (ok_or (cc_value command) [''component control action '' @ cc_action command @ '' requires '' @ field]) (\<lambda>v.
     bind_res (ok_or (json_as_f64 v) [''component control '' @ field @ '' must be a number'']) (\<lambda>number.
     if \<not> is_finite number then Err [''component control '' @ field @ '' must be finite''] else Ok number))"

definition component_number_in_range :: "component_command \<Rightarrow> string \<Rightarrow> f64 \<Rightarrow> f64 \<Rightarrow> anyhow + f64" where
  "component_number_in_range command field lo hi =
     bind_res (component_number command field) (\<lambda>number.
     if \<not> in_range lo hi number
     then Err [''component control '' @ field @ '' must be between '' @ display_f64 lo @ '' and '' @ display_f64 hi]
     else Ok number)"

definition round_component_targets :: "control_targets \<Rightarrow> control_targets" where
  "round_component_targets tg = \<lparr>t_temperature_c = round2 (t_temperature_c tg),
     t_heat_time_s = round2 (t_heat_time_s tg), t_hold_time_s = round2 (t_hold_time_s tg),
     t_cool_time_s = round2 (t_cool_time_s tg), t_stirrer_rpm = round2 (t_stirrer_rpm tg),
     t_shake_speed_cpm = round2 (t_shake_speed_cpm tg),
     t_target_pressure_mpa = round2 (t_target_pressure_mpa tg)\<rparr>"

definition targets_for_component ::
    "component_command \<Rightarrow> control_targets \<Rightarrow> safety_config \<Rightarrow> anyhow + control_targets" where
  "targets_for_component command current safety =
     (let on = (\<lambda>c a. cc_component_id command = c \<and> cc_action command = a) in
      map_sum id round_component_targets
       (if on ''temperature_controller'' ''set_target_temperature'' then
          bind_res (component_number_in_range command ''value'' (min_c (temperature safety)) (max_c (temperature safety)))
            (\<lambda>x. Ok (current\<lparr>t_temperature_c := x\<rparr>))
        else if on ''stirrer_motor'' ''set_rpm'' then
          bind_res (component_number_in_range command ''value'' (min_rpm (stirrer safety)) (max_rpm (stirrer safety)))
            (\<lambda>x. Ok (current\<lparr>t_stirrer_rpm := x\<rparr>))
        else if on ''shake_stepper'' ''set_speed'' then
          bind_res (component_number_in_range command ''value'' (lit 0) (lit 60))
            (\<lambda>x. Ok (current\<lparr>t_shake_speed_cpm := x\<rparr>))
        else if on ''shake_stepper'' ''start'' then
          Ok (if f64_le (t_shake_speed_cpm current) (lit (1 / 100)) then current\<lparr>t_shake_speed_cpm := lit 30\<rparr> else current)
        else if on ''shake_stepper'' ''stop'' then Ok (current\<lparr>t_shake_speed_cpm := lit 0\<rparr>)
        else Err [''unsupported component control '' @ cc_component_id command @ '':'' @ cc_action command]))"

definition component_control_temperature_rpm_pair ::
    "component_command \<Rightarrow> control_targets \<Rightarrow> safety_config \<Rightarrow> anyhow + (f64 \<times> f64) option" where
  "component_control_temperature_rpm_pair command current safety =
     bind_res (targets_for_component command current safety) (\<lambda>next.
     Ok (Some (t_temperature_c next, t_stirrer_rpm next)))"

definition safe_command_from_targets :: "control_targets \<Rightarrow> string \<Rightarrow> safe_command" where
  "safe_command_from_targets tg reason =
     \<lparr>c_target_temperature_c = t_temperature_c tg, c_heat_time_s = t_heat_time_s tg,
      c_hold_time_s = t_hold_time_s tg, c_cool_time_s = t_cool_time_s tg,
      c_target_stirrer_rpm = t_stirrer_rpm tg, c_target_shake_speed_cpm = t_shake_speed_cpm tg,
      c_target_pressure_mpa = t_target_pressure_mpa tg, c_reason = reason\<rparr>"

section \<open>The state the bridge reports\<close>

record json_bridge_state =
  jb_connected :: bool
  jb_last_seen_ms :: int
  jb_last_frame_hex :: "string option"
  jb_last_frame_ok :: bool
  jb_adc :: "u16 option"
  jb_status :: "u8 option"
  jb_relay :: "u8 option"
  jb_motor :: "u8 option"
  jb_tilt :: "u8 option"
  jb_speed_delay_us :: "u64 option"
  jb_last_command :: "string option"
  jb_last_command_request_id :: "string option"
  jb_last_command_sent_ms :: "int option"
  jb_last_command_ok :: "bool option"
  jb_last_command_error :: "string option"
  jb_port :: "string option"
  jb_baudrate :: "u32 option"
  jb_bridge_started_ms :: "int option"
  jb_temperature_c :: "f64 option"
  jb_pressure_mpa :: "f64 option"
  jb_stirrer_rpm :: "f64 option"
  jb_shake_speed_cpm :: "f64 option"
  jb_flow_rate_l_min :: "f64 option"
  jb_product_concentration_percent :: "f64 option"
  jb_ph :: "f64 option"

type_synonym utc_of_ms = "int \<Rightarrow> time option"

definition bit_or_field :: "u8 option \<Rightarrow> u8 option \<Rightarrow> nat \<Rightarrow> u8 option" where
  "bit_or_field field status b = option_or field (map_option (\<lambda>st. drop_bit b st AND 1) status)"

definition speed_delay_us_to_cpm :: "u64 option \<Rightarrow> f64 \<Rightarrow> f64 option" where
  "speed_delay_us_to_cpm speed_delay_us steps_per_cycle =
     Option.bind speed_delay_us (\<lambda>delay.
     if delay = 0 \<or> \<not> is_finite steps_per_cycle \<or> f64_le steps_per_cycle (lit 0) then None
     else Some (round2 (f64_div (lit 60000000) (f64_mul (f64_of_int (uint delay)) steps_per_cycle))))"

definition validate_json_bridge_state ::
    "utc_of_ms \<Rightarrow> time \<Rightarrow> json_bridge_config \<Rightarrow> json_bridge_state \<Rightarrow> anyhow + unit" where
  "validate_json_bridge_state from_ms now config state =
     (if \<not> jb_connected state then Err [''json bridge reports downstream disconnected'']
      else if \<not> jb_last_frame_ok state then Err [''json bridge last upstream frame failed XOR check'']
      else case from_ms (jb_last_seen_ms state) of
        None \<Rightarrow> Err [''json bridge state last_seen_ms is out of range'']
      | Some last_seen \<Rightarrow>
          let age = timestamp_age_ms now last_seen in
          if age < 0 then
            Err [''json bridge state timestamp is '' @ show_int (- age)
                 @ '' ms in the future; check controller clock synchronization'']
          else if max_state_age_ms config < age then
            Err [''json bridge state stale; last_seen_ms is '' @ show_int age @ '' ms old, max ''
                 @ show_int (max_state_age_ms config) @ '' ms'']
          else Ok ())"

definition adc_mapped :: "json_bridge_config \<Rightarrow> u16 \<Rightarrow> f64" where
  "adc_mapped config adc =
     f64_add (f64_mul (f64_of_int (uint adc)) (adc_scale (bridge_adc config))) (adc_offset (bridge_adc config))"

fun direct_sensor :: "json_bridge_config \<Rightarrow> json_bridge_state \<Rightarrow> adc_sensor \<Rightarrow> f64 option" where
  "direct_sensor config state AdcTemperatureC = jb_temperature_c state"
| "direct_sensor config state AdcPressureMpa = jb_pressure_mpa state"
| "direct_sensor config state AdcStirrerRpm = jb_stirrer_rpm state"
| "direct_sensor config state AdcShakeSpeedCpm = option_or (jb_shake_speed_cpm state)
     (speed_delay_us_to_cpm (jb_speed_delay_us state) (speed_steps_per_cycle config))"
| "direct_sensor config state AdcFlowRateLMin = jb_flow_rate_l_min state"
| "direct_sensor config state AdcProductConcentrationPercent = jb_product_concentration_percent state"
| "direct_sensor config state AdcPh = jb_ph state"

definition bridge_sensor_value ::
    "json_bridge_config \<Rightarrow> json_bridge_state \<Rightarrow> adc_sensor \<Rightarrow> string \<Rightarrow> anyhow + f64" where
  "bridge_sensor_value config state sensor field_name =
     bind_res (case direct_sensor config state sensor of
         Some value \<Rightarrow> Ok value
       | None \<Rightarrow>
           if adc_sensor (bridge_adc config) = Some sensor then
             bind_res (ok_or (jb_adc state) [''json bridge state missing adc for '' @ field_name]) (\<lambda>adc.
             let mapped = adc_mapped config adc in
             if \<not> in_range (adc_min_valid (bridge_adc config)) (adc_max_valid (bridge_adc config)) mapped
             then Err [''json bridge adc mapped '' @ field_name @ '' value '' @ display_f64 mapped
                    @ '' outside valid range '' @ display_f64 (adc_min_valid (bridge_adc config)) @ ''..''
                    @ display_f64 (adc_max_valid (bridge_adc config))]
             else Ok mapped)
           else Err [''json bridge state missing required sensor field '' @ field_name @ ''; no fake value generated'']) (\<lambda>value.
     if \<not> is_finite value then Err [''json bridge field '' @ field_name @ '' is non-finite''] else Ok (round2 value))"

definition json_bridge_tilt_state :: "json_bridge_state \<Rightarrow> anyhow + u8" where
  "json_bridge_tilt_state state =
     bind_res (ok_or (bit_or_field (jb_tilt state) (jb_status state) 2) [''json bridge state missing required tilt bit''])
       (\<lambda>v. if 1 < v then Err [''json bridge tilt state must be 0 or 1, got '' @ show_int (uint v)] else Ok v)"

text \<open>\<open>None\<close> is the panic of the clamp in the fitted tilt angle, which does not occur.\<close>

definition json_bridge_sample_from_state ::
    "(f64 \<Rightarrow> f64) \<Rightarrow> utc_of_ms \<Rightarrow> time \<Rightarrow> json_bridge_config \<Rightarrow> json_bridge_state \<Rightarrow> (anyhow + sensor_snapshot) option" where
  "json_bridge_sample_from_state sin_f from_ms now config state =
     (case bind_res (validate_json_bridge_state from_ms now config state) (\<lambda>_.
           bind_res (ok_or (from_ms (jb_last_seen_ms state)) [''json bridge state last_seen_ms is out of range'']) (\<lambda>captured.
           bind_res (json_bridge_tilt_state state) (\<lambda>tilt.
           bind_res (bridge_sensor_value config state AdcShakeSpeedCpm ''shake_speed_cpm'') (\<lambda>shake.
           bind_res (bridge_sensor_value config state AdcTemperatureC ''temperature_c'') (\<lambda>temp.
           bind_res (bridge_sensor_value config state AdcPressureMpa ''pressure_mpa'') (\<lambda>pressure.
           bind_res (bridge_sensor_value config state AdcStirrerRpm ''stirrer_rpm'') (\<lambda>rpm.
           Ok (captured, tilt, shake, temp, pressure, rpm)))))))) of
        Inl e \<Rightarrow> Some (Err e)
      | Inr (captured, tilt, shake, temp, pressure, rpm) \<Rightarrow>
          map_option (\<lambda>angle.
            bind_res (bridge_sensor_value config state AdcFlowRateLMin ''flow_rate_l_min'') (\<lambda>flow.
            bind_res (bridge_sensor_value config state AdcProductConcentrationPercent ''product_concentration_percent'') (\<lambda>conc.
            bind_res (bridge_sensor_value config state AdcPh ''ph'') (\<lambda>ph.
            Ok \<lparr>s_temperature_c = temp, s_pressure_mpa = pressure, s_stirrer_rpm = rpm,
                s_shake_speed_cpm = shake, s_tilt_state = tilt, s_tilt_angle_deg = angle,
                s_flow_rate_l_min = flow, s_product_concentration_percent = conc, s_ph = ph,
                s_captured_at = captured\<rparr>))))
          (fit_tilt_angle_deg sin_f tilt shake captured))"

definition json_bridge_status_from_state :: "utc_of_ms \<Rightarrow> time \<Rightarrow> json_bridge_state \<Rightarrow> device_status_snapshot" where
  "json_bridge_status_from_state from_ms now state =
     \<lparr>connected = jb_connected state, last_seen_at = from_ms (jb_last_seen_ms state),
      last_frame_ok = jb_last_frame_ok state, ds_relay = bit_or_field (jb_relay state) (jb_status state) 0,
      ds_motor = bit_or_field (jb_motor state) (jb_status state) 1, ds_tilt = bit_or_field (jb_tilt state) (jb_status state) 2,
      ds_speed_delay_us = jb_speed_delay_us state, ds_port = jb_port state, ds_baudrate = jb_baudrate state,
      last_command_request_id = jb_last_command_request_id state, last_command_ok = jb_last_command_ok state,
      last_command_error = jb_last_command_error state, updated_at = now\<rparr>"

section \<open>Atomic commands\<close>

record json_bridge_control =
  bc_request_id :: string
  bc_command :: string
  bc_value :: "json option"
  bc_name :: "string option"

type_synonym stamp = "int \<times> u64"

definition build_json_bridge_control ::
    "stamp \<Rightarrow> string \<Rightarrow> string \<Rightarrow> json option \<Rightarrow> string option \<Rightarrow> json_bridge_control" where
  "build_json_bridge_control stamp prefix command value name =
     \<lparr>bc_request_id = prefix @ ''-'' @ show_int (fst stamp) @ ''-'' @ show_int (uint (snd stamp)),
      bc_command = command, bc_value = value, bc_name = name\<rparr>"

text \<open>The speeds last commanded, and what a command would change of them.\<close>

record bridge_cache =
  last_commanded_shake_speed_cpm :: "f64 option"
  last_stirrer_command :: "f64 option"

record pending_cache_update =
  pu_shake_speed_cpm :: "f64 option"
  pu_stirrer_rpm :: "f64 option"

definition no_cache_update :: pending_cache_update where
  "no_cache_update = \<lparr>pu_shake_speed_cpm = None, pu_stirrer_rpm = None\<rparr>"

definition apply_json_bridge_cache_update :: "pending_cache_update \<Rightarrow> bridge_cache \<Rightarrow> bridge_cache" where
  "apply_json_bridge_cache_update update cache =
     \<lparr>last_commanded_shake_speed_cpm = option_or (pu_shake_speed_cpm update) (last_commanded_shake_speed_cpm cache),
      last_stirrer_command = option_or (pu_stirrer_rpm update) (last_stirrer_command cache)\<rparr>"

definition current_shake_speed :: "json_bridge_config \<Rightarrow> json_bridge_state \<Rightarrow> bridge_cache \<Rightarrow> f64" where
  "current_shake_speed config state cache =
     unwrap_or (option_or (option_or (jb_shake_speed_cpm state)
       (speed_delay_us_to_cpm (jb_speed_delay_us state) (speed_steps_per_cycle config)))
       (last_commanded_shake_speed_cpm cache)) (lit 0)"

definition relay_temperature :: "json_bridge_config \<Rightarrow> json_bridge_state \<Rightarrow> anyhow + f64" where
  "relay_temperature config state =
     ok_or (option_or (jb_temperature_c state)
        (if adc_sensor (bridge_adc config) = Some AdcTemperatureC then map_option (adc_mapped config) (jb_adc state) else None))
       [''json bridge relay temperature control requires temperature_c or adc temperature mapping'']"

definition desired_relay :: "json_bridge_config \<Rightarrow> f64 \<Rightarrow> f64 \<Rightarrow> u8 \<Rightarrow> u8" where
  "desired_relay config target current relay =
     (if f64_lt (f64_add current (temperature_deadband_c config)) target then 1
      else if f64_lt target (f64_sub current (temperature_deadband_c config)) then 0 else relay)"

text \<open>At most one command: the motor switch first, then one speed step, the heater relay when the bridge
  regulates the temperature, the stirrer last.\<close>

definition next_json_bridge_control ::
    "utc_of_ms \<Rightarrow> time \<Rightarrow> stamp \<Rightarrow> json_bridge_config \<Rightarrow> json_bridge_state \<Rightarrow> safe_command \<Rightarrow> bridge_cache
     \<Rightarrow> anyhow + (json_bridge_control \<times> pending_cache_update) option" where
  "next_json_bridge_control from_ms now stamp config state command cache =
     (case validate_json_bridge_state from_ms now config state of
        Inl err \<Rightarrow> Err [''json bridge refuses control because state is not valid: '' @ err_display err]
      | Inr _ \<Rightarrow>
        let motor = unwrap_or (bit_or_field (jb_motor state) (jb_status state) 1) 0;
            shake = c_target_shake_speed_cpm command;
            send = (\<lambda>cmd value name upd.
              Ok (Some (build_json_bridge_control stamp (request_id_prefix config) cmd (Some value) name, upd)))
        in
        if f64_le shake (lit (1 / 100)) \<and> motor \<noteq> 0 then
          send ''motor'' (JNum (Num 0)) None (no_cache_update\<lparr>pu_shake_speed_cpm := Some (lit 0)\<rparr>)
        else if f64_lt (lit (1 / 100)) shake \<and> motor = 0 then
          send ''motor'' (JNum (Num 1)) None (no_cache_update\<lparr>pu_shake_speed_cpm := Some shake\<rparr>)
        else
        let delta = f64_sub shake (current_shake_speed config state cache) in
        if f64_lt (speed_deadband_cpm config) (f64_abs delta) then
          send ''speed'' (JString (if f64_lt (lit 0) delta then ''up'' else ''down'')) None
            (no_cache_update\<lparr>pu_shake_speed_cpm := Some shake\<rparr>)
        else
        let relay = unwrap_or (bit_or_field (jb_relay state) (jb_status state) 0) 0 in
        bind_res (if relay_temperature_control config
                  then bind_res (relay_temperature config state) (\<lambda>current.
                    Ok (desired_relay config (c_target_temperature_c command) current relay))
                  else Ok relay) (\<lambda>desired.
        if desired \<noteq> relay then send ''relay'' (JNum (f64_of_int (uint desired))) None no_cache_update
        else
        if (case option_or (jb_stirrer_rpm state) (last_stirrer_command cache) of
              Some current \<Rightarrow> f64_lt (lit (1 / 100)) (f64_abs (f64_sub (c_target_stirrer_rpm command) current))
            | None \<Rightarrow> True)
        then send ''stir_speed'' (JNum (c_target_stirrer_rpm command)) (Some ''stirrer_motor'')
               (no_cache_update\<lparr>pu_stirrer_rpm := Some (c_target_stirrer_rpm command)\<rparr>)
        else Ok None))"

text \<open>What a write attempt did: the command file that was replaced, if any, the result and the cache.\<close>

type_synonym file_write = "json_bridge_control \<Rightarrow> anyhow + unit"

definition json_bridge_write_targets ::
    "utc_of_ms \<Rightarrow> time \<Rightarrow> stamp \<Rightarrow> json_bridge_config \<Rightarrow> anyhow + json_bridge_state \<Rightarrow> file_write \<Rightarrow> safe_command \<Rightarrow> bridge_cache
     \<Rightarrow> (anyhow + json_bridge_control option) \<times> bridge_cache" where
  "json_bridge_write_targets from_ms now stamp config read write_control command cache =
     (case bind_res read (\<lambda>state. next_json_bridge_control from_ms now stamp config state command cache) of
        Inl e \<Rightarrow> (Err e, cache)
      | Inr None \<Rightarrow> (Ok None, cache)
      | Inr (Some (ctl, update)) \<Rightarrow>
          (case write_control ctl of
             Inl e \<Rightarrow> (Err e, cache)
           | Inr _ \<Rightarrow> (Ok (Some ctl), apply_json_bridge_cache_update update cache)))"

text \<open>The acknowledged write: every round reads the clock and then the state file; \<open>None\<close> means that the loop
  is still polling when the given rounds run out.\<close>

fun bridge_poll :: "string \<Rightarrow> time \<Rightarrow> (time \<times> (anyhow + json_bridge_state)) list \<Rightarrow> command_ack option" where
  "bridge_poll request_id deadline [] = None"
| "bridge_poll request_id deadline ((now, read) # rounds) =
     (if deadline \<le> now
      then Some \<lparr>ack_request_id = request_id, ack_status_of = Timeout, accepted_targets = None\<rparr>
      else case read of
        Inl _ \<Rightarrow> bridge_poll request_id deadline rounds
      | Inr state \<Rightarrow>
          if jb_last_command_request_id state = Some request_id then
            (case jb_last_command_ok state of
               Some True \<Rightarrow> Some \<lparr>ack_request_id = request_id, ack_status_of = Confirmed, accepted_targets = None\<rparr>
             | Some False \<Rightarrow> Some \<lparr>ack_request_id = request_id, ack_status_of =
                 Rejected (unwrap_or (jb_last_command_error state) ''downstream rejected command without an error detail''),
                 accepted_targets = None\<rparr>
             | None \<Rightarrow> bridge_poll request_id deadline rounds)
          else bridge_poll request_id deadline rounds)"

definition json_bridge_write_targets_acknowledged ::
    "utc_of_ms \<Rightarrow> time \<Rightarrow> stamp \<Rightarrow> json_bridge_config \<Rightarrow> anyhow + json_bridge_state \<Rightarrow> file_write \<Rightarrow> safe_command \<Rightarrow> string
     \<Rightarrow> time \<Rightarrow> (time \<times> (anyhow + json_bridge_state)) list \<Rightarrow> bridge_cache
     \<Rightarrow> (anyhow + command_ack) option \<times> json_bridge_control option \<times> bridge_cache" where
  "json_bridge_write_targets_acknowledged from_ms now stamp config read write_control command request_id deadline rounds cache =
     (case bind_res read (\<lambda>state. next_json_bridge_control from_ms now stamp config state command cache) of
        Inl e \<Rightarrow> (Some (Err e), None, cache)
      | Inr None \<Rightarrow>
          (Some (Ok \<lparr>ack_request_id = request_id, ack_status_of = Confirmed, accepted_targets = None\<rparr>), None, cache)
      | Inr (Some (ctl, update)) \<Rightarrow>
          let ctl = ctl\<lparr>bc_request_id := request_id\<rparr> in
          (case write_control ctl of
             Inl e \<Rightarrow> (Some (Err e), None, cache)
           | Inr _ \<Rightarrow> (map_option Ok (bridge_poll request_id deadline rounds), Some ctl,
               apply_json_bridge_cache_update update cache)))"

section \<open>Component commands through the bridge\<close>

record component_outcome =
  oc_component_id :: string
  oc_action :: string
  oc_command :: "json_bridge_control option"
  oc_targets :: "safe_command option"
  oc_message :: string

definition json_bridge_direct_component_control ::
    "stamp \<Rightarrow> json_bridge_config \<Rightarrow> component_command \<Rightarrow> json_bridge_control option" where
  "json_bridge_direct_component_control stamp config request =
     (let on = (\<lambda>c a. cc_component_id request = c \<and> cc_action request = a);
          send = (\<lambda>cmd value name. Some (build_json_bridge_control stamp (request_id_prefix config) cmd (Some value) (Some name)))
      in
      if on ''shake_stepper'' ''start'' then send ''motor'' (JNum (Num 1)) ''shake_stepper''
      else if on ''shake_stepper'' ''stop'' then send ''motor'' (JNum (Num 0)) ''shake_stepper''
      else if on ''shake_stepper'' ''speed_up'' then send ''speed'' (JString ''up'') ''shake_stepper''
      else if on ''shake_stepper'' ''speed_down'' then send ''speed'' (JString ''down'') ''shake_stepper''
      else if on ''heater_relay'' ''on'' then send ''relay'' (JNum (Num 1)) ''heater_relay''
      else if on ''heater_relay'' ''off'' then send ''relay'' (JNum (Num 0)) ''heater_relay''
      else None)"

definition json_bridge_direct_control_is_risk_reducing :: "component_command \<Rightarrow> bool" where
  "json_bridge_direct_control_is_risk_reducing request \<longleftrightarrow>
     (cc_component_id request = ''shake_stepper'' \<and> cc_action request = ''stop''
      \<or> cc_component_id request = ''heater_relay'' \<and> cc_action request = ''off'')"

definition make_outcome ::
    "component_command \<Rightarrow> json_bridge_control option \<Rightarrow> safe_command option \<Rightarrow> string \<Rightarrow> component_outcome" where
  "make_outcome request ctl tg message =
     \<lparr>oc_component_id = cc_component_id request, oc_action = cc_action request, oc_command = ctl,
      oc_targets = tg, oc_message = message\<rparr>"

definition json_bridge_component_control_outcome_without_state ::
    "stamp \<Rightarrow> json_bridge_config \<Rightarrow> component_command \<Rightarrow> anyhow + component_outcome \<times> pending_cache_update" where
  "json_bridge_component_control_outcome_without_state stamp config request =
     (case json_bridge_direct_component_control stamp config request of
        None \<Rightarrow> Err [''component control '' @ cc_component_id request @ '':'' @ cc_action request
                 @ '' requires valid json bridge state'']
      | Some ctl \<Rightarrow> Ok (make_outcome request (Some ctl) None
          ''risk-reducing component command written to json bridge control.json'', no_cache_update))"

definition json_bridge_stirrer_component_outcome ::
    "stamp \<Rightarrow> json_bridge_config \<Rightarrow> json_bridge_state \<Rightarrow> component_command \<Rightarrow> control_targets \<Rightarrow> safety_config \<Rightarrow> bridge_cache
     \<Rightarrow> anyhow + component_outcome \<times> pending_cache_update" where
  "json_bridge_stirrer_component_outcome stamp config state request tg safety cache =
     bind_res (targets_for_component request tg safety) (\<lambda>next.
     let safe = safe_command_from_targets next ''manual component control'';
         rpm = c_target_stirrer_rpm safe
     in if (case option_or (jb_stirrer_rpm state) (last_stirrer_command cache) of
              Some current \<Rightarrow> f64_le (f64_abs (f64_sub rpm current)) (lit (1 / 100)) | None \<Rightarrow> False)
        then Ok (make_outcome request None (Some safe) ''stirrer target already matches json bridge state'', no_cache_update)
        else
          let ctl = build_json_bridge_control stamp (request_id_prefix config) ''stir_speed'' (Some (JNum rpm)) (Some ''stirrer_motor'')
          in Ok (make_outcome request (Some ctl) (Some safe) ''stirrer RPM written to json bridge control.json'',
                 no_cache_update\<lparr>pu_stirrer_rpm := Some rpm\<rparr>))"

definition json_bridge_target_component_outcome ::
    "utc_of_ms \<Rightarrow> time \<Rightarrow> stamp \<Rightarrow> json_bridge_config \<Rightarrow> json_bridge_state \<Rightarrow> component_command \<Rightarrow> control_targets \<Rightarrow> safety_config
     \<Rightarrow> bridge_cache \<Rightarrow> anyhow + component_outcome \<times> pending_cache_update" where
  "json_bridge_target_component_outcome from_ms now stamp config state request tg safety cache =
     bind_res (targets_for_component request tg safety) (\<lambda>next.
     let safe = safe_command_from_targets next ''manual component control'' in
     bind_res (next_json_bridge_control from_ms now stamp config state safe cache) (\<lambda>found. case found of
       None \<Rightarrow> Ok (make_outcome request None (Some safe) ''component target already inside json bridge deadband'', no_cache_update)
     | Some (ctl, update) \<Rightarrow>
         Ok (make_outcome request (Some ctl) (Some safe) ''component target translated to json bridge command'', update)))"

definition json_bridge_component_control_outcome ::
    "utc_of_ms \<Rightarrow> time \<Rightarrow> stamp \<Rightarrow> json_bridge_config \<Rightarrow> json_bridge_state \<Rightarrow> component_command \<Rightarrow> control_targets \<Rightarrow> safety_config
     \<Rightarrow> bridge_cache \<Rightarrow> anyhow + component_outcome \<times> pending_cache_update" where
  "json_bridge_component_control_outcome from_ms now stamp config state request tg safety cache =
     (case json_bridge_direct_component_control stamp config request of
        Some ctl \<Rightarrow> Ok (make_outcome request (Some ctl) None
          ''component command written to json bridge control.json'', no_cache_update)
      | None \<Rightarrow>
        let on = (\<lambda>c a. cc_component_id request = c \<and> cc_action request = a) in
        if on ''stirrer_motor'' ''set_rpm'' then
          json_bridge_stirrer_component_outcome stamp config state request tg safety cache
        else if on ''shake_stepper'' ''set_speed'' \<or> on ''temperature_controller'' ''set_target_temperature'' then
          json_bridge_target_component_outcome from_ms now stamp config state request tg safety cache
        else Err [''unsupported component control '' @ cc_component_id request @ '':'' @ cc_action request
                  @ '' for json bridge''])"

definition json_bridge_write_component ::
    "utc_of_ms \<Rightarrow> time \<Rightarrow> stamp \<Rightarrow> json_bridge_config \<Rightarrow> anyhow + json_bridge_state \<Rightarrow> file_write \<Rightarrow> component_command
     \<Rightarrow> control_targets \<Rightarrow> safety_config \<Rightarrow> bridge_cache \<Rightarrow> (anyhow + component_outcome) \<times> bridge_cache" where
  "json_bridge_write_component from_ms now stamp config read write_control request tg safety cache =
     (case (if json_bridge_direct_control_is_risk_reducing request
            then json_bridge_component_control_outcome_without_state stamp config request
            else bind_res read (\<lambda>state.
                 bind_res (validate_json_bridge_state from_ms now config state) (\<lambda>_.
                 json_bridge_component_control_outcome from_ms now stamp config state request tg safety cache))) of
        Inl e \<Rightarrow> (Err e, cache)
      | Inr (outcome, update) \<Rightarrow>
          (case oc_command outcome of
             None \<Rightarrow> (Ok outcome, cache)
           | Some ctl \<Rightarrow>
               (case write_control ctl of
                  Inl e \<Rightarrow> (Err e, cache)
                | Inr _ \<Rightarrow> (Ok outcome, apply_json_bridge_cache_update update cache))))"

section \<open>When the bridge stays silent\<close>

text \<open>The field has reached the set points as far as the bridge can tell.\<close>

definition motor_on :: "json_bridge_state \<Rightarrow> bool" where
  "motor_on state \<longleftrightarrow> unwrap_or (bit_or_field (jb_motor state) (jb_status state) 1) 0 \<noteq> 0"

definition relay_settled :: "json_bridge_config \<Rightarrow> json_bridge_state \<Rightarrow> f64 \<Rightarrow> bool" where
  "relay_settled config state target \<longleftrightarrow> (relay_temperature_control config \<longrightarrow>
     (case relay_temperature config state of
        Inl _ \<Rightarrow> False
      | Inr current \<Rightarrow> desired_relay config target current (unwrap_or (bit_or_field (jb_relay state) (jb_status state) 0) 0)
          = unwrap_or (bit_or_field (jb_relay state) (jb_status state) 0) 0))"

definition settled :: "json_bridge_config \<Rightarrow> json_bridge_state \<Rightarrow> safe_command \<Rightarrow> bridge_cache \<Rightarrow> bool" where
  "settled config state command cache \<longleftrightarrow>
     \<not> (f64_le (c_target_shake_speed_cpm command) (lit (1 / 100)) \<and> motor_on state)
     \<and> \<not> (f64_lt (lit (1 / 100)) (c_target_shake_speed_cpm command) \<and> \<not> motor_on state)
     \<and> \<not> f64_lt (speed_deadband_cpm config)
           (f64_abs (f64_sub (c_target_shake_speed_cpm command) (current_shake_speed config state cache)))
     \<and> relay_settled config state (c_target_temperature_c command)
     \<and> (\<exists>current. option_or (jb_stirrer_rpm state) (last_stirrer_command cache) = Some current
          \<and> \<not> f64_lt (lit (1 / 100)) (f64_abs (f64_sub (c_target_stirrer_rpm command) current)))"

lemma next_control_None_iff:
  "next_json_bridge_control from_ms now stamp config state command cache = Ok None \<longleftrightarrow>
     validate_json_bridge_state from_ms now config state = Ok () \<and> settled config state command cache"
  by (auto simp: next_json_bridge_control_def settled_def motor_on_def relay_settled_def Let_def bind_res_Ok_iff
      split: sum.splits option.splits if_splits)

lemma bridge_poll_sound:
  "bridge_poll rid deadline rounds = Some ack \<Longrightarrow>
     ack_request_id ack = rid \<and> (\<exists>now read. (now, read) \<in> set rounds \<and> (case ack_status_of ack of
        Confirmed \<Rightarrow> now < deadline \<and> (\<exists>state. read = Ok state \<and> jb_last_command_request_id state = Some rid
          \<and> jb_last_command_ok state = Some True)
      | Rejected why \<Rightarrow> now < deadline \<and> (\<exists>state. read = Ok state \<and> jb_last_command_request_id state = Some rid
          \<and> jb_last_command_ok state = Some False)
      | Timeout \<Rightarrow> deadline \<le> now
      | Unverified \<Rightarrow> False))"
proof (induction rounds)
  case (Cons r rounds)
  obtain now read where r: "r = (now, read)" by (cases r)
  show ?case
  proof (cases "deadline \<le> now")
    case True
    then have "ack = \<lparr>ack_request_id = rid, ack_status_of = Timeout, accepted_targets = None\<rparr>" using Cons.prems r by simp
    then show ?thesis using True r by (auto intro!: exI [of _ now])
  next
    case False
    show ?thesis
    proof (cases "bridge_poll rid deadline rounds = Some ack")
      case True
      from Cons.IH [OF True] show ?thesis by (simp only: set_simps) blast
    next
      case rest: False
      then show ?thesis using Cons.prems r False
        by (auto intro!: exI [of _ now] split: sum.splits if_splits option.splits bool.splits)
    qed
  qed
qed simp


lemma bridge_poll_returns:
  "\<exists>(t, r) \<in> set rounds. deadline \<le> t \<Longrightarrow> \<exists>ack. bridge_poll rid deadline rounds = Some ack"
  by (induction rounds) (fastforce split: sum.splits option.splits bool.splits)+

text \<open>A failed write leaves the cache of commanded speeds alone; a successful one records the command.\<close>

lemma bridge_cache_after_write:
  "json_bridge_write_targets from_ms now stamp config read w command cache = (r, cache') \<Longrightarrow>
     cache' = cache \<or> (\<exists>ctl. r = Ok (Some ctl) \<and> w ctl = Ok ())"
  by (auto simp: json_bridge_write_targets_def split: sum.splits option.splits prod.splits)

section \<open>What one write can do\<close>

lemma next_control_stop:
  assumes "validate_json_bridge_state from_ms now config state = Ok ()" "motor_on state"
    and "f64_le (c_target_shake_speed_cpm command) (lit (1 / 100))"
  shows "next_json_bridge_control from_ms now stamp config state command cache =
    Ok (Some (build_json_bridge_control stamp (request_id_prefix config) ''motor'' (Some (JNum (Num 0))) None,
      no_cache_update\<lparr>pu_shake_speed_cpm := Some (lit 0)\<rparr>))"
  using assms by (simp add: next_json_bridge_control_def motor_on_def Let_def)

lemma next_control_relay:
  assumes "next_json_bridge_control from_ms now stamp config state command cache = Ok (Some (ctl, u))"
    and "\<not> relay_temperature_control config"
  shows "bc_command ctl \<in> {''motor'', ''speed'', ''stir_speed''}"
  using assms
  by (auto simp: next_json_bridge_control_def build_json_bridge_control_def Let_def split: sum.splits option.splits if_splits)

section \<open>Samples\<close>

definition measured :: "f64 \<Rightarrow> bool" where
  "measured x \<longleftrightarrow> (\<exists>v. is_finite v \<and> x = round2 v)"

lemma bridge_sensor_measured: "bridge_sensor_value config state sensor name = Ok x \<Longrightarrow> measured x"
  by (auto simp: bridge_sensor_value_def bind_res_Ok_iff measured_def split: if_splits)

lemma bridge_sample_total: "json_bridge_sample_from_state sin_f from_ms now config state \<noteq> None"
  using tilt_angle_total by (fastforce simp: json_bridge_sample_from_state_def split: sum.splits)

text \<open>The bridge never invents a measurement: a sample is only produced from a state that is connected, passed its frame check and is fresh; its time is the reported one, its tilt
  bit is 0 or 1 and every measured value is the rounding of a finite value.\<close>

theorem bridge_sample_genuine:
  assumes "json_bridge_sample_from_state sin_f from_ms now config state = Some (Ok s)"
  shows "jb_connected state \<and> jb_last_frame_ok state \<and> from_ms (jb_last_seen_ms state) = Some (s_captured_at s)
     \<and> timestamp_is_fresh now (s_captured_at s) (max_state_age_ms config) \<and> s_tilt_state s \<le> 1
     \<and> (\<forall>x \<in> {s_temperature_c s, s_pressure_mpa s, s_stirrer_rpm s, s_shake_speed_cpm s, s_flow_rate_l_min s,
              s_product_concentration_percent s, s_ph s}. measured x)"
  using assms
  by (auto simp: json_bridge_sample_from_state_def bind_res_Ok_iff validate_json_bridge_state_def json_bridge_tilt_state_def
      timestamp_is_fresh_def Let_def split: sum.splits option.splits if_splits dest!: bridge_sensor_measured)

section \<open>Witnesses\<close>

definition demo_bridge_state :: "u8 \<Rightarrow> u8 \<Rightarrow> json_bridge_state" where
  "demo_bridge_state relay motor = \<lparr>jb_connected = True, jb_last_seen_ms = 0, jb_last_frame_hex = None, jb_last_frame_ok = True,
     jb_adc = None, jb_status = None, jb_relay = Some relay, jb_motor = Some motor, jb_tilt = Some 0, jb_speed_delay_us = None,
     jb_last_command = None, jb_last_command_request_id = Some ''r1'', jb_last_command_sent_ms = None,
     jb_last_command_ok = Some True, jb_last_command_error = None, jb_port = None, jb_baudrate = None,
     jb_bridge_started_ms = None, jb_temperature_c = Some (Num 60), jb_pressure_mpa = Some (Num 1), jb_stirrer_rpm = Some (Num 300),
     jb_shake_speed_cpm = Some (Num 0), jb_flow_rate_l_min = Some (Num 2), jb_product_concentration_percent = Some (Num 5),
     jb_ph = Some (Num 7)\<rparr>"

definition demo_from_ms :: utc_of_ms where
  "demo_from_ms ms = Some (ms * 1000000)"

definition demo_bridge_command :: safe_command where
  "demo_bridge_command = \<lparr>c_target_temperature_c = Num 60, c_heat_time_s = Num 0, c_hold_time_s = Num 0, c_cool_time_s = Num 0,
     c_target_stirrer_rpm = Num 300, c_target_shake_speed_cpm = Num 0, c_target_pressure_mpa = Num 0, c_reason = ''''\<rparr>"

lemma demo_bridge_valid:
  "validate_json_bridge_state demo_from_ms 0 default_json_bridge_config (demo_bridge_state relay motor) = Ok ()"
  by (simp add: validate_json_bridge_state_def demo_bridge_state_def demo_from_ms_def timestamp_age_ms_def trunc_div_def
      default_json_bridge_config_def)


theorem bridge_sample_genuine_witness:
  "\<exists>s. json_bridge_sample_from_state (\<lambda>x. x) demo_from_ms 0 default_json_bridge_config (demo_bridge_state 0 0) = Some (Ok s)
     \<and> s_tilt_state s \<le> 1 \<and> measured (s_temperature_c s)"
proof -
  obtain angle where angle: "fit_tilt_angle_deg (\<lambda>x. x) 0 (Num 0) 0 = Some angle" using tilt_angle_total by blast
  have v: "json_bridge_tilt_state (demo_bridge_state 0 0) = Ok 0"
    by (simp add: json_bridge_tilt_state_def bit_or_field_def demo_bridge_state_def)
  obtain s where "json_bridge_sample_from_state (\<lambda>x. x) demo_from_ms 0 default_json_bridge_config (demo_bridge_state 0 0) = Some (Ok s)"
    unfolding json_bridge_sample_from_state_def demo_bridge_valid v
    by (simp add: bridge_sensor_value_def demo_bridge_state_def demo_from_ms_def angle)
  from bridge_sample_genuine [OF this] this show ?thesis by auto
qed

end
