(* ===== verification/Component_Api.thy ===== *)
theory Component_Api
  imports Production_Api Json_Bridge
begin

text \<open>
  Manual control of single components (\<open>api.rs\<close>, \<open>device.rs\<close>): the capabilities a device reports, the check of
  a request against them, the device command and the commit of the resulting targets. Actions that stop or
  switch off something are accepted without a proof that the field is safe.
\<close>

section \<open>Capabilities\<close>

record component_action =
  ca_action :: string
  ca_label :: string
  ca_value_type :: string
  ca_min :: "f64 option"
  ca_max :: "f64 option"
  ca_unit :: "string option"

record device_component =
  dc_component_id :: string
  dc_component_type :: string
  dc_label :: string
  dc_controllable :: bool
  dc_actions :: "component_action list"

definition component_capability :: "string \<Rightarrow> string \<Rightarrow> string \<Rightarrow> component_action list \<Rightarrow> device_component" where
  "component_capability cid ty label actions = \<lparr>dc_component_id = cid, dc_component_type = ty, dc_label = label,
     dc_controllable = (actions \<noteq> []), dc_actions = actions\<rparr>"

definition enum_action :: "string \<Rightarrow> string \<Rightarrow> component_action" where
  "enum_action action label = \<lparr>ca_action = action, ca_label = label, ca_value_type = ''none'', ca_min = None,
     ca_max = None, ca_unit = None\<rparr>"

definition numeric_action :: "string \<Rightarrow> string \<Rightarrow> f64 \<Rightarrow> f64 \<Rightarrow> string \<Rightarrow> component_action" where
  "numeric_action action label lo hi unit = \<lparr>ca_action = action, ca_label = label, ca_value_type = ''number'',
     ca_min = Some lo, ca_max = Some hi, ca_unit = Some unit\<rparr>"

definition temperature_component :: device_component where
  "temperature_component = component_capability ''temperature_controller'' ''temperature_controller'' ''Temperature Controller''
     [numeric_action ''set_target_temperature'' ''Set Target'' (lit 0) (lit 500) ''C'']"

definition stirrer_component :: device_component where
  "stirrer_component = component_capability ''stirrer_motor'' ''motor'' ''Stirrer Motor''
     [numeric_action ''set_rpm'' ''Set RPM'' (lit 0) (lit 2000) ''RPM'']"

definition modbus_capabilities :: "device_component list" where
  "modbus_capabilities = [temperature_component, stirrer_component]"

definition esp32_capabilities :: "device_component list" where
  "esp32_capabilities = [temperature_component, stirrer_component,
     component_capability ''shake_stepper'' ''stepper_motor'' ''Shake Vessel Stepper''
       [enum_action ''start'' ''Start'', enum_action ''stop'' ''Stop'',
        numeric_action ''set_speed'' ''Set Speed'' (lit 0) (lit 60) ''CPM'']]"

definition json_bridge_capabilities :: "json_bridge_config \<Rightarrow> device_component list" where
  "json_bridge_capabilities config =
     [component_capability ''shake_stepper'' ''stepper_motor'' ''Shake Vessel Stepper''
        [enum_action ''start'' ''Start'', enum_action ''stop'' ''Stop'', enum_action ''speed_up'' ''Speed Up'',
         enum_action ''speed_down'' ''Speed Down'', numeric_action ''set_speed'' ''Set Speed'' (lit 0) (lit 60) ''CPM''],
      component_capability ''heater_relay'' ''relay'' ''Heater Relay'' [enum_action ''on'' ''On'', enum_action ''off'' ''Off''],
      stirrer_component]
     @ (if relay_temperature_control config then [temperature_component] else [])"

section \<open>The request\<close>

record component_request =
  cr_action :: string
  cr_value :: "json option"
  cr_reason :: "string option option"

definition component_control_requires_proven_safe_field :: "string \<Rightarrow> bool" where
  "component_control_requires_proven_safe_field action \<longleftrightarrow> action \<notin> {''stop'', ''off''}"

fun component_control_reason :: "component_request \<Rightarrow> bool \<Rightarrow> app_error + string option" where
  "component_control_reason payload proven = (case cr_reason payload of
       Some (Some reason) \<Rightarrow> Ok (Some reason)
     | Some None \<Rightarrow> if proven then Err (bad_request ''reason must not be null'') else Ok None
     | None \<Rightarrow> Ok None)"

definition component_control_command_value :: "component_action \<Rightarrow> component_request \<Rightarrow> json option" where
  "component_control_command_value action payload =
     (if ca_value_type action = ''none'' \<and> cr_value payload = Some JNull then None else cr_value payload)"

definition validate_component_control_payload :: "component_action \<Rightarrow> component_request \<Rightarrow> app_error + unit" where
  "validate_component_control_payload action payload =
     (let msg = (\<lambda>t. bad_request (''component action '' @ ca_action action @ t)) in
      if ca_value_type action = ''none'' then
        (if component_control_command_value action payload \<noteq> None then Err (msg '' does not accept a value'') else Ok ())
      else if ca_value_type action = ''number'' then
        bind_res (ok_or (cr_value payload) (msg '' requires value'')) (\<lambda>v.
        bind_res (ok_or (json_as_f64 v) (msg '' value must be a number'')) (\<lambda>number.
        if \<not> is_finite number then Err (msg '' value must be finite'')
        else run_checks
          [case ca_min action of
             Some lo \<Rightarrow> if f64_lt number lo then Err (msg ('' value must be >= '' @ display_f64 lo)) else Ok ()
           | None \<Rightarrow> Ok (),
           case ca_max action of
             Some hi \<Rightarrow> if f64_lt hi number then Err (msg ('' value must be <= '' @ display_f64 hi)) else Ok ()
           | None \<Rightarrow> Ok ()]))
      else Err (msg ('' has unsupported value type '' @ ca_value_type action)))"

section \<open>Devices\<close>

text \<open>What a device does with a component command, given the targets the request started from.\<close>

type_synonym component_writer = "component_command \<Rightarrow> control_targets \<Rightarrow> (anyhow + component_outcome option) handler"

text \<open>Modbus and the ESP32 write the complete set of targets that results from the command.\<close>

definition serial_write_component :: "string \<Rightarrow> component_writer" where
  "serial_write_component message command current =
     hbind safety_of (\<lambda>safety. case targets_for_component command current safety of
       Inl e \<Rightarrow> hreturn (Err e)
     | Inr next \<Rightarrow>
         let safe = safe_command_from_targets next ''manual component control'' in
         hbind (device_write safe) (\<lambda>written. case written of
           Inl e \<Rightarrow> hreturn (Err e)
         | Inr _ \<Rightarrow> hreturn (Ok (Some (make_outcome command None (Some safe) message)))))"

definition modbus_write_component :: component_writer where
  "modbus_write_component = serial_write_component ''component target written through Modbus RTU''"

definition esp32_write_component :: component_writer where
  "esp32_write_component = serial_write_component ''component target written through ESP32 serial''"

section \<open>Executing a request\<close>

definition targets_of_command :: "safe_command \<Rightarrow> control_targets" where
  "targets_of_command c = \<lparr>t_temperature_c = c_target_temperature_c c, t_heat_time_s = c_heat_time_s c,
     t_hold_time_s = c_hold_time_s c, t_cool_time_s = c_cool_time_s c, t_stirrer_rpm = c_target_stirrer_rpm c,
     t_shake_speed_cpm = c_target_shake_speed_cpm c, t_target_pressure_mpa = c_target_pressure_mpa c\<rparr>"

definition commit_component_targets_after_final_interlock ::
    "safe_command \<Rightarrow> bool \<Rightarrow> control_targets option \<Rightarrow> safety_latch_generations option \<Rightarrow> unit handler" where
  "commit_component_targets_after_final_interlock safe proven expected acknowledged =
     (if proven then
        hbind (db_call (\<lambda>env t. a_unfinished env t)) (\<lambda>queried.
        hbind (hany queried) (\<lambda>unfinished.
        with_lock (\<lambda>env now unf rt.
          lock_checks [ensure_target_update_interlock_clear (a_safety env) now rt ComponentControl] rt
          (case ensure_safety_latches_unchanged_for_commit rt acknowledged ''component control'' of
             (Inl e, rt1) \<Rightarrow> (Err e, rt1)
           | (Inr _, rt1) \<Rightarrow>
             lock_checks [ensure_persisted_batch_status_consistent
                 (unfinished_batch_status_from_batches unfinished rt1) rt1 ComponentControl] rt1
             (if (case expected of Some cur \<Rightarrow> \<not> targets_eq (targets rt1) cur | None \<Rightarrow> False)
              then (Err (conflict ''component control saw stale runtime targets; retry after re-reading current targets''),
                    rt1\<lparr>auto_enabled := False\<rparr>)
              else (Ok (), rt1\<lparr>targets := targets_of_command safe\<rparr>))))))
      else with_lock (\<lambda>env now unf rt. (Ok (), rt\<lparr>targets := targets_of_command safe\<rparr>)))"

text \<open>The proof of a safe field: automatic control goes off and the snapshot is checked. The status check
  repeats part of the interlock.\<close>

definition prove_safe_field :: "runtime_state handler" where
  "prove_safe_field =
     hbind disarm (\<lambda>rt.
     hbind (check_snapshot (\<lambda>safety now unf. ensure_target_update_interlock_clear safety now rt ComponentControl)) (\<lambda>_.
     hbind (check_snapshot (\<lambda>safety now unf. run_checks
         [persisted_batch_check unf rt ComponentControl,
          case device_status rt of None \<Rightarrow> Ok () | Some status \<Rightarrow>
            (case device_status_field_fault_reason now status (sensor_timeout_ms (control safety)) of
               Some reason \<Rightarrow> Err (service_unavailable (''device status is not healthy; component control blocked: '' @ reason))
             | None \<Rightarrow> Ok ())])) (\<lambda>_.
     hreturn rt)))"

definition zone_check :: "component_command \<Rightarrow> control_targets \<Rightarrow> unit handler" where
  "zone_check command current =
     hbind safety_of (\<lambda>safety.
     hbind (hany (component_control_temperature_rpm_pair command current safety)) (\<lambda>pair. case pair of
       Some (temp, rpm) \<Rightarrow> hresult (validate_target_pair_allowed safety temp rpm)
     | None \<Rightarrow> hreturn ()))"

text \<open>After the device has acted: the audit row and the commit.\<close>

definition finish_component_control ::
    "string \<Rightarrow> audit_actor \<Rightarrow> bool \<Rightarrow> runtime_state \<Rightarrow> string \<Rightarrow> component_outcome option \<Rightarrow> component_outcome option handler" where
  "finish_component_control event actor proven rt audit_reason outcome =
     (let written = Option.bind outcome oc_targets in
      hbind (insert_event actor (active_batch_id rt) event
          (Some (unwrap_or written (safe_command_from_runtime_targets (targets rt) audit_reason))) audit_reason) (\<lambda>audited.
      case audited of
        Inl err \<Rightarrow>
          hbind (with_lock (\<lambda>env now unf rt. (Ok (), fst (latch_control_fault
              (''component control audit failed after device action: '' @ err_display err) rt)))) (\<lambda>_.
          hfail internal_error)
      | Inr _ \<Rightarrow> (case written of
          None \<Rightarrow> hreturn outcome
        | Some safe \<Rightarrow>
            hbind (hattempt (commit_component_targets_after_final_interlock safe proven
                (if proven then Some (targets rt) else None)
                (if proven then Some (latches_from_runtime rt) else None))) (\<lambda>committed. case committed of
              Inl err \<Rightarrow>
                hbind (latch_tail_failure_after_device_action ''component control final interlock'' (err_message err)) (\<lambda>_.
                hfail err)
            | Inr _ \<Rightarrow> hreturn outcome))))"

definition find_component_action :: "device_component list \<Rightarrow> string \<Rightarrow> string \<Rightarrow> app_error + component_action" where
  "find_component_action capabilities component_id action =
     (case find (\<lambda>c. dc_component_id c = component_id) capabilities of
        None \<Rightarrow> Err (not_found ''component not found'')
      | Some component \<Rightarrow>
          if \<not> dc_controllable component then Err (bad_request ''component is not controllable'')
          else case find (\<lambda>a. ca_action a = action) (dc_actions component) of
            None \<Rightarrow> Err (bad_request ''component action is not supported'')
          | Some a \<Rightarrow> Ok a)"

definition execute_component_control ::
    "device_component list \<Rightarrow> component_writer \<Rightarrow> string \<Rightarrow> string \<Rightarrow> component_request \<Rightarrow> string \<Rightarrow> audit_actor
     \<Rightarrow> component_outcome option handler" where
  "execute_component_control capabilities write_component device_id component_id payload event actor =
     hbind (hresult (ensure_reactor_device_id device_id)) (\<lambda>_.
     hbind (read_lock (\<lambda>rt. rt)) (\<lambda>rt0.
     hbind (hresult (find_component_action capabilities component_id (cr_action payload))) (\<lambda>action.
     let proven = component_control_requires_proven_safe_field (cr_action payload) in
     hbind (hresult (validate_component_control_payload action payload)) (\<lambda>_.
     hbind (hresult (component_control_reason payload proven)) (\<lambda>operator_reason.
     hbind (if proven then prove_safe_field else hreturn rt0) (\<lambda>rt.
     let command = \<lparr>cc_component_id = component_id, cc_action = cr_action payload,
           cc_value = component_control_command_value action payload\<rparr> in
     hbind (if proven then zone_check command (targets rt) else hreturn ()) (\<lambda>_.
     hbind (write_component command (targets rt)) (\<lambda>written. case written of
       Inl err \<Rightarrow> hbind (latch_control_write_fault err) (\<lambda>_. hfail internal_error)
     | Inr outcome \<Rightarrow>
         finish_component_control event actor proven rt
           (clean_label operator_reason (''operator component control '' @ component_id @ '':'' @ cr_action payload) 240)
           outcome))))))))"

definition control_component ::
    "session \<Rightarrow> device_component list \<Rightarrow> component_writer \<Rightarrow> string \<Rightarrow> string \<Rightarrow> component_request
     \<Rightarrow> component_outcome option handler" where
  "control_component session capabilities write_component device_id component_id payload =
     hbind (hresult (session SetSafeTargets)) (\<lambda>user.
     execute_component_control capabilities write_component device_id component_id payload ''component_control''
       (audit_actor_for_user user))"

section \<open>Failing closed\<close>

lemma fails_latched_lock [fault_intros]:
  "fails_faulted (hbind (with_lock (\<lambda>env now unf rt. (Ok (), fst (latch_control_fault (msg env now) rt)))) (\<lambda>_. hfail e))"
  by (auto simp: fails_faulted_def hbind_Err_iff with_lock_def hfail_def hresult_def faulted_def latch_simps Let_def)

lemma serial_never_fails [fault_intros]: "never_fails (serial_write_component message command current)"
  unfolding serial_write_component_def Let_def by (intro fault_intros)

lemma finish_component_faulted [fault_intros]:
  "fails_faulted (finish_component_control event actor proven rt reason outcome)"
  unfolding finish_component_control_def Let_def by (intro fault_intros)

lemma component_tail_faulted:
  "fails_faulted (hbind (serial_write_component message command current) (\<lambda>written. case written of
       Inl err \<Rightarrow> hbind (latch_control_write_fault err) (\<lambda>_. hfail internal_error)
     | Inr outcome \<Rightarrow> finish_component_control event actor proven rt reason outcome))"
  by (intro fault_intros never_fails_faulted [OF serial_never_fails])

lemma no_writes_component_checks: "no_writes prove_safe_field" "no_writes (zone_check command current)"
  unfolding prove_safe_field_def zone_check_def
  by (auto intro!: no_writes_rules split: option.splits)

lemma component_fails_closed:
  "device_fails_closed (execute_component_control caps (serial_write_component message) device_id cid payload event actor)"
  unfolding execute_component_control_def Let_def
  by (intro device_fails_closed_bind no_writes_rules no_writes_component_checks
      device_fails_closed_weaken(1) [OF component_tail_faulted])

text \<open>A component command on a serial device fails closed: a request that wrote to the device and does not
  succeed ends with automatic control off and a latched control fault.\<close>

theorem component_control_fails_closed:
  assumes "control_component session caps (serial_write_component message) device_id cid payload env s = Some (Err e, s')"
    and "h_writes s' \<noteq> h_writes s"
  shows "\<not> auto_enabled (h_rt s') \<and> last_control_error (h_rt s') \<noteq> None"
proof -
  have "device_fails_closed (control_component session caps (serial_write_component message) device_id cid payload)"
    unfolding control_component_def by (intro device_fails_closed_bind no_writes_intros component_fails_closed)
  then show ?thesis using assms unfolding device_fails_closed_def faulted_def by blast
qed

section \<open>What a successful command commits\<close>

lemma run_serial_write:
  "serial_write_component message command current env s = Some (Ok (Ok out), s') \<longleftrightarrow>
     (\<exists>tg. targets_for_component command current (a_safety env) = Ok tg \<and> a_write env (h_tick s) = Ok ()
        \<and> out = Some (make_outcome command None (Some (safe_command_from_targets tg ''manual component control'')) message)
        \<and> s' = s\<lparr>h_tick := h_tick s + 1, h_writes := h_writes s @ [safe_command_from_targets tg ''manual component control'']\<rparr>)"
  by (cases "targets_for_component command current (a_safety env)"; cases "a_write env (h_tick s)")
     (auto simp: serial_write_component_def run_simps Let_def)

lemma targets_of_safe_command [simp]: "targets_of_command (safe_command_from_targets tg reason) = tg"
  by (simp add: targets_of_command_def safe_command_from_targets_def)

lemma run_commit_component:
  "commit_component_targets_after_final_interlock safe True (Some cur) (Some (latches_from_runtime seen)) env s
       = Some (Ok (), s') \<longleftrightarrow>
     (\<exists>live. live = a_interfere env (h_tick s + 1) (h_rt s)
        \<and> field_clear (a_clock env (h_tick s + 1)) (a_safety env) live
        \<and> same_generations seen live \<and> batches_agree (a_unfinished env (h_tick s)) live
        \<and> targets_eq (targets live) cur
        \<and> s' = s\<lparr>h_rt := live\<lparr>targets := targets_of_command safe\<rparr>, h_tick := h_tick s + 2\<rparr>)"
  by (simp add: commit_component_targets_after_final_interlock_def run_simps gate_iff eval_nat_numeral
      ensure_safety_latches_unchanged_for_commit_def ensure_persisted_batch_status_consistent_def
      cong: conj_cong)
     (auto simp: batches_agree_def recovery_required_iff)

lemma run_zone_check:
  "zone_check command current env s = Some (Ok (), s') \<longleftrightarrow> s' = s \<and>
     (\<exists>tg. targets_for_component command current (a_safety env) = Ok tg
        \<and> find_forbidden_control_zone (a_safety env) (t_temperature_c tg) (t_stirrer_rpm tg) = None)"
  by (cases "targets_for_component command current (a_safety env)")
     (auto simp: zone_check_def component_control_temperature_rpm_pair_def run_simps
       validate_target_pair_allowed_def split: option.splits)

lemma run_prove_safe_field:
  "prove_safe_field env s = Some (Ok rt, s') \<Longrightarrow>
     rt = (a_interfere env (h_tick s) (h_rt s))\<lparr>auto_enabled := False\<rparr>
     \<and> field_clear (a_clock env (h_tick s + 1)) (a_safety env) rt
     \<and> s' = s\<lparr>h_rt := rt, h_tick := h_tick s + 3\<rparr>"
  by (auto simp: prove_safe_field_def run_simps interlock_clear_iff eval_nat_numeral)

lemma run_finish_component:
  assumes "finish_component_control event actor True rt reason (Some out) env s = Some (Ok r, s')" "oc_targets out = Some safe"
  shows "r = Some out \<and> h_writes s' = h_writes s \<and> (\<exists>live. field_clear (a_clock env (h_tick s + 2)) (a_safety env) live
     \<and> same_generations rt live \<and> h_rt s' = live\<lparr>targets := targets_of_command safe\<rparr>)"
  using assms
  by (auto simp: finish_component_control_def Let_def run_simps run_commit_component split_sum_ex eval_nat_numeral
      split: sum.splits)


section \<open>Stopping one component\<close>

lemma targets_for_stop:
  "cc_component_id command = ''shake_stepper'' \<Longrightarrow> cc_action command = ''stop'' \<Longrightarrow>
   targets_for_component command current safety = Ok (round_component_targets (current\<lparr>t_shake_speed_cpm := lit 0\<rparr>))"
  by (simp add: targets_for_component_def Let_def)

text \<open>Stopping the shaker of an ESP32 rewrites all set points. The request needs no proof of a safe field, so
  it is accepted under an emergency stop, and the command that goes out carries the temperature and stirrer
  targets of the runtime state, which an emergency stop leaves unchanged: the fail-safe set points that the
  emergency stop delivered are replaced by the old ones.\<close>

theorem component_stop_resends_targets:
  assumes "a_write env (h_tick s + 1) = Ok ()" "a_audit env (h_tick s + 2) = Ok ()"
    and "targets (a_interfere env (h_tick s) (h_rt s)) = tg"
  shows "\<exists>out s'. execute_component_control esp32_capabilities esp32_write_component ''reactor_001'' ''shake_stepper''
       \<lparr>cr_action = ''stop'', cr_value = None, cr_reason = None\<rparr> event actor env s = Some (Ok out, s')
     \<and> h_writes s' = h_writes s @ [safe_command_from_targets (round_component_targets (tg\<lparr>t_shake_speed_cpm := lit 0\<rparr>))
          ''manual component control'']"
  using assms
  by (simp add: execute_component_control_def hbind_def hresult_def ensure_reactor_device_id_def read_lock_def with_lock_def
      find_component_action_def esp32_capabilities_def temperature_component_def stirrer_component_def component_capability_def
      numeric_action_def enum_action_def component_control_requires_proven_safe_field_def validate_component_control_payload_def
      component_control_command_value_def hreturn_def esp32_write_component_def serial_write_component_def safety_of_def
      targets_for_stop device_write_def finish_component_control_def insert_event_def make_outcome_def hattempt_def
      commit_component_targets_after_final_interlock_def Let_def eval_nat_numeral)

theorem component_stop_resends_targets_witness:
  "\<exists>out s'. emergency_stop (h_rt (demo_hstate None)\<lparr>emergency_stop := True\<rparr>)
     \<and> execute_component_control esp32_capabilities esp32_write_component ''reactor_001'' ''shake_stepper''
       \<lparr>cr_action = ''stop'', cr_value = None, cr_reason = None\<rparr> ''component_control'' system_actor (demo_api (\<lambda>_. Ok ()))
       ((demo_hstate None)\<lparr>h_rt := (h_rt (demo_hstate None))\<lparr>emergency_stop := True\<rparr>\<rparr>) = Some (Ok out, s')
     \<and> map c_target_temperature_c (h_writes s') = [Num 60]"
proof -
  let ?s = "(demo_hstate None)\<lparr>h_rt := (h_rt (demo_hstate None))\<lparr>emergency_stop := True\<rparr>\<rparr>"
  have tg: "targets (a_interfere (demo_api (\<lambda>_. Ok ())) (h_tick ?s) (h_rt ?s)) = targets (h_rt (demo_hstate None))"
    by (simp add: demo_api_def)
  have h: "h_writes (demo_hstate None) = []" "t_temperature_c (targets (h_rt (demo_hstate None))) = Num 60"
    by (simp_all add: demo_hstate_def from_safety_def shipped_safety_def)
  from component_stop_resends_targets [OF _ _ tg, of "''component_control''" system_actor] h show ?thesis
    by (force simp: demo_api_def safe_command_from_targets_def round_component_targets_def)
qed

text \<open>Some advertised actions can never be executed: the zone check derives the resulting set points from the
  command and knows no set points for the heater relay and for single speed steps, so switching the relay on
  or stepping the speed is refused whatever the state.\<close>

theorem relay_on_always_refused:
  assumes "(cid, cr_action payload) \<in> {(''heater_relay'', ''on''), (''shake_stepper'', ''speed_up''), (''shake_stepper'', ''speed_down'')}"
  shows "execute_component_control caps write_component device_id cid payload event actor env s \<noteq> Some (Ok out, s')"
proof
  assume run: "execute_component_control caps write_component device_id cid payload event actor env s = Some (Ok out, s')"
  have "targets_for_component \<lparr>cc_component_id = cid, cc_action = cr_action payload, cc_value = v\<rparr> current safety \<noteq> Ok tg"
    for v current safety tg
    using assms by (auto simp: targets_for_component_def Let_def)
  then have z: "zone_check \<lparr>cc_component_id = cid, cc_action = cr_action payload, cc_value = v\<rparr> current env s1 \<noteq> Some (Ok (), s2)"
    for v current s1 s2
    by (simp add: run_zone_check)
  have "component_control_requires_proven_safe_field (cr_action payload)"
    using assms by (auto simp: component_control_requires_proven_safe_field_def)
  with run z show False
    by (auto simp: execute_component_control_def Let_def hbind_Ok_iff)
qed

theorem relay_on_always_refused_witness:
  "\<not> (\<exists>out s'. execute_component_control (json_bridge_capabilities default_json_bridge_config) esp32_write_component ''reactor_001''
     ''heater_relay'' \<lparr>cr_action = ''on'', cr_value = None, cr_reason = None\<rparr> ''component_control'' system_actor
     (demo_api (\<lambda>_. Ok ())) (demo_hstate None) = Some (Ok out, s'))"
  using relay_on_always_refused [of "''heater_relay''" "\<lparr>cr_action = ''on'', cr_value = None, cr_reason = None\<rparr>"] by simp

section \<open>Fail-safe targets through the bridge\<close>

text \<open>Through the JSON bridge the fail-safe targets of an emergency stop or a process stop do not switch the
  heater off. While the shaker runs, the one command that a write emits stops the shaker; and unless the
  bridge is configured to regulate the temperature, no write of targets ever emits a relay command.\<close>

theorem bridge_failsafe_leaves_heater:
  assumes "process_stop_targets safety = Some tg" "wf_safety safety"
    and "validate_json_bridge_state from_ms now config state = Ok ()" "\<forall>ctl. w ctl = Ok ()"
  shows "(motor_on state \<longrightarrow> (\<exists>ctl cache'. json_bridge_write_targets from_ms now stamp config (Ok state) w
            (safe_command_from_runtime_targets tg reason) cache = (Ok (Some ctl), cache') \<and> bc_command ctl = ''motor''))
    \<and> (\<not> relay_temperature_control config \<longrightarrow> (\<forall>command ctl cache'. json_bridge_write_targets from_ms now stamp config (Ok state) w
            command cache = (Ok (Some ctl), cache') \<longrightarrow> bc_command ctl \<noteq> ''relay''))"
proof (intro conjI impI allI)
  have shake: "c_target_shake_speed_cpm (safe_command_from_runtime_targets tg reason) = Num 0"
    using assms(1) by (auto simp: process_stop_targets_def safe_command_from_runtime_targets_def)
  assume "motor_on state"
  from next_control_stop [OF assms(3) this, of "safe_command_from_runtime_targets tg reason"] shake
  show "\<exists>ctl cache'. json_bridge_write_targets from_ms now stamp config (Ok state) w
            (safe_command_from_runtime_targets tg reason) cache = (Ok (Some ctl), cache') \<and> bc_command ctl = ''motor''"
    using assms(4) by (simp add: json_bridge_write_targets_def rnd_sign build_json_bridge_control_def)
next
  fix command ctl cache'
  assume "\<not> relay_temperature_control config"
    and "json_bridge_write_targets from_ms now stamp config (Ok state) w command cache = (Ok (Some ctl), cache')"
  then show "bc_command ctl \<noteq> ''relay''"
    by (auto simp: json_bridge_write_targets_def split: sum.splits option.splits dest!: next_control_relay)
qed

theorem bridge_failsafe_leaves_heater_witness:
  "\<exists>tg ctl cache'. process_stop_targets shipped_safety = Some tg
     \<and> json_bridge_write_targets demo_from_ms 0 (0, 1) default_json_bridge_config (Ok (demo_bridge_state 1 1)) (\<lambda>_. Ok ())
         (safe_command_from_runtime_targets tg ''stop'') \<lparr>last_commanded_shake_speed_cpm = None, last_stirrer_command = None\<rparr>
       = (Ok (Some ctl), cache') \<and> bc_command ctl = ''motor'' \<and> jb_relay (demo_bridge_state 1 1) = Some 1"
proof -
  obtain tg where tg: "process_stop_targets shipped_safety = Some tg"
    using process_stop_targets_total [OF shipped_safety_valid] by blast
  have "motor_on (demo_bridge_state 1 1)" "jb_relay (demo_bridge_state 1 1) = Some 1"
    by (simp_all add: motor_on_def demo_bridge_state_def bit_or_field_def)
  with bridge_failsafe_leaves_heater [OF tg shipped_safety_valid demo_bridge_valid, of "\<lambda>_. Ok ()" 1 1 "(0, 1)" "''stop''"]
  show ?thesis using tg by auto
qed

section \<open>Latches and totality\<close>

lemma keeps_component [latch_keeps]:
  assumes "\<And>c t. keeps latches_hold (w c t)"
  shows "keeps latches_hold (execute_component_control caps w device_id cid payload event actor)"
proof -
  have commit: "keeps latches_hold (commit_component_targets_after_final_interlock safe proven x g)" for safe proven x g
    unfolding commit_component_targets_after_final_interlock_def
    by (intro keeps_intros)
       (auto simp: snd_lock_checks ensure_safety_latches_unchanged_for_commit_def latches_hold_def Let_def split: option.splits)
  have fin: "keeps latches_hold (finish_component_control event actor proven rt reason out)" for proven rt reason out
    unfolding finish_component_control_def Let_def
    by (intro keeps_intros latch_keeps commit) (simp add: wf_intros)
  show ?thesis
    unfolding execute_component_control_def prove_safe_field_def zone_check_def Let_def
    by (intro keeps_intros latch_keeps fin assms)
qed

lemma keeps_serial_writer: "keeps P (serial_write_component message command current)"
  unfolding serial_write_component_def Let_def by (intro keeps_intros)

section \<open>Witnesses\<close>

lemma component_control_fails_closed_witness_run:
  "\<exists>e s'. control_component demo_session esp32_capabilities (serial_write_component ''m'') ''reactor_001'' ''shake_stepper''
       \<lparr>cr_action = ''stop'', cr_value = None, cr_reason = None\<rparr> (demo_api (\<lambda>_. Err [''port closed''])) (demo_hstate None)
       = Some (Err e, s') \<and> h_writes s' \<noteq> h_writes (demo_hstate None)"
  by (simp add: control_component_def execute_component_control_def hbind_def hresult_def ensure_reactor_device_id_def read_lock_def with_lock_def
      find_component_action_def esp32_capabilities_def temperature_component_def stirrer_component_def component_capability_def
      numeric_action_def enum_action_def component_control_requires_proven_safe_field_def validate_component_control_payload_def
      component_control_command_value_def hreturn_def serial_write_component_def safety_of_def
      targets_for_stop device_write_def latch_control_write_fault_def hfail_def demo_session_def Let_def demo_api_def)

theorem component_control_fails_closed_witness:
  "\<exists>e s'. control_component demo_session esp32_capabilities (serial_write_component ''m'') ''reactor_001'' ''shake_stepper''
       \<lparr>cr_action = ''stop'', cr_value = None, cr_reason = None\<rparr> (demo_api (\<lambda>_. Err [''port closed''])) (demo_hstate None)
       = Some (Err e, s') \<and> last_control_error (h_rt s') \<noteq> None"
  using component_control_fails_closed component_control_fails_closed_witness_run by blast

lemma demo_start_targets:
  "targets_for_component \<lparr>cc_component_id = ''shake_stepper'', cc_action = ''start'', cc_value = v\<rparr> (targets (from_safety shipped_safety)) shipped_safety
     = Ok (targets (from_safety shipped_safety))"
proof -
  have "\<not> f64_le (Num 30) (rnd (1 / 100))" using rnd_mono [of "1/100" 1] by (cases "rnd (1/100)") auto
  then show ?thesis
    by (simp add: targets_for_component_def round_component_targets_def from_safety_def shipped_safety_def half_two_decimals Let_def)
qed

lemma demo_component_run:
  "\<exists>out s'. execute_component_control esp32_capabilities (serial_write_component ''m'') ''reactor_001'' ''shake_stepper''
     \<lparr>cr_action = ''start'', cr_value = None, cr_reason = None\<rparr> ''component_control'' system_actor (demo_api (\<lambda>_. Ok ())) (demo_hstate None)
       = Some (Ok out, s')"
proof -
  let ?tg = "targets (from_safety shipped_safety)"
  have tg: "targets (h_rt (demo_hstate None)) = ?tg" by (simp add: demo_hstate_def)
  have zone: "find_forbidden_control_zone shipped_safety (t_temperature_c ?tg) (t_stirrer_rpm ?tg) = None"
    by (simp add: from_safety_def shipped_safety_def find_forbidden_control_zone_def zone_contains_def)
  have eq: "targets_eq ?tg ?tg"
    by (simp add: targets_eq_def from_safety_def shipped_safety_def f64_eq_def half_two_decimals)
  have agree: "batches_agree (Ok []) (h_rt (demo_hstate None))" "same_generations rt rt" for rt
    by (simp_all add: batches_agree_def demo_hstate_def from_safety_def same_generations_def latches_changed_iff)
  have agreed: "persisted_batch_check (Ok []) (h_rt (demo_hstate None)) ComponentControl = Ok ()"
    using agree by (simp add: persisted_batch_check_iff)
  have healthy: "device_status_field_fault_reason 0 demo_status (sensor_timeout_ms (control shipped_safety)) = None"
    using demo_status_clear by (simp add: field_fault_None_iff status_clear_def)
  have status: "device_status (h_rt (demo_hstate None)) = Some demo_status" by (simp add: demo_hstate_def)
  show ?thesis
    by (simp add: execute_component_control_def Let_def run_simps prove_safe_field_def run_zone_check run_serial_write split_sum_ex
        find_component_action_def esp32_capabilities_def temperature_component_def stirrer_component_def component_capability_def
        numeric_action_def enum_action_def component_control_requires_proven_safe_field_def validate_component_control_payload_def
        component_control_command_value_def ensure_reactor_device_id_def demo_api_def gate_iff demo_field_clear demo_disarmed
        run_checks_Ok_iff status healthy agreed tg demo_start_targets zone finish_component_control_def run_commit_component agree eq
        make_outcome_def)
qed


end
