(* ===== verification/Pipeline_Api.thy ===== *)
theory Pipeline_Api
  imports Production_Api
begin

text \<open>
  Samples from the external data pipeline and the alarms (\<open>api.rs\<close>): a sample is validated, stored, made the
  current sample, checked against the alarm conditions and, when one of high level is met, automatic control
  goes off. A sample that is refused or cannot be stored takes automatic control down as well.
\<close>

section \<open>Alarms\<close>

record alarm =
  al_type :: string
  al_level :: string
  al_message :: string
  al_current_value :: "f64 option"
  al_limit_value :: "f64 option"
  al_suggestion :: "string option"

definition plain_alarm :: "string \<Rightarrow> string \<Rightarrow> string \<Rightarrow> string option \<Rightarrow> alarm" where
  "plain_alarm ty level message suggestion = \<lparr>al_type = ty, al_level = level, al_message = message,
     al_current_value = None, al_limit_value = None, al_suggestion = suggestion\<rparr>"

definition sensor_data_alarm_reason ::
    "safety_config \<Rightarrow> time \<Rightarrow> runtime_state \<Rightarrow> sensor_snapshot option \<Rightarrow> string option" where
  "sensor_data_alarm_reason safety now rt sample = (case last_sensor_error rt of
       Some error \<Rightarrow> Some (''sensor data unavailable; '' @ error)
     | None \<Rightarrow> (case sample of
         None \<Rightarrow> Some ''sensor data unavailable; no persisted pipeline sample is available''
       | Some s \<Rightarrow>
           let age_ms = timestamp_age_ms now (s_captured_at s) in
           if age_ms < 0 then Some (''sensor data timestamp is '' @ show_int (- age_ms)
             @ '' ms in the future; field clock state is not trusted'')
           else if sensor_timeout_ms (control safety) < age_ms then
             Some (''sensor data stale; last persisted sample is '' @ show_int age_ms @ '' ms old, max ''
                   @ show_int (sensor_timeout_ms (control safety)) @ '' ms'')
           else None))"

definition device_status_alarm_reason :: "safety_config \<Rightarrow> time \<Rightarrow> runtime_state \<Rightarrow> string option" where
  "device_status_alarm_reason safety now rt = (case device_status rt of
       None \<Rightarrow> if require_device_status_for_control (control safety)
               then Some ''downstream device status unavailable; field state is not proven safe'' else None
     | Some status \<Rightarrow> device_status_field_fault_reason now status (sensor_timeout_ms (control safety)))"

definition push_sensor_alarm :: "string \<Rightarrow> sensor_limit option \<Rightarrow> f64 \<Rightarrow> alarm list" where
  "push_sensor_alarm ty limit value = (case Option.bind limit (\<lambda>l. sensor_limit_check l value) of
       None \<Rightarrow> []
     | Some a \<Rightarrow> [\<lparr>al_type = ty, al_level = (case la_level a of Warning \<Rightarrow> ''medium'' | High \<Rightarrow> ''high''),
         al_message = la_message a, al_current_value = Some (la_current_value a),
         al_limit_value = Some (la_limit_value a), al_suggestion = Some (la_suggestion a)\<rparr>])"

definition sample_alarms :: "sensor_limits \<Rightarrow> sensor_snapshot \<Rightarrow> alarm list" where
  "sample_alarms limits s =
     push_sensor_alarm ''temperature_limit'' (lim_temperature_c limits) (s_temperature_c s)
     @ push_sensor_alarm ''pressure_limit'' (lim_pressure_mpa limits) (s_pressure_mpa s)
     @ push_sensor_alarm ''stirrer_limit'' (lim_stirrer_rpm limits) (s_stirrer_rpm s)
     @ push_sensor_alarm ''shake_speed_limit'' (lim_shake_speed_cpm limits) (s_shake_speed_cpm s)
     @ push_sensor_alarm ''tilt_angle_limit'' (lim_tilt_angle_deg limits) (s_tilt_angle_deg s)
     @ push_sensor_alarm ''flow_rate_limit'' (lim_flow_rate_l_min limits) (s_flow_rate_l_min s)
     @ push_sensor_alarm ''product_concentration_limit'' (lim_product_concentration_percent limits)
         (s_product_concentration_percent s)
     @ push_sensor_alarm ''ph_limit'' (lim_ph limits) (s_ph s)"

definition opt_alarm :: "string option \<Rightarrow> (string \<Rightarrow> alarm) \<Rightarrow> alarm list" where
  "opt_alarm reason mk = (case reason of None \<Rightarrow> [] | Some r \<Rightarrow> [mk r])"

definition alarms_for ::
    "safety_config \<Rightarrow> time \<Rightarrow> runtime_state \<Rightarrow> sensor_snapshot option \<Rightarrow> ai_memory \<Rightarrow> alarm list" where
  "alarms_for safety now rt sample memory =
     opt_alarm (sensor_data_alarm_reason safety now rt sample) (\<lambda>r. plain_alarm ''sensor_data_unavailable'' ''high'' r
       (Some ''restore fresh persisted sensor data before enabling control or continuing production decisions''))
     @ opt_alarm (device_status_alarm_reason safety now rt) (\<lambda>r. plain_alarm ''device_status_unavailable'' ''high'' r
       (Some ''verify downstream controller status before enabling control or starting production''))
     @ opt_alarm (Option.bind (device_status rt) downstream_command_fault_reason)
       (\<lambda>r. plain_alarm ''downstream_command_fault'' ''high'' r
         (Some ''confirm actuator state and clear the downstream command fault before resuming production''))
     @ (if emergency_stop rt
        then [plain_alarm ''emergency_stop'' ''high'' ''manual emergency stop is active''
                (Some ''confirm field safety before resetting emergency stop'')] else [])
     @ opt_alarm (last_control_error rt) (\<lambda>e. plain_alarm ''communication_error'' ''medium'' e None)
     @ opt_alarm (last_sensor_error rt) (\<lambda>e. plain_alarm ''sensor_error'' ''high'' e None)
     @ (case sample of None \<Rightarrow> [] | Some s \<Rightarrow> sample_alarms (sensor_limits_of memory) s)"

definition append_unfinished_batch_recovery_alarm ::
    "unfinished_batch_status \<Rightarrow> runtime_state \<Rightarrow> alarm list \<Rightarrow> alarm list" where
  "append_unfinished_batch_recovery_alarm st rt alarms =
     (if \<not> recovery_required st then alarms
      else alarms @ [plain_alarm ''unfinished_batch_recovery'' ''high'' (batch_status_reason st rt)
        (Some ''verify field state and close or repair unfinished batches before starting production'')])"

definition live_alarms_for_with_batch_status ::
    "safety_config \<Rightarrow> time \<Rightarrow> runtime_state \<Rightarrow> sensor_snapshot option \<Rightarrow> ai_memory \<Rightarrow> unfinished_batch_status \<Rightarrow> alarm list" where
  "live_alarms_for_with_batch_status safety now rt sample memory st =
     append_unfinished_batch_recovery_alarm st rt (alarms_for safety now rt sample memory)"

abbreviation high_alarms :: "alarm list \<Rightarrow> alarm list" where
  "high_alarms \<equiv> filter (\<lambda>a. al_level a = ''high'')"

section \<open>Phase and progress\<close>

definition phase_for :: "runtime_state \<Rightarrow> bool \<Rightarrow> string" where
  "phase_for rt device_online =
     (if \<not> device_online then ''offline''
      else if emergency_stop rt \<or> last_sensor_error rt \<noteq> None \<or> last_control_error rt \<noteq> None then ''error''
      else if active_batch_id rt \<noteq> None then ''heating'' else ''idle'')"

text \<open>\<open>None\<close> is the panic of \<open>clamp\<close>.\<close>

definition progress_for :: "sensor_snapshot option \<Rightarrow> f64 option" where
  "progress_for sample = (case sample of
       Some s \<Rightarrow> f64_clamp (s_product_concentration_percent s) (lit 0) (lit 100)
     | None \<Rightarrow> Some (lit 0))"

section \<open>Ingestion\<close>

record pipeline_sample_request =
  pr_temperature_c :: f64
  pr_pressure_mpa :: f64
  pr_stirrer_rpm :: f64
  pr_shake_speed_cpm :: f64
  pr_tilt_state :: u8
  pr_flow_rate_l_min :: f64
  pr_product_concentration_percent :: f64
  pr_ph :: f64

definition round2_sensor :: "sensor_range \<Rightarrow> f64 \<Rightarrow> app_error + f64" where
  "round2_sensor rng value = bind_res (map_err bad_request (sensor_range_validate rng value)) (\<lambda>_. Ok (round2 value))"

definition pipeline_sample_from_request ::
    "(f64 \<Rightarrow> f64) \<Rightarrow> time \<Rightarrow> pipeline_sample_request \<Rightarrow> (app_error + sensor_snapshot) option" where
  "pipeline_sample_from_request sin_f now p =
     (case bind_res (map_err bad_request (validate_sensor_tilt_state (pr_tilt_state p))) (\<lambda>_.
           bind_res (round2_sensor SENSOR_SHAKE_SPEED_CPM_RANGE (pr_shake_speed_cpm p)) (\<lambda>shake.
           bind_res (round2_sensor SENSOR_TEMPERATURE_C_RANGE (pr_temperature_c p)) (\<lambda>temp.
           bind_res (round2_sensor SENSOR_PRESSURE_MPA_RANGE (pr_pressure_mpa p)) (\<lambda>pressure.
           bind_res (round2_sensor SENSOR_STIRRER_RPM_RANGE (pr_stirrer_rpm p)) (\<lambda>rpm.
           Ok (shake, temp, pressure, rpm)))))) of
        Inl e \<Rightarrow> Some (Err e)
      | Inr (shake, temp, pressure, rpm) \<Rightarrow>
          map_option (\<lambda>angle.
            bind_res (round2_sensor SENSOR_FLOW_RATE_L_MIN_RANGE (pr_flow_rate_l_min p)) (\<lambda>flow.
            bind_res (round2_sensor SENSOR_PRODUCT_CONCENTRATION_PERCENT_RANGE (pr_product_concentration_percent p)) (\<lambda>conc.
            bind_res (round2_sensor SENSOR_PH_RANGE (pr_ph p)) (\<lambda>ph.
            let s = \<lparr>s_temperature_c = temp, s_pressure_mpa = pressure, s_stirrer_rpm = rpm,
                s_shake_speed_cpm = shake, s_tilt_state = pr_tilt_state p, s_tilt_angle_deg = angle,
                s_flow_rate_l_min = flow, s_product_concentration_percent = conc, s_ph = ph, s_captured_at = now\<rparr>
            in bind_res (map_err bad_request (validate_sensor_snapshot s)) (\<lambda>_. Ok s)))))
          (fit_tilt_angle_deg sin_f (pr_tilt_state p) shake now))"

definition apply_high_sensor_alarm_fail_closed :: "runtime_state \<Rightarrow> nat \<Rightarrow> runtime_state \<times> bool" where
  "apply_high_sensor_alarm_fail_closed rt high_alarm_count =
     (if high_alarm_count = 0 then (rt, False)
      else (rt\<lparr>auto_enabled := False\<rparr>, auto_enabled rt \<or> active_batch_id rt \<noteq> None))"

text \<open>Audit rows of the system actor whose failure is only logged.\<close>

definition system_audit :: "int option \<Rightarrow> string \<Rightarrow> string \<Rightarrow> unit handler" where
  "system_audit batch event reason =
     hbind (insert_event system_actor batch event None reason) (\<lambda>_. hreturn ())"

definition audit_high_sensor_alarm_auto_disable :: "int option \<Rightarrow> alarm list \<Rightarrow> unit handler" where
  "audit_high_sensor_alarm_auto_disable batch alarms =
     (let types = map al_type (high_alarms alarms) in
      system_audit batch ''high_sensor_alarm_auto_disabled''
        (''high sensor alarm disabled automatic control: ''
         @ (if types = [] then ''unknown high alarm'' else join_with '', '' types)))"

definition api_audit_field_input_auto_disable :: "int option \<Rightarrow> bool \<Rightarrow> string \<Rightarrow> unit handler" where
  "api_audit_field_input_auto_disable batch auto_was_disabled reason =
     (if \<not> auto_was_disabled then hreturn () else system_audit batch ''field_input_fault_auto_disabled'' reason)"

definition api_audit_control_fault_auto_disable :: "int option \<Rightarrow> unit handler" where
  "api_audit_control_fault_auto_disable batch =
     system_audit batch ''control_fault_auto_disabled'' ''control fault was already latched; automatic control forced disabled''"

definition reject_pipeline_sample_input :: "string \<Rightarrow> unit handler" where
  "reject_pipeline_sample_input reason =
     hbind (with_lock (\<lambda>env now unf rt.
       let (rt1, off) = reject_unpersisted_sample_with_status None reason rt in (Ok (active_batch_id rt, off), rt1)))
       (\<lambda>(batch, off). api_audit_field_input_auto_disable batch off reason)"

definition clock_of :: "time handler" where
  "clock_of = (\<lambda>env s. Some (Ok (a_clock env (h_tick s)), s))"

text \<open>The sample is made current; the alarms are computed on the state of that moment.\<close>

definition install_sample :: "sensor_snapshot \<Rightarrow> ai_memory \<Rightarrow> alarm list handler" where
  "install_sample sample memory =
     with_lock (\<lambda>env now unf rt.
       let rt1 = rt\<lparr>latest_sample := Some sample, last_sensor_error := None\<rparr>
       in (Ok (alarms_for (a_safety env) now rt1 (latest_sample rt1) memory), rt1))"

definition enforce_alarms :: "alarm list \<Rightarrow> (bool \<times> bool) handler" where
  "enforce_alarms alarms =
     with_lock (\<lambda>env now unf rt.
       let (rt1, by_alarm) = apply_high_sensor_alarm_fail_closed rt (length (high_alarms alarms));
           (rt2, by_fault) = enforce_control_fault_fail_closed rt1
       in (Ok (by_alarm, by_fault), rt2))"

definition accept_pipeline_sample ::
    "(f64 \<Rightarrow> f64) \<Rightarrow> ai_memory \<Rightarrow> pipeline_sample_request \<Rightarrow> sensor_snapshot handler" where
  "accept_pipeline_sample sin_f memory payload =
     hbind clock_of (\<lambda>now.
     hbind (hpanic (pipeline_sample_from_request sin_f now payload)) (\<lambda>parsed. case parsed of
       Inl err \<Rightarrow>
         hbind (reject_pipeline_sample_input (''sensor sample rejected: '' @ err_message err)) (\<lambda>_. hfail err)
     | Inr sample \<Rightarrow>
     hbind (read_lock active_batch_id) (\<lambda>batch.
     hbind (db_exec (InsertSample batch sample) a_sample) (\<lambda>stored. case stored of
       Inl err \<Rightarrow>
         (let reason = ''sensor sample persistence failed: '' @ err_alternate err in
          hbind (with_lock (\<lambda>env now unf rt.
            let (rt1, off) = reject_unpersisted_sample_with_status None reason rt in (Ok off, rt1))) (\<lambda>off.
          hbind (api_audit_field_input_auto_disable batch off reason) (\<lambda>_.
          hfail internal_error)))
     | Inr _ \<Rightarrow>
     hbind (install_sample sample memory) (\<lambda>alarms.
     hbind (enforce_alarms alarms) (\<lambda>(by_alarm, by_fault).
     hbind (if by_alarm then audit_high_sensor_alarm_auto_disable batch alarms else hreturn ()) (\<lambda>_.
     hbind (if by_fault then api_audit_control_fault_auto_disable batch else hreturn ()) (\<lambda>_.
     hreturn sample))))))))"

text \<open>\<open>decoded\<close> is the result of decoding the JSON body.\<close>

definition parse_pipeline_sample_payload :: "string + pipeline_sample_request \<Rightarrow> pipeline_sample_request handler" where
  "parse_pipeline_sample_payload decoded = (case decoded of
       Inr payload \<Rightarrow> hreturn payload
     | Inl err \<Rightarrow>
         (let message = ''invalid sensor sample JSON: '' @ err in
          hbind (reject_pipeline_sample_input (''sensor sample rejected: '' @ message)) (\<lambda>_.
          hfail (bad_request message))))"

definition v1_pipeline_sample ::
    "(f64 \<Rightarrow> f64) \<Rightarrow> ai_memory \<Rightarrow> session \<Rightarrow> string \<Rightarrow> string + pipeline_sample_request \<Rightarrow> sensor_snapshot handler" where
  "v1_pipeline_sample sin_f memory session device_id decoded =
     hbind (hresult (ensure_reactor_device_id device_id)) (\<lambda>_.
     hbind (hresult (session IngestSensorSample)) (\<lambda>_.
     hbind (parse_pipeline_sample_payload decoded) (\<lambda>payload.
     accept_pipeline_sample sin_f memory payload)))"

section \<open>Runs\<close>

lemma round2_sensor_Ok: "round2_sensor rng value = Ok x \<longleftrightarrow> is_ok (sensor_range_validate rng value) \<and> x = round2 value"
  by (cases "sensor_range_validate rng value") (auto simp: round2_sensor_def)

lemma pipeline_sample_total: "\<exists>r. pipeline_sample_from_request sin_f now p = Some r"
proof -
  have "\<exists>angle. fit_tilt_angle_deg sin_f (pr_tilt_state p) shake now = Some angle" for shake by (rule tilt_angle_total)
  then show ?thesis by (auto simp: pipeline_sample_from_request_def split: sum.split)
qed

lemma pipeline_sample_Ok:
  assumes "pipeline_sample_from_request sin_f now p = Some (Ok s)"
  shows "plausible_sample s \<and> s_captured_at s = now \<and> s_temperature_c s = round2 (pr_temperature_c p)
     \<and> s_pressure_mpa s = round2 (pr_pressure_mpa p) \<and> s_stirrer_rpm s = round2 (pr_stirrer_rpm p)
     \<and> s_shake_speed_cpm s = round2 (pr_shake_speed_cpm p) \<and> s_tilt_state s = pr_tilt_state p
     \<and> s_flow_rate_l_min s = round2 (pr_flow_rate_l_min p)
     \<and> s_product_concentration_percent s = round2 (pr_product_concentration_percent p) \<and> s_ph s = round2 (pr_ph p)"
  using assms
  by (auto simp: pipeline_sample_from_request_def bind_res_Ok_iff round2_sensor_Ok Let_def
      validate_sensor_snapshot_iff unit_ok [symmetric] split: sum.splits)

lemma enforce_auto:
  "fst (enforce_control_fault_fail_closed (fst (apply_high_sensor_alarm_fail_closed rt n)))
   = rt\<lparr>auto_enabled := auto_enabled rt \<and> n = 0 \<and> last_control_error rt = None\<rparr>"
  by (cases rt) (auto simp: apply_high_sensor_alarm_fail_closed_def enforce_control_fault_fail_closed_def)

lemma system_audit_run: "\<exists>s1. system_audit b ev why env s = Some (Ok (), s1) \<and> h_rt s1 = h_rt s \<and> h_db s1 = h_db s"
  by (auto simp: system_audit_def hbind_def insert_event_def hreturn_def Let_def split: sum.split)

text \<open>The state after a sample was refused.\<close>

definition without_sample :: "string \<Rightarrow> runtime_state \<Rightarrow> runtime_state" where
  "without_sample why rt = rt\<lparr>latest_sample := None, device_status := None, last_sensor_error := Some why,
     auto_enabled := False\<rparr>"

lemma reject_sample_effect:
  "reject_unpersisted_sample_with_status None why rt = (without_sample why rt, auto_enabled rt)"
  by (cases rt) (simp add: runtime_op_defs without_sample_def Let_def)

lemma field_audit_run:
  "\<exists>s1. api_audit_field_input_auto_disable b off why env s = Some (Ok (), s1) \<and> h_rt s1 = h_rt s \<and> h_db s1 = h_db s"
  using system_audit_run by (simp add: api_audit_field_input_auto_disable_def hreturn_def)

lemma reject_input_run:
  "\<exists>s1. reject_pipeline_sample_input why env s = Some (Ok (), s1) \<and> h_db s1 = h_db s
     \<and> h_rt s1 = without_sample why (a_interfere env (h_tick s) (h_rt s))"
  using field_audit_run [of "active_batch_id (a_interfere env (h_tick s) (h_rt s))" _ why env
      "s\<lparr>h_rt := without_sample why (a_interfere env (h_tick s) (h_rt s)), h_tick := h_tick s + 1\<rparr>"]
  by (simp add: reject_pipeline_sample_input_def hbind_def with_lock_def reject_sample_effect Let_def conj_commute)

section \<open>Properties\<close>

text \<open>The level of a channel, \<open>None\<close> while it is within its limits.\<close>

definition channel_level :: "sensor_limit option \<Rightarrow> f64 \<Rightarrow> limit_level option" where
  "channel_level limit value = map_option la_level (Option.bind limit (\<lambda>l. sensor_limit_check l value))"

definition channels_safe :: "sensor_limits \<Rightarrow> sensor_snapshot \<Rightarrow> bool" where
  "channels_safe limits s \<longleftrightarrow>
     channel_level (lim_temperature_c limits) (s_temperature_c s) \<noteq> Some High
     \<and> channel_level (lim_pressure_mpa limits) (s_pressure_mpa s) \<noteq> Some High
     \<and> channel_level (lim_stirrer_rpm limits) (s_stirrer_rpm s) \<noteq> Some High
     \<and> channel_level (lim_shake_speed_cpm limits) (s_shake_speed_cpm s) \<noteq> Some High
     \<and> channel_level (lim_tilt_angle_deg limits) (s_tilt_angle_deg s) \<noteq> Some High
     \<and> channel_level (lim_flow_rate_l_min limits) (s_flow_rate_l_min s) \<noteq> Some High
     \<and> channel_level (lim_product_concentration_percent limits) (s_product_concentration_percent s) \<noteq> Some High
     \<and> channel_level (lim_ph limits) (s_ph s) \<noteq> Some High"

lemma push_alarm_high: "high_alarms (push_sensor_alarm ty limit value) = [] \<longleftrightarrow> channel_level limit value \<noteq> Some High"
  by (auto simp: push_sensor_alarm_def channel_level_def split: option.splits limit_level.splits)

lemma opt_alarm_high [simp]:
  "(\<And>r. al_level (mk r) = ''high'') \<Longrightarrow> high_alarms (opt_alarm reason mk) = [] \<longleftrightarrow> reason = None"
  "(\<And>r. al_level (mk r) \<noteq> ''high'') \<Longrightarrow> high_alarms (opt_alarm reason mk) = []"
  by (auto simp: opt_alarm_def split: option.splits)

lemma sensor_data_alarm_iff:
  "sensor_data_alarm_reason safety now rt (latest_sample rt) = None \<longleftrightarrow> fresh_input now safety rt"
  by (auto simp: sensor_data_alarm_reason_def fresh_input_def timestamp_is_fresh_def Let_def split: option.splits)

lemma device_alarm_iff:
  "device_status_alarm_reason safety now rt = None \<and> Option.bind (device_status rt) downstream_command_fault_reason = None
   \<longleftrightarrow> status_clear now safety (device_status rt)"
  by (auto simp: device_status_alarm_reason_def status_clear_def field_fault_None_iff command_fault_None_iff split: option.splits)

lemma high_alarms_none:
  "high_alarms (alarms_for safety now rt (latest_sample rt) memory) = [] \<longleftrightarrow>
     \<not> emergency_stop rt \<and> fresh_input now safety rt \<and> status_clear now safety (device_status rt)
     \<and> (\<forall>s. latest_sample rt = Some s \<longrightarrow> channels_safe (sensor_limits_of memory) s)"
proof -
  have err: "fresh_input now safety rt \<Longrightarrow> last_sensor_error rt = None" by (simp add: fresh_input_def)
  have smp: "high_alarms (case latest_sample rt of None \<Rightarrow> [] | Some s \<Rightarrow> sample_alarms (sensor_limits_of memory) s) = []
      \<longleftrightarrow> (\<forall>s. latest_sample rt = Some s \<longrightarrow> channels_safe (sensor_limits_of memory) s)"
    by (cases "latest_sample rt") (simp_all add: sample_alarms_def push_alarm_high channels_safe_def)
  show ?thesis
    unfolding alarms_for_def
    using err device_alarm_iff [of safety now rt]
    by (simp add: smp plain_alarm_def sensor_data_alarm_iff) blast
qed

text \<open>The alarm list and the interlock agree: for the current sample no alarm of high level is raised exactly
  when the emergency stop is released, the sample is fresh and without a sensor error, the device status is
  clear, and no channel of the sample is beyond a hard limit.\<close>

theorem no_high_alarm_iff:
  "high_alarms (alarms_for safety now rt (latest_sample rt) memory) = [] \<longleftrightarrow>
     \<not> emergency_stop rt \<and> fresh_input now safety rt \<and> status_clear now safety (device_status rt)
     \<and> (\<exists>s. latest_sample rt = Some s \<and> channels_safe (sensor_limits_of memory) s)"
  unfolding high_alarms_none by (auto simp: fresh_input_def)

lemma run_audits:
  "audit_high_sensor_alarm_auto_disable b alarms env s = Some (Ok (), s') \<Longrightarrow> h_rt s' = h_rt s \<and> h_db s' = h_db s"
  "api_audit_control_fault_auto_disable b env s = Some (Ok (), s') \<Longrightarrow> h_rt s' = h_rt s \<and> h_db s' = h_db s"
  using system_audit_run [of b _ _ env s]
  unfolding audit_high_sensor_alarm_auto_disable_def api_audit_control_fault_auto_disable_def Let_def
  by (metis (no_types, lifting) Pair_inject option.inject)+

lemma run_enforce:
  "enforce_alarms alarms env s = Some (Ok (by_alarm, by_fault), s') \<Longrightarrow>
     \<exists>live. live = a_interfere env (h_tick s) (h_rt s) \<and> h_db s' = h_db s
       \<and> h_rt s' = live\<lparr>auto_enabled := auto_enabled live \<and> high_alarms alarms = [] \<and> last_control_error live = None\<rparr>"
  using enforce_auto [of "a_interfere env (h_tick s) (h_rt s)" "length (high_alarms alarms)"]
  by (auto simp: enforce_alarms_def with_lock_def Let_def case_prod_beta)

text \<open>What an accepted sample leaves behind.\<close>

definition sample_accepted ::
    "(f64 \<Rightarrow> f64) \<Rightarrow> ai_memory \<Rightarrow> pipeline_sample_request \<Rightarrow> api_env \<Rightarrow> hstate \<Rightarrow> sensor_snapshot \<Rightarrow> hstate \<Rightarrow> bool" where
  "sample_accepted sin_f memory payload env s sample s' \<longleftrightarrow>
     pipeline_sample_from_request sin_f (a_clock env (h_tick s)) payload = Some (Ok sample)
     \<and> (let seen = a_interfere env (h_tick s) (h_rt s);
            current = (a_interfere env (h_tick s + 2) seen)\<lparr>latest_sample := Some sample, last_sensor_error := None\<rparr>;
            live = a_interfere env (h_tick s + 3) current
        in a_sample env (h_tick s + 1) = Ok () \<and> h_db s' = h_db s @ [InsertSample (active_batch_id seen) sample]
           \<and> h_rt s' = live\<lparr>auto_enabled := auto_enabled live
               \<and> high_alarms (alarms_for (a_safety env) (a_clock env (h_tick s + 2)) current (Some sample) memory) = []
               \<and> last_control_error live = None\<rparr>)"

lemma run_accept:
  assumes "accept_pipeline_sample sin_f memory payload env s = Some (Ok sample, s')"
  shows "sample_accepted sin_f memory payload env s sample s'"
proof -
  let ?t = "h_tick s"
  let ?seen = "a_interfere env ?t (h_rt s)"
  let ?current = "(a_interfere env (Suc (Suc ?t)) ?seen)\<lparr>latest_sample := Some sample, last_sensor_error := None\<rparr>"
  let ?alarms = "alarms_for (a_safety env) (a_clock env (Suc (Suc ?t))) ?current (Some sample) memory"
  let ?s3 = "s\<lparr>h_db := h_db s @ [InsertSample (active_batch_id ?seen) sample], h_rt := ?current, h_tick := Suc (Suc (Suc ?t))\<rparr>"
  obtain a f s4 s5 where parsed: "pipeline_sample_from_request sin_f (a_clock env ?t) payload = Some (Ok sample)"
    and stored: "a_sample env (?t + 1) = Ok ()"
    and enf: "enforce_alarms ?alarms env ?s3 = Some (Ok (a, f), s4)"
    and au: "(if a then audit_high_sensor_alarm_auto_disable (active_batch_id ?seen) ?alarms else hreturn ()) env s4 = Some (Ok (), s5)"
      "(if f then api_audit_control_fault_auto_disable (active_batch_id ?seen) else hreturn ()) env s5 = Some (Ok (), s')"
    using assms
    by (cases "a_sample env (Suc ?t)")
       (auto simp: accept_pipeline_sample_def clock_of_def hbind_Ok_iff run_primitives run_read install_sample_def
        with_lock_Some Let_def eval_nat_numeral split_sum_ex)
  have "h_rt s' = h_rt s4 \<and> h_db s' = h_db s4"
    using au run_audits by (auto simp: run_primitives split: if_splits)
  with run_enforce [OF enf] parsed stored show ?thesis
    unfolding sample_accepted_def Let_def by (auto simp: eval_nat_numeral)
qed

lemma run_v1_pipeline:
  assumes "v1_pipeline_sample sin_f memory session device_id decoded env s = Some (Ok sample, s')"
  shows "\<exists>user payload. session IngestSensorSample = Ok user \<and> decoded = Ok payload \<and> device_id = ''reactor_001''
     \<and> sample_accepted sin_f memory payload env s sample s'"
proof -
  obtain payload where p: "decoded = Ok payload"
    using assms by (cases decoded) (auto simp: v1_pipeline_sample_def parse_pipeline_sample_payload_def hbind_Ok_iff run_primitives Let_def)
  with assms run_accept show ?thesis
    by (auto simp: v1_pipeline_sample_def parse_pipeline_sample_payload_def hbind_Ok_iff run_primitives
        ensure_reactor_device_id_def split: if_splits)
qed

text \<open>C33: A sample that the pipeline endpoint accepts is plausible in every channel, carries the server's clock as
  its capture time and was stored before it became the current sample. When it, the device status or a latch
  raises an alarm of high level (the interlock conditions of the alarm list), or when a control fault is
  latched by the time of the last lock, automatic control is off at the end.\<close>

theorem pipeline_sample_accepted:
  assumes "v1_pipeline_sample sin_f memory session device_id decoded env s = Some (Ok sample, s')"
  shows "plausible_sample sample \<and> s_captured_at sample = a_clock env (h_tick s)
    \<and> a_sample env (h_tick s + 1) = Ok () \<and> (\<exists>b. h_db s' = h_db s @ [InsertSample b sample])
    \<and> (\<exists>rt. latest_sample rt = Some sample \<and> last_sensor_error rt = None
         \<and> h_rt s' = (a_interfere env (h_tick s + 3) rt)\<lparr>auto_enabled := auto_enabled (h_rt s')\<rparr>
         \<and> (auto_enabled (h_rt s') \<longrightarrow> \<not> emergency_stop rt \<and> last_control_error (h_rt s') = None
              \<and> channels_safe (sensor_limits_of memory) sample
              \<and> fresh_input (a_clock env (h_tick s + 2)) (a_safety env) rt
              \<and> status_clear (a_clock env (h_tick s + 2)) (a_safety env) (device_status rt)))"
proof -
  obtain payload where acc: "sample_accepted sin_f memory payload env s sample s'" using run_v1_pipeline [OF assms] by blast
  let ?rt = "(a_interfere env (h_tick s + 2) (a_interfere env (h_tick s) (h_rt s)))\<lparr>latest_sample := Some sample, last_sensor_error := None\<rparr>"
  have sample: "plausible_sample sample \<and> s_captured_at sample = a_clock env (h_tick s)"
    using acc pipeline_sample_Ok unfolding sample_accepted_def by blast
  note alarms = high_alarms_none [of "a_safety env" "a_clock env (h_tick s + 2)" ?rt memory]
  have end_state: "h_rt s' = (a_interfere env (h_tick s + 3) ?rt)\<lparr>auto_enabled := auto_enabled (h_rt s')\<rparr>
     \<and> (auto_enabled (h_rt s') \<longrightarrow> last_control_error (h_rt s') = None
       \<and> high_alarms (alarms_for (a_safety env) (a_clock env (h_tick s + 2)) ?rt (latest_sample ?rt) memory) = [])"
    using acc by (auto simp: sample_accepted_def Let_def)
  show ?thesis
    using acc sample end_state alarms
    by (intro conjI exI [of _ ?rt]) (auto simp: sample_accepted_def Let_def)
qed

definition sample_refused :: "runtime_state \<Rightarrow> bool" where
  "sample_refused rt \<longleftrightarrow> latest_sample rt = None \<and> device_status rt = None \<and> last_sensor_error rt \<noteq> None \<and> \<not> auto_enabled rt"

lemma without_sample_refused [simp]: "sample_refused (without_sample why rt)"
  by (simp add: sample_refused_def without_sample_def)

lemma never_fails_alarms:
  "never_fails (enforce_alarms alarms)" "never_fails (audit_high_sensor_alarm_auto_disable b alarms)"
  "never_fails (api_audit_control_fault_auto_disable b)"
  unfolding enforce_alarms_def audit_high_sensor_alarm_auto_disable_def api_audit_control_fault_auto_disable_def
    system_audit_def Let_def
  by (intro fault_intros never_fails_lock; simp add: case_prod_beta)+

text \<open>The first steps of a request, evaluated.\<close>

lemma bind_steps:
  "hbind clock_of k env s = k (a_clock env (h_tick s)) env s"
  "hbind (hpanic (Some x)) k' env s = k' x env s"
  "hbind (read_lock f) k'' env s = k'' (f (a_interfere env (h_tick s) (h_rt s))) env
     (s\<lparr>h_rt := a_interfere env (h_tick s) (h_rt s), h_tick := Suc (h_tick s)\<rparr>)"
  "hbind (db_exec act g) k3 env s = k3 (g env (h_tick s)) env (s\<lparr>h_tick := Suc (h_tick s), h_db := h_db s @ [act]\<rparr>)"
  by (simp_all add: hbind_def clock_of_def hpanic_def read_lock_def with_lock_def db_exec_def Let_def)

lemma bind_lock:
  "hbind (with_lock body) k env s =
     (let t = h_tick s; r = body env (a_clock env t) (a_unfinished env t) (a_interfere env t (h_rt s));
          s1 = s\<lparr>h_rt := snd r, h_tick := Suc t\<rparr>
      in case fst r of Inl e \<Rightarrow> Some (Inl e, s1) | Inr a \<Rightarrow> k a env s1)"
  by (simp add: hbind_def with_lock_def Let_def case_prod_beta)

lemma accept_refused:
  assumes "accept_pipeline_sample sin_f memory payload env s = Some (Err e, s')"
  shows "sample_refused (h_rt s')"
proof -
  let ?t = "h_tick s"
  let ?seen = "a_interfere env ?t (h_rt s)"
  obtain parsed where parsed: "pipeline_sample_from_request sin_f (a_clock env ?t) payload = Some parsed"
    using pipeline_sample_total by blast
  show ?thesis
  proof (cases parsed)
    case (Inl err)
    then show ?thesis using assms parsed reject_input_run [of "''sensor sample rejected: '' @ err_message err" env s]
      by (auto simp: accept_pipeline_sample_def clock_of_def hbind_def hpanic_def hfail_def hresult_def)
  next
    case (Inr sample)
    let ?s1 = "s\<lparr>h_rt := ?seen, h_tick := Suc (Suc ?t), h_db := h_db s @ [InsertSample (active_batch_id ?seen) sample]\<rparr>"
    show ?thesis
    proof (cases "a_sample env (Suc ?t)")
      case (Inl err)
      let ?why = "''sensor sample persistence failed: '' @ err_alternate err"
      let ?rt = "a_interfere env (Suc (Suc ?t)) ?seen"
      show ?thesis using assms parsed Inr Inl field_audit_run [of "active_batch_id ?seen" "auto_enabled ?rt" ?why env
          "?s1\<lparr>h_rt := without_sample ?why ?rt, h_tick := Suc (Suc (Suc ?t))\<rparr>"]
        by (auto simp: accept_pipeline_sample_def clock_of_def hbind_def hpanic_def hfail_def hresult_def read_lock_def
            with_lock_def db_exec_def reject_sample_effect Let_def)
    next
      case (Inr u)
      have "never_fails (hbind (install_sample sample memory) (\<lambda>alarms. hbind (enforce_alarms alarms) (\<lambda>(by_alarm, by_fault).
         hbind (if by_alarm then audit_high_sensor_alarm_auto_disable b alarms else hreturn ()) (\<lambda>_.
         hbind (if by_fault then api_audit_control_fault_auto_disable b else hreturn ()) (\<lambda>_. hreturn sample)))))" for b
        unfolding install_sample_def
        by (intro fault_intros never_fails_alarms never_fails_lock; simp add: case_prod_beta fault_intros never_fails_alarms Let_def)
      with assms parsed \<open>parsed = Inr sample\<close> Inr show ?thesis
        by (simp add: accept_pipeline_sample_def bind_steps never_fails_def)
    qed
  qed
qed

text \<open>A sample that is refused fails closed: a request with the permission for this device that does not end in
  success leaves the runtime without a sample and without a device status, with the reason as the sensor
  error, and with automatic control off; the refused sample is never the current sample.\<close>

theorem pipeline_sample_refused:
  assumes "v1_pipeline_sample sin_f memory session ''reactor_001'' decoded env s = Some (Err e, s')"
    and "session IngestSensorSample = Ok user"
  shows "latest_sample (h_rt s') = None \<and> device_status (h_rt s') = None \<and> last_sensor_error (h_rt s') \<noteq> None
     \<and> \<not> auto_enabled (h_rt s')"
proof (cases decoded)
  case (Inl err)
  then show ?thesis using assms without_sample_refused [unfolded sample_refused_def]
      reject_input_run [of "''sensor sample rejected: '' @ ''invalid sensor sample JSON: '' @ err" env s]
    by (auto simp: v1_pipeline_sample_def ensure_reactor_device_id_def parse_pipeline_sample_payload_def hbind_def hresult_def
        hfail_def Let_def)
next
  case (Inr payload)
  then have "accept_pipeline_sample sin_f memory payload env s = Some (Err e, s')"
    using assms by (simp add: v1_pipeline_sample_def ensure_reactor_device_id_def parse_pipeline_sample_payload_def hbind_def
        hresult_def hreturn_def)
  from accept_refused [OF this] show ?thesis by (simp add: sample_refused_def)
qed

section \<open>Latches and totality\<close>

lemma keeps_pipeline [latch_keeps]: "keeps latches_hold (v1_pipeline_sample sin_f memory session device_id decoded)"
proof -
  have aud: "keeps latches_hold (api_audit_field_input_auto_disable b off why)" "keeps latches_hold (system_audit b ev why)" for b off why ev
    unfolding api_audit_field_input_auto_disable_def system_audit_def by (intro keeps_intros)+
  have reject: "keeps latches_hold (reject_pipeline_sample_input why)" for why
    unfolding reject_pipeline_sample_input_def reject_sample_effect
    by (rule keeps_bind, rule keeps_lock) (auto simp: latches_hold_def without_sample_def intro: aud split: prod.split)
  have tail: "keeps latches_hold (install_sample sample memory)" "keeps latches_hold (enforce_alarms alarms)" for sample alarms
    unfolding install_sample_def enforce_alarms_def
    by (rule keeps_lock; simp add: Let_def case_prod_beta latches_hold_def enforce_auto)+
  have clk: "keeps latches_hold clock_of" by (simp add: keeps_def clock_of_def)
  show ?thesis
    unfolding v1_pipeline_sample_def parse_pipeline_sample_payload_def accept_pipeline_sample_def
      audit_high_sensor_alarm_auto_disable_def api_audit_control_fault_auto_disable_def reject_sample_effect Let_def
    by (intro keeps_intros reject tail clk aud)
       (auto simp: latches_hold_def without_sample_def split: prod.split intro!: keeps_intros aud)
qed

lemma returns_pipeline [returns_intros]: "returns (v1_pipeline_sample sin_f memory session device_id decoded)"
proof -
  have parsed: "returns clock_of" "returns (hpanic (pipeline_sample_from_request sin_f now payload))" for now payload
    using pipeline_sample_total by (fastforce simp: returns_def clock_of_def hpanic_def)+
  show ?thesis
    unfolding v1_pipeline_sample_def parse_pipeline_sample_payload_def accept_pipeline_sample_def
      audit_high_sensor_alarm_auto_disable_def api_audit_control_fault_auto_disable_def reject_pipeline_sample_input_def
      install_sample_def enforce_alarms_def system_audit_def api_audit_field_input_auto_disable_def Let_def
    by (intro returns_intros parsed)
qed

section \<open>Witnesses\<close>

definition demo_request :: "f64 \<Rightarrow> pipeline_sample_request" where
  "demo_request temp = \<lparr>pr_temperature_c = temp, pr_pressure_mpa = Num 1, pr_stirrer_rpm = Num 300, pr_shake_speed_cpm = Num 0,
     pr_tilt_state = 0, pr_flow_rate_l_min = Num 2, pr_product_concentration_percent = Num 5, pr_ph = Num 7\<rparr>"

definition request_sample :: sensor_snapshot where
  "request_sample = \<lparr>s_temperature_c = Num 60, s_pressure_mpa = Num 1, s_stirrer_rpm = Num 300, s_shake_speed_cpm = Num 0,
     s_tilt_state = 0, s_tilt_angle_deg = Num 0, s_flow_rate_l_min = Num 2, s_product_concentration_percent = Num 5,
     s_ph = Num 7, s_captured_at = 0\<rparr>"

lemma request_accepted: "pipeline_sample_from_request (\<lambda>x. x) 0 (demo_request (Num 60)) = Some (Ok request_sample)"
proof -
  have "f64_clamp (Num 0) (Num 0) (Num 60) = Some (Num 0)" by (simp add: f64_clamp_def)
  moreover have "f64_le (Num 0) (lit (1 / 100))" by (simp add: rnd_sign)
  ultimately have tilt: "fit_tilt_angle_deg (\<lambda>x. x) 0 (Num 0) 0 = Some (Num 0)"
    by (simp add: fit_tilt_angle_deg_def)
  have "validate_sensor_snapshot request_sample = Ok ()"
    by (simp add: validate_sensor_snapshot_iff plausible_sample_def request_sample_def in_range_Num)
  with tilt show ?thesis
    by (simp add: pipeline_sample_from_request_def demo_request_def round2_sensor_def validate_sensor_tilt_state_def
        sensor_range_validate_def sensor_ranges in_range_Num request_sample_def Let_def)
qed

lemma accept_succeeds:
  assumes "pipeline_sample_from_request sin_f (a_clock env (h_tick s)) payload = Some (Ok sample)"
    and "a_sample env (h_tick s + 1) = Ok ()"
  shows "\<exists>s'. accept_pipeline_sample sin_f memory payload env s = Some (Ok sample, s')"
proof -
  have skip: "\<exists>s2. hbind (if b then h else hreturn ()) (\<lambda>_. k) env s1 = k env s2" if "\<exists>s2. h env s1 = Some (Ok (), s2)"
    for b s1 and h :: "unit handler" and k :: "sensor_snapshot handler"
    using that by (cases b) (auto simp: hbind_def hreturn_def)
  have one: "\<exists>s2. audit_high_sensor_alarm_auto_disable bid alarms env s1 = Some (Ok (), s2)"
    "\<exists>s2. api_audit_control_fault_auto_disable bid env s1 = Some (Ok (), s2)" for bid alarms s1
    unfolding audit_high_sensor_alarm_auto_disable_def api_audit_control_fault_auto_disable_def Let_def
    using system_audit_run by blast+
  have tail: "\<exists>s'. hbind (if b then audit_high_sensor_alarm_auto_disable bid alarms else hreturn ()) (\<lambda>_.
      hbind (if c then api_audit_control_fault_auto_disable bid else hreturn ()) (\<lambda>_. hreturn sample)) env s1 = Some (Ok sample, s')"
    for b c bid alarms s1
  proof -
    let ?k = "hbind (if c then api_audit_control_fault_auto_disable bid else hreturn ()) (\<lambda>_. hreturn sample)"
    obtain s2 where "hbind (if b then audit_high_sensor_alarm_auto_disable bid alarms else hreturn ()) (\<lambda>_. ?k) env s1 = ?k env s2"
      using skip [of "audit_high_sensor_alarm_auto_disable bid alarms" s1 b ?k] one(1) by blast
    moreover obtain s3 where "?k env s2 = hreturn sample env s3"
      using skip [of "api_audit_control_fault_auto_disable bid" s2 c "hreturn sample"] one(2) by blast
    ultimately show ?thesis by (simp add: hreturn_def)
  qed
  show ?thesis
    using assms
    by (simp add: accept_pipeline_sample_def bind_steps install_sample_def enforce_alarms_def bind_lock tail Let_def case_prod_beta
        split del: if_split)
qed

lemma demo_pipeline_run:
  "\<exists>s'. v1_pipeline_sample (\<lambda>x. x) demo_memory demo_session ''reactor_001'' (Ok (demo_request (Num 60)))
       (demo_api (\<lambda>_. Ok ())) (demo_hstate None) = Some (Ok request_sample, s')"
  using accept_succeeds [of "\<lambda>x. x" "demo_api (\<lambda>_. Ok ())" "demo_hstate None" "demo_request (Num 60)" request_sample demo_memory]
    request_accepted
  by (simp add: v1_pipeline_sample_def ensure_reactor_device_id_def parse_pipeline_sample_payload_def hbind_def hresult_def
      hreturn_def demo_session_def demo_api_def demo_hstate_def)

theorem pipeline_sample_accepted_witness:
  "\<exists>s'. v1_pipeline_sample (\<lambda>x. x) demo_memory demo_session ''reactor_001'' (Ok (demo_request (Num 60)))
       (demo_api (\<lambda>_. Ok ())) (demo_hstate None) = Some (Ok request_sample, s')
     \<and> (\<exists>b. h_db s' = [InsertSample b request_sample])"
proof -
  obtain s' where "v1_pipeline_sample (\<lambda>x. x) demo_memory demo_session ''reactor_001'' (Ok (demo_request (Num 60)))
       (demo_api (\<lambda>_. Ok ())) (demo_hstate None) = Some (Ok request_sample, s')" using demo_pipeline_run by blast
  from pipeline_sample_accepted [OF this] this show ?thesis by (auto simp: demo_hstate_def)
qed

theorem pipeline_sample_refused_witness:
  "\<exists>e s'. v1_pipeline_sample (\<lambda>x. x) demo_memory demo_session ''reactor_001'' (Err ''EOF'')
       (demo_api (\<lambda>_. Ok ())) (demo_hstate None) = Some (Err e, s') \<and> latest_sample (h_rt s') = None"
proof -
  obtain e s' where "v1_pipeline_sample (\<lambda>x. x) demo_memory demo_session ''reactor_001'' (Err ''EOF'')
       (demo_api (\<lambda>_. Ok ())) (demo_hstate None) = Some (Err e, s')"
    using reject_input_run [of "''sensor sample rejected: '' @ ''invalid sensor sample JSON: '' @ ''EOF''" "demo_api (\<lambda>_. Ok ())" "demo_hstate None"]
    by (auto simp: v1_pipeline_sample_def ensure_reactor_device_id_def parse_pipeline_sample_payload_def hbind_def hresult_def
        hfail_def demo_session_def Let_def)
  from pipeline_sample_refused [OF this] this show ?thesis by (auto simp: demo_session_def)
qed

end
