(* ===== verification/Modbus_Tcp.thy ===== *)
theory Modbus_Tcp
  imports Pipeline_Api
begin

text \<open>
  The register map and the Modbus TCP server (\<open>modbus_registers.rs\<close>, \<open>modbus_tcp.rs\<close>): registers, coils and discrete
  inputs as views of the runtime state, the write of one target register, the protocol data units, and the
  frames of a connection. Bytes are 8-bit words, addresses and register values 16-bit words.
\<close>

unbundle bit_operations_syntax

section \<open>The register map\<close>

record modbus_register_value =
  mv_address :: u16
  mv_access :: string
  mv_value :: f64
  mv_scale :: f64
  mv_offset :: f64
  mv_source :: string

definition sample_register :: "read_register \<Rightarrow> (sensor_snapshot \<Rightarrow> f64) \<Rightarrow> runtime_state \<Rightarrow> app_error + modbus_register_value" where
  "sample_register reg field rt = (case latest_sample rt of
       None \<Rightarrow> Err (service_unavailable ''sensor data unavailable'')
     | Some sample \<Rightarrow> Ok \<lparr>mv_address = rr_address reg, mv_access = ''read'', mv_value = field sample, mv_scale = rr_scale reg,
         mv_offset = rr_offset reg, mv_source = ''latest_sample''\<rparr>)"

definition target_register :: "write_register \<Rightarrow> f64 \<Rightarrow> app_error + modbus_register_value" where
  "target_register reg value = Ok \<lparr>mv_address = wr_address reg, mv_access = ''write'', mv_value = value, mv_scale = wr_scale reg,
     mv_offset = wr_offset reg, mv_source = ''runtime_targets''\<rparr>"

definition register_value :: "registers_config \<Rightarrow> runtime_state \<Rightarrow> string \<Rightarrow> app_error + modbus_register_value" where
  "register_value regs rt register =
     (if register = ''temperature_c'' then sample_register (reg_temperature_c regs) s_temperature_c rt
      else if register = ''stirrer_rpm'' then sample_register (reg_stirrer_rpm regs) s_stirrer_rpm rt
      else if register = ''pressure_mpa'' then sample_register (reg_pressure_mpa regs) s_pressure_mpa rt
      else if register = ''shake_speed_cpm'' then sample_register (reg_shake_speed_cpm regs) s_shake_speed_cpm rt
      else if register = ''tilt_angle_deg'' then sample_register (reg_tilt_angle_deg regs) s_tilt_angle_deg rt
      else if register = ''flow_rate_l_min'' then sample_register (reg_flow_rate_l_min regs) s_flow_rate_l_min rt
      else if register = ''product_concentration_percent''
        then sample_register (reg_product_concentration_percent regs) s_product_concentration_percent rt
      else if register = ''ph'' then sample_register (reg_ph regs) s_ph rt
      else if register = ''target_temperature_c'' then target_register (reg_target_temperature_c regs) (t_temperature_c (targets rt))
      else if register = ''target_stirrer_rpm'' then target_register (reg_target_stirrer_rpm regs) (t_stirrer_rpm (targets rt))
      else if register = ''target_shake_speed_cpm''
        then target_register (reg_target_shake_speed_cpm regs) (t_shake_speed_cpm (targets rt))
      else if register = ''target_pressure_mpa''
        then target_register (reg_target_pressure_mpa regs) (t_target_pressure_mpa (targets rt))
      else if register = ''heat_time_s'' then target_register (reg_heat_time_s regs) (t_heat_time_s (targets rt))
      else if register = ''hold_time_s'' then target_register (reg_hold_time_s regs) (t_hold_time_s (targets rt))
      else if register = ''cool_time_s'' then target_register (reg_cool_time_s regs) (t_cool_time_s (targets rt))
      else Err (not_found ''modbus register not found''))"

text \<open>The raw value of a register, before the error is chosen.\<close>

definition raw_of :: "f64 \<Rightarrow> f64 \<Rightarrow> f64 \<Rightarrow> f64" where
  "raw_of value scale offset = f64_round (f64_div (f64_sub value offset) scale)"

definition encode_modbus_raw :: "f64 \<Rightarrow> f64 \<Rightarrow> f64 \<Rightarrow> app_error + u16" where
  "encode_modbus_raw value scale offset =
     (if f64_eq scale (lit 0) then Err (bad_request ''register scale must not be zero'')
      else let raw = raw_of value scale offset in
        if \<not> in_range (lit 0) (f64_of_int 65535) raw then Err (bad_request ''value cannot be encoded as u16'')
        else Ok (f64_to_u16 raw))"

definition read_register_payload ::
    "registers_config \<Rightarrow> runtime_state \<Rightarrow> string \<Rightarrow> app_error + modbus_register_value \<times> u16" where
  "read_register_payload regs rt register =
     bind_res (register_value regs rt register) (\<lambda>v.
     bind_res (encode_modbus_raw (mv_value v) (mv_scale v) (mv_offset v)) (\<lambda>raw.
     Ok (v\<lparr>mv_value := round2 (mv_value v)\<rparr>, raw)))"

definition write_register_config :: "registers_config \<Rightarrow> string \<Rightarrow> write_register option" where
  "write_register_config regs register =
     (if register = ''target_temperature_c'' then Some (reg_target_temperature_c regs)
      else if register = ''target_stirrer_rpm'' then Some (reg_target_stirrer_rpm regs)
      else if register = ''target_shake_speed_cpm'' then Some (reg_target_shake_speed_cpm regs)
      else if register = ''target_pressure_mpa'' then Some (reg_target_pressure_mpa regs)
      else if register = ''heat_time_s'' then Some (reg_heat_time_s regs)
      else if register = ''hold_time_s'' then Some (reg_hold_time_s regs)
      else if register = ''cool_time_s'' then Some (reg_cool_time_s regs)
      else None)"

abbreviation not_writable :: app_error where
  "not_writable \<equiv> bad_request ''register is not writable through the Modbus debug API''"

definition validate_modbus_register_write_value :: "safety_config \<Rightarrow> string \<Rightarrow> f64 \<Rightarrow> app_error + unit" where
  "validate_modbus_register_write_value safety register value =
     (if register = ''target_temperature_c'' then validate_target_temperature safety value
      else if register = ''target_stirrer_rpm'' then validate_stir_speed safety value
      else if register = ''target_shake_speed_cpm'' then api_validate_range ''target_shake_speed_cpm'' value (lit 0) (lit 60)
      else if register = ''target_pressure_mpa'' then api_validate_range ''target_pressure_mpa'' value (lit 0) (lit 10)
      else if register = ''heat_time_s'' then api_validate_range ''heat_time_s'' value (lit 0) (lit 3600)
      else if register = ''hold_time_s'' then api_validate_range ''hold_time_s'' value (lit 0) (lit 7200)
      else if register = ''cool_time_s'' then api_validate_range ''cool_time_s'' value (lit 0) (lit 3600)
      else Err not_writable)"

definition requested_targets :: "string \<Rightarrow> f64 \<Rightarrow> control_targets \<Rightarrow> app_error + control_targets" where
  "requested_targets register value current =
     (if register = ''target_temperature_c'' then Ok (current\<lparr>t_temperature_c := value\<rparr>)
      else if register = ''target_stirrer_rpm'' then Ok (current\<lparr>t_stirrer_rpm := value\<rparr>)
      else if register = ''target_shake_speed_cpm'' then Ok (current\<lparr>t_shake_speed_cpm := value\<rparr>)
      else if register = ''target_pressure_mpa'' then Ok (current\<lparr>t_target_pressure_mpa := value\<rparr>)
      else if register = ''heat_time_s'' then Ok (current\<lparr>t_heat_time_s := value\<rparr>)
      else if register = ''hold_time_s'' then Ok (current\<lparr>t_hold_time_s := value\<rparr>)
      else if register = ''cool_time_s'' then Ok (current\<lparr>t_cool_time_s := value\<rparr>)
      else Err not_writable)"

definition validate_modbus_register_targets :: "safety_config \<Rightarrow> control_targets \<Rightarrow> app_error + control_targets" where
  "validate_modbus_register_targets safety tg =
     bind_res (run_checks
       [map_err (with_message_prefix ''target_temperature_c'') (validate_target_temperature safety (t_temperature_c tg)),
        map_err (with_message_prefix ''target_stirrer_rpm'') (validate_stir_speed safety (t_stirrer_rpm tg)),
        api_validate_range ''target_shake_speed_cpm'' (t_shake_speed_cpm tg) (lit 0) (lit 60),
        api_validate_range ''target_pressure_mpa'' (t_target_pressure_mpa tg) (lit 0) (lit 10),
        api_validate_range ''heat_time_s'' (t_heat_time_s tg) (lit 0) (lit 3600),
        api_validate_range ''hold_time_s'' (t_hold_time_s tg) (lit 0) (lit 7200),
        api_validate_range ''cool_time_s'' (t_cool_time_s tg) (lit 0) (lit 3600)])
     (\<lambda>_. Ok (round_targets tg))"

definition write_register_applied_value :: "control_targets \<Rightarrow> string \<Rightarrow> app_error + f64" where
  "write_register_applied_value tg register =
     (if register = ''target_temperature_c'' then Ok (t_temperature_c tg)
      else if register = ''target_stirrer_rpm'' then Ok (t_stirrer_rpm tg)
      else if register = ''target_shake_speed_cpm'' then Ok (t_shake_speed_cpm tg)
      else if register = ''target_pressure_mpa'' then Ok (t_target_pressure_mpa tg)
      else if register = ''heat_time_s'' then Ok (t_heat_time_s tg)
      else if register = ''hold_time_s'' then Ok (t_hold_time_s tg)
      else if register = ''cool_time_s'' then Ok (t_cool_time_s tg)
      else Err not_writable)"

definition apply_modbus_register_write ::
    "registers_config \<Rightarrow> string \<Rightarrow> f64 \<Rightarrow> string option \<Rightarrow> audit_actor \<Rightarrow> (control_targets \<times> u16) handler" where
  "apply_modbus_register_write regs register value reason_text actor =
     hbind safety_of (\<lambda>safety.
     hbind (hresult (if is_finite value then Ok () else Err (bad_request ''value must be finite''))) (\<lambda>_.
     let reason = clean_label reason_text '''' 240 in
     hbind (hresult (if reason = [] then Err (bad_request ''modbus write reason is required for an auditable target change'')
                     else Ok ())) (\<lambda>_.
     hbind (hresult (validate_modbus_register_write_value safety register value)) (\<lambda>_.
     hbind (hresult (ok_or (write_register_config regs register) not_writable)) (\<lambda>reg.
     hbind (read_lock targets) (\<lambda>current.
     hbind (hresult (requested_targets register value current)) (\<lambda>requested.
     hbind (hresult (validate_modbus_register_targets safety requested)) (\<lambda>tg.
     hbind (hresult (ensure_targets_allowed safety tg)) (\<lambda>_.
     hbind (hresult (write_register_applied_value tg register)) (\<lambda>applied.
     hbind (hresult (encode_modbus_raw applied (wr_scale reg) (wr_offset reg))) (\<lambda>raw.
     hbind disarm (\<lambda>rt.
     hbind (check_snapshot (\<lambda>safety now unf. ensure_target_update_interlock_clear safety now rt ModbusDebugWrite)) (\<lambda>_.
     hbind (check_snapshot (\<lambda>safety now unf. persisted_batch_check unf rt ModbusDebugWrite)) (\<lambda>_.
     hbind (insert_event actor None ''modbus_register_write'' (Some (safe_command_from_runtime_targets tg reason)) reason) (\<lambda>audited.
     hbind (hany audited) (\<lambda>_.
     hbind (commit_targets_after_final_interlock tg ModbusDebugWrite (Some current) (Some (latches_from_runtime rt))) (\<lambda>_.
     hreturn (tg, raw))))))))))))))))))"

text \<open>The HTTP route: \<open>admin\<close> is what \<open>require_admin\<close> answers.\<close>

definition modbus_register_write ::
    "registers_config \<Rightarrow> app_error + auth_user \<Rightarrow> string \<Rightarrow> f64 \<Rightarrow> string option \<Rightarrow> (control_targets \<times> u16) handler" where
  "modbus_register_write regs admin register value reason =
     hbind (hresult admin) (\<lambda>user. apply_modbus_register_write regs register value reason (audit_actor_for_user user))"

section \<open>Coils and discrete inputs\<close>

record bool_point =
  bp_name :: string
  bp_address :: u16
  bp_value :: bool

definition coils_json :: "runtime_state \<Rightarrow> unfinished_batch_status \<Rightarrow> bool_point list" where
  "coils_json rt st =
     [\<lparr>bp_name = ''auto_enabled'', bp_address = 0, bp_value = auto_enabled rt\<rparr>,
      \<lparr>bp_name = ''manual_lock'', bp_address = 1, bp_value = manual_lock rt\<rparr>,
      \<lparr>bp_name = ''emergency_stop'', bp_address = 2, bp_value = emergency_stop rt\<rparr>,
      \<lparr>bp_name = ''process_running'', bp_address = 3, bp_value = has_unfinished_batch st rt\<rparr>]"

definition sample_is_fresh :: "safety_config \<Rightarrow> time \<Rightarrow> runtime_state \<Rightarrow> bool" where
  "sample_is_fresh safety now rt = (case latest_sample rt of
       Some s \<Rightarrow> timestamp_is_fresh now (s_captured_at s) (sensor_timeout_ms (control safety)) | None \<Rightarrow> False)"

definition device_is_connected :: "safety_config \<Rightarrow> time \<Rightarrow> runtime_state \<Rightarrow> bool" where
  "device_is_connected safety now rt = (case device_status rt of
       Some d \<Rightarrow> connected d \<and> last_frame_ok d \<and> downstream_command_fault_reason d = None
         \<and> (case last_seen_at d of
              Some seen \<Rightarrow> timestamp_is_fresh now seen (sensor_timeout_ms (control safety)) | None \<Rightarrow> False)
     | None \<Rightarrow> \<not> require_device_status_for_control (control safety) \<and> sample_is_fresh safety now rt)"

definition tilt_is_set :: "runtime_state \<Rightarrow> bool" where
  "tilt_is_set rt = (case latest_sample rt of Some s \<Rightarrow> s_tilt_state s \<noteq> 0 | None \<Rightarrow> False)"

definition discrete_inputs_json ::
    "safety_config \<Rightarrow> time \<Rightarrow> ai_memory \<Rightarrow> runtime_state \<Rightarrow> unfinished_batch_status \<Rightarrow> bool_point list" where
  "discrete_inputs_json safety now memory rt st =
     [\<lparr>bp_name = ''device_connected'', bp_address = 0, bp_value = device_is_connected safety now rt \<and> \<not> recovery_required st\<rparr>,
      \<lparr>bp_name = ''sensor_fresh'', bp_address = 1, bp_value = sample_is_fresh safety now rt\<rparr>,
      \<lparr>bp_name = ''alarm_active'', bp_address = 2,
        bp_value = recovery_required st \<or> alarms_for safety now rt (latest_sample rt) memory \<noteq> []\<rparr>,
      \<lparr>bp_name = ''tilt_state'', bp_address = 3, bp_value = tilt_is_set rt\<rparr>,
      \<lparr>bp_name = ''active_batch'', bp_address = 4, bp_value = has_unfinished_batch st rt\<rparr>]"

section \<open>Protocol data units\<close>

record modbus_exception =
  ex_function :: u8
  ex_code :: u8

abbreviation exception_of :: "u8 \<Rightarrow> u8 \<Rightarrow> modbus_exception" where
  "exception_of fn code \<equiv> \<lparr>ex_function = fn, ex_code = code\<rparr>"

definition exception_response :: "u8 \<Rightarrow> u8 \<Rightarrow> u8 list" where
  "exception_response fn code = [fn OR 0x80, code]"

definition from_be_bytes :: "u8 \<Rightarrow> u8 \<Rightarrow> u16" where
  "from_be_bytes hi lo = push_bit 8 (ucast hi) OR ucast lo"

definition to_be_bytes :: "u16 \<Rightarrow> u8 list" where
  "to_be_bytes x = [ucast (drop_bit 8 x), ucast x]"

definition encode_raw :: "f64 \<Rightarrow> f64 \<Rightarrow> f64 \<Rightarrow> modbus_exception + u16" where
  "encode_raw value scale offset =
     (if f64_eq scale (lit 0) then Err (exception_of 3 4)
      else let raw = raw_of value scale offset in
        if \<not> in_range (lit 0) (f64_of_int 65535) raw then Err (exception_of 3 4) else Ok (f64_to_u16 raw))"

definition insert_raw :: "u16 \<Rightarrow> f64 \<Rightarrow> f64 \<Rightarrow> f64 \<Rightarrow> (u16 \<rightharpoonup> u16) \<Rightarrow> modbus_exception + (u16 \<rightharpoonup> u16)" where
  "insert_raw address value scale offset values =
     bind_res (encode_raw value scale offset) (\<lambda>raw. Ok (values(address \<mapsto> raw)))"

text \<open>Sample registers first, then the targets; a later register replaces an earlier one at the same address.\<close>

definition holding_entries :: "registers_config \<Rightarrow> sensor_snapshot \<Rightarrow> control_targets \<Rightarrow> (u16 \<times> f64 \<times> f64 \<times> f64) list" where
  "holding_entries regs sample tg =
     (let r = (\<lambda>reg value. (rr_address reg, value, rr_scale reg, rr_offset reg));
          w = (\<lambda>reg value. (wr_address reg, value, wr_scale reg, wr_offset reg))
      in [r (reg_temperature_c regs) (s_temperature_c sample), r (reg_stirrer_rpm regs) (s_stirrer_rpm sample),
          r (reg_pressure_mpa regs) (s_pressure_mpa sample), r (reg_shake_speed_cpm regs) (s_shake_speed_cpm sample),
          r (reg_tilt_angle_deg regs) (s_tilt_angle_deg sample), r (reg_flow_rate_l_min regs) (s_flow_rate_l_min sample),
          r (reg_product_concentration_percent regs) (s_product_concentration_percent sample), r (reg_ph regs) (s_ph sample),
          w (reg_target_temperature_c regs) (t_temperature_c tg), w (reg_target_stirrer_rpm regs) (t_stirrer_rpm tg),
          w (reg_target_shake_speed_cpm regs) (t_shake_speed_cpm tg), w (reg_target_pressure_mpa regs) (t_target_pressure_mpa tg),
          w (reg_heat_time_s regs) (t_heat_time_s tg), w (reg_hold_time_s regs) (t_hold_time_s tg),
          w (reg_cool_time_s regs) (t_cool_time_s tg)])"

fun insert_all :: "(u16 \<times> f64 \<times> f64 \<times> f64) list \<Rightarrow> (u16 \<rightharpoonup> u16) \<Rightarrow> modbus_exception + (u16 \<rightharpoonup> u16)" where
  "insert_all [] values = Ok values"
| "insert_all ((address, value, scale, offset) # rest) values =
     bind_res (insert_raw address value scale offset values) (insert_all rest)"

definition holding_register_values :: "registers_config \<Rightarrow> runtime_state \<Rightarrow> modbus_exception + (u16 \<rightharpoonup> u16)" where
  "holding_register_values regs rt = (case latest_sample rt of
       None \<Rightarrow> Err (exception_of 3 4)
     | Some sample \<Rightarrow> insert_all (holding_entries regs sample (targets rt)) Map.empty)"

text \<open>The addresses of a request, computed in 32 bits.\<close>

definition addresses :: "u16 \<Rightarrow> u16 \<Rightarrow> u16 list" where
  "addresses start quantity = map (\<lambda>k. word_of_nat (unat start + k)) [0..<unat quantity]"

fun collect_registers :: "(u16 \<rightharpoonup> u16) \<Rightarrow> u8 \<Rightarrow> u16 list \<Rightarrow> modbus_exception + u8 list" where
  "collect_registers values fn [] = Ok []"
| "collect_registers values fn (a # addrs) = (case values a of
       None \<Rightarrow> Err (exception_of fn 2)
     | Some raw \<Rightarrow> bind_res (collect_registers values fn addrs) (\<lambda>bytes. Ok (to_be_bytes raw @ bytes)))"

definition read_holding_registers :: "registers_config \<Rightarrow> u8 list \<Rightarrow> runtime_state \<Rightarrow> modbus_exception + u8 list" where
  "read_holding_registers regs pdu rt =
     (if length pdu \<noteq> 5 then Err (exception_of (hd pdu) 3)
      else let start = from_be_bytes (pdu ! 1) (pdu ! 2); quantity = from_be_bytes (pdu ! 3) (pdu ! 4) in
        if quantity = 0 \<or> 125 < quantity then Err (exception_of (hd pdu) 3)
        else bind_res (holding_register_values regs rt) (\<lambda>values.
          if 0x10000 < unat start + unat quantity then Err (exception_of (hd pdu) 2)
          else bind_res (collect_registers values (hd pdu) (addresses start quantity)) (\<lambda>bytes.
            Ok ([3, ucast (quantity * 2)] @ bytes))))"

text \<open>One bit per point, the first point in the lowest bit of the first byte.\<close>

fun collect_points :: "(u16 \<rightharpoonup> bool) \<Rightarrow> u8 \<Rightarrow> (nat \<times> u16) list \<Rightarrow> u8 list \<Rightarrow> modbus_exception + u8 list" where
  "collect_points values fn [] bytes = Ok bytes"
| "collect_points values fn ((index, a) # rest) bytes = (case values a of
       None \<Rightarrow> Err (exception_of fn 2)
     | Some v \<Rightarrow> collect_points values fn rest
         (if v then bytes[index div 8 := bytes ! (index div 8) OR push_bit (index mod 8) 1] else bytes))"

definition read_bool_points :: "u8 list \<Rightarrow> (u16 \<rightharpoonup> bool) \<Rightarrow> modbus_exception + u8 list" where
  "read_bool_points pdu values =
     (if length pdu \<noteq> 5 then Err (exception_of (hd pdu) 3)
      else let start = from_be_bytes (pdu ! 1) (pdu ! 2); quantity = from_be_bytes (pdu ! 3) (pdu ! 4) in
        if quantity = 0 \<or> 2000 < quantity then Err (exception_of (hd pdu) 3)
        else let byte_count = (unat quantity + 7) div 8 in
          if 0x10000 < unat start + unat quantity then Err (exception_of (hd pdu) 2)
          else bind_res (collect_points values (hd pdu) (enumerate 0 (addresses start quantity)) (replicate byte_count 0)) (\<lambda>bytes.
            Ok ([hd pdu, word_of_nat byte_count] @ bytes)))"

definition coil_values :: "runtime_state \<Rightarrow> bool \<Rightarrow> (u16 \<rightharpoonup> bool)" where
  "coil_values rt has_batch = [0 \<mapsto> auto_enabled rt, 1 \<mapsto> manual_lock rt, 2 \<mapsto> emergency_stop rt, 3 \<mapsto> has_batch]"

definition discrete_input_values ::
    "safety_config \<Rightarrow> time \<Rightarrow> ai_memory \<Rightarrow> runtime_state \<Rightarrow> bool \<Rightarrow> bool \<Rightarrow> (u16 \<rightharpoonup> bool)" where
  "discrete_input_values safety now memory rt has_batch recovery =
     [0 \<mapsto> device_is_connected safety now rt \<and> \<not> recovery, 1 \<mapsto> sample_is_fresh safety now rt,
      2 \<mapsto> recovery \<or> alarms_for safety now rt (latest_sample rt) memory \<noteq> [], 3 \<mapsto> tilt_is_set rt, 4 \<mapsto> has_batch]"

definition write_register_by_address :: "registers_config \<Rightarrow> u16 \<Rightarrow> (string \<times> write_register) option" where
  "write_register_by_address regs address = find (\<lambda>(_, reg). wr_address reg = address)
     [(''target_temperature_c'', reg_target_temperature_c regs), (''target_stirrer_rpm'', reg_target_stirrer_rpm regs),
      (''target_shake_speed_cpm'', reg_target_shake_speed_cpm regs), (''target_pressure_mpa'', reg_target_pressure_mpa regs),
      (''heat_time_s'', reg_heat_time_s regs), (''hold_time_s'', reg_hold_time_s regs), (''cool_time_s'', reg_cool_time_s regs)]"

definition is_server_error :: "app_error \<Rightarrow> bool" where
  "is_server_error e \<longleftrightarrow> err_status e \<in> {InternalServerError, ServiceUnavailable}"

definition modbus_actor :: audit_actor where
  "modbus_actor = \<lparr>actor_username = ''modbus-tcp'', actor_role = ''system''\<rparr>"

definition modbus_write_single_register :: "registers_config \<Rightarrow> u8 list \<Rightarrow> (modbus_exception + u8 list) handler" where
  "modbus_write_single_register regs pdu =
     (if length pdu \<noteq> 5 then hreturn (Err (exception_of (hd pdu) 3))
      else let address = from_be_bytes (pdu ! 1) (pdu ! 2); raw = from_be_bytes (pdu ! 3) (pdu ! 4) in
        case write_register_by_address regs address of
          None \<Rightarrow> hreturn (Err (exception_of (hd pdu) 2))
        | Some (name, reg) \<Rightarrow>
            hbind (hattempt (apply_modbus_register_write regs name
                (f64_add (f64_mul (f64_of_int (uint raw)) (wr_scale reg)) (wr_offset reg))
                (Some (''modbus tcp write register '' @ name)) modbus_actor)) (\<lambda>applied.
            hreturn (case applied of
                Inl err \<Rightarrow> Err (exception_of (hd pdu) (if is_server_error err then 4 else 3))
              | Inr _ \<Rightarrow> Ok pdu)))"

text \<open>A read of coils or inputs: the state, then the persisted batches.\<close>

definition read_points ::
    "u8 list \<Rightarrow> (safety_config \<Rightarrow> time \<Rightarrow> runtime_state \<Rightarrow> unfinished_batch_status \<Rightarrow> (u16 \<rightharpoonup> bool)) \<Rightarrow> (modbus_exception + u8 list) handler" where
  "read_points pdu values =
     hbind (read_lock (\<lambda>rt. rt)) (\<lambda>rt. (\<lambda>env s.
       let t = h_tick s in
       Some (Ok (case a_unfinished env t of
           Inl _ \<Rightarrow> Err (exception_of (hd pdu) 4)
         | Inr batches \<Rightarrow> read_bool_points pdu
             (values (a_safety env) (a_clock env t) rt (unfinished_batch_status_from_batches batches rt))), s\<lparr>h_tick := t + 1\<rparr>)))"

definition handle_modbus_tcp_pdu :: "registers_config \<Rightarrow> ai_memory \<Rightarrow> u8 list \<Rightarrow> u8 list handler" where
  "handle_modbus_tcp_pdu regs memory pdu =
     (if pdu = [] then hreturn (exception_response 0 3)
      else hbind
        (if hd pdu = 1 then read_points pdu (\<lambda>safety now rt st. coil_values rt (has_unfinished_batch st rt))
         else if hd pdu = 2 then read_points pdu (\<lambda>safety now rt st.
           discrete_input_values safety now memory rt (has_unfinished_batch st rt) (recovery_required st))
         else if hd pdu = 3 then read_lock (read_holding_registers regs pdu)
         else if hd pdu = 6 then modbus_write_single_register regs pdu
         else hreturn (Err (exception_of (hd pdu) 1))) (\<lambda>result.
      hreturn (case result of Inl e \<Rightarrow> exception_response (ex_function e) (ex_code e) | Inr response \<Rightarrow> response)))"

section \<open>A connection\<close>

definition mbap_response :: "u16 \<Rightarrow> u8 \<Rightarrow> u8 list \<Rightarrow> u8 list" where
  "mbap_response transaction_id unit_id pdu =
     to_be_bytes transaction_id @ to_be_bytes 0 @ to_be_bytes (word_of_nat (length pdu + 1)) @ [unit_id] @ pdu"

text \<open>The client's bytes are the list \<open>input\<close>; where it ends the next read times out or meets the end of the stream.
  \<open>sent n\<close> tells whether the write of the \<open>n\<close>-th response succeeds. The result is the list of responses that were
  written and whether the connection ended regularly.\<close>

function handle_modbus_tcp_stream ::
    "registers_config \<Rightarrow> ai_memory \<Rightarrow> nat \<Rightarrow> u8 \<Rightarrow> (nat \<Rightarrow> bool) \<Rightarrow> nat \<Rightarrow> u8 list \<Rightarrow> (u8 list list \<times> (string + unit)) handler" where
  "handle_modbus_tcp_stream regs memory max_pdu unit sent n input =
     (if length input < 7 then hreturn ([], Err ''timed out waiting for MBAP header'')
      else
        let transaction_id = from_be_bytes (input ! 0) (input ! 1);
            protocol_id = from_be_bytes (input ! 2) (input ! 3);
            len = unat (from_be_bytes (input ! 4) (input ! 5));
            unit_id = input ! 6;
            respond = mbap_response transaction_id unit_id;
            write_error = Err ''timed out writing MBAP response''
        in if protocol_id \<noteq> 0 \<or> len = 0 \<or> max_pdu < len - 1
        then hreturn (if sent n then ([respond (exception_response 0 3)], Ok ()) else ([], write_error))
        else if length input < 7 + (len - 1) then hreturn ([], Err ''timed out waiting for MBAP PDU'')
        else
          let pdu = take (len - 1) (drop 7 input); rest = drop (7 + (len - 1)) input in
          hbind (if unit_id \<noteq> unit
                 then hreturn (exception_response (if pdu = [] then 0 else hd pdu) 0x0B)
                 else handle_modbus_tcp_pdu regs memory pdu) (\<lambda>response.
          if \<not> sent n then hreturn ([], write_error)
          else hbind (handle_modbus_tcp_stream regs memory max_pdu unit sent (Suc n) rest) (\<lambda>(responses, ended).
            hreturn (respond response # responses, ended))))"
  by pat_completeness auto
termination
  by (relation "measure (\<lambda>(regs, memory, max_pdu, unit, sent, n, input). length input)") auto

declare handle_modbus_tcp_stream.simps [simp del]

section \<open>Words\<close>

lemma from_to_be_bytes [simp]: "from_be_bytes (ucast (drop_bit 8 x)) (ucast (x :: u16)) = x"
  unfolding from_be_bytes_def by (rule bit_word_eqI) (auto simp: bit_simps)

lemma length_to_be_bytes [simp]: "length (to_be_bytes x) = 2"
  by (simp add: to_be_bytes_def)

lemma length_addresses [simp]: "length (addresses start quantity) = unat quantity"
  by (simp add: addresses_def)

section \<open>Responses\<close>

lemma collect_registers_length: "collect_registers values fn addrs = Ok bytes \<Longrightarrow> length bytes = 2 * length addrs"
  by (induction addrs arbitrary: bytes) (auto simp: bind_res_Ok_iff split: option.splits)

lemma collect_points_length: "collect_points values fn ps bytes = Ok out \<Longrightarrow> length out = length bytes"
  by (induction ps arbitrary: bytes) (auto split: option.splits if_splits)

lemma exception_sources:
  "collect_registers values fn addrs = Err e \<Longrightarrow> e = exception_of fn 2"
  "collect_points points fn ps bytes = Err e \<Longrightarrow> e = exception_of fn 2"
  "encode_raw value scale offset = Err e \<Longrightarrow> e = exception_of 3 4"
  "insert_all entries m = Err e \<Longrightarrow> e = exception_of 3 4"
proof -
  have enc: "encode_raw v scale offset = Err e \<Longrightarrow> e = exception_of 3 4" for v scale offset
    by (auto simp: encode_raw_def Let_def split: if_splits)
  show "encode_raw value scale offset = Err e \<Longrightarrow> e = exception_of 3 4"
    by (rule enc)
  show "collect_registers values fn addrs = Err e \<Longrightarrow> e = exception_of fn 2"
    by (induction addrs) (auto split: option.splits simp: bind_res_Err_iff)
  show "collect_points points fn ps bytes = Err e \<Longrightarrow> e = exception_of fn 2"
    by (induction ps arbitrary: bytes) (auto split: option.splits if_splits)
  show "insert_all entries m = Err e \<Longrightarrow> e = exception_of 3 4"
    by (induction entries arbitrary: m) (auto simp: insert_raw_def bind_res_Err_iff dest!: enc)
qed

lemma read_holding_shape:
  assumes "hd pdu = 3"
  shows "case read_holding_registers regs pdu rt of
     Inl e \<Rightarrow> ex_function e = 3 \<and> ex_code e \<in> {2, 3, 4}
   | Inr out \<Rightarrow> hd out = 3 \<and> 2 \<le> length out \<and> length out \<le> 252"
proof -
  have q: "unat q \<le> 125" if "\<not> 125 < q" for q :: u16
    using that by (simp add: word_less_nat_alt not_less)
  show ?thesis
    using assms q
    by (auto simp: read_holding_registers_def holding_register_values_def bind_res_Ok_iff bind_res_Err_iff Let_def
        split: sum.splits if_splits option.splits dest!: exception_sources collect_registers_length)
qed

lemma read_bool_shape:
  "case read_bool_points pdu points of
     Inl e \<Rightarrow> ex_function e = hd pdu \<and> ex_code e \<in> {2, 3}
   | Inr out \<Rightarrow> hd out = hd pdu \<and> 2 \<le> length out \<and> length out \<le> 252"
proof -
  have q: "(unat q + 7) div 8 \<le> 250" if "\<not> 2000 < q" for q :: u16
    using that by (simp add: word_less_nat_alt not_less)
  show ?thesis
    using q
    by (auto simp: read_bool_points_def bind_res_Ok_iff bind_res_Err_iff Let_def
        split: sum.splits if_splits dest!: exception_sources collect_points_length)
qed

lemma returns_modbus_write [returns_intros]: "returns (apply_modbus_register_write regs register value reason actor)"
  unfolding apply_modbus_register_write_def Let_def by (intro returns_intros)

lemma keeps_modbus_write: "keeps latches_hold (apply_modbus_register_write regs register value reason actor)"
  unfolding apply_modbus_register_write_def Let_def by (intro keeps_intros latch_keeps)

lemma returns_modbus_route [returns_intros]: "returns (modbus_register_write regs admin register value reason)"
  unfolding modbus_register_write_def by (intro returns_intros)

lemma keeps_modbus_route: "keeps latches_hold (modbus_register_write regs admin register value reason)"
  unfolding modbus_register_write_def by (intro keeps_intros keeps_modbus_write)

lemma keeps_read_points: "keeps P (read_points pdu points)"
  unfolding read_points_def
  by (intro keeps_intros) (auto simp: keeps_def Let_def)

lemma keeps_modbus_pdu: "keeps latches_hold (handle_modbus_tcp_pdu regs memory pdu)"
  unfolding handle_modbus_tcp_pdu_def modbus_write_single_register_def Let_def
  by (auto intro!: keeps_intros keeps_attempt keeps_modbus_write keeps_read_points split: option.splits)

lemma attempt_run:
  assumes "returns h" "wf_safety (a_safety env)"
  shows "\<exists>r s1. hattempt h env s = Some (Ok r, s1) \<and> h env s = Some (r, s1)"
  using assms by (auto simp: returns_def hattempt_def)

text \<open>An answer to a request: the same function code, or the exception for it.\<close>

definition proper_answer :: "u8 \<Rightarrow> u8 list \<Rightarrow> bool" where
  "proper_answer fn response \<longleftrightarrow> 2 \<le> length response \<and> length response \<le> 252
     \<and> (hd response = fn \<or> (\<exists>code \<in> {1, 2, 3, 4}. response = exception_response fn code))"

lemma write_single_shape:
  assumes "wf_safety (a_safety env)" "pdu \<noteq> []"
  shows "\<exists>r s1. modbus_write_single_register regs pdu env s = Some (Ok r, s1)
     \<and> (case r of Inl e \<Rightarrow> ex_function e = hd pdu \<and> ex_code e \<in> {2, 3, 4} | Inr out \<Rightarrow> out = pdu \<and> length pdu = 5)"
proof (cases "length pdu = 5")
  case True
  let ?address = "from_be_bytes (pdu ! 1) (pdu ! 2)"
  show ?thesis
  proof (cases "write_register_by_address regs ?address")
    case None
    then show ?thesis using True by (simp add: modbus_write_single_register_def hreturn_def)
  next
    case (Some entry)
    obtain name reg where "entry = (name, reg)" by (cases entry)
    moreover obtain r s1 where "hattempt (apply_modbus_register_write regs name
        (f64_add (f64_mul (f64_of_int (uint (from_be_bytes (pdu ! 3) (pdu ! 4)))) (wr_scale reg)) (wr_offset reg))
        (Some (''modbus tcp write register '' @ name)) modbus_actor) env s = Some (Ok r, s1)"
      using attempt_run [OF returns_modbus_write assms(1)] by blast
    ultimately show ?thesis
      using Some True by (cases r) (simp_all add: modbus_write_single_register_def hreturn_def hbind_def Let_def)
  qed
qed (simp add: modbus_write_single_register_def hreturn_def)


section \<open>Writes\<close>

lemma validate_modbus_targets_iff:
  assumes "wf_safety safety"
  shows "validate_modbus_register_targets safety tg = Ok t \<longleftrightarrow> operator_ranges safety tg \<and> t = round_targets tg"
  using assms
  by (auto simp: validate_modbus_register_targets_def bind_res_Ok_iff run_checks_Ok_iff target_temperature_ok
      stir_speed_ok operator_ranges_def api_range_ok simp del: run_checks.simps)

lemma if_res_Ok: "(if b then Ok () else Err e) = Ok () \<longleftrightarrow> b" "(if b then Err e else Ok ()) = Ok () \<longleftrightarrow> \<not> b"
  by simp_all

lemma tick_numerals: "n + 2 = Suc (Suc n)" "n + 3 = Suc (Suc (Suc n))" "n + 4 = Suc (Suc (Suc (Suc n)))"
    "n + 5 = Suc (Suc (Suc (Suc (Suc n))))"
  by simp_all

lemma run_modbus_write:
  "apply_modbus_register_write regs register value reason actor env s = Some (Ok (tg, raw), s') \<longleftrightarrow>
     (\<exists>cleaned current requested reg seen mid applied. is_finite value \<and> cleaned = clean_label reason '''' 240 \<and> cleaned \<noteq> []
        \<and> validate_modbus_register_write_value (a_safety env) register value = Ok ()
        \<and> write_register_config regs register = Some reg
        \<and> current = targets (a_interfere env (h_tick s) (h_rt s))
        \<and> requested_targets register value current = Ok requested
        \<and> validate_modbus_register_targets (a_safety env) requested = Ok tg
        \<and> ensure_targets_allowed (a_safety env) tg = Ok ()
        \<and> write_register_applied_value tg register = Ok applied
        \<and> encode_modbus_raw applied (wr_scale reg) (wr_offset reg) = Ok raw
        \<and> seen = (a_interfere env (h_tick s + 1) (a_interfere env (h_tick s) (h_rt s)))\<lparr>auto_enabled := False\<rparr>
        \<and> field_clear (a_clock env (h_tick s + 2)) (a_safety env) seen
        \<and> batches_agree (a_unfinished env (h_tick s + 3)) seen
        \<and> a_audit env (h_tick s + 4) = Ok ()
        \<and> mid = s\<lparr>h_rt := seen, h_tick := h_tick s + 5, h_events := h_events s @
             [\<lparr>ev_actor = actor, ev_batch = None, ev_type = ''modbus_register_write'',
               ev_command = Some (safe_command_from_runtime_targets tg cleaned), ev_reason = cleaned\<rparr>]\<rparr>
        \<and> commit_targets_after_final_interlock tg ModbusDebugWrite (Some current)
             (Some (latches_from_runtime seen)) env mid = Some (Ok (), s'))"
  by (simp add: apply_modbus_register_write_def run_simps Let_def interlock_clear_iff persisted_batch_check_iff tick_numerals if_res_Ok cong: conj_cong)
     blast

lemma run_write_single:
  assumes "modbus_write_single_register regs pdu env s = Some (Ok (Inr out), s')"
  shows "length pdu = 5 \<and> out = pdu \<and> (\<exists>name reg tg raw. write_register_by_address regs (from_be_bytes (pdu ! 1) (pdu ! 2)) = Some (name, reg)
     \<and> apply_modbus_register_write regs name
         (f64_add (f64_mul (f64_of_int (uint (from_be_bytes (pdu ! 3) (pdu ! 4)))) (wr_scale reg)) (wr_offset reg))
         (Some (''modbus tcp write register '' @ name)) modbus_actor env s = Some (Ok (tg, raw), s'))"
  using assms
  by (auto simp: modbus_write_single_register_def Let_def hreturn_def hbind_def hattempt_def
      split: if_splits option.splits sum.splits prod.splits)

lemma exception_not_echo: "exception_response 6 code \<noteq> pdu" if "hd pdu = 6" for code :: u8
  using that by (auto simp: exception_response_def)

lemma run_pdu_write:
  assumes "handle_modbus_tcp_pdu regs memory pdu env s = Some (Ok pdu, s')" "pdu \<noteq> []" "hd pdu = 6"
    and "wf_safety (a_safety env)"
  shows "modbus_write_single_register regs pdu env s = Some (Ok (Inr pdu), s')"
proof -
  obtain r s1 where r: "modbus_write_single_register regs pdu env s = Some (Ok r, s1)"
      "case r of Inl e \<Rightarrow> ex_function e = hd pdu \<and> ex_code e \<in> {2, 3, 4} | Inr out \<Rightarrow> out = pdu \<and> length pdu = 5"
    using write_single_shape [OF assms(4,2)] by blast
  then show ?thesis
    using assms exception_not_echo [of pdu]
    by (cases r) (auto simp: handle_modbus_tcp_pdu_def hbind_def hreturn_def)
qed

text \<open>C37: A Modbus client that gets its write request echoed has changed the targets as an operator would have: the
  address is the address of a writable target register, the targets with the scaled value in place of that
  register are inside the operator ranges, and they are committed rounded, outside every forbidden zone, on a
  clear field, with unchanged latches, agreeing batches and targets nobody changed meanwhile. Automatic control
  was switched off and one audit event names the targets.\<close>

theorem modbus_write_committed:
  assumes "wf_safety (a_safety env)" "pdu \<noteq> []" "hd pdu = 6"
    and "handle_modbus_tcp_pdu regs memory pdu env s = Some (Ok pdu, s')"
  shows "\<exists>name reg current requested seen live.
     write_register_by_address regs (from_be_bytes (pdu ! 1) (pdu ! 2)) = Some (name, reg)
     \<and> current = targets (a_interfere env (h_tick s) (h_rt s))
     \<and> requested_targets name
         (f64_add (f64_mul (f64_of_int (uint (from_be_bytes (pdu ! 3) (pdu ! 4)))) (wr_scale reg)) (wr_offset reg)) current = Ok requested
     \<and> operator_ranges (a_safety env) requested
     \<and> find_forbidden_control_zone (a_safety env) (t_temperature_c (round_targets requested)) (t_stirrer_rpm (round_targets requested)) = None
     \<and> seen = (a_interfere env (h_tick s + 1) (a_interfere env (h_tick s) (h_rt s)))\<lparr>auto_enabled := False\<rparr>
     \<and> live = a_interfere env (h_tick s + 6) seen
     \<and> field_clear (a_clock env (h_tick s + 6)) (a_safety env) live
     \<and> same_generations seen live \<and> batches_agree (a_unfinished env (h_tick s + 5)) live
     \<and> targets_eq (targets live) current \<and> h_rt s' = live\<lparr>targets := round_targets requested\<rparr>
     \<and> (\<exists>event. h_events s' = h_events s @ [event] \<and> ev_type event = ''modbus_register_write'' \<and> ev_actor event = modbus_actor
          \<and> ev_command event = Some (safe_command_from_runtime_targets (round_targets requested) (ev_reason event)))"
proof -
  note single = run_write_single [OF run_pdu_write [OF assms(4,2,3,1)]]
  then obtain name reg tg raw where addr: "write_register_by_address regs (from_be_bytes (pdu ! 1) (pdu ! 2)) = Some (name, reg)"
    and run: "apply_modbus_register_write regs name
         (f64_add (f64_mul (f64_of_int (uint (from_be_bytes (pdu ! 3) (pdu ! 4)))) (wr_scale reg)) (wr_offset reg))
         (Some (''modbus tcp write register '' @ name)) modbus_actor env s = Some (Ok (tg, raw), s')"
    by (elim conjE exE)
  let ?seen = "(a_interfere env (h_tick s + 1) (a_interfere env (h_tick s) (h_rt s)))\<lparr>auto_enabled := False\<rparr>"
  from run obtain cleaned requested mid where
    req: "requested_targets name (f64_add (f64_mul (f64_of_int (uint (from_be_bytes (pdu ! 3) (pdu ! 4)))) (wr_scale reg)) (wr_offset reg))
        (targets (a_interfere env (h_tick s) (h_rt s))) = Ok requested"
    and tg: "validate_modbus_register_targets (a_safety env) requested = Ok tg" "ensure_targets_allowed (a_safety env) tg = Ok ()"
    and mid: "mid = s\<lparr>h_rt := ?seen, h_tick := h_tick s + 5, h_events := h_events s @
             [\<lparr>ev_actor = modbus_actor, ev_batch = None, ev_type = ''modbus_register_write'',
               ev_command = Some (safe_command_from_runtime_targets tg cleaned), ev_reason = cleaned\<rparr>]\<rparr>"
    and commit: "commit_targets_after_final_interlock tg ModbusDebugWrite (Some (targets (a_interfere env (h_tick s) (h_rt s))))
             (Some (latches_from_runtime ?seen)) env mid = Some (Ok (), s')"
    unfolding run_modbus_write by (elim conjE exE) simp
  from tg have "operator_ranges (a_safety env) requested" "tg = round_targets requested"
    "find_forbidden_control_zone (a_safety env) (t_temperature_c tg) (t_stirrer_rpm tg) = None"
    by (simp_all add: validate_modbus_targets_iff [OF assms(1)] targets_allowed_iff)
  with addr req commit mid show ?thesis
    by (intro exI [of _ name] exI [of _ reg] exI [of _ "targets (a_interfere env (h_tick s) (h_rt s))"] exI [of _ requested]
        exI [of _ ?seen] exI [of _ "a_interfere env (h_tick s + 6) ?seen"]) (simp add: run_commit_targets add.commute [of 6])
qed

section \<open>Every request is answered\<close>

lemma exception_proper: "ex_code e \<in> {1, 2, 3, 4} \<Longrightarrow> proper_answer (ex_function e) (exception_response (ex_function e) (ex_code e))"
  by (auto simp: proper_answer_def exception_response_def)

text \<open>What an answer is computed from: an exception for the function, or a response with its code.\<close>

definition proper_result :: "u8 \<Rightarrow> modbus_exception + u8 list \<Rightarrow> bool" where
  "proper_result fn r \<longleftrightarrow> (case r of
       Inl e \<Rightarrow> ex_function e = fn \<and> ex_code e \<in> {1, 2, 3, 4}
     | Inr out \<Rightarrow> hd out = fn \<and> 2 \<le> length out \<and> length out \<le> 252)"

lemma proper_answer_of_result:
  assumes "proper_result fn r"
  shows "proper_answer fn (case r of Inl e \<Rightarrow> exception_response (ex_function e) (ex_code e) | Inr response \<Rightarrow> response)"
proof (cases r)
  case (Inl e)
  then show ?thesis using assms exception_proper [of e] by (auto simp: proper_result_def)
next
  case (Inr out)
  then show ?thesis using assms by (simp add: proper_result_def proper_answer_def)
qed

lemma read_bool_proper: "proper_result (hd pdu) (read_bool_points pdu points)"
  using read_bool_shape [of pdu points] by (auto simp: proper_result_def split: sum.splits)

lemma read_holding_proper: "hd pdu = 3 \<Longrightarrow> proper_result (hd pdu) (read_holding_registers regs pdu rt)"
  using read_holding_shape [of pdu regs rt] by (auto simp: proper_result_def split: sum.splits)

lemma write_single_proper:
  assumes "wf_safety (a_safety env)" "pdu \<noteq> []"
  shows "\<exists>r s1. modbus_write_single_register regs pdu env s = Some (Ok r, s1) \<and> proper_result (hd pdu) r"
  using write_single_shape [OF assms, of regs s] by (fastforce simp: proper_result_def split: sum.splits)

lemma proper_result_exception: "code \<in> {1, 2, 3, 4} \<Longrightarrow> proper_result fn (Err (exception_of fn code))"
  by (simp add: proper_result_def)

lemma read_points_run:
  "\<exists>r s1. read_points pdu values env s = Some (Ok r, s1)
     \<and> proper_result (hd pdu) r
     \<and> h_rt s1 = a_interfere env (h_tick s) (h_rt s)
     \<and> h_events s1 = h_events s \<and> h_writes s1 = h_writes s \<and> h_db s1 = h_db s"
proof (cases "a_unfinished env (h_tick s + 1)")
  case (Inl e)
  then show ?thesis by (simp add: proper_result_def read_points_def read_lock_def with_lock_def hbind_def Let_def)
next
  case (Inr batches)
  let ?r = "read_bool_points pdu (values (a_safety env) (a_clock env (h_tick s + 1)) (a_interfere env (h_tick s) (h_rt s))
      (unfinished_batch_status_from_batches batches (a_interfere env (h_tick s) (h_rt s))))"
  have "read_points pdu values env s = Some (Ok ?r, s\<lparr>h_rt := a_interfere env (h_tick s) (h_rt s), h_tick := h_tick s + 2\<rparr>)"
    using Inr by (simp add: read_points_def read_lock_def with_lock_def hbind_def Let_def)
  moreover have "proper_result (hd pdu) ?r"
    by (rule read_bool_proper)
  ultimately show ?thesis by simp
qed

lemma modbus_run:
  assumes "wf_safety (a_safety env)"
  shows "\<exists>response s'. handle_modbus_tcp_pdu regs memory pdu env s = Some (Ok response, s')
     \<and> proper_answer (if pdu = [] then 0 else hd pdu) response
     \<and> (pdu = [] \<or> hd pdu \<noteq> 6 \<longrightarrow> h_events s' = h_events s \<and> h_writes s' = h_writes s \<and> h_db s' = h_db s
          \<and> h_rt s' \<in> {h_rt s, a_interfere env (h_tick s) (h_rt s)})"
proof (cases "pdu = []")
  case True
  then show ?thesis
    using exception_proper [of "exception_of 0 3"] by (simp add: handle_modbus_tcp_pdu_def hreturn_def)
next
  case False
  define h where "h = (if hd pdu = 1 then read_points pdu (\<lambda>safety now rt st. coil_values rt (has_unfinished_batch st rt))
         else if hd pdu = 2 then read_points pdu (\<lambda>safety now rt st.
           discrete_input_values safety now memory rt (has_unfinished_batch st rt) (recovery_required st))
         else if hd pdu = 3 then read_lock (read_holding_registers regs pdu)
         else if hd pdu = 6 then modbus_write_single_register regs pdu
         else hreturn (Err (exception_of (hd pdu) 1)))"
  have "\<exists>r s1. h env s = Some (Ok r, s1)
     \<and> proper_result (hd pdu) r
     \<and> (hd pdu \<noteq> 6 \<longrightarrow> h_events s1 = h_events s \<and> h_writes s1 = h_writes s \<and> h_db s1 = h_db s
          \<and> h_rt s1 \<in> {h_rt s, a_interfere env (h_tick s) (h_rt s)})"
  proof -
    consider "hd pdu \<in> {1, 2}" | "hd pdu = 3" | "hd pdu = 6" | "hd pdu \<notin> {1, 2, 3, 6}" by blast
    then show ?thesis
    proof cases
      case 1
      then obtain points where "h = read_points pdu points" by (auto simp: h_def)
      then show ?thesis using read_points_run [of pdu points env s] by auto
    next
      case 2
      then show ?thesis
        using read_holding_proper [OF 2, of regs "a_interfere env (h_tick s) (h_rt s)"]
        by (simp add: h_def read_lock_def with_lock_def Let_def)
    next
      case 3
      then show ?thesis
        using write_single_proper [OF assms False, of regs s] by (simp add: h_def)
    next
      case 4
      then show ?thesis by (simp add: h_def hreturn_def proper_result_exception)
    qed
  qed
  then obtain r s1 where run: "h env s = Some (Ok r, s1)"
    and shape: "proper_result (hd pdu) r"
    and same: "hd pdu \<noteq> 6 \<longrightarrow> h_events s1 = h_events s \<and> h_writes s1 = h_writes s \<and> h_db s1 = h_db s
          \<and> h_rt s1 \<in> {h_rt s, a_interfere env (h_tick s) (h_rt s)}"
    by blast
  let ?response = "case r of Inl e \<Rightarrow> exception_response (ex_function e) (ex_code e) | Inr response \<Rightarrow> response"
  have "handle_modbus_tcp_pdu regs memory pdu env s = Some (Ok ?response, s1)"
    using False run by (simp add: handle_modbus_tcp_pdu_def h_def [symmetric] hbind_def hreturn_def)
  moreover have "proper_answer (hd pdu) ?response"
    using shape by (rule proper_answer_of_result)
  ultimately show ?thesis using False same by simp
qed

lemma modbus_answer_exists:
  assumes "wf_safety (a_safety env)"
  shows "\<exists>response s'. handle_modbus_tcp_pdu regs memory pdu env s = Some (Ok response, s')
     \<and> proper_answer (if pdu = [] then 0 else hd pdu) response"
  using modbus_run [OF assms] by blast

lemma returns_modbus_pdu: "returns (handle_modbus_tcp_pdu regs memory pdu)"
  unfolding returns_def using modbus_answer_exists by fastforce

text \<open>Every protocol data unit is answered, whatever its bytes, the device configuration and the state are: nothing
  panics, the answer has at most 252 bytes and is either a response with the request's function code or one of the
  exceptions 1 to 4 for it. Only the write of a register touches anything: every other request leaves the audit
  trail, the device and the database alone and the runtime state to the other tasks.\<close>

theorem modbus_pdu_answered:
  assumes "wf_safety (a_safety env)"
  shows "\<exists>response s'. handle_modbus_tcp_pdu regs memory pdu env s = Some (Ok response, s')
     \<and> proper_answer (if pdu = [] then 0 else hd pdu) response
     \<and> (pdu = [] \<or> hd pdu \<noteq> 6 \<longrightarrow> h_events s' = h_events s \<and> h_writes s' = h_writes s \<and> h_db s' = h_db s
          \<and> h_rt s' \<in> {h_rt s, a_interfere env (h_tick s) (h_rt s)})"
  using assms by (rule modbus_run)

section \<open>What a read returns\<close>

lemma bit_set_at:
  assumes "i < 8 * length bytes" "j < 8 * length bytes"
  shows "bit ((bytes[i div 8 := bytes ! (i div 8) OR push_bit (i mod 8) (1 :: u8)]) ! (j div 8)) (j mod 8)
     \<longleftrightarrow> bit (bytes ! (j div 8)) (j mod 8) \<or> j = i"
proof (cases "j div 8 = i div 8")
  case True
  have "j = i \<longleftrightarrow> j mod 8 = i mod 8" using True by (metis div_mod_decomp)
  then show ?thesis using True assms by (auto simp: bit_simps)
next
  case False
  then show ?thesis using assms by auto
qed

lemma collect_points_bits:
  assumes "collect_points points fn (enumerate k addrs) bytes = Ok out" "k + length addrs \<le> 8 * length bytes"
    and "j < 8 * length bytes"
  shows "(bit (out ! (j div 8)) (j mod 8) \<longleftrightarrow>
       bit (bytes ! (j div 8)) (j mod 8) \<or> (k \<le> j \<and> j < k + length addrs \<and> points (addrs ! (j - k)) = Some True))
     \<and> (\<forall>a \<in> set addrs. points a \<noteq> None)"
  using assms
proof (induction addrs arbitrary: k bytes)
  case (Cons a addrs)
  let ?bytes = "\<lambda>v. if v then bytes[k div 8 := bytes ! (k div 8) OR push_bit (k mod 8) 1] else bytes"
  obtain v where v: "points a = Some v" and rest: "collect_points points fn (enumerate (Suc k) addrs) (?bytes v) = Ok out"
    using Cons.prems(1) by (auto split: option.splits)
  have k: "k < 8 * length bytes" using Cons.prems(2) by simp
  note ih = Cons.IH [OF rest]
  have "bit (?bytes v ! (j div 8)) (j mod 8) \<longleftrightarrow> bit (bytes ! (j div 8)) (j mod 8) \<or> (v \<and> j = k)"
    using bit_set_at [OF k Cons.prems(3)] by auto
  moreover have "(Suc k \<le> j \<and> j < Suc k + length addrs \<and> points (addrs ! (j - Suc k)) = Some True) \<or> (v \<and> j = k)
      \<longleftrightarrow> k \<le> j \<and> j < k + length (a # addrs) \<and> points ((a # addrs) ! (j - k)) = Some True"
    using v by (cases "j = k") (auto simp: nth_Cons' Suc_diff_le)
  ultimately show ?case using ih Cons.prems(2,3) v by auto
qed auto

text \<open>The bits of a coil or input response are the points that were asked for: bit \<open>j\<close> of the response is set exactly
  when \<open>j\<close> is below the requested quantity and the point at address start plus \<open>j\<close> is on, so the padding bits are
  zero; and every address asked for names a point.\<close>

theorem modbus_bits_are_points:
  assumes "read_bool_points [fn, a, b, c, d] points = Ok response" "j < 8 * (length response - 2)"
  shows "(bit (response ! (2 + j div 8)) (j mod 8) \<longleftrightarrow>
       j < unat (from_be_bytes c d) \<and> points (from_be_bytes a b + word_of_nat j) = Some True)
     \<and> (\<forall>i < unat (from_be_bytes c d). points (from_be_bytes a b + word_of_nat i) \<noteq> None)"
proof -
  let ?q = "unat (from_be_bytes c d)" and ?start = "from_be_bytes a b"
  from assms(1) obtain bytes where response: "response = fn # word_of_nat ((?q + 7) div 8) # bytes"
    and run: "collect_points points fn (enumerate 0 (addresses ?start (from_be_bytes c d))) (replicate ((?q + 7) div 8) 0) = Ok bytes"
    by (auto simp: read_bool_points_def Let_def bind_res_Ok_iff split: if_splits)
  have len: "length bytes = (?q + 7) div 8" using collect_points_length [OF run] by simp
  have j: "j < 8 * length (replicate ((?q + 7) div 8) (0 :: u8))" using assms(2) response len by simp
  have q: "0 + length (addresses ?start (from_be_bytes c d)) \<le> 8 * length (replicate ((?q + 7) div 8) (0 :: u8))" by simp
  have addr: "addresses ?start (from_be_bytes c d) ! i = ?start + word_of_nat i" if "i < ?q" for i
    using that by (simp add: addresses_def)
  have all: "\<forall>i < ?q. points (?start + word_of_nat i) \<noteq> None"
    using collect_points_bits [OF run q j] addr by (metis length_addresses nth_mem)
  then show ?thesis
    using collect_points_bits [OF run q j] response j addr by (auto simp: nth_append)
qed

theorem modbus_bits_are_points_witness:
  "read_bool_points [1, 0, 0, 0, 4] (coil_values ((from_safety shipped_safety)\<lparr>manual_lock := True\<rparr>) False) = Ok [1, 1, 2]
   \<and> bit ([1, 1, 2 :: u8] ! 2) 1
   \<and> coil_values ((from_safety shipped_safety)\<lparr>manual_lock := True\<rparr>) False (from_be_bytes 0 0 + word_of_nat 1) = Some True"
proof -
  have run: "read_bool_points [1, 0, 0, 0, 4] (coil_values ((from_safety shipped_safety)\<lparr>manual_lock := True\<rparr>) False) = Ok [1, 1, 2]"
    by (simp add: read_bool_points_def coil_values_def from_be_bytes_def addresses_def from_safety_def upt_rec enumerate_eq_zip)
  have "bit ([1, 1, 2 :: u8] ! 2) 1" by simp
  with modbus_bits_are_points [OF run, of 1] run show ?thesis by simp
qed

section \<open>The register map seen from both sides\<close>

lemma unat_bound: "unat (x :: u16) < 0x10000"
  using unsigned_less [of x] by simp

lemma encode_agrees: "encode_raw value scale offset = Ok raw \<longleftrightarrow> encode_modbus_raw value scale offset = Ok raw"
  by (simp add: encode_raw_def encode_modbus_raw_def Let_def)

lemma insert_all_other: "insert_all entries m = Ok out \<Longrightarrow> a \<notin> fst ` set entries \<Longrightarrow> out a = m a"
  by (induction entries arbitrary: m) (auto simp: insert_raw_def bind_res_Ok_iff)

lemma insert_all_entry:
  assumes "insert_all entries m = Ok out" "distinct (map fst entries)" "(a, value, scale, offset) \<in> set entries"
  shows "\<exists>raw. encode_modbus_raw value scale offset = Ok raw \<and> out a = Some raw"
  using assms
proof (induction entries arbitrary: m)
  case (Cons entry entries)
  obtain a' v' sc' off' where entry: "entry = (a', v', sc', off')" by (cases entry)
  obtain raw where raw: "encode_raw v' sc' off' = Ok raw" and rest: "insert_all entries (m(a' \<mapsto> raw)) = Ok out"
    using Cons.prems(1) by (auto simp: entry insert_raw_def bind_res_Ok_iff)
  show ?case
  proof (cases "(a, value, scale, offset) = entry")
    case True
    then show ?thesis using raw insert_all_other [OF rest, of a'] Cons.prems(2) by (simp add: entry encode_agrees)
  next
    case False
    then show ?thesis using Cons.IH [OF rest] Cons.prems(2,3) by (auto simp: entry)
  qed
qed simp

lemma register_is_entry:
  assumes "latest_sample rt = Some sample" "register_value regs rt name = Ok v"
  shows "(mv_address v, mv_value v, mv_scale v, mv_offset v) \<in> set (holding_entries regs sample (targets rt))"
proof -
  have "case register_value regs rt name of Inl _ \<Rightarrow> True
     | Inr v \<Rightarrow> (mv_address v, mv_value v, mv_scale v, mv_offset v) \<in> set (holding_entries regs sample (targets rt))"
    by (simp add: register_value_def sample_register_def target_register_def assms(1) holding_entries_def Let_def)
  then show ?thesis by (simp add: assms(2))
qed


section \<open>A connection\<close>

lemma stream_frame:
  assumes "length pdu \<le> max_pdu" "max_pdu \<le> 253"
  shows "handle_modbus_tcp_stream regs memory max_pdu unit sent n (mbap_response tid unit pdu @ rest) =
     hbind (handle_modbus_tcp_pdu regs memory pdu) (\<lambda>response.
       if \<not> sent n then hreturn ([], Err ''timed out writing MBAP response'')
       else hbind (handle_modbus_tcp_stream regs memory max_pdu unit sent (Suc n) rest) (\<lambda>(responses, ended).
         hreturn (mbap_response tid unit response # responses, ended)))"
proof -
  have len: "unat (word_of_nat (length pdu + 1) :: u16) = length pdu + 1"
    using assms by (simp add: unat_of_nat del: of_nat_Suc of_nat_add)
  have skip: "drop (7 + length pdu) (a # b # c # d # e # f # g # pdu @ rest) = rest" for a b c d e f g
    by (simp add: eval_nat_numeral)
  show ?thesis
    using assms len
    by (subst handle_modbus_tcp_stream.simps)
       (simp add: mbap_response_def to_be_bytes_def [of tid] to_be_bytes_def [of "word_of_nat _"] to_be_bytes_def [of 0] from_be_bytes_def [of 0 0] Let_def skip
        del: of_nat_Suc of_nat_add)
qed

text \<open>A client that sends well-formed frames gets one response per frame, in order, each with the transaction number
  of its request and a proper answer to its data unit; after the last frame the connection waits for the next
  header and ends with the read timeout.\<close>

theorem modbus_stream_answers:
  assumes "wf_safety (a_safety env)" "max_pdu \<le> 253" "\<forall>(tid, pdu) \<in> set frames. length pdu \<le> max_pdu"
  shows "\<exists>responses s'. handle_modbus_tcp_stream regs memory max_pdu unit (\<lambda>_. True) n
       (concat (map (\<lambda>(tid, pdu). mbap_response tid unit pdu) frames)) env s
       = Some (Ok (map2 (\<lambda>(tid, _) response. mbap_response tid unit response) frames responses,
                   Err ''timed out waiting for MBAP header''), s')
     \<and> list_all2 (\<lambda>(_, pdu) response. proper_answer (if pdu = [] then 0 else hd pdu) response) frames responses"
  using assms(3)
proof (induction frames arbitrary: n s)
  case Nil
  then show ?case by (simp add: handle_modbus_tcp_stream.simps hreturn_def)
next
  case (Cons frame frames)
  obtain tid pdu where frame: "frame = (tid, pdu)" by (cases frame)
  with Cons.prems have len: "length pdu \<le> max_pdu" by simp
  obtain response s1 where answer: "handle_modbus_tcp_pdu regs memory pdu env s = Some (Ok response, s1)"
      "proper_answer (if pdu = [] then 0 else hd pdu) response"
    using modbus_answer_exists [OF assms(1)] by blast
  obtain responses s' where rest: "handle_modbus_tcp_stream regs memory max_pdu unit (\<lambda>_. True) (Suc n)
       (concat (map (\<lambda>(tid, pdu). mbap_response tid unit pdu) frames)) env s1
       = Some (Ok (map2 (\<lambda>(tid, _) response. mbap_response tid unit response) frames responses,
                   Err ''timed out waiting for MBAP header''), s')"
      "list_all2 (\<lambda>(_, pdu) response. proper_answer (if pdu = [] then 0 else hd pdu) response) frames responses"
    using Cons.IH [of "Suc n" s1] Cons.prems by auto
  have "handle_modbus_tcp_stream regs memory max_pdu unit (\<lambda>_. True) n
       (concat (map (\<lambda>(tid, pdu). mbap_response tid unit pdu) (frame # frames))) env s
       = Some (Ok (map2 (\<lambda>(tid, _) response. mbap_response tid unit response) (frame # frames) (response # responses),
                   Err ''timed out waiting for MBAP header''), s')"
    using answer(1) rest(1) by (simp add: frame stream_frame [OF len assms(2)] hbind_def hreturn_def)
  then show ?case using answer(2) rest(2) by (intro exI [of _ "response # responses"] exI [of _ s']) (simp add: frame)
qed

section \<open>Witnesses\<close>

definition demo_tcp_regs :: registers_config where
  "demo_tcp_regs = (let r = (\<lambda>a. \<lparr>rr_address = a, rr_scale = Num 1, rr_offset = Num 0, min_valid = Num 0, max_valid = Num 1000\<rparr>);
       w = (\<lambda>a. \<lparr>wr_address = a, wr_scale = Num 1, wr_offset = Num 0\<rparr>)
     in \<lparr>reg_temperature_c = r 0, reg_stirrer_rpm = r 1, reg_pressure_mpa = r 2, reg_shake_speed_cpm = r 3,
       reg_tilt_angle_deg = r 4, reg_flow_rate_l_min = r 5, reg_product_concentration_percent = r 6, reg_ph = r 7,
       reg_target_temperature_c = w 100, reg_target_stirrer_rpm = w 101, reg_target_shake_speed_cpm = w 102,
       reg_target_pressure_mpa = w 103, reg_heat_time_s = w 104, reg_hold_time_s = w 105, reg_cool_time_s = w 106\<rparr>)"


theorem modbus_pdu_answered_witness:
  "wf_safety (a_safety (demo_api (\<lambda>_. Ok ())))
   \<and> (\<exists>response s'. handle_modbus_tcp_pdu demo_tcp_regs demo_memory [3, 255, 255, 0, 2] (demo_api (\<lambda>_. Ok ())) (demo_hstate None) = Some (Ok response, s')
        \<and> proper_answer 3 response)"
proof -
  have "wf_safety (a_safety (demo_api (\<lambda>_. Ok ())))" by (simp add: demo_api_def)
  with modbus_pdu_answered [OF this, of demo_tcp_regs demo_memory "[3, 255, 255, 0, 2]" "demo_hstate None"] show ?thesis by auto
qed

theorem modbus_stream_answers_witness:
  "\<exists>responses s'. handle_modbus_tcp_stream demo_tcp_regs demo_memory 253 1 (\<lambda>_. True) 0
       (mbap_response 7 1 [1, 0, 0, 0, 4] @ mbap_response 8 1 [5, 0, 0, 255, 0]) (demo_api (\<lambda>_. Ok ())) (demo_hstate None)
       = Some (Ok (responses, Err ''timed out waiting for MBAP header''), s') \<and> length responses = 2"
proof -
  have wf: "wf_safety (a_safety (demo_api (\<lambda>_. Ok ())))" by (simp add: demo_api_def)
  from modbus_stream_answers [OF wf, of 253 "[(7, [1, 0, 0, 0, 4]), (8, [5, 0, 0, 255, 0])]" demo_tcp_regs demo_memory 1 0 "demo_hstate None"]
  show ?thesis by (auto dest!: list_all2_lengthD) 
qed

lemma round_half_away_numeral: "round_half_away (numeral k) = numeral k" "round_half_away 0 = 0" "round_half_away 1 = 1"
  using round_half_away_of_int [of "numeral k"] round_half_away_of_int [of 0] round_half_away_of_int [of 1]
  by (simp_all add: round_half_away_def)

lemma demo_raws:
  "encode_modbus_raw (Num 60) (Num 1) (Num 0) = Ok 60" "encode_modbus_raw (Num 300) (Num 1) (Num 0) = Ok 300"
  "encode_modbus_raw (Num 1) (Num 1) (Num 0) = Ok 1" "encode_modbus_raw (Num 30) (Num 1) (Num 0) = Ok 30"
  "encode_modbus_raw (Num 0) (Num 1) (Num 0) = Ok 0" "encode_modbus_raw (Num 2) (Num 1) (Num 0) = Ok 2"
  "encode_modbus_raw (Num 10) (Num 1) (Num 0) = Ok 10" "encode_modbus_raw (Num 7) (Num 1) (Num 0) = Ok 7"
  "encode_modbus_raw (Num 600) (Num 1) (Num 0) = Ok 600" "encode_modbus_raw (Num 180) (Num 1) (Num 0) = Ok 180"
  by (simp_all add: encode_modbus_raw_def raw_of_def f64_eq_def f64_sub_def f64_div_def f64_add_def
      f64_neg_def signed_zero_def f64_round_def Let_def in_range_def cast_int_def trunc_rat_def round_half_away_numeral)

definition demo_tcp_rt :: runtime_state where
  "demo_tcp_rt = (from_safety shipped_safety)\<lparr>latest_sample := Some demo_sample,
     targets := (targets (from_safety shipped_safety))\<lparr>t_target_pressure_mpa := Num 1\<rparr>\<rparr>"

lemma demo_entries: "holding_entries demo_tcp_regs demo_sample (targets demo_tcp_rt) =
   [(0, Num 60, Num 1, Num 0), (1, Num 300, Num 1, Num 0), (2, Num 1, Num 1, Num 0), (3, Num 30, Num 1, Num 0),
    (4, Num 0, Num 1, Num 0), (5, Num 2, Num 1, Num 0), (6, Num 10, Num 1, Num 0), (7, Num 7, Num 1, Num 0),
    (100, Num 60, Num 1, Num 0), (101, Num 300, Num 1, Num 0), (102, Num 30, Num 1, Num 0), (103, Num 1, Num 1, Num 0),
    (104, Num 300, Num 1, Num 0), (105, Num 600, Num 1, Num 0), (106, Num 180, Num 1, Num 0)]"
  by (simp add: holding_entries_def demo_tcp_regs_def demo_sample_def
      demo_tcp_rt_def from_safety_def shipped_safety_def Let_def)


lemma normalize_loop_nonempty: "acc \<noteq> [] \<Longrightarrow> normalize_loop m acc pending count rest \<noteq> []"
  by (induction rest arbitrary: acc pending count) (simp_all add: Let_def)

lemma clean_label_visible:
  assumes "0x20 < (of_char c :: nat)" "(of_char c :: nat) < 0x7F" "0 < m"
  shows "clean_label (Some (c # cs)) fallback m \<noteq> []"
proof -
  have "utf8_string xs = [] \<longleftrightarrow> xs = []" for xs by (cases xs) (simp_all add: utf8_string_def utf8_char_def)
  moreover have "\<not> is_invisible_format_char (of_char c)" "\<not> is_control (of_char c)" "\<not> is_whitespace (of_char c)"
    using assms(1,2) by (auto simp: is_invisible_format_char_def is_control_def is_whitespace_def)
  then have "normalize_loop m [] False 0 (utf8_chars (c # cs)) = normalize_loop m [of_char c] False 1 (utf8_chars cs)"
    using assms by (simp add: byte_in_def)
  then have "normalize_loop m [] False 0 (utf8_chars (c # cs)) \<noteq> []"
    using normalize_loop_nonempty [of "[of_char c]" m False 1 "utf8_chars cs"] by simp
  ultimately show ?thesis by (simp add: clean_label_def normalize_operator_text_def del: utf8_chars.simps)
qed

lemma demo_write_run:
  "\<exists>s'. handle_modbus_tcp_pdu demo_tcp_regs demo_memory [6, 0, 100, 0, 60] (demo_api (\<lambda>_. Ok ())) (demo_hstate None)
     = Some (Ok [6, 0, 100, 0, 60], s')"
proof -
  let ?tg = "targets (from_safety shipped_safety)"
  let ?reason = "''modbus tcp write register target_temperature_c''"
  have tg: "targets (h_rt (demo_hstate None)) = ?tg" "?tg\<lparr>t_temperature_c := Num 60\<rparr> = ?tg"
    by (simp_all add: demo_hstate_def from_safety_def shipped_safety_def)
  have ranges: "operator_ranges shipped_safety ?tg" "targets_eq ?tg ?tg"
    by (simp_all add: operator_ranges_def targets_eq_def from_safety_def shipped_safety_def in_range_Num f64_eq_def half_two_decimals)
  have allowed: "ensure_targets_allowed shipped_safety (round_targets ?tg) = Ok ()"
    by (simp add: targets_allowed_iff round_targets_def from_safety_def shipped_safety_def
        find_forbidden_control_zone_def zone_contains_def)
  have same: "batches_agree (Ok []) (h_rt (demo_hstate None))" "same_generations rt rt" for rt
    by (simp_all add: batches_agree_def demo_hstate_def from_safety_def same_generations_def latches_changed_iff)
  have cleaned: "clean_label (Some ?reason) '''' 240 \<noteq> []"
    by (simp add: clean_label_visible)
  have reg: "write_register_config demo_tcp_regs ''target_temperature_c'' = Some \<lparr>wr_address = 100, wr_scale = Num 1, wr_offset = Num 0\<rparr>"
    "write_register_by_address demo_tcp_regs (from_be_bytes 0 100) = Some (''target_temperature_c'', \<lparr>wr_address = 100, wr_scale = Num 1, wr_offset = Num 0\<rparr>)"
    by (simp_all add: write_register_config_def write_register_by_address_def demo_tcp_regs_def from_be_bytes_def Let_def)
  have value_ok: "from_be_bytes 0 60 = 60" "f64_add (f64_mul (Num 60) (Num 1)) (Num 0) = Num 60"
    by (simp_all add: from_be_bytes_def f64_add_def f64_mul_def)
  have rounded: "t_temperature_c (round_targets ?tg) = Num 60"
    by (simp add: round_targets_def from_safety_def shipped_safety_def)
  have valid: "validate_modbus_register_write_value shipped_safety ''target_temperature_c'' (Num 60) = Ok ()"
    using target_temperature_ok [OF shipped_safety_valid, of "Num 60"]
    by (simp add: validate_modbus_register_write_value_def unit_ok in_range_Num) (simp add: shipped_safety_def)
  have "\<exists>raw s'. apply_modbus_register_write demo_tcp_regs ''target_temperature_c'' (Num 60) (Some ?reason) modbus_actor
      (demo_api (\<lambda>_. Ok ())) (demo_hstate None) = Some (Ok (round_targets ?tg, raw), s')"
    using cleaned reg valid allowed ranges same rounded
    by (simp add: run_modbus_write run_commit_targets demo_api_def demo_disarmed tg validate_modbus_targets_iff demo_field_clear
        requested_targets_def write_register_applied_value_def demo_raws)
  then obtain raw s' where "apply_modbus_register_write demo_tcp_regs ''target_temperature_c'' (Num 60) (Some ?reason) modbus_actor
      (demo_api (\<lambda>_. Ok ())) (demo_hstate None) = Some (Ok (round_targets ?tg, raw), s')" by blast
  then show ?thesis
    by (simp add: handle_modbus_tcp_pdu_def modbus_write_single_register_def reg value_ok hbind_def hattempt_def hreturn_def Let_def)
qed

theorem modbus_write_committed_witness:
  "\<exists>s'. handle_modbus_tcp_pdu demo_tcp_regs demo_memory [6, 0, 100, 0, 60] (demo_api (\<lambda>_. Ok ())) (demo_hstate None)
       = Some (Ok [6, 0, 100, 0, 60], s') \<and> (\<exists>event. h_events s' = [event] \<and> ev_type event = ''modbus_register_write'')"
proof -
  obtain s' where run: "handle_modbus_tcp_pdu demo_tcp_regs demo_memory [6, 0, 100, 0, 60] (demo_api (\<lambda>_. Ok ())) (demo_hstate None)
     = Some (Ok [6, 0, 100, 0, 60], s')"
    using demo_write_run by blast
  have "wf_safety (a_safety (demo_api (\<lambda>_. Ok ())))" by (simp add: demo_api_def)
  moreover have "[6, 0, 100, 0, 60] \<noteq> ([] :: u8 list)" "hd [6, 0, 100, 0, 60] = (6 :: u8)" by simp_all
  ultimately have "\<exists>event. h_events s' = h_events (demo_hstate None) @ [event] \<and> ev_type event = ''modbus_register_write''"
    using modbus_write_committed [OF _ _ _ run] by blast
  then show ?thesis using run by (auto simp: demo_hstate_def)
qed

end
