(* ===== verification/Audit_Chain.thy ===== *)
theory Audit_Chain
  imports Control_Loop
begin

text \<open>
  The audit trail (\<open>db.rs\<close>): the table of control events, the insertion that links every event to the hash of
  the one before it, and the verification of the chain. The table is the list of its rows in the order of
  their ids. The digest of an event (its JSON text under SHA-256) is a parameter; hashes are values of an
  unspecified type.
\<close>

section \<open>Rows\<close>

record 'h control_event =
  ce_id :: int
  ce_batch_id :: "int option"
  ce_event_type :: string
  ce_actor :: string
  ce_role :: string
  ce_target_temperature_c :: "f64 option"
  ce_target_stirrer_rpm :: "f64 option"
  ce_target_shake_speed_cpm :: "f64 option"
  ce_reason :: string
  ce_created_at :: time
  ce_previous_hash :: "'h option"
  ce_event_hash :: "'h option"

definition TARGET_TEMPERATURE_C_RANGE :: sensor_range where
  "TARGET_TEMPERATURE_C_RANGE = \<lparr>range_field = ''target_temperature_c'', range_min = lit 0, range_max = lit 500\<rparr>"

definition TARGET_STIRRER_RPM_RANGE :: sensor_range where
  "TARGET_STIRRER_RPM_RANGE = \<lparr>range_field = ''target_stirrer_rpm'', range_min = lit 0, range_max = lit 2000\<rparr>"

definition PROCESS_SHAKE_SPEED_CPM_RANGE :: sensor_range where
  "PROCESS_SHAKE_SPEED_CPM_RANGE = \<lparr>range_field = ''target_shake_speed_cpm'', range_min = lit 0, range_max = lit 60\<rparr>"

definition validate_control_event_targets :: "f64 option \<Rightarrow> f64 option \<Rightarrow> f64 option \<Rightarrow> string + unit" where
  "validate_control_event_targets temp rpm shake = run_checks
     [case temp of Some value \<Rightarrow> sensor_range_validate TARGET_TEMPERATURE_C_RANGE value | None \<Rightarrow> Ok (),
      case rpm of Some value \<Rightarrow> sensor_range_validate TARGET_STIRRER_RPM_RANGE value | None \<Rightarrow> Ok (),
      case shake of Some value \<Rightarrow> sensor_range_validate PROCESS_SHAKE_SPEED_CPM_RANGE value | None \<Rightarrow> Ok ()]"

definition validate_control_event_record :: "'h control_event \<Rightarrow> string + 'h control_event" where
  "validate_control_event_record e =
     map_sum id (\<lambda>_. e) (validate_control_event_targets (ce_target_temperature_c e) (ce_target_stirrer_rpm e)
       (ce_target_shake_speed_cpm e))"

definition ensure_valid_control_event_targets_for_insert :: "f64 option \<Rightarrow> f64 option \<Rightarrow> f64 option \<Rightarrow> anyhow + unit" where
  "ensure_valid_control_event_targets_for_insert temp rpm shake =
     map_err (\<lambda>reason. [''invalid control event target rejected before DB insert: '' @ reason])
       (validate_control_event_targets temp rpm shake)"

section \<open>The chain\<close>

text \<open>What the hash of an event covers.\<close>

record 'h event_payload =
  pl_previous_hash :: "'h option"
  pl_batch_id :: "int option"
  pl_event_type :: string
  pl_target_temperature_c :: "f64 option"
  pl_target_stirrer_rpm :: "f64 option"
  pl_target_shake_speed_cpm :: "f64 option"
  pl_reason :: string
  pl_created_at :: time

type_synonym 'h digest = "'h event_payload \<Rightarrow> 'h"

definition control_event_hash ::
    "'h digest \<Rightarrow> 'h option \<Rightarrow> int option \<Rightarrow> string \<Rightarrow> f64 option \<Rightarrow> f64 option \<Rightarrow> f64 option \<Rightarrow> string \<Rightarrow> time \<Rightarrow> 'h" where
  "control_event_hash digest previous batch event_type temp rpm shake reason created =
     digest \<lparr>pl_previous_hash = previous, pl_batch_id = batch, pl_event_type = event_type, pl_target_temperature_c = temp,
       pl_target_stirrer_rpm = rpm, pl_target_shake_speed_cpm = shake, pl_reason = reason, pl_created_at = created\<rparr>"

text \<open>\<open>WHERE event_hash IS NOT NULL\<close>\<close>

definition hashed :: "'h control_event list \<Rightarrow> 'h control_event list" where
  "hashed events = filter (\<lambda>e. ce_event_hash e \<noteq> None) events"

definition latest_hash :: "'h control_event list \<Rightarrow> 'h option" where
  "latest_hash events = (if hashed events = [] then None else ce_event_hash (last (hashed events)))"

text \<open>\<open>AUTOINCREMENT\<close>: one more than the largest id.\<close>

definition next_id :: "'h control_event list \<Rightarrow> int" where
  "next_id events = (if events = [] then 1 else ce_id (last events) + 1)"

definition insert_control_event ::
    "'h digest \<Rightarrow> time \<Rightarrow> int option \<Rightarrow> string \<Rightarrow> safe_command option \<Rightarrow> string \<Rightarrow> audit_actor
     \<Rightarrow> 'h control_event list \<Rightarrow> anyhow + 'h control_event list" where
  "insert_control_event digest now batch event_type command reason actor events =
     (let previous = latest_hash events;
          temp = map_option c_target_temperature_c command;
          rpm = map_option c_target_stirrer_rpm command;
          shake = map_option c_target_shake_speed_cpm command
      in bind_res (ensure_valid_control_event_targets_for_insert temp rpm shake) (\<lambda>_.
         Ok (events @ [\<lparr>ce_id = next_id events, ce_batch_id = batch, ce_event_type = event_type,
            ce_actor = actor_username actor, ce_role = actor_role actor, ce_target_temperature_c = temp,
            ce_target_stirrer_rpm = rpm, ce_target_shake_speed_cpm = shake, ce_reason = reason, ce_created_at = now,
            ce_previous_hash = previous,
            ce_event_hash = Some (control_event_hash digest previous batch event_type temp rpm shake reason now)\<rparr>])))"

section \<open>Verification\<close>

record 'h audit_status =
  total_hashed_events :: nat
  checked_events :: nat
  chained_events :: nat
  broken_events :: nat
  window_valid :: bool
  chain_valid :: bool
  last_event_hash :: "'h option"
  checked_from_event_id :: "int option"
  checked_to_event_id :: "int option"
  verification_limit :: nat
  verification_truncated :: bool

text \<open>The variables of the loop over the events.\<close>

record 'h chain_acc =
  acc_checked :: nat
  acc_broken :: nat
  acc_previous :: "'h option"
  acc_last :: "'h option"
  acc_from :: "int option"
  acc_to :: "int option"

definition chain_start :: "'h chain_acc" where
  "chain_start = \<lparr>acc_checked = 0, acc_broken = 0, acc_previous = None, acc_last = None, acc_from = None, acc_to = None\<rparr>"

lemma chain_start_simps [simp]:
  "acc_checked chain_start = 0" "acc_broken chain_start = 0" "acc_previous chain_start = None" "acc_last chain_start = None"
  by (simp_all add: chain_start_def)

definition chain_step :: "'h digest \<Rightarrow> bool \<Rightarrow> 'h chain_acc \<Rightarrow> 'h control_event \<Rightarrow> 'h chain_acc" where
  "chain_step digest truncated acc e =
     (let previous = (if acc_checked acc = 0 \<and> truncated then ce_previous_hash e else acc_previous acc);
          expected = control_event_hash digest previous (ce_batch_id e) (ce_event_type e) (ce_target_temperature_c e)
            (ce_target_stirrer_rpm e) (ce_target_shake_speed_cpm e) (ce_reason e) (ce_created_at e);
          broken = (ce_previous_hash e \<noteq> previous \<or> ce_event_hash e \<noteq> Some expected)
      in \<lparr>acc_checked = acc_checked acc + 1, acc_broken = acc_broken acc + (if broken then 1 else 0),
          acc_previous = ce_event_hash e, acc_last = ce_event_hash e,
          acc_from = Some (unwrap_or (acc_from acc) (ce_id e)), acc_to = Some (ce_id e)\<rparr>)"

definition audit_chain_status_from_events ::
    "'h digest \<Rightarrow> 'h control_event list \<Rightarrow> nat \<Rightarrow> nat \<Rightarrow> bool \<Rightarrow> 'h audit_status" where
  "audit_chain_status_from_events digest events total_events limit truncated =
     (let acc = foldl (chain_step digest truncated) chain_start events
      in \<lparr>total_hashed_events = total_events, checked_events = acc_checked acc,
          chained_events = acc_checked acc - acc_broken acc, broken_events = acc_broken acc,
          window_valid = (acc_broken acc = 0), chain_valid = (acc_broken acc = 0 \<and> \<not> truncated),
          last_event_hash = acc_last acc, checked_from_event_id = acc_from acc, checked_to_event_id = acc_to acc,
          verification_limit = limit, verification_truncated = truncated\<rparr>)"

definition AUDIT_CHAIN_CHECK_LIMIT :: nat where
  "AUDIT_CHAIN_CHECK_LIMIT = 10000"

text \<open>Reading the rows fails on the first one that does not validate.\<close>

fun read_rows :: "'h control_event list \<Rightarrow> string + 'h control_event list" where
  "read_rows [] = Ok []"
| "read_rows (e # es) = bind_res (validate_control_event_record e) (\<lambda>x. bind_res (read_rows es) (\<lambda>xs. Ok (x # xs)))"

definition audit_chain_status_with ::
    "nat \<Rightarrow> 'h digest \<Rightarrow> 'h control_event list \<Rightarrow> string + 'h audit_status" where
  "audit_chain_status_with limit digest events =
     (let total_events = length (hashed events);
          truncated = limit < total_events;
          window = rev (take limit (rev (hashed events)))
      in bind_res (read_rows window) (\<lambda>rows. Ok (audit_chain_status_from_events digest rows total_events limit truncated)))"

definition audit_chain_status :: "'h digest \<Rightarrow> 'h control_event list \<Rightarrow> string + 'h audit_status" where
  "audit_chain_status = audit_chain_status_with AUDIT_CHAIN_CHECK_LIMIT"

definition full_audit_chain_status_for_diagnostics ::
    "'h digest \<Rightarrow> 'h control_event list \<Rightarrow> string + 'h audit_status" where
  "full_audit_chain_status_for_diagnostics digest events =
     bind_res (read_rows (hashed events)) (\<lambda>rows.
     let acc = foldl (chain_step digest False) chain_start rows
     in Ok \<lparr>total_hashed_events = acc_checked acc, checked_events = acc_checked acc,
          chained_events = acc_checked acc - acc_broken acc, broken_events = acc_broken acc,
          window_valid = (acc_broken acc = 0), chain_valid = (acc_broken acc = 0),
          last_event_hash = acc_last acc, checked_from_event_id = acc_from acc, checked_to_event_id = acc_to acc,
          verification_limit = acc_checked acc, verification_truncated = False\<rparr>)"

section \<open>Linked rows\<close>

definition payload_of :: "'h control_event \<Rightarrow> 'h event_payload" where
  "payload_of e = \<lparr>pl_previous_hash = ce_previous_hash e, pl_batch_id = ce_batch_id e, pl_event_type = ce_event_type e,
     pl_target_temperature_c = ce_target_temperature_c e, pl_target_stirrer_rpm = ce_target_stirrer_rpm e,
     pl_target_shake_speed_cpm = ce_target_shake_speed_cpm e, pl_reason = ce_reason e, pl_created_at = ce_created_at e\<rparr>"

fun linked :: "'h digest \<Rightarrow> 'h option \<Rightarrow> 'h control_event list \<Rightarrow> bool" where
  "linked digest previous [] = True"
| "linked digest previous (e # es) \<longleftrightarrow> ce_previous_hash e = previous \<and> ce_event_hash e = Some (digest (payload_of e))
     \<and> linked digest (ce_event_hash e) es"

definition end_hash :: "'h option \<Rightarrow> 'h control_event list \<Rightarrow> 'h option" where
  "end_hash previous es = (if es = [] then previous else ce_event_hash (last es))"

lemma end_hash_simps [simp]:
  "end_hash p [] = p" "end_hash p (es @ [e]) = ce_event_hash e" "end_hash p (e # es) = end_hash (ce_event_hash e) es"
  by (auto simp: end_hash_def)

lemma linked_append: "linked digest p (xs @ ys) \<longleftrightarrow> linked digest p xs \<and> linked digest (end_hash p xs) ys"
  by (induction xs arbitrary: p) auto

lemma linked_hashed: "linked digest p es \<Longrightarrow> e \<in> set es \<Longrightarrow> ce_event_hash e \<noteq> None"
  by (induction es arbitrary: p) auto

lemma hashed_linked: "linked digest p es \<Longrightarrow> hashed es = es"
  by (auto simp: hashed_def filter_id_conv dest: linked_hashed)

lemma latest_linked: "linked digest p es \<Longrightarrow> latest_hash es = (if es = [] then None else ce_event_hash (last es))"
  by (simp add: latest_hash_def hashed_linked)

lemma step_intact:
  "acc_broken (chain_step digest False acc e) = acc_broken acc
     + (if ce_previous_hash e = acc_previous acc \<and> ce_event_hash e = Some (digest (payload_of e)) then 0 else 1)"
  by (auto simp: chain_step_def control_event_hash_def payload_of_def Let_def)

lemma step_previous [simp]:
  "acc_previous (chain_step digest t acc e) = ce_event_hash e" "acc_checked (chain_step digest t acc e) = Suc (acc_checked acc)"
  "acc_last (chain_step digest t acc e) = ce_event_hash e"
  by (simp_all add: chain_step_def Let_def)

lemma step_started: "acc_checked acc \<noteq> 0 \<Longrightarrow> chain_step digest True acc e = chain_step digest False acc e"
  by (simp add: chain_step_def)

lemma fold_started: "acc_checked acc \<noteq> 0 \<Longrightarrow> foldl (chain_step digest True) acc es = foldl (chain_step digest False) acc es"
  by (induction es arbitrary: acc) (simp_all add: step_started)

lemma fold_broken:
  "acc_broken (foldl (chain_step digest False) acc es) = 0 \<longleftrightarrow> acc_broken acc = 0 \<and> linked digest (acc_previous acc) es"
proof (induction es arbitrary: acc)
  case (Cons e es)
  have "acc_broken (foldl (chain_step digest False) (chain_step digest False acc e) es) = 0 \<longleftrightarrow>
      acc_broken (chain_step digest False acc e) = 0 \<and> linked digest (ce_event_hash e) es"
    using Cons [of "chain_step digest False acc e"] by simp
  moreover have "acc_broken (chain_step digest False acc e) = 0 \<longleftrightarrow>
      acc_broken acc = 0 \<and> ce_previous_hash e = acc_previous acc \<and> ce_event_hash e = Some (digest (payload_of e))"
    by (simp add: step_intact)
  ultimately show ?case by simp
qed simp

lemma fold_counts:
  "acc_checked (foldl (chain_step digest t) acc es) = acc_checked acc + length es"
  "acc_last (foldl (chain_step digest t) acc es) = (if es = [] then acc_last acc else ce_event_hash (last es))"
  by (induction es arbitrary: acc) auto

text \<open>A truncated window trusts the link of its first row.\<close>

lemma fold_truncated:
  "acc_broken (foldl (chain_step digest True) chain_start es) = 0 \<longleftrightarrow>
     (es = [] \<or> linked digest (ce_previous_hash (hd es)) es)"
proof (cases es)
  case (Cons e rest)
  have "acc_broken (foldl (chain_step digest True) chain_start (e # rest)) = 0 \<longleftrightarrow>
      acc_broken (chain_step digest True chain_start e) = 0 \<and> linked digest (ce_event_hash e) rest"
    by (simp add: fold_started fold_broken)
  moreover have "acc_broken (chain_step digest True chain_start e) = 0 \<longleftrightarrow> ce_event_hash e = Some (digest (payload_of e))"
    by (simp add: chain_step_def chain_start_def control_event_hash_def payload_of_def Let_def)
  ultimately show ?thesis using Cons by simp
qed (simp add: chain_start_def)

lemma linked_drop: "linked digest p es \<Longrightarrow> drop k es = [] \<or> linked digest (ce_previous_hash (hd (drop k es))) (drop k es)"
  by (induction es arbitrary: p k) (auto simp: drop_Cons' split: if_splits)

section \<open>Recorded tables\<close>

inductive recorded :: "'h digest \<Rightarrow> 'h control_event list \<Rightarrow> bool" for digest where
  recorded_empty: "recorded digest []"
| recorded_insert: "recorded digest es
     \<Longrightarrow> insert_control_event digest now batch event_type command reason actor es = Ok es' \<Longrightarrow> recorded digest es'"

definition valid_row :: "'h control_event \<Rightarrow> bool" where
  "valid_row e \<longleftrightarrow> validate_control_event_targets (ce_target_temperature_c e) (ce_target_stirrer_rpm e)
     (ce_target_shake_speed_cpm e) = Ok ()"

lemma read_rows_Ok: "read_rows es = Ok xs \<longleftrightarrow> xs = es \<and> list_all valid_row es"
  by (induction es arbitrary: xs)
     (auto simp: validate_control_event_record_def valid_row_def bind_res_Ok_iff map_sum_def split: sum.splits)

lemma insert_event_row:
  assumes "insert_control_event digest now batch event_type command reason actor es = Ok es'"
  shows "\<exists>e. es' = es @ [e] \<and> ce_previous_hash e = latest_hash es \<and> ce_event_hash e = Some (digest (payload_of e))
     \<and> valid_row e \<and> ce_actor e = actor_username actor \<and> ce_reason e = reason"
  using assms
  by (cases "validate_control_event_targets (map_option c_target_temperature_c command)
        (map_option c_target_stirrer_rpm command) (map_option c_target_shake_speed_cpm command)")
     (auto simp: insert_control_event_def ensure_valid_control_event_targets_for_insert_def control_event_hash_def
        payload_of_def valid_row_def Let_def)

lemma recorded_linked: "recorded digest es \<Longrightarrow> linked digest None es \<and> list_all valid_row es"
proof (induction rule: recorded.induct)
  case (recorded_insert es now batch event_type command reason actor es')
  obtain e where e: "es' = es @ [e]" "ce_previous_hash e = latest_hash es" "ce_event_hash e = Some (digest (payload_of e))"
    "valid_row e" using insert_event_row [OF recorded_insert.hyps(2)] by blast
  with recorded_insert.IH latest_linked [of digest None es] show ?case
    by (auto simp: linked_append end_hash_def)
qed simp

section \<open>Properties\<close>

lemma status_of_valid:
  assumes "list_all valid_row (hashed events)"
  shows "audit_chain_status_with limit digest events =
     Ok (audit_chain_status_from_events digest (drop (length (hashed events) - limit) (hashed events))
       (length (hashed events)) limit (limit < length (hashed events)))"
proof -
  have "rev (take limit (rev (hashed events))) = drop (length (hashed events) - limit) (hashed events)"
    by (simp add: take_rev)
  moreover have "list_all valid_row (drop k (hashed events))" for k
    using assms by (auto simp: list_all_iff dest: in_set_dropD)
  ultimately show ?thesis
    by (simp add: audit_chain_status_with_def read_rows_Ok [THEN iffD2] Let_def)
qed

lemma window_intact:
  assumes "linked digest None es" "t \<longleftrightarrow> limit < length es"
  shows "acc_broken (foldl (chain_step digest t) chain_start (drop (length es - limit) es)) = 0"
  using assms linked_drop [OF assms(1), of "length es - limit"]
  by (cases t) (auto simp: fold_truncated fold_broken)

text \<open>C39: Every table that the daemon writes verifies: after any sequence of insertions the verification succeeds,
  finds no broken event in its window of the last events, and declares the whole chain valid exactly when
  the window covers it.\<close>

theorem recorded_chain_verifies:
  assumes "recorded digest es"
  shows "\<exists>st. audit_chain_status digest es = Ok st \<and> broken_events st = 0 \<and> window_valid st
     \<and> checked_events st = min (length es) 10000 \<and> (chain_valid st \<longleftrightarrow> length es \<le> 10000)
     \<and> (es \<noteq> [] \<longrightarrow> last_event_hash st = ce_event_hash (last es))"
proof -
  have l: "linked digest None es" and v: "list_all valid_row es" using recorded_linked [OF assms] by auto
  have h: "hashed es = es" using l by (rule hashed_linked)
  have "es \<noteq> [] \<Longrightarrow> \<not> length es \<le> length es - 10000" by (cases es) auto
  then show ?thesis
    using v window_intact [OF l, of "10000 < length es" 10000]
    by (auto simp: audit_chain_status_def AUDIT_CHAIN_CHECK_LIMIT_def status_of_valid h audit_chain_status_from_events_def
        fold_counts Let_def)
qed

text \<open>What the tamper evidence relies on of the digest.\<close>

definition collision_free :: "'h digest \<Rightarrow> bool" where
  "collision_free digest \<longleftrightarrow> (\<forall>a b. digest a = digest b \<longrightarrow> a = b)"

lemma linked_determined:
  assumes "collision_free digest"
  shows "linked digest None xs \<Longrightarrow> linked digest None ys \<Longrightarrow> end_hash None xs = end_hash None ys
     \<Longrightarrow> map payload_of xs = map payload_of ys"
proof (induction xs arbitrary: ys rule: rev_induct)
  case Nil
  then show ?case by (cases ys rule: rev_cases) (auto simp: linked_append)
next
  case (snoc x xs)
  then obtain y ys' where ys: "ys = ys' @ [y]"
    by (cases ys rule: rev_cases) (auto simp: linked_append)
  have "digest (payload_of x) = digest (payload_of y)" using snoc.prems by (auto simp: linked_append ys)
  then have p: "payload_of x = payload_of y" using assms by (simp add: collision_free_def)
  then have "ce_previous_hash x = ce_previous_hash y" by (simp add: payload_of_def)
  then have "map payload_of xs = map payload_of ys'"
    using snoc.prems by (intro snoc.IH) (auto simp: linked_append ys)
  with p show ?case by (simp add: ys)
qed

text \<open>C40: The chain is tamper-evident for what it covers: when the complete verification of some table succeeds and
  ends in the hash that the daemon last recorded, that table has exactly the recorded events in their order, as
  far as the hashed fields go. The digest is assumed to be collision-free.\<close>

theorem chain_tamper_evident:
  assumes "collision_free digest" "recorded digest es"
    and "full_audit_chain_status_for_diagnostics digest table = Ok st" "chain_valid st"
    and "last_event_hash st = latest_hash es"
  shows "map payload_of (hashed table) = map payload_of es"
proof -
  have l: "linked digest None es" using recorded_linked [OF assms(2)] by simp
  have rows: "read_rows (hashed table) = Ok (hashed table)"
    using assms(3) by (auto simp: full_audit_chain_status_for_diagnostics_def bind_res_Ok_iff read_rows_Ok Let_def)
  have t: "linked digest None (hashed table)" "last_event_hash st = end_hash None (hashed table)"
    using assms(3,4)
    by (auto simp: full_audit_chain_status_for_diagnostics_def rows fold_broken fold_counts end_hash_def Let_def)
  have "end_hash None es = end_hash None (hashed table)"
    using t(2) assms(5) latest_linked [OF l] by (simp add: end_hash_def)
  from linked_determined [OF assms(1) l t(1) this] show ?thesis by simp
qed

lemma chain_status_map:
  assumes same: "\<And>e. payload_of (f e) = payload_of e" "\<And>e. ce_event_hash (f e) = ce_event_hash e" "\<And>e. ce_id (f e) = ce_id e"
  shows "audit_chain_status digest (map f events) = audit_chain_status digest events"
proof -
  have fields: "ce_previous_hash (f e) = ce_previous_hash e" "ce_batch_id (f e) = ce_batch_id e" "ce_event_type (f e) = ce_event_type e"
    "ce_target_temperature_c (f e) = ce_target_temperature_c e" "ce_target_stirrer_rpm (f e) = ce_target_stirrer_rpm e"
    "ce_target_shake_speed_cpm (f e) = ce_target_shake_speed_cpm e" "ce_reason (f e) = ce_reason e" "ce_created_at (f e) = ce_created_at e" for e
    using same(1) [of e] by (simp_all add: payload_of_def)
  have h: "hashed (map f es) = map f (hashed es)" for es by (simp add: hashed_def filter_map o_def same)
  have s: "chain_step digest t acc (f e) = chain_step digest t acc e" for t acc e
    unfolding chain_step_def fields same(2,3) ..
  have fold: "foldl (chain_step digest t) acc (map f es) = foldl (chain_step digest t) acc es" for t acc es
    by (induction es arbitrary: acc) (simp_all add: s)
  have r: "read_rows (map f es) = map_sum id (map f) (read_rows es)" for es
  proof (induction es)
    case (Cons e es)
    then show ?case
      by (cases "validate_control_event_targets (ce_target_temperature_c e) (ce_target_stirrer_rpm e) (ce_target_shake_speed_cpm e)";
          cases "read_rows es") (simp_all add: validate_control_event_record_def fields)
  qed simp
  have w: "rev (take n (rev (map f es))) = map f (rev (take n (rev es)))" for n es by (simp add: rev_map take_map)
  have st: "audit_chain_status_from_events digest (map f es) n m t = audit_chain_status_from_events digest es n m t" for es n m t
    unfolding audit_chain_status_from_events_def fold ..
  show ?thesis
    unfolding audit_chain_status_def audit_chain_status_with_def h w r Let_def
    by (cases "read_rows (rev (take AUDIT_CHAIN_CHECK_LIMIT (rev (hashed events))))") (simp_all add: st)
qed

text \<open>The chain does not cover who acted: rewriting the user name and the role of any events leaves every
  verification as it was.\<close>

theorem actor_not_covered:
  "audit_chain_status digest (map (\<lambda>e. e\<lparr>ce_actor := name e, ce_role := rl e\<rparr>) events) = audit_chain_status digest events"
  by (rule chain_status_map) (simp_all add: payload_of_def)

text \<open>The windowed verification of the status request and the complete verification of the diagnostics agree: up to
  the size of the window both read the same rows and report the same result.\<close>

theorem chain_status_agrees:
  assumes "length (hashed events) \<le> 10000"
  shows "audit_chain_status digest events =
     map_sum id (\<lambda>st. st\<lparr>verification_limit := 10000\<rparr>) (full_audit_chain_status_for_diagnostics digest events)"
proof -
  have w: "rev (take AUDIT_CHAIN_CHECK_LIMIT (rev (hashed events))) = hashed events" "\<not> AUDIT_CHAIN_CHECK_LIMIT < length (hashed events)"
    using assms by (simp_all add: AUDIT_CHAIN_CHECK_LIMIT_def)
  show ?thesis
  proof (cases "read_rows (hashed events)")
    case (Inl e)
    then show ?thesis
      unfolding audit_chain_status_def audit_chain_status_with_def full_audit_chain_status_for_diagnostics_def Let_def w by simp
  next
    case (Inr rows)
    then have "rows = hashed events" by (simp add: read_rows_Ok)
    with Inr w(2) show ?thesis
      unfolding audit_chain_status_def audit_chain_status_with_def full_audit_chain_status_for_diagnostics_def Let_def w(1)
      by (simp add: audit_chain_status_from_events_def fold_counts AUDIT_CHAIN_CHECK_LIMIT_def Let_def)
  qed
qed

text \<open>The newest events can be removed unnoticed: every initial part of a recorded table verifies.\<close>

lemma removed_tail_unnoticed:
  assumes "recorded digest es" "n \<le> 10000"
  shows "\<exists>st. audit_chain_status digest (take n es) = Ok st \<and> chain_valid st"
proof -
  have l: "linked digest None (take n es)" and v: "list_all valid_row (take n es)"
    using recorded_linked [OF assms(1)] linked_append [of digest None "take n es" "drop n es"]
    by (auto simp: list_all_iff dest: in_set_takeD)
  have len: "\<not> 10000 < length (take n es)" using assms(2) by simp
  show ?thesis
    using v len window_intact [OF l, of False 10000]
    by (auto simp: audit_chain_status_def AUDIT_CHAIN_CHECK_LIMIT_def status_of_valid hashed_linked [OF l]
        audit_chain_status_from_events_def Let_def)
qed

text \<open>The audit table accepts target temperatures from 0 to 500 degrees only, the configuration any finite limits:
  with a lower limit below zero the fail-safe command of a stop cannot be audited.\<close>

lemma negative_limit_not_auditable:
  assumes "f64_lt (c_target_temperature_c command) (Num 0)"
  shows "\<exists>e. insert_control_event digest now batch event_type (Some command) reason actor events = Err e"
proof -
  have "\<not> in_range (Num 0) (Num 500) (c_target_temperature_c command)"
    using assms by (cases "c_target_temperature_c command") (auto simp: in_range_def f64_lt_def)
  then have "\<not> is_ok (sensor_range_validate TARGET_TEMPERATURE_C_RANGE (c_target_temperature_c command))"
    by (simp add: sensor_range_validate_def TARGET_TEMPERATURE_C_RANGE_def)
  then show ?thesis
    by (cases "sensor_range_validate TARGET_TEMPERATURE_C_RANGE (c_target_temperature_c command)")
       (auto simp: insert_control_event_def ensure_valid_control_event_targets_for_insert_def validate_control_event_targets_def Let_def)
qed

section \<open>Witnesses\<close>

datatype demo_hash = DemoHash "demo_hash option" "int option" string "f64 option" "f64 option" "f64 option" string time

definition demo_digest :: "demo_hash digest" where
  "demo_digest p = DemoHash (pl_previous_hash p) (pl_batch_id p) (pl_event_type p) (pl_target_temperature_c p)
     (pl_target_stirrer_rpm p) (pl_target_shake_speed_cpm p) (pl_reason p) (pl_created_at p)"

lemma demo_collision_free: "collision_free demo_digest"
  by (simp add: collision_free_def demo_digest_def)

lemma demo_recorded:
  "\<exists>es. recorded demo_digest es \<and> map ce_reason es = [''first'', ''second'']"
proof -
  obtain a where a: "insert_control_event demo_digest 0 None ''t'' None ''first'' system_actor [] = Ok a" "map ce_reason a = [''first'']"
    by (simp add: insert_control_event_def ensure_valid_control_event_targets_for_insert_def validate_control_event_targets_def Let_def)
  obtain b where b: "insert_control_event demo_digest 1 None ''t'' None ''second'' system_actor a = Ok b"
      "map ce_reason b = map ce_reason a @ [''second'']"
    by (simp add: insert_control_event_def ensure_valid_control_event_targets_for_insert_def validate_control_event_targets_def Let_def)
  from recorded_insert [OF recorded_insert [OF recorded_empty a(1)] b(1)] a(2) b(2) show ?thesis by auto
qed

theorem recorded_chain_verifies_witness:
  "\<exists>es st. recorded demo_digest es \<and> audit_chain_status demo_digest es = Ok st \<and> chain_valid st \<and> checked_events st = 2"
proof -
  obtain es where es: "recorded demo_digest es" "map ce_reason es = [''first'', ''second'']" 
    using demo_recorded by (elim exE conjE)
  have "length es = 2" using arg_cong [OF es(2), of length] by simp
  then obtain st where "audit_chain_status demo_digest es = Ok st" "chain_valid st" "checked_events st = 2"
    using recorded_chain_verifies [OF es(1)] by auto
  with es(1) show ?thesis by blast
qed

theorem chain_tamper_evident_witness:
  "\<exists>es st. recorded demo_digest es \<and> full_audit_chain_status_for_diagnostics demo_digest es = Ok st \<and> chain_valid st
     \<and> map payload_of (hashed es) = map payload_of es \<and> es \<noteq> []"
proof -
  obtain es where es: "recorded demo_digest es" "map ce_reason es = [''first'', ''second'']" 
    using demo_recorded by (elim exE conjE)
  note l = recorded_linked [OF es(1)]
  have h: "hashed es = es" using l hashed_linked by blast
  obtain st where st: "full_audit_chain_status_for_diagnostics demo_digest es = Ok st" "chain_valid st" "last_event_hash st = latest_hash es"
  proof -
    have rows: "read_rows (hashed es) = Ok es" using l by (simp add: h read_rows_Ok)
    have "acc_broken (foldl (chain_step demo_digest False) chain_start es) = 0" using l by (simp add: fold_broken)
    with that show thesis
      unfolding full_audit_chain_status_for_diagnostics_def rows Let_def by (simp add: fold_counts latest_hash_def h)
  qed
  from chain_tamper_evident [OF demo_collision_free es(1) st] es st show ?thesis by auto
qed

theorem chain_status_agrees_witness:
  "audit_chain_status demo_digest [] = map_sum id (\<lambda>st. st\<lparr>verification_limit := 10000\<rparr>)
     (full_audit_chain_status_for_diagnostics demo_digest []) \<and> length (hashed ([] :: demo_hash control_event list)) \<le> 10000"
  using chain_status_agrees [of "[] :: demo_hash control_event list" demo_digest] by (simp add: hashed_def)

end
