(* ===== verification/Optimizer.thy ===== *)
theory Optimizer
  imports Memory Control "HOL-Library.Multiset"
begin

text \<open>
  The recommendation of the next batch (\<open>optimizer.rs\<close>): scores, elites, the genetic search with simulated
  annealing, the sampling fall-back and the safe midpoint. The random generator (\<open>rand\<close>), the square root and the
  exponential are a parameter; a draw can panic, as \<open>gen_range\<close> does on an empty or overflowing range, so
  a computation is a function of the generator's state with an optional result. Sums start at zero and run
  from left to right; a NaN score counts as the largest in \<open>total_cmp\<close>.
\<close>

section \<open>Data\<close>

record batch_outcome =
  bo_batch_id :: int
  bo_temperature_c :: f64
  bo_stirrer_rpm :: f64
  bo_heating_minutes :: f64
  bo_stirring_minutes :: f64
  bo_yield_percent :: f64
  bo_product_ratio :: f64

record recommendation_result =
  based_on_batch_count :: int
  r_temperature_c :: f64
  r_stirrer_rpm :: f64
  r_heating_minutes :: f64
  r_stirring_minutes :: f64
  expected_score :: f64
  rationale_text :: string

record candidate =
  cd_temperature_c :: f64
  cd_stirrer_rpm :: f64
  cd_heating_minutes :: f64
  cd_stirring_minutes :: f64

record search_outcome =
  so_candidate :: candidate
  so_note :: string

record 'r opt_env =
  oe_range :: "f64 \<Rightarrow> f64 \<Rightarrow> 'r \<Rightarrow> (f64 \<times> 'r) option"
  oe_index :: "nat \<Rightarrow> 'r \<Rightarrow> (nat \<times> 'r) option"
  oe_bool :: "f64 \<Rightarrow> 'r \<Rightarrow> (bool \<times> 'r) option"
  oe_sqrt :: "f64 \<Rightarrow> f64"
  oe_exp :: "f64 \<Rightarrow> f64"

type_synonym ('r, 'a) draw = "'r \<Rightarrow> ('a \<times> 'r) option"

definition dreturn :: "'a \<Rightarrow> ('r, 'a) draw" where
  "dreturn x = (\<lambda>r. Some (x, r))"

definition dbind :: "('r, 'a) draw \<Rightarrow> ('a \<Rightarrow> ('r, 'b) draw) \<Rightarrow> ('r, 'b) draw" where
  "dbind d k = (\<lambda>r. case d r of None \<Rightarrow> None | Some (x, r1) \<Rightarrow> k x r1)"

definition dlift :: "'a option \<Rightarrow> ('r, 'a) draw" where
  "dlift x = (\<lambda>r. map_option (\<lambda>a. (a, r)) x)"

text \<open>Indexing a slice panics out of range.\<close>

definition nth_opt :: "'a list \<Rightarrow> nat \<Rightarrow> 'a option" where
  "nth_opt xs i = (if i < length xs then Some (xs ! i) else None)"

section \<open>Order and arithmetic\<close>

text \<open>\<open>f64::total_cmp\<close>.\<close>

fun total_rank :: "f64 \<Rightarrow> nat" where
  "total_rank (Inf s) = (if s then 0 else 2)"
| "total_rank NaN = 3"
| "total_rank _ = 1"

definition total_le :: "f64 \<Rightarrow> f64 \<Rightarrow> bool" where
  "total_le x y \<longleftrightarrow> total_rank x < total_rank y \<or> total_rank x = total_rank y
     \<and> (fval x < fval y \<or> fval x = fval y \<and> (x = NegZero \<or> y \<noteq> NegZero))"

text \<open>The stable sort by a descending key.\<close>

fun insert_desc :: "('a \<Rightarrow> f64) \<Rightarrow> 'a \<Rightarrow> 'a list \<Rightarrow> 'a list" where
  "insert_desc key x [] = [x]"
| "insert_desc key x (y # ys) = (if total_le (key y) (key x) then x # y # ys else y # insert_desc key x ys)"

definition sort_desc :: "('a \<Rightarrow> f64) \<Rightarrow> 'a list \<Rightarrow> 'a list" where
  "sort_desc key xs = foldr (insert_desc key) xs []"

definition f64_ceil :: "f64 \<Rightarrow> f64" where
  "f64_ceil x = (case x of Num q \<Rightarrow> (if \<lceil>q\<rceil> = 0 \<and> q < 0 then NegZero else Num (of_int \<lceil>q\<rceil>)) | _ \<Rightarrow> x)"

definition f64_sum :: "f64 list \<Rightarrow> f64" where
  "f64_sum xs = foldl f64_add (lit 0) xs"

definition score_with_weights :: "batch_outcome \<Rightarrow> f64 \<times> f64 \<Rightarrow> f64" where
  "score_with_weights outcome ws = (case ws of (yw, rw) \<Rightarrow>
     f64_add (f64_mul (bo_yield_percent outcome) yw) (f64_mul (f64_mul (bo_product_ratio outcome) (lit 100)) rw))"

definition mean :: "'a list \<Rightarrow> ('a \<Rightarrow> f64) \<Rightarrow> f64" where
  "mean items f = f64_div (f64_sum (map f items)) (f64_of_int (int (length items)))"

definition spread :: "'r opt_env \<Rightarrow> 'a list \<Rightarrow> ('a \<Rightarrow> f64) \<Rightarrow> f64 \<Rightarrow> f64" where
  "spread env items f floor_value =
     (let avg = mean items f;
          variance = f64_div (f64_sum (map (\<lambda>item. let delta = f64_sub (f item) avg in f64_mul delta delta) items))
            (f64_of_int (int (length items)))
      in f64_max (oe_sqrt env variance) floor_value)"

definition blend_value :: "f64 \<Rightarrow> f64 \<Rightarrow> f64 \<Rightarrow> f64" where
  "blend_value first second ratio = f64_add (f64_mul first ratio) (f64_mul second (f64_sub (lit 1) ratio))"

definition interpolate :: "f64 \<Rightarrow> f64 \<Rightarrow> f64 \<Rightarrow> f64" where
  "interpolate lo hi ratio = f64_add lo (f64_mul (f64_sub hi lo) ratio)"

definition trend_axis :: "f64 \<Rightarrow> f64 \<Rightarrow> f64 \<Rightarrow> f64 \<Rightarrow> f64 \<Rightarrow> f64 \<Rightarrow> f64 option" where
  "trend_axis current best integral_anchor derivative lo hi =
     (let proportional = f64_sub best current; integral = f64_sub integral_anchor current in
      f64_clamp (f64_add (f64_add (f64_add current (f64_mul proportional (lit (18 / 100))))
          (f64_mul integral (lit (6 / 100)))) (f64_mul derivative (lit (3 / 100)))) lo hi)"

definition sample_around :: "'r opt_env \<Rightarrow> f64 \<Rightarrow> f64 \<Rightarrow> f64 \<Rightarrow> f64 \<Rightarrow> ('r, f64) draw" where
  "sample_around env center spread_value lo hi =
     dbind (oe_range env (f64_neg spread_value) spread_value) (\<lambda>jitter.
     dlift (f64_clamp (f64_add center jitter) lo hi))"

definition mutate_axis :: "'r opt_env \<Rightarrow> f64 \<Rightarrow> f64 \<Rightarrow> f64 \<Rightarrow> f64 \<Rightarrow> ('r, f64) draw" where
  "mutate_axis env value lo hi ratio =
     (let span = f64_max (f64_sub hi lo) (lit 1) in
      dbind (oe_range env (f64_neg (f64_mul span ratio)) (f64_mul span ratio)) (\<lambda>x.
      dlift (f64_clamp (f64_add value x) lo hi)))"

section \<open>Candidates\<close>

definition is_forbidden :: "candidate \<Rightarrow> memory_zone list \<Rightarrow> bool" where
  "is_forbidden c zones = list_ex (\<lambda>zone. memory_zone_contains zone (cd_temperature_c c) (cd_stirrer_rpm c)
     (cd_heating_minutes c) (cd_stirring_minutes c)) zones"

definition push_if_allowed :: "candidate list \<Rightarrow> candidate \<Rightarrow> memory_zone list \<Rightarrow> candidate list" where
  "push_if_allowed population c zones = (if is_forbidden c zones then population else population @ [c])"

text \<open>A candidate from its four fields, each of which can panic.\<close>

definition make_candidate :: "('r, f64) draw \<Rightarrow> ('r, f64) draw \<Rightarrow> ('r, f64) draw \<Rightarrow> ('r, f64) draw \<Rightarrow> ('r, candidate) draw" where
  "make_candidate temp rpm heating stirring =
     dbind temp (\<lambda>t. dbind rpm (\<lambda>s. dbind heating (\<lambda>h. dbind stirring (\<lambda>m.
     dreturn \<lparr>cd_temperature_c = t, cd_stirrer_rpm = s, cd_heating_minutes = h, cd_stirring_minutes = m\<rparr>))))"

definition outcome_candidate :: "batch_outcome \<Rightarrow> optimizer_bounds \<Rightarrow> ('r, candidate) draw" where
  "outcome_candidate outcome b = make_candidate
     (dlift (f64_clamp (bo_temperature_c outcome) (ob_min_temperature_c b) (ob_max_temperature_c b)))
     (dlift (f64_clamp (bo_stirrer_rpm outcome) (ob_min_stirrer_rpm b) (ob_max_stirrer_rpm b)))
     (dlift (f64_clamp (bo_heating_minutes outcome) (ob_min_heating_minutes b) (ob_max_heating_minutes b)))
     (dlift (f64_clamp (bo_stirring_minutes outcome) (ob_min_stirring_minutes b) (ob_max_stirring_minutes b)))"

definition crossover_candidate :: "'r opt_env \<Rightarrow> candidate \<Rightarrow> candidate \<Rightarrow> optimizer_bounds \<Rightarrow> ('r, candidate) draw" where
  "crossover_candidate env first second b =
     dbind (oe_range env (lit (1 / 4)) (lit (3 / 4))) (\<lambda>blend. make_candidate
       (dlift (f64_clamp (blend_value (cd_temperature_c first) (cd_temperature_c second) blend) (ob_min_temperature_c b) (ob_max_temperature_c b)))
       (dlift (f64_clamp (blend_value (cd_stirrer_rpm first) (cd_stirrer_rpm second) blend) (ob_min_stirrer_rpm b) (ob_max_stirrer_rpm b)))
       (dlift (f64_clamp (blend_value (cd_heating_minutes first) (cd_heating_minutes second) blend)
          (ob_min_heating_minutes b) (ob_max_heating_minutes b)))
       (dlift (f64_clamp (blend_value (cd_stirring_minutes first) (cd_stirring_minutes second) blend)
          (ob_min_stirring_minutes b) (ob_max_stirring_minutes b))))"

definition mutate_candidate :: "'r opt_env \<Rightarrow> candidate \<Rightarrow> optimizer_bounds \<Rightarrow> f64 \<Rightarrow> ('r, candidate) draw" where
  "mutate_candidate env c b scale_value =
     dbind (dlift (f64_clamp scale_value (lit (2 / 10)) (lit (15 / 10)))) (\<lambda>scale. make_candidate
       (mutate_axis env (cd_temperature_c c) (ob_min_temperature_c b) (ob_max_temperature_c b) (f64_mul (lit (8 / 100)) scale))
       (mutate_axis env (cd_stirrer_rpm c) (ob_min_stirrer_rpm b) (ob_max_stirrer_rpm b) (f64_mul (lit (8 / 100)) scale))
       (mutate_axis env (cd_heating_minutes c) (ob_min_heating_minutes b) (ob_max_heating_minutes b) (f64_mul (lit (1 / 10)) scale))
       (mutate_axis env (cd_stirring_minutes c) (ob_min_stirring_minutes b) (ob_max_stirring_minutes b) (f64_mul (lit (1 / 10)) scale)))"

definition trend_correct_candidate ::
    "candidate \<Rightarrow> batch_outcome list \<Rightarrow> batch_outcome list \<Rightarrow> optimizer_bounds \<Rightarrow> ('r, candidate) draw" where
  "trend_correct_candidate c outcomes elites b =
     dbind (dlift (nth_opt outcomes 0)) (\<lambda>best.
     let second = unwrap_or (nth_opt outcomes 1) best;
         axis = (\<lambda>field outcome lo hi. dlift (trend_axis (field c) (outcome best) (mean elites outcome)
            (f64_sub (outcome best) (outcome second)) lo hi))
     in make_candidate
       (axis cd_temperature_c bo_temperature_c (ob_min_temperature_c b) (ob_max_temperature_c b))
       (axis cd_stirrer_rpm bo_stirrer_rpm (ob_min_stirrer_rpm b) (ob_max_stirrer_rpm b))
       (axis cd_heating_minutes bo_heating_minutes (ob_min_heating_minutes b) (ob_max_heating_minutes b))
       (axis cd_stirring_minutes bo_stirring_minutes (ob_min_stirring_minutes b) (ob_max_stirring_minutes b)))"

definition quality_weight :: "'r opt_env \<Rightarrow> candidate \<Rightarrow> optimizer_bounds \<Rightarrow> batch_outcome \<Rightarrow> f64" where
  "quality_weight env c b outcome =
     (let square = (\<lambda>x. f64_mul x x);
          axis = (\<lambda>value center lo hi. square (f64_div (f64_sub value center) (f64_max (f64_sub hi lo) (lit 1))));
          distance = oe_sqrt env (f64_add (f64_add (f64_add
            (axis (cd_temperature_c c) (bo_temperature_c outcome) (ob_min_temperature_c b) (ob_max_temperature_c b))
            (axis (cd_stirrer_rpm c) (bo_stirrer_rpm outcome) (ob_min_stirrer_rpm b) (ob_max_stirrer_rpm b)))
            (axis (cd_heating_minutes c) (bo_heating_minutes outcome) (ob_min_heating_minutes b) (ob_max_heating_minutes b)))
            (axis (cd_stirring_minutes c) (bo_stirring_minutes outcome) (ob_min_stirring_minutes b) (ob_max_stirring_minutes b)))
      in f64_div (lit 1) (f64_add (lit (8 / 100)) distance))"

definition candidate_quality ::
    "'r opt_env \<Rightarrow> candidate \<Rightarrow> batch_outcome list \<Rightarrow> optimizer_bounds \<Rightarrow> f64 \<times> f64 \<Rightarrow> f64" where
  "candidate_quality env c outcomes b ws =
     (let (weighted_score, total_weight) = foldl (\<lambda>(score, weight_sum) outcome.
            let weight = quality_weight env c b outcome in
            (f64_add score (f64_mul (score_with_weights outcome ws) weight), f64_add weight_sum weight)) (lit 0, lit 0) outcomes
      in if f64_eq total_weight (lit 0) then lit 0 else f64_div weighted_score total_weight)"

section \<open>Fall-backs\<close>

definition center_of :: "optimizer_bounds \<Rightarrow> candidate" where
  "center_of b = (let mid = (\<lambda>lo hi. f64_div (f64_add lo hi) (lit 2)) in
     \<lparr>cd_temperature_c = mid (ob_min_temperature_c b) (ob_max_temperature_c b),
      cd_stirrer_rpm = mid (ob_min_stirrer_rpm b) (ob_max_stirrer_rpm b),
      cd_heating_minutes = mid (ob_min_heating_minutes b) (ob_max_heating_minutes b),
      cd_stirring_minutes = mid (ob_min_stirring_minutes b) (ob_max_stirring_minutes b)\<rparr>)"

definition anchors :: "optimizer_bounds \<Rightarrow> candidate list" where
  "anchors b = (let q = lit (1 / 4); u = lit (3 / 4) in
     map (\<lambda>(t, s, h, m).
       \<lparr>cd_temperature_c = interpolate (ob_min_temperature_c b) (ob_max_temperature_c b) t,
        cd_stirrer_rpm = interpolate (ob_min_stirrer_rpm b) (ob_max_stirrer_rpm b) s,
        cd_heating_minutes = interpolate (ob_min_heating_minutes b) (ob_max_heating_minutes b) h,
        cd_stirring_minutes = interpolate (ob_min_stirring_minutes b) (ob_max_stirring_minutes b) m\<rparr>)
     [(q, q, q, q), (u, q, q, q), (q, u, q, q), (q, q, u, q), (q, q, q, u), (u, u, u, u)])"

definition safe_midpoint :: "optimizer_bounds \<Rightarrow> memory_zone list \<Rightarrow> candidate option" where
  "safe_midpoint b zones = find (\<lambda>c. \<not> is_forbidden c zones) (center_of b # anchors b)"

fun sample_allowed_loop ::
    "'r opt_env \<Rightarrow> batch_outcome list \<Rightarrow> optimizer_bounds \<Rightarrow> memory_zone list \<Rightarrow> nat \<Rightarrow> ('r, candidate option) draw" where
  "sample_allowed_loop env elites b zones 0 = dreturn None"
| "sample_allowed_loop env elites b zones (Suc n) = dbind (make_candidate
       (sample_around env (mean elites bo_temperature_c) (spread env elites bo_temperature_c (lit 4))
          (ob_min_temperature_c b) (ob_max_temperature_c b))
       (sample_around env (mean elites bo_stirrer_rpm) (spread env elites bo_stirrer_rpm (lit 50))
          (ob_min_stirrer_rpm b) (ob_max_stirrer_rpm b))
       (sample_around env (mean elites bo_heating_minutes) (spread env elites bo_heating_minutes (lit 10))
          (ob_min_heating_minutes b) (ob_max_heating_minutes b))
       (sample_around env (mean elites bo_stirring_minutes) (spread env elites bo_stirring_minutes (lit 10))
          (ob_min_stirring_minutes b) (ob_max_stirring_minutes b))) (\<lambda>c.
     if \<not> is_forbidden c zones then dreturn (Some c) else sample_allowed_loop env elites b zones n)"

definition sample_allowed_candidate ::
    "'r opt_env \<Rightarrow> batch_outcome list \<Rightarrow> optimizer_bounds \<Rightarrow> memory_zone list \<Rightarrow> ('r, candidate option) draw" where
  "sample_allowed_candidate env elites b zones = sample_allowed_loop env elites b zones 64"

section \<open>The search\<close>

fun seed_elites :: "batch_outcome list \<Rightarrow> optimizer_bounds \<Rightarrow> memory_zone list \<Rightarrow> candidate list \<Rightarrow> ('r, candidate list) draw" where
  "seed_elites [] b zones population = dreturn population"
| "seed_elites (elite # elites) b zones population =
     dbind (outcome_candidate elite b) (\<lambda>c. seed_elites elites b zones (push_if_allowed population c zones))"

fun seed_samples ::
    "'r opt_env \<Rightarrow> batch_outcome list \<Rightarrow> optimizer_bounds \<Rightarrow> memory_zone list \<Rightarrow> nat \<Rightarrow> candidate list \<Rightarrow> ('r, candidate list) draw" where
  "seed_samples env elites b zones 0 population = dreturn population"
| "seed_samples env elites b zones (Suc n) population =
     dbind (sample_allowed_candidate env elites b zones) (\<lambda>sampled.
     seed_samples env elites b zones n (case sampled of Some c \<Rightarrow> population @ [c] | None \<Rightarrow> population))"

definition seed_population ::
    "'r opt_env \<Rightarrow> batch_outcome list \<Rightarrow> optimizer_bounds \<Rightarrow> memory_zone list \<Rightarrow> ('r, candidate list) draw" where
  "seed_population env elites b zones =
     dbind (seed_elites elites b zones []) (\<lambda>population.
     seed_samples env elites b zones 32
       (case safe_midpoint b zones of Some c \<Rightarrow> push_if_allowed population c zones | None \<Rightarrow> population))"

record problem =
  pb_outcomes :: "batch_outcome list"
  pb_elites :: "batch_outcome list"
  pb_bounds :: optimizer_bounds
  pb_zones :: "memory_zone list"
  pb_weights :: "f64 \<times> f64"

definition quality :: "'r opt_env \<Rightarrow> problem \<Rightarrow> candidate \<Rightarrow> f64" where
  "quality env p c = candidate_quality env c (pb_outcomes p) (pb_bounds p) (pb_weights p)"

definition child_of :: "'r opt_env \<Rightarrow> problem \<Rightarrow> candidate list \<Rightarrow> ('r, candidate) draw" where
  "child_of env p parents =
     dbind (oe_index env (length parents)) (\<lambda>i. dbind (dlift (nth_opt parents i)) (\<lambda>first.
     dbind (oe_index env (length parents)) (\<lambda>j. dbind (dlift (nth_opt parents j)) (\<lambda>second.
     dbind (crossover_candidate env first second (pb_bounds p)) (\<lambda>child.
     dbind (mutate_candidate env child (pb_bounds p) (lit 1)) (\<lambda>child.
     trend_correct_candidate child (pb_outcomes p) (pb_elites p) (pb_bounds p)))))))"

fun breed :: "'r opt_env \<Rightarrow> problem \<Rightarrow> candidate list \<Rightarrow> nat \<Rightarrow> candidate list \<Rightarrow> ('r, candidate list) draw" where
  "breed env p parents 0 population = dreturn population"
| "breed env p parents (Suc n) population =
     dbind (child_of env p parents) (\<lambda>child. breed env p parents n (push_if_allowed population child (pb_zones p)))"

fun evolve :: "'r opt_env \<Rightarrow> problem \<Rightarrow> nat \<Rightarrow> candidate list \<Rightarrow> ('r, candidate list) draw" where
  "evolve env p 0 population = dreturn population"
| "evolve env p (Suc n) population =
     (let parents = take 12 (sort_desc (quality env p) population) in
      dbind (breed env p parents 12 parents) (evolve env p n))"

fun anneal :: "'r opt_env \<Rightarrow> problem \<Rightarrow> nat \<Rightarrow> candidate \<Rightarrow> f64 \<Rightarrow> f64 \<Rightarrow> ('r, candidate) draw" where
  "anneal env p 0 current current_score temperature_value = dreturn current"
| "anneal env p (Suc n) current current_score temperature_value =
     (let cooler = f64_mul temperature_value (lit (86 / 100)) in
      dbind (mutate_candidate env current (pb_bounds p) (f64_div temperature_value (lit 8))) (\<lambda>neighbor.
      dbind (trend_correct_candidate neighbor (pb_outcomes p) (pb_elites p) (pb_bounds p)) (\<lambda>neighbor.
      if is_forbidden neighbor (pb_zones p) then anneal env p n current current_score cooler
      else
        let neighbor_score = quality env p neighbor; delta = f64_sub neighbor_score current_score in
        dbind (dlift (f64_clamp (oe_exp env (f64_div delta (f64_max temperature_value (lit (1 / 1000))))) (lit 0) (lit 1)))
          (\<lambda>accept_probability.
        dbind (if f64_le (lit 0) delta then dreturn True else oe_bool env accept_probability) (\<lambda>accepted.
        if accepted then anneal env p n neighbor neighbor_score cooler
        else anneal env p n current current_score cooler)))))"

definition hybrid_search_candidate :: "'r opt_env \<Rightarrow> problem \<Rightarrow> ('r, search_outcome option) draw" where
  "hybrid_search_candidate env p =
     dbind (seed_population env (pb_elites p) (pb_bounds p) (pb_zones p)) (\<lambda>population.
     if population = [] then dreturn None
     else dbind (evolve env p 18 population) (\<lambda>population.
       dbind (dlift (nth_opt (sort_desc (quality env p) population) 0)) (\<lambda>current.
       dbind (anneal env p 32 current (quality env p current) (lit 8)) (\<lambda>found.
       dreturn (Some \<lparr>so_candidate = found,
         so_note = ''Local GA/SA/trend-correction optimizer searched with genetic crossover/mutation, simulated annealing acceptance, and elite trend correction.''\<rparr>)))))"

section \<open>The recommendation\<close>

definition stable_negative_id :: "string \<Rightarrow> int" where
  "stable_negative_id ident =
     (let hash = foldl (\<lambda>(h :: 64 word) byte. h * 31 + of_char byte) 0 ident;
          magnitude = sint (if sint hash < 0 then - hash else hash)
      in - (magnitude mod 1000000 + 1))"

definition reference_to_outcome :: "reference_batch \<Rightarrow> batch_outcome" where
  "reference_to_outcome ref = \<lparr>bo_batch_id = stable_negative_id (ref_id ref), bo_temperature_c = ref_temperature_c ref,
     bo_stirrer_rpm = ref_stirrer_rpm ref, bo_heating_minutes = ref_heating_minutes ref,
     bo_stirring_minutes = ref_stirring_minutes ref, bo_yield_percent = ref_yield_percent ref,
     bo_product_ratio = ref_product_ratio ref\<rparr>"

definition enabled_memory :: "ai_memory option \<Rightarrow> ai_memory option" where
  "enabled_memory memory = (case memory of Some m \<Rightarrow> if rec_enabled (recommendation m) then Some m else None | None \<Rightarrow> None)"

definition midpoint_recommendation ::
    "optimizer_bounds \<Rightarrow> candidate \<Rightarrow> int \<Rightarrow> ai_memory option \<Rightarrow> nat \<Rightarrow> recommendation_result" where
  "midpoint_recommendation b midpoint batch_count memory memory_outcome_count =
     (let reference_note = (if 0 < memory_outcome_count
            then '' Loaded '' @ show_int (int memory_outcome_count) @ '' file reference batches for context.'' else '''');
          profile_note = (case enabled_memory memory of
              Some m \<Rightarrow> '' Memory profile: '' @ profile_name (profile m) @ '' v'' @ profile_version (profile m) @ ''.''
            | None \<Rightarrow> '''');
          raw = center_of b;
          zone_note = (if \<not> f64_eq (cd_temperature_c midpoint) (cd_temperature_c raw) \<or> \<not> f64_eq (cd_stirrer_rpm midpoint) (cd_stirrer_rpm raw)
              \<or> \<not> f64_eq (cd_heating_minutes midpoint) (cd_heating_minutes raw) \<or> \<not> f64_eq (cd_stirring_minutes midpoint) (cd_stirring_minutes raw)
            then '' The exact bounds center lies inside a forbidden zone; using the nearest safe anchor instead.'' else '''')
      in \<lparr>based_on_batch_count = batch_count, r_temperature_c = round2 (cd_temperature_c midpoint), r_stirrer_rpm = round2 (cd_stirrer_rpm midpoint),
          r_heating_minutes = round2 (cd_heating_minutes midpoint), r_stirring_minutes = round2 (cd_stirring_minutes midpoint),
          expected_score = lit 0,
          rationale_text = ''Not enough finished batches yet; using the center of configured safe optimizer bounds.''
            @ zone_note @ profile_note @ reference_note\<rparr>)"

definition rationale :: "batch_outcome \<Rightarrow> nat \<Rightarrow> nat \<Rightarrow> nat \<Rightarrow> ai_memory option \<Rightarrow> string \<Rightarrow> string \<Rightarrow> string" where
  "rationale best elite_count real_outcome_count memory_outcome_count memory forbidden_note optimizer_note =
     (let memory_note = (case enabled_memory memory of
              Some m \<Rightarrow> '' Memory profile '' @ profile_name (profile m) @ '' v'' @ profile_version (profile m) @ '' applied; ''
                @ show_int (int (length (forbidden_zones m))) @ '' forbidden zones checked.''
            | None \<Rightarrow> '''');
          reference_note = (if 0 < memory_outcome_count
            then '' Included '' @ show_int (int memory_outcome_count) @ '' file reference batches.'' else '''')
      in ''Based on the top '' @ show_int (int elite_count) @ '' batches from '' @ show_int (int real_outcome_count) @ '' recorded and ''
        @ show_int (int memory_outcome_count) @ '' file reference outcomes; best batch '' @ show_int (bo_batch_id best)
        @ '' reached yield '' @ fmt_fixed 2 (bo_yield_percent best) @ ''% and product ratio '' @ fmt_fixed 3 (bo_product_ratio best) @ ''. ''
        @ optimizer_note @ memory_note @ reference_note @ forbidden_note)"

definition elite_count_of :: "nat \<Rightarrow> nat" where
  "elite_count_of n = nat (uint (f64_to_u64 (f64_max (f64_ceil (f64_mul (f64_of_int (int n)) (lit (1 / 4)))) (lit 1))))"

definition search_recommendation ::
    "'r opt_env \<Rightarrow> problem \<Rightarrow> nat \<Rightarrow> batch_outcome \<Rightarrow> nat \<Rightarrow> nat \<Rightarrow> ai_memory option \<Rightarrow> ('r, recommendation_result option) draw" where
  "search_recommendation env p elite_count best outcome_count memory_count memory =
     dbind (hybrid_search_candidate env p) (\<lambda>searched.
     dbind (case searched of
         Some found \<Rightarrow> dreturn (Some found)
       | None \<Rightarrow> dbind (sample_allowed_candidate env (pb_elites p) (pb_bounds p) (pb_zones p)) (\<lambda>sampled.
           dreturn (map_option (\<lambda>c. \<lparr>so_candidate = c,
             so_note = ''Local stochastic optimizer used elite-neighborhood fallback sampling.''\<rparr>) sampled))) (\<lambda>found.
     dreturn (map_option (\<lambda>(c, forbidden_note, optimizer_note).
         \<lparr>based_on_batch_count = int outcome_count, r_temperature_c = round2 (cd_temperature_c c), r_stirrer_rpm = round2 (cd_stirrer_rpm c),
          r_heating_minutes = round2 (cd_heating_minutes c), r_stirring_minutes = round2 (cd_stirring_minutes c),
          expected_score = round2 (score_with_weights best (pb_weights p)),
          rationale_text = rationale best elite_count outcome_count memory_count memory forbidden_note optimizer_note\<rparr>)
       (case found of
          Some search \<Rightarrow> Some (so_candidate search, '''', so_note search)
        | None \<Rightarrow> map_option (\<lambda>c. (c, '' All sampled candidates matched a forbidden zone; using the nearest safe midpoint.'',
            ''Local optimizer fell back to nearest safe midpoint.'')) (safe_midpoint (pb_bounds p) (pb_zones p))))))"

definition recommend_with_memory ::
    "'r opt_env \<Rightarrow> optimizer_bounds \<Rightarrow> ai_memory option \<Rightarrow> batch_outcome list \<Rightarrow> ('r, recommendation_result option) draw" where
  "recommend_with_memory env bounds memory outcomes =
     (let b = (case memory of Some m \<Rightarrow> effective_optimizer_bounds m bounds | None \<Rightarrow> bounds);
          ws = (case memory of Some m \<Rightarrow> weights (objective m) | None \<Rightarrow> (lit (8 / 10), lit (2 / 10)));
          memory_outcomes = (case memory of
              Some m \<Rightarrow> if rec_enabled (recommendation m) \<and> use_reference_batches (recommendation m)
                then map reference_to_outcome (reference_batches m) else []
            | None \<Rightarrow> []);
          zones = (case enabled_memory memory of Some m \<Rightarrow> forbidden_zones m | None \<Rightarrow> []);
          combined = memory_outcomes @ outcomes
      in if length combined < 3
         then dreturn (map_option (\<lambda>midpoint. midpoint_recommendation b midpoint (int (length outcomes)) memory (length memory_outcomes))
           (safe_midpoint b zones))
         else
           let sorted = sort_desc (\<lambda>outcome. score_with_weights outcome ws) combined;
               elite_count = elite_count_of (length sorted);
               elites = take (min elite_count (length sorted)) sorted
           in dbind (dlift (nth_opt elites 0)) (\<lambda>best.
              search_recommendation env \<lparr>pb_outcomes = sorted, pb_elites = elites, pb_bounds = b, pb_zones = zones, pb_weights = ws\<rparr>
                elite_count best (length outcomes) (length memory_outcomes) memory))"

definition recommend :: "'r opt_env \<Rightarrow> optimizer_bounds \<Rightarrow> batch_outcome list \<Rightarrow> ('r, recommendation_result option) draw" where
  "recommend env bounds outcomes = recommend_with_memory env bounds None outcomes"

section \<open>Draws that do not panic\<close>

definition draws :: "('a \<Rightarrow> bool) \<Rightarrow> ('r, 'a) draw \<Rightarrow> bool" where
  "draws P d \<longleftrightarrow> (\<forall>r. \<exists>x r1. d r = Some (x, r1) \<and> P x)"

named_theorems draw_intros \<open>composition rules for draws\<close>

lemma draws_return [draw_intros]: "P x \<Longrightarrow> draws P (dreturn x)"
  by (simp add: draws_def dreturn_def)

lemma draws_bind: "draws Q d \<Longrightarrow> (\<And>x. Q x \<Longrightarrow> draws P (k x)) \<Longrightarrow> draws P (dbind d k)"
  unfolding draws_def dbind_def by (metis (no_types, lifting) option.case(2) prod.case)

lemma draws_lift: "x = Some a \<Longrightarrow> P a \<Longrightarrow> draws P (dlift x)"
  by (simp add: draws_def dlift_def)

lemma dbind_lift: "dbind (dlift (Some a)) k = k a"
  by (simp add: dbind_def dlift_def fun_eq_iff)

lemma draws_weaken: "draws P d \<Longrightarrow> (\<And>x. P x \<Longrightarrow> Q x) \<Longrightarrow> draws Q d"
  unfolding draws_def by blast

section \<open>Magnitudes\<close>

text \<open>Finite, and at most a power of two: what keeps the arithmetic of the search away from overflow.\<close>

definition bnd :: "nat \<Rightarrow> f64 \<Rightarrow> bool" where
  "bnd k x \<longleftrightarrow> is_finite x \<and> \<bar>fval x\<bar> \<le> 2 ^ k"

lemma bnd_finite: "bnd k x \<Longrightarrow> is_finite x"
  by (simp add: bnd_def)

lemma bnd_mono: "bnd j x \<Longrightarrow> j \<le> k \<Longrightarrow> bnd k x"
  using power_increasing [of j k "2 :: rat"] by (auto simp: bnd_def intro: order_trans)

lemma representable_scaled:
  assumes "\<bar>n\<bar> < 2 ^ 53" "k \<le> 900"
  shows "representable (of_int n * 2 ^ k)"
proof -
  have "\<bar>of_int n * 2 ^ k :: rat\<bar> = of_int \<bar>n\<bar> * 2 ^ k" by (simp add: abs_mult)
  also have "\<dots> < of_int (2 ^ 53) * 2 ^ k" using assms(1) by (intro mult_strict_right_mono) (simp_all only: of_int_less_iff, simp_all)
  also have "\<dots> \<le> of_int (2 ^ 53) * 2 ^ 900" using power_increasing [OF assms(2), of "2 :: rat"] by (intro mult_left_mono) simp_all
  also have "\<dots> < f64_limit" by (simp add: f64_limit_def)
  finally show ?thesis
    unfolding representable_def using assms by (intro conjI exI [of _ n] exI [of _ "int k"]) auto
qed

lemma rnd_abs_le:
  assumes "\<bar>q\<bar> \<le> b" "representable b"
  shows "is_finite (rnd q) \<and> \<bar>fval (rnd q)\<bar> \<le> b"
proof -
  obtain m e where "b = of_int m * 2 powi e" "\<bar>m\<bar> < 2 ^ 53" "- 1074 \<le> e" "\<bar>b\<bar> < f64_limit"
    using assms(2) unfolding representable_def by blast
  then have "representable (- b)"
    unfolding representable_def by (intro conjI exI [of _ "- m"] exI [of _ e]) simp_all
  then have "f64_le (Num (- b)) (rnd q)" "f64_le (rnd q) (Num b)"
    using rnd_mono [of "- b" q] rnd_mono [of q b] assms by (auto simp: rnd_representable abs_le_iff)
  then show ?thesis using in_range_Num [of "- b" b "rnd q"] by (auto simp: in_range_def abs_le_iff)
qed

lemma rnd_bnd: "\<bar>q\<bar> \<le> 2 ^ k \<Longrightarrow> k \<le> 900 \<Longrightarrow> bnd k (rnd q)"
  using rnd_abs_le [of q "2 ^ k"] representable_scaled [of 1 k] by (simp add: bnd_def)

lemma bnd_add: "bnd k x \<Longrightarrow> bnd k y \<Longrightarrow> Suc k \<le> 900 \<Longrightarrow> bnd (Suc k) (f64_add x y)"
  using rnd_bnd [of "fval x + fval y" "Suc k"] by (auto simp: f64_add_finite bnd_def)

lemma bnd_neg [simp]: "bnd k (f64_neg x) = bnd k x"
  by (simp add: bnd_def)

lemma bnd_sub: "bnd k x \<Longrightarrow> bnd k y \<Longrightarrow> Suc k \<le> 900 \<Longrightarrow> bnd (Suc k) (f64_sub x y)"
  by (simp add: f64_sub_def bnd_add)

lemma bnd_mul:
  assumes "bnd j x" "bnd k y" "j + k \<le> 900"
  shows "bnd (j + k) (f64_mul x y)"
proof -
  have "\<bar>fval x * fval y\<bar> \<le> 2 ^ (j + k)"
    using assms by (auto simp: bnd_def abs_mult power_add intro!: mult_mono)
  then show ?thesis using assms rnd_bnd [of "fval x * fval y" "j + k"]
    by (auto simp: f64_mul_def Let_def bnd_def signed_zero_def)
qed

lemma bnd_div:
  assumes "bnd k x" "is_finite y" "1 / 2 ^ j \<le> fval y" "j + k \<le> 900"
  shows "bnd (j + k) (f64_div x y)"
proof -
  have y: "0 < fval y" using assms(3) less_le_trans [of 0 "1 / 2 ^ j" "fval y"] by simp
  have "1 \<le> fval y * 2 ^ j" using assms(3) by (simp add: field_simps)
  then have "\<bar>fval x\<bar> * 1 \<le> 2 ^ k * (fval y * 2 ^ j)" using assms(1) by (intro mult_mono) (auto simp: bnd_def)
  then have "\<bar>fval x / fval y\<bar> \<le> 2 ^ (j + k)" using y by (simp add: field_simps power_add)
  then show ?thesis using assms y rnd_bnd [of "fval x / fval y" "j + k"]
    by (auto simp: f64_div_def Let_def bnd_def signed_zero_def)
qed

lemma foldl_add_bound:
  assumes "\<forall>x \<in> set xs. bnd k x" "is_finite a" "\<bar>fval a\<bar> \<le> of_nat n * 2 ^ k" "n + length xs < 2 ^ 52" "k \<le> 900"
  shows "is_finite (foldl f64_add a xs) \<and> \<bar>fval (foldl f64_add a xs)\<bar> \<le> of_nat (n + length xs) * 2 ^ k"
  using assms
proof (induction xs arbitrary: a n)
  case (Cons x xs)
  have x: "is_finite x" "\<bar>fval x\<bar> \<le> 2 ^ k" using Cons.prems(1) by (simp_all add: bnd_def)
  have le: "\<bar>fval a + fval x\<bar> \<le> of_nat (Suc n) * 2 ^ k" using x(2) Cons.prems(3) by (simp add: algebra_simps)
  have "representable (of_nat (Suc n) * 2 ^ k)"
    using representable_scaled [of "int (Suc n)" k] Cons.prems(4,5) by simp
  then have "is_finite (f64_add a x) \<and> \<bar>fval (f64_add a x)\<bar> \<le> of_nat (Suc n) * 2 ^ k"
    using rnd_abs_le [OF le] x Cons.prems(2) by (simp add: f64_add_finite)
  then show ?case using Cons.IH [of "f64_add a x" "Suc n"] Cons.prems by simp
qed simp

lemma bnd_sum:
  assumes "\<forall>x \<in> set xs. bnd k x" "length xs \<le> 2 ^ m" "m \<le> 51" "k \<le> 800"
  shows "bnd (m + k) (f64_sum xs)"
proof -
  have len: "length xs < 2 ^ 52" using assms(2,3) power_increasing [of m 51 "2 :: nat"] by simp
  have "is_finite (f64_sum xs) \<and> \<bar>fval (f64_sum xs)\<bar> \<le> of_nat (length xs) * 2 ^ k"
    using foldl_add_bound [OF assms(1), of "Num 0" 0] len assms(4) by (simp add: f64_sum_def)
  moreover have "of_nat (length xs) \<le> (of_nat (2 ^ m) :: rat)" using assms(2) by (simp only: of_nat_le_iff)
  then have "of_nat (length xs) * 2 ^ k \<le> (2 ^ m * 2 ^ k :: rat)" by (intro mult_right_mono) simp_all
  ultimately show ?thesis unfolding bnd_def power_add by (metis order_trans)
qed

lemma count_rnd:
  assumes "0 < n" "n \<le> 2 ^ 20"
  shows "rnd (of_int (int n)) = Num (of_nat n)" "1 \<le> (of_nat n :: rat)"
  using assms rnd_of_int [of "int n"] by simp_all

lemma bnd_mean:
  assumes "items \<noteq> []" "length items \<le> 2 ^ 20" "\<forall>x \<in> set items. bnd k (f x)" "k \<le> 800"
  shows "bnd (20 + k) (mean items f)"
proof -
  have n: "0 < length items" using assms(1) by simp
  have "bnd (20 + k) (f64_sum (map f items))" using bnd_sum [of "map f items" k 20] assms by simp
  then have "bnd (0 + (20 + k)) (f64_div (f64_sum (map f items)) (Num (of_nat (length items))))"
    using count_rnd(2) [OF n assms(2)] assms(4) by (intro bnd_div) simp_all
  then show ?thesis by (simp add: mean_def count_rnd(1) [OF n assms(2), simplified])
qed

lemma f64_mul_nonneg: "f64_le (lit 0) x \<Longrightarrow> f64_le (lit 0) y \<Longrightarrow> is_finite x \<Longrightarrow> is_finite y \<Longrightarrow> f64_le (lit 0) (f64_mul x y)"
  by (auto simp: f64_mul_def Let_def f64_le_finite signed_zero_def intro: rnd_sign)

lemma f64_square_nonneg: "is_finite x \<Longrightarrow> f64_le (lit 0) (f64_mul x x)"
  by (auto simp: f64_mul_def Let_def f64_le_finite signed_zero_def intro!: rnd_sign)

lemma f64_add_nonneg: "f64_le (lit 0) x \<Longrightarrow> f64_le (lit 0) y \<Longrightarrow> is_finite x \<Longrightarrow> is_finite y \<Longrightarrow> f64_le (lit 0) (f64_add x y)"
  by (auto simp: f64_add_finite f64_le_finite intro: rnd_sign)

lemma foldl_add_nonneg:
  "\<forall>x \<in> set xs. f64_le (lit 0) x \<Longrightarrow> f64_le (lit 0) a \<Longrightarrow> f64_le (lit 0) (foldl f64_add a xs)"
proof (induction xs arbitrary: a)
  case (Cons x xs)
  have "f64_le (lit 0) (f64_add a x)"
    using Cons.prems by (cases a; cases x) (auto simp: f64_add_def intro!: rnd_sign)
  then show ?case using Cons by simp
qed simp

lemma f64_div_nonneg: "f64_le (lit 0) x \<Longrightarrow> is_finite x \<Longrightarrow> 0 < q \<Longrightarrow> f64_le (lit 0) (f64_div x (Num q))"
  by (auto simp: f64_div_def Let_def f64_le_finite signed_zero_def intro!: rnd_sign)

section \<open>What the search relies on\<close>

text \<open>The documented behaviour of the generator and of the square root and exponential: a range that is not empty and
  does not overflow yields a value in it, an index below a positive length, a probability in the unit interval a
  Boolean; the square root of a non-negative number is non-negative and at most the number or one, the exponential
  of a number is a number.\<close>

definition lawful :: "'r opt_env \<Rightarrow> bool" where
  "lawful env \<longleftrightarrow>
     (\<forall>lo hi. f64_le lo hi \<and> is_finite (f64_sub hi lo) \<longrightarrow> draws (in_range lo hi) (oe_range env lo hi))
     \<and> (\<forall>n > 0. draws (\<lambda>i. i < n) (oe_index env n))
     \<and> (\<forall>q. in_range (lit 0) (lit 1) q \<longrightarrow> draws (\<lambda>_. True) (oe_bool env q))
     \<and> (\<forall>x. is_finite x \<and> f64_le (lit 0) x \<longrightarrow> in_range (lit 0) (f64_max x (lit 1)) (oe_sqrt env x))
     \<and> (\<forall>x. \<not> is_nan x \<longrightarrow> \<not> is_nan (oe_exp env x))"

text \<open>Data far from the limits of the format: at most about a million.\<close>

abbreviation tame :: "f64 \<Rightarrow> bool" where
  "tame \<equiv> bnd 20"

definition tame_outcome :: "batch_outcome \<Rightarrow> bool" where
  "tame_outcome o' \<longleftrightarrow> tame (bo_temperature_c o') \<and> tame (bo_stirrer_rpm o') \<and> tame (bo_heating_minutes o') \<and> tame (bo_stirring_minutes o')
     \<and> tame (bo_yield_percent o') \<and> tame (bo_product_ratio o')"

definition wf_bounds :: "optimizer_bounds \<Rightarrow> bool" where
  "wf_bounds b \<longleftrightarrow> wf_f64 (ob_min_temperature_c b) \<and> wf_f64 (ob_max_temperature_c b) \<and> wf_f64 (ob_min_stirrer_rpm b) \<and> wf_f64 (ob_max_stirrer_rpm b)
     \<and> wf_f64 (ob_min_heating_minutes b) \<and> wf_f64 (ob_max_heating_minutes b) \<and> wf_f64 (ob_min_stirring_minutes b) \<and> wf_f64 (ob_max_stirring_minutes b)"

definition tame_bounds :: "optimizer_bounds \<Rightarrow> bool" where
  "tame_bounds b \<longleftrightarrow> wf_bounds b \<and> tame (ob_min_temperature_c b) \<and> tame (ob_max_temperature_c b) \<and> f64_le (ob_min_temperature_c b) (ob_max_temperature_c b)
     \<and> tame (ob_min_stirrer_rpm b) \<and> tame (ob_max_stirrer_rpm b) \<and> f64_le (ob_min_stirrer_rpm b) (ob_max_stirrer_rpm b)
     \<and> tame (ob_min_heating_minutes b) \<and> tame (ob_max_heating_minutes b) \<and> f64_le (ob_min_heating_minutes b) (ob_max_heating_minutes b)
     \<and> tame (ob_min_stirring_minutes b) \<and> tame (ob_max_stirring_minutes b) \<and> f64_le (ob_min_stirring_minutes b) (ob_max_stirring_minutes b)"

definition in_box :: "optimizer_bounds \<Rightarrow> candidate \<Rightarrow> bool" where
  "in_box b c \<longleftrightarrow> in_range (ob_min_temperature_c b) (ob_max_temperature_c b) (cd_temperature_c c)
     \<and> in_range (ob_min_stirrer_rpm b) (ob_max_stirrer_rpm b) (cd_stirrer_rpm c)
     \<and> in_range (ob_min_heating_minutes b) (ob_max_heating_minutes b) (cd_heating_minutes c)
     \<and> in_range (ob_min_stirring_minutes b) (ob_max_stirring_minutes b) (cd_stirring_minutes c)"

lemma in_range_bnd: "in_range lo hi x \<Longrightarrow> bnd k lo \<Longrightarrow> bnd k hi \<Longrightarrow> bnd k x"
  by (frule in_range_finite) (auto simp: bnd_def in_range_def f64_le_finite abs_le_iff)

lemma f64_max_bnd: "bnd k x \<Longrightarrow> bnd k y \<Longrightarrow> bnd k (f64_max x y)"
  by (simp add: f64_max_def)

lemma f64_max_right: "\<not> is_nan y \<Longrightarrow> f64_le y (f64_max x y)"
  by (cases "is_nan x") (auto simp: f64_max_def f64_lt_iff)

lemma lit_bnd: "0 \<le> q \<Longrightarrow> q \<le> 1 \<Longrightarrow> bnd 0 (lit q)"
  using rnd_bnd [of q 0] by simp

lemma neg_le_self: "f64_le (lit 0) x \<Longrightarrow> is_finite x \<Longrightarrow> f64_le (f64_neg x) x"
  by (simp add: f64_le_finite)

lemma draws_range:
  assumes "lawful env" "f64_le lo hi" "bnd k lo" "bnd k hi" "k \<le> 800"
  shows "draws (\<lambda>x. in_range lo hi x \<and> bnd k x) (oe_range env lo hi)"
proof -
  have "is_finite (f64_sub hi lo)" using bnd_sub [OF assms(4,3)] assms(5) by (simp add: bnd_finite)
  then have "draws (in_range lo hi) (oe_range env lo hi)" using assms(1,2) by (simp add: lawful_def)
  then show ?thesis by (rule draws_weaken) (use in_range_bnd assms in blast)
qed

lemma draws_clamp: "f64_le lo hi \<Longrightarrow> is_finite x \<Longrightarrow> draws (in_range lo hi) (dlift (f64_clamp x lo hi))"
  using f64_clamp_Some [of lo hi x] f64_clamp_in_range [of x lo hi] by (auto simp: draws_def dlift_def)

lemma draws_symmetric:
  assumes "lawful env" "f64_le (lit 0) w" "bnd k w" "k \<le> 800"
  shows "draws (bnd k) (oe_range env (f64_neg w) w)"
  using draws_range [OF assms(1), of "f64_neg w" w k] assms neg_le_self [of w]
  by (auto intro: draws_weaken simp: bnd_finite)

lemma draws_sample_around:
  assumes "lawful env" "bnd 500 center" "bnd 500 w" "f64_le (lit 0) w" "f64_le lo hi"
  shows "draws (in_range lo hi) (sample_around env center w lo hi)"
  unfolding sample_around_def
proof (rule draws_bind [OF draws_symmetric [OF assms(1,4,3)]])
  fix x assume "bnd 500 x"
  then have "is_finite (f64_add center x)" using bnd_add [OF assms(2)] bnd_finite by simp blast
  then show "draws (in_range lo hi) (dlift (f64_clamp (f64_add center x) lo hi))" using assms(5) by (rule draws_clamp [rotated])
qed simp

lemma span_facts:
  assumes "tame lo" "tame hi"
  shows "bnd 21 (f64_max (f64_sub hi lo) (lit 1))" "f64_le (lit 1) (f64_max (f64_sub hi lo) (lit 1))"
  using assms bnd_sub [of 20 hi lo] bnd_mono [OF lit_bnd [of 1], of 21] f64_max_right [of "lit 1"]
  by (auto intro!: f64_max_bnd)

lemma draws_mutate_axis:
  assumes "lawful env" "tame v" "tame lo" "tame hi" "f64_le lo hi" "bnd 2 ratio" "f64_le (lit 0) ratio"
  shows "draws (in_range lo hi) (mutate_axis env v lo hi ratio)"
proof -
  let ?span = "f64_max (f64_sub hi lo) (lit 1)"
  have s: "bnd 21 ?span" "f64_le (lit 0) ?span"
    using span_facts [OF assms(3,4)] by (auto intro: f64_le_trans [of _ "lit 1"])
  have w: "bnd 23 (f64_mul ?span ratio)" "f64_le (lit 0) (f64_mul ?span ratio)"
    using bnd_mul [OF s(1) assms(6)] f64_mul_nonneg [OF s(2) assms(7)] s assms by (simp_all add: bnd_finite)
  show ?thesis unfolding mutate_axis_def Let_def
  proof (rule draws_bind [OF draws_symmetric [OF assms(1) w(2,1)]])
    fix x assume "bnd 23 x"
    then have "is_finite (f64_add v x)" using bnd_add [of 23 v x] bnd_mono [OF assms(2), of 23] bnd_finite by simp
    then show "draws (in_range lo hi) (dlift (f64_clamp (f64_add v x) lo hi))" using assms(5) by (rule draws_clamp [rotated])
  qed simp
qed

lemma sqrt_facts:
  assumes "lawful env" "bnd k x" "f64_le (lit 0) x"
  shows "bnd k (oe_sqrt env x)" "f64_le (lit 0) (oe_sqrt env x)"
proof -
  have r: "in_range (lit 0) (f64_max x (lit 1)) (oe_sqrt env x)" using assms by (auto simp: lawful_def bnd_finite)
  moreover have "bnd k (lit 1)" "bnd k (lit 0)" by (simp_all add: bnd_def)
  ultimately show "bnd k (oe_sqrt env x)" using in_range_bnd f64_max_bnd assms(2) by blast
  show "f64_le (lit 0) (oe_sqrt env x)" using r by (simp add: in_range_def)
qed

lemma spread_facts:
  assumes "lawful env" "items \<noteq> []" "length items \<le> 2 ^ 20" "\<forall>x \<in> set items. tame (f x)" "f64_le (lit 0) floor_value" "tame floor_value"
  shows "bnd 102 (spread env items f floor_value)" "f64_le (lit 0) (spread env items f floor_value)"
proof -
  let ?delta = "\<lambda>item. f64_sub (f item) (mean items f)"
  let ?squares = "map (\<lambda>item. f64_mul (?delta item) (?delta item)) items"
  have n: "0 < length items" using assms(2) by simp
  have "bnd 40 (mean items f)" using bnd_mean [OF assms(2,3,4)] by simp
  then have d: "bnd 41 (?delta item)" if "item \<in> set items" for item
    using bnd_sub [of 40 "f item" "mean items f"] bnd_mono [of 20 "f item" 40] assms(4) that by simp
  then have sq: "\<forall>x \<in> set ?squares. bnd 82 x" using bnd_mul [of 41 _ 41] by auto
  have "bnd 102 (f64_sum ?squares)" using bnd_sum [OF sq, of 20] assms(3) by simp
  moreover have "f64_le (lit 0) (f64_sum ?squares)" unfolding f64_sum_def
    using d f64_square_nonneg bnd_finite by (intro foldl_add_nonneg) auto
  ultimately have v: "bnd 102 (f64_div (f64_sum ?squares) (Num (of_nat (length items))))"
      "f64_le (lit 0) (f64_div (f64_sum ?squares) (Num (of_nat (length items))))"
    using bnd_div [of 102 "f64_sum ?squares" "Num (of_nat (length items))" 0] count_rnd(2) [OF n assms(3)] n
      f64_div_nonneg [of "f64_sum ?squares" "of_nat (length items)"] bnd_finite [of 102 "f64_sum ?squares"]
    by simp_all
  then show "bnd 102 (spread env items f floor_value)"
    using sqrt_facts(1) [OF assms(1) v] bnd_mono [OF assms(6), of 102] count_rnd(1) [OF n assms(3)]
    by (auto simp: spread_def Let_def intro: f64_max_bnd)
  show "f64_le (lit 0) (spread env items f floor_value)"
    using f64_max_right [of floor_value] assms(5,6)
    by (auto simp: spread_def Let_def bnd_finite intro: f64_le_trans [of _ floor_value])
qed

lemma draws_make_candidate:
  assumes "draws (in_range (ob_min_temperature_c b) (ob_max_temperature_c b)) t"
    "draws (in_range (ob_min_stirrer_rpm b) (ob_max_stirrer_rpm b)) s"
    "draws (in_range (ob_min_heating_minutes b) (ob_max_heating_minutes b)) h"
    "draws (in_range (ob_min_stirring_minutes b) (ob_max_stirring_minutes b)) m"
  shows "draws (in_box b) (make_candidate t s h m)"
  unfolding make_candidate_def
  by (intro draws_bind [OF assms(1)] draws_bind [OF assms(2)] draws_bind [OF assms(3)] draws_bind [OF assms(4)] draws_return)
     (simp add: in_box_def)

lemma in_box_tame:
  assumes "in_box b c" "tame_bounds b"
  shows "tame (cd_temperature_c c)" "tame (cd_stirrer_rpm c)" "tame (cd_heating_minutes c)" "tame (cd_stirring_minutes c)"
  using assms in_range_bnd [of _ _ _ 20] unfolding in_box_def tame_bounds_def by blast+

lemma draws_outcome_candidate: "tame_bounds b \<Longrightarrow> tame_outcome x \<Longrightarrow> draws (in_box b) (outcome_candidate x b)"
  unfolding outcome_candidate_def tame_bounds_def tame_outcome_def
  by (intro draws_make_candidate draws_clamp) (auto intro: bnd_finite)

lemma blend_finite:
  assumes "tame x" "tame y" "bnd 0 r"
  shows "is_finite (blend_value x y r)"
proof -
  have "bnd 1 (f64_sub (lit 1) r)" using bnd_sub [of 0 "lit 1" r] assms(3) lit_bnd [of 1] by simp
  then have "bnd 21 (f64_mul y (f64_sub (lit 1) r))" using bnd_mul [OF assms(2), of 1] by simp
  moreover have "bnd 21 (f64_mul x r)" using bnd_mul [OF assms(1,3)] bnd_mono [of 20 _ 21] by simp
  ultimately show ?thesis unfolding blend_value_def using bnd_add [of 21] bnd_finite [of 22] by simp
qed

lemma quarter_facts: "f64_le (lit (1 / 4)) (lit (3 / 4))" "bnd 0 (lit (1 / 4))" "bnd 0 (lit (3 / 4))"
  using rnd_mono [of "1 / 4" "3 / 4"] lit_bnd by simp_all

lemma draws_crossover:
  assumes "lawful env" "tame_bounds b" "in_box b x" "in_box b y"
  shows "draws (in_box b) (crossover_candidate env x y b)"
  unfolding crossover_candidate_def
proof (rule draws_bind [OF draws_range [OF assms(1) quarter_facts]])
  fix r assume "in_range (lit (1 / 4)) (lit (3 / 4)) r \<and> bnd 0 r"
  then show "draws (in_box b) (make_candidate
       (dlift (f64_clamp (blend_value (cd_temperature_c x) (cd_temperature_c y) r) (ob_min_temperature_c b) (ob_max_temperature_c b)))
       (dlift (f64_clamp (blend_value (cd_stirrer_rpm x) (cd_stirrer_rpm y) r) (ob_min_stirrer_rpm b) (ob_max_stirrer_rpm b)))
       (dlift (f64_clamp (blend_value (cd_heating_minutes x) (cd_heating_minutes y) r) (ob_min_heating_minutes b) (ob_max_heating_minutes b)))
       (dlift (f64_clamp (blend_value (cd_stirring_minutes x) (cd_stirring_minutes y) r) (ob_min_stirring_minutes b) (ob_max_stirring_minutes b))))"
    using assms(2) in_box_tame [OF assms(3,2)] in_box_tame [OF assms(4,2)]
    by (intro draws_make_candidate draws_clamp blend_finite) (simp_all add: tame_bounds_def)
qed simp

lemma scale_facts:
  assumes "in_range (lit (2 / 10)) (lit (15 / 10)) scale" "0 \<le> q" "q \<le> 1"
  shows "bnd 2 (f64_mul (lit q) scale)" "f64_le (lit 0) (f64_mul (lit q) scale)"
proof -
  have "bnd 1 (lit (2 / 10))" "bnd 1 (lit (15 / 10))" by (rule rnd_bnd; simp)+
  then have s: "bnd 1 scale" using assms(1) in_range_bnd by blast
  have q: "bnd 0 (lit q)" using lit_bnd assms by blast
  show "bnd 2 (f64_mul (lit q) scale)" using bnd_mul [OF q s] bnd_mono [of 1 _ 2] by simp
  have "f64_le (lit 0) scale"
    using assms(1) rnd_sign(1) [of "2 / 10"] by (auto simp: in_range_def intro: f64_le_trans)
  moreover have "f64_le (lit 0) (lit q)" using rnd_sign(1) assms(2) by simp
  ultimately show "f64_le (lit 0) (f64_mul (lit q) scale)" using f64_mul_nonneg s q bnd_finite by blast
qed

lemma draws_mutate:
  assumes "lawful env" "tame_bounds b" "in_box b x" "is_finite scale_value"
  shows "draws (in_box b) (mutate_candidate env x b scale_value)"
  unfolding mutate_candidate_def
proof (rule draws_bind [OF draws_clamp])
  show "f64_le (lit (2 / 10)) (lit (15 / 10))" by (rule rnd_mono) simp
  show "is_finite scale_value" by (rule assms)
  fix scale assume s: "in_range (lit (2 / 10)) (lit (15 / 10)) scale"
  show "draws (in_box b) (make_candidate
       (mutate_axis env (cd_temperature_c x) (ob_min_temperature_c b) (ob_max_temperature_c b) (f64_mul (lit (8 / 100)) scale))
       (mutate_axis env (cd_stirrer_rpm x) (ob_min_stirrer_rpm b) (ob_max_stirrer_rpm b) (f64_mul (lit (8 / 100)) scale))
       (mutate_axis env (cd_heating_minutes x) (ob_min_heating_minutes b) (ob_max_heating_minutes b) (f64_mul (lit (1 / 10)) scale))
       (mutate_axis env (cd_stirring_minutes x) (ob_min_stirring_minutes b) (ob_max_stirring_minutes b) (f64_mul (lit (1 / 10)) scale)))"
    using assms(1,2) in_box_tame [OF assms(3,2)] scale_facts [OF s]
    by (intro draws_make_candidate draws_mutate_axis) (simp_all add: tame_bounds_def)
qed

definition tame_problem :: "problem \<Rightarrow> bool" where
  "tame_problem p \<longleftrightarrow> tame_bounds (pb_bounds p) \<and> list_all tame_outcome (pb_outcomes p) \<and> list_all tame_outcome (pb_elites p)
     \<and> pb_outcomes p \<noteq> [] \<and> pb_elites p \<noteq> [] \<and> length (pb_outcomes p) \<le> 2 ^ 20 \<and> length (pb_elites p) \<le> 2 ^ 20
     \<and> tame (fst (pb_weights p)) \<and> tame (snd (pb_weights p))"

lemma trend_in_range:
  assumes "tame current" "tame best" "bnd 40 anchor" "bnd 21 derivative" "f64_le lo hi"
  shows "draws (in_range lo hi) (dlift (trend_axis current best anchor derivative lo hi))"
proof -
  have l: "bnd 0 (lit (18 / 100))" "bnd 0 (lit (6 / 100))" "bnd 0 (lit (3 / 100))" by (rule lit_bnd; simp)+
  have "bnd 21 (f64_mul (f64_sub best current) (lit (18 / 100)))" using bnd_mul [OF bnd_sub l(1), of 20 best current] assms by simp
  then have "bnd 22 (f64_add current (f64_mul (f64_sub best current) (lit (18 / 100))))"
    using bnd_add [of 21 current] bnd_mono [OF assms(1), of 21] by simp
  moreover have "bnd 41 (f64_mul (f64_sub anchor current) (lit (6 / 100)))"
    using bnd_mul [OF bnd_sub l(2), of 40 anchor current] bnd_mono [OF assms(1), of 40] assms(3) by simp
  ultimately have "bnd 42 (f64_add (f64_add current (f64_mul (f64_sub best current) (lit (18 / 100)))) (f64_mul (f64_sub anchor current) (lit (6 / 100))))"
    using bnd_add [of 41] bnd_mono [of 22 _ 41] by simp
  moreover have "bnd 42 (f64_mul derivative (lit (3 / 100)))"
    using bnd_mul [OF assms(4) l(3)] bnd_mono [of 21 _ 42] by simp
  ultimately show ?thesis
    using bnd_finite [OF bnd_add [of 42]] assms(5) by (auto simp: trend_axis_def Let_def intro!: draws_clamp)
qed

lemma draws_trend:
  assumes "tame_problem p" "in_box (pb_bounds p) c"
  shows "draws (in_box (pb_bounds p)) (trend_correct_candidate c (pb_outcomes p) (pb_elites p) (pb_bounds p))"
proof -
  let ?b = "pb_bounds p"
  obtain best rest where outcomes: "pb_outcomes p = best # rest" using assms(1) by (cases "pb_outcomes p") (auto simp: tame_problem_def)
  define second where "second = unwrap_or (nth_opt (pb_outcomes p) 1) best"
  have "second = best \<or> second \<in> set rest" by (auto simp: second_def nth_opt_def outcomes)
  then have o: "tame_outcome best" "tame_outcome second" using assms(1) by (auto simp: tame_problem_def outcomes list_all_iff)
  have m: "bnd 40 (mean (pb_elites p) f)" if "\<And>x. tame_outcome x \<Longrightarrow> tame (f x)" for f
    using bnd_mean [of "pb_elites p" 20 f] assms(1) that by (simp add: tame_problem_def list_all_iff)
  have d: "bnd 21 (f64_sub (f best) (f second))" if "\<And>x. tame_outcome x \<Longrightarrow> tame (f x)" for f
    using bnd_sub [of 20 "f best" "f second"] that o by simp
  have b: "tame_bounds ?b" using assms(1) by (simp add: tame_problem_def)
  have "draws (in_box ?b) (make_candidate
       (dlift (trend_axis (cd_temperature_c c) (bo_temperature_c best) (mean (pb_elites p) bo_temperature_c)
          (f64_sub (bo_temperature_c best) (bo_temperature_c second)) (ob_min_temperature_c ?b) (ob_max_temperature_c ?b)))
       (dlift (trend_axis (cd_stirrer_rpm c) (bo_stirrer_rpm best) (mean (pb_elites p) bo_stirrer_rpm)
          (f64_sub (bo_stirrer_rpm best) (bo_stirrer_rpm second)) (ob_min_stirrer_rpm ?b) (ob_max_stirrer_rpm ?b)))
       (dlift (trend_axis (cd_heating_minutes c) (bo_heating_minutes best) (mean (pb_elites p) bo_heating_minutes)
          (f64_sub (bo_heating_minutes best) (bo_heating_minutes second)) (ob_min_heating_minutes ?b) (ob_max_heating_minutes ?b)))
       (dlift (trend_axis (cd_stirring_minutes c) (bo_stirring_minutes best) (mean (pb_elites p) bo_stirring_minutes)
          (f64_sub (bo_stirring_minutes best) (bo_stirring_minutes second)) (ob_min_stirring_minutes ?b) (ob_max_stirring_minutes ?b))))"
    using o(1) b in_box_tame [OF assms(2) b]
    by (intro draws_make_candidate trend_in_range m d) (simp_all add: tame_outcome_def tame_bounds_def)
  moreover have "nth_opt (pb_outcomes p) 0 = Some best" by (simp add: outcomes nth_opt_def)
  ultimately show ?thesis
    unfolding trend_correct_candidate_def Let_def by (simp only: dbind_lift second_def [symmetric])
qed

lemma representable_inverse_power:
  assumes "k \<le> 900"
  shows "representable (1 / 2 ^ k)"
proof -
  have "(1 :: rat) / 2 ^ k = of_int 1 * 2 powi (- int k)" by (simp add: power_int_minus field_simps)
  moreover have "- 1074 \<le> - int k" "\<bar>1 :: int\<bar> < 2 ^ 53" using assms by simp_all
  moreover have "\<bar>(1 :: rat) / 2 ^ k\<bar> \<le> 1" by (simp add: divide_le_eq_1)
  then have "\<bar>(1 :: rat) / 2 ^ k\<bar> < f64_limit" by (rule le_less_trans) (simp add: f64_limit_def)
  ultimately show ?thesis unfolding representable_def by blast
qed

lemma rnd_lower:
  assumes "1 / 2 ^ k \<le> q" "k \<le> 900" "is_finite (rnd q)"
  shows "1 / 2 ^ k \<le> fval (rnd q)"
  using rnd_mono [OF assms(1)] rnd_representable [OF representable_inverse_power [OF assms(2)]] assms(3)
  by (simp add: f64_le_finite)

lemma axis_facts:
  assumes "tame v" "tame center" "tame lo" "tame hi"
  defines "x \<equiv> f64_div (f64_sub v center) (f64_max (f64_sub hi lo) (lit 1))"
  shows "bnd 42 (f64_mul x x)" "f64_le (lit 0) (f64_mul x x)"
proof -
  have "1 \<le> fval (f64_max (f64_sub hi lo) (lit 1))" "is_finite (f64_max (f64_sub hi lo) (lit 1))"
    using span_facts [OF assms(3,4)] bnd_finite [of 21] by (simp_all add: f64_le_finite)
  then have "bnd 21 x" unfolding x_def using bnd_div [of 21 "f64_sub v center" _ 0] bnd_sub [of 20 v center] assms(1,2) by simp
  then show "bnd 42 (f64_mul x x)" "f64_le (lit 0) (f64_mul x x)"
    using bnd_mul [of 21 x 21 x] f64_square_nonneg bnd_finite by simp_all
qed

lemma add_facts: "bnd k x \<Longrightarrow> bnd k y \<Longrightarrow> f64_le (lit 0) x \<Longrightarrow> f64_le (lit 0) y \<Longrightarrow> Suc k \<le> 900
    \<Longrightarrow> bnd (Suc k) (f64_add x y) \<and> f64_le (lit 0) (f64_add x y)"
  using bnd_add f64_add_nonneg bnd_finite by blast

lemma quality_weight_facts:
  assumes "lawful env" "tame_bounds b" "in_box b c" "tame_outcome x"
  shows "bnd 4 (quality_weight env c b x)" "1 / 2 ^ 46 \<le> fval (quality_weight env c b x)"
proof -
  define axis where "axis = (\<lambda>v center lo hi. f64_mul (f64_div (f64_sub v center) (f64_max (f64_sub hi lo) (lit 1)))
    (f64_div (f64_sub v center) (f64_max (f64_sub hi lo) (lit 1))))"
  define s where "s = f64_add (f64_add (f64_add
            (axis (cd_temperature_c c) (bo_temperature_c x) (ob_min_temperature_c b) (ob_max_temperature_c b))
            (axis (cd_stirrer_rpm c) (bo_stirrer_rpm x) (ob_min_stirrer_rpm b) (ob_max_stirrer_rpm b)))
            (axis (cd_heating_minutes c) (bo_heating_minutes x) (ob_min_heating_minutes b) (ob_max_heating_minutes b)))
            (axis (cd_stirring_minutes c) (bo_stirring_minutes x) (ob_min_stirring_minutes b) (ob_max_stirring_minutes b))"
  have a: "bnd 42 (axis v center lo hi) \<and> f64_le (lit 0) (axis v center lo hi)"
    if "tame v" "tame center" "tame lo" "tame hi" for v center lo hi
    using axis_facts [OF that] unfolding axis_def by blast
  have a': "bnd 44 (axis v center lo hi) \<and> f64_le (lit 0) (axis v center lo hi)" "bnd 43 (axis v center lo hi)"
    if "tame v" "tame center" "tame lo" "tame hi" for v center lo hi
    using a [OF that] bnd_mono [of 42 _ 44] bnd_mono [of 42 _ 43] by simp_all
  note t = in_box_tame [OF assms(3,2)]
  have "bnd 45 s \<and> f64_le (lit 0) s"
    unfolding s_def using t assms(2,4) add_facts [of 42] add_facts [of 43] add_facts [of 44] a a'
    by (simp add: tame_bounds_def tame_outcome_def)
  then have d: "bnd 45 (oe_sqrt env s)" "f64_le (lit 0) (oe_sqrt env s)" using sqrt_facts assms(1) by blast+
  have e: "bnd 45 (lit (8 / 100))" "1 / 2 ^ 4 \<le> fval (lit (8 / 100))"
    using bnd_mono [OF lit_bnd [of "8 / 100"], of 45] rnd_lower [of 4 "8 / 100"] bnd_finite by auto
  let ?y = "f64_add (lit (8 / 100)) (oe_sqrt env s)"
  have y: "bnd 46 ?y" using bnd_add [OF e(1) d(1)] by simp
  have "0 \<le> fval (oe_sqrt env s)" using d bnd_finite [OF d(1)] by (simp add: f64_le_finite)
  then have low: "1 / 2 ^ 4 \<le> fval ?y"
    using e rnd_lower [of 4 "fval (lit (8 / 100)) + fval (oe_sqrt env s)"] bnd_finite [OF e(1)] bnd_finite [OF d(1)] bnd_finite [OF y]
    by (auto simp: f64_add_finite split: if_splits)
  have w: "quality_weight env c b x = f64_div (lit 1) ?y" unfolding quality_weight_def Let_def s_def axis_def ..
  show four: "bnd 4 (quality_weight env c b x)"
    unfolding w using bnd_div [of 0 "lit 1" ?y 4] low bnd_finite [OF y] lit_bnd [of 1] by simp
  have yp: "0 < fval ?y" using low by (rule less_le_trans [rotated]) simp
  then have "1 / 2 ^ 46 \<le> 1 / fval ?y" using y by (intro divide_left_mono) (auto simp: bnd_def)
  moreover have "f64_div (lit 1) ?y = rnd (1 / fval ?y)"
    using yp bnd_finite [OF y] by (auto simp: f64_div_def Let_def)
  ultimately show "1 / 2 ^ 46 \<le> fval (quality_weight env c b x)"
    using rnd_lower [of 46 "1 / fval ?y"] bnd_finite [OF four] unfolding w by simp
qed

lemma foldl_pair:
  "foldl (\<lambda>(u, v) x. let w = g x in (f64_add u (f64_mul (f x) w), f64_add v w)) (a, c) xs =
     (foldl f64_add a (map (\<lambda>x. f64_mul (f x) (g x)) xs), foldl f64_add c (map g xs))"
  by (induction xs arbitrary: a c) (simp_all add: Let_def)

lemma foldl_add_lower:
  assumes "\<forall>x \<in> set xs. is_finite x \<and> 0 \<le> fval x" "is_finite a" "1 / 2 ^ k \<le> fval a" "k \<le> 900" "is_finite (foldl f64_add a xs)"
  shows "1 / 2 ^ k \<le> fval (foldl f64_add a xs)"
  using assms
proof (induction xs arbitrary: a)
  case (Cons x xs)
  have pos: "0 < fval a" using Cons.prems(3) by (rule less_le_trans [rotated]) simp
  have add: "f64_add a x = rnd (fval a + fval x)" using Cons.prems pos by (auto simp: f64_add_finite)
  have fin: "is_finite (f64_add a x)"
  proof (rule ccontr)
    assume "\<not> is_finite (f64_add a x)"
    then obtain s where s: "f64_add a x = Inf s" using rnd_not_nan [of "fval a + fval x"] by (cases "f64_add a x") (auto simp: add simp del: rnd_not_nan)
    have "\<not> is_finite (foldl f64_add (Inf s) ys)" if "\<forall>x \<in> set ys. is_finite x" for ys
      using that by (induction ys) (auto simp: f64_add_def split: f64.splits)
    then show False using Cons.prems(1,5) s by simp
  qed
  then have "1 / 2 ^ k \<le> fval (f64_add a x)"
    using rnd_lower [of k "fval a + fval x"] Cons.prems add by simp
  then show ?case using Cons.IH [of "f64_add a x"] Cons.prems fin by simp
qed simp

lemma score_bnd: "tame_outcome x \<Longrightarrow> tame (fst ws) \<Longrightarrow> tame (snd ws) \<Longrightarrow> bnd 48 (score_with_weights x ws)"
proof -
  assume x: "tame_outcome x" and w: "tame (fst ws)" "tame (snd ws)"
  have "bnd 40 (f64_mul (bo_yield_percent x) (fst ws))" using bnd_mul [of 20 _ 20] x w by (simp add: tame_outcome_def)
  then have a: "bnd 47 (f64_mul (bo_yield_percent x) (fst ws))" by (rule bnd_mono) simp
  have "bnd 7 (lit 100)" by (simp add: bnd_def)
  then have "bnd 27 (f64_mul (bo_product_ratio x) (lit 100))" using bnd_mul [of 20 _ 7] x by (simp add: tame_outcome_def)
  then have "bnd 47 (f64_mul (f64_mul (bo_product_ratio x) (lit 100)) (snd ws))" using bnd_mul [of 27 _ 20] w by simp
  then show ?thesis using bnd_add [OF a] by (simp add: score_with_weights_def case_prod_beta)
qed

lemma quality_bnd:
  assumes "lawful env" "tame_problem p" "in_box (pb_bounds p) c"
  shows "bnd 118 (quality env p c)"
proof -
  let ?w = "quality_weight env c (pb_bounds p)" and ?s = "\<lambda>x. score_with_weights x (pb_weights p)"
  let ?total = "f64_sum (map ?w (pb_outcomes p))" and ?score = "f64_sum (map (\<lambda>x. f64_mul (?s x) (?w x)) (pb_outcomes p))"
  have p: "tame_bounds (pb_bounds p)" "\<forall>x \<in> set (pb_outcomes p). tame_outcome x" "length (pb_outcomes p) \<le> 2 ^ 20"
      "tame (fst (pb_weights p))" "tame (snd (pb_weights p))"
    using assms(2) by (simp_all add: tame_problem_def list_all_iff)
  have w: "bnd 4 (?w x)" "1 / 2 ^ 46 \<le> fval (?w x)" if "x \<in> set (pb_outcomes p)" for x
    using quality_weight_facts [OF assms(1) p(1) assms(3)] p(2) that by blast+
  have "bnd 52 (f64_mul (?s x) (?w x))" if "x \<in> set (pb_outcomes p)" for x
    using bnd_mul [of 48 "?s x" 4] score_bnd [OF _ p(4,5)] w(1) p(2) that by simp
  then have score: "bnd 72 ?score" using bnd_sum [of "map (\<lambda>x. f64_mul (?s x) (?w x)) (pb_outcomes p)" 52 20] p(3) by simp
  have t: "bnd 24 ?total" using bnd_sum [of "map ?w (pb_outcomes p)" 4 20] w(1) p(3) by simp
  obtain o1 os where outcomes: "pb_outcomes p = o1 # os" using assms(2) by (cases "pb_outcomes p") (auto simp: tame_problem_def)
  have "1 / 2 ^ 46 \<le> fval ?total"
  proof -
    have fin: "is_finite (f64_add (Num 0) (?w o1))"
      using bnd_finite [OF bnd_add [of 4 "Num 0" "?w o1"]] w(1) [of o1] by (simp add: outcomes bnd_def)
    have "1 / 2 ^ 46 \<le> fval (f64_add (Num 0) (?w o1))"
      using rnd_lower [of 46 "fval (?w o1)"] w [of o1] fin bnd_finite [of 4 "?w o1"] by (simp add: f64_add_finite outcomes)
    moreover have "\<forall>x \<in> set (map ?w os). is_finite x \<and> 0 \<le> fval x"
      using w bnd_finite order_trans [of 0 "1 / 2 ^ 46 :: rat"] by (fastforce simp: outcomes)
    ultimately show ?thesis
      using foldl_add_lower [of "map ?w os" "f64_add (Num 0) (?w o1)" 46] fin bnd_finite [OF t] by (simp add: f64_sum_def outcomes)
  qed
  then have "bnd 118 (f64_div ?score ?total)" using bnd_div [OF score bnd_finite [OF t], of 46] by simp
  moreover have "quality env p c = (if f64_eq ?total (lit 0) then lit 0 else f64_div ?score ?total)"
    unfolding quality_def candidate_quality_def foldl_pair f64_sum_def by simp
  ultimately show ?thesis by (simp add: bnd_def)
qed

section \<open>The midpoint and the anchors\<close>

lemma representable_units: "representable q \<Longrightarrow> \<exists>M. q = of_int M * 2 powi (- 1074)"
proof -
  assume "representable q"
  then obtain m e where q: "q = of_int m * 2 powi e" "- 1074 \<le> e" unfolding representable_def by blast
  have "(2 :: rat) powi e = 2 powi (e + 1074) * 2 powi (- 1074)" by (simp only: powi_add_2 [symmetric]) simp
  also have "(2 :: rat) powi (e + 1074) = of_int (2 ^ nat (e + 1074))" using q(2) by (simp add: power_int_def)
  finally show ?thesis unfolding q(1) by (intro exI [of _ "m * 2 ^ nat (e + 1074)"]) simp
qed

lemma small_difference_representable:
  assumes "representable x" "representable y" "\<bar>y - x\<bar> < 2 powi (- 1021)"
  shows "representable (y - x)"
proof -
  obtain M N where MN: "x = of_int M * 2 powi (- 1074)" "y = of_int N * 2 powi (- 1074)"
    using representable_units assms by blast
  then have d: "y - x = of_int (N - M) * 2 powi (- 1074)" by (simp add: algebra_simps)
  have "(2 :: rat) powi (- 1021) = 2 powi 53 * 2 powi (- 1074)" by (simp only: powi_add_2 [symmetric]) simp
  then have "of_int \<bar>N - M\<bar> * 2 powi (- 1074) < (2 powi 53 * 2 powi (- 1074) :: rat)"
    using assms(3) unfolding d by (simp add: abs_mult)
  then have "of_int \<bar>N - M\<bar> < (2 powi 53 :: rat)" by (rule mult_right_less_imp_less) simp
  then have "of_int \<bar>N - M\<bar> < (of_int (2 ^ 53) :: rat)" by (simp add: power_int_def)
  then have "\<bar>N - M\<bar> < 2 ^ 53" by (simp only: of_int_less_iff)
  moreover have "\<bar>y - x\<bar> < f64_limit"
    using assms(3) by (rule less_trans) (simp only: f64_limit_powi powi_less_2_iff)
  ultimately show ?thesis unfolding representable_def using d by blast
qed

lemma three_quarters: "9007199254740992 * u \<le> d \<Longrightarrow> 0 < u \<Longrightarrow> (d + u) * (3 / 4) \<le> d - (u :: rat)"
  by simp

text \<open>Three quarters of a rounded distance never exceed the distance.\<close>

lemma partial_distance:
  assumes "representable x" "representable y" "x \<le> y" "0 \<le> r" "r \<le> 3 / 4"
  shows "round_val (round_val (y - x) * r) \<le> y - x"
proof -
  let ?d = "y - x"
  show ?thesis
  proof (cases "\<bar>?d\<bar> < 2 powi (- 1021)")
    case True
    then have "representable ?d" using small_difference_representable assms by blast
    then have d: "round_val ?d = ?d" by (rule round_val_representable)
    have "?d * r \<le> ?d" using assms by (simp add: mult_left_le)
    then show ?thesis using round_val_mono [of "?d * r" ?d] d by simp
  next
    case False
    then have pos: "0 < ?d" "2 powi (- 1021) \<le> ?d" using assms(3) by (auto simp: not_less intro: less_le_trans [of 0 "2 powi (- 1021)"])
    define e where "e = ilog2 ?d"
    have e: "2 powi e \<le> ?d" "?d < 2 powi (e + 1)" using ilog2_bounds [of ?d] pos by (simp_all add: e_def)
    have "(2 :: rat) powi (- 1021) < 2 powi (e + 1)" using pos(2) e(2) by linarith
    then have k: "- 1021 \<le> e + 1" by (simp only: powi_less_2_iff)
    let ?u = "2 powi (e - 53) :: rat"
    have u: "(2 :: rat) powi e = 2 ^ 53 * ?u" using powi_add_2 [of 53 "e - 53"] by (simp add: power_int_def)
    have d1: "\<bar>round_val ?d - ?d\<bar> \<le> ?u" using round_val_error_bound [of ?d "e + 1"] e pos k by simp
    have up: "0 < ?u" by simp
    have q: "0 \<le> round_val ?d * r" using round_val_nonneg [of ?d] pos assms(4) by simp
    have "9007199254740992 * ?u \<le> ?d" using e(1) u by simp
    then have "(?d + ?u) * (3 / 4) \<le> ?d - ?u" using up by (rule three_quarters)
    moreover have "round_val ?d * r \<le> (?d + ?u) * (3 / 4)" using d1 assms(4,5) pos round_val_nonneg [of ?d] by (intro mult_mono) linarith+
    ultimately have le: "round_val ?d * r \<le> ?d - ?u" by linarith
    then have "\<bar>round_val ?d * r\<bar> < 2 powi (e + 1)" using q e(2) up by linarith
    then have "\<bar>round_val (round_val ?d * r) - round_val ?d * r\<bar> \<le> ?u" using round_val_error_bound [of "round_val ?d * r" "e + 1"] k by simp
    then show ?thesis using le by linarith
  qed
qed

lemma wf_finite_cases: "wf_f64 x \<Longrightarrow> is_finite x \<Longrightarrow> representable (fval x)"
  using representable_of_int [of 0] by (cases x) (auto simp: wf_f64_def)

lemma in_range_fval:
  assumes "is_finite lo" "is_finite hi"
  shows "in_range lo hi x \<longleftrightarrow> is_finite x \<and> fval lo \<le> fval x \<and> fval x \<le> fval hi"
proof (cases "is_finite x")
  case True
  then show ?thesis using assms by (simp add: in_range_def f64_le_finite)
next
  case False
  then show ?thesis using in_range_finite assms by blast
qed

lemma fval_rnd: "is_finite (rnd q) \<Longrightarrow> fval (rnd q) = round_val q"
  by (auto simp: rnd_def Let_def split: if_splits)

lemma fval_add: "is_finite x \<Longrightarrow> is_finite y \<Longrightarrow> is_finite (f64_add x y) \<Longrightarrow> fval (f64_add x y) = round_val (fval x + fval y)"
  by (auto simp: f64_add_finite fval_rnd)

lemma fval_mul: "is_finite x \<Longrightarrow> is_finite y \<Longrightarrow> is_finite (f64_mul x y) \<Longrightarrow> fval (f64_mul x y) = round_val (fval x * fval y)"
  by (auto simp: f64_mul_def Let_def fval_rnd signed_zero_def split: if_splits)

lemma fval_half: "is_finite x \<Longrightarrow> is_finite (f64_div x (Num 2)) \<Longrightarrow> fval (f64_div x (Num 2)) = round_val (fval x / 2)"
  by (auto simp: f64_div_def Let_def fval_rnd signed_zero_def split: if_splits)

lemma representable_double:
  assumes "representable q" "\<bar>q\<bar> \<le> 2 ^ 20"
  shows "representable (2 * q)"
proof -
  obtain m e where q: "q = of_int m * 2 powi e" "\<bar>m\<bar> < 2 ^ 53" "- 1074 \<le> e" using assms(1) unfolding representable_def by blast
  have "2 * q = of_int m * 2 powi (e + 1)" unfolding q(1) powi_add_2 by simp
  moreover have "\<bar>2 * q\<bar> < f64_limit" using assms(2) by (auto simp: f64_limit_def abs_mult)
  moreover have "- 1074 \<le> e + 1" using q(3) by simp
  ultimately show ?thesis unfolding representable_def using q(2) by blast
qed

lemma midpoint_in_range:
  assumes "tame lo" "tame hi" "wf_f64 lo" "wf_f64 hi" "f64_le lo hi"
  shows "in_range lo hi (f64_div (f64_add lo hi) (lit 2))"
proof -
  have fin: "is_finite lo" "is_finite hi" using assms bnd_finite by blast+
  have rep: "representable (fval lo)" "representable (fval hi)" using wf_finite_cases assms fin by blast+
  have le: "fval lo \<le> fval hi" using assms(5) fin by (simp add: f64_le_finite)
  have s: "bnd 21 (f64_add lo hi)" using bnd_add [of 20] assms by simp
  have m: "is_finite (f64_div (f64_add lo hi) (Num 2))"
    using bnd_div [OF s, of "Num 2" 0] bnd_finite by simp
  have "representable (2 * fval lo)" "representable (2 * fval hi)"
    using representable_double rep assms(1,2) by (simp_all add: bnd_def)
  then have "2 * fval lo \<le> fval (f64_add lo hi)" "fval (f64_add lo hi) \<le> 2 * fval hi"
    using round_val_mono [of "2 * fval lo" "fval lo + fval hi"] round_val_mono [of "fval lo + fval hi" "2 * fval hi"] le
    by (simp_all add: fval_add [OF fin bnd_finite [OF s]] round_val_representable)
  then have "fval lo \<le> fval (f64_div (f64_add lo hi) (Num 2))" "fval (f64_div (f64_add lo hi) (Num 2)) \<le> fval hi"
    using round_val_mono [of "fval lo" "fval (f64_add lo hi) / 2"] round_val_mono [of "fval (f64_add lo hi) / 2" "fval hi"] rep
    by (simp_all add: fval_half [OF bnd_finite [OF s] m] round_val_representable)
  then show ?thesis using m by (simp add: in_range_fval [OF fin])
qed

lemma interpolate_in_range:
  assumes "tame lo" "tame hi" "wf_f64 lo" "wf_f64 hi" "f64_le lo hi" "0 < r" "r \<le> 3 / 4"
  shows "in_range lo hi (interpolate lo hi (Num r))"
proof -
  have fin: "is_finite lo" "is_finite hi" using assms bnd_finite by blast+
  have rep: "representable (fval lo)" "representable (fval hi)" using wf_finite_cases assms fin by blast+
  have le: "fval lo \<le> fval hi" using assms(5) fin by (simp add: f64_le_finite)
  let ?T = "round_val (round_val (fval hi - fval lo) * r)" and ?t = "f64_mul (f64_sub hi lo) (Num r)"
  have b: "bnd 21 (f64_sub hi lo)" using bnd_sub [of 20 hi lo] assms by simp
  have d: "fval (f64_sub hi lo) = round_val (fval hi - fval lo)"
    using fval_add [of hi "f64_neg lo"] fin bnd_finite [OF b] by (simp add: f64_sub_def)
  have t: "bnd 22 ?t" using bnd_mul [OF b, of 1 "Num r"] assms(6,7) by (simp add: bnd_def)
  then have tv: "fval ?t = ?T" using fval_mul [of "f64_sub hi lo" "Num r"] bnd_finite [OF b] bnd_finite [OF t] d by simp
  have s: "is_finite (f64_add lo ?t)" using bnd_add [of 22 lo ?t] bnd_mono [OF assms(1), of 22] t bnd_finite by simp
  have "0 \<le> ?T" using round_val_nonneg le assms(6) by simp
  moreover have "?T \<le> fval hi - fval lo" using partial_distance [OF rep le] assms(6,7) by simp
  ultimately have "round_val (fval lo) \<le> round_val (fval lo + ?T)" "round_val (fval lo + ?T) \<le> round_val (fval hi)"
    by (intro round_val_mono; simp)+
  then show ?thesis
    using s rep by (simp add: in_range_fval [OF fin] interpolate_def fval_add [OF fin(1) bnd_finite [OF t]] tv round_val_representable)
qed

definition allowed :: "optimizer_bounds \<Rightarrow> memory_zone list \<Rightarrow> candidate \<Rightarrow> bool" where
  "allowed b zones c \<longleftrightarrow> in_box b c \<and> \<not> is_forbidden c zones"

lemma quarters_exact: "lit (1 / 4) = Num (1 / 4)" "lit (3 / 4) = Num (3 / 4)"
proof -
  show "lit (1 / 4) = Num (1 / 4)" using representable_inverse_power [of 2] rnd_representable by simp
  have "representable (3 / 4)"
    unfolding representable_def by (rule conjI, rule exI [of _ 3], rule exI [of _ "- 2"]) (simp_all add: power_int_minus f64_limit_def)
  then show "lit (3 / 4) = Num (3 / 4)" by (rule rnd_representable)
qed

lemma safe_midpoint_allowed:
  assumes "tame_bounds b" "safe_midpoint b zones = Some c"
  shows "allowed b zones c"
proof -
  have r: "in_range lo hi (interpolate lo hi (lit (1 / 4)))" "in_range lo hi (interpolate lo hi (lit (3 / 4)))"
      "in_range lo hi (f64_div (f64_add lo hi) (lit 2))"
    if "tame lo" "tame hi" "wf_f64 lo" "wf_f64 hi" "f64_le lo hi" for lo hi
    using interpolate_in_range [OF that] midpoint_in_range [OF that] unfolding quarters_exact by simp_all
  have "\<forall>x \<in> set (center_of b # anchors b). in_box b x"
    using assms(1) r by (simp add: anchors_def center_of_def in_box_def Let_def tame_bounds_def wf_bounds_def)
  moreover have "c \<in> set (center_of b # anchors b)" "\<not> is_forbidden c zones"
    using assms(2) by (auto simp: safe_midpoint_def find_Some_iff split: if_splits)
  ultimately show ?thesis unfolding allowed_def by blast
qed

definition maybe :: "('a \<Rightarrow> bool) \<Rightarrow> 'a option \<Rightarrow> bool" where
  "maybe P x \<longleftrightarrow> (\<forall>a. x = Some a \<longrightarrow> P a)"

lemma draws_sample_allowed:
  assumes "lawful env" "tame_bounds b" "elites \<noteq> []" "length elites \<le> 2 ^ 20" "list_all tame_outcome elites"
  shows "draws (maybe (allowed b zones)) (sample_allowed_loop env elites b zones n)"
proof (induction n)
  case 0
  then show ?case by (simp add: draws_return maybe_def)
next
  case (Suc n)
  have f: "\<forall>x \<in> set elites. tame (bo_temperature_c x)" "\<forall>x \<in> set elites. tame (bo_stirrer_rpm x)"
      "\<forall>x \<in> set elites. tame (bo_heating_minutes x)" "\<forall>x \<in> set elites. tame (bo_stirring_minutes x)"
    using assms(5) by (auto simp: list_all_iff tame_outcome_def)
  have m: "bnd 500 (mean elites g)" if "\<forall>x \<in> set elites. tame (g x)" for g
    using bnd_mean [OF assms(3,4) that] bnd_mono [of 40 _ 500] by simp
  have w: "bnd 500 (spread env elites g (lit v))" "f64_le (lit 0) (spread env elites g (lit v))"
    if "\<forall>x \<in> set elites. tame (g x)" "v \<in> {4, 10, 50}" for g v
    using spread_facts [OF assms(1,3,4) that(1), of "lit v"] bnd_mono [of 102 _ 500] that(2) by (auto simp: bnd_def)
  have "draws (in_box b) (make_candidate
       (sample_around env (mean elites bo_temperature_c) (spread env elites bo_temperature_c (lit 4)) (ob_min_temperature_c b) (ob_max_temperature_c b))
       (sample_around env (mean elites bo_stirrer_rpm) (spread env elites bo_stirrer_rpm (lit 50)) (ob_min_stirrer_rpm b) (ob_max_stirrer_rpm b))
       (sample_around env (mean elites bo_heating_minutes) (spread env elites bo_heating_minutes (lit 10)) (ob_min_heating_minutes b) (ob_max_heating_minutes b))
       (sample_around env (mean elites bo_stirring_minutes) (spread env elites bo_stirring_minutes (lit 10)) (ob_min_stirring_minutes b) (ob_max_stirring_minutes b)))"
    using assms(2) by (intro draws_make_candidate draws_sample_around assms(1) m w f) (simp_all add: tame_bounds_def)
  then show ?case unfolding sample_allowed_loop.simps
    by (rule draws_bind) (use Suc in \<open>auto simp: maybe_def allowed_def intro!: draws_return\<close>)
qed

abbreviation all_allowed :: "problem \<Rightarrow> candidate list \<Rightarrow> bool" where
  "all_allowed p \<equiv> list_all (allowed (pb_bounds p) (pb_zones p))"

lemma push_allowed: "in_box b c \<Longrightarrow> list_all (allowed b zones) xs \<Longrightarrow> list_all (allowed b zones) (push_if_allowed xs c zones)"
  by (simp add: push_if_allowed_def allowed_def)

lemma push_nonempty: "xs \<noteq> [] \<Longrightarrow> push_if_allowed xs c zones \<noteq> []"
  by (simp add: push_if_allowed_def)

lemma draws_seed_elites:
  assumes "tame_bounds b" "list_all tame_outcome elites" "list_all (allowed b zones) xs"
  shows "draws (list_all (allowed b zones)) (seed_elites elites b zones xs)"
  using assms(2,3)
proof (induction elites arbitrary: xs)
  case (Cons elite elites)
  then show ?case
    using draws_outcome_candidate [OF assms(1), of elite] by (auto intro!: draws_bind [where Q = "in_box b"] push_allowed)
qed (simp add: draws_return)

lemma draws_seed_samples:
  assumes "lawful env" "tame_problem p" "all_allowed p xs \<and> (q \<longrightarrow> xs \<noteq> [])"
  shows "draws (\<lambda>ys. all_allowed p ys \<and> (q \<longrightarrow> ys \<noteq> [])) (seed_samples env (pb_elites p) (pb_bounds p) (pb_zones p) n xs)"
  using assms(3)
proof (induction n arbitrary: xs)
  case (Suc n)
  have "draws (maybe (allowed (pb_bounds p) (pb_zones p))) (sample_allowed_candidate env (pb_elites p) (pb_bounds p) (pb_zones p))"
    using draws_sample_allowed assms(1,2) unfolding sample_allowed_candidate_def tame_problem_def by blast
  then show ?case unfolding seed_samples.simps
    by (rule draws_bind) (use Suc in \<open>auto simp: maybe_def split: option.splits intro!: Suc.IH\<close>)
qed (simp add: draws_return)

lemma draws_seed_population:
  assumes "lawful env" "tame_problem p"
  shows "draws (\<lambda>ys. all_allowed p ys \<and> (safe_midpoint (pb_bounds p) (pb_zones p) \<noteq> None \<longrightarrow> ys \<noteq> []))
     (seed_population env (pb_elites p) (pb_bounds p) (pb_zones p))"
  unfolding seed_population_def
proof (rule draws_bind [OF draws_seed_elites [where xs = "[]"]])
  show "tame_bounds (pb_bounds p)" "list_all tame_outcome (pb_elites p)" using assms(2) by (simp_all add: tame_problem_def)
  fix xs assume xs: "all_allowed p xs"
  have "all_allowed p (case safe_midpoint (pb_bounds p) (pb_zones p) of Some c \<Rightarrow> push_if_allowed xs c (pb_zones p) | None \<Rightarrow> xs)
     \<and> (safe_midpoint (pb_bounds p) (pb_zones p) \<noteq> None \<longrightarrow>
          (case safe_midpoint (pb_bounds p) (pb_zones p) of Some c \<Rightarrow> push_if_allowed xs c (pb_zones p) | None \<Rightarrow> xs) \<noteq> [])"
    using xs safe_midpoint_allowed [of "pb_bounds p" "pb_zones p"] assms(2)
    by (auto simp: tame_problem_def push_if_allowed_def allowed_def split: option.splits)
  then show "draws (\<lambda>ys. all_allowed p ys \<and> (safe_midpoint (pb_bounds p) (pb_zones p) \<noteq> None \<longrightarrow> ys \<noteq> []))
      (seed_samples env (pb_elites p) (pb_bounds p) (pb_zones p) 32
        (case safe_midpoint (pb_bounds p) (pb_zones p) of Some c \<Rightarrow> push_if_allowed xs c (pb_zones p) | None \<Rightarrow> xs))"
    by (rule draws_seed_samples [OF assms])
qed simp

lemma mset_insert_desc: "mset (insert_desc key x xs) = add_mset x (mset xs)"
  by (induction xs) auto

lemma mset_sort_desc [simp]: "mset (sort_desc key xs) = mset xs"
  by (induction xs) (simp_all add: sort_desc_def mset_insert_desc)

lemma set_sort_desc [simp]: "set (sort_desc key xs) = set xs" and length_sort_desc [simp]: "length (sort_desc key xs) = length xs"
  using mset_sort_desc [of key xs] by (metis set_mset_mset, metis size_mset)

lemma sort_desc_Nil_iff [simp]: "sort_desc key xs = [] \<longleftrightarrow> xs = []"
  using length_sort_desc [of key xs] by (metis length_0_conv)

lemma draws_child:
  assumes "lawful env" "tame_problem p" "all_allowed p parents" "parents \<noteq> []"
  shows "draws (in_box (pb_bounds p)) (child_of env p parents)"
proof -
  have b: "tame_bounds (pb_bounds p)" using assms(2) by (simp add: tame_problem_def)
  have i: "draws (\<lambda>i. i < length parents) (oe_index env (length parents))" using assms(1,4) by (simp add: lawful_def)
  have pick: "draws (in_box (pb_bounds p)) (dlift (nth_opt parents i))" if "i < length parents" for i
    using that assms(3) by (auto simp: nth_opt_def list_all_length allowed_def intro!: draws_lift)
  show ?thesis unfolding child_of_def
    by (intro draws_bind [OF i] draws_bind [OF pick] draws_bind [OF draws_crossover [OF assms(1) b]]
        draws_bind [OF draws_mutate [OF assms(1) b]] draws_trend [OF assms(2)]) simp_all
qed

lemma draws_breed:
  assumes "lawful env" "tame_problem p" "all_allowed p parents" "parents \<noteq> []" "all_allowed p xs" "xs \<noteq> []"
  shows "draws (\<lambda>ys. all_allowed p ys \<and> ys \<noteq> []) (breed env p parents n xs)"
  using assms(5,6)
proof (induction n arbitrary: xs)
  case (Suc n)
  then show ?case unfolding breed.simps
    by (intro draws_bind [OF draws_child [OF assms(1-4)]] Suc.IH push_allowed push_nonempty)
qed (simp add: draws_return)

lemma draws_evolve:
  assumes "lawful env" "tame_problem p" "all_allowed p xs" "xs \<noteq> []"
  shows "draws (\<lambda>ys. all_allowed p ys \<and> ys \<noteq> []) (evolve env p n xs)"
  using assms(3,4)
proof (induction n arbitrary: xs)
  case (Suc n)
  let ?parents = "take 12 (sort_desc (quality env p) xs)"
  have "all_allowed p ?parents" "?parents \<noteq> []" using Suc.prems by (auto simp: list_all_iff dest!: in_set_takeD)
  then show ?case unfolding evolve.simps Let_def
    by (intro draws_bind [OF draws_breed [OF assms(1,2)]] Suc.IH) simp_all
qed (simp add: draws_return)

lemma draws_anneal:
  assumes "lawful env" "tame_problem p" "allowed (pb_bounds p) (pb_zones p) current" "bnd 118 score" "bnd 3 heat"
  shows "draws (allowed (pb_bounds p) (pb_zones p)) (anneal env p n current score heat)"
  using assms(3-5)
proof (induction n arbitrary: current score heat)
  case (Suc n)
  have b: "tame_bounds (pb_bounds p)" using assms(2) by (simp add: tame_problem_def)
  have cool: "bnd 3 (f64_mul heat (lit (86 / 100)))" using bnd_mul [OF Suc.prems(3) lit_bnd [of "86 / 100"]] by simp
  have scale: "is_finite (f64_div heat (lit 8))" using bnd_div [OF Suc.prems(3), of "Num 8" 0] bnd_finite by simp
  have box: "in_box (pb_bounds p) current" using Suc.prems(1) by (simp add: allowed_def)
  have warm: "is_finite (f64_max heat (lit (1 / 1000)))" "1 / 2 ^ 10 \<le> fval (f64_max heat (lit (1 / 1000)))"
  proof -
    have l: "is_finite (lit (1 / 1000))" "1 / 2 ^ 10 \<le> fval (lit (1 / 1000))"
      using bnd_finite [OF lit_bnd [of "1 / 1000"]] rnd_lower [of 10 "1 / 1000"] by simp_all
    then show f: "is_finite (f64_max heat (lit (1 / 1000)))" using bnd_finite [OF Suc.prems(3)] by (simp add: f64_max_def)
    show "1 / 2 ^ 10 \<le> fval (f64_max heat (lit (1 / 1000)))"
      using f64_max_right [of "lit (1 / 1000)" heat] l f by (simp add: f64_le_finite)
  qed
  have step: "draws (allowed (pb_bounds p) (pb_zones p))
     (if is_forbidden x (pb_zones p) then anneal env p n current score (f64_mul heat (lit (86 / 100)))
      else dbind (dlift (f64_clamp (oe_exp env (f64_div (f64_sub (quality env p x) score) (f64_max heat (lit (1 / 1000))))) (lit 0) (lit 1)))
          (\<lambda>probability. dbind (if f64_le (lit 0) (f64_sub (quality env p x) score) then dreturn True else oe_bool env probability) (\<lambda>accepted.
          if accepted then anneal env p n x (quality env p x) (f64_mul heat (lit (86 / 100)))
          else anneal env p n current score (f64_mul heat (lit (86 / 100))))))" if x: "in_box (pb_bounds p) x" for x
  proof (cases "is_forbidden x (pb_zones p)")
    case True
    then show ?thesis using Suc.IH [OF Suc.prems(1,2) cool] by simp
  next
    case False
    let ?e = "oe_exp env (f64_div (f64_sub (quality env p x) score) (f64_max heat (lit (1 / 1000))))"
    have q: "bnd 118 (quality env p x)" by (rule quality_bnd [OF assms(1,2) x])
    have "bnd 129 (f64_div (f64_sub (quality env p x) score) (f64_max heat (lit (1 / 1000))))"
      using bnd_div [OF bnd_sub [OF q Suc.prems(2)] warm] by simp
    then have "\<not> is_nan ?e" using assms(1) bnd_finite is_finite_not_nan unfolding lawful_def by blast
    then have clamp: "draws (in_range (lit 0) (lit 1)) (dlift (f64_clamp ?e (lit 0) (lit 1)))"
      using f64_clamp_Some [of "lit 0" "lit 1" ?e] f64_clamp_in_range [of ?e "lit 0" "lit 1"] by (auto simp: draws_def dlift_def)
    have next_step: "draws (allowed (pb_bounds p) (pb_zones p)) (if accepted then anneal env p n x (quality env p x) (f64_mul heat (lit (86 / 100)))
          else anneal env p n current score (f64_mul heat (lit (86 / 100))))" for accepted
    proof -
      have "allowed (pb_bounds p) (pb_zones p) x" using x False by (simp add: allowed_def)
      then show ?thesis using Suc.IH [OF _ q cool, of x] Suc.IH [OF Suc.prems(1,2) cool] by simp
    qed
    have choose: "draws (\<lambda>_. True) (if f64_le (lit 0) (f64_sub (quality env p x) score) then dreturn True else oe_bool env probability)"
      if "in_range (lit 0) (lit 1) probability" for probability
      using assms(1) that by (auto simp: lawful_def intro: draws_return)
    show ?thesis using False by (simp only: if_False) (intro draws_bind [OF clamp] draws_bind [OF choose] next_step)
  qed
  show ?case unfolding anneal.simps Let_def
    by (intro draws_bind [OF draws_mutate [OF assms(1) b box scale]] draws_bind [OF draws_trend [OF assms(2)]] step)
qed (simp add: draws_return)

lemma draws_hybrid:
  assumes "lawful env" "tame_problem p"
  shows "draws (\<lambda>r. maybe (\<lambda>s. allowed (pb_bounds p) (pb_zones p) (so_candidate s)) r
      \<and> (safe_midpoint (pb_bounds p) (pb_zones p) \<noteq> None \<longrightarrow> r \<noteq> None)) (hybrid_search_candidate env p)"
  unfolding hybrid_search_candidate_def
proof (rule draws_bind [OF draws_seed_population [OF assms]])
  fix xs assume xs: "all_allowed p xs \<and> (safe_midpoint (pb_bounds p) (pb_zones p) \<noteq> None \<longrightarrow> xs \<noteq> [])"
  let ?P = "\<lambda>r. maybe (\<lambda>s. allowed (pb_bounds p) (pb_zones p) (so_candidate s)) r \<and> (safe_midpoint (pb_bounds p) (pb_zones p) \<noteq> None \<longrightarrow> r \<noteq> None)"
  have first: "draws (allowed (pb_bounds p) (pb_zones p)) (dlift (nth_opt (sort_desc (quality env p) ys) 0))"
    if "all_allowed p ys \<and> ys \<noteq> []" for ys
  proof -
    have "sort_desc (quality env p) ys \<noteq> []" using that by simp
    then have "nth_opt (sort_desc (quality env p) ys) 0 = Some (hd (sort_desc (quality env p) ys))"
        "hd (sort_desc (quality env p) ys) \<in> set ys"
      using hd_in_set [of "sort_desc (quality env p) ys"] by (simp_all add: nth_opt_def hd_conv_nth)
    then show ?thesis using that by (auto simp: list_all_iff intro: draws_lift)
  qed
  have heat: "bnd 3 (lit 8)" by (simp add: bnd_def)
  show "draws ?P (if xs = [] then dreturn None else dbind (evolve env p 18 xs) (\<lambda>population.
       dbind (dlift (nth_opt (sort_desc (quality env p) population) 0)) (\<lambda>current.
       dbind (anneal env p 32 current (quality env p current) (lit 8)) (\<lambda>found.
       dreturn (Some \<lparr>so_candidate = found,
         so_note = ''Local GA/SA/trend-correction optimizer searched with genetic crossover/mutation, simulated annealing acceptance, and elite trend correction.''\<rparr>)))))"
  proof (cases "xs = []")
    case True
    then show ?thesis using xs by (simp add: draws_return maybe_def)
  next
    case False
    then show ?thesis
      using xs by (simp only: if_False)
        (intro draws_bind [OF draws_evolve [OF assms]] draws_bind [OF first] draws_bind [OF draws_anneal [OF assms _ _ heat]] draws_return,
         simp_all add: maybe_def quality_bnd [OF assms] allowed_def)
  qed
qed

section \<open>The recommendation\<close>

definition wf_memory_bounds :: "memory_bounds \<Rightarrow> bool" where
  "wf_memory_bounds m \<longleftrightarrow> list_all (maybe wf_f64)
     [mb_min_temperature_c m, mb_max_temperature_c m, mb_min_stirrer_rpm m, mb_max_stirrer_rpm m,
      mb_min_heating_minutes m, mb_max_heating_minutes m, mb_min_stirring_minutes m, mb_max_stirring_minutes m]"

definition tame_memory :: "ai_memory \<Rightarrow> bool" where
  "tame_memory m \<longleftrightarrow> wf_memory_bounds (rec_bounds (recommendation m)) \<and> list_all (tame_outcome \<circ> reference_to_outcome) (reference_batches m)
     \<and> tame (fst (weights (objective m))) \<and> tame (snd (weights (objective m)))"

lemma tighten_wf: "wf_f64 base \<Longrightarrow> maybe wf_f64 m \<Longrightarrow> wf_f64 (tighten_min m base) \<and> wf_f64 (tighten_max m base)"
  by (auto simp: tighten_min_def tighten_max_def f64_max_def f64_min_def maybe_def split: option.splits)

lemma effective_tame:
  assumes "tame_bounds base" "is_ok (validate_optimizer_bounds base)" "tame_memory m"
  shows "tame_bounds (effective_optimizer_bounds m base)"
proof -
  let ?b = "effective_optimizer_bounds m base"
  have v: "is_ok (validate_optimizer_bounds ?b)" "bounds_within ?b base" using effective_bounds_valid [OF assms(2)] by simp_all
  have wf: "wf_bounds ?b"
    using assms(1,3) tighten_wf
    by (auto simp: effective_optimizer_bounds_def tighten_def Let_def wf_bounds_def tame_bounds_def tame_memory_def wf_memory_bounds_def)
  have between: "tame lo \<and> tame hi" if "tame lo0" "tame hi0" "f64_le lo0 lo" "f64_le lo hi" "f64_le hi hi0" for lo0 hi0 lo hi
    using in_range_bnd [of lo0 hi0 lo 20] in_range_bnd [of lo0 hi0 hi 20] that f64_le_trans by (auto simp: in_range_def)
  show ?thesis
    using assms(1) v wf between [of "ob_min_temperature_c base" "ob_max_temperature_c base" "ob_min_temperature_c ?b" "ob_max_temperature_c ?b"]
      between [of "ob_min_stirrer_rpm base" "ob_max_stirrer_rpm base" "ob_min_stirrer_rpm ?b" "ob_max_stirrer_rpm ?b"]
      between [of "ob_min_heating_minutes base" "ob_max_heating_minutes base" "ob_min_heating_minutes ?b" "ob_max_heating_minutes ?b"]
      between [of "ob_min_stirring_minutes base" "ob_max_stirring_minutes base" "ob_min_stirring_minutes ?b" "ob_max_stirring_minutes ?b"]
    unfolding tame_bounds_def bounds_within_def validate_optimizer_bounds_iff by blast
qed

lemma cast_ge_1:
  assumes "f64_le (Num 1) x"
  shows "1 \<le> nat (uint (f64_to_u64 x))"
proof -
  have "1 \<le> cast_int 0 (2 ^ 64 - 1) x" "cast_int 0 (2 ^ 64 - 1) x < 2 ^ 64"
    using assms by (cases x; auto simp: cast_int_def trunc_rat_def le_floor_iff)+
  then show ?thesis by (simp add: uint_word_of_int)
qed

lemma elite_count_positive: "1 \<le> elite_count_of n"
  unfolding elite_count_of_def using f64_max_right [of "lit 1"] by (intro cast_ge_1) simp

text \<open>The bounds and the zones that a recommendation works with.\<close>

definition search_bounds :: "optimizer_bounds \<Rightarrow> ai_memory option \<Rightarrow> optimizer_bounds" where
  "search_bounds bounds memory = (case memory of Some m \<Rightarrow> effective_optimizer_bounds m bounds | None \<Rightarrow> bounds)"

definition search_zones :: "ai_memory option \<Rightarrow> memory_zone list" where
  "search_zones memory = (case enabled_memory memory of Some m \<Rightarrow> forbidden_zones m | None \<Rightarrow> [])"

definition recommends :: "recommendation_result \<Rightarrow> candidate \<Rightarrow> bool" where
  "recommends r c \<longleftrightarrow> r_temperature_c r = round2 (cd_temperature_c c) \<and> r_stirrer_rpm r = round2 (cd_stirrer_rpm c)
     \<and> r_heating_minutes r = round2 (cd_heating_minutes c) \<and> r_stirring_minutes r = round2 (cd_stirring_minutes c)"

definition recommendation_ok :: "optimizer_bounds \<Rightarrow> memory_zone list \<Rightarrow> recommendation_result option \<Rightarrow> bool" where
  "recommendation_ok b zones result \<longleftrightarrow> (case result of
       None \<Rightarrow> list_all (\<lambda>c. is_forbidden c zones) (center_of b # anchors b)
     | Some r \<Rightarrow> (\<exists>c. allowed b zones c \<and> recommends r c))"

lemma safe_midpoint_None: "safe_midpoint b zones = None \<longleftrightarrow> list_all (\<lambda>c. is_forbidden c zones) (center_of b # anchors b)"
  by (auto simp: safe_midpoint_def find_None_iff list_all_iff)

lemma recommendation_ok_simps:
  "recommendation_ok b zones None \<longleftrightarrow> safe_midpoint b zones = None"
  "recommendation_ok b zones (Some r) \<longleftrightarrow> (\<exists>c. allowed b zones c \<and> recommends r c)"
  by (simp_all only: recommendation_ok_def safe_midpoint_None option.case)

lemma draws_search:
  assumes "lawful env" "tame_problem p"
  shows "draws (recommendation_ok (pb_bounds p) (pb_zones p)) (search_recommendation env p n best k l memory)"
proof -
  let ?ok = "\<lambda>c. allowed (pb_bounds p) (pb_zones p) c"
  have b: "tame_bounds (pb_bounds p)" using assms(2) by (simp add: tame_problem_def)
  have sampled: "draws (maybe ?ok) (sample_allowed_candidate env (pb_elites p) (pb_bounds p) (pb_zones p))"
    using draws_sample_allowed assms unfolding sample_allowed_candidate_def tame_problem_def by blast
  have found: "draws (maybe (\<lambda>s. ?ok (so_candidate s))) (case r of
         Some found \<Rightarrow> dreturn (Some found)
       | None \<Rightarrow> dbind (sample_allowed_candidate env (pb_elites p) (pb_bounds p) (pb_zones p)) (\<lambda>sampled.
           dreturn (map_option (\<lambda>c. \<lparr>so_candidate = c,
             so_note = ''Local stochastic optimizer used elite-neighborhood fallback sampling.''\<rparr>) sampled)))"
    if "maybe (\<lambda>s. ?ok (so_candidate s)) r \<and> q" for r q
    using that by (cases r) (auto intro!: draws_return draws_bind [OF sampled] simp: maybe_def)
  show ?thesis unfolding search_recommendation_def
  proof (intro draws_bind [OF draws_hybrid [OF assms]] draws_bind [OF found] draws_return)
    fix searched result
    assume "maybe (\<lambda>s. ?ok (so_candidate s)) result"
    then show "recommendation_ok (pb_bounds p) (pb_zones p) (map_option (\<lambda>(c, forbidden_note, optimizer_note).
         \<lparr>based_on_batch_count = int k, r_temperature_c = round2 (cd_temperature_c c), r_stirrer_rpm = round2 (cd_stirrer_rpm c),
          r_heating_minutes = round2 (cd_heating_minutes c), r_stirring_minutes = round2 (cd_stirring_minutes c),
          expected_score = round2 (score_with_weights best (pb_weights p)),
          rationale_text = rationale best n k l memory forbidden_note optimizer_note\<rparr>)
       (case result of
          Some search \<Rightarrow> Some (so_candidate search, '''', so_note search)
        | None \<Rightarrow> map_option (\<lambda>c. (c, '' All sampled candidates matched a forbidden zone; using the nearest safe midpoint.'',
            ''Local optimizer fell back to nearest safe midpoint.'')) (safe_midpoint (pb_bounds p) (pb_zones p))))"
      by (cases result; cases "safe_midpoint (pb_bounds p) (pb_zones p)")
         (auto simp: maybe_def recommendation_ok_simps recommends_def dest: safe_midpoint_allowed [OF b])
  qed
qed

lemma draws_recommend:
  assumes "lawful env" "tame_bounds bounds" "is_ok (validate_optimizer_bounds bounds)"
    and "maybe tame_memory memory" "list_all tame_outcome outcomes"
    and "length outcomes + (case memory of Some m \<Rightarrow> length (reference_batches m) | None \<Rightarrow> 0) \<le> 2 ^ 20"
  shows "draws (recommendation_ok (search_bounds bounds memory) (search_zones memory)) (recommend_with_memory env bounds memory outcomes)"
proof -
  define b where "b = search_bounds bounds memory"
  define zones where "zones = search_zones memory"
  define ws where "ws = (case memory of Some m \<Rightarrow> weights (objective m) | None \<Rightarrow> (lit (8 / 10), lit (2 / 10)))"
  define refs where "refs = (case memory of
       Some m \<Rightarrow> if rec_enabled (recommendation m) \<and> use_reference_batches (recommendation m) then map reference_to_outcome (reference_batches m) else []
     | None \<Rightarrow> [])"
  define sorted where "sorted = sort_desc (\<lambda>outcome. score_with_weights outcome ws) (refs @ outcomes)"
  define count where "count = elite_count_of (length sorted)"
  define elites where "elites = take (min count (length sorted)) sorted"
  define p where "p = \<lparr>pb_outcomes = sorted, pb_elites = elites, pb_bounds = b, pb_zones = zones, pb_weights = ws\<rparr>"
  have b: "tame_bounds b"
    using effective_tame [OF assms(2,3)] assms(2,4) by (auto simp: b_def search_bounds_def maybe_def split: option.splits)
  have data: "list_all tame_outcome (refs @ outcomes)" "length (refs @ outcomes) \<le> 2 ^ 20"
    using assms(4,5,6) by (auto simp: refs_def maybe_def tame_memory_def list_all_iff split: option.splits)
  have w: "tame (fst ws)" "tame (snd ws)"
    using assms(4) bnd_mono [OF lit_bnd [of "8 / 10"], of 20] bnd_mono [OF lit_bnd [of "2 / 10"], of 20]
    by (auto simp: ws_def maybe_def tame_memory_def split: option.splits)
  have r: "recommend_with_memory env bounds memory outcomes =
     (if length (refs @ outcomes) < 3
      then dreturn (map_option (\<lambda>midpoint. midpoint_recommendation b midpoint (int (length outcomes)) memory (length refs)) (safe_midpoint b zones))
      else dbind (dlift (nth_opt elites 0)) (\<lambda>best. search_recommendation env p count best (length outcomes) (length refs) memory))"
    unfolding recommend_with_memory_def Let_def p_def elites_def count_def sorted_def refs_def ws_def zones_def b_def
      search_bounds_def search_zones_def ..
  show ?thesis
  proof (cases "length (refs @ outcomes) < 3")
    case True
    then have "recommend_with_memory env bounds memory outcomes = dreturn (map_option (\<lambda>midpoint.
        midpoint_recommendation b midpoint (int (length outcomes)) memory (length refs)) (safe_midpoint b zones))"
      unfolding r by (simp only: if_True)
    moreover have "recommendation_ok b zones (map_option (\<lambda>midpoint.
        midpoint_recommendation b midpoint (int (length outcomes)) memory (length refs)) (safe_midpoint b zones))"
      using safe_midpoint_allowed [OF b]
      by (cases "safe_midpoint b zones") (auto simp: recommendation_ok_simps recommends_def midpoint_recommendation_def Let_def)
    ultimately show ?thesis unfolding b_def zones_def by (simp add: draws_return)
  next
    case False
    have elites: "elites \<noteq> []" "length elites \<le> 2 ^ 20" "set elites \<subseteq> set (refs @ outcomes)"
      using False data(2) elite_count_positive [of "length sorted"] set_take_subset [of "min count (length sorted)" sorted]
      by (auto simp: elites_def sorted_def count_def)
    have p: "tame_problem p"
      using b w data elites False by (auto simp: tame_problem_def p_def sorted_def list_all_iff)
    have best: "nth_opt elites 0 = Some (elites ! 0)" using elites(1) by (simp add: nth_opt_def)
    show ?thesis
      using draws_search [OF assms(1) p, of count "elites ! 0" "length outcomes" "length refs" memory] False
      unfolding r best b_def [symmetric] zones_def [symmetric] by (simp add: p_def dbind_lift)
  qed
qed


text \<open>Reference batches of the memory file never collide with recorded batches: their numbers are negative.\<close>

lemma reference_id_negative: "- 1000000 \<le> bo_batch_id (reference_to_outcome ref) \<and> bo_batch_id (reference_to_outcome ref) \<le> - 1"
proof -
  have "- (m mod 1000000 + 1) \<le> - 1 \<and> - 1000000 \<le> - (m mod 1000000 + 1)" for m :: int
    using pos_mod_bound [of 1000000 m] pos_mod_sign [of 1000000 m] by simp
  then show ?thesis by (simp add: reference_to_outcome_def stable_negative_id_def Let_def)
qed

section \<open>Witnesses\<close>

text \<open>A generator that always draws the lower end.\<close>

definition demo_opt_env :: "unit opt_env" where
  "demo_opt_env = \<lparr>oe_range = (\<lambda>lo hi r. Some (lo, r)), oe_index = (\<lambda>n r. Some (0, r)), oe_bool = (\<lambda>q r. Some (False, r)),
     oe_sqrt = (\<lambda>x. x), oe_exp = (\<lambda>x. Num 1)\<rparr>"

lemma demo_lawful: "lawful demo_opt_env"
proof -
  have "f64_le x (f64_max x (Num 1))" if "f64_le (Num 0) x" for x
    using that f64_lt_imp_le by (auto simp: f64_max_def dest: f64_le_not_nan)
  then show ?thesis
    by (auto simp: lawful_def demo_opt_env_def draws_def in_range_def dest: f64_le_not_nan)
qed

definition demo_outcome :: "rat \<Rightarrow> batch_outcome" where
  "demo_outcome t = \<lparr>bo_batch_id = 1, bo_temperature_c = Num t, bo_stirrer_rpm = Num 300, bo_heating_minutes = Num 60,
     bo_stirring_minutes = Num 60, bo_yield_percent = Num 90, bo_product_ratio = Num 1\<rparr>"

lemma representable_numeral: "(numeral n :: int) < 2 ^ 53 \<Longrightarrow> representable (numeral n)"
  using representable_of_int [of "numeral n"] by simp

lemma shipped_tame: "tame_bounds (optimizer shipped_safety)"
  by (simp add: shipped_safety_def tame_bounds_def wf_bounds_def bnd_def wf_f64_def representable_numeral)


text \<open>The zones are checked before rounding, so a recommendation can lie in a zone: where the bounds leave only 124 +
  255/256 degrees, just below a zone that starts at 125 degrees, the recommended temperature is 125 degrees.\<close>

lemma recommendation_in_forbidden_zone:
  defines "edge \<equiv> Num (31999 / 256)"
  defines "zone \<equiv> \<lparr>mz_name = ''hot'', mz_reason = '''', mz_min_temperature_c = Some (Num 125), mz_max_temperature_c = None,
     mz_min_stirrer_rpm = None, mz_max_stirrer_rpm = None, mz_min_heating_minutes = None, mz_max_heating_minutes = None,
     mz_min_stirring_minutes = None, mz_max_stirring_minutes = None\<rparr>"
  defines "bounds \<equiv> (optimizer shipped_safety)\<lparr>ob_min_temperature_c := edge, ob_max_temperature_c := edge\<rparr>"
  defines "memory \<equiv> demo_memory\<lparr>recommendation := \<lparr>rec_enabled = True, use_reference_batches = False, rec_bounds = default_memory_bounds\<rparr>,
     forbidden_zones := [zone]\<rparr>"
  shows "\<exists>r. recommend_with_memory env bounds (Some memory) [] rng = Some (Some r, rng)
     \<and> memory_zone_contains zone (r_temperature_c r) (r_stirrer_rpm r) (r_heating_minutes r) (r_stirring_minutes r)"
proof -
  have double: "representable (31999 / 128)" unfolding representable_def
    by (rule conjI, rule exI [of _ 31999], rule exI [of _ "- 7"]) (simp_all add: f64_limit_def power_int_def power_divide)
  have once: "representable (31999 / 256)" unfolding representable_def
    by (rule conjI, rule exI [of _ 31999], rule exI [of _ "- 8"]) (simp_all add: f64_limit_def power_int_def power_divide)
  have mid: "f64_div (f64_add edge edge) (Num 2) = edge"
    using rnd_representable [OF double] rnd_representable [OF once] by (simp add: edge_def f64_add_def f64_div_def Let_def)
  have eff: "effective_optimizer_bounds memory bounds = bounds"
    by (simp add: effective_optimizer_bounds_def memory_def tighten_def default_memory_bounds_def tighten_min_def tighten_max_def Let_def)
  have "\<not> is_forbidden (center_of bounds) [zone]"
    by (simp add: is_forbidden_def center_of_def bounds_def Let_def mid zone_def memory_zone_contains_def check_dimension_def) (simp add: edge_def)
  then have safe: "safe_midpoint bounds [zone] = Some (center_of bounds)" by (simp add: safe_midpoint_def)
  have m: "recommendation memory = \<lparr>rec_enabled = True, use_reference_batches = False, rec_bounds = default_memory_bounds\<rparr>" "forbidden_zones memory = [zone]"
    by (simp_all add: memory_def)
  have "recommend_with_memory env bounds (Some memory) [] rng = Some (Some (midpoint_recommendation bounds (center_of bounds) 0 (Some memory) 0), rng)"
    by (simp add: recommend_with_memory_def eff m enabled_memory_def safe dreturn_def Let_def)
  moreover have "memory_zone_contains zone (round2 edge) s h w" for s h w
    unfolding edge_def edge_rounds_into_zone by (simp add: zone_def memory_zone_contains_def check_dimension_def)
  ultimately show ?thesis
    by (simp add: midpoint_recommendation_def Let_def center_of_def bounds_def mid)
qed

end
