(* ===== verification/Integration_Db.thy ===== *)
theory Integration_Db
  imports Process_Api
begin

text \<open>
  The table of integration tasks (\<open>db.rs\<close>): remote requests are stored before they are executed, so that a
  request that is delivered again finds its own row. The operations run under the write lock of the database,
  so each is one atomic step on the table; a fault of the database can hit before the change or after it,
  and the caller sees an error in both cases. Requests are kept as flat JSON objects; \<open>reparse\<close> is what reading
  the stored (and possibly encrypted) text of a request returns.
\<close>

section \<open>Rows\<close>

datatype request_field = FieldNull | FieldText string | FieldInt int | FieldNumber f64

type_synonym request_value = "(string \<times> request_field) list"

text \<open>The receipt kept with a task.\<close>

datatype task_receipt =
  ReceiptNull
| ReceiptExecuting
| ReceiptTargets control_targets
| ReceiptStarted batch control_targets
| ReceiptStopped process_stop_response
| ReceiptError status_code string

record integration_task =
  task_id :: int
  external_task_id :: "string option"
  task_source :: string
  task_action :: string
  task_status :: string
  task_request :: request_value
  task_response :: task_receipt
  task_created_at :: time
  task_updated_at :: time

record task_table =
  tt_rows :: "integration_task list"
  tt_next :: int

section \<open>Validation of a row\<close>

fun clean_text_chars :: "string \<Rightarrow> bool \<Rightarrow> nat list \<Rightarrow> string + unit" where
  "clean_text_chars field allow_internal_space [] = Ok ()"
| "clean_text_chars field allow_internal_space (ch # rest) =
     (if is_invisible_format_char ch then Err (field @ '' must not contain invisible format characters'')
      else if is_control ch then Err (field @ '' must not contain control characters'')
      else if is_whitespace ch \<and> ch \<noteq> 0x20 then Err (field @ '' must not contain non-space whitespace'')
      else if ch = 0x20 \<and> \<not> allow_internal_space then Err (field @ '' must not contain spaces'')
      else clean_text_chars field allow_internal_space rest)"

definition validate_integration_task_clean_text :: "string \<Rightarrow> string \<Rightarrow> nat \<Rightarrow> bool \<Rightarrow> string + unit" where
  "validate_integration_task_clean_text field value max_chars allow_internal_space =
     (let cs = utf8_chars value in
      if value = [] then Err (field @ '' must not be empty'')
      else if trim_chars cs \<noteq> cs then Err (field @ '' must not have leading or trailing whitespace'')
      else if max_chars < length cs
      then Err (field @ '' must be at most '' @ show_int (int max_chars) @ '' characters, got '' @ show_int (int (length cs)))
      else clean_text_chars field allow_internal_space cs)"

definition source_char :: "nat \<Rightarrow> bool" where
  "source_char ch \<longleftrightarrow> 0x61 \<le> ch \<and> ch \<le> 0x7A \<or> 0x30 \<le> ch \<and> ch \<le> 0x39 \<or> ch \<in> {0x5F, 0x2D, 0x2E}"

definition validate_integration_task_source :: "string \<Rightarrow> string + unit" where
  "validate_integration_task_source source =
     bind_res (validate_integration_task_clean_text ''source'' source 40 False) (\<lambda>_.
     if list_all source_char (utf8_chars source) then Ok ()
     else Err (''source must contain only lowercase ASCII letters, digits, '.', '_' or '-'' @ [CHR 0x27]))"

definition validate_integration_task_external_id :: "string \<Rightarrow> string + unit" where
  "validate_integration_task_external_id ext = validate_integration_task_clean_text ''external_task_id'' ext 120 True"

definition validate_integration_task_action :: "string \<Rightarrow> string + unit" where
  "validate_integration_task_action action =
     (if action \<in> {''set_targets'', ''start_process'', ''stop_process''} then Ok ()
      else Err ''action must be one of set_targets, start_process, stop_process'')"

definition validate_integration_task_status :: "string \<Rightarrow> string + unit" where
  "validate_integration_task_status status =
     (if status \<in> {''received'', ''executing'', ''executed'', ''failed'', ''rejected''} then Ok ()
      else Err ''status must be one of received, executing, executed, failed, rejected'')"

definition validate_integration_task_terminal_status :: "string \<Rightarrow> string + unit" where
  "validate_integration_task_terminal_status status =
     (if status \<in> {''executed'', ''failed'', ''rejected''} then Ok ()
      else Err ''status update must be one of executed, failed, rejected'')"

definition validate_integration_task_response_payload :: "string \<Rightarrow> task_receipt \<Rightarrow> string + unit" where
  "validate_integration_task_response_payload status response =
     (if status = ''received'' \<and> response = ReceiptNull then Ok ()
      else if response \<noteq> ReceiptNull then Ok ()
      else Err ''response JSON must be an object once a task leaves received status'')"

definition validate_integration_task_record :: "integration_task \<Rightarrow> string + unit" where
  "validate_integration_task_record task = run_checks
     [validate_integration_task_source (task_source task),
      (case external_task_id task of None \<Rightarrow> Ok () | Some ext \<Rightarrow> validate_integration_task_external_id ext),
      validate_integration_task_action (task_action task),
      validate_integration_task_status (task_status task),
      validate_integration_task_response_payload (task_status task) (task_response task)]"

definition ensure_valid_integration_task_create_for_insert :: "string \<Rightarrow> string option \<Rightarrow> string \<Rightarrow> anyhow + unit" where
  "ensure_valid_integration_task_create_for_insert source ext action =
     map_err (\<lambda>reason. [''invalid integration task rejected before DB insert: '' @ reason]) (run_checks
       [validate_integration_task_source source,
        (case ext of None \<Rightarrow> Ok () | Some ext \<Rightarrow> validate_integration_task_external_id ext),
        validate_integration_task_action action])"

definition ensure_valid_integration_task_update_for_insert :: "string \<Rightarrow> task_receipt \<Rightarrow> anyhow + unit" where
  "ensure_valid_integration_task_update_for_insert status response =
     map_err (\<lambda>reason. [''invalid integration task update rejected before DB insert: '' @ reason]) (run_checks
       [validate_integration_task_terminal_status status,
        validate_integration_task_response_payload status response])"

section \<open>Reading\<close>

text \<open>A row that does not pass validation is an error of the read.\<close>

definition integration_task_from_row :: "integration_task \<Rightarrow> anyhow + integration_task" where
  "integration_task_from_row row = (case validate_integration_task_record row of
       Inl reason \<Rightarrow> Err [''invalid integration task in database: '' @ reason]
     | Inr _ \<Rightarrow> Ok row)"

definition load_optional :: "integration_task option \<Rightarrow> anyhow + integration_task option" where
  "load_optional found = (case found of None \<Rightarrow> Ok None
     | Some row \<Rightarrow> bind_res (integration_task_from_row row) (\<lambda>task. Ok (Some task)))"

definition integration_task_by_id :: "int \<Rightarrow> task_table \<Rightarrow> anyhow + integration_task option" where
  "integration_task_by_id i tbl = load_optional (find (\<lambda>row. task_id row = i) (tt_rows tbl))"

text \<open>The row with the smallest number for a source and an external number.\<close>

definition integration_task_by_external_id :: "string \<Rightarrow> string \<Rightarrow> task_table \<Rightarrow> anyhow + integration_task option" where
  "integration_task_by_external_id source ext tbl =
     load_optional (find (\<lambda>row. task_source row = source \<and> external_task_id row = Some ext) (tt_rows tbl))"

definition integration_tasks :: "string option \<Rightarrow> nat \<Rightarrow> task_table \<Rightarrow> integration_task list" where
  "integration_tasks source limit tbl = filter (\<lambda>row. is_ok (validate_integration_task_record row))
     (take limit (rev (filter (\<lambda>row. source = None \<or> source = Some (task_source row)) (tt_rows tbl))))"

section \<open>Writing\<close>

datatype db_fault = NoFault | FaultBefore anyhow | FaultAfter anyhow

text \<open>The partial unique index: at most one live row per source and external number.\<close>

definition live_status :: "string \<Rightarrow> bool" where
  "live_status status \<longleftrightarrow> status \<in> {''received'', ''executing'', ''executed''}"

definition unique_violation :: "string \<Rightarrow> string option \<Rightarrow> task_table \<Rightarrow> bool" where
  "unique_violation source ext tbl \<longleftrightarrow> ext \<noteq> None \<and>
     list_ex (\<lambda>row. task_source row = source \<and> external_task_id row = ext \<and> live_status (task_status row)) (tt_rows tbl)"

definition new_row ::
    "(request_value \<Rightarrow> request_value) \<Rightarrow> time \<Rightarrow> string \<Rightarrow> string option \<Rightarrow> string \<Rightarrow> request_value \<Rightarrow> int \<Rightarrow> integration_task" where
  "new_row reparse now source ext action request i =
     \<lparr>task_id = i, external_task_id = ext, task_source = source, task_action = action, task_status = ''received'',
      task_request = reparse request, task_response = ReceiptNull, task_created_at = now, task_updated_at = now\<rparr>"

definition lookup_external :: "string \<Rightarrow> string option \<Rightarrow> task_table \<Rightarrow> anyhow + integration_task option" where
  "lookup_external source ext tbl = (case ext of None \<Rightarrow> Ok None | Some e \<Rightarrow> integration_task_by_external_id source e tbl)"

definition create_integration_task ::
    "(request_value \<Rightarrow> request_value) \<Rightarrow> db_fault \<Rightarrow> time \<Rightarrow> string \<Rightarrow> string option \<Rightarrow> string \<Rightarrow> request_value
     \<Rightarrow> task_table \<Rightarrow> (anyhow + integration_task) \<times> task_table" where
  "create_integration_task reparse hit now source ext action request tbl =
     (case ensure_valid_integration_task_create_for_insert source ext action of Inl e \<Rightarrow> (Err e, tbl) | Inr _ \<Rightarrow>
      case hit of FaultBefore e \<Rightarrow> (Err e, tbl) | _ \<Rightarrow>
      case lookup_external source ext tbl of Inl e \<Rightarrow> (Err e, tbl) | Inr (Some task) \<Rightarrow> (Ok task, tbl) | Inr None \<Rightarrow>
      if unique_violation source ext tbl then
        (bind_res (lookup_external source ext tbl) (\<lambda>found. ok_or found
           [''integration task insert hit unique constraint but existing task was not readable'']), tbl)
      else
        let i = tt_next tbl;
            tbl1 = tbl\<lparr>tt_rows := tt_rows tbl @ [new_row reparse now source ext action request i], tt_next := i + 1\<rparr>
        in case hit of FaultAfter e \<Rightarrow> (Err e, tbl1) | _ \<Rightarrow>
           (bind_res (integration_task_by_id i tbl1) (\<lambda>found.
              ok_or found [''integration task was not readable after SQLx insert'']), tbl1))"

definition update_row :: "int \<Rightarrow> (integration_task \<Rightarrow> integration_task) \<Rightarrow> task_table \<Rightarrow> task_table" where
  "update_row i f tbl = tbl\<lparr>tt_rows := map (\<lambda>row. if task_id row = i then f row else row) (tt_rows tbl)\<rparr>"

definition update_integration_task ::
    "db_fault \<Rightarrow> time \<Rightarrow> int \<Rightarrow> string \<Rightarrow> task_receipt \<Rightarrow> task_table \<Rightarrow> (anyhow + integration_task option) \<times> task_table" where
  "update_integration_task hit now i status response tbl =
     (case ensure_valid_integration_task_update_for_insert status response of Inl e \<Rightarrow> (Err e, tbl) | Inr _ \<Rightarrow>
      case hit of FaultBefore e \<Rightarrow> (Err e, tbl) | _ \<Rightarrow>
      case integration_task_by_id i tbl of Inl e \<Rightarrow> (Err e, tbl) | Inr None \<Rightarrow> (Ok None, tbl) | Inr (Some _) \<Rightarrow>
      let tbl1 = update_row i (\<lambda>row. row\<lparr>task_status := status, task_response := response, task_updated_at := now\<rparr>) tbl
      in case hit of FaultAfter e \<Rightarrow> (Err e, tbl1) | _ \<Rightarrow> (integration_task_by_id i tbl1, tbl1))"

definition mark_row :: "time \<Rightarrow> integration_task \<Rightarrow> integration_task" where
  "mark_row now row = (if task_status row = ''received''
     then row\<lparr>task_status := ''executing'', task_response := ReceiptExecuting, task_updated_at := now\<rparr> else row)"

definition mark_integration_task_executing ::
    "db_fault \<Rightarrow> time \<Rightarrow> int \<Rightarrow> task_table \<Rightarrow> (anyhow + integration_task option) \<times> task_table" where
  "mark_integration_task_executing hit now i tbl =
     (case hit of FaultBefore e \<Rightarrow> (Err e, tbl) | _ \<Rightarrow>
      case integration_task_by_id i tbl of Inl e \<Rightarrow> (Err e, tbl) | Inr None \<Rightarrow> (Ok None, tbl) | Inr (Some existing) \<Rightarrow>
      if task_status existing \<noteq> ''received'' then (Ok (Some existing), tbl)
      else
        let tbl1 = update_row i (mark_row now) tbl
        in case hit of FaultAfter e \<Rightarrow> (Err e, tbl1) | _ \<Rightarrow> (integration_task_by_id i tbl1, tbl1))"

section \<open>The invariant of the table\<close>

text \<open>Rows are valid and in the order of their numbers, numbers are never used twice, and a source and an external
  number name one row.\<close>

definition row_ok :: "integration_task \<Rightarrow> bool" where
  "row_ok row \<longleftrightarrow> validate_integration_task_record row = Ok ()"

definition same_key :: "integration_task \<Rightarrow> integration_task \<Rightarrow> bool" where
  "same_key a b \<longleftrightarrow> external_task_id a \<noteq> None \<and> task_source a = task_source b \<and> external_task_id a = external_task_id b"

definition wf_tasks :: "task_table \<Rightarrow> bool" where
  "wf_tasks tbl \<longleftrightarrow> list_all row_ok (tt_rows tbl) \<and> sorted_wrt (<) (map task_id (tt_rows tbl))
     \<and> (\<forall>row \<in> set (tt_rows tbl). task_id row < tt_next tbl)
     \<and> (\<forall>a \<in> set (tt_rows tbl). \<forall>b \<in> set (tt_rows tbl). same_key a b \<longrightarrow> a = b)"

definition status_of :: "task_table \<Rightarrow> int \<Rightarrow> string option" where
  "status_of tbl i = map_option task_status (find (\<lambda>row. task_id row = i) (tt_rows tbl))"

text \<open>What time does to a table: rows stay, with what was asked, and never return to the state before execution.\<close>

definition same_request :: "integration_task \<Rightarrow> integration_task \<Rightarrow> bool" where
  "same_request a b \<longleftrightarrow> task_id a = task_id b \<and> task_source a = task_source b \<and> external_task_id a = external_task_id b
     \<and> task_action a = task_action b \<and> task_request a = task_request b \<and> task_created_at a = task_created_at b
     \<and> (task_status a \<noteq> ''received'' \<longrightarrow> task_status b \<noteq> ''received'')"

definition advances :: "task_table \<Rightarrow> task_table \<Rightarrow> bool" where
  "advances a b \<longleftrightarrow> tt_next a \<le> tt_next b \<and> (\<exists>later. list_all2 same_request (tt_rows a) (take (length (tt_rows a)) (tt_rows b))
     \<and> tt_rows b = take (length (tt_rows a)) (tt_rows b) @ later)"

lemma row_ok_iff: "row_ok row \<longleftrightarrow> integration_task_from_row row = Ok row"
  by (auto simp: row_ok_def integration_task_from_row_def split: sum.splits)

lemma load_ok: "row_ok row \<Longrightarrow> load_optional (Some row) = Ok (Some row)"
  by (simp add: load_optional_def row_ok_iff)

lemma wf_rowD: "wf_tasks tbl \<Longrightarrow> row \<in> set (tt_rows tbl) \<Longrightarrow> row_ok row \<and> task_id row < tt_next tbl"
  by (auto simp: wf_tasks_def list_all_iff)

lemma sorted_ids_inj:
  "sorted_wrt (<) (map f xs) \<Longrightarrow> x \<in> set xs \<Longrightarrow> y \<in> set xs \<Longrightarrow> f x = (f y :: int) \<Longrightarrow> x = y"
  by (auto simp: strict_sorted_iff distinct_map dest: inj_onD)

lemma find_id:
  assumes "wf_tasks tbl"
  shows "find (\<lambda>row. task_id row = i) (tt_rows tbl) = Some row \<longleftrightarrow> row \<in> set (tt_rows tbl) \<and> task_id row = i"
proof
  assume "row \<in> set (tt_rows tbl) \<and> task_id row = i"
  moreover from this obtain r where r: "find (\<lambda>row. task_id row = i) (tt_rows tbl) = Some r"
    by (cases "find (\<lambda>row. task_id row = i) (tt_rows tbl)") (auto simp: find_None_iff)
  moreover have "r \<in> set (tt_rows tbl)" "task_id r = i" using r by (auto simp: find_Some_iff)
  ultimately show "find (\<lambda>row. task_id row = i) (tt_rows tbl) = Some row"
    using assms sorted_ids_inj [of task_id "tt_rows tbl" r row] by (auto simp: wf_tasks_def)
qed (auto simp: find_Some_iff)

lemma by_id_eq:
  assumes "wf_tasks tbl"
  shows "integration_task_by_id i tbl = Ok (find (\<lambda>row. task_id row = i) (tt_rows tbl))"
proof (cases "find (\<lambda>row. task_id row = i) (tt_rows tbl)")
  case (Some r)
  then have "row_ok r" using wf_rowD [OF assms] by (auto simp: find_Some_iff)
  with Some show ?thesis by (simp add: integration_task_by_id_def load_ok)
qed (simp add: integration_task_by_id_def load_optional_def)

lemma by_id_iff:
  "wf_tasks tbl \<Longrightarrow> integration_task_by_id i tbl = Ok (Some row) \<longleftrightarrow> row \<in> set (tt_rows tbl) \<and> task_id row = i"
  "wf_tasks tbl \<Longrightarrow> integration_task_by_id i tbl = Ok None \<longleftrightarrow> (\<forall>row \<in> set (tt_rows tbl). task_id row \<noteq> i)"
  "wf_tasks tbl \<Longrightarrow> integration_task_by_id i tbl \<noteq> Err e"
  by (simp_all add: by_id_eq find_id find_None_iff Ball_def)

lemma lookup_external_iff:
  assumes "wf_tasks tbl"
  shows "lookup_external source (Some ext) tbl = Ok (Some row) \<longleftrightarrow>
       row \<in> set (tt_rows tbl) \<and> task_source row = source \<and> external_task_id row = Some ext"
    and "lookup_external source (Some ext) tbl = Ok None \<longleftrightarrow>
       (\<forall>row \<in> set (tt_rows tbl). task_source row = source \<longrightarrow> external_task_id row \<noteq> Some ext)"
    and "lookup_external source x tbl \<noteq> Err e"
proof -
  let ?P = "\<lambda>row. task_source row = source \<and> external_task_id row = Some ext"
  have unique: "row = r" if "?P row" "?P r" "row \<in> set (tt_rows tbl)" "r \<in> set (tt_rows tbl)" for row r
    using that assms unfolding wf_tasks_def same_key_def by (metis option.distinct(1))
  have "(\<exists>r. find ?P (tt_rows tbl) = Some r \<and> r \<in> set (tt_rows tbl) \<and> ?P r \<and> lookup_external source (Some ext) tbl = Ok (Some r))
    \<or> find ?P (tt_rows tbl) = None \<and> lookup_external source (Some ext) tbl = Ok None"
  proof (cases "find ?P (tt_rows tbl)")
    case (Some r)
    then have "r \<in> set (tt_rows tbl)" "?P r" by (auto simp: find_Some_iff)
    with Some wf_rowD [OF assms] show ?thesis
      by (simp add: lookup_external_def integration_task_by_external_id_def load_ok)
  qed (simp add: lookup_external_def integration_task_by_external_id_def load_optional_def)
  note cases = this
  show "lookup_external source (Some ext) tbl = Ok (Some row) \<longleftrightarrow> row \<in> set (tt_rows tbl) \<and> ?P row"
    using cases unique by (auto simp: find_None_iff)
  show "lookup_external source (Some ext) tbl = Ok None \<longleftrightarrow>
       (\<forall>row \<in> set (tt_rows tbl). task_source row = source \<longrightarrow> external_task_id row \<noteq> Some ext)"
    using cases by (auto simp: find_None_iff)
  show "lookup_external source x tbl \<noteq> Err e"
    using wf_rowD [OF assms]
    by (auto simp: lookup_external_def integration_task_by_external_id_def load_optional_def row_ok_iff find_Some_iff
        split: option.splits)
qed

section \<open>The operations keep the invariant\<close>

lemma same_request_refl [simp]: "same_request row row"
  by (simp add: same_request_def)

lemma advances_refl [simp]: "advances tbl tbl"
  by (simp add: advances_def list_all2_same)

lemma advances_append: "tt_next a \<le> tt_next b \<Longrightarrow> tt_rows b = tt_rows a @ later \<Longrightarrow> advances a b"
  by (simp add: advances_def list_all2_same)

lemma advances_update: "(\<And>row. same_request row (f row)) \<Longrightarrow> advances tbl (update_row i f tbl)"
  by (auto simp: advances_def update_row_def list_all2_conv_all_nth)

lemma same_request_trans: "same_request a b \<Longrightarrow> same_request b c \<Longrightarrow> same_request a c"
  by (auto simp: same_request_def)

lemma advances_trans:
  assumes "advances a b" "advances b c"
  shows "advances a c"
proof -
  let ?n = "length (tt_rows a)" and ?m = "length (tt_rows b)"
  have nm: "?n \<le> ?m" "?m \<le> length (tt_rows c)"
    using assms by (auto simp: advances_def dest!: list_all2_lengthD)
  have "list_all2 same_request (take ?n (tt_rows b)) (take ?n (take ?m (tt_rows c)))"
    using assms(2) by (intro list_all2_takeI) (simp add: advances_def)
  then have "list_all2 same_request (take ?n (tt_rows b)) (take ?n (tt_rows c))" using nm by (simp add: min_absorb1)
  moreover have "list_all2 same_request (tt_rows a) (take ?n (tt_rows b))" using assms(1) by (auto simp: advances_def)
  ultimately have "list_all2 same_request (tt_rows a) (take ?n (tt_rows c))"
    using list_all2_trans [of same_request same_request same_request] same_request_trans by blast
  moreover have "tt_rows c = take ?n (tt_rows c) @ drop ?n (tt_rows c)" by simp
  ultimately show ?thesis using assms unfolding advances_def by (metis order_trans)
qed

lemma advances_row:
  assumes "advances a b" "row \<in> set (tt_rows a)"
  shows "\<exists>row' \<in> set (tt_rows b). same_request row row'"
proof -
  have "list_all2 same_request (tt_rows a) (take (length (tt_rows a)) (tt_rows b))"
    using assms(1) by (auto simp: advances_def)
  then show ?thesis using assms(2) unfolding list_all2_conv_all_nth in_set_conv_nth by (metis in_set_takeD nth_mem)
qed

lemma update_row_mem:
  "task \<in> set (tt_rows (update_row i f tbl)) \<Longrightarrow> (\<And>row. task_id (f row) = task_id row) \<Longrightarrow> task_id task = i
   \<Longrightarrow> \<exists>row \<in> set (tt_rows tbl). task_id row = i \<and> task = f row"
  by (auto simp: update_row_def)

lemma wf_update:
  assumes "wf_tasks tbl" "\<And>row. row \<in> set (tt_rows tbl) \<Longrightarrow> task_id row = i \<Longrightarrow> row_ok (f row)" "\<And>row. same_request row (f row)"
  shows "wf_tasks (update_row i f tbl)"
proof -
  let ?g = "\<lambda>row. if task_id row = i then f row else row"
  have keys: "task_id (?g row) = task_id row" "same_key (?g a) (?g b) = same_key a b" for row a b
    using assms(3) [of row] assms(3) [of a] assms(3) [of b] by (auto simp: same_request_def same_key_def)
  have ids: "map task_id (map ?g (tt_rows tbl)) = map task_id (tt_rows tbl)" using keys(1) by (simp add: comp_def)
  have "list_all row_ok (map ?g (tt_rows tbl))" using assms(1,2) by (auto simp: wf_tasks_def list_all_iff)
  moreover have "a = b" if mem: "a \<in> set (map ?g (tt_rows tbl))" "b \<in> set (map ?g (tt_rows tbl))" and key: "same_key a b" for a b
  proof -
    obtain x y where "a = ?g x" "b = ?g y" "x \<in> set (tt_rows tbl)" "y \<in> set (tt_rows tbl)" using mem unfolding set_map by blast
    moreover from this have "same_key x y" using key keys(2) [of x y] by simp
    ultimately show ?thesis using assms(1) by (auto simp: wf_tasks_def)
  qed
  moreover have "task_id row < tt_next tbl" if "row \<in> set (map ?g (tt_rows tbl))" for row
    using that keys(1) assms(1) unfolding wf_tasks_def set_map by fastforce
  moreover have "sorted_wrt (<) (map task_id (map ?g (tt_rows tbl)))" unfolding ids using assms(1) by (simp add: wf_tasks_def)
  ultimately show ?thesis unfolding wf_tasks_def update_row_def by simp
qed

lemma new_row_ok:
  "ensure_valid_integration_task_create_for_insert source ext action = Ok () \<Longrightarrow> row_ok (new_row reparse now source ext action request i)"
  by (auto simp: ensure_valid_integration_task_create_for_insert_def row_ok_def validate_integration_task_record_def new_row_def
      validate_integration_task_status_def validate_integration_task_response_payload_def bind_res_Ok_iff
      elim!: map_err.elims split: option.splits)

lemma wf_insert:
  fixes reparse now source ext action request tbl
  defines "row \<equiv> new_row reparse now source ext action request (tt_next tbl)"
  assumes "wf_tasks tbl" "row_ok row" "lookup_external source ext tbl = Ok None"
  shows "wf_tasks (tbl\<lparr>tt_rows := tt_rows tbl @ [row], tt_next := tt_next tbl + 1\<rparr>)"
proof -
  have "\<not> same_key other row" "\<not> same_key row other" if "other \<in> set (tt_rows tbl)" for other
    using that assms(4) lookup_external_iff(2) [OF assms(2)] by (cases ext; auto simp: same_key_def row_def new_row_def)+
  moreover have "task_id row = tt_next tbl" by (simp add: row_def new_row_def)
  moreover have "task_id other < tt_next tbl + 1" if "other \<in> set (tt_rows tbl)" for other
    using wf_rowD [OF assms(2) that] by simp
  ultimately show ?thesis using assms(2,3) by (auto simp: wf_tasks_def sorted_wrt_append)
qed

text \<open>What each operation answers and what it leaves.\<close>

lemma create_run:
  assumes "wf_tasks tbl" "create_integration_task reparse hit now source ext action request tbl = (r, tbl')"
  shows "wf_tasks tbl' \<and> advances tbl tbl'
     \<and> (\<forall>task. r = Ok task \<longrightarrow> task \<in> set (tt_rows tbl') \<and> task_source task = source \<and> external_task_id task = ext
          \<and> (task \<in> set (tt_rows tbl) \<or> task = new_row reparse now source ext action request (tt_next tbl)))"
proof (cases "ensure_valid_integration_task_create_for_insert source ext action")
  case (Inr u)
  let ?row = "new_row reparse now source ext action request (tt_next tbl)"
  let ?tbl1 = "tbl\<lparr>tt_rows := tt_rows tbl @ [?row], tt_next := tt_next tbl + 1\<rparr>"
  have row: "row_ok ?row" "task_id ?row = tt_next tbl" "task_source ?row = source" "external_task_id ?row = ext"
    using Inr new_row_ok by (auto simp: new_row_def)
  have adv: "advances tbl ?tbl1" by (rule advances_append) simp_all
  consider e where "hit = FaultBefore e" | task where "lookup_external source ext tbl = Ok (Some task)" "\<forall>e. hit \<noteq> FaultBefore e"
    | "lookup_external source ext tbl = Ok None" "\<forall>e. hit \<noteq> FaultBefore e"
    using lookup_external_iff(3) [OF assms(1)] by (metis not_None_eq sum.exhaust)
  then show ?thesis
  proof cases
    case 1
    then show ?thesis using assms Inr by (auto simp: create_integration_task_def)
  next
    case 2
    then obtain x where "ext = Some x" by (cases ext) (simp_all add: lookup_external_def)
    moreover have "r = Ok task \<and> tbl' = tbl"
      using assms(2) Inr 2 by (auto simp: create_integration_task_def split: db_fault.splits)
    ultimately show ?thesis using 2 assms(1) lookup_external_iff(1) [OF assms(1)] by auto
  next
    case 3
    have wf: "wf_tasks ?tbl1" by (rule wf_insert [OF assms(1) row(1) 3(1)])
    have "\<not> unique_violation source ext tbl"
      using 3(1) lookup_external_iff(2) [OF assms(1)] by (cases ext) (auto simp: unique_violation_def list_ex_iff)
    moreover have "integration_task_by_id (tt_next tbl) ?tbl1 = Ok (Some ?row)"
      using by_id_iff(1) [OF wf] row(2) by simp
    ultimately have "tbl' = ?tbl1 \<and> (\<forall>task. r = Ok task \<longrightarrow> task = ?row)"
      using assms(2) Inr 3 by (auto simp: create_integration_task_def Let_def split: db_fault.splits)
    then show ?thesis using wf adv row by auto
  qed
qed (use assms in \<open>auto simp: create_integration_task_def\<close>)

lemma row_ok_update:
  "row_ok row \<Longrightarrow> validate_integration_task_status status = Ok () \<Longrightarrow> validate_integration_task_response_payload status response = Ok ()
   \<Longrightarrow> row_ok (row\<lparr>task_status := status, task_response := response, task_updated_at := now\<rparr>)"
  unfolding row_ok_def validate_integration_task_record_def run_checks_Ok_iff by simp

lemma update_run:
  assumes "wf_tasks tbl" "update_integration_task hit now i status response tbl = (r, tbl')"
  shows "wf_tasks tbl' \<and> advances tbl tbl'
     \<and> (\<forall>task. r = Ok (Some task) \<longrightarrow> task \<in> set (tt_rows tbl') \<and> task_id task = i \<and> task_status task = status \<and> task_response task = response)"
proof (cases "ensure_valid_integration_task_update_for_insert status response")
  case (Inr u)
  let ?f = "\<lambda>row. row\<lparr>task_status := status, task_response := response, task_updated_at := now\<rparr>"
  have st: "status \<noteq> ''received''" "validate_integration_task_status status = Ok ()" "validate_integration_task_response_payload status response = Ok ()"
    using Inr by (auto simp: ensure_valid_integration_task_update_for_insert_def validate_integration_task_terminal_status_def
        validate_integration_task_status_def bind_res_Ok_iff elim!: map_err.elims split: if_splits)
  have keep: "same_request row (?f row)" for row using st(1) by (simp add: same_request_def)
  have "row_ok (?f row)" if "row \<in> set (tt_rows tbl)" for row
    using wf_rowD [OF assms(1) that] st by (simp add: row_ok_update)
  then have wf: "wf_tasks (update_row i ?f tbl)" by (intro wf_update [OF assms(1)] keep)
  have adv: "advances tbl (update_row i ?f tbl)" by (rule advances_update [OF keep])
  have "task_status task = status \<and> task_response task = response" if "task \<in> set (tt_rows (update_row i ?f tbl))" "task_id task = i" for task
    using update_row_mem [OF that(1) _ that(2)] by auto
  moreover have "(\<forall>task. r \<noteq> Ok (Some task)) \<and> tbl' = tbl
      \<or> tbl' = update_row i ?f tbl \<and> (\<forall>task. r = Ok (Some task) \<longrightarrow> integration_task_by_id i (update_row i ?f tbl) = Ok (Some task))"
    using assms(2) Inr by (auto simp: update_integration_task_def Let_def split: db_fault.splits sum.splits option.splits)
  ultimately show ?thesis using wf adv assms(1) by_id_iff(1) [OF wf] by (elim disjE conjE) auto
qed (use assms in \<open>auto simp: update_integration_task_def\<close>)

lemma status_of_iff:
  "wf_tasks tbl \<Longrightarrow> status_of tbl i = Some st \<longleftrightarrow> (\<exists>row \<in> set (tt_rows tbl). task_id row = i \<and> task_status row = st)"
  by (auto simp: status_of_def find_id)

lemma mark_row_props:
  "same_request row (mark_row now row)" "row_ok row \<Longrightarrow> row_ok (mark_row now row)" "task_id (mark_row now row) = task_id row"
  by (simp_all add: mark_row_def same_request_def row_ok_update validate_integration_task_status_def
      validate_integration_task_response_payload_def)

lemma mark_cases:
  assumes "wf_tasks tbl" "mark_integration_task_executing hit now i tbl = (r, tbl')"
  obtains (unread) "\<forall>task. r \<noteq> Ok (Some task)" "tbl' = tbl"
    | (same) row where "row \<in> set (tt_rows tbl)" "task_id row = i" "task_status row \<noteq> ''received''" "r = Ok (Some row)" "tbl' = tbl"
    | (marked) row where "row \<in> set (tt_rows tbl)" "task_id row = i" "task_status row = ''received''"
        "tbl' = update_row i (mark_row now) tbl" "\<forall>task. r = Ok (Some task) \<longrightarrow> integration_task_by_id i tbl' = Ok (Some task)"
proof (cases "find (\<lambda>row. task_id row = i) (tt_rows tbl)")
  case None
  then show thesis using assms by (intro unread) (auto simp: mark_integration_task_executing_def by_id_eq split: db_fault.splits)
next
  case (Some row)
  then have row: "row \<in> set (tt_rows tbl)" "task_id row = i" using find_id [OF assms(1)] by auto
  show thesis
  proof (cases hit)
    case (FaultBefore e)
    then show thesis using assms by (intro unread) (auto simp: mark_integration_task_executing_def)
  next
    case NoFault
    then show thesis using assms Some row
      by (cases "task_status row = ''received''")
         (auto simp: mark_integration_task_executing_def by_id_eq Let_def intro: same marked)
  next
    case (FaultAfter e)
    then show thesis using assms Some row
      by (cases "task_status row = ''received''")
         (auto simp: mark_integration_task_executing_def by_id_eq Let_def intro: same marked)
  qed
qed

text \<open>Marking a task that is waiting moves it to execution; any other task is returned as it is.\<close>

lemma mark_run:
  assumes "wf_tasks tbl" "mark_integration_task_executing hit now i tbl = (r, tbl')"
  shows "wf_tasks tbl' \<and> advances tbl tbl'
     \<and> (\<forall>task. r = Ok (Some task) \<longrightarrow> task \<in> set (tt_rows tbl') \<and> task_id task = i
          \<and> (status_of tbl i = Some ''received'' \<longrightarrow> task_status task = ''executing'')
          \<and> (status_of tbl i \<noteq> Some ''received'' \<longrightarrow> task \<in> set (tt_rows tbl) \<and> tbl' = tbl))"
  using assms
proof (cases rule: mark_cases)
  case (same row)
  then have "status_of tbl i = Some (task_status row)" using status_of_iff [OF assms(1)] by blast
  with same assms(1) show ?thesis by auto
next
  case (marked row)
  have wf: "wf_tasks tbl'" unfolding marked(4)
    by (rule wf_update [OF assms(1)]) (auto intro: mark_row_props dest: wf_rowD [OF assms(1)])
  have adv: "advances tbl tbl'" unfolding marked(4) by (intro advances_update mark_row_props)
  have st: "status_of tbl i = Some ''received''" using marked status_of_iff [OF assms(1)] by blast
  have "task \<in> set (tt_rows tbl') \<and> task_id task = i \<and> task_status task = ''executing''" if "r = Ok (Some task)" for task
  proof -
    have mem: "task \<in> set (tt_rows (update_row i (mark_row now) tbl))" "task_id task = i"
      using that marked(4,5) by_id_iff(1) [OF wf] by auto
    then obtain old where "old \<in> set (tt_rows tbl)" "task_id old = i" "task = mark_row now old"
      using update_row_mem [OF mem(1) mark_row_props(3) mem(2)] by auto
    moreover have "old = row" using calculation marked(1,2) find_id [OF assms(1), of i] by (metis option.inject)
    ultimately show ?thesis using mem marked(3,4) by (simp add: mark_row_def)
  qed
  then show ?thesis using wf adv st by auto
qed (use assms(1) in auto)

section \<open>Executing a task once\<close>

text \<open>The interface that the executor of tasks relies on: a store whose tasks never go back to waiting. A task is
  claimed when it was waiting and is not any more; the numbers claimed in one history are distinct.\<close>

locale task_store =
  fixes good :: "'t \<Rightarrow> bool"
    and status :: "'t \<Rightarrow> int \<Rightarrow> string option"
    and later :: "'t \<Rightarrow> 't \<Rightarrow> bool"
  assumes later_status: "good a \<Longrightarrow> good b \<Longrightarrow> later a b \<Longrightarrow> status a i = Some st \<Longrightarrow> st \<noteq> ''received''
      \<Longrightarrow> \<exists>st'. status b i = Some st' \<and> st' \<noteq> ''received''"
begin

definition claimed :: "'t \<Rightarrow> int list \<Rightarrow> bool" where
  "claimed t ids \<longleftrightarrow> good t \<and> distinct ids \<and> (\<forall>i \<in> set ids. \<exists>st. status t i = Some st \<and> st \<noteq> ''received'')"

lemma claimed_later: "claimed a ids \<Longrightarrow> later a b \<Longrightarrow> good b \<Longrightarrow> claimed b ids"
  unfolding claimed_def using later_status by blast

lemma claimed_next:
  assumes "claimed a ids" "later a b" "good b" "status a i = Some ''received''" "status b i = Some st" "st \<noteq> ''received''"
  shows "claimed b (ids @ [i])"
proof -
  have "i \<notin> set ids" using assms(1,4) by (auto simp: claimed_def)
  with claimed_later [OF assms(1-3)] assms(5,6) show ?thesis by (auto simp: claimed_def)
qed

end

interpretation tasks: task_store wf_tasks status_of advances
proof unfold_locales
  fix a b :: task_table and i :: int and st :: string
  assume wf: "wf_tasks a" "wf_tasks b" and adv: "advances a b" and st: "status_of a i = Some st" "st \<noteq> ''received''"
  obtain row where row: "row \<in> set (tt_rows a)" "task_id row = i" "task_status row = st"
    using st(1) status_of_iff [OF wf(1)] by blast
  from advances_row [OF adv row(1)] obtain row' where "row' \<in> set (tt_rows b)" "same_request row row'" by blast
  then have "row' \<in> set (tt_rows b)" "task_id row' = i" "task_status row' \<noteq> ''received''"
    using row st(2) by (auto simp: same_request_def)
  then show "\<exists>st'. status_of b i = Some st' \<and> st' \<noteq> ''received''"
    using status_of_iff [OF wf(2), of i "task_status row'"] by blast
qed

text \<open>C26: Every operation keeps the task table well-typed, whatever the database does: rows stay valid and in the order of
  their numbers, numbers are not used twice, a source and an external number name one row; no row is lost or
  changes what was asked, and no task that left the waiting state returns to it.\<close>

theorem task_table_well_typed:
  assumes "wf_tasks tbl"
  shows "wf_tasks (snd (create_integration_task reparse hit now source ext action request tbl))
     \<and> wf_tasks (snd (mark_integration_task_executing hit now i tbl))
     \<and> wf_tasks (snd (update_integration_task hit now i status response tbl))
     \<and> advances tbl (snd (create_integration_task reparse hit now source ext action request tbl))
     \<and> advances tbl (snd (mark_integration_task_executing hit now i tbl))
     \<and> advances tbl (snd (update_integration_task hit now i status response tbl))"
  using create_run [OF assms prod.collapse [symmetric], of reparse hit now source ext action request]
    mark_run [OF assms prod.collapse [symmetric], of hit now i]
    update_run [OF assms prod.collapse [symmetric], of hit now i status response]
  by blast

theorem task_table_well_typed_witness:
  "wf_tasks \<lparr>tt_rows = [], tt_next = 1\<rparr> \<and>
   wf_tasks (snd (create_integration_task (\<lambda>v. v) (FaultAfter [''disk full'']) 0 ''mqtt'' (Some ''t1'') ''set_targets'' [] \<lparr>tt_rows = [], tt_next = 1\<rparr>))"
proof -
  have wf: "wf_tasks \<lparr>tt_rows = [], tt_next = 1\<rparr>" by (simp add: wf_tasks_def)
  with task_table_well_typed [OF wf] show ?thesis by blast
qed

end
