(* ===== verification/Integration.thy ===== *)
theory Integration
  imports Modbus_Tcp Integration_Db
begin

text \<open>
  Remote tasks (\<open>api_integrations.rs\<close>). A task arrives over HTTP or over MQTT, is stored
  in the task table, executed as a change of targets, a process start or a process stop, and its outcome is stored
  as the receipt. Handlers run over the handler state and the task table; the environment also says what
  concurrent requests do to the table before each access and which accesses the database fails. The numbers of the
  tasks whose action was begun are recorded in \<open>ts_started\<close>.
\<close>

section \<open>Handlers over the task table\<close>

record task_env =
  te_api :: api_env
  te_tasks :: "nat \<Rightarrow> task_table \<Rightarrow> task_table"
  te_hit :: "nat \<Rightarrow> db_fault"
  te_reparse :: "request_value \<Rightarrow> request_value"

record task_state =
  ts_h :: hstate
  ts_tasks :: task_table
  ts_started :: "int list"

type_synonym 'a task_handler = "task_env \<Rightarrow> task_state \<Rightarrow> ((app_error + 'a) \<times> task_state) option"

definition tresult :: "app_error + 'a \<Rightarrow> 'a task_handler" where
  "tresult r = (\<lambda>env s. Some (r, s))"

definition tbind :: "'a task_handler \<Rightarrow> ('a \<Rightarrow> 'b task_handler) \<Rightarrow> 'b task_handler" where
  "tbind h k = (\<lambda>env s. case h env s of
       None \<Rightarrow> None
     | Some (Inl e, s1) \<Rightarrow> Some (Inl e, s1)
     | Some (Inr a, s1) \<Rightarrow> k a env s1)"

text \<open>A handler that does not use the table, with its outcome as a value.\<close>

definition tattempt :: "'a handler \<Rightarrow> (app_error + 'a) task_handler" where
  "tattempt h = (\<lambda>env s. map_option (\<lambda>(r, hs). (Ok r, s\<lparr>ts_h := hs\<rparr>)) (h (te_api env) (ts_h s)))"

text \<open>An access to the table, with its outcome as a value.\<close>

definition tcall :: "(task_env \<Rightarrow> db_fault \<Rightarrow> time \<Rightarrow> task_table \<Rightarrow> 'a \<times> task_table) \<Rightarrow> 'a task_handler" where
  "tcall f = (\<lambda>env s.
     let t = h_tick (ts_h s);
         (r, tbl) = f env (te_hit env t) (a_clock (te_api env) t) (te_tasks env t (ts_tasks s))
     in Some (Ok r, s\<lparr>ts_tasks := tbl, ts_h := (ts_h s)\<lparr>h_tick := t + 1\<rparr>\<rparr>))"

definition tany :: "anyhow + 'a \<Rightarrow> 'a task_handler" where
  "tany r = tresult (map_err (\<lambda>_. internal_error) r)"

definition note_started :: "int \<Rightarrow> unit task_handler" where
  "note_started i = (\<lambda>env s. Some (Ok (), s\<lparr>ts_started := ts_started s @ [i]\<rparr>))"

section \<open>Requests\<close>

record ainas_task_request =
  ar_external_task_id :: "string option"
  ar_action :: string
  ar_process_id :: "int option option"
  ar_target_temperature_c :: "f64 option option"
  ar_target_stirrer_rpm :: "f64 option option"
  ar_target_shake_speed_cpm :: "f64 option option"
  ar_target_pressure_mpa :: "f64 option option"
  ar_heat_time_s :: "f64 option option"
  ar_hold_time_s :: "f64 option option"
  ar_cool_time_s :: "f64 option option"
  ar_reason :: "string option"

text \<open>\<open>serde_json::to_value\<close> of a request: an omitted number is written as null, and so is a number that is not finite.\<close>

definition field_text :: "string option \<Rightarrow> request_field" where
  "field_text x = (case x of None \<Rightarrow> FieldNull | Some s \<Rightarrow> FieldText s)"

definition field_number :: "f64 option option \<Rightarrow> request_field" where
  "field_number x = (case x of Some (Some n) \<Rightarrow> (if is_finite n then FieldNumber n else FieldNull) | _ \<Rightarrow> FieldNull)"

definition request_to_value :: "ainas_task_request \<Rightarrow> request_value" where
  "request_to_value p =
     [(''external_task_id'', field_text (ar_external_task_id p)), (''action'', FieldText (ar_action p))]
     @ (case ar_process_id p of None \<Rightarrow> []
        | Some pid \<Rightarrow> [(''process_id'', case pid of None \<Rightarrow> FieldNull | Some i \<Rightarrow> FieldInt i)])
     @ [(''target_temperature_c'', field_number (ar_target_temperature_c p)),
        (''target_stirrer_rpm'', field_number (ar_target_stirrer_rpm p)),
        (''target_shake_speed_cpm'', field_number (ar_target_shake_speed_cpm p)),
        (''target_pressure_mpa'', field_number (ar_target_pressure_mpa p)),
        (''heat_time_s'', field_number (ar_heat_time_s p)), (''hold_time_s'', field_number (ar_hold_time_s p)),
        (''cool_time_s'', field_number (ar_cool_time_s p)), (''reason'', field_text (ar_reason p))]"

fun field_eq :: "request_field \<Rightarrow> request_field \<Rightarrow> bool" where
  "field_eq (FieldNumber x) (FieldNumber y) = f64_eq x y"
| "field_eq a b = (a = b)"

definition value_eq :: "request_value \<Rightarrow> request_value \<Rightarrow> bool" where
  "value_eq a b = list_all2 (\<lambda>(j, x) (k, y). j = k \<and> field_eq x y) a b"

definition ainas_action_error :: app_error where
  "ainas_action_error = bad_request ''AINAS action must be set_targets, start_process, or stop_process''"

definition normalize_ainas_action :: "string \<Rightarrow> app_error + string" where
  "normalize_ainas_action action =
     (let a = map ascii_lower (utf8_string (trim_chars (utf8_chars action))) in
      if a \<in> {''set_targets'', ''set-targets'', ''control.set_targets'', ''control:set_targets''} then Ok ''set_targets''
      else if a \<in> {''start_process'', ''start-process'', ''process.start'', ''process:start'', ''start''} then Ok ''start_process''
      else if a \<in> {''stop_process'', ''stop-process'', ''process.stop'', ''process:stop'', ''stop''} then Ok ''stop_process''
      else Err ainas_action_error)"

definition clean_optional_text :: "string option \<Rightarrow> nat \<Rightarrow> string option" where
  "clean_optional_text value max_chars = Option.bind value (\<lambda>v.
     let cleaned = clean_label (Some v) '''' max_chars in if cleaned = [] then None else Some cleaned)"

definition process_id_required :: "ainas_task_request \<Rightarrow> app_error + int" where
  "process_id_required p = bind_res (optional_present_i64 (ar_process_id p) ''process_id'') (\<lambda>pid.
     ok_or pid (bad_request ''process_id is required for start_process''))"

definition validate_integration_action_shape :: "string \<Rightarrow> ainas_task_request \<Rightarrow> app_error + unit" where
  "validate_integration_action_shape action p =
     (if action = ''start_process'' then bind_res (process_id_required p) (\<lambda>_. Ok ())
      else if action = ''set_targets'' then bind_res (optional_present_i64 (ar_process_id p) ''process_id'') (\<lambda>pid.
        if pid \<noteq> None then Err (bad_request ''process_id is not accepted for set_targets'') else Ok ())
      else if action = ''stop_process'' then bind_res (optional_present_i64 (ar_process_id p) ''process_id'') (\<lambda>_. Ok ())
      else Ok ())"

section \<open>Target changes\<close>

text \<open>Checks the values that a request names.\<close>

definition check_present :: "f64 option option \<Rightarrow> string \<Rightarrow> (f64 \<Rightarrow> app_error + unit) \<Rightarrow> app_error + unit" where
  "check_present x field check = bind_res (optional_present_number x field) (\<lambda>v.
     case v of None \<Rightarrow> Ok () | Some n \<Rightarrow> check n)"

definition heat_limit :: "safety_config \<Rightarrow> f64" where
  "heat_limit safety = f64_mul (ob_max_heating_minutes (optimizer safety)) (lit 60)"

definition hold_limit :: "safety_config \<Rightarrow> f64" where
  "hold_limit safety = f64_mul (ob_max_stirring_minutes (optimizer safety)) (lit 60)"

definition validate_integration_target_payload :: "safety_config \<Rightarrow> ainas_task_request \<Rightarrow> app_error + unit" where
  "validate_integration_target_payload safety p = run_checks
     [check_present (ar_target_temperature_c p) ''target_temperature_c'' (validate_target_temperature safety),
      check_present (ar_target_stirrer_rpm p) ''target_stirrer_rpm'' (validate_stir_speed safety),
      check_present (ar_target_shake_speed_cpm p) ''target_shake_speed_cpm''
        (\<lambda>x. api_validate_range ''target_shake_speed_cpm'' x (lit 0) (lit 60)),
      check_present (ar_target_pressure_mpa p) ''target_pressure_mpa''
        (\<lambda>x. api_validate_range ''target_pressure_mpa'' x (lit 0) (lit 10)),
      check_present (ar_heat_time_s p) ''heat_time_s'' (\<lambda>x. api_validate_range ''heat_time_s'' x (lit 0) (heat_limit safety)),
      check_present (ar_hold_time_s p) ''hold_time_s'' (\<lambda>x. api_validate_range ''hold_time_s'' x (lit 0) (hold_limit safety)),
      check_present (ar_cool_time_s p) ''cool_time_s'' (\<lambda>x. api_validate_range ''cool_time_s'' x (lit 0) (lit 3600))]"

definition validate_integration_targets :: "safety_config \<Rightarrow> control_targets \<Rightarrow> app_error + control_targets" where
  "validate_integration_targets safety tg =
     bind_res (run_checks
       [map_err (with_message_prefix ''target_temperature_c'') (validate_target_temperature safety (t_temperature_c tg)),
        map_err (with_message_prefix ''target_stirrer_rpm'') (validate_stir_speed safety (t_stirrer_rpm tg)),
        api_validate_range ''target_shake_speed_cpm'' (t_shake_speed_cpm tg) (lit 0) (lit 60),
        api_validate_range ''target_pressure_mpa'' (t_target_pressure_mpa tg) (lit 0) (lit 10),
        api_validate_range ''heat_time_s'' (t_heat_time_s tg) (lit 0) (heat_limit safety),
        api_validate_range ''hold_time_s'' (t_hold_time_s tg) (lit 0) (hold_limit safety),
        api_validate_range ''cool_time_s'' (t_cool_time_s tg) (lit 0) (lit 3600)])
     (\<lambda>_. Ok (round_targets tg))"

text \<open>The targets a request asks for: what it names, the current value otherwise.\<close>

definition integration_requested_targets :: "ainas_task_request \<Rightarrow> control_targets \<Rightarrow> app_error + control_targets" where
  "integration_requested_targets p current =
     bind_res (optional_present_number (ar_target_temperature_c p) ''target_temperature_c'') (\<lambda>temp.
     bind_res (optional_present_number (ar_heat_time_s p) ''heat_time_s'') (\<lambda>heat.
     bind_res (optional_present_number (ar_hold_time_s p) ''hold_time_s'') (\<lambda>hold.
     bind_res (optional_present_number (ar_cool_time_s p) ''cool_time_s'') (\<lambda>cool.
     bind_res (optional_present_number (ar_target_stirrer_rpm p) ''target_stirrer_rpm'') (\<lambda>rpm.
     bind_res (optional_present_number (ar_target_shake_speed_cpm p) ''target_shake_speed_cpm'') (\<lambda>shake.
     bind_res (optional_present_number (ar_target_pressure_mpa p) ''target_pressure_mpa'') (\<lambda>pressure.
     Ok \<lparr>t_temperature_c = unwrap_or temp (t_temperature_c current), t_heat_time_s = unwrap_or heat (t_heat_time_s current),
         t_hold_time_s = unwrap_or hold (t_hold_time_s current), t_cool_time_s = unwrap_or cool (t_cool_time_s current),
         t_stirrer_rpm = unwrap_or rpm (t_stirrer_rpm current), t_shake_speed_cpm = unwrap_or shake (t_shake_speed_cpm current),
         t_target_pressure_mpa = unwrap_or pressure (t_target_pressure_mpa current)\<rparr>)))))))"

definition names_no_target :: "ainas_task_request \<Rightarrow> bool" where
  "names_no_target p \<longleftrightarrow> ar_target_temperature_c p = None \<and> ar_target_stirrer_rpm p = None \<and> ar_target_shake_speed_cpm p = None
     \<and> ar_target_pressure_mpa p = None \<and> ar_heat_time_s p = None \<and> ar_hold_time_s p = None \<and> ar_cool_time_s p = None"

definition apply_ainas_targets :: "ainas_task_request \<Rightarrow> audit_actor \<Rightarrow> control_targets handler" where
  "apply_ainas_targets p actor =
     hbind (hresult (if names_no_target p then Err (bad_request ''set_targets requires at least one target field'') else Ok ())) (\<lambda>_.
     hbind (read_lock targets) (\<lambda>current.
     hbind safety_of (\<lambda>safety.
     hbind (hresult (validate_integration_target_payload safety p)) (\<lambda>_.
     hbind (hresult (integration_requested_targets p current)) (\<lambda>requested.
     hbind (hresult (validate_integration_targets safety requested)) (\<lambda>tg.
     hbind (hresult (ensure_targets_allowed safety tg)) (\<lambda>_.
     hbind disarm (\<lambda>rt.
     hbind (check_snapshot (\<lambda>safety now unf. ensure_target_update_interlock_clear safety now rt DesiredTargets)) (\<lambda>_.
     let reason = clean_label (ar_reason p) ''AINAS task changed desired targets'' 240 in
     hbind (insert_event actor None ''ainas_targets_updated'' (Some (safe_command_from_runtime_targets tg reason)) reason) (\<lambda>audited.
     hbind (hany audited) (\<lambda>_.
     hbind (commit_targets_after_final_interlock tg DesiredTargets (Some current) (Some (latches_from_runtime rt))) (\<lambda>_.
     hreturn tg))))))))))))"

section \<open>Execution\<close>

definition execute_ainas_task :: "string \<Rightarrow> ainas_task_request \<Rightarrow> audit_actor \<Rightarrow> task_receipt handler" where
  "execute_ainas_task action p actor =
     (if action = ''set_targets'' then hbind (apply_ainas_targets p actor) (\<lambda>tg. hreturn (ReceiptTargets tg))
      else if action = ''start_process'' then
        hbind (hresult (process_id_required p)) (\<lambda>pid.
        hbind (start_process_lifecycle pid ''ainas_process_started'' None actor) (\<lambda>(b, tg). hreturn (ReceiptStarted b tg)))
      else if action = ''stop_process'' then
        hbind (hresult (optional_present_i64 (ar_process_id p) ''process_id'')) (\<lambda>pid.
        hbind (stop_process_lifecycle pid ''ainas_process_stopped'' (ar_reason p) actor) (\<lambda>resp. hreturn (ReceiptStopped resp)))
      else hfail ainas_action_error)"

definition ensure_integration_task_payload_matches :: "integration_task \<Rightarrow> string \<Rightarrow> request_value \<Rightarrow> app_error + unit" where
  "ensure_integration_task_payload_matches task action request =
     (if task_action task = action \<and> value_eq (task_request task) request then Ok ()
      else Err (conflict (''integration task external_task_id '' @ (case external_task_id task of None \<Rightarrow> ''None'' | Some x \<Rightarrow> ''Some('' @ debug_string x @ '')'')
         @ '' already exists for source '' @ [CHR 0x27] @ task_source task @ [CHR 0x27]
         @ '' with a different request; use a new external_task_id'')))"

definition latch_integration_receipt_failure_after_action :: "string \<Rightarrow> string \<Rightarrow> unit handler" where
  "latch_integration_receipt_failure_after_action action err = with_lock (\<lambda>env now unf rt.
     (Ok (), if action \<in> {''start_process'', ''stop_process''}
        then fst (latch_audit_failure_after_device_action (''integration task '' @ action @ '' receipt'') err rt)
        else if action = ''set_targets''
        then fst (latch_control_fault (''integration task set_targets receipt failed after target intent commit: '' @ err) rt)
        else rt))"

text \<open>The receipt of an executed action.\<close>

definition store_executed :: "int \<Rightarrow> string \<Rightarrow> task_receipt \<Rightarrow> integration_task task_handler" where
  "store_executed i action response =
     tbind (tcall (\<lambda>env hit now tbl. update_integration_task hit now i ''executed'' response tbl)) (\<lambda>updated.
     case updated of
       Inl err \<Rightarrow>
         tbind (tattempt (latch_integration_receipt_failure_after_action action (err_display err))) (\<lambda>_.
         tresult (Err internal_error))
     | Inr None \<Rightarrow>
         (let err = not_found ''AINAS task not found after execution'' in
          tbind (tattempt (latch_integration_receipt_failure_after_action action (err_message err))) (\<lambda>_.
          tresult (Err err)))
     | Inr (Some task) \<Rightarrow> tresult (Ok task))"

definition store_failure :: "int \<Rightarrow> app_error \<Rightarrow> integration_task task_handler" where
  "store_failure i err =
     tbind (tcall (\<lambda>env hit now tbl. update_integration_task hit now i
        (if is_server_error err then ''failed'' else ''rejected'') (ReceiptError (err_status err) (err_message err)) tbl)) (\<lambda>updated.
     tbind (tany updated) (\<lambda>_.
     tresult (Err err)))"

text \<open>From the claim of a task to its receipt.\<close>

definition run_claimed_task ::
    "int \<Rightarrow> string \<Rightarrow> ainas_task_request \<Rightarrow> audit_actor \<Rightarrow> integration_task task_handler" where
  "run_claimed_task i action p actor =
     tbind (note_started i) (\<lambda>_.
     tbind (tattempt (execute_ainas_task action p actor)) (\<lambda>outcome.
     case outcome of
       Inr response \<Rightarrow> store_executed i action response
     | Inl err \<Rightarrow> store_failure i err))"

definition claim_stage ::
    "string \<Rightarrow> ainas_task_request \<Rightarrow> audit_actor \<Rightarrow> anyhow + integration_task option \<Rightarrow> integration_task task_handler" where
  "claim_stage action p actor marked =
     tbind (tany marked) (\<lambda>found.
     case found of
       None \<Rightarrow> tresult (Err (not_found ''AINAS task not found before execution''))
     | Some claimed_task \<Rightarrow>
         if task_status claimed_task \<noteq> ''executing'' then tresult (Ok claimed_task)
         else run_claimed_task (task_id claimed_task) action p actor)"

definition execute_integration_task ::
    "string \<Rightarrow> ainas_task_request \<Rightarrow> audit_actor \<Rightarrow> integration_task task_handler" where
  "execute_integration_task source_text payload actor =
     tbind (tresult (normalize_ainas_action (ar_action payload))) (\<lambda>action.
     tbind (tresult (validate_integration_action_shape action (payload\<lparr>ar_action := action\<rparr>))) (\<lambda>_.
     let p = payload\<lparr>ar_action := action, ar_external_task_id := clean_optional_text (ar_external_task_id payload) 120,
               ar_reason := clean_optional_text (ar_reason payload) 240\<rparr>;
         request = request_to_value p;
         source = unwrap_or (clean_optional_text (Some source_text) 40) ''integration''
     in
     tbind (tcall (\<lambda>env hit now tbl. create_integration_task (te_reparse env) hit now source (ar_external_task_id p) action request tbl)) (\<lambda>created.
     tbind (tany created) (\<lambda>task.
     tbind (tresult (ensure_integration_task_payload_matches task action request)) (\<lambda>_.
     if task_status task \<noteq> ''received'' then tresult (Ok task)
     else
     tbind (tcall (\<lambda>env hit now tbl. mark_integration_task_executing hit now (task_id task) tbl)) (\<lambda>marked.
     claim_stage action p actor marked))))))"

section \<open>The HTTP endpoints\<close>

definition require_ainas_action_permission :: "session \<Rightarrow> string \<Rightarrow> app_error + auth_user" where
  "require_ainas_action_permission session action =
     (if action = ''set_targets'' then session SetSafeTargets
      else if action \<in> {''start_process'', ''stop_process''} then session StartStopProcess
      else Err ainas_action_error)"

definition create_ainas_task :: "session \<Rightarrow> ainas_task_request \<Rightarrow> integration_task task_handler" where
  "create_ainas_task session payload =
     tbind (tresult (normalize_ainas_action (ar_action payload))) (\<lambda>action.
     tbind (tresult (session ApplyIntegrationTask)) (\<lambda>_.
     tbind (tresult (require_ainas_action_permission session action)) (\<lambda>user.
     execute_integration_task ''ainas'' payload (audit_actor_for_user user))))"

definition list_ainas_tasks :: "session \<Rightarrow> nat option \<Rightarrow> integration_task list task_handler" where
  "list_ainas_tasks session limit =
     tbind (tresult (session ViewAudit)) (\<lambda>_.
     tbind (tcall (\<lambda>env hit now tbl. (case hit of FaultBefore e \<Rightarrow> Err e
        | _ \<Rightarrow> Ok (integration_tasks (Some ''ainas'') (max 1 (min 200 (unwrap_or limit 50))) tbl), tbl))) (\<lambda>listed.
     tany listed))"

definition get_ainas_task :: "session \<Rightarrow> int \<Rightarrow> integration_task task_handler" where
  "get_ainas_task session i =
     tbind (tresult (session ViewAudit)) (\<lambda>_.
     tbind (tcall (\<lambda>env hit now tbl. (case hit of FaultBefore e \<Rightarrow> Err e | _ \<Rightarrow> integration_task_by_id i tbl, tbl))) (\<lambda>queried.
     tbind (tany queried) (\<lambda>found.
     case found of
       None \<Rightarrow> tresult (Err (not_found ''AINAS task not found''))
     | Some task \<Rightarrow> if task_source task \<noteq> ''ainas'' then tresult (Err (not_found ''AINAS task not found'')) else tresult (Ok task))))"

section \<open>Runs\<close>

named_theorems task_runs \<open>runs of the primitives over the task table\<close>

lemma tbind_run [task_runs]:
  "tbind h k env s = Some (r, s') \<longleftrightarrow>
     (\<exists>e. h env s = Some (Inl e, s') \<and> r = Inl e) \<or> (\<exists>a s1. h env s = Some (Inr a, s1) \<and> k a env s1 = Some (r, s'))"
  by (auto simp: tbind_def split: option.splits prod.splits sum.splits)

lemma task_primitive_runs [task_runs]:
  "tresult x env s = Some (r, s') \<longleftrightarrow> r = x \<and> s' = s"
  "tany y env s = Some (q, s') \<longleftrightarrow> q = map_err (\<lambda>_. internal_error) y \<and> s' = s"
  "note_started i env s = Some (u, s') \<longleftrightarrow> u = Ok () \<and> s' = s\<lparr>ts_started := ts_started s @ [i]\<rparr>"
  by (auto simp: tresult_def tany_def note_started_def)

lemma tattempt_run [task_runs]:
  "tattempt h env s = Some (r, s') \<longleftrightarrow>
     (\<exists>r0 hs. h (te_api env) (ts_h s) = Some (r0, hs) \<and> r = Ok r0 \<and> s' = s\<lparr>ts_h := hs\<rparr>)"
  by (auto simp: tattempt_def)

lemma tcall_run [task_runs]:
  "tcall f env s = Some (r, s') \<longleftrightarrow>
     (\<exists>x tbl. f env (te_hit env (h_tick (ts_h s))) (a_clock (te_api env) (h_tick (ts_h s)))
          (te_tasks env (h_tick (ts_h s)) (ts_tasks s)) = (x, tbl)
        \<and> r = Ok x \<and> s' = s\<lparr>ts_tasks := tbl, ts_h := (ts_h s)\<lparr>h_tick := h_tick (ts_h s) + 1\<rparr>\<rparr>)"
  by (auto simp: tcall_def Let_def split: prod.splits)

text \<open>The state of the control side, up to the number of steps taken.\<close>

definition same_control :: "hstate \<Rightarrow> hstate \<Rightarrow> bool" where
  "same_control a b \<longleftrightarrow> h_rt a = h_rt b \<and> h_writes a = h_writes b \<and> h_events a = h_events b \<and> h_db a = h_db b"

lemma same_control_trans: "same_control a b \<Longrightarrow> same_control b c \<Longrightarrow> same_control a c"
  by (simp add: same_control_def)

text \<open>One update of the task table, with some fault at some time.\<close>

definition stored :: "task_table \<Rightarrow> int \<Rightarrow> string \<Rightarrow> task_receipt \<Rightarrow> anyhow + integration_task option \<Rightarrow> task_table \<Rightarrow> bool" where
  "stored tbl i status response q tbl' \<longleftrightarrow> (\<exists>hit now. update_integration_task hit now i status response tbl = (q, tbl'))"

lemma storedI: "update_integration_task hit now i status response tbl = (q, tbl') \<Longrightarrow> stored tbl i status response q tbl'"
  by (auto simp: stored_def)

lemma store_failure_run:
  assumes "store_failure i err env s = Some (r, s')"
  shows "(\<exists>status resp q. stored (te_tasks env (h_tick (ts_h s)) (ts_tasks s)) i status resp q (ts_tasks s'))
     \<and> same_control (ts_h s) (ts_h s') \<and> ts_started s' = ts_started s \<and> r \<in> {Err err, Err internal_error}"
proof -
  let ?t = "h_tick (ts_h s)"
  let ?status = "if is_server_error err then ''failed'' else ''rejected''"
  obtain q tbl where q: "update_integration_task (te_hit env ?t) (a_clock (te_api env) ?t) i ?status
      (ReceiptError (err_status err) (err_message err)) (te_tasks env ?t (ts_tasks s)) = (q, tbl)" by fastforce
  have "s' = s\<lparr>ts_tasks := tbl, ts_h := (ts_h s)\<lparr>h_tick := ?t + 1\<rparr>\<rparr> \<and> r \<in> {Err err, Err internal_error}"
    using assms q unfolding store_failure_def tbind_run tcall_run task_primitive_runs by (cases q) auto
  with storedI [OF q] show ?thesis unfolding same_control_def by auto
qed

lemma latch_receipt_run:
  assumes "latch_integration_receipt_failure_after_action action err env s = Some (r, s')"
    and "action \<in> {''set_targets'', ''start_process'', ''stop_process''}"
  shows "r = Ok () \<and> faulted (h_rt s') \<and> h_writes s' = h_writes s"
  using assms
  by (auto simp: latch_integration_receipt_failure_after_action_def with_lock_Some faulted_def latch_simps
      latch_audit_failure_after_device_action_def)

lemma store_executed_run:
  assumes "store_executed i action response env s = Some (r, s')" "action \<in> {''set_targets'', ''start_process'', ''stop_process''}"
  shows "\<exists>q. stored (te_tasks env (h_tick (ts_h s)) (ts_tasks s)) i ''executed'' response q (ts_tasks s')
     \<and> ts_started s' = ts_started s \<and> h_writes (ts_h s') = h_writes (ts_h s)
     \<and> (case r of Inr task \<Rightarrow> q = Ok (Some task) \<and> same_control (ts_h s) (ts_h s') | Inl e \<Rightarrow> faulted (h_rt (ts_h s')))"
proof -
  let ?t = "h_tick (ts_h s)"
  obtain q tbl where q: "update_integration_task (te_hit env ?t) (a_clock (te_api env) ?t) i ''executed'' response
      (te_tasks env ?t (ts_tasks s)) = (q, tbl)" by fastforce
  define s1 where "s1 = s\<lparr>ts_tasks := tbl, ts_h := (ts_h s)\<lparr>h_tick := ?t + 1\<rparr>\<rparr>"
  have run: "(case q of
       Inl err \<Rightarrow> tbind (tattempt (latch_integration_receipt_failure_after_action action (err_display err))) (\<lambda>_. tresult (Err internal_error))
     | Inr None \<Rightarrow> (let err = not_found ''AINAS task not found after execution'' in
          tbind (tattempt (latch_integration_receipt_failure_after_action action (err_message err))) (\<lambda>_. tresult (Err err)))
     | Inr (Some task) \<Rightarrow> tresult (Ok task)) env s1 = Some (r, s')"
    using assms(1) q unfolding store_executed_def tbind_run tcall_run s1_def by auto
  have latched: "faulted (h_rt (ts_h s')) \<and> ts_tasks s' = tbl \<and> ts_started s' = ts_started s \<and> h_writes (ts_h s') = h_writes (ts_h s) \<and> r = Err e"
    if "tbind (tattempt (latch_integration_receipt_failure_after_action action m)) (\<lambda>_. tresult (Err e)) env s1 = Some (r, s')" for m e
    using that latch_receipt_run [OF _ assms(2)] by (auto simp: task_runs s1_def)
  consider err where "q = Err err" | "q = Ok None" | task where "q = Ok (Some task)" by (metis sum.exhaust option.exhaust)
  then show ?thesis
  proof cases
    case 3
    with run have "r = Ok task" "s' = s1" by (simp_all add: task_runs)
    with storedI [OF q] 3 show ?thesis by (auto simp: s1_def same_control_def)
  next
    case 1
    with run latched have "faulted (h_rt (ts_h s')) \<and> ts_tasks s' = tbl \<and> ts_started s' = ts_started s
      \<and> h_writes (ts_h s') = h_writes (ts_h s) \<and> r = Err internal_error" by simp
    with storedI [OF q] show ?thesis by auto
  next
    case 2
    with run latched have "faulted (h_rt (ts_h s')) \<and> ts_tasks s' = tbl \<and> ts_started s' = ts_started s
      \<and> h_writes (ts_h s') = h_writes (ts_h s) \<and> (\<exists>e. r = Err e)" by (simp add: Let_def) blast
    with storedI [OF q] show ?thesis by auto
  qed
qed

text \<open>The course of a claimed task: its action runs once, on the state at the claim; then the receipt is stored.\<close>

lemma run_claimed_task_run:
  assumes "run_claimed_task i action p actor env s = Some (r, s')" "action \<in> {''set_targets'', ''start_process'', ''stop_process''}"
  shows "ts_started s' = ts_started s @ [i] \<and>
    (\<exists>outcome hs t status response q. execute_ainas_task action p actor (te_api env) (ts_h s) = Some (outcome, hs)
       \<and> stored (te_tasks env t (ts_tasks s)) i status response q (ts_tasks s') \<and> h_writes (ts_h s') = h_writes hs
       \<and> (\<forall>err. outcome = Err err \<longrightarrow> h_rt (ts_h s') = h_rt hs \<and> (r = Err err \<or> r = Err internal_error))
       \<and> (\<forall>receipt. outcome = Ok receipt \<longrightarrow> status = ''executed'' \<and> response = receipt
            \<and> (\<forall>task. r = Ok task \<longrightarrow> q = Ok (Some task) \<and> same_control hs (ts_h s'))
            \<and> (\<forall>e. r = Err e \<longrightarrow> faulted (h_rt (ts_h s')))))"
proof -
  let ?s1 = "\<lambda>hs. s\<lparr>ts_started := ts_started s @ [i], ts_h := hs\<rparr>"
  obtain outcome hs where o: "execute_ainas_task action p actor (te_api env) (ts_h s) = Some (outcome, hs)"
    and k: "(case outcome of Inr response \<Rightarrow> store_executed i action response | Inl err \<Rightarrow> store_failure i err) env (?s1 hs) = Some (r, s')"
    using assms(1) unfolding run_claimed_task_def tbind_run task_primitive_runs tattempt_run by auto
  show ?thesis
  proof (cases outcome)
    case (Inl err)
    with k have "store_failure i err env (?s1 hs) = Some (r, s')" by simp
    from store_failure_run [OF this] obtain status response q where
      "stored (te_tasks env (h_tick hs) (ts_tasks s)) i status response q (ts_tasks s')" "ts_started s' = ts_started s @ [i]"
      "h_writes (ts_h s') = h_writes hs" "h_rt (ts_h s') = h_rt hs" "r = Err err \<or> r = Err internal_error"
      by (auto simp: same_control_def)
    then show ?thesis using o Inl by (intro conjI exI [of _ outcome] exI [of _ hs] exI [of _ "h_tick hs"] exI [of _ status]
        exI [of _ response] exI [of _ q]) simp_all
  next
    case (Inr receipt)
    with k have "store_executed i action receipt env (?s1 hs) = Some (r, s')" by simp
    from store_executed_run [OF this assms(2)] obtain q where
      "stored (te_tasks env (h_tick hs) (ts_tasks s)) i ''executed'' receipt q (ts_tasks s')" "ts_started s' = ts_started s @ [i]"
      "h_writes (ts_h s') = h_writes hs"
      "\<forall>task. r = Ok task \<longrightarrow> q = Ok (Some task) \<and> same_control hs (ts_h s')" "\<forall>e. r = Err e \<longrightarrow> faulted (h_rt (ts_h s'))"
      by (cases r) auto
    then show ?thesis using o Inr by (intro conjI exI [of _ outcome] exI [of _ hs] exI [of _ "h_tick hs"] exI [of _ "''executed''"]
        exI [of _ receipt] exI [of _ q]) simp_all
  qed
qed

lemma normalize_action_known:
  "normalize_ainas_action text = Ok action \<Longrightarrow> action \<in> {''set_targets'', ''start_process'', ''stop_process''}"
  by (auto simp: normalize_ainas_action_def Let_def split: if_splits)

text \<open>A request as it is stored.\<close>

definition cleaned_request :: "string \<Rightarrow> ainas_task_request \<Rightarrow> ainas_task_request" where
  "cleaned_request action payload = payload\<lparr>ar_action := action,
     ar_external_task_id := clean_optional_text (ar_external_task_id payload) 120,
     ar_reason := clean_optional_text (ar_reason payload) 240\<rparr>"

abbreviation cleaned_source :: "string \<Rightarrow> string" where
  "cleaned_source source_text \<equiv> unwrap_or (clean_optional_text (Some source_text) 40) ''integration''"

lemma claim_stage_run:
  assumes "claim_stage action p actor marked env s = Some (r, s')"
  shows "s' = s \<and> (\<forall>task. r = Ok task \<longrightarrow> marked = Ok (Some task)) \<or> (\<exists>claimed_task. marked = Ok (Some claimed_task) \<and> task_status claimed_task = ''executing''
     \<and> run_claimed_task (task_id claimed_task) action p actor env s = Some (r, s'))"
  using assms by (cases marked) (auto simp: claim_stage_def tbind_run task_primitive_runs split: option.splits if_splits)

text \<open>A task that is answered without being executed comes from the lookup or from the claim.\<close>

definition answered_from :: "task_env \<Rightarrow> task_table \<Rightarrow> integration_task \<Rightarrow> task_table \<Rightarrow> bool" where
  "answered_from env a task b \<longleftrightarrow>
     (\<exists>t hit now x ext action request. create_integration_task (te_reparse env) hit now x ext action request (te_tasks env t a) = (Ok task, b))
     \<or> (\<exists>t u hit hit' now now' x ext action request i c mid.
          create_integration_task (te_reparse env) hit now x ext action request (te_tasks env t a) = (c, mid)
          \<and> mark_integration_task_executing hit' now' i (te_tasks env u mid) = (Ok (Some task), b))"

lemma answered_fromI:
  "create_integration_task (te_reparse env) hit now x ext action request (te_tasks env t a) = (Ok task, b) \<Longrightarrow> answered_from env a task b"
  "create_integration_task (te_reparse env) hit now x ext action request (te_tasks env t a) = (c, mid)
   \<Longrightarrow> mark_integration_task_executing hit' now' i (te_tasks env u mid) = (Ok (Some task), b) \<Longrightarrow> answered_from env a task b"
  unfolding answered_from_def by blast+

text \<open>A run that begins no action changes nothing but the task table; a run that begins one has created or found the
  task of its own request waiting, and then found it in execution.\<close>

lemma execute_integration_cases:
  assumes "execute_integration_task source_text payload actor env s = Some (r, s')"
  obtains (idle) "ts_started s' = ts_started s" "same_control (ts_h s) (ts_h s')"
      "\<forall>task. r = Ok task \<longrightarrow> answered_from env (ts_tasks s) task (ts_tasks s')"
  | (begun) action task tbl claimed_task tbl2 s1 where
      "normalize_ainas_action (ar_action payload) = Ok action"
      "create_integration_task (te_reparse env) (te_hit env (h_tick (ts_h s))) (a_clock (te_api env) (h_tick (ts_h s)))
         (cleaned_source source_text) (ar_external_task_id (cleaned_request action payload)) action
         (request_to_value (cleaned_request action payload)) (te_tasks env (h_tick (ts_h s)) (ts_tasks s)) = (Ok task, tbl)"
      "task_action task = action" "value_eq (task_request task) (request_to_value (cleaned_request action payload))"
      "task_status task = ''received''"
      "mark_integration_task_executing (te_hit env (h_tick (ts_h s) + 1)) (a_clock (te_api env) (h_tick (ts_h s) + 1)) (task_id task)
         (te_tasks env (h_tick (ts_h s) + 1) tbl) = (Ok (Some claimed_task), tbl2)"
      "task_status claimed_task = ''executing''"
      "s1 = s\<lparr>ts_tasks := tbl2, ts_h := (ts_h s)\<lparr>h_tick := h_tick (ts_h s) + 2\<rparr>\<rparr>"
      "run_claimed_task (task_id claimed_task) action (cleaned_request action payload) actor env s1 = Some (r, s')"
proof -
  let ?t = "h_tick (ts_h s)"
  let ?step = "\<lambda>tbl n. s\<lparr>ts_tasks := tbl, ts_h := (ts_h s)\<lparr>h_tick := ?t + n\<rparr>\<rparr>"
  have two: "n + 1 + 1 = n + (2 :: nat)" for n by simp
  note unfold = execute_integration_task_def tbind_run task_primitive_runs tcall_run
  show thesis
  proof (cases "normalize_ainas_action (ar_action payload)")
    case (Inl e)
    then show thesis using assms by (intro idle) (auto simp: unfold same_control_def)
  next
    case (Inr action)
    let ?p = "cleaned_request action payload"
    let ?source = "cleaned_source source_text"
    obtain created tbl where c: "create_integration_task (te_reparse env) (te_hit env ?t) (a_clock (te_api env) ?t) ?source
        (ar_external_task_id ?p) action (request_to_value ?p) (te_tasks env ?t (ts_tasks s)) = (created, tbl)" by fastforce
    show thesis
    proof (cases "\<exists>task. validate_integration_action_shape action (payload\<lparr>ar_action := action\<rparr>) = Ok () \<and> created = Ok task
        \<and> ensure_integration_task_payload_matches task action (request_to_value ?p) = Ok () \<and> task_status task = ''received''")
      case False
      then show thesis using assms Inr c
        by (intro idle; cases "validate_integration_action_shape action (payload\<lparr>ar_action := action\<rparr>)"; cases created)
           (auto simp: unfold Let_def cleaned_request_def [symmetric] same_control_def split: if_splits intro: answered_fromI(1))
    next
      case True
      then obtain task where task: "created = Ok task" "ensure_integration_task_payload_matches task action (request_to_value ?p) = Ok ()"
        "task_status task = ''received''" and shape: "validate_integration_action_shape action (payload\<lparr>ar_action := action\<rparr>) = Ok ()" by blast
      obtain marked tbl2 where m: "mark_integration_task_executing (te_hit env (?t + 1)) (a_clock (te_api env) (?t + 1)) (task_id task)
          (te_tasks env (?t + 1) tbl) = (marked, tbl2)" by fastforce
      have rest: "claim_stage action ?p actor marked env (?step tbl2 2) = Some (r, s')"
        using assms Inr c task shape m by (auto simp: unfold Let_def cleaned_request_def [symmetric] two simp del: One_nat_def add_2_eq_Suc')
      show thesis using claim_stage_run [OF rest]
      proof (elim disjE conjE exE)
        assume "s' = ?step tbl2 2" "\<forall>task. r = Ok task \<longrightarrow> marked = Ok (Some task)"
        then show thesis using answered_fromI(2) [OF c] m by (intro idle) (auto simp: same_control_def)
      next
        fix claimed_task
        assume "marked = Ok (Some claimed_task)" "task_status claimed_task = ''executing''"
          "run_claimed_task (task_id claimed_task) action ?p actor env (?step tbl2 2) = Some (r, s')"
        then show thesis using m c Inr task by (intro begun) (auto simp: ensure_integration_task_payload_matches_def split: if_splits)
      qed
    qed
  qed
qed

section \<open>The task table\<close>

text \<open>Concurrent requests keep the table well-formed and only move it forward; exclusive access means that in
  addition no one else claims a waiting task meanwhile.\<close>

definition task_rely :: "task_env \<Rightarrow> bool" where
  "task_rely env \<longleftrightarrow> (\<forall>t tbl. wf_tasks tbl \<longrightarrow> wf_tasks (te_tasks env t tbl) \<and> advances tbl (te_tasks env t tbl))"

definition exclusive :: "task_env \<Rightarrow> bool" where
  "exclusive env \<longleftrightarrow> task_rely env \<and>
     (\<forall>t tbl i. wf_tasks tbl \<longrightarrow> status_of tbl i = Some ''received'' \<longrightarrow> status_of (te_tasks env t tbl) i = Some ''received'')"

definition moves_on :: "'a task_handler \<Rightarrow> bool" where
  "moves_on h \<longleftrightarrow> (\<forall>env s r s'. task_rely env \<longrightarrow> wf_tasks (ts_tasks s) \<longrightarrow> h env s = Some (r, s')
     \<longrightarrow> wf_tasks (ts_tasks s') \<and> advances (ts_tasks s) (ts_tasks s'))"

named_theorems moves_intros \<open>handlers that keep the task table well-formed and move it forward\<close>

lemma movesD:
  "moves_on h \<Longrightarrow> task_rely env \<Longrightarrow> wf_tasks (ts_tasks s) \<Longrightarrow> h env s = Some (r, s')
   \<Longrightarrow> wf_tasks (ts_tasks s') \<and> advances (ts_tasks s) (ts_tasks s')"
  unfolding moves_on_def by blast

lemma moves_primitives [moves_intros]:
  "moves_on (tresult r)" "moves_on (tany a)" "moves_on (note_started i)" "moves_on (tattempt h)"
  by (auto simp: moves_on_def task_runs)

lemma moves_bind [moves_intros]: "moves_on h \<Longrightarrow> (\<And>a. moves_on (k a)) \<Longrightarrow> moves_on (tbind h k)"
  unfolding moves_on_def tbind_run by (metis advances_trans)

lemma moves_call [moves_intros]:
  assumes "\<And>env hit now tbl r tbl'. wf_tasks tbl \<Longrightarrow> f env hit now tbl = (r, tbl') \<Longrightarrow> wf_tasks tbl' \<and> advances tbl tbl'"
  shows "moves_on (tcall f)"
  unfolding moves_on_def
proof (intro allI impI)
  fix env s r s'
  assume rely: "task_rely env" and wf: "wf_tasks (ts_tasks s)" and run: "tcall f env s = Some (r, s')"
  let ?t = "h_tick (ts_h s)"
  let ?tbl = "te_tasks env ?t (ts_tasks s)"
  have "wf_tasks ?tbl" "advances (ts_tasks s) ?tbl" using rely wf by (simp_all add: task_rely_def)
  moreover obtain x where "f env (te_hit env ?t) (a_clock (te_api env) ?t) ?tbl = (x, ts_tasks s')"
    using run by (auto simp: tcall_run)
  ultimately show "wf_tasks (ts_tasks s') \<and> advances (ts_tasks s) (ts_tasks s')" using assms advances_trans by blast
qed

lemma moves_case [moves_intros]:
  "moves_on h \<Longrightarrow> (\<And>x. moves_on (k x)) \<Longrightarrow> moves_on (case y of None \<Rightarrow> h | Some x \<Rightarrow> k x)"
  "(\<And>e. moves_on (f e)) \<Longrightarrow> (\<And>x. moves_on (g x)) \<Longrightarrow> moves_on (case z of Inl e \<Rightarrow> f e | Inr x \<Rightarrow> g x)"
  "(b \<Longrightarrow> moves_on h) \<Longrightarrow> (\<not> b \<Longrightarrow> moves_on g') \<Longrightarrow> moves_on (if b then h else g')"
  by (auto split: option.splits sum.splits)

lemma moves_run_claimed [moves_intros]: "moves_on (run_claimed_task i action p actor)"
  unfolding run_claimed_task_def store_executed_def store_failure_def Let_def
  by (intro moves_intros; use update_run in blast)

lemma moves_execute: "moves_on (execute_integration_task source_text payload actor)"
  unfolding execute_integration_task_def claim_stage_def Let_def
  by (intro moves_intros; use create_run mark_run in blast)

lemma answered_row: "task_rely env \<Longrightarrow> wf_tasks a \<Longrightarrow> answered_from env a task b \<Longrightarrow> task \<in> set (tt_rows b)"
  unfolding answered_from_def task_rely_def using create_run mark_run by metis

text \<open>Under exclusive access the tasks whose action was begun stay claimed, each once.\<close>

lemma execute_keeps_claims:
  assumes "exclusive env" "tasks.claimed (ts_tasks s) (ts_started s)"
    and "execute_integration_task source_text payload actor env s = Some (r, s')"
  shows "tasks.claimed (ts_tasks s') (ts_started s')"
proof -
  have wf: "wf_tasks (ts_tasks s)" using assms(2) by (simp add: tasks.claimed_def)
  have rely: "task_rely env" using assms(1) by (simp add: exclusive_def)
  have next_table: "wf_tasks (te_tasks env t tbl) \<and> advances tbl (te_tasks env t tbl)" if "wf_tasks tbl" for t tbl
    using rely that by (simp add: task_rely_def)
  show ?thesis using assms(3)
  proof (cases rule: execute_integration_cases)
    case idle
    moreover have "wf_tasks (ts_tasks s') \<and> advances (ts_tasks s) (ts_tasks s')"
      by (rule movesD [OF moves_execute rely wf assms(3)])
    ultimately show ?thesis using tasks.claimed_later assms(2) by metis
  next
    case (begun action task tbl claimed_task tbl2 s1)
    let ?t = "h_tick (ts_h s)"
    have c: "wf_tasks tbl" "advances (ts_tasks s) tbl" "task \<in> set (tt_rows tbl)"
      using create_run [OF _ begun(2)] next_table [OF wf, of ?t] advances_trans by blast+
    then have "status_of tbl (task_id task) = Some ''received''" using begun(5) status_of_iff by blast
    then have waiting: "status_of (te_tasks env (?t + 1) tbl) (task_id task) = Some ''received''"
      using assms(1) c(1) by (simp add: exclusive_def)
    have m: "wf_tasks tbl2" "advances tbl tbl2" "claimed_task \<in> set (tt_rows tbl2)" "task_id claimed_task = task_id task"
      using mark_run [OF _ begun(6)] next_table [OF c(1), of "?t + 1"] advances_trans by blast+
    have "tasks.claimed (te_tasks env (?t + 1) tbl) (ts_started s)"
      using assms(2) c next_table [OF c(1)] advances_trans tasks.claimed_later by blast
    moreover have "status_of tbl2 (task_id task) = Some ''executing''" using m begun(7) status_of_iff by metis
    moreover have "advances (te_tasks env (?t + 1) tbl) tbl2" using mark_run [OF _ begun(6)] next_table [OF c(1)] by blast
    ultimately have claim: "tasks.claimed tbl2 (ts_started s @ [task_id task])"
      using tasks.claimed_next [OF _ _ m(1) waiting] by simp
    have "wf_tasks (ts_tasks s') \<and> advances tbl2 (ts_tasks s')"
      using movesD [OF moves_run_claimed rely _ begun(9)] m(1) begun(8) by simp
    moreover have "ts_started s' = ts_started s @ [task_id task]"
      using run_claimed_task_run [OF begun(9) normalize_action_known [OF begun(1)]] begun(8) m(4) by simp
    ultimately show ?thesis using tasks.claimed_later claim by metis
  qed
qed

section \<open>Properties\<close>

text \<open>Deliveries of tasks one after the other, from whichever source, each in its own environment.\<close>

inductive task_history :: "(task_env \<Rightarrow> bool) \<Rightarrow> task_state \<Rightarrow> task_state \<Rightarrow> bool" for admitted where
  no_delivery: "task_history admitted s s"
| delivery: "task_history admitted s s1 \<Longrightarrow> admitted env \<Longrightarrow> execute_integration_task source_text payload actor env s1 = Some (r, s2)
     \<Longrightarrow> task_history admitted s s2"

lemma history_keeps_claims:
  assumes "task_history exclusive s s'" "tasks.claimed (ts_tasks s) (ts_started s)"
  shows "tasks.claimed (ts_tasks s') (ts_started s')"
  using assms by (induction rule: task_history.induct) (auto dest: execute_keeps_claims)

text \<open>C22: A remote task is executed at most once: in every history of deliveries, with whatever faults of the database,
  device failures and repetitions of a request, the action of a stored task is begun at most once, and so at
  most one action is begun for all deliveries with the same source and external number. Requests that run at the
  same time may add tasks; the statement needs that they do not claim a waiting task between its lookup and its
  claim.\<close>

theorem task_executed_once:
  assumes "task_history exclusive s s'" "wf_tasks (ts_tasks s)" "ts_started s = []"
  shows "wf_tasks (ts_tasks s') \<and> distinct (ts_started s')
     \<and> (\<forall>source ext. length (filter (\<lambda>i. \<exists>row \<in> set (tt_rows (ts_tasks s')). task_id row = i \<and> task_source row = source
          \<and> external_task_id row = Some ext) (ts_started s')) \<le> 1)"
proof -
  have "tasks.claimed (ts_tasks s) (ts_started s)" using assms(2,3) by (simp add: tasks.claimed_def)
  from history_keeps_claims [OF assms(1) this] have wf: "wf_tasks (ts_tasks s')" and dist: "distinct (ts_started s')"
    by (simp_all add: tasks.claimed_def)
  have "length (filter P (ts_started s')) \<le> 1" if P: "\<And>i j. P i \<Longrightarrow> P j \<Longrightarrow> i = j" for P
  proof (cases "filter P (ts_started s')")
    case (Cons i rest)
    have "\<forall>j \<in> set (filter P (ts_started s')). P j" by simp
    then have "P i" "\<forall>j \<in> set rest. P j" unfolding Cons by simp_all
    moreover have "i \<notin> set rest" using Cons distinct_filter [OF dist, of P] by simp
    ultimately show ?thesis using Cons P by (cases rest) auto
  qed simp
  moreover have "i = j" if "\<exists>row \<in> set (tt_rows (ts_tasks s')). task_id row = i \<and> task_source row = source \<and> external_task_id row = Some ext"
      "\<exists>row \<in> set (tt_rows (ts_tasks s')). task_id row = j \<and> task_source row = source \<and> external_task_id row = Some ext" for i j source ext
    using that wf unfolding wf_tasks_def same_key_def by (metis option.distinct(1))
  ultimately show ?thesis using wf dist by presburger
qed

text \<open>A request that is delivered again has no effect: once the task stored for its source and external number has
  left the waiting state, a further delivery changes neither the runtime state nor the audit trail, writes
  nothing to the device and begins no action, whatever concurrent requests do and whatever it asks for.\<close>

theorem replay_has_no_effect:
  assumes "task_rely env" "wf_tasks (ts_tasks s)"
    and "row \<in> set (tt_rows (ts_tasks s))" "task_source row = cleaned_source source_text" "task_status row \<noteq> ''received''"
    and "external_task_id row = Some ext" "clean_optional_text (ar_external_task_id payload) 120 = Some ext"
    and "execute_integration_task source_text payload actor env s = Some (r, s')"
  shows "same_control (ts_h s) (ts_h s') \<and> ts_started s' = ts_started s"
  using assms(8)
proof (cases rule: execute_integration_cases)
  case (begun action task tbl claimed_task tbl2 s1)
  let ?tbl = "te_tasks env (h_tick (ts_h s)) (ts_tasks s)"
  have wf: "wf_tasks ?tbl" and adv: "advances (ts_tasks s) ?tbl" using assms(1,2) by (simp_all add: task_rely_def)
  from create_run [OF wf begun(2)] have tbl: "wf_tasks tbl" "advances ?tbl tbl"
    and task: "task \<in> set (tt_rows tbl)" "task_source task = cleaned_source source_text" "external_task_id task = Some ext"
    using assms(7) by (auto simp: cleaned_request_def)
  obtain row' where row': "row' \<in> set (tt_rows tbl)" "same_request row row'"
    using advances_row [OF advances_trans [OF adv tbl(2)] assms(3)] by blast
  then have "same_key row' task" "task_status row' \<noteq> ''received''" using assms(4-6) task unfolding same_request_def same_key_def by (metis option.distinct(1))+
  then show ?thesis using tbl(1) row'(1) task(1) begun(5) by (auto simp: wf_tasks_def)
qed simp

section \<open>Outcomes\<close>

lemma apply_targets_no_writes: "no_writes (apply_ainas_targets p actor)"
  unfolding apply_ainas_targets_def commit_targets_after_final_interlock_def Let_def
  by (intro no_writes_bind no_writes_intros no_writes_more) (auto simp: no_writes_def insert_event_def Let_def split: sum.splits)

lemma ainas_task_fails_closed: "device_fails_closed (execute_ainas_task action p actor)"
proof -
  have ret: "device_fails_closed (hreturn x)" for x :: task_receipt
    by (simp add: device_fails_closed_def hreturn_def)
  have tail: "device_fails_closed (hbind h (\<lambda>x. hreturn (f x)))" if "device_fails_closed h" for h :: "'b handler" and f :: "'b \<Rightarrow> task_receipt"
    using that by (auto simp: device_fails_closed_def hbind_Err_iff hreturn_def)
  show ?thesis
    unfolding execute_ainas_task_def case_prod_beta
    by (intro device_fails_closed_case(2) device_fails_closed_bind no_writes_intros tail start_lifecycle_fails_closed stop_lifecycle_fails_closed
        device_fails_closed_weaken(2) apply_targets_no_writes)
qed


lemma executed_run:
  assumes "task_rely env" "wf_tasks (ts_tasks s)"
    and "execute_integration_task source_text payload actor env s = Some (Ok task, s')" "ts_started s' \<noteq> ts_started s"
  shows "task \<in> set (tt_rows (ts_tasks s')) \<and> task_status task = ''executed''
     \<and> (\<exists>action p before after. same_control (ts_h s) before
          \<and> execute_ainas_task action p actor (te_api env) before = Some (Ok (task_response task), after)
          \<and> same_control after (ts_h s'))"
  using assms(3)
proof (cases rule: execute_integration_cases)
  case (begun action found tbl claimed_task tbl2 s1)
  let ?p = "cleaned_request action payload"
  let ?next = "te_tasks env (h_tick (ts_h s) + 1) tbl"
  have tbl: "wf_tasks tbl" using create_run [OF _ begun(2)] assms(1,2) by (simp add: task_rely_def)
  then have "wf_tasks tbl2" using mark_run [OF _ begun(6)] assms(1) by (simp add: task_rely_def)
  then have wf: "wf_tasks (te_tasks env t (ts_tasks s1))" for t using assms(1) begun(8) by (simp add: task_rely_def)
  from run_claimed_task_run [OF begun(9) normalize_action_known [OF begun(1)]] obtain receipt after t q where
    run: "execute_ainas_task action ?p actor (te_api env) (ts_h s1) = Some (Ok receipt, after)"
    and st: "stored (te_tasks env t (ts_tasks s1)) (task_id claimed_task) ''executed'' receipt q (ts_tasks s')"
    and q: "q = Ok (Some task)" "same_control after (ts_h s')"
    by (metis sum.distinct(1) sum.exhaust)
  have "task \<in> set (tt_rows (ts_tasks s')) \<and> task_status task = ''executed'' \<and> task_response task = receipt"
    using st q(1) update_run [OF wf] unfolding stored_def by blast
  moreover have "same_control (ts_h s) (ts_h s1)" using begun(8) by (simp add: same_control_def)
  ultimately show ?thesis using run q(2) by blast
qed (use assms(4) in simp)

text \<open>A remote task that was begun and is answered as done has been done: the stored task is in state
  \<open>executed\<close>, its action succeeded on the state the request found, its receipt is what the action returned, and
  storing the receipt changed nothing on the control side.\<close>

theorem executed_receipt_sound:
  assumes "task_rely env" "wf_tasks (ts_tasks s)"
    and "execute_integration_task source_text payload actor env s = Some (Ok task, s')" "ts_started s' \<noteq> ts_started s"
  shows "task \<in> set (tt_rows (ts_tasks s')) \<and> task_status task = ''executed''
     \<and> (\<exists>action p before after. same_control (ts_h s) before
          \<and> execute_ainas_task action p actor (te_api env) before = Some (Ok (task_response task), after)
          \<and> same_control after (ts_h s'))"
  using assms by (rule executed_run)

lemma execute_ok_row:
  assumes "task_rely env" "wf_tasks (ts_tasks s)" "execute_integration_task source_text payload actor env s = Some (Ok task, s')"
  shows "task \<in> set (tt_rows (ts_tasks s')) \<and> wf_tasks (ts_tasks s')"
proof -
  have "task \<in> set (tt_rows (ts_tasks s'))"
  proof (cases "ts_started s' = ts_started s")
    case True
    show ?thesis using assms(3)
    proof (cases rule: execute_integration_cases)
      case idle
      then show ?thesis using answered_row assms(1,2) by blast
    next
      case (begun action found tbl claimed_task tbl2 s1)
      then have "ts_started s' = ts_started s @ [task_id claimed_task]"
        using run_claimed_task_run [OF begun(9) normalize_action_known [OF begun(1)]] by simp
      with True show ?thesis by simp
    qed
  next
    case False
    then show ?thesis using executed_run [OF assms] by blast
  qed
  then show ?thesis using movesD [OF moves_execute assms] by blast
qed

section \<open>Latches and totality\<close>

definition tkeeps :: "(runtime_state \<Rightarrow> bool) \<Rightarrow> 'a task_handler \<Rightarrow> bool" where
  "tkeeps P h \<longleftrightarrow> (\<forall>env s r s'. api_rely P (te_api env) \<longrightarrow> P (h_rt (ts_h s)) \<longrightarrow> h env s = Some (r, s') \<longrightarrow> P (h_rt (ts_h s')))"

definition treturns :: "'a task_handler \<Rightarrow> bool" where
  "treturns h \<longleftrightarrow> (\<forall>env s. wf_safety (a_safety (te_api env)) \<longrightarrow> h env s \<noteq> None)"

named_theorems task_keeps \<open>composition rules for handlers over the task table\<close>

lemma tkeeps_primitives [task_keeps]:
  "tkeeps P (tresult r)" "tkeeps P (tany a)" "tkeeps P (note_started i)" "tkeeps P (tcall f)"
  by (auto simp: tkeeps_def task_runs)

lemma tkeeps_bind [task_keeps]: "tkeeps P h \<Longrightarrow> (\<And>a. tkeeps P (k a)) \<Longrightarrow> tkeeps P (tbind h k)"
  unfolding tkeeps_def tbind_run by blast

lemma tkeeps_attempt [task_keeps]: "keeps P h \<Longrightarrow> tkeeps P (tattempt h)"
  unfolding tkeeps_def tattempt_run using keepsD by fastforce

lemma tkeeps_case [task_keeps]:
  "tkeeps P h \<Longrightarrow> (\<And>x. tkeeps P (k x)) \<Longrightarrow> tkeeps P (case y of None \<Rightarrow> h | Some x \<Rightarrow> k x)"
  "(\<And>e. tkeeps P (f e)) \<Longrightarrow> (\<And>x. tkeeps P (g x)) \<Longrightarrow> tkeeps P (case z of Inl e \<Rightarrow> f e | Inr x \<Rightarrow> g x)"
  "(b \<Longrightarrow> tkeeps P h) \<Longrightarrow> (\<not> b \<Longrightarrow> tkeeps P g') \<Longrightarrow> tkeeps P (if b then h else g')"
  by (auto split: option.splits sum.splits)

lemma treturns_primitives [task_keeps]:
  "treturns (tresult r)" "treturns (tany a)" "treturns (note_started i)" "treturns (tcall f)"
  by (auto simp: treturns_def tresult_def tany_def note_started_def tcall_def Let_def split: prod.splits)

lemma treturns_bind [task_keeps]: "treturns h \<Longrightarrow> (\<And>a. treturns (k a)) \<Longrightarrow> treturns (tbind h k)"
  by (auto simp: treturns_def tbind_def split: option.splits prod.splits sum.splits)

lemma treturns_attempt [task_keeps]: "returns h \<Longrightarrow> treturns (tattempt h)"
  by (auto simp: treturns_def returns_def tattempt_def)

lemma treturns_case [task_keeps]:
  "treturns h \<Longrightarrow> (\<And>x. treturns (k x)) \<Longrightarrow> treturns (case y of None \<Rightarrow> h | Some x \<Rightarrow> k x)"
  "(\<And>e. treturns (f e)) \<Longrightarrow> (\<And>x. treturns (g x)) \<Longrightarrow> treturns (case z of Inl e \<Rightarrow> f e | Inr x \<Rightarrow> g x)"
  "(b \<Longrightarrow> treturns h) \<Longrightarrow> (\<not> b \<Longrightarrow> treturns g') \<Longrightarrow> treturns (if b then h else g')"
  by (auto split: option.splits sum.splits)

lemma keeps_latch_receipt [latch_keeps]: "keeps latches_hold (latch_integration_receipt_failure_after_action action err)"
  unfolding latch_integration_receipt_failure_after_action_def
  by (rule keeps_lock) (auto simp: latches_hold_def latch_audit_failure_after_device_action_def latch_control_fault_def Let_def)

lemma keeps_ainas_task [latch_keeps]: "keeps latches_hold (execute_ainas_task action p actor)"
  unfolding execute_ainas_task_def apply_ainas_targets_def Let_def case_prod_beta by (intro keeps_intros latch_keeps)

lemma returns_ainas_task [returns_intros]:
  "returns (execute_ainas_task action p actor)" "returns (latch_integration_receipt_failure_after_action action err)"
  unfolding execute_ainas_task_def apply_ainas_targets_def latch_integration_receipt_failure_after_action_def Let_def case_prod_beta
  by (intro returns_intros)+

lemma tkeeps_execute [task_keeps]: "tkeeps latches_hold (execute_integration_task source_text payload actor)"
  unfolding execute_integration_task_def claim_stage_def run_claimed_task_def store_executed_def store_failure_def Let_def
  by (intro task_keeps latch_keeps)

lemma treturns_execute [task_keeps]: "treturns (execute_integration_task source_text payload actor)"
  unfolding execute_integration_task_def claim_stage_def run_claimed_task_def store_executed_def store_failure_def Let_def
  by (intro task_keeps returns_intros)

text \<open>The route as the rest of the interface sees it, for some task table and some behaviour of the requests around it.\<close>

definition with_tasks ::
    "(nat \<Rightarrow> task_table \<Rightarrow> task_table) \<Rightarrow> (nat \<Rightarrow> db_fault) \<Rightarrow> (request_value \<Rightarrow> request_value) \<Rightarrow> task_table \<Rightarrow> 'a task_handler \<Rightarrow> 'a handler" where
  "with_tasks others hits reparse tbl h = (\<lambda>env s. map_option (\<lambda>(r, ts). (r, ts_h ts))
     (h \<lparr>te_api = env, te_tasks = others, te_hit = hits, te_reparse = reparse\<rparr> \<lparr>ts_h = s, ts_tasks = tbl, ts_started = []\<rparr>))"

lemma keeps_with_tasks: "tkeeps P h \<Longrightarrow> keeps P (with_tasks others hits reparse tbl h)"
proof (rule keepsI)
  fix env s r s'
  let ?env = "\<lparr>te_api = env, te_tasks = others, te_hit = hits, te_reparse = reparse\<rparr>"
  assume h: "tkeeps P h" and rely: "api_rely P env" and P: "P (h_rt s)"
    and run: "with_tasks others hits reparse tbl h env s = Some (r, s')"
  from run obtain ts where "h ?env \<lparr>ts_h = s, ts_tasks = tbl, ts_started = []\<rparr> = Some (r, ts)" "s' = ts_h ts"
    by (auto simp: with_tasks_def)
  moreover have "api_rely P (te_api ?env)" "P (h_rt (ts_h \<lparr>ts_h = s, ts_tasks = tbl, ts_started = []\<rparr>))" using rely P by simp_all
  ultimately show "P (h_rt s')" using h unfolding tkeeps_def by blast
qed

lemma returns_with_tasks: "treturns h \<Longrightarrow> returns (with_tasks others hits reparse tbl h)"
  unfolding returns_def treturns_def with_tasks_def by simp

lemma keeps_ainas_route: "keeps latches_hold (with_tasks others hits reparse tbl (create_ainas_task session payload))"
  unfolding create_ainas_task_def by (intro keeps_with_tasks task_keeps)

lemma returns_ainas_route: "returns (with_tasks others hits reparse tbl (create_ainas_task session payload))"
  unfolding create_ainas_task_def by (intro returns_with_tasks task_keeps)

section \<open>Witnesses\<close>

definition demo_task_request :: ainas_task_request where
  "demo_task_request = \<lparr>ar_external_task_id = Some ''t1'', ar_action = ''stop'', ar_process_id = None, ar_target_temperature_c = None,
     ar_target_stirrer_rpm = None, ar_target_shake_speed_cpm = None, ar_target_pressure_mpa = None, ar_heat_time_s = None,
     ar_hold_time_s = None, ar_cool_time_s = None, ar_reason = None\<rparr>"

definition demo_task_env :: "(nat \<Rightarrow> task_table \<Rightarrow> task_table) \<Rightarrow> (nat \<Rightarrow> db_fault) \<Rightarrow> task_env" where
  "demo_task_env others hits = \<lparr>te_api = demo_process_env (Ok ()), te_tasks = others, te_hit = hits, te_reparse = (\<lambda>v. v)\<rparr>"

definition demo_task_state :: task_state where
  "demo_task_state = \<lparr>ts_h = demo_running, ts_tasks = \<lparr>tt_rows = [], tt_next = 1\<rparr>, ts_started = []\<rparr>"

definition demo_stored_request :: ainas_task_request where
  "demo_stored_request = demo_task_request\<lparr>ar_action := ''stop_process''\<rparr>"

definition demo_row :: integration_task where
  "demo_row = new_row (\<lambda>v. v) 0 ''ainas'' (Some ''t1'') ''stop_process'' (request_to_value demo_stored_request) 1"

lemma demo_cleaning:
  "normalize_ainas_action ''stop'' = Ok ''stop_process''"
  "clean_optional_text (Some ''t1'') 120 = Some ''t1''" "clean_optional_text None n = None" "cleaned_source ''ainas'' = ''ainas''"
  "cleaned_request ''stop_process'' demo_task_request = demo_stored_request"
  by (simp_all add: normalize_ainas_action_def trim_chars_def clean_optional_text_def clean_label_def normalize_eval Let_def
      ascii_lower_def cleaned_request_def demo_stored_request_def demo_task_request_def)

lemma demo_row_ok: "ensure_valid_integration_task_create_for_insert ''ainas'' (Some ''t1'') ''stop_process'' = Ok ()"
  by (simp add: ensure_valid_integration_task_create_for_insert_def validate_integration_task_source_def
      validate_integration_task_external_id_def validate_integration_task_clean_text_def validate_integration_task_action_def
      normalize_eval trim_chars_def source_char_def Let_def)

lemma demo_create:
  "create_integration_task (\<lambda>v. v) NoFault 0 ''ainas'' (Some ''t1'') ''stop_process'' (request_to_value demo_stored_request)
     \<lparr>tt_rows = [], tt_next = 1\<rparr> = (Ok demo_row, \<lparr>tt_rows = [demo_row], tt_next = 2\<rparr>)"
proof -
  have "row_ok demo_row" unfolding demo_row_def by (rule new_row_ok [OF demo_row_ok])
  then have "load_optional (Some demo_row) = Ok (Some demo_row)" by (rule load_ok)
  moreover have "load_optional None = Ok None" by (simp add: load_optional_def)
  moreover have "task_id demo_row = 1" by (simp add: demo_row_def new_row_def)
  ultimately show ?thesis
    by (simp add: create_integration_task_def demo_row_ok lookup_external_def integration_task_by_external_id_def
        integration_task_by_id_def unique_violation_def Let_def demo_row_def [symmetric])
qed

lemma demo_mark:
  "mark_integration_task_executing NoFault 0 1 \<lparr>tt_rows = [demo_row], tt_next = 2\<rparr> =
     (Ok (Some (mark_row 0 demo_row)), \<lparr>tt_rows = [mark_row 0 demo_row], tt_next = 2\<rparr>)"
proof -
  have ok: "row_ok demo_row" unfolding demo_row_def by (rule new_row_ok [OF demo_row_ok])
  have "task_id demo_row = 1" "task_status demo_row = ''received''" by (simp_all add: demo_row_def new_row_def)
  then show ?thesis using load_ok [OF ok] load_ok [OF mark_row_props(2) [OF ok]] mark_row_props(3) [of 0 demo_row]
    by (simp add: mark_integration_task_executing_def integration_task_by_id_def update_row_def Let_def)
qed

lemma demo_stop_action:
  "\<exists>resp hs. execute_ainas_task ''stop_process'' demo_stored_request system_actor (demo_process_env (Ok ())) (demo_running\<lparr>h_tick := 2\<rparr>)
     = Some (Ok (ReceiptStopped resp), hs) \<and> 2 \<le> h_tick hs \<and> h_writes hs \<noteq> h_writes demo_running"
proof -
  obtain stop where stop: "process_stop_targets shipped_safety = Some stop"
    using process_stop_targets_total [OF shipped_safety_valid] by blast
  show ?thesis
    by (simp add: execute_ainas_task_def demo_stored_request_def demo_task_request_def
        stop_process_lifecycle_def hbind_def read_lock_def with_lock_def db_call_def hany_def hresult_def
        expected_process_check_def safety_of_def hpanic_def stop stop_process_on_device_def device_write_def hreturn_def
        confirm_stopped_def close_stopped_process_def close_batch_record_def finish_stop_def db_exec_def insert_event_def
        clear_stopped_batch_def demo_batch_def demo_running_def Let_def)
qed

text \<open>The run of the example up to its claim.\<close>

lemma demo_claim:
  assumes "hits 0 = NoFault" "hits 1 = NoFault" "\<And>tbl. others 0 tbl = tbl"
    and "others 1 \<lparr>tt_rows = [demo_row], tt_next = 2\<rparr> = tbl" "mark_integration_task_executing NoFault 0 1 tbl = (Ok (Some claimed_task), tbl2)"
    and "task_status claimed_task = ''executing''"
  shows "execute_integration_task ''ainas'' demo_task_request system_actor (demo_task_env others hits) demo_task_state =
     run_claimed_task (task_id claimed_task) ''stop_process'' demo_stored_request system_actor (demo_task_env others hits)
       (demo_task_state\<lparr>ts_tasks := tbl2, ts_h := demo_running\<lparr>h_tick := 2\<rparr>\<rparr>)"
proof -
  have a: "ar_action demo_task_request = ''stop''" "ar_external_task_id demo_task_request = Some ''t1''" "ar_reason demo_task_request = None"
    "ar_process_id demo_task_request = None" by (simp_all add: demo_task_request_def)
  have t: "h_tick demo_running = 0" by (simp add: demo_running_def demo_hstate_def)
  have req: "demo_task_request\<lparr>ar_action := ''stop_process'', ar_external_task_id := Some ''t1'', ar_reason := None\<rparr> = demo_stored_request"
    by (simp add: demo_stored_request_def demo_task_request_def)
  have match: "ensure_integration_task_payload_matches demo_row ''stop_process'' (request_to_value demo_stored_request) = Ok ()"
    by (simp add: ensure_integration_task_payload_matches_def demo_row_def new_row_def value_eq_def request_to_value_def
        demo_stored_request_def demo_task_request_def field_text_def field_number_def)
  have row: "task_status demo_row = ''received''" "task_id demo_row = 1" "ar_external_task_id demo_stored_request = Some ''t1''"
    by (simp_all add: demo_row_def new_row_def demo_stored_request_def demo_task_request_def)
  have clock: "a_clock (demo_process_env (Ok ())) n = 0" for n by simp
  have c: "execute_integration_task ''ainas'' demo_task_request system_actor (demo_task_env others hits) demo_task_state =
     tbind (tcall (\<lambda>env hit now tbl. mark_integration_task_executing hit now 1 tbl)) (\<lambda>marked.
       claim_stage ''stop_process'' demo_stored_request system_actor marked) (demo_task_env others hits)
      (demo_task_state\<lparr>ts_tasks := \<lparr>tt_rows = [demo_row], tt_next = 2\<rparr>, ts_h := demo_running\<lparr>h_tick := 1\<rparr>\<rparr>)"
    using assms(1,3) demo_create match row
    by (simp add: execute_integration_task_def tbind_def tresult_def tcall_def tany_def a demo_cleaning validate_integration_action_shape_def
        req demo_task_env_def demo_task_state_def t Let_def)
  show ?thesis unfolding c using assms
    by (simp add: tbind_def tcall_def claim_stage_def tany_def tresult_def demo_task_env_def demo_task_state_def Let_def numeral_2_eq_2)
qed

lemma demo_marked_row:
  "task_id (mark_row 0 demo_row) = 1" "task_status (mark_row 0 demo_row) = ''executing''" "row_ok (mark_row 0 demo_row)"
  using mark_row_props(2) [OF new_row_ok [OF demo_row_ok]] by (simp_all add: demo_row_def mark_row_def new_row_def)

lemma demo_wf: "wf_tasks (ts_tasks demo_task_state)"
  by (simp add: demo_task_state_def wf_tasks_def)

lemma demo_exclusive: "exclusive (demo_task_env (\<lambda>_ tbl. tbl) hits)"
  by (simp add: exclusive_def task_rely_def demo_task_env_def)

lemma demo_begun:
  assumes "hits 0 = NoFault" "hits 1 = NoFault"
  shows "execute_integration_task ''ainas'' demo_task_request system_actor (demo_task_env (\<lambda>_ tbl. tbl) hits) demo_task_state =
     run_claimed_task 1 ''stop_process'' demo_stored_request system_actor (demo_task_env (\<lambda>_ tbl. tbl) hits)
       (demo_task_state\<lparr>ts_tasks := \<lparr>tt_rows = [mark_row 0 demo_row], tt_next = 2\<rparr>, ts_h := demo_running\<lparr>h_tick := 2\<rparr>\<rparr>)"
  using demo_claim [of hits "\<lambda>_ tbl. tbl", OF _ _ _ refl demo_mark] demo_marked_row assms by simp

lemma demo_update:
  fixes resp
  defines "row \<equiv> (mark_row 0 demo_row)\<lparr>task_status := ''executed'', task_response := ReceiptStopped resp, task_updated_at := 0\<rparr>"
  shows "update_integration_task hit 0 1 ''executed'' (ReceiptStopped resp) \<lparr>tt_rows = [mark_row 0 demo_row], tt_next = 2\<rparr> = (case hit of
       NoFault \<Rightarrow> (Ok (Some row), \<lparr>tt_rows = [row], tt_next = 2\<rparr>)
     | FaultBefore e \<Rightarrow> (Err e, \<lparr>tt_rows = [mark_row 0 demo_row], tt_next = 2\<rparr>)
     | FaultAfter e \<Rightarrow> (Err e, \<lparr>tt_rows = [row], tt_next = 2\<rparr>))"
proof -
  have ok: "validate_integration_task_response_payload ''executed'' (ReceiptStopped resp) = Ok ()" "validate_integration_task_status ''executed'' = Ok ()"
    by (simp_all add: validate_integration_task_response_payload_def validate_integration_task_status_def)
  show ?thesis unfolding row_def
    using demo_marked_row load_ok [OF demo_marked_row(3)] load_ok [OF row_ok_update [OF demo_marked_row(3) ok(2,1)]]
    by (simp add: update_integration_task_def ensure_valid_integration_task_update_for_insert_def ok
        validate_integration_task_terminal_status_def integration_task_by_id_def update_row_def Let_def split: db_fault.split)
qed

lemma demo_task_done:
  "\<exists>task s'. execute_integration_task ''ainas'' demo_task_request system_actor (demo_task_env (\<lambda>_ tbl. tbl) (\<lambda>_. NoFault)) demo_task_state
     = Some (Ok task, s') \<and> ts_started s' = [1]"
proof -
  obtain resp hs where act: "execute_ainas_task ''stop_process'' demo_stored_request system_actor (demo_process_env (Ok ()))
      (demo_running\<lparr>h_tick := 2\<rparr>) = Some (Ok (ReceiptStopped resp), hs)" using demo_stop_action by blast
  then show ?thesis unfolding demo_begun [OF refl refl]
    by (simp add: run_claimed_task_def store_executed_def note_started_def tattempt_def tcall_def tbind_def tresult_def
        demo_task_env_def demo_task_state_def demo_update)
qed

text \<open>The same request when the database fails to store the receipt.\<close>

lemma demo_task_unreceipted:
  "\<exists>e s'. execute_integration_task ''ainas'' demo_task_request system_actor
      (demo_task_env (\<lambda>_ tbl. tbl) (\<lambda>n. if n < 2 then NoFault else FaultAfter [''disk full''])) demo_task_state
     = Some (Err e, s') \<and> ts_started s' = [1] \<and> h_writes (ts_h s') \<noteq> h_writes demo_running"
proof -
  let ?hits = "\<lambda>n :: nat. if n < 2 then NoFault else FaultAfter [''disk full'']"
  obtain resp hs where act: "execute_ainas_task ''stop_process'' demo_stored_request system_actor (demo_process_env (Ok ()))
      (demo_running\<lparr>h_tick := 2\<rparr>) = Some (Ok (ReceiptStopped resp), hs)" and tick: "2 \<le> h_tick hs" "h_writes hs \<noteq> h_writes demo_running"
    using demo_stop_action by blast
  then show ?thesis unfolding demo_begun [of ?hits, OF if_P if_P, simplified]
    by (simp add: run_claimed_task_def store_executed_def note_started_def tattempt_def tcall_def tbind_def tresult_def
        demo_task_env_def demo_task_state_def demo_update latch_integration_receipt_failure_after_action_def with_lock_def Let_def)
qed

theorem task_executed_once_witness:
  "\<exists>s'. task_history exclusive demo_task_state s' \<and> ts_started s' = [1] \<and> wf_tasks (ts_tasks s')"
proof -
  obtain task s' where run: "execute_integration_task ''ainas'' demo_task_request system_actor (demo_task_env (\<lambda>_ tbl. tbl) (\<lambda>_. NoFault)) demo_task_state
     = Some (Ok task, s')" "ts_started s' = [1]" using demo_task_done by blast
  have h: "task_history exclusive demo_task_state s'"
    by (rule delivery [where admitted = exclusive, OF no_delivery demo_exclusive run(1)])
  have "ts_started demo_task_state = []" by (simp add: demo_task_state_def)
  from task_executed_once [OF h demo_wf this] run h show ?thesis by blast
qed

theorem executed_receipt_sound_witness:
  "\<exists>task s'. execute_integration_task ''ainas'' demo_task_request system_actor (demo_task_env (\<lambda>_ tbl. tbl) (\<lambda>_. NoFault)) demo_task_state
     = Some (Ok task, s') \<and> task_status task = ''executed''"
proof -
  obtain task s' where run: "execute_integration_task ''ainas'' demo_task_request system_actor (demo_task_env (\<lambda>_ tbl. tbl) (\<lambda>_. NoFault)) demo_task_state
     = Some (Ok task, s')" "ts_started s' = [1]" using demo_task_done by blast
  have "task_rely (demo_task_env (\<lambda>_ tbl. tbl) (\<lambda>_. NoFault))" using demo_exclusive by (simp add: exclusive_def)
  moreover have "ts_started s' \<noteq> ts_started demo_task_state" using run(2) by (simp add: demo_task_state_def)
  ultimately show ?thesis using executed_receipt_sound [OF _ demo_wf run(1)] run(1) by blast
qed


theorem replay_has_no_effect_witness:
  "\<exists>s1 s2 r. task_history exclusive demo_task_state s1 \<and>
     execute_integration_task ''ainas'' demo_task_request system_actor (demo_task_env (\<lambda>_ tbl. tbl) (\<lambda>_. NoFault)) s1 = Some (r, s2)
     \<and> same_control (ts_h s1) (ts_h s2) \<and> ts_started s2 = [1]"
proof -
  let ?env = "demo_task_env (\<lambda>_ tbl. tbl) (\<lambda>_. NoFault)"
  obtain resp hs where act: "execute_ainas_task ''stop_process'' demo_stored_request system_actor (demo_process_env (Ok ()))
      (demo_running\<lparr>h_tick := 2\<rparr>) = Some (Ok (ReceiptStopped resp), hs)" using demo_stop_action by blast
  let ?row = "(mark_row 0 demo_row)\<lparr>task_status := ''executed'', task_response := ReceiptStopped resp, task_updated_at := 0\<rparr>"
  obtain task s1 where run: "execute_integration_task ''ainas'' demo_task_request system_actor ?env demo_task_state = Some (Ok task, s1)"
    "ts_started s1 = [1]" "ts_tasks s1 = \<lparr>tt_rows = [?row], tt_next = 2\<rparr>"
    using act unfolding demo_begun [OF refl refl]
    by (simp add: run_claimed_task_def store_executed_def note_started_def tattempt_def tcall_def tbind_def tresult_def
        demo_task_env_def demo_task_state_def demo_update)
  have h: "task_history exclusive demo_task_state s1" by (rule delivery [where admitted = exclusive, OF no_delivery demo_exclusive run(1)])
  have rely: "task_rely ?env" using demo_exclusive by (simp add: exclusive_def)
  have wf: "wf_tasks (ts_tasks s1)" using movesD [OF moves_execute rely demo_wf run(1)] by simp
  have "wf_safety (a_safety (te_api ?env))" by (simp add: demo_task_env_def)
  then obtain r s2 where again: "execute_integration_task ''ainas'' demo_task_request system_actor ?env s1 = Some (r, s2)"
    using treturns_execute unfolding treturns_def by (metis not_None_eq surj_pair)
  have "same_control (ts_h s1) (ts_h s2) \<and> ts_started s2 = ts_started s1"
    by (rule replay_has_no_effect [OF rely wf _ _ _ _ _ again, where row = ?row and ext = "''t1''"])
       (simp_all add: run(3) demo_row_def mark_row_def new_row_def demo_cleaning demo_task_request_def)
  then show ?thesis using h again run(2) by auto
qed

text \<open>Two deliveries at the same time: the other request claims the task after this one has looked it up. The claim then
  answers this request with the same row in the state \<open>executing\<close>, which it takes for its own claim, and the action of
  one task is begun by both.\<close>

lemma concurrent_delivery_begins_twice:
  "\<exists>env other s' r. task_rely env \<and> mark_integration_task_executing NoFault 0 1 \<lparr>tt_rows = [demo_row], tt_next = 2\<rparr>
        = (Ok (Some other), te_tasks env 1 \<lparr>tt_rows = [demo_row], tt_next = 2\<rparr>) \<and> task_status other = ''executing''
     \<and> execute_integration_task ''ainas'' demo_task_request system_actor env demo_task_state = Some (r, s') \<and> ts_started s' = [task_id other]"
proof -
  define others where "others = (\<lambda>(n :: nat) tbl. if n = 1 then snd (mark_integration_task_executing NoFault 0 1 tbl) else tbl)"
  let ?env = "demo_task_env others (\<lambda>_. NoFault)"
  have rely: "task_rely ?env"
  proof -
    have "wf_tasks (others t tbl) \<and> advances tbl (others t tbl)" if "wf_tasks tbl" for t tbl
      using mark_run [OF that prod.collapse [symmetric], of NoFault 0 1] that by (simp add: others_def)
    then show ?thesis by (simp add: task_rely_def demo_task_env_def)
  qed
  have o: "others 1 \<lparr>tt_rows = [demo_row], tt_next = 2\<rparr> = \<lparr>tt_rows = [mark_row 0 demo_row], tt_next = 2\<rparr>"
    by (simp add: others_def demo_mark)
  have again: "mark_integration_task_executing NoFault 0 1 \<lparr>tt_rows = [mark_row 0 demo_row], tt_next = 2\<rparr>
      = (Ok (Some (mark_row 0 demo_row)), \<lparr>tt_rows = [mark_row 0 demo_row], tt_next = 2\<rparr>)"
    using demo_marked_row load_ok [OF demo_marked_row(3)] by (simp add: mark_integration_task_executing_def integration_task_by_id_def)
  have "others 0 tbl = tbl" for tbl by (simp add: others_def)
  then have run: "execute_integration_task ''ainas'' demo_task_request system_actor ?env demo_task_state =
     run_claimed_task 1 ''stop_process'' demo_stored_request system_actor ?env
       (demo_task_state\<lparr>ts_tasks := \<lparr>tt_rows = [mark_row 0 demo_row], tt_next = 2\<rparr>, ts_h := demo_running\<lparr>h_tick := 2\<rparr>\<rparr>)"
    using demo_claim [of "\<lambda>_. NoFault" others, OF _ _ _ o again] demo_marked_row by simp
  have "wf_safety (a_safety (te_api ?env))" by (simp add: demo_task_env_def)
  then obtain r s' where r: "execute_integration_task ''ainas'' demo_task_request system_actor ?env demo_task_state = Some (r, s')"
    using treturns_execute unfolding treturns_def by (metis not_None_eq surj_pair)
  moreover have "ts_started s' = [1]"
    using run_claimed_task_run [OF r [unfolded run]] by (simp add: demo_task_state_def)
  ultimately show ?thesis using rely demo_mark o demo_marked_row
    by (intro exI [of _ ?env] exI [of _ "mark_row 0 demo_row"] exI [of _ s'] exI [of _ r]) (simp add: demo_task_env_def)
qed

text \<open>An external number that is cut at a word boundary keeps a trailing space, which the table refuses: a request with
  such a number is answered with an internal error instead of being stored under the shortened number.\<close>

lemma letters_chars: "utf8_chars (replicate n (CHR ''a'') @ rest) = replicate n 97 @ utf8_chars rest"
  by (induction n) (simp_all add: byte_in_def)

lemma letters_string: "utf8_string (replicate n 97 @ rest) = replicate n (CHR ''a'') @ utf8_string rest"
  by (induction n) (simp_all add: utf8_string_def utf8_char_def char_of_def bit_0)

lemma letters_kept:
  "length acc + n \<le> m \<Longrightarrow> normalize_loop m acc False (length acc) (replicate n 97 @ rest) =
     normalize_loop m (acc @ replicate n 97) False (length acc + n) rest"
proof (induction n arbitrary: acc)
  case (Suc n)
  then show ?case using Suc.IH [of "acc @ [97]"]
    by (simp add: is_invisible_format_char_def is_control_def is_whitespace_def)
qed simp

lemma cut_external_id_refused:
  "clean_optional_text (Some (replicate 119 (CHR ''a'') @ '' b'')) 120 = Some (replicate 119 (CHR ''a'') @ '' '')
   \<and> \<not> is_ok (validate_integration_task_external_id (replicate 119 (CHR ''a'') @ '' ''))"
proof -
  have "normalize_loop 120 [] False 0 (replicate 119 97 @ [32, 98]) = replicate 119 97 @ [32]"
    using letters_kept [of "[]" 119 120 "[32, 98]"]
    by (simp add: is_invisible_format_char_def is_control_def is_whitespace_def)
  then have "normalize_operator_text (replicate 119 (CHR ''a'') @ '' b'') 120 = replicate 119 (CHR ''a'') @ '' ''"
    by (simp add: normalize_operator_text_def letters_chars letters_string byte_in_def)
       (simp add: utf8_string_def utf8_char_def char_of_def bit_0)
  moreover have "dropWhile is_whitespace (replicate 119 97) = replicate 119 97" for rest :: "nat list"
    by (simp add: dropWhile_replicate is_whitespace_def)
  then have "trim_chars (replicate 119 97 @ [32]) \<noteq> replicate 119 97 @ [32]"
    by (simp add: trim_chars_def is_whitespace_def dropWhile_append)
  then have "\<not> is_ok (validate_integration_task_external_id (replicate 119 (CHR ''a'') @ '' ''))"
    by (simp add: validate_integration_task_external_id_def validate_integration_task_clean_text_def letters_chars byte_in_def Let_def)
  ultimately show ?thesis by (simp add: clean_optional_text_def clean_label_def Let_def)
qed

end
