(* ===== verification/Mqtt_Bridge.thy ===== *)
theory Mqtt_Bridge
  imports Integration
begin

text \<open>
  The MQTT bridge (\<open>mqtt.rs\<close>): its configuration and status, tasks received on the task topic and their receipts, the
  alert snapshots, and the event loop that goes on after every connection error. The client library is outside: the
  events it delivers and whether it accepts a message to publish are arguments.
\<close>

section \<open>Configuration and status\<close>

record mqtt_bridge_config =
  mq_enabled :: bool
  mq_host :: string
  mq_port :: u16
  mq_client_id :: string
  mq_username :: "string option"
  mq_password :: "string option"
  mq_use_tls :: bool
  mq_ca_cert :: "string option"
  mq_client_cert :: "string option"
  mq_client_key :: "string option"
  mq_keep_alive_s :: u64
  mq_queue_capacity :: u64
  mq_task_topic :: string
  mq_receipt_topic :: string
  mq_status_topic :: string
  mq_alert_topic :: string
  mq_alert_interval_s :: u64

definition mqtt_default :: mqtt_bridge_config where
  "mqtt_default = \<lparr>mq_enabled = False, mq_host = ''127.0.0.1'', mq_port = 8883, mq_client_id = ''xingshu-reactor-001'', mq_username = None,
     mq_password = None, mq_use_tls = True, mq_ca_cert = None, mq_client_cert = None, mq_client_key = None, mq_keep_alive_s = 30,
     mq_queue_capacity = 16, mq_task_topic = ''xingshu/reactor_001/tasks'', mq_receipt_topic = ''xingshu/reactor_001/task_receipts'',
     mq_status_topic = ''xingshu/reactor_001/status'', mq_alert_topic = ''xingshu/reactor_001/alerts'', mq_alert_interval_s = 5\<rparr>"

definition ensure_non_empty :: "string \<Rightarrow> string \<Rightarrow> anyhow + unit" where
  "ensure_non_empty field value = (if trim_chars (utf8_chars value) = [] then Err [field @ '' must not be empty''] else Ok ())"

definition ensure_positive :: "string \<Rightarrow> u64 \<Rightarrow> anyhow + unit" where
  "ensure_positive field value = (if value = 0 then Err [field @ '' must be greater than 0''] else Ok ())"

definition validate_mqtt_tls_config :: "mqtt_bridge_config \<Rightarrow> anyhow + unit" where
  "validate_mqtt_tls_config config =
     (let ca_missing = (case mq_ca_cert config of None \<Rightarrow> True | Some path \<Rightarrow> path = []) in
      if mq_use_tls config \<and> ca_missing then Err [''MQTT TLS requires ca_cert; refusing to trust implicit system roots''] else Ok ())"

definition validate_mqtt_bridge_config :: "mqtt_bridge_config \<Rightarrow> anyhow + unit" where
  "validate_mqtt_bridge_config config =
     (if \<not> mq_enabled config then Ok ()
      else run_checks
       [ensure_non_empty ''MQTT host'' (mq_host config), ensure_non_empty ''MQTT client_id'' (mq_client_id config),
        ensure_non_empty ''MQTT task_topic'' (mq_task_topic config), ensure_non_empty ''MQTT receipt_topic'' (mq_receipt_topic config),
        ensure_non_empty ''MQTT status_topic'' (mq_status_topic config), ensure_non_empty ''MQTT alert_topic'' (mq_alert_topic config),
        ensure_positive ''MQTT keep_alive_s'' (mq_keep_alive_s config), ensure_positive ''MQTT queue_capacity'' (mq_queue_capacity config),
        ensure_positive ''MQTT alert_interval_s'' (mq_alert_interval_s config), validate_mqtt_tls_config config])"

text \<open>\<open>tls::paired_paths\<close>: a certificate and its key come together or not at all.\<close>

definition paired_paths :: "string option \<Rightarrow> string option \<Rightarrow> string \<Rightarrow> anyhow + (string \<times> string) option" where
  "paired_paths cert key label = (case (cert, key) of
       (Some c, Some k) \<Rightarrow> Ok (Some (c, k))
     | (None, None) \<Rightarrow> Ok None
     | _ \<Rightarrow> Err [label @ '' certificate and key must be provided together''])"

record mqtt_bridge_status =
  ms_enabled :: bool
  ms_connected :: bool
  ms_broker :: string
  ms_client_id :: string
  ms_use_tls :: bool
  ms_ca_cert_configured :: bool
  ms_client_cert_configured :: bool
  ms_task_topic :: string
  ms_receipt_topic :: string
  ms_status_topic :: string
  ms_alert_topic :: string
  ms_alert_interval_s :: u64
  ms_last_error :: "string option"
  ms_last_task_id :: "int option"
  ms_last_alert_active_count :: nat
  ms_last_alert_at :: "time option"
  ms_updated_at :: time

definition mqtt_status_from_config :: "time \<Rightarrow> mqtt_bridge_config \<Rightarrow> mqtt_bridge_status" where
  "mqtt_status_from_config now config =
     \<lparr>ms_enabled = mq_enabled config, ms_connected = False, ms_broker = mq_host config @ '':'' @ show_int (uint (mq_port config)),
      ms_client_id = mq_client_id config, ms_use_tls = mq_use_tls config, ms_ca_cert_configured = (mq_ca_cert config \<noteq> None),
      ms_client_cert_configured = (case paired_paths (mq_client_cert config) (mq_client_key config) ''MQTT TLS client'' of
         Inr (Some _) \<Rightarrow> True | _ \<Rightarrow> False),
      ms_task_topic = mq_task_topic config, ms_receipt_topic = mq_receipt_topic config, ms_status_topic = mq_status_topic config,
      ms_alert_topic = mq_alert_topic config, ms_alert_interval_s = mq_alert_interval_s config, ms_last_error = None,
      ms_last_task_id = None, ms_last_alert_active_count = 0, ms_last_alert_at = None, ms_updated_at = now\<rparr>"

record mqtt_task_receipt =
  mr_ok :: bool
  mr_task_id :: "int option"
  mr_external_task_id :: "string option"
  mr_action :: "string option"
  mr_status :: string
  mr_response :: "task_receipt option"
  mr_error :: "string option"

definition refused_receipt :: "string \<Rightarrow> string \<Rightarrow> mqtt_task_receipt" where
  "refused_receipt status error = \<lparr>mr_ok = False, mr_task_id = None, mr_external_task_id = None, mr_action = None, mr_status = status,
     mr_response = None, mr_error = Some error\<rparr>"

definition receipt_from_result :: "app_error + integration_task \<Rightarrow> mqtt_task_receipt" where
  "receipt_from_result result = (case result of
       Inr task \<Rightarrow> \<lparr>mr_ok = (task_status task = ''executed''), mr_task_id = Some (task_id task),
          mr_external_task_id = external_task_id task, mr_action = Some (task_action task), mr_status = task_status task,
          mr_response = Some (task_response task), mr_error = None\<rparr>
     | Inl err \<Rightarrow> refused_receipt (if is_server_error err then ''failed'' else ''rejected'') (err_message err))"

definition mqtt_actor :: audit_actor where
  "mqtt_actor = \<lparr>actor_username = ''mqtt'', actor_role = ''system''\<rparr>"

text \<open>The outcome of a task handler as a value.\<close>

definition ttry :: "'a task_handler \<Rightarrow> (app_error + 'a) task_handler" where
  "ttry h = (\<lambda>env s. map_option (\<lambda>(r, s1). (Ok r, s1)) (h env s))"

text \<open>\<open>decoded\<close> is what the JSON decoder makes of the payload: an error text or a request.\<close>

definition execute_mqtt_task_payload :: "string + ainas_task_request \<Rightarrow> mqtt_task_receipt task_handler" where
  "execute_mqtt_task_payload decoded = (case decoded of
       Inl err \<Rightarrow> tresult (Ok (refused_receipt ''rejected'' (''invalid MQTT task JSON: '' @ err)))
     | Inr request \<Rightarrow> tbind (ttry (execute_integration_task ''mqtt'' request mqtt_actor)) (\<lambda>result.
         tresult (Ok (receipt_from_result result))))"

definition latch_mqtt_receipt_publish_failure :: "mqtt_task_receipt \<Rightarrow> string \<Rightarrow> unit handler" where
  "latch_mqtt_receipt_publish_failure receipt err =
     (if mr_status receipt \<noteq> ''executed'' then hreturn ()
      else with_lock (\<lambda>env now unf rt. (Ok (),
        if mr_action receipt = Some ''start_process'' \<or> mr_action receipt = Some ''stop_process''
        then fst (latch_audit_failure_after_device_action ''MQTT task receipt publish'' err rt)
        else if mr_action receipt = Some ''set_targets''
        then fst (latch_control_fault (''MQTT task set_targets receipt publish failed after target intent commit: '' @ err) rt)
        else rt)))"

section \<open>Alerts\<close>

record mqtt_alert_snapshot =
  as_active :: bool
  as_active_count :: nat
  as_high_count :: nat
  as_warning_count :: nat
  as_emergency_stop :: bool
  as_manual_lock :: bool
  as_sensor_fresh :: bool
  as_active_batch_id :: "int option"
  as_alarms :: "alarm list"
  as_updated_at :: time

text \<open>Only the message of a failed query reaches the caller.\<close>

definition mqtt_alert_snapshot_of :: "ai_memory \<Rightarrow> (anyhow + mqtt_alert_snapshot) handler" where
  "mqtt_alert_snapshot_of memory =
     hbind (with_lock (\<lambda>env now unf rt. (Ok (rt, now), rt))) (\<lambda>(rt, read_at).
     hbind safety_of (\<lambda>safety.
     hbind (db_call (\<lambda>env t. (a_unfinished env t, a_clock env t))) (\<lambda>(unf, now).
     hreturn (case unf of
       Inl e \<Rightarrow> Err [err_message internal_error]
     | Inr batches \<Rightarrow>
         let sample = latest_sample rt;
             alarms = live_alarms_for_with_batch_status safety now rt sample memory (unfinished_batch_status_from_batches batches rt)
         in Ok \<lparr>as_active = (alarms \<noteq> []), as_active_count = length alarms, as_high_count = length (high_alarms alarms),
              as_warning_count = length (filter (\<lambda>a. al_level a = ''medium'') alarms), as_emergency_stop = emergency_stop rt,
              as_manual_lock = manual_lock rt,
              as_sensor_fresh = (case sample of None \<Rightarrow> False
                | Some s \<Rightarrow> timestamp_is_fresh read_at (s_captured_at s) (sensor_timeout_ms (control safety))),
              as_active_batch_id = active_batch_id rt, as_alarms = alarms, as_updated_at = now\<rparr>))))"

section \<open>The event loop\<close>

text \<open>What the loop of \<open>run_mqtt_bridge\<close> wakes up for: a published message with what the decoder makes of its payload, another
  event of the client, a connection error, the alert timer. \<open>refused\<close> is the error of the client when it does not accept
  the message that the bridge publishes in answer.\<close>

datatype mqtt_event =
  Published string "string + ainas_task_request" "string option"
| OtherEvent
| PollError string
| AlertTick "string option"

record bridge_state =
  br_tasks :: task_state
  br_status :: mqtt_bridge_status
  br_backoff :: u64
  br_receipts :: "mqtt_task_receipt list"

definition next_backoff :: "u64 \<Rightarrow> u64 \<Rightarrow> u64" where
  "next_backoff cap delay = min (delay * 2) cap"

definition update_status :: "task_env \<Rightarrow> (mqtt_bridge_status \<Rightarrow> mqtt_bridge_status) \<Rightarrow> bridge_state \<Rightarrow> bridge_state" where
  "update_status env f b = b\<lparr>br_status := (f (br_status b))\<lparr>ms_updated_at := a_clock (te_api env) (h_tick (ts_h (br_tasks b)))\<rparr>\<rparr>"

fun mqtt_step :: "mqtt_bridge_config \<Rightarrow> ai_memory \<Rightarrow> mqtt_event \<Rightarrow> task_env \<Rightarrow> bridge_state \<Rightarrow> bridge_state option" where
  "mqtt_step config memory (Published topic decoded refused) env b =
     (if topic \<noteq> mq_task_topic config then Some (b\<lparr>br_backoff := 1\<rparr>)
      else case execute_mqtt_task_payload decoded env (br_tasks b) of
        None \<Rightarrow> None
      | Some (Inl e, ts) \<Rightarrow> None
      | Some (Inr receipt, ts) \<Rightarrow>
          let b1 = update_status env (\<lambda>st. st\<lparr>ms_last_task_id := mr_task_id receipt, ms_last_error := mr_error receipt\<rparr>)
                (b\<lparr>br_tasks := ts, br_backoff := 1\<rparr>)
          in case refused of
               None \<Rightarrow> Some (b1\<lparr>br_receipts := br_receipts b1 @ [receipt]\<rparr>)
             | Some err \<Rightarrow> (case tattempt (latch_mqtt_receipt_publish_failure receipt err) env ts of
                 None \<Rightarrow> None | Some (_, ts1) \<Rightarrow> Some (b1\<lparr>br_tasks := ts1\<rparr>)))"
| "mqtt_step config memory OtherEvent env b = Some (b\<lparr>br_backoff := 1\<rparr>)"
| "mqtt_step config memory (PollError err) env b =
     Some ((update_status env (\<lambda>st. st\<lparr>ms_connected := False, ms_last_error := Some err\<rparr>) b)\<lparr>br_backoff := next_backoff 30 (br_backoff b)\<rparr>)"
| "mqtt_step config memory (AlertTick refused) env b =
     (case tattempt (mqtt_alert_snapshot_of memory) env (br_tasks b) of
        Some (Inr (Inr (Inr alert)), ts) \<Rightarrow> (case refused of
            None \<Rightarrow> Some (update_status env (\<lambda>st. st\<lparr>ms_last_alert_active_count := as_active_count alert,
                ms_last_alert_at := Some (as_updated_at alert), ms_last_error := None\<rparr>) (b\<lparr>br_tasks := ts\<rparr>))
          | Some err \<Rightarrow> Some (update_status env (\<lambda>st. st\<lparr>ms_last_error := Some err\<rparr>) (b\<lparr>br_tasks := ts\<rparr>)))
      | Some (Inr (Inr (Inl err)), ts) \<Rightarrow>
          Some (update_status env (\<lambda>st. st\<lparr>ms_last_error := Some (err_display err)\<rparr>) (b\<lparr>br_tasks := ts\<rparr>))
      | _ \<Rightarrow> None)"

fun mqtt_run :: "mqtt_bridge_config \<Rightarrow> ai_memory \<Rightarrow> (task_env \<times> mqtt_event) list \<Rightarrow> bridge_state \<Rightarrow> bridge_state option" where
  "mqtt_run config memory [] b = Some b"
| "mqtt_run config memory ((env, event) # rest) b = Option.bind (mqtt_step config memory event env b) (mqtt_run config memory rest)"

text \<open>The delays of the supervisor that restarts a bridge that stopped with an error.\<close>

fun restart_delays :: "nat \<Rightarrow> u64 \<Rightarrow> u64 list" where
  "restart_delays 0 delay = []"
| "restart_delays (Suc n) delay = delay # restart_delays n (next_backoff 60 delay)"

lemma next_backoff_bounds: "0 < delay \<Longrightarrow> delay \<le> cap \<Longrightarrow> cap \<le> 60 \<Longrightarrow> 0 < next_backoff cap delay \<and> next_backoff cap delay \<le> cap"
proof -
  assume a: "0 < delay" "delay \<le> cap" "cap \<le> 60"
  then have u: "0 < unat delay" "unat delay \<le> 60"
    by (simp_all add: word_less_nat_alt word_le_nat_alt)
  then have "unat (delay * 2) = unat delay * 2" by (subst unat_mult_lem [THEN iffD1]) simp_all
  then have "0 < delay * 2" using u by (simp add: word_less_nat_alt)
  with a show ?thesis by (auto simp: next_backoff_def min_def)
qed

lemma restart_delays_bounded: "0 < delay \<Longrightarrow> delay \<le> 60 \<Longrightarrow> \<forall>d \<in> set (restart_delays n delay). 0 < d \<and> d \<le> 60"
proof (induction n arbitrary: delay)
  case (Suc n)
  note step = next_backoff_bounds [OF Suc.prems order_refl]
  have "\<forall>d \<in> set (restart_delays n (next_backoff 60 delay)). 0 < d \<and> d \<le> 60" by (rule Suc.IH) (use step in blast)+
  with Suc.prems show ?case by simp
qed simp

text \<open>A task received by the bridge runs as a remote task of the source \<open>mqtt\<close>.\<close>

lemma mqtt_payload_run:
  assumes "execute_mqtt_task_payload decoded env s = Some (r, s')"
  shows "\<exists>receipt. r = Ok receipt \<and> (s' = s \<and> \<not> mr_ok receipt \<and> mr_status receipt = ''rejected''
     \<or> (\<exists>request result. execute_integration_task ''mqtt'' request mqtt_actor env s = Some (result, s') \<and> receipt = receipt_from_result result))"
  using assms by (cases decoded) (auto simp: execute_mqtt_task_payload_def task_runs ttry_def refused_receipt_def)

lemma receipt_executed: "mr_status (receipt_from_result result) = ''executed'' \<Longrightarrow> \<exists>task. result = Ok task \<and> task_status task = ''executed''"
  by (cases result) (auto simp: receipt_from_result_def refused_receipt_def split: if_splits)

lemma receipt_ok: "mr_ok (receipt_from_result result) \<Longrightarrow> mr_status (receipt_from_result result) = ''executed''"
  by (cases result) (simp_all add: receipt_from_result_def refused_receipt_def)

lemma returns_mqtt_parts [returns_intros]:
  "returns (latch_mqtt_receipt_publish_failure receipt err)" "returns (mqtt_alert_snapshot_of memory)"
  unfolding latch_mqtt_receipt_publish_failure_def mqtt_alert_snapshot_of_def case_prod_beta by (intro returns_intros)+

lemma keeps_mqtt_parts [latch_keeps]:
  "keeps latches_hold (latch_mqtt_receipt_publish_failure receipt err)" "keeps latches_hold (mqtt_alert_snapshot_of memory)"
  unfolding latch_mqtt_receipt_publish_failure_def mqtt_alert_snapshot_of_def case_prod_beta
  by (intro keeps_intros; auto simp: latches_hold_def latch_audit_failure_after_device_action_def latch_control_fault_def Let_def)+

lemma treturns_mqtt_payload: "treturns (execute_mqtt_task_payload decoded)"
proof -
  have try_returns: "treturns (ttry h)" if "treturns h" for h :: "integration_task task_handler" using that by (auto simp: treturns_def ttry_def)
  show ?thesis unfolding execute_mqtt_task_payload_def by (intro task_keeps try_returns)
qed

lemma alert_never_fails: "never_fails (mqtt_alert_snapshot_of memory)"
  unfolding mqtt_alert_snapshot_of_def case_prod_beta
  by (intro never_fails_bind never_fails_lock never_fails_intros) simp

text \<open>What one wake-up of the bridge keeps.\<close>

definition bridge_ok :: "bridge_state \<Rightarrow> bool" where
  "bridge_ok b \<longleftrightarrow> tasks.claimed (ts_tasks (br_tasks b)) (ts_started (br_tasks b)) \<and> latches_hold (h_rt (ts_h (br_tasks b)))
     \<and> 0 < br_backoff b \<and> br_backoff b \<le> 30"

definition bridge_env :: "task_env \<Rightarrow> bool" where
  "bridge_env env \<longleftrightarrow> exclusive env \<and> api_rely latches_hold (te_api env) \<and> wf_safety (a_safety (te_api env))"

lemma update_status_simps [simp]:
  "br_tasks (update_status env f b) = br_tasks b" "br_backoff (update_status env f b) = br_backoff b"
  "br_receipts (update_status env f b) = br_receipts b"
  by (simp_all add: update_status_def)

lemma attempt_keeps_bridge:
  assumes "bridge_env env" "keeps latches_hold h" "returns h" "latches_hold (h_rt (ts_h s))" "tasks.claimed (ts_tasks s) (ts_started s)"
  shows "\<exists>r s'. tattempt h env s = Some (Ok r, s') \<and> latches_hold (h_rt (ts_h s')) \<and> tasks.claimed (ts_tasks s') (ts_started s')"
proof -
  obtain r hs where run: "h (te_api env) (ts_h s) = Some (r, hs)"
    using assms(1,3) unfolding returns_def bridge_env_def by (metis not_None_eq surj_pair)
  then have "latches_hold (h_rt hs)" using keepsD [OF assms(2)] assms(1,4) by (auto simp: bridge_env_def)
  with run assms(5) show ?thesis by (simp add: tattempt_def)
qed

lemma mqtt_step_ok:
  assumes "bridge_env env" "bridge_ok b"
  shows "\<exists>b'. mqtt_step config memory event env b = Some b' \<and> bridge_ok b'"
proof (cases event)
  case (Published topic decoded refused)
  show ?thesis
  proof (cases "topic = mq_task_topic config")
    case True
    obtain receipt ts where run: "execute_mqtt_task_payload decoded env (br_tasks b) = Some (Ok receipt, ts)"
      using treturns_mqtt_payload assms(1) mqtt_payload_run unfolding treturns_def bridge_env_def by (metis not_None_eq surj_pair)
    have ok: "latches_hold (h_rt (ts_h ts))" "tasks.claimed (ts_tasks ts) (ts_started ts)"
      using mqtt_payload_run [OF run] assms tkeeps_execute execute_keeps_claims
      unfolding bridge_env_def bridge_ok_def tkeeps_def by blast+
    show ?thesis
    proof (cases refused)
      case None
      then show ?thesis using Published True run ok by (simp add: bridge_ok_def Let_def)
    next
      case (Some err)
      obtain r ts1 where "tattempt (latch_mqtt_receipt_publish_failure receipt err) env ts = Some (Ok r, ts1)"
        "latches_hold (h_rt (ts_h ts1))" "tasks.claimed (ts_tasks ts1) (ts_started ts1)"
        using attempt_keeps_bridge [OF assms(1) keeps_mqtt_parts(1) returns_mqtt_parts(1) ok] by blast
      then show ?thesis using Published True run Some by (simp add: bridge_ok_def Let_def)
    qed
  qed (use Published assms(2) in \<open>simp add: bridge_ok_def\<close>)
next
  case (PollError err)
  then show ?thesis using assms(2) next_backoff_bounds [of "br_backoff b" 30] by (simp add: bridge_ok_def)
next
  case (AlertTick refused)
  obtain r ts where run: "tattempt (mqtt_alert_snapshot_of memory) env (br_tasks b) = Some (Ok r, ts)" and ok: "latches_hold (h_rt (ts_h ts))"
    "tasks.claimed (ts_tasks ts) (ts_started ts)"
    using attempt_keeps_bridge [OF assms(1) keeps_mqtt_parts(2) returns_mqtt_parts(2)] assms(2) unfolding bridge_ok_def by blast
  then obtain x where "r = Ok x" using alert_never_fails [of memory] unfolding never_fails_def tattempt_run by (cases r) auto
  then show ?thesis using AlertTick run ok assms(2) by (cases x; cases refused) (simp_all add: bridge_ok_def)
qed (use assms(2) in \<open>simp add: bridge_ok_def\<close>)

lemma latch_publish_run:
  assumes "latch_mqtt_receipt_publish_failure receipt err env s = Some (r, s')" "mr_status receipt = ''executed''"
    and "mr_action receipt \<in> Some ` {''set_targets'', ''start_process'', ''stop_process''}"
  shows "faulted (h_rt s')"
  using assms
  by (auto simp: latch_mqtt_receipt_publish_failure_def with_lock_Some faulted_def latch_control_fault_def
      latch_audit_failure_after_device_action_def Let_def)

lemma row_action: "row_ok row \<Longrightarrow> task_action row \<in> {''set_targets'', ''start_process'', ''stop_process''}"
  by (auto simp: row_ok_def validate_integration_task_record_def validate_integration_task_action_def bind_res_Ok_iff split: if_splits)



definition demo_bridge :: bridge_state where
  "demo_bridge = \<lparr>br_tasks = demo_task_state, br_status = mqtt_status_from_config 0 mqtt_default, br_backoff = 1, br_receipts = []\<rparr>"

lemma demo_bridge_env: "bridge_env (demo_task_env (\<lambda>_ tbl. tbl) (\<lambda>_. NoFault))"
  using demo_exclusive by (simp add: bridge_env_def api_rely_def) (simp add: demo_task_env_def)

lemma demo_bridge_start:
  "wf_tasks (ts_tasks (br_tasks demo_bridge))" "ts_started (br_tasks demo_bridge) = []" "latches_hold (h_rt (ts_h (br_tasks demo_bridge)))"
  "br_backoff demo_bridge = 1"
  using demo_wf by (simp_all add: demo_bridge_def demo_task_state_def demo_running_def demo_hstate_def latches_hold_def from_safety_def shipped_safety_def control_defaults)



end
