(* ===== verification/Db_Records.thy ===== *)
theory Db_Records
  imports Audit_Chain Optimizer Api_Env
begin

text \<open>
  Validation of the rows of the production tables (\<open>db.rs\<close>): batches, process steps, outcomes, product results and
  recommendations are checked before they are written and again when they are read.
\<close>

definition BATCH_HEATING_MINUTES_RANGE :: sensor_range where
  "BATCH_HEATING_MINUTES_RANGE = \<lparr>range_field = ''heating_minutes'', range_min = lit 0, range_max = lit 1440\<rparr>"

definition BATCH_STIRRING_MINUTES_RANGE :: sensor_range where
  "BATCH_STIRRING_MINUTES_RANGE = \<lparr>range_field = ''stirring_minutes'', range_min = lit 0, range_max = lit 1440\<rparr>"

definition PROCESS_RAMP_RATE_C_MIN_RANGE :: sensor_range where
  "PROCESS_RAMP_RATE_C_MIN_RANGE = \<lparr>range_field = ''ramp_rate_c_min'', range_min = lit (- 20), range_max = lit 20\<rparr>"

definition PROCESS_DURATION_MINUTES_RANGE :: sensor_range where
  "PROCESS_DURATION_MINUTES_RANGE = \<lparr>range_field = ''duration_minutes'', range_min = lit 1, range_max = lit 1440\<rparr>"

definition PROCESS_PRESSURE_MPA_RANGE :: sensor_range where
  "PROCESS_PRESSURE_MPA_RANGE = \<lparr>range_field = ''target_pressure_mpa'', range_min = lit 0, range_max = lit 10\<rparr>"

definition PRODUCT_RESULT_YIELD_PERCENT_RANGE :: sensor_range where
  "PRODUCT_RESULT_YIELD_PERCENT_RANGE = \<lparr>range_field = ''yield_percent'', range_min = lit 0, range_max = lit 100\<rparr>"

definition PRODUCT_RESULT_RATIO_RANGE :: sensor_range where
  "PRODUCT_RESULT_RATIO_RANGE = \<lparr>range_field = ''product_ratio'', range_min = lit 0, range_max = lit 1\<rparr>"

definition RECOMMENDATION_EXPECTED_SCORE_RANGE :: sensor_range where
  "RECOMMENDATION_EXPECTED_SCORE_RANGE = \<lparr>range_field = ''expected_score'', range_min = lit 0, range_max = lit 100\<rparr>"

lemmas record_ranges = TARGET_TEMPERATURE_C_RANGE_def TARGET_STIRRER_RPM_RANGE_def PROCESS_SHAKE_SPEED_CPM_RANGE_def
  BATCH_HEATING_MINUTES_RANGE_def BATCH_STIRRING_MINUTES_RANGE_def PROCESS_RAMP_RATE_C_MIN_RANGE_def
  PROCESS_DURATION_MINUTES_RANGE_def PROCESS_PRESSURE_MPA_RANGE_def PRODUCT_RESULT_YIELD_PERCENT_RANGE_def
  PRODUCT_RESULT_RATIO_RANGE_def RECOMMENDATION_EXPECTED_SCORE_RANGE_def

section \<open>Rows that are read\<close>

definition validate_recommendation_record :: "recommendation_result \<Rightarrow> string + unit" where
  "validate_recommendation_record r =
     (if based_on_batch_count r < 0
      then Err (''based_on_batch_count must be >= 0, got '' @ show_int (based_on_batch_count r))
      else run_checks
       [sensor_range_validate TARGET_TEMPERATURE_C_RANGE (r_temperature_c r),
        sensor_range_validate TARGET_STIRRER_RPM_RANGE (r_stirrer_rpm r),
        sensor_range_validate BATCH_HEATING_MINUTES_RANGE (r_heating_minutes r),
        sensor_range_validate BATCH_STIRRING_MINUTES_RANGE (r_stirring_minutes r),
        sensor_range_validate RECOMMENDATION_EXPECTED_SCORE_RANGE (expected_score r)])"

definition validate_batch_record :: "batch \<Rightarrow> string + unit" where
  "validate_batch_record b = run_checks
     [sensor_range_validate TARGET_TEMPERATURE_C_RANGE (batch_target_temperature_c b),
      sensor_range_validate TARGET_STIRRER_RPM_RANGE (batch_target_stirrer_rpm b),
      sensor_range_validate BATCH_HEATING_MINUTES_RANGE (heating_minutes b),
      sensor_range_validate BATCH_STIRRING_MINUTES_RANGE (stirring_minutes b)]"

definition validate_process_step_record :: "process_step \<Rightarrow> string + unit" where
  "validate_process_step_record step =
     (let named = map_err (\<lambda>reason. ''process step '' @ show_int (step_id step) @ '' '' @ reason) in
      run_checks
       [named (sensor_range_validate TARGET_TEMPERATURE_C_RANGE (step_target_temperature_c step)),
        named (sensor_range_validate PROCESS_RAMP_RATE_C_MIN_RANGE (step_ramp_rate_c_min step)),
        named (sensor_range_validate PROCESS_DURATION_MINUTES_RANGE (step_duration_minutes step)),
        named (sensor_range_validate TARGET_STIRRER_RPM_RANGE (step_target_stirrer_rpm step)),
        named (sensor_range_validate PROCESS_SHAKE_SPEED_CPM_RANGE (step_target_shake_speed_cpm step)),
        named (sensor_range_validate PROCESS_PRESSURE_MPA_RANGE (step_target_pressure_mpa step))])"

definition validate_batch_outcome_record :: "batch_outcome \<Rightarrow> string + unit" where
  "validate_batch_outcome_record x = run_checks
     [sensor_range_validate TARGET_TEMPERATURE_C_RANGE (bo_temperature_c x),
      sensor_range_validate TARGET_STIRRER_RPM_RANGE (bo_stirrer_rpm x),
      sensor_range_validate BATCH_HEATING_MINUTES_RANGE (bo_heating_minutes x),
      sensor_range_validate BATCH_STIRRING_MINUTES_RANGE (bo_stirring_minutes x),
      sensor_range_validate PRODUCT_RESULT_YIELD_PERCENT_RANGE (bo_yield_percent x),
      sensor_range_validate PRODUCT_RESULT_RATIO_RANGE (bo_product_ratio x)]"

text \<open>The list queries skip invalid rows; an invalid newest recommendation counts as none.\<close>

definition collect_valid_batches :: "batch list \<Rightarrow> batch list" where
  "collect_valid_batches rows = filter (\<lambda>b. is_ok (validate_batch_record b)) rows"

definition collect_valid_batch_outcomes :: "batch_outcome list \<Rightarrow> batch_outcome list" where
  "collect_valid_batch_outcomes rows = filter (\<lambda>x. is_ok (validate_batch_outcome_record x)) rows"

definition latest_recommendation_of :: "recommendation_result list \<Rightarrow> recommendation_result option" where
  "latest_recommendation_of rows = (case rev rows of
       [] \<Rightarrow> None
     | r # _ \<Rightarrow> if is_ok (validate_recommendation_record r) then Some r else None)"

section \<open>Rows that are written\<close>

record product_result =
  pr_batch_id :: int
  pr_yield_percent :: f64
  pr_product_ratio :: f64
  pr_notes :: string

definition rejected :: "string \<Rightarrow> string + unit \<Rightarrow> anyhow + unit" where
  "rejected subject = map_err (\<lambda>reason. [''invalid '' @ subject @ '' rejected before DB insert: '' @ reason])"

definition ensure_valid_batch_targets_for_insert :: "f64 \<Rightarrow> f64 \<Rightarrow> f64 \<Rightarrow> f64 \<Rightarrow> anyhow + unit" where
  "ensure_valid_batch_targets_for_insert temp rpm heating stirring = run_checks
     [rejected ''batch target'' (sensor_range_validate TARGET_TEMPERATURE_C_RANGE temp),
      rejected ''batch target'' (sensor_range_validate TARGET_STIRRER_RPM_RANGE rpm),
      rejected ''batch target'' (sensor_range_validate BATCH_HEATING_MINUTES_RANGE heating),
      rejected ''batch target'' (sensor_range_validate BATCH_STIRRING_MINUTES_RANGE stirring)]"

definition ensure_valid_process_step_for_insert :: "new_process_step \<Rightarrow> anyhow + unit" where
  "ensure_valid_process_step_for_insert step = run_checks
     [rejected ''process step'' (sensor_range_validate TARGET_TEMPERATURE_C_RANGE (ns_target_temperature_c step)),
      rejected ''process step'' (sensor_range_validate PROCESS_RAMP_RATE_C_MIN_RANGE (ns_ramp_rate_c_min step)),
      rejected ''process step'' (sensor_range_validate PROCESS_DURATION_MINUTES_RANGE (ns_duration_minutes step)),
      rejected ''process step'' (sensor_range_validate TARGET_STIRRER_RPM_RANGE (ns_target_stirrer_rpm step)),
      rejected ''process step'' (sensor_range_validate PROCESS_SHAKE_SPEED_CPM_RANGE (ns_target_shake_speed_cpm step)),
      rejected ''process step'' (sensor_range_validate PROCESS_PRESSURE_MPA_RANGE (ns_target_pressure_mpa step))]"

definition validate_finite_range_for_insert :: "string \<Rightarrow> string \<Rightarrow> f64 \<Rightarrow> f64 \<Rightarrow> f64 \<Rightarrow> anyhow + unit" where
  "validate_finite_range_for_insert subject field x lo hi =
     (if \<not> is_finite x \<or> \<not> (f64_le lo x \<and> f64_le x hi)
      then Err [''invalid '' @ subject @ '' rejected before DB insert: '' @ field @ '' must be between ''
        @ display_f64 lo @ '' and '' @ display_f64 hi]
      else Ok ())"

definition ensure_valid_product_result_for_insert :: "product_result \<Rightarrow> anyhow + unit" where
  "ensure_valid_product_result_for_insert result = run_checks
     [validate_finite_range_for_insert ''product result'' ''yield_percent'' (pr_yield_percent result) (lit 0) (lit 100),
      validate_finite_range_for_insert ''product result'' ''product_ratio'' (pr_product_ratio result) (lit 0) (lit 1)]"

definition ensure_valid_recommendation_for_insert :: "recommendation_result \<Rightarrow> anyhow + unit" where
  "ensure_valid_recommendation_for_insert r = rejected ''AI recommendation'' (validate_recommendation_record r)"

text \<open>The audit command of a stored recommendation.\<close>

definition safe_command_from_recommendation :: "recommendation_result \<Rightarrow> string \<Rightarrow> safe_command" where
  "safe_command_from_recommendation r reason =
     \<lparr>c_target_temperature_c = r_temperature_c r, c_heat_time_s = f64_mul (r_heating_minutes r) (lit 60),
      c_hold_time_s = f64_mul (r_stirring_minutes r) (lit 60), c_cool_time_s = lit 0, c_target_stirrer_rpm = r_stirrer_rpm r,
      c_target_shake_speed_cpm = lit 0, c_target_pressure_mpa = lit 0, c_reason = reason\<rparr>"

lemma rejected_ok [simp]: "is_ok (rejected subject r) = is_ok r"
  by (cases r) (simp_all add: rejected_def)

lemmas record_checks = sensor_range_validate_ok record_ranges in_range_Num run_checks_ok

end
