(* ===== verification/Ai_Provider.thy ===== *)
theory Ai_Provider
  imports Optimizer Control_Loop Operator_Text
begin

text \<open>
  Recommendations of a language-model service (\<open>ai_provider.rs\<close>, and \<open>generate_recommendation\<close> of \<open>api.rs\<close>): the
  configuration from the environment, the address of the service, retries, the extraction of the answer and
  its validation against the optimizer bounds and the forbidden zones. What the service answers to each
  request and the JSON decoder are parameters; a panic is \<open>None\<close>.
\<close>

section \<open>Configuration\<close>

datatype step_fun_api_type = ChatCompletions | Messages

record ai_provider_config =
  ap_enabled :: bool
  ap_api_key :: "string option"
  ap_base_url :: string
  ap_api_type :: step_fun_api_type
  ap_model :: string
  ap_reasoning_effort :: string
  ap_timeout_seconds :: nat

text \<open>\<open>str::trim\<close>.\<close>

definition trim_text :: "string \<Rightarrow> string" where
  "trim_text s = utf8_string (trim_chars (utf8_chars s))"

definition api_type_parse :: "string \<Rightarrow> step_fun_api_type option" where
  "api_type_parse text =
     (let t = map ascii_lower (trim_text text) in
      if t \<in> {''chat'', ''chat_completion'', ''chat_completions'', ''chat-completions''} then Some ChatCompletions
      else if t \<in> {''message'', ''messages'', ''anthropic''} then Some Messages
      else None)"

definition ai_env_bool :: "(string \<Rightarrow> string option) \<Rightarrow> string \<Rightarrow> bool" where
  "ai_env_bool var name = (case var name of
       None \<Rightarrow> False | Some v \<Rightarrow> v \<in> {''1'', ''true'', ''TRUE'', ''yes'', ''on''})"

definition ai_config_from_env :: "(string \<Rightarrow> string option) \<Rightarrow> ai_provider_config" where
  "ai_config_from_env var =
     \<lparr>ap_enabled = ai_env_bool var ''STEPFUN_AI_ENABLED'',
      ap_api_key = var ''STEPFUN_API_KEY'',
      ap_base_url = unwrap_or (var ''STEPFUN_BASE_URL'') ''https://api.stepfun.com/v1'',
      ap_api_type = unwrap_or (Option.bind (var ''STEPFUN_API_TYPE'') api_type_parse) ChatCompletions,
      ap_model = unwrap_or (var ''STEPFUN_MODEL'') ''step-3.6'',
      ap_reasoning_effort = unwrap_or (var ''STEPFUN_REASONING_EFFORT'') ''medium'',
      ap_timeout_seconds = unwrap_or (Option.bind (var ''STEPFUN_TIMEOUT_SECONDS'') (parse_uint (2 ^ 64 - 1))) 20\<rparr>"

text \<open>\<open>built\<close> is the answer of the HTTP client's builder.\<close>

definition ai_provider_from_config :: "string + unit \<Rightarrow> ai_provider_config \<Rightarrow> anyhow + ai_provider_config option" where
  "ai_provider_from_config built config =
     (if \<not> ap_enabled config then Ok None
      else if trim_text (unwrap_or (ap_api_key config) '''') = []
      then Err [''STEPFUN_AI_ENABLED is true but STEPFUN_API_KEY is not set'']
      else case built of
        Inl err \<Rightarrow> Err [''failed to build StepFun HTTP client'', err]
      | Inr _ \<Rightarrow> Ok (Some config))"

section \<open>Requests\<close>

definition ends_with :: "string \<Rightarrow> string \<Rightarrow> bool" where
  "ends_with s t \<longleftrightarrow> length t \<le> length s \<and> drop (length s - length t) s = t"

definition endpoint_url :: "string \<Rightarrow> step_fun_api_type \<Rightarrow> string" where
  "endpoint_url base_url api_type =
     (let base = rev (dropWhile (\<lambda>c. c = CHR ''/'') (rev (trim_text base_url)));
          expected_path = (case api_type of ChatCompletions \<Rightarrow> ''/v1/chat/completions'' | Messages \<Rightarrow> ''/v1/messages'')
      in if ends_with base expected_path then base
         else (if ends_with base ''/v1'' then base else base @ ''/v1'')
           @ (case api_type of ChatCompletions \<Rightarrow> ''/chat/completions'' | Messages \<Rightarrow> ''/messages''))"

definition retryable_status :: "nat \<Rightarrow> bool" where
  "retryable_status status \<longleftrightarrow> status = 429 \<or> 500 \<le> status \<and> status < 600"

definition stepfun_retry_delay :: "nat \<Rightarrow> u64" where
  "stepfun_retry_delay attempt = (let multiplier = push_bit (min (attempt - 1) 16) 1 in min (300 * multiplier) 5000)"

section \<open>Answers\<close>

record chat_message =
  cm_content :: string
  cm_reasoning :: string

record message_content_block =
  block_type :: string
  block_text :: string

record model_recommendation =
  md_temperature_c :: f64
  md_stirrer_rpm :: f64
  md_heating_minutes :: f64
  md_stirring_minutes :: f64
  md_expected_score :: f64
  md_rationale :: string

text \<open>The decoder of JSON text at the three types the provider reads.\<close>

record json_decoder =
  de_chat :: "string \<Rightarrow> string + chat_message list"
  de_messages :: "string \<Rightarrow> string + message_content_block list"
  de_model :: "string \<Rightarrow> string + model_recommendation"

definition extract_chat_completion_content :: "json_decoder \<Rightarrow> string \<Rightarrow> anyhow + string" where
  "extract_chat_completion_content dec text = (case de_chat dec text of
       Inl err \<Rightarrow> Err [''failed to parse StepFun chat response'', err]
     | Inr choices \<Rightarrow>
         (let missing = Err [''StepFun response did not contain message content or reasoning'']
          in case choices of
               [] \<Rightarrow> missing
             | m # _ \<Rightarrow>
                 (let content = (if trim_text (cm_content m) = [] then trim_text (cm_reasoning m) else trim_text (cm_content m))
                  in if content = [] then missing else Ok content)))"

definition extract_messages_content :: "json_decoder \<Rightarrow> string \<Rightarrow> anyhow + string" where
  "extract_messages_content dec text = (case de_messages dec text of
       Inl err \<Rightarrow> Err [''failed to parse StepFun messages response'', err]
     | Inr blocks \<Rightarrow>
         (let content = join_with [CHR 0x0A] (filter (\<lambda>t. t \<noteq> [])
              (map (\<lambda>b. trim_text (block_text b)) (filter (\<lambda>b. block_type b = ''text'') blocks)))
          in if trim_text content = [] then Err [''StepFun messages response did not contain text content''] else Ok content))"

definition extract_response_content :: "json_decoder \<Rightarrow> step_fun_api_type \<Rightarrow> string \<Rightarrow> anyhow + string" where
  "extract_response_content dec api_type text = (case api_type of
       ChatCompletions \<Rightarrow> extract_chat_completion_content dec text
     | Messages \<Rightarrow> extract_messages_content dec text)"

text \<open>\<open>trim_start_matches\<close> removes a prefix as often as it occurs; \<open>find\<close> and \<open>rfind\<close> give byte positions.\<close>

lemma shorter_drop: "p \<noteq> [] \<Longrightarrow> take (length p) s = p \<Longrightarrow> length (drop (length p) s) < length s"
  by (cases s) auto

function trim_start_matches :: "string \<Rightarrow> string \<Rightarrow> string" where
  "trim_start_matches p s =
     (if p \<noteq> [] \<and> take (length p) s = p then trim_start_matches p (drop (length p) s) else s)"
  by pat_completeness auto
termination
  by (relation "measure (\<lambda>(p, s). length s)") (simp, use shorter_drop in force)

declare trim_start_matches.simps [simp del]

lemma trim_start_no_match: "take (length p) s \<noteq> p \<Longrightarrow> trim_start_matches p s = s"
  by (simp add: trim_start_matches.simps)

definition trim_end_matches :: "string \<Rightarrow> string \<Rightarrow> string" where
  "trim_end_matches p s = rev (trim_start_matches (rev p) (rev s))"

definition find_char :: "char \<Rightarrow> string \<Rightarrow> nat option" where
  "find_char c s = (if c \<in> set s then Some (length (takeWhile (\<lambda>x. x \<noteq> c) s)) else None)"

definition rfind_char :: "char \<Rightarrow> string \<Rightarrow> nat option" where
  "rfind_char c s = map_option (\<lambda>i. length s - 1 - i) (find_char c (rev s))"

text \<open>The slice \<open>s[start..=end]\<close> panics when it would end before it starts.\<close>

definition slice_inclusive :: "string \<Rightarrow> nat \<Rightarrow> nat \<Rightarrow> string option" where
  "slice_inclusive s i j = (if i \<le> j + 1 \<and> j < length s then Some (take (j + 1 - i) (drop i s)) else None)"

definition fence :: string where
  "fence = replicate 3 (CHR 0x60)"

definition unfenced :: "string \<Rightarrow> string" where
  "unfenced content = trim_text (trim_end_matches fence (trim_start_matches fence
     (trim_start_matches (fence @ ''json'') (trim_text content))))"

definition parse_json_block :: "json_decoder \<Rightarrow> string \<Rightarrow> (anyhow + model_recommendation) option" where
  "parse_json_block dec text =
     (let content = unfenced text in
      case find_char (CHR ''{'') content of
        None \<Rightarrow> Some (Err [''StepFun content did not contain JSON object''])
      | Some i \<Rightarrow> (case rfind_char (CHR ''}'') content of
          None \<Rightarrow> Some (Err [''StepFun content did not contain JSON object end''])
        | Some j \<Rightarrow> map_option (\<lambda>object. map_err (\<lambda>err. [''failed to parse JSON object from content'', err]) (de_model dec object))
            (slice_inclusive content i j)))"

section \<open>Validation\<close>

definition clamp_finite :: "f64 \<Rightarrow> f64 \<Rightarrow> f64 \<Rightarrow> f64 \<Rightarrow> f64 option" where
  "clamp_finite x lo hi fallback = (if is_finite x then f64_clamp x lo hi else f64_clamp fallback lo hi)"

definition finite_in_range :: "string \<Rightarrow> f64 \<Rightarrow> f64 \<Rightarrow> f64 \<Rightarrow> anyhow + f64" where
  "finite_in_range field x lo hi =
     (if \<not> is_finite x then Err [''StepFun field '' @ field @ '' must be finite'']
      else if \<not> (f64_le lo x \<and> f64_le x hi)
      then Err [''StepFun field '' @ field @ ''='' @ display_f64 x @ '' is outside safety bounds '' @ display_f64 lo @ ''..''
        @ display_f64 hi @ ''; local fallback is disabled'']
      else Ok x)"

definition sanitize_rationale :: "string \<Rightarrow> string \<Rightarrow> string" where
  "sanitize_rationale text fallback =
     (let flat = map (\<lambda>c. if c = CHR 0x0D \<or> c = CHR 0x0A then CHR '' '' else c) (trim_text text);
          cut = (if 180 < length flat then utf8_string (take 180 (utf8_chars flat)) else flat)
      in if cut = [] then utf8_string (take 120 (utf8_chars fallback)) else cut)"

definition default_rationale :: string where
  "default_rationale = ''StepFun '' @ utf8_string
     [0x6839, 0x636E, 0x5386, 0x53F2, 0x6279, 0x6B21, 0x3001, 0x53C2, 0x8003, 0x8BB0, 0x5FC6, 0x548C, 0x7981, 0x533A,
      0x751F, 0x6210, 0x63A8, 0x8350, 0x3002]"

definition validate_model_recommendation ::
    "model_recommendation \<Rightarrow> optimizer_bounds \<Rightarrow> ai_memory \<Rightarrow> batch_outcome list \<Rightarrow> recommendation_result
     \<Rightarrow> (anyhow + recommendation_result) option" where
  "validate_model_recommendation model bounds memory outcomes fallback =
     (let b = effective_optimizer_bounds memory bounds;
          checked =
            bind_res (finite_in_range ''target_temperature_c'' (md_temperature_c model) (ob_min_temperature_c b) (ob_max_temperature_c b)) (\<lambda>temp.
            bind_res (finite_in_range ''target_stirrer_rpm'' (md_stirrer_rpm model) (ob_min_stirrer_rpm b) (ob_max_stirrer_rpm b)) (\<lambda>rpm.
            bind_res (finite_in_range ''heating_minutes'' (md_heating_minutes model) (ob_min_heating_minutes b) (ob_max_heating_minutes b)) (\<lambda>heating.
            bind_res (finite_in_range ''stirring_minutes'' (md_stirring_minutes model) (ob_min_stirring_minutes b) (ob_max_stirring_minutes b)) (\<lambda>stirring.
            Ok (temp, rpm, heating, stirring)))))
      in case checked of
        Inl err \<Rightarrow> Some (Err err)
      | Inr (temp, rpm, heating, stirring) \<Rightarrow>
          map_option (\<lambda>score.
            let r = \<lparr>based_on_batch_count = int (length outcomes), r_temperature_c = round2 temp, r_stirrer_rpm = round2 rpm,
                  r_heating_minutes = round2 heating, r_stirring_minutes = round2 stirring, expected_score = round2 score,
                  rationale_text = sanitize_rationale (md_rationale model) (rationale_text fallback)\<rparr>
            in if list_ex (\<lambda>zone. memory_zone_contains zone (r_temperature_c r) (r_stirrer_rpm r) (r_heating_minutes r) (r_stirring_minutes r))
                 (forbidden_zones memory)
               then Err [''StepFun recommendation was rejected by forbidden-zone validation; local fallback is disabled when StepFun is configured'']
               else if rationale_text r = [] then Ok (r\<lparr>rationale_text := default_rationale\<rparr>)
               else Ok (r\<lparr>rationale_text := ''StepFun: '' @ rationale_text r\<rparr>))
            (clamp_finite (md_expected_score model) (lit 0) (lit 100) (expected_score fallback)))"

section \<open>The request loop\<close>

text \<open>What the HTTP client returns for one request: no response, with whether the failure may be retried and its
  message, or a response with its status, the status as text, and the body.\<close>

datatype provider_answer = SendFailed bool string | Response nat string "string + string"

fun provider_attempts ::
    "ai_provider_config \<Rightarrow> json_decoder \<Rightarrow> (model_recommendation \<Rightarrow> (anyhow + recommendation_result) option)
     \<Rightarrow> (nat \<Rightarrow> provider_answer) \<Rightarrow> nat list \<Rightarrow> anyhow option \<Rightarrow> ((anyhow + recommendation_result) \<times> u64 list) option" where
  "provider_attempts config dec validate answers [] last_error =
     Some (Err (unwrap_or last_error [''StepFun recommendation request failed after retries'']), [])"
| "provider_attempts config dec validate answers (attempt # rest) last_error =
     (let retry = (\<lambda>message. map_option (\<lambda>(r, delays). (r, stepfun_retry_delay attempt # delays))
            (provider_attempts config dec validate answers rest (Some message)))
      in case answers attempt of
        SendFailed retryable err \<Rightarrow>
          (let message = [''StepFun recommendation request failed on attempt '' @ show_int (int attempt) @ ''/3: '' @ err]
           in if retryable \<and> attempt < 3 then retry message else Some (Err message, []))
      | Response status shown body \<Rightarrow> (case body of
          Inl err \<Rightarrow> Some (Err [''failed to read StepFun response body'', err], [])
        | Inr text \<Rightarrow>
            if \<not> (200 \<le> status \<and> status < 300) then
              (let message = [''StepFun returned HTTP '' @ shown @ '': '' @ text]
               in if retryable_status status \<and> attempt < 3 then retry message else Some (Err message, []))
            else case extract_response_content dec (ap_api_type config) text of
              Inl err \<Rightarrow> Some (Err err, [])
            | Inr content \<Rightarrow>
                (case (case de_model dec content of Inr m \<Rightarrow> Some (Ok m) | Inl _ \<Rightarrow> parse_json_block dec content) of
                   None \<Rightarrow> None
                 | Some (Inl err) \<Rightarrow> Some (Err err, [])
                 | Some (Inr m) \<Rightarrow> map_option (\<lambda>r. (r, [])) (validate m))))"

definition provider_recommend ::
    "ai_provider_config \<Rightarrow> json_decoder \<Rightarrow> (nat \<Rightarrow> provider_answer) \<Rightarrow> optimizer_bounds \<Rightarrow> ai_memory \<Rightarrow> batch_outcome list
     \<Rightarrow> recommendation_result \<Rightarrow> ((anyhow + recommendation_result) \<times> u64 list) option" where
  "provider_recommend config dec answers bounds memory outcomes fallback = (case ap_api_key config of
       None \<Rightarrow> Some (Err [''StepFun API key is not configured''], [])
     | Some key \<Rightarrow> provider_attempts config dec (\<lambda>m. validate_model_recommendation m bounds memory outcomes fallback)
         answers [1, 2, 3] None)"

section \<open>The choice between the service and the local optimizer\<close>

record ai_recommendation_provider =
  pv_mode :: string
  pv_model :: string
  pv_fallback_reason :: "string option"

record ai_recommendation_envelope =
  en_recommendation :: recommendation_result
  en_provider :: ai_recommendation_provider

definition local_envelope :: "recommendation_result \<Rightarrow> ai_recommendation_envelope" where
  "local_envelope r = \<lparr>en_recommendation = r,
     en_provider = \<lparr>pv_mode = ''local_optimizer'', pv_model = ''local-ga-sa-pid'', pv_fallback_reason = None\<rparr>\<rparr>"

definition stale_local_envelope :: "recommendation_result \<Rightarrow> string \<Rightarrow> string \<Rightarrow> ai_recommendation_envelope" where
  "stale_local_envelope r model reason = \<lparr>en_recommendation = r,
     en_provider = \<lparr>pv_mode = ''stale_local_recommendation'', pv_model = model, pv_fallback_reason = Some reason\<rparr>\<rparr>"

definition stepfun_envelope :: "recommendation_result \<Rightarrow> string \<Rightarrow> ai_recommendation_envelope" where
  "stepfun_envelope r model = \<lparr>en_recommendation = r,
     en_provider = \<lparr>pv_mode = ''stepfun'', pv_model = model, pv_fallback_reason = None\<rparr>\<rparr>"

definition starts_with_stepfun :: "string \<Rightarrow> bool" where
  "starts_with_stepfun s \<longleftrightarrow> take 8 s = ''StepFun:''"

definition recommendation_envelope :: "ai_provider_config option \<Rightarrow> recommendation_result \<Rightarrow> ai_recommendation_envelope" where
  "recommendation_envelope provider r = (case provider of
       None \<Rightarrow> local_envelope r
     | Some p \<Rightarrow>
         if starts_with_stepfun (rationale_text r) then stepfun_envelope r (ap_model p)
         else stale_local_envelope r (ap_model p)
           ''cached local recommendation must be regenerated by StepFun before AI master control'')"

definition local_provider_for :: "ai_provider_config option \<Rightarrow> ai_recommendation_provider" where
  "local_provider_for provider = (case provider of
       Some p \<Rightarrow> \<lparr>pv_mode = ''stepfun_configured'', pv_model = ap_model p, pv_fallback_reason = None\<rparr>
     | None \<Rightarrow> \<lparr>pv_mode = ''local_optimizer'', pv_model = ''local-ga-sa-pid'', pv_fallback_reason = None\<rparr>)"

definition provider_allows_recommendation :: "ai_provider_config option \<Rightarrow> recommendation_result \<Rightarrow> bool" where
  "provider_allows_recommendation provider r \<longleftrightarrow> provider = None \<or> starts_with_stepfun (rationale_text r)"

text \<open>\<open>None\<close> is a panic of the random generator or of the slice in \<open>parse_json_block\<close>.\<close>

definition generate_recommendation ::
    "'r opt_env \<Rightarrow> 'r \<Rightarrow> ai_provider_config option \<Rightarrow> json_decoder \<Rightarrow> (nat \<Rightarrow> provider_answer) \<Rightarrow> optimizer_bounds \<Rightarrow> ai_memory
     \<Rightarrow> anyhow + batch_outcome list \<Rightarrow> (app_error + recommendation_result) option" where
  "generate_recommendation env rng provider dec answers bounds memory queried = (case queried of
       Inl err \<Rightarrow> Some (Err internal_error)
     | Inr outcomes \<Rightarrow>
         if outcomes = [] then Some (Err (service_unavailable ''product result data unavailable; waiting for finished batch outcomes''))
         else case recommend_with_memory env bounds (Some memory) outcomes rng of
           None \<Rightarrow> None
         | Some (None, _) \<Rightarrow> Some (Err (conflict
             ''optimizer bounds are fully covered by forbidden control zones; no safe recommendation exists''))
         | Some (Some fallback, _) \<Rightarrow> (case provider of
             None \<Rightarrow> Some (Ok fallback)
           | Some config \<Rightarrow> map_option (\<lambda>(r, delays). map_err (\<lambda>err. service_unavailable
               (''StepFun AI provider unavailable; recommendation was not generated by local rules: '' @ err_display err)) r)
               (provider_recommend config dec answers bounds memory outcomes fallback)))"

section \<open>What a recommendation of the service guarantees\<close>

definition within_bounds :: "optimizer_bounds \<Rightarrow> ai_memory \<Rightarrow> recommendation_result \<Rightarrow> bool" where
  "within_bounds bounds memory r \<longleftrightarrow> (let b = effective_optimizer_bounds memory bounds in
     (\<exists>c. in_box b c \<and> recommends r c)
     \<and> \<not> list_ex (\<lambda>zone. memory_zone_contains zone (r_temperature_c r) (r_stirrer_rpm r) (r_heating_minutes r) (r_stirring_minutes r))
         (forbidden_zones memory))"

lemma finite_in_range_Ok: "finite_in_range field x lo hi = Inr y \<longleftrightarrow> y = x \<and> is_finite x \<and> in_range lo hi x"
  by (auto simp: finite_in_range_def in_range_def)

lemma score_clamped: "clamp_finite x (lit 0) (lit 100) fallback = Some y \<Longrightarrow> \<not> is_nan fallback \<Longrightarrow> in_range (lit 0) (lit 100) y"
  using f64_clamp_in_range by (cases x) (auto simp: clamp_finite_def split: if_splits)

lemma clamp_finite_total: "clamp_finite x (lit 0) (lit 100) fallback \<noteq> None"
  by (auto simp: clamp_finite_def f64_clamp_def)

lemma validate_total: "validate_model_recommendation model bounds memory outcomes fallback \<noteq> None"
  using clamp_finite_total by (auto simp: validate_model_recommendation_def Let_def split: sum.splits)

lemma validate_sound:
  assumes "validate_model_recommendation model bounds memory outcomes fallback = Some (Inr r)"
  shows "within_bounds bounds memory r \<and> based_on_batch_count r = int (length outcomes)
     \<and> (\<not> is_nan (expected_score fallback) \<longrightarrow> in_range (lit 0) (lit 100) (expected_score r))"
proof -
  define b where "b = effective_optimizer_bounds memory bounds"
  obtain temp rpm heating stirring score where
    f: "in_range (ob_min_temperature_c b) (ob_max_temperature_c b) temp" "in_range (ob_min_stirrer_rpm b) (ob_max_stirrer_rpm b) rpm"
       "in_range (ob_min_heating_minutes b) (ob_max_heating_minutes b) heating"
       "in_range (ob_min_stirring_minutes b) (ob_max_stirring_minutes b) stirring"
    and score: "clamp_finite (md_expected_score model) (lit 0) (lit 100) (expected_score fallback) = Some score"
    and r: "r_temperature_c r = round2 temp" "r_stirrer_rpm r = round2 rpm" "r_heating_minutes r = round2 heating"
       "r_stirring_minutes r = round2 stirring" "expected_score r = round2 score" "based_on_batch_count r = int (length outcomes)"
    and z: "\<not> list_ex (\<lambda>zone. memory_zone_contains zone (round2 temp) (round2 rpm) (round2 heating) (round2 stirring)) (forbidden_zones memory)"
    using assms unfolding validate_model_recommendation_def b_def [symmetric] Let_def
    by (auto simp: bind_res_Ok_iff finite_in_range_Ok split: sum.splits if_splits)
  let ?c = "\<lparr>cd_temperature_c = temp, cd_stirrer_rpm = rpm, cd_heating_minutes = heating, cd_stirring_minutes = stirring\<rparr>"
  have "in_box b ?c" "recommends r ?c" using f r by (simp_all add: in_box_def recommends_def)
  moreover have "in_range (lit 0) (lit 100) (expected_score r)" if "\<not> is_nan (expected_score fallback)"
    using round2_in_range [OF score_clamped [OF score that]] r(5) by (simp add: round2_two_decimals)
  ultimately show ?thesis using r z unfolding within_bounds_def b_def [symmetric] Let_def by auto
qed

lemma attempts_sound:
  "provider_attempts config dec validate answers attempts last_error = Some (Inr r, delays) \<Longrightarrow> \<exists>m. validate m = Some (Inr r)"
proof (induction attempts arbitrary: last_error delays)
  case (Cons attempt rest)
  note ih = Cons.IH
  show ?case
    using Cons.prems ih
    by (auto simp: Let_def split: provider_answer.splits sum.splits if_splits option.splits prod.splits)
qed simp

lemma attempts_delays:
  "provider_attempts config dec validate answers attempts last_error = Some (x, delays)
     \<Longrightarrow> \<exists>n \<le> length (takeWhile (\<lambda>a. a < 3) attempts). delays = map stepfun_retry_delay (take n attempts)"
proof (induction attempts arbitrary: last_error delays)
  case (Cons attempt rest)
  have step: "\<exists>n \<le> length (takeWhile (\<lambda>a. a < 3) (attempt # rest)). delays = map stepfun_retry_delay (take n (attempt # rest))"
    if "attempt < 3" "provider_attempts config dec validate answers rest (Some message) = Some (x, later)"
      "delays = stepfun_retry_delay attempt # later" for message later
    using Cons.IH [OF that(2)] that(1,3) by (metis (no_types, lifting) Suc_le_mono length_Cons list.simps(9) take_Suc_Cons takeWhile.simps(2))
  show ?case
    using Cons.prems step
    by (auto simp: Let_def split: provider_answer.splits sum.splits if_splits option.splits prod.splits)
qed simp

text \<open>The only panic: a text in which the last closing brace stands before the first opening brace.\<close>

definition braces_reversed :: "string \<Rightarrow> bool" where
  "braces_reversed content \<longleftrightarrow> (case (find_char (CHR ''{'') (unfenced content), rfind_char (CHR ''}'') (unfenced content)) of
       (Some i, Some j) \<Rightarrow> j + 1 < i | _ \<Rightarrow> False)"

lemma rfind_char_less: "rfind_char c s = Some j \<Longrightarrow> j < length s"
  by (auto simp: rfind_char_def find_char_def split: if_splits intro!: diff_less length_pos_if_in_set)

lemma parse_json_block_None: "parse_json_block dec content = None \<longleftrightarrow> braces_reversed content"
  using rfind_char_less [of "CHR ''}''" "unfenced content"]
  by (auto simp: parse_json_block_def braces_reversed_def slice_inclusive_def Let_def split: option.splits)

lemma attempts_panic:
  assumes "\<And>m. validate m \<noteq> None"
  shows "provider_attempts config dec validate answers attempts last_error = None \<Longrightarrow>
     \<exists>attempt \<in> set attempts. \<exists>status shown text content. answers attempt = Response status shown (Inr text)
       \<and> extract_response_content dec (ap_api_type config) text = Inr content \<and> braces_reversed content"
proof (induction attempts arbitrary: last_error)
  case (Cons attempt rest)
  show ?case
    using Cons.prems Cons.IH assms
    by (auto simp: Let_def parse_json_block_None split: provider_answer.splits sum.splits if_splits option.splits prod.splits) (metis option.distinct(1))+
qed simp

lemma provider_recommend_cases:
  assumes "provider_recommend config dec answers bounds memory outcomes fallback = x"
  obtains e where "x = Some (Inl e, [])"
  | "provider_attempts config dec (\<lambda>m. validate_model_recommendation m bounds memory outcomes fallback) answers [1, 2, 3] None = x"
  using assms unfolding provider_recommend_def by (cases "ap_api_key config") (auto simp del: provider_attempts.simps)

text \<open>C35: Whatever the language-model service answers, and however the answer decodes, a recommendation that the
  daemon accepts from it lies, before rounding to two decimals, inside the optimizer bounds tightened by
  the operator's memory, and after rounding outside every forbidden zone; where the bounds have at most two decimals the rounded
  temperature and stirrer speed are inside them too. A recommendation is only made from finished batches.\<close>

theorem provider_recommendation_safe:
  assumes "generate_recommendation env rng (Some config) dec answers bounds memory queried = Some (Ok r)"
  shows "\<exists>outcomes c. queried = Ok outcomes \<and> outcomes \<noteq> [] \<and> based_on_batch_count r = int (length outcomes)
     \<and> in_box (effective_optimizer_bounds memory bounds) c \<and> recommends r c
     \<and> \<not> list_ex (\<lambda>zone. memory_zone_contains zone (r_temperature_c r) (r_stirrer_rpm r) (r_heating_minutes r) (r_stirring_minutes r))
         (forbidden_zones memory)
     \<and> (two_decimals (ob_min_temperature_c (effective_optimizer_bounds memory bounds))
        \<and> two_decimals (ob_max_temperature_c (effective_optimizer_bounds memory bounds)) \<longrightarrow>
        in_range (ob_min_temperature_c (effective_optimizer_bounds memory bounds)) (ob_max_temperature_c (effective_optimizer_bounds memory bounds))
          (r_temperature_c r))
     \<and> (two_decimals (ob_min_stirrer_rpm (effective_optimizer_bounds memory bounds))
        \<and> two_decimals (ob_max_stirrer_rpm (effective_optimizer_bounds memory bounds)) \<longrightarrow>
        in_range (ob_min_stirrer_rpm (effective_optimizer_bounds memory bounds)) (ob_max_stirrer_rpm (effective_optimizer_bounds memory bounds))
          (r_stirrer_rpm r))"
proof -
  from assms obtain outcomes fallback rng' delays where q: "queried = Ok outcomes" "outcomes \<noteq> []"
    and run: "provider_recommend config dec answers bounds memory outcomes fallback = Some (Ok r, delays)"
    by (auto simp: generate_recommendation_def split: sum.splits if_splits option.splits prod.splits)
  from run obtain m where "validate_model_recommendation m bounds memory outcomes fallback = Some (Ok r)"
    by (rule provider_recommend_cases) (simp, drule attempts_sound, blast)
  from validate_sound [OF this] obtain c where c: "in_box (effective_optimizer_bounds memory bounds) c" "recommends r c"
    and rest: "\<not> list_ex (\<lambda>zone. memory_zone_contains zone (r_temperature_c r) (r_stirrer_rpm r) (r_heating_minutes r) (r_stirring_minutes r))
         (forbidden_zones memory)" "based_on_batch_count r = int (length outcomes)"
    unfolding within_bounds_def Let_def by blast
  show ?thesis
    using c rest q round2_in_range round2_two_decimals
    by (auto simp: in_box_def recommends_def intro!: exI [of _ c])
qed

text \<open>The daemon sends at most three requests for a recommendation and waits 300 and then 600 milliseconds in between,
  whatever the service answers; the call ends with a recommendation or an error, except for one panic: a
  successful answer whose text has a closing brace before the first opening brace and none after it.\<close>

theorem provider_call_ends:
  shows "(case provider_recommend config dec answers bounds memory outcomes fallback of
       Some (result, delays) \<Rightarrow> delays \<in> {[], [300], [300, 600]}
     | None \<Rightarrow> \<exists>attempt \<in> {1, 2, 3}. \<exists>status shown text content. answers attempt = Response status shown (Ok text)
         \<and> extract_response_content dec (ap_api_type config) text = Ok content \<and> braces_reversed content)"
proof (cases "provider_recommend config dec answers bounds memory outcomes fallback")
  case None
  then show ?thesis
  proof (rule provider_recommend_cases)
    assume "provider_attempts config dec (\<lambda>m. validate_model_recommendation m bounds memory outcomes fallback) answers [1, 2, 3] None = None"
    from attempts_panic [OF validate_total this] show ?thesis unfolding None option.case list.set .
  qed simp
next
  case (Some p)
  obtain result delays where p: "p = (result, delays)" by fastforce
  have "\<exists>n \<le> 2. delays = map stepfun_retry_delay (take n [1, 2, 3])"
    using Some unfolding p
  proof (rule provider_recommend_cases)
    assume "provider_attempts config dec (\<lambda>m. validate_model_recommendation m bounds memory outcomes fallback) answers [1, 2, 3] None
      = Some (result, delays)"
    from attempts_delays [OF this] show ?thesis by (simp add: numeral_2_eq_2)
  qed (auto intro: exI [of _ 0])
  then obtain n where "n \<le> 2" "delays = map stepfun_retry_delay (take n [1, 2, 3])" by blast
  then have "delays \<in> {[], [stepfun_retry_delay 1], [stepfun_retry_delay 1, stepfun_retry_delay 2]}"
    by (cases n; cases "n - 1") auto
  then have "delays \<in> {[], [300], [300, 600]}" by (simp add: stepfun_retry_delay_def)
  then show ?thesis using Some p by simp
qed

text \<open>An answer that panics: the text is no JSON object, and its closing brace comes first.\<close>

lemma provider_answer_panics:
  assumes "ap_api_key config = Some key" "answers 1 = Response 200 ''200 OK'' (Inr body)"
    and "extract_response_content dec (ap_api_type config) body = Inr ''} {''" "de_model dec ''} {'' = Inl err"
  shows "provider_recommend config dec answers bounds memory outcomes fallback = None"
proof -
  have t: "trim_text ''} {'' = ''} {''" by (simp add: trim_text_def trim_chars_def normalize_eval)
  have "trim_start_matches (fence @ ''json'') ''} {'' = ''} {''" "trim_start_matches fence ''} {'' = ''} {''"
    "trim_end_matches fence ''} {'' = ''} {''"
    unfolding trim_end_matches_def by (subst trim_start_no_match; simp add: fence_def numeral_3_eq_3)+
  then have "unfenced ''} {'' = ''} {''" by (simp add: unfenced_def t)
  then have "braces_reversed ''} {''"
    by (simp add: braces_reversed_def find_char_def rfind_char_def)
  then show ?thesis using assms by (simp add: provider_recommend_def parse_json_block_None [THEN iffD2])
qed

section \<open>Witnesses\<close>

definition demo_provider :: ai_provider_config where
  "demo_provider = (ai_config_from_env (\<lambda>_. None))\<lparr>ap_enabled := True, ap_api_key := Some ''k''\<rparr>"

definition demo_decoder :: json_decoder where
  "demo_decoder = \<lparr>de_chat = (\<lambda>text. Ok [\<lparr>cm_content = ''{}'', cm_reasoning = ''''\<rparr>]), de_messages = (\<lambda>text. Ok []),
     de_model = (\<lambda>text. Ok \<lparr>md_temperature_c = Num 60, md_stirrer_rpm = Num 300, md_heating_minutes = Num 30,
       md_stirring_minutes = Num 30, md_expected_score = Num 80, md_rationale = ''ok''\<rparr>)\<rparr>"

definition demo_answers :: "nat \<Rightarrow> provider_answer" where
  "demo_answers attempt = (if attempt = 1 then SendFailed True ''timeout'' else Response 200 ''200 OK'' (Ok ''{}''))"

lemma demo_effective:
  "effective_optimizer_bounds (demo_memory\<lparr>recommendation := (recommendation demo_memory)\<lparr>rec_enabled := False\<rparr>\<rparr>) (optimizer shipped_safety)
     = optimizer shipped_safety"
  by (simp add: effective_optimizer_bounds_def)

lemma demo_text: "trim_text ''{}'' = ''{}''" "trim_text ''ok'' = ''ok''"
  by (simp_all add: trim_text_def trim_chars_def normalize_eval)

lemma demo_provider_run:
  assumes "effective_optimizer_bounds memory (optimizer shipped_safety) = optimizer shipped_safety" "forbidden_zones memory = []"
  shows "\<exists>r. provider_recommend demo_provider demo_decoder demo_answers (optimizer shipped_safety) memory outcomes fallback
     = Some (Ok r, [300])"
  using assms
  by (simp add: provider_recommend_def demo_provider_def demo_answers_def ai_config_from_env_def retryable_status_def
      extract_response_content_def extract_chat_completion_content_def demo_decoder_def demo_text stepfun_retry_delay_def
      validate_model_recommendation_def finite_in_range_def shipped_safety_def clamp_finite_def f64_clamp_def sanitize_rationale_def Let_def)

theorem provider_recommendation_safe_witness:
  "\<exists>r memory. generate_recommendation demo_opt_env () (Some demo_provider) demo_decoder demo_answers (optimizer shipped_safety) memory
       (Ok [demo_outcome 50]) = Some (Ok r)
     \<and> (\<exists>c. in_box (optimizer shipped_safety) c \<and> recommends r c)"
proof -
  let ?memory = "demo_memory\<lparr>recommendation := (recommendation demo_memory)\<lparr>rec_enabled := False\<rparr>\<rparr>"
  have zones: "forbidden_zones ?memory = []" by (simp add: demo_memory_def)
  obtain fallback where "recommend_with_memory demo_opt_env (optimizer shipped_safety) (Some ?memory) [demo_outcome 50] ()
      = Some (Some fallback, ())"
    by (simp add: recommend_with_memory_def enabled_memory_def safe_midpoint_def is_forbidden_def dreturn_def Let_def)
  moreover obtain r where "provider_recommend demo_provider demo_decoder demo_answers (optimizer shipped_safety) ?memory
      [demo_outcome 50] fallback = Some (Ok r, [300])"
    using demo_provider_run [OF demo_effective zones] by blast
  ultimately have run: "generate_recommendation demo_opt_env () (Some demo_provider) demo_decoder demo_answers (optimizer shipped_safety)
      ?memory (Ok [demo_outcome 50]) = Some (Ok r)"
    by (simp add: generate_recommendation_def)
  show ?thesis using run provider_recommendation_safe [OF run] unfolding demo_effective by blast
qed

end
