(* ===== verification/Production_Basis.thy ===== *)
theory Production_Basis
  imports Production_Api Db_Records Ai_Provider
begin

text \<open>
  The handlers of \<open>api.rs\<close> that write what later production is based on: process definitions and their steps, product
  results and recommendations. They are refused while a batch is open, validate what they store, and write the row
  and its audit event in one transaction.
\<close>

section \<open>Transactions\<close>

text \<open>A transaction that writes one row and one audit event: after the validation in front of it the database either
  commits both or neither.\<close>

definition transact ::
    "anyhow + unit \<Rightarrow> db_action \<Rightarrow> audit_actor \<Rightarrow> int option \<Rightarrow> string \<Rightarrow> safe_command option \<Rightarrow> string \<Rightarrow> (anyhow + unit) handler" where
  "transact valid act actor batch event command reason = (\<lambda>env s.
     let t = h_tick s;
         row = \<lparr>ev_actor = actor, ev_batch = batch, ev_type = event, ev_command = command, ev_reason = reason\<rparr>
     in case valid of
          Inl err \<Rightarrow> Some (Ok (Err err), s)
        | Inr _ \<Rightarrow> (case a_audit env t of
            Inl err \<Rightarrow> Some (Ok (Err err), s\<lparr>h_tick := t + 1\<rparr>)
          | Inr _ \<Rightarrow> Some (Ok (Ok ()), s\<lparr>h_tick := t + 1, h_db := h_db s @ [act], h_events := h_events s @ [row]\<rparr>)))"

definition insert_recommendation_with_audit ::
    "recommendation_result \<Rightarrow> string \<Rightarrow> string \<Rightarrow> audit_actor \<Rightarrow> (anyhow + unit) handler" where
  "insert_recommendation_with_audit r event reason actor =
     transact (ensure_valid_recommendation_for_insert r)
       (InsertRecommendation (based_on_batch_count r) (r_temperature_c r) (r_stirrer_rpm r) (r_heating_minutes r)
          (r_stirring_minutes r) (expected_score r) (rationale_text r))
       actor None event (Some (safe_command_from_recommendation r reason)) reason"

text \<open>A transaction on an existing row answers \<open>None\<close> and writes nothing when the row is not there.\<close>

definition transact_existing ::
    "(nat \<Rightarrow> bool) \<Rightarrow> anyhow + unit \<Rightarrow> db_action \<Rightarrow> audit_actor \<Rightarrow> string \<Rightarrow> string \<Rightarrow> app_error \<Rightarrow> unit handler" where
  "transact_existing found valid act actor event reason missing =
     hbind (hany valid) (\<lambda>_.
     hbind (db_call (\<lambda>env t. found t)) (\<lambda>there.
     if \<not> there then hfail missing
     else hbind (transact (Ok ()) act actor None event None reason) hany))"

section \<open>The guard\<close>

definition ensure_production_basis_write_allowed :: "string \<Rightarrow> unit handler" where
  "ensure_production_basis_write_allowed action =
     hbind (read_lock (\<lambda>rt. rt)) (\<lambda>rt. case active_batch_id rt of
       Some b \<Rightarrow> hfail (conflict (action @ '' blocked while batch '' @ show_int b
         @ '' is active; finish and verify active production first''))
     | None \<Rightarrow>
         hbind (db_call (\<lambda>env t. a_unfinished env t)) (\<lambda>queried.
         hbind (hany queried) (\<lambda>batches.
         let st = unfinished_batch_status_from_batches batches rt in
         if recovery_required st \<or> has_unfinished_batch st rt
         then hfail (conflict (action @ '' blocked until unfinished batch recovery is resolved: '' @ batch_status_reason st rt))
         else hreturn ())))"

definition ensure_batch_ready_for_product_result :: "int \<Rightarrow> unit handler" where
  "ensure_batch_ready_for_product_result b =
     hbind (db_call (\<lambda>env t. a_batch_by_id env t)) (\<lambda>queried.
     hbind (hany queried) (\<lambda>found. case found of
       None \<Rightarrow> hfail (not_found ''batch not found'')
     | Some record \<Rightarrow>
         if finished_at record = None
         then hfail (conflict ''cannot record product result before the batch is finished'')
         else
         hbind (read_lock (\<lambda>rt. rt)) (\<lambda>rt. case active_batch_id rt of
           Some active \<Rightarrow> hfail (conflict (''cannot record product result while batch '' @ show_int active
             @ '' is active; finish and verify active production first''))
         | None \<Rightarrow>
             hbind (db_call (\<lambda>env t. a_unfinished env t)) (\<lambda>queried.
             hbind (hany queried) (\<lambda>batches.
             let st = unfinished_batch_status_from_batches batches rt in
             if recovery_required st \<or> has_unfinished_batch st rt
             then hfail (conflict (''cannot record product result until unfinished batch recovery is resolved: ''
               @ batch_status_reason st rt))
             else hreturn ())))))"

section \<open>Process definitions\<close>

record process_step_request =
  sr_name :: "string option"
  sr_target_temperature_c :: f64
  sr_ramp_rate_c_min :: "f64 option option"
  sr_duration_minutes :: f64
  sr_target_stirrer_rpm :: f64
  sr_target_shake_speed_cpm :: "f64 option option"
  sr_target_pressure_mpa :: "f64 option option"
  sr_cooling_mode :: "string option"

definition validate_process_step :: "safety_config \<Rightarrow> process_step_request \<Rightarrow> app_error + new_process_step" where
  "validate_process_step safety p =
     bind_res (validate_target_temperature safety (sr_target_temperature_c p)) (\<lambda>_.
     bind_res (optional_present_number (sr_ramp_rate_c_min p) ''ramp_rate_c_min'') (\<lambda>ramp_field.
     let ramp = unwrap_or ramp_field (lit 0) in
     bind_res (run_checks
       [api_validate_range ''ramp_rate_c_min'' ramp (lit (- 20)) (lit 20),
        api_validate_range ''duration_minutes'' (sr_duration_minutes p) (lit 1)
          (f64_max (ob_max_stirring_minutes (optimizer safety)) (ob_max_heating_minutes (optimizer safety))),
        validate_stir_speed safety (sr_target_stirrer_rpm p),
        validate_target_pair_allowed safety (sr_target_temperature_c p) (sr_target_stirrer_rpm p)]) (\<lambda>_.
     bind_res (optional_present_number (sr_target_shake_speed_cpm p) ''target_shake_speed_cpm'') (\<lambda>shake_field.
     let shake = unwrap_or shake_field (lit 30) in
     bind_res (api_validate_range ''target_shake_speed_cpm'' shake (lit 0) (lit 60)) (\<lambda>_.
     bind_res (optional_present_number (sr_target_pressure_mpa p) ''target_pressure_mpa'') (\<lambda>pressure_field.
     let pressure = unwrap_or pressure_field (lit (1 / 2)) in
     bind_res (api_validate_range ''target_pressure_mpa'' pressure (lit 0) (lit 10)) (\<lambda>_.
     Ok \<lparr>ns_name = clean_label (sr_name p) (utf8_string [0x65B0, 0x6B65, 0x9AA4]) 80,
         ns_target_temperature_c = round2 (sr_target_temperature_c p), ns_ramp_rate_c_min = round2 ramp,
         ns_duration_minutes = round2 (sr_duration_minutes p), ns_target_stirrer_rpm = round2 (sr_target_stirrer_rpm p),
         ns_target_shake_speed_cpm = round2 shake, ns_target_pressure_mpa = round2 pressure,
         ns_cooling_mode = clean_label (sr_cooling_mode p) (utf8_string [0x81EA, 0x7136]) 20\<rparr>)))))))"

definition clean_status :: "string \<Rightarrow> app_error + string" where
  "clean_status text = (if text \<in> {''draft'', ''applied'', ''archived''} then Ok text
     else Err (bad_request ''status must be draft, applied, or archived''))"

definition create_process :: "session \<Rightarrow> string option \<Rightarrow> string option \<Rightarrow> unit handler" where
  "create_process session name description =
     hbind (hresult (session EditProcess)) (\<lambda>user.
     hbind (ensure_production_basis_write_allowed ''process definition create'') (\<lambda>_.
     hbind (transact (Ok ())
       (CreateProcess (clean_label name (utf8_string [0x672A, 0x547D, 0x540D, 0x5DE5, 0x827A]) 80) (clean_label description '''' 240))
       (audit_actor_for_user user) None ''process_created'' None ''operator created process'') hany))"

definition update_process ::
    "session \<Rightarrow> (nat \<Rightarrow> bool) \<Rightarrow> int \<Rightarrow> string option \<Rightarrow> string option \<Rightarrow> string option \<Rightarrow> unit handler" where
  "update_process session found pid name description status =
     hbind (hresult (session EditProcess)) (\<lambda>user.
     hbind (ensure_production_basis_write_allowed ''process definition update'') (\<lambda>_.
     hbind process_detail_or_bad_request (\<lambda>detail. case detail of
       None \<Rightarrow> hfail (not_found ''process not found'')
     | Some current \<Rightarrow>
         hbind (hresult (clean_status (unwrap_or status (process_status current)))) (\<lambda>cleaned.
         transact_existing found (Ok ())
           (UpdateProcess pid (clean_label name (process_name current) 80)
              (clean_label description (process_description current) 240) cleaned)
           (audit_actor_for_user user) ''process_updated'' ''operator updated process'' (not_found ''process not found'')))))"

definition add_process_step :: "session \<Rightarrow> (nat \<Rightarrow> bool) \<Rightarrow> int \<Rightarrow> process_step_request \<Rightarrow> unit handler" where
  "add_process_step session found pid payload =
     hbind (hresult (session EditProcess)) (\<lambda>user.
     hbind (ensure_production_basis_write_allowed ''process step add'') (\<lambda>_.
     hbind safety_of (\<lambda>safety.
     hbind (hresult (validate_process_step safety payload)) (\<lambda>step.
     transact_existing found (ensure_valid_process_step_for_insert step) (AddProcessStep pid step)
       (audit_actor_for_user user) ''process_step_added'' ''operator added process step'' (not_found ''process not found'')))))"

definition update_process_step :: "session \<Rightarrow> (nat \<Rightarrow> bool) \<Rightarrow> int \<Rightarrow> int \<Rightarrow> process_step_request \<Rightarrow> unit handler" where
  "update_process_step session found pid sid payload =
     hbind (hresult (session EditProcess)) (\<lambda>user.
     hbind (ensure_production_basis_write_allowed ''process step update'') (\<lambda>_.
     hbind safety_of (\<lambda>safety.
     hbind (hresult (validate_process_step safety payload)) (\<lambda>step.
     transact_existing found (ensure_valid_process_step_for_insert step) (UpdateProcessStep pid sid step)
       (audit_actor_for_user user) ''process_step_updated'' ''operator updated process step''
       (not_found ''process step not found'')))))"

section \<open>Results and recommendations\<close>

text \<open>The outcome of \<open>generate_recommendation\<close> at a tick; \<open>None\<close> is its panic.\<close>

type_synonym generator = "nat \<Rightarrow> (app_error + recommendation_result) option"

definition generated :: "generator \<Rightarrow> recommendation_result handler" where
  "generated gen = hbind (db_call (\<lambda>env t. gen t)) (\<lambda>outcome. hbind (hpanic outcome) hresult)"

definition product_results ::
    "session \<Rightarrow> ai_provider_config option \<Rightarrow> generator \<Rightarrow> int \<Rightarrow> f64 \<Rightarrow> f64 \<Rightarrow> string option \<Rightarrow> ai_recommendation_envelope handler" where
  "product_results session provider gen b yield_percent ratio notes =
     hbind (hresult (session EditProcess)) (\<lambda>user.
     let actor = audit_actor_for_user user in
     hbind (ensure_batch_ready_for_product_result b) (\<lambda>_.
     if \<not> in_range (lit 0) (lit 100) yield_percent then hfail (bad_request ''yield_percent must be between 0 and 100'')
     else if \<not> in_range (lit 0) (lit 1) ratio then hfail (bad_request ''product_ratio must be between 0 and 1'')
     else
     let result = \<lparr>pr_batch_id = b, pr_yield_percent = round2 yield_percent, pr_product_ratio = round2 ratio,
           pr_notes = clean_label notes '''' 500\<rparr> in
     hbind (transact (ensure_valid_product_result_for_insert result)
       (InsertProductResult b (pr_yield_percent result) (pr_product_ratio result) (pr_notes result)) actor (Some b)
       ''product_result_recorded'' None ''product result saved; recommendation regeneration queued'') (\<lambda>stored.
     hbind (hany stored) (\<lambda>_.
     hbind (generated gen) (\<lambda>r.
     hbind (insert_recommendation_with_audit r ''product_result_recommendation_generated''
       ''product result regenerated AI recommendation'' actor) (\<lambda>inserted.
     hbind (hany inserted) (\<lambda>_.
     hreturn (recommendation_envelope provider r))))))))"

definition generate_latest_recommendation ::
    "ai_provider_config option \<Rightarrow> generator \<Rightarrow> ai_recommendation_envelope handler" where
  "generate_latest_recommendation provider gen =
     hbind (ensure_production_basis_write_allowed ''recommendation regeneration'') (\<lambda>_.
     hbind (generated gen) (\<lambda>r.
     hbind (insert_recommendation_with_audit r ''recommendation_generated'' ''operator regenerated latest AI recommendation''
       system_actor) (\<lambda>inserted.
     hbind (hany inserted) (\<lambda>_.
     hreturn (recommendation_envelope provider r)))))"

section \<open>What the transactions keep\<close>

lemma keeps_transact [keeps_intros]: "keeps P (transact valid act actor batch event command reason)"
  by (auto simp: keeps_def transact_def Let_def split: sum.splits)

lemma returns_transact [returns_intros]: "returns (transact valid act actor batch event command reason)"
  by (auto simp: returns_def transact_def Let_def split: sum.splits)

lemma no_writes_transact: "no_writes (transact valid act actor batch event command reason)"
  by (auto simp: no_writes_def transact_def Let_def split: sum.splits)

lemma keeps_transact_existing [keeps_intros]: "keeps P (transact_existing found valid act actor event reason missing)"
  unfolding transact_existing_def by (intro keeps_intros)

lemma keeps_recommendation_row [keeps_intros]: "keeps P (insert_recommendation_with_audit r event reason actor)"
  unfolding insert_recommendation_with_audit_def by (intro keeps_intros)

lemma keeps_basis_guards [keeps_intros]:
  "keeps P (ensure_production_basis_write_allowed action)" "keeps P (ensure_batch_ready_for_product_result b)"
  "keeps P process_detail_or_bad_request" "keeps P (generated gen)"
  unfolding ensure_production_basis_write_allowed_def ensure_batch_ready_for_product_result_def
    process_detail_or_bad_request_def generated_def Let_def
  by (intro keeps_intros)+

lemma keeps_basis [keeps_intros]:
  "keeps P (create_process session name description)"
  "keeps P (update_process session found pid name description status)"
  "keeps P (add_process_step session found pid payload)"
  "keeps P (update_process_step session found pid sid payload)"
  "keeps P (product_results session provider gen b y ratio notes)"
  "keeps P (generate_latest_recommendation provider gen)"
  unfolding create_process_def update_process_def add_process_step_def update_process_step_def product_results_def
    generate_latest_recommendation_def Let_def
  by (intro keeps_intros)+

section \<open>Production basis is frozen while a batch is open\<close>

text \<open>At the tick of the guard no batch is active, and at the next the database has none open.\<close>

definition production_closed :: "api_env \<Rightarrow> nat \<Rightarrow> runtime_state \<Rightarrow> bool" where
  "production_closed env t rt \<longleftrightarrow> active_batch_id (a_interfere env t rt) = None \<and> a_unfinished env (t + 1) = Ok []"

lemma no_unfinished_iff:
  "active_batch_id rt = None \<Longrightarrow> \<not> recovery_required (unfinished_batch_status_from_batches batches rt)
     \<and> \<not> has_unfinished_batch (unfinished_batch_status_from_batches batches rt) rt \<longleftrightarrow> batches = []"
  by (auto simp: recovery_required_def batch_status_is_consistent_def has_unfinished_batch_def unfinished_batch_status_from_batches_def)

lemma guard_run:
  assumes "ensure_production_basis_write_allowed action env s = Some (r, s1)"
  shows "h_db s1 = h_db s \<and> h_events s1 = h_events s \<and> h_writes s1 = h_writes s
     \<and> (is_ok r \<longrightarrow> production_closed env (h_tick s) (h_rt s))"
  using assms
  by (auto simp: ensure_production_basis_write_allowed_def hbind_Some_iff read_lock_def with_lock_def db_call_def hany_def hresult_def
      hfail_def hreturn_def Let_def production_closed_def no_unfinished_iff is_ok_iff split: option.splits if_splits sum.splits)

text \<open>A step of a handler that writes nothing, and one that ends in a single transaction.\<close>

definition silent :: "'a handler \<Rightarrow> bool" where
  "silent h \<longleftrightarrow> (\<forall>env s r s'. h env s = Some (r, s') \<longrightarrow> h_db s' = h_db s \<and> h_events s' = h_events s \<and> h_writes s' = h_writes s)"

definition one_row :: "(api_env \<Rightarrow> db_action \<Rightarrow> bool) \<Rightarrow> 'a handler \<Rightarrow> bool" where
  "one_row Q h \<longleftrightarrow> (\<forall>env s r s'. h env s = Some (r, s') \<longrightarrow> h_writes s' = h_writes s
     \<and> (if is_ok r then \<exists>act ev. Q env act \<and> h_db s' = h_db s @ [act] \<and> h_events s' = h_events s @ [ev]
        else h_db s' = h_db s \<and> h_events s' = h_events s))"

lemma silent_steps:
  "silent (hresult r)" "silent (hany a)" "silent (db_call f)" "silent (read_lock g)" "silent safety_of" "silent process_detail_or_bad_request"
  by (auto simp: silent_def hresult_def hany_def db_call_def read_lock_def with_lock_def safety_of_def process_detail_or_bad_request_def
      hbind_Some_iff hfail_def hreturn_def Let_def split: prod.splits sum.splits if_splits)

lemma one_row_bind: "silent h \<Longrightarrow> (\<And>a. one_row Q (k a)) \<Longrightarrow> one_row Q (hbind h k)"
  by (fastforce simp: silent_def one_row_def hbind_Some_iff)

lemma hbind_checked: "hbind (hresult (Inr a)) k = k a" "hbind (hresult (Inl e)) k = hfail e"
  by (auto simp: hbind_def hresult_def hfail_def)

lemma one_row_fail: "one_row Q (hfail e)"
  by (simp add: one_row_def hfail_def hresult_def)

lemma one_row_checked: "(\<And>a. x = Ok a \<Longrightarrow> one_row Q (k a)) \<Longrightarrow> one_row Q (hbind (hresult x) k)"
  by (cases x) (simp_all add: hbind_checked one_row_fail)

lemma one_row_option:
  "one_row Q h \<Longrightarrow> (\<And>x. one_row Q (k x)) \<Longrightarrow> one_row Q (case y of None \<Rightarrow> h | Some x \<Rightarrow> k x)"
  by (cases y) simp_all

lemma one_row_safety:
  "(\<And>safety. one_row (\<lambda>env act. safety = a_safety env \<longrightarrow> Q env act) (k safety)) \<Longrightarrow> one_row Q (hbind safety_of k)"
  unfolding one_row_def safety_of_def hbind_def by fastforce

lemma one_row_transact: "(\<And>env. Q env act) \<Longrightarrow> one_row Q (hbind (transact valid act actor batch event command reason) hany)"
  by (auto simp: one_row_def hbind_Some_iff transact_def hany_def hresult_def Let_def split: sum.splits)

lemma one_row_existing: "(\<And>env. is_ok valid \<Longrightarrow> Q env act) \<Longrightarrow> one_row Q (transact_existing found valid act actor event reason missing)"
  unfolding transact_existing_def hany_def
  by (cases valid) (auto simp: hbind_checked intro!: one_row_bind one_row_transact [unfolded hany_def] one_row_fail silent_steps)

lemmas one_row_rules = one_row_option one_row_fail one_row_checked one_row_existing one_row_transact one_row_safety

definition guarded_row :: "(api_env \<Rightarrow> db_action \<Rightarrow> bool) \<Rightarrow> 'a handler \<Rightarrow> bool" where
  "guarded_row Q h \<longleftrightarrow> (\<forall>env s r s'. h env s = Some (r, s') \<longrightarrow> h_writes s' = h_writes s
     \<and> (if is_ok r then production_closed env (h_tick s) (h_rt s) \<and> (\<exists>act ev. Q env act \<and> h_db s' = h_db s @ [act] \<and> h_events s' = h_events s @ [ev])
        else h_db s' = h_db s \<and> h_events s' = h_events s))"

lemma guarded_rowD:
  "guarded_row Q h \<Longrightarrow> h env s = Some (r, s') \<Longrightarrow> h_writes s' = h_writes s
     \<and> (if is_ok r then production_closed env (h_tick s) (h_rt s) \<and> (\<exists>act ev. Q env act \<and> h_db s' = h_db s @ [act] \<and> h_events s' = h_events s @ [ev])
        else h_db s' = h_db s \<and> h_events s' = h_events s)"
  unfolding guarded_row_def by blast

lemma guarded_rowI:
  assumes "\<And>user. one_row Q (k user)"
  shows "guarded_row Q (hbind (hresult session) (\<lambda>user. hbind (ensure_production_basis_write_allowed action) (\<lambda>_. k user)))"
  using assms guard_run [of action] unfolding guarded_row_def one_row_def
  by (fastforce simp: hbind_Some_iff hresult_def is_ok_iff)

text \<open>The row of a step passed both validations.\<close>

definition storable :: "safety_config \<Rightarrow> db_action \<Rightarrow> bool" where
  "storable safety act \<longleftrightarrow> (case act of
       AddProcessStep pid step \<Rightarrow> (\<exists>p. validate_process_step safety p = Ok step) \<and> is_ok (ensure_valid_process_step_for_insert step)
     | UpdateProcessStep pid sid step \<Rightarrow> (\<exists>p. validate_process_step safety p = Ok step) \<and> is_ok (ensure_valid_process_step_for_insert step)
     | _ \<Rightarrow> True)"

lemma guarded_handlers:
  "guarded_row (\<lambda>env. storable (a_safety env)) (create_process session name description)"
  "guarded_row (\<lambda>env. storable (a_safety env)) (update_process session found pid name description status)"
  "guarded_row (\<lambda>env. storable (a_safety env)) (add_process_step session found pid payload)"
  "guarded_row (\<lambda>env. storable (a_safety env)) (update_process_step session found pid sid payload)"
  unfolding create_process_def update_process_def add_process_step_def update_process_step_def
  by (rule guarded_rowI; auto intro!: one_row_rules one_row_bind [OF silent_steps(6)] simp: storable_def)+


section \<open>A stored step can be run\<close>

definition step_row :: "int \<Rightarrow> new_process_step \<Rightarrow> process_step" where
  "step_row i step = \<lparr>step_id = i, step_target_temperature_c = ns_target_temperature_c step,
     step_ramp_rate_c_min = ns_ramp_rate_c_min step, step_duration_minutes = ns_duration_minutes step,
     step_target_stirrer_rpm = ns_target_stirrer_rpm step, step_target_shake_speed_cpm = ns_target_shake_speed_cpm step,
     step_target_pressure_mpa = ns_target_pressure_mpa step\<rparr>"

definition longest_step :: "safety_config \<Rightarrow> f64" where
  "longest_step safety = f64_max (ob_max_stirring_minutes (optimizer safety)) (ob_max_heating_minutes (optimizer safety))"

lemma validate_process_step_Ok:
  assumes "validate_process_step safety p = Ok step"
  obtains ramp shake pressure where
    "is_ok (validate_target_temperature safety (sr_target_temperature_c p))" "is_ok (validate_stir_speed safety (sr_target_stirrer_rpm p))"
    "is_ok (validate_target_pair_allowed safety (sr_target_temperature_c p) (sr_target_stirrer_rpm p))"
    "in_range (lit (- 20)) (lit 20) ramp" "in_range (lit 1) (longest_step safety) (sr_duration_minutes p)"
    "in_range (lit 0) (lit 60) shake" "in_range (lit 0) (lit 10) pressure"
    "ns_target_temperature_c step = round2 (sr_target_temperature_c p)" "ns_ramp_rate_c_min step = round2 ramp"
    "ns_duration_minutes step = round2 (sr_duration_minutes p)" "ns_target_stirrer_rpm step = round2 (sr_target_stirrer_rpm p)"
    "ns_target_shake_speed_cpm step = round2 shake" "ns_target_pressure_mpa step = round2 pressure"
proof -
  from assms obtain ramp_field shake_field pressure_field where
    checks: "validate_target_temperature safety (sr_target_temperature_c p) = Ok ()"
      "run_checks [api_validate_range ''ramp_rate_c_min'' (unwrap_or ramp_field (lit 0)) (lit (- 20)) (lit 20),
        api_validate_range ''duration_minutes'' (sr_duration_minutes p) (lit 1) (longest_step safety),
        validate_stir_speed safety (sr_target_stirrer_rpm p),
        validate_target_pair_allowed safety (sr_target_temperature_c p) (sr_target_stirrer_rpm p)] = Ok ()"
      "api_validate_range ''target_shake_speed_cpm'' (unwrap_or shake_field (lit 30)) (lit 0) (lit 60) = Ok ()"
      "api_validate_range ''target_pressure_mpa'' (unwrap_or pressure_field (lit (1 / 2))) (lit 0) (lit 10) = Ok ()"
    and step: "ns_target_temperature_c step = round2 (sr_target_temperature_c p)" "ns_ramp_rate_c_min step = round2 (unwrap_or ramp_field (lit 0))"
      "ns_duration_minutes step = round2 (sr_duration_minutes p)" "ns_target_stirrer_rpm step = round2 (sr_target_stirrer_rpm p)"
      "ns_target_shake_speed_cpm step = round2 (unwrap_or shake_field (lit 30))"
      "ns_target_pressure_mpa step = round2 (unwrap_or pressure_field (lit (1 / 2)))"
    unfolding validate_process_step_def Let_def longest_step_def [symmetric] bind_res_Ok_iff by auto
  show thesis
    using checks [unfolded unit_ok run_checks_ok] that [OF _ _ _ _ _ _ _ step]
    by (simp add: api_validate_range_ok)
qed

lemma round2_finite: "in_range (Num a) (Num b) x \<Longrightarrow> round2 (Num a) = Num a \<Longrightarrow> round2 (Num b) = Num b \<Longrightarrow>
    is_finite (round2 x) \<and> in_range (Num a) (Num b) (round2 x)"
  using round2_in_range [of "Num a" "Num b" x] by (simp add: in_range_Num)


section \<open>Witnesses\<close>

definition demo_step_request :: "rat \<Rightarrow> rat \<Rightarrow> process_step_request" where
  "demo_step_request temp rpm = \<lparr>sr_name = Some ''heat'', sr_target_temperature_c = Num temp, sr_ramp_rate_c_min = None,
     sr_duration_minutes = Num 30, sr_target_stirrer_rpm = Num rpm, sr_target_shake_speed_cpm = None,
     sr_target_pressure_mpa = None, sr_cooling_mode = None\<rparr>"

lemma shipped_longest: "longest_step shipped_safety = Num 240"
  by (simp add: longest_step_def shipped_safety_def f64_max_def)

lemma demo_step_accepted:
  assumes "\<not> is_forbidden_control_zone shipped_safety (Num temp) (Num 300)" "0 \<le> temp" "temp \<le> 160"
  shows "\<exists>step. validate_process_step shipped_safety (demo_step_request temp 300) = Ok step \<and> ns_target_temperature_c step = round2 (Num temp)
     \<and> ns_target_stirrer_rpm step = Num 300"
  using assms unfolding validate_process_step_def demo_step_request_def longest_step_def [symmetric] shipped_longest
  by (auto simp: Let_def validate_eval is_forbidden_control_zone_def half_two_decimals)


text \<open>The pair of a step is checked before rounding and stored after it: a step just below a forbidden zone is accepted and stored, and the
  process that has it can never be started.\<close>

lemma rounded_step_not_startable:
  "\<exists>p step. validate_process_step shipped_safety p = Ok step \<and> \<not> is_ok (validate_persisted_process_step shipped_safety (step_row i step))"
proof -
  have "\<not> is_forbidden_control_zone shipped_safety (Num (31999 / 256)) (Num 300)"
    by (simp add: is_forbidden_control_zone_def zone_contains_def shipped_safety_def)
  from demo_step_accepted [OF this] obtain step where
    step: "validate_process_step shipped_safety (demo_step_request (31999 / 256) 300) = Ok step"
    "ns_target_temperature_c step = Num 125" "ns_target_stirrer_rpm step = Num 300"
    by (auto simp: edge_rounds_into_zone)
  then have "\<not> is_ok (validate_target_pair_allowed shipped_safety (ns_target_temperature_c step) (ns_target_stirrer_rpm step))"
    by (simp add: validate_eval)
  then show ?thesis
    using step(1) by (intro exI [of _ "demo_step_request (31999 / 256) 300"] exI [of _ step])
      (simp add: validate_persisted_process_step_def step_row_def run_checks_ok Let_def del: run_checks.simps)
qed


end
