(* ===== verification/Device_Status.thy ===== *)
theory Device_Status
  imports Component_Api Pipeline_Api
begin

text \<open>
  The status of the device as \<open>api.rs\<close> reports it: sensors, components, the state of the device and the summary that takes
  unfinished batches into account. The AI master control reads its \<open>online\<close> flag. The JSON value that repeats the
  readings of a component is left out of its item.
\<close>

section \<open>Sensors\<close>

record device_sensor_item =
  si_sensor_id :: string
  si_label :: string
  si_unit :: string
  si_status :: string
  si_value :: "f64 option"
  si_target :: "f64 option"
  si_source :: string
  si_component_id :: "string option"
  si_updated_at :: "time option"

fun device_mode_label :: "device_mode \<Rightarrow> string" where
  "device_mode_label Pipeline = ''pipeline''"
| "device_mode_label Modbus = ''modbus''"
| "device_mode_label Esp32Serial = ''esp32_serial''"
| "device_mode_label JsonBridge = ''json_bridge''"
| "device_mode_label Simulation = ''simulation''"

definition sensor_status_for :: "runtime_state \<Rightarrow> bool \<Rightarrow> f64 option \<Rightarrow> string" where
  "sensor_status_for rt sample_fresh reading =
     (if emergency_stop rt then ''blocked''
      else if last_sensor_error rt \<noteq> None then ''error''
      else if reading = None then ''unavailable''
      else if \<not> sample_fresh then ''stale''
      else ''online'')"

definition sensor_items :: "device_mode \<Rightarrow> runtime_state \<Rightarrow> bool \<Rightarrow> device_sensor_item list" where
  "sensor_items md rt sample_fresh =
     (let sample = latest_sample rt;
          item = (\<lambda>sid label unit reading target component.
            \<lparr>si_sensor_id = sid, si_label = label, si_unit = unit, si_status = sensor_status_for rt sample_fresh reading,
             si_value = map_option round2 reading, si_target = map_option round2 target, si_source = device_mode_label md,
             si_component_id = component, si_updated_at = map_option s_captured_at sample\<rparr>)
      in [item ''temperature_c'' ''Temperature'' ''C'' (map_option s_temperature_c sample) (Some (t_temperature_c (targets rt)))
            (Some ''temperature_controller''),
          item ''pressure_mpa'' ''Pressure'' ''MPa'' (map_option s_pressure_mpa sample) (Some (t_target_pressure_mpa (targets rt))) None,
          item ''stirrer_rpm'' ''Stirrer RPM'' ''RPM'' (map_option s_stirrer_rpm sample) (Some (t_stirrer_rpm (targets rt)))
            (Some ''stirrer_motor''),
          item ''shake_speed_cpm'' ''Shake Vessel Speed'' ''CPM'' (map_option s_shake_speed_cpm sample)
            (Some (t_shake_speed_cpm (targets rt))) (Some ''shake_stepper''),
          item ''tilt_state'' ''Tilt Binary State'' ''0/1'' (map_option (\<lambda>s. f64_of_int (uint (s_tilt_state s))) sample) None
            (Some ''shake_stepper''),
          item ''tilt_angle_deg'' ''Fitted Tilt Angle'' ''deg'' (map_option s_tilt_angle_deg sample) None (Some ''shake_stepper''),
          item ''flow_rate_l_min'' ''Flow Rate'' ''L/min'' (map_option s_flow_rate_l_min sample) None None,
          item ''product_concentration_percent'' ''Product Concentration'' ''%'' (map_option s_product_concentration_percent sample)
            None None,
          item ''ph'' ''pH'' '''' (map_option s_ph sample) None None])"

section \<open>Components\<close>

record device_component_item =
  di_component :: device_component
  di_status :: string

definition component_status :: "safety_config \<Rightarrow> runtime_state \<Rightarrow> string \<Rightarrow> string" where
  "component_status safety rt cid =
     (let status = device_status rt in
      if emergency_stop rt then ''blocked''
      else if manual_lock rt then ''locked''
      else if status = None \<and> require_device_status_for_control (control safety) then ''unavailable''
      else if (case status of Some st \<Rightarrow> \<not> connected st \<or> \<not> last_frame_ok st | None \<Rightarrow> False) then ''error''
      else if Option.bind status downstream_command_fault_reason \<noteq> None then ''error''
      else if cid = ''shake_stepper'' \<and> Option.bind status ds_motor = Some 1 then ''running''
      else if cid = ''heater_relay'' \<and> Option.bind status ds_relay = Some 1 then ''on''
      else if cid = ''stirrer_motor'' \<and> (case latest_sample rt of Some s \<Rightarrow> f64_lt (lit (1 / 100)) (s_stirrer_rpm s) | None \<Rightarrow> False)
      then ''running''
      else ''idle'')"

definition component_items :: "device_component list \<Rightarrow> safety_config \<Rightarrow> runtime_state \<Rightarrow> device_component_item list" where
  "component_items capabilities safety rt =
     map (\<lambda>c. \<lparr>di_component = c, di_status = component_status safety rt (dc_component_id c)\<rparr>) capabilities"

section \<open>The device\<close>

record device_status_item =
  dv_online :: bool
  dv_status :: string
  dv_auto_enabled :: bool
  dv_manual_lock :: bool
  dv_last_seen_at :: "time option"
  dv_last_seen_age_ms :: "int option"
  dv_stale_after_ms :: int
  dv_active_batch_id :: "int option"
  dv_emergency_stop :: bool
  dv_last_sensor_error :: "string option"
  dv_last_control_error :: "string option"
  dv_unfinished_batch_ids :: "int list"
  dv_unexpected_batch_ids :: "int list"
  dv_bridge :: "device_status_snapshot option"
  dv_sensors :: "device_sensor_item list"
  dv_components :: "device_component_item list"

definition bridge_online :: "safety_config \<Rightarrow> time \<Rightarrow> runtime_state \<Rightarrow> bool" where
  "bridge_online safety now rt = (case device_status rt of
       Some st \<Rightarrow> connected st \<and> last_frame_ok st \<and> (case last_seen_at st of
           Some seen \<Rightarrow> timestamp_is_fresh now seen (sensor_timeout_ms (control safety)) | None \<Rightarrow> False)
     | None \<Rightarrow> \<not> require_device_status_for_control (control safety) \<and> (case latest_sample rt of
           Some s \<Rightarrow> timestamp_is_fresh now (s_captured_at s) (sensor_timeout_ms (control safety)) | None \<Rightarrow> False))"

definition device_state_label :: "safety_config \<Rightarrow> time \<Rightarrow> runtime_state \<Rightarrow> string" where
  "device_state_label safety now rt =
     (let status = device_status rt;
          sample_fresh = (case latest_sample rt of
            Some s \<Rightarrow> timestamp_is_fresh now (s_captured_at s) (sensor_timeout_ms (control safety)) | None \<Rightarrow> False)
      in if emergency_stop rt then ''error''
         else if (case status of Some st \<Rightarrow> \<not> connected st \<or> \<not> last_frame_ok st | None \<Rightarrow> False) then ''error''
         else if Option.bind status downstream_command_fault_reason \<noteq> None then ''error''
         else if status = None \<and> require_device_status_for_control (control safety) then ''offline''
         else if \<not> sample_fresh \<and> \<not> bridge_online safety now rt then (if latest_sample rt \<noteq> None then ''stale'' else ''offline'')
         else if last_sensor_error rt \<noteq> None then ''error''
         else if last_control_error rt \<noteq> None then ''error''
         else if active_batch_id rt \<noteq> None then ''running''
         else ''idle'')"

definition device_status_item_of ::
    "device_mode \<Rightarrow> device_component list \<Rightarrow> safety_config \<Rightarrow> time \<Rightarrow> runtime_state \<Rightarrow> device_status_item" where
  "device_status_item_of md capabilities safety now rt =
     (let sample_fresh = (case latest_sample rt of
            Some s \<Rightarrow> timestamp_is_fresh now (s_captured_at s) (sensor_timeout_ms (control safety)) | None \<Rightarrow> False);
          seen = (case Option.bind (device_status rt) last_seen_at of
            Some t \<Rightarrow> Some t | None \<Rightarrow> map_option s_captured_at (latest_sample rt))
      in \<lparr>dv_online = bridge_online safety now rt \<and> \<not> emergency_stop rt
            \<and> Option.bind (device_status rt) downstream_command_fault_reason = None,
          dv_status = device_state_label safety now rt, dv_auto_enabled = auto_enabled rt, dv_manual_lock = manual_lock rt,
          dv_last_seen_at = seen, dv_last_seen_age_ms = map_option (timestamp_age_ms now) seen,
          dv_stale_after_ms = sensor_timeout_ms (control safety), dv_active_batch_id = active_batch_id rt,
          dv_emergency_stop = emergency_stop rt, dv_last_sensor_error = last_sensor_error rt,
          dv_last_control_error = last_control_error rt, dv_unfinished_batch_ids = [], dv_unexpected_batch_ids = [],
          dv_bridge = device_status rt, dv_sensors = sensor_items md rt sample_fresh,
          dv_components = component_items capabilities safety rt\<rparr>)"

section \<open>The summary\<close>

record device_status_summary =
  su_total_count :: nat
  su_online_count :: nat
  su_devices :: "device_status_item list"

definition device_status_summary_of ::
    "device_mode \<Rightarrow> device_component list \<Rightarrow> safety_config \<Rightarrow> time \<Rightarrow> runtime_state \<Rightarrow> device_status_summary" where
  "device_status_summary_of md capabilities safety now rt =
     (let device = device_status_item_of md capabilities safety now rt
      in \<lparr>su_total_count = 1, su_online_count = (if dv_online device then 1 else 0), su_devices = [device]\<rparr>)"

definition apply_unfinished_batch_status ::
    "unfinished_batch_status \<Rightarrow> runtime_state \<Rightarrow> device_status_summary \<Rightarrow> device_status_summary" where
  "apply_unfinished_batch_status st rt summary =
     (if \<not> has_unfinished_batch st rt \<or> batch_status_is_consistent st then summary
      else
        let reason = batch_status_reason st rt in
        summary\<lparr>su_devices := map (\<lambda>d. d\<lparr>dv_online := False, dv_status := ''error'',
            dv_unfinished_batch_ids := unfinished_batch_ids st, dv_unexpected_batch_ids := unexpected_batch_ids st,
            dv_last_control_error := Some (case dv_last_control_error d of Some e \<Rightarrow> e @ ''; '' @ reason | None \<Rightarrow> reason)\<rparr>)
            (su_devices summary),
          su_online_count := 0\<rparr>)"

definition device_status_summary_with_batch_status ::
    "device_mode \<Rightarrow> device_component list \<Rightarrow> safety_config \<Rightarrow> time \<Rightarrow> runtime_state \<Rightarrow> unfinished_batch_status \<Rightarrow> device_status_summary" where
  "device_status_summary_with_batch_status md capabilities safety now rt st =
     apply_unfinished_batch_status st rt (device_status_summary_of md capabilities safety now rt)"

section \<open>What online means\<close>

text \<open>The device counts as online exactly when the interlock has no objection to its status: with a reported status, when it
  is healthy and reports no failed command; without one, when none is required and the sample is fresh; never under
  an emergency stop or with inconsistent batches.\<close>

lemma recovery_implies_unfinished:
  "recovery_required (unfinished_batch_status_from_batches batches rt)
     \<Longrightarrow> has_unfinished_batch (unfinished_batch_status_from_batches batches rt) rt"
  by (auto simp: recovery_required_def batch_status_is_consistent_def has_unfinished_batch_def unfinished_batch_status_from_batches_def
      split: option.splits)

lemma command_fault_SomeD: "downstream_command_fault_reason st = Some reason \<Longrightarrow> last_command_ok st = Some False"
  using command_fault_None_iff [of st] by auto

lemma online_count_iff:
  "0 < su_online_count (device_status_summary_with_batch_status md capabilities safety now rt (unfinished_batch_status_from_batches batches rt))
     \<longleftrightarrow> \<not> emergency_stop rt \<and> \<not> recovery_required (unfinished_batch_status_from_batches batches rt)
       \<and> (case device_status rt of
            Some st \<Rightarrow> healthy_status now (sensor_timeout_ms (control safety)) st \<and> last_command_ok st \<noteq> Some False
          | None \<Rightarrow> \<not> require_device_status_for_control (control safety)
              \<and> (\<exists>s. latest_sample rt = Some s \<and> timestamp_is_fresh now (s_captured_at s) (sensor_timeout_ms (control safety))))"
  using recovery_implies_unfinished [of batches rt]
  by (auto simp: device_status_summary_with_batch_status_def apply_unfinished_batch_status_def device_status_summary_of_def
      device_status_item_of_def bridge_online_def healthy_status_def command_fault_None_iff recovery_required_def Let_def
      split: option.splits dest: command_fault_SomeD)

text \<open>The reported state of the device agrees with the interlock: the summary counts the device as online exactly when the check that
  guards risk-increasing requests finds the device status healthy (and, without a reported status, the sample
  fresh), no emergency stop is engaged and the batches in the database agree with the runtime.\<close>

theorem online_agrees_with_interlock:
  "0 < su_online_count (device_status_summary_with_batch_status md capabilities safety now rt (unfinished_batch_status_from_batches batches rt))
     \<longleftrightarrow> \<not> emergency_stop rt \<and> \<not> recovery_required (unfinished_batch_status_from_batches batches rt)
       \<and> is_ok (ensure_proven_healthy_device_status safety now rt action)
       \<and> (device_status rt = None \<longrightarrow> (\<exists>s. latest_sample rt = Some s \<and> timestamp_is_fresh now (s_captured_at s) (sensor_timeout_ms (control safety))))"
  unfolding online_count_iff
  by (auto simp: ensure_proven_healthy_device_status_def field_fault_None_iff [symmetric] command_fault_None_iff [symmetric]
      split: option.splits)

theorem online_agrees_with_interlock_witness:
  "\<not> 0 < su_online_count (device_status_summary_with_batch_status Modbus modbus_capabilities shipped_safety 0
       ((from_safety shipped_safety)\<lparr>emergency_stop := True\<rparr>)
       (unfinished_batch_status_from_batches [] ((from_safety shipped_safety)\<lparr>emergency_stop := True\<rparr>)))"
  using online_agrees_with_interlock [of Modbus modbus_capabilities shipped_safety 0
    "(from_safety shipped_safety)\<lparr>emergency_stop := True\<rparr>" "[]" "[]"] by simp

end
