(* ===== verification/Ai_Control.thy ===== *)
theory Ai_Control
  imports Production_Basis Device_Status
begin

text \<open>
  The AI master control of \<open>api.rs\<close> (\<open>ai_control\<close>): one request evaluates the safety state, takes the stored or a new
  recommendation, and plans or executes a change of the targets, the start of a process, its stop, and the start or stop of
  the shaker. With \<open>dry_run\<close>, the default, nothing is executed. The steps of the function are definitions of their own,
  in its order; the JSON value that an action keeps of the answer is left out.
\<close>

section \<open>Requests and answers\<close>

record ai_control_request =
  rq_intent :: "string option"
  rq_mode :: "string option"
  rq_dry_run :: "bool option option"
  rq_allow_process_start :: "bool option option"
  rq_allow_process_stop :: "bool option option"
  rq_allow_component_control :: "bool option option"
  rq_allow_target_adjustment :: "bool option option"
  rq_preferred_process_id :: "int option option"

record ai_control_safety =
  as_sensor_is_fresh :: bool
  as_emergency :: bool
  as_locked :: bool
  as_device_online :: bool
  as_active_batch :: "int option"
  as_batch_recovery_required :: bool
  as_unfinished_batch_ids :: "int list"
  as_unexpected_batch_ids :: "int list"
  as_high_alarm_count :: nat
  as_warning_alarm_count :: nat
  as_stop_concentration :: f64

record ai_control_action =
  aa_type :: string
  aa_target :: string
  aa_status :: string
  aa_message :: string

record ai_control_response =
  ar_dry_run :: bool
  ar_decision :: string
  ar_rationale :: string
  ar_recommended_targets :: "control_targets option"
  ar_safety :: ai_control_safety
  ar_actions :: "ai_control_action list"

record process_definition =
  pd_id :: int
  pd_name :: string
  pd_status :: string
  pd_step_count :: int

text \<open>The parts of the application state that no other handler has: the memory, the model provider, the device, the
  database's recommendations and process list, and the JSON rendering of the audit reason.\<close>

record ai_env =
  ae_memory :: ai_memory
  ae_provider :: "ai_provider_config option"
  ae_device_mode :: device_mode
  ae_capabilities :: "device_component list"
  ae_write :: component_writer
  ae_latest :: "nat \<Rightarrow> anyhow + recommendation_result option"
  ae_generate :: generator
  ae_processes :: "nat \<Rightarrow> anyhow + process_definition list"
  ae_render :: "string \<Rightarrow> string \<Rightarrow> (string \<times> string \<times> string) list \<Rightarrow> string"

section \<open>The safety state\<close>

definition live_alarms_for :: "ai_memory \<Rightarrow> runtime_state \<Rightarrow> sensor_snapshot option \<Rightarrow> alarm list handler" where
  "live_alarms_for memory rt sample =
     hbind safety_of (\<lambda>safety.
     hbind (db_call (\<lambda>env t. (a_unfinished env t, a_clock env t))) (\<lambda>(queried, now).
     hbind (hany queried) (\<lambda>batches.
     hreturn (live_alarms_for_with_batch_status safety now rt sample memory (unfinished_batch_status_from_batches batches rt)))))"

definition device_status_summary_with_db :: "ai_env \<Rightarrow> runtime_state \<Rightarrow> device_status_summary handler" where
  "device_status_summary_with_db ae rt =
     hbind safety_of (\<lambda>safety.
     hbind (db_call (\<lambda>env t. (a_unfinished env t, a_clock env t))) (\<lambda>(queried, now).
     hbind (hany queried) (\<lambda>batches.
     hreturn (device_status_summary_with_batch_status (ae_device_mode ae) (ae_capabilities ae) safety now rt
       (unfinished_batch_status_from_batches batches rt)))))"

definition ai_control_safety_of :: "ai_env \<Rightarrow> runtime_state \<Rightarrow> ai_control_safety handler" where
  "ai_control_safety_of ae rt =
     hbind (db_call (\<lambda>env t. a_unfinished env t)) (\<lambda>queried.
     hbind (hany queried) (\<lambda>batches.
     let st = unfinished_batch_status_from_batches batches rt in
     hbind (live_alarms_for (ae_memory ae) rt (latest_sample rt)) (\<lambda>alarms.
     hbind (device_status_summary_with_db ae rt) (\<lambda>summary.
     hbind (hattempt (check_snapshot (\<lambda>safety now unf. ensure_fresh_sample safety now rt))) (\<lambda>fresh.
     hbind safety_of (\<lambda>safety.
     hreturn \<lparr>as_sensor_is_fresh = is_ok fresh, as_emergency = emergency_stop rt, as_locked = manual_lock rt,
       as_device_online = (0 < su_online_count summary), as_active_batch = active_batch_id rt,
       as_batch_recovery_required = recovery_required st, as_unfinished_batch_ids = unfinished_batch_ids st,
       as_unexpected_batch_ids = unexpected_batch_ids st, as_high_alarm_count = length (high_alarms alarms),
       as_warning_alarm_count = length (filter (\<lambda>a. al_level a = ''medium'') alarms),
       as_stop_concentration = ai_stop_product_concentration_percent (control safety)\<rparr>))))))"

definition disable_auto_control :: "unit handler" where
  "disable_auto_control = with_lock (\<lambda>env now unf rt. (Ok (), rt\<lparr>auto_enabled := False\<rparr>))"

text \<open>From the first reading of the runtime state to the device check.\<close>

definition ai_preflight :: "ai_env \<Rightarrow> bool \<Rightarrow> (runtime_state \<times> ai_control_safety) handler" where
  "ai_preflight ae dry_run =
     hbind (read_lock (\<lambda>rt. rt)) (\<lambda>rt.
     hbind (hattempt (check_snapshot (\<lambda>safety now unf. ensure_fresh_sample safety now rt))) (\<lambda>fresh. case fresh of
       Inl err \<Rightarrow> if \<not> dry_run then hbind disable_auto_control (\<lambda>_. hfail err) else hfail err
     | Inr _ \<Rightarrow>
     hbind (ai_control_safety_of ae rt) (\<lambda>safety.
     if as_emergency safety then hfail (conflict ''emergency stop is active; AI master control blocked'')
     else if as_locked safety then hfail (conflict ''manual lock is active; AI master control blocked'')
     else if \<not> as_device_online safety \<and> \<not> dry_run
     then hbind disable_auto_control (\<lambda>_.
       hfail (service_unavailable ''device is offline or unhealthy; AI master control blocked''))
     else hreturn (rt, safety))))"

definition process_start_block_reason :: "bool \<Rightarrow> runtime_state \<Rightarrow> ai_control_safety \<Rightarrow> string option handler" where
  "process_start_block_reason allow_process_start rt safety =
     (let unfinished_reason = (\<lambda>b. ''database still has unfinished batch '' @ show_int b
            @ ''; AI process start blocked until production state is closed'')
      in if allow_process_start \<and> active_batch_id rt = None then
           (if as_batch_recovery_required safety then
              hreturn (Some (case as_unfinished_batch_ids safety of
                b # _ \<Rightarrow> unfinished_reason b
              | [] \<Rightarrow> ''runtime active batch is not backed by an unfinished database record; AI process start blocked until production state is repaired''))
            else if \<not> as_device_online safety then
              hreturn (Some ''device is offline or unhealthy; AI process start blocked'')
            else if 0 < as_high_alarm_count safety then
              hreturn (Some ''high level alarm is active; AI process start blocked'')
            else
              hbind (db_call (\<lambda>env t. a_unfinished env t)) (\<lambda>queried.
              hbind (hany queried) (\<lambda>batches.
              hreturn (case batches of b # _ \<Rightarrow> Some (unfinished_reason (batch_id b)) | [] \<Rightarrow> None))))
         else hreturn None)"

section \<open>The recommendation\<close>

definition ai_recommendation :: "ai_env \<Rightarrow> bool \<Rightarrow> bool \<Rightarrow> audit_actor \<Rightarrow> recommendation_result option handler" where
  "ai_recommendation ae dry_run allow_target_adjustment actor =
     hbind (db_call (\<lambda>env t. ae_latest ae t)) (\<lambda>queried.
     hbind (hany queried) (\<lambda>stored.
     let usable = Option.bind stored (\<lambda>r. if provider_allows_recommendation (ae_provider ae) r \<and> 0 < based_on_batch_count r
           then Some r else None) in
     case usable of
       Some r \<Rightarrow> hreturn (Some r)
     | None \<Rightarrow>
         if allow_target_adjustment then
           hbind (generated (ae_generate ae)) (\<lambda>r.
           hbind (if \<not> dry_run
             then hbind (insert_recommendation_with_audit r ''ai_master_recommendation_generated''
               ''AI master control generated a recommendation before applying targets'' actor) hany
             else hreturn ()) (\<lambda>_.
           hreturn (Some r)))
         else hreturn None))"

definition validate_ai_recommendation_targets :: "safety_config \<Rightarrow> control_targets \<Rightarrow> app_error + control_targets" where
  "validate_ai_recommendation_targets safety tg =
     bind_res (run_checks
       [map_err (with_message_prefix ''ai_target_temperature_c'') (validate_target_temperature safety (t_temperature_c tg)),
        map_err (with_message_prefix ''ai_target_stirrer_rpm'') (validate_stir_speed safety (t_stirrer_rpm tg)),
        api_validate_range ''ai_heat_time_s'' (t_heat_time_s tg) (lit 0) (f64_mul (ob_max_heating_minutes (optimizer safety)) (lit 60)),
        api_validate_range ''ai_hold_time_s'' (t_hold_time_s tg) (lit 0) (f64_mul (ob_max_stirring_minutes (optimizer safety)) (lit 60)),
        api_validate_range ''ai_cool_time_s'' (t_cool_time_s tg) (lit 0) (lit 3600),
        api_validate_range ''ai_shake_speed_cpm'' (t_shake_speed_cpm tg) (lit 0) (lit 60),
        api_validate_range ''target_pressure_mpa'' (t_target_pressure_mpa tg) (lit 0) (lit 10)])
     (\<lambda>_. Ok (round_targets tg))"

definition ai_targets_from_recommendation ::
    "safety_config \<Rightarrow> runtime_state \<Rightarrow> recommendation_result \<Rightarrow> app_error + control_targets" where
  "ai_targets_from_recommendation safety rt r =
     validate_ai_recommendation_targets safety
       \<lparr>t_temperature_c = r_temperature_c r, t_heat_time_s = f64_mul (r_heating_minutes r) (lit 60),
        t_hold_time_s = f64_mul (r_stirring_minutes r) (lit 60), t_cool_time_s = t_cool_time_s (targets rt),
        t_stirrer_rpm = r_stirrer_rpm r, t_shake_speed_cpm = t_shake_speed_cpm (targets rt),
        t_target_pressure_mpa = t_target_pressure_mpa (targets rt)\<rparr>"

definition targets_differ :: "control_targets \<Rightarrow> control_targets \<Rightarrow> bool" where
  "targets_differ current next =
     (let differ = (\<lambda>field. f64_lt (lit (1 / 100)) (f64_abs (f64_sub (field current) (field next))))
      in list_ex differ [t_temperature_c, t_heat_time_s, t_hold_time_s, t_cool_time_s, t_stirrer_rpm, t_shake_speed_cpm,
           t_target_pressure_mpa])"

section \<open>Actions\<close>

definition apply_ai_targets :: "control_targets \<Rightarrow> string \<Rightarrow> audit_actor \<Rightarrow> unit handler" where
  "apply_ai_targets tg reason actor =
     hbind (read_lock targets) (\<lambda>expected_current.
     hbind (with_lock (\<lambda>env now unf rt.
       let rt1 = rt\<lparr>auto_enabled := False\<rparr> in
       (bind_res (ensure_target_update_interlock_clear (a_safety env) now rt1 DesiredTargets) (\<lambda>_. Ok (latches_from_runtime rt1)), rt1)))
       (\<lambda>acknowledged.
     hbind safety_of (\<lambda>safety.
     hbind (hresult (ensure_targets_allowed safety tg)) (\<lambda>_.
     let command = safe_command_from_runtime_targets tg reason in
     hbind (insert_event actor None ''ai_targets_updated'' (Some command) reason) (\<lambda>audited.
     hbind (hany audited) (\<lambda>_.
     hbind (device_write command) (\<lambda>written. case written of
       Inl err \<Rightarrow>
         hbind (latch_control_write_fault err) (\<lambda>_.
         hfail (service_unavailable (''AI target write to device failed: '' @ err_display err)))
     | Inr _ \<Rightarrow>
         hbind (hattempt (commit_targets_after_final_interlock tg DesiredTargets (Some expected_current) (Some acknowledged)))
           (\<lambda>committed. case committed of
              Inl err \<Rightarrow>
                hbind (latch_tail_failure_after_device_action ''AI target final interlock'' (err_message err)) (\<lambda>_.
                hfail err)
            | Inr _ \<Rightarrow> hreturn ()))))))))"

definition select_ai_process :: "ai_env \<Rightarrow> int option \<Rightarrow> (int \<times> string) option handler" where
  "select_ai_process ae preferred_process_id = (case preferred_process_id of
       Some pid \<Rightarrow>
         hbind process_detail_or_bad_request (\<lambda>found. case found of
           None \<Rightarrow> hfail (not_found ''preferred process not found'')
         | Some detail \<Rightarrow>
             if process_steps detail = [] then hfail (bad_request ''preferred process must contain at least one step'')
             else hreturn (Some (pid, process_name detail)))
     | None \<Rightarrow>
         hbind (db_call (\<lambda>env t. ae_processes ae t)) (\<lambda>queried.
         hbind (hany queried) (\<lambda>processes.
         hreturn (map_option (\<lambda>p. (pd_id p, pd_name p))
           (case find (\<lambda>p. 0 < pd_step_count p \<and> pd_status p = ''applied'') processes of
              Some p \<Rightarrow> Some p
            | None \<Rightarrow> find (\<lambda>p. 0 < pd_step_count p) processes)))))"

definition should_ai_stop_process :: "sensor_snapshot option \<Rightarrow> ai_control_safety \<Rightarrow> bool" where
  "should_ai_stop_process sample safety \<longleftrightarrow>
     (case sample of Some s \<Rightarrow> f64_le (as_stop_concentration safety) (s_product_concentration_percent s) | None \<Rightarrow> False)
     \<or> 0 < as_high_alarm_count safety \<and> as_active_batch safety \<noteq> None"

definition plan_shake_component_action ::
    "device_component list \<Rightarrow> safety_config \<Rightarrow> runtime_state \<Rightarrow> control_targets option \<Rightarrow> component_request option" where
  "plan_shake_component_action capabilities safety rt recommended =
     (if \<not> list_ex (\<lambda>i. dc_component_id (di_component i) = ''shake_stepper'' \<and> dc_controllable (di_component i))
          (component_items capabilities safety rt)
      then None
      else
        let target_shake_speed = (case recommended of Some tg \<Rightarrow> t_shake_speed_cpm tg | None \<Rightarrow> t_shake_speed_cpm (targets rt));
            motor_running = (case Option.bind (device_status rt) ds_motor of
              Some motor \<Rightarrow> motor = 1
            | None \<Rightarrow> (case latest_sample rt of Some s \<Rightarrow> f64_lt (lit (1 / 100)) (s_shake_speed_cpm s) | None \<Rightarrow> False))
        in if f64_lt (lit (1 / 100)) target_shake_speed \<and> \<not> motor_running
           then Some \<lparr>cr_action = ''start'', cr_value = None, cr_reason = Some (Some ''AI master control started shake vessel stepper'')\<rparr>
           else if f64_le target_shake_speed (lit (1 / 100)) \<and> motor_running
           then Some \<lparr>cr_action = ''stop'', cr_value = None, cr_reason = Some (Some ''AI master control stopped shake vessel stepper'')\<rparr>
           else None)"

definition action_status :: "bool \<Rightarrow> string" where
  "action_status dry_run = (if dry_run then ''planned'' else ''executed'')"

text \<open>The decision so far and the list of actions.\<close>

type_synonym ai_plan = "string \<times> ai_control_action list"

definition adjust_targets ::
    "bool \<Rightarrow> bool \<Rightarrow> audit_actor \<Rightarrow> runtime_state \<Rightarrow> control_targets option \<Rightarrow> ai_plan handler" where
  "adjust_targets dry_run allow_target_adjustment actor rt recommended = (case recommended of
       Some tg \<Rightarrow>
         if allow_target_adjustment \<and> targets_differ (targets rt) tg then
           (let plan = (''adjust_targets'', [\<lparr>aa_type = ''target_adjustment'', aa_target = ''/api/v1/reactor/reactor_001/control'',
                  aa_status = action_status dry_run, aa_message = ''apply latest AI batch recommendation to safe runtime targets''\<rparr>])
            in if dry_run then hreturn plan
               else hbind (apply_ai_targets tg ''AI master control adjusted targets'' actor) (\<lambda>_. hreturn plan))
         else hreturn (''hold'', [])
     | None \<Rightarrow>
         if allow_target_adjustment then
           hreturn (''hold'', [\<lparr>aa_type = ''target_adjustment'', aa_target = ''/api/recommendations/latest'', aa_status = ''skipped'',
             aa_message = ''no persisted recommendation yet; waiting for finished batch outcomes''\<rparr>])
         else hreturn (''hold'', []))"

definition start_selected_process ::
    "bool \<Rightarrow> bool \<Rightarrow> audit_actor \<Rightarrow> runtime_state \<Rightarrow> string option \<Rightarrow> (int \<times> string) option \<Rightarrow> ai_plan \<Rightarrow> ai_plan handler" where
  "start_selected_process dry_run allow_process_start actor rt block_reason selected plan =
     (case plan of (decision, actions) \<Rightarrow>
       if active_batch_id rt = None \<and> allow_process_start \<and> block_reason = None then
         (case selected of
            Some (pid, name) \<Rightarrow>
              (let plan1 = (if decision = ''adjust_targets'' then ''adjust_targets_and_start_process'' else ''start_process'',
                    actions @ [\<lparr>aa_type = ''process_start'', aa_target = ''/api/processes/'' @ show_int pid @ ''/start'',
                      aa_status = action_status dry_run,
                      aa_message = ''AI selected runnable process '' @ [CHR 0x27] @ name @ [CHR 0x27]\<rparr>])
               in if dry_run then hreturn plan1
                  else hbind (start_process_lifecycle pid ''ai_process_started'' None actor) (\<lambda>_. hreturn plan1))
          | None \<Rightarrow> hreturn (decision, actions @ [\<lparr>aa_type = ''process_start'', aa_target = ''/api/processes/:id/start'',
              aa_status = ''skipped'', aa_message = ''no runnable process definition with at least one step''\<rparr>]))
       else case block_reason of
         Some reason \<Rightarrow> hreturn (decision, actions @ [\<lparr>aa_type = ''process_start'', aa_target = ''/api/processes/:id/start'',
           aa_status = ''blocked'', aa_message = reason\<rparr>])
       | None \<Rightarrow> hreturn (decision, actions))"

definition runtime_after_process :: "bool \<Rightarrow> runtime_state \<Rightarrow> ai_control_action list \<Rightarrow> runtime_state handler" where
  "runtime_after_process dry_run rt actions =
     (if dry_run then
        hreturn (if list_ex (\<lambda>a. aa_type a = ''process_start'' \<and> aa_status a = ''planned'') actions
                 then rt\<lparr>active_batch_id := Some (- 1)\<rparr> else rt)
      else read_lock (\<lambda>rt. rt))"

definition control_running_process ::
    "ai_env \<Rightarrow> bool \<Rightarrow> bool \<Rightarrow> bool \<Rightarrow> audit_actor \<Rightarrow> ai_control_safety \<Rightarrow> control_targets option \<Rightarrow> runtime_state \<Rightarrow> ai_plan
     \<Rightarrow> ai_plan handler" where
  "control_running_process ae dry_run allow_process_stop allow_component_control actor safety recommended rt plan =
     (case plan of (decision, actions) \<Rightarrow>
       if active_batch_id rt = None then hreturn plan
       else if allow_process_stop \<and> should_ai_stop_process (latest_sample rt) safety then
         (let plan1 = (''stop_process'', actions @ [\<lparr>aa_type = ''process_stop'', aa_target = ''/api/processes/current/stop'',
                aa_status = action_status dry_run, aa_message = ''AI stop condition met from live concentration or alarm state''\<rparr>])
          in if dry_run then hreturn plan1
             else hbind (stop_process_lifecycle None ''ai_process_stopped'' None actor) (\<lambda>_. hreturn plan1))
       else if allow_component_control then
         hbind safety_of (\<lambda>config.
         hbind (read_lock (\<lambda>rt. rt)) (\<lambda>component_runtime.
         case plan_shake_component_action (ae_capabilities ae) config component_runtime recommended of
           None \<Rightarrow> hreturn plan
         | Some request \<Rightarrow>
             let plan1 = (if decision = ''hold'' then ''control_shake_vessel''
                    else if \<not> sublist ''shake'' decision then decision @ ''_and_control_shake'' else decision,
                  actions @ [\<lparr>aa_type = ''component_control'',
                    aa_target = ''/api/devices/reactor_001/components/shake_stepper/control:'' @ cr_action request,
                    aa_status = action_status dry_run,
                    aa_message = ''AI controls shake vessel stepper through component safety gate''\<rparr>])
             in if dry_run then hreturn plan1
                else hbind (execute_component_control (ae_capabilities ae) (ae_write ae) ''reactor_001'' ''shake_stepper'' request
                  ''ai_component_control'' actor) (\<lambda>_. hreturn plan1)))
       else hreturn plan)"

section \<open>The audit row of the decision\<close>

definition ai_actions_include_executed_device_action :: "ai_control_action list \<Rightarrow> bool" where
  "ai_actions_include_executed_device_action actions =
     list_ex (\<lambda>a. aa_status a = ''executed''
       \<and> aa_type a \<in> {''target_adjustment'', ''process_start'', ''process_stop'', ''component_control''}) actions"

definition ai_control_audit_reason :: "ai_env \<Rightarrow> string \<Rightarrow> string \<Rightarrow> ai_control_action list \<Rightarrow> string" where
  "ai_control_audit_reason ae decision why actions =
     ae_render ae (clean_label (Some decision) ''hold'' 120) (clean_label (Some why) ''AI master control decision'' 480)
       (map (\<lambda>a. (clean_label (Some (aa_type a)) ''unknown'' 80, clean_label (Some (aa_target a)) ''unknown'' 160,
          clean_label (Some (aa_status a)) ''unknown'' 40)) actions)"

definition audit_decision ::
    "ai_env \<Rightarrow> audit_actor \<Rightarrow> control_targets option \<Rightarrow> string \<Rightarrow> string \<Rightarrow> ai_control_action list \<Rightarrow> unit handler" where
  "audit_decision ae actor recommended decision why actions =
     hbind (read_lock active_batch_id) (\<lambda>active.
     hbind (insert_event actor active ''ai_master_decision''
         (map_option (\<lambda>tg. safe_command_from_runtime_targets tg ''AI master decision'') recommended)
         (ai_control_audit_reason ae decision why actions)) (\<lambda>audited. case audited of
       Inl err \<Rightarrow>
         if ai_actions_include_executed_device_action actions
         then hbind (latch_tail_failure_after_device_action ''AI master decision audit'' (err_alternate err)) (\<lambda>_. hfail internal_error)
         else hfail internal_error
     | Inr _ \<Rightarrow> hreturn ()))"

section \<open>The request\<close>

definition requested_intent :: "ai_control_request \<Rightarrow> string" where
  "requested_intent p = (case rq_intent p of Some i \<Rightarrow> i | None \<Rightarrow> unwrap_or (rq_mode p) ''optimize_and_control'')"

definition ai_rationale :: "ai_control_request \<Rightarrow> string" where
  "ai_rationale p = ''AI master-control intent '' @ [CHR 0x27] @ requested_intent p @ [CHR 0x27]
     @ '' evaluated with live pipeline data and safety interlocks''"

definition ai_act ::
    "ai_env \<Rightarrow> bool \<Rightarrow> bool \<Rightarrow> bool \<Rightarrow> bool \<Rightarrow> bool \<Rightarrow> int option \<Rightarrow> audit_actor \<Rightarrow> string \<Rightarrow> runtime_state \<Rightarrow> ai_control_safety
     \<Rightarrow> ai_control_response handler" where
  "ai_act ae dry_run allow_process_start allow_process_stop allow_component_control allow_target_adjustment preferred actor why rt safety =
     hbind (process_start_block_reason allow_process_start rt safety) (\<lambda>block_reason.
     hbind (ai_recommendation ae dry_run allow_target_adjustment actor) (\<lambda>found.
     hbind safety_of (\<lambda>config.
     hbind (hresult (case found of None \<Rightarrow> Ok None
       | Some r \<Rightarrow> bind_res (ai_targets_from_recommendation config rt r) (\<lambda>tg. Ok (Some tg)))) (\<lambda>recommended.
     hbind (adjust_targets dry_run allow_target_adjustment actor rt recommended) (\<lambda>plan1.
     hbind (select_ai_process ae preferred) (\<lambda>selected.
     hbind (start_selected_process dry_run allow_process_start actor rt block_reason selected plan1) (\<lambda>plan2.
     hbind (runtime_after_process dry_run rt (snd plan2)) (\<lambda>after.
     hbind (control_running_process ae dry_run allow_process_stop allow_component_control actor safety recommended after plan2) (\<lambda>plan3.
     let decision = (if list_ex (\<lambda>a. aa_status a = ''blocked'') (snd plan3) then ''hold'' else fst plan3);
         text = (if snd plan3 = [] then why @ ''; no control action was necessary'' else why);
         actions = (if snd plan3 = [] then [\<lparr>aa_type = ''hold'', aa_target = ''safety_supervisor'', aa_status = ''skipped'',
           aa_message = ''system is already within AI target envelope or no allowed action is available''\<rparr>] else snd plan3)
     in hbind (if dry_run then hreturn () else audit_decision ae actor recommended decision text actions) (\<lambda>_.
     hreturn \<lparr>ar_dry_run = dry_run, ar_decision = decision, ar_rationale = text, ar_recommended_targets = recommended,
       ar_safety = safety, ar_actions = actions\<rparr>))))))))))"

definition ai_control :: "ai_env \<Rightarrow> session \<Rightarrow> ai_control_request \<Rightarrow> ai_control_response handler" where
  "ai_control ae session p =
     hbind (hresult (session ApplyAiSuggestion)) (\<lambda>user.
     hbind (hresult (optional_present_bool (rq_dry_run p) ''dry_run'')) (\<lambda>dry.
     hbind (hresult (optional_present_bool (rq_allow_process_start p) ''allow_process_start'')) (\<lambda>start.
     hbind (hresult (optional_present_bool (rq_allow_process_stop p) ''allow_process_stop'')) (\<lambda>stop.
     hbind (hresult (optional_present_bool (rq_allow_component_control p) ''allow_component_control'')) (\<lambda>component.
     hbind (hresult (optional_present_bool (rq_allow_target_adjustment p) ''allow_target_adjustment'')) (\<lambda>adjust.
     hbind (hresult (optional_present_i64 (rq_preferred_process_id p) ''preferred_process_id'')) (\<lambda>preferred.
     hbind (ai_preflight ae (unwrap_or dry True)) (\<lambda>(rt, safety).
     ai_act ae (unwrap_or dry True) (unwrap_or start True) (unwrap_or stop True) (unwrap_or component True) (unwrap_or adjust True)
       preferred (audit_actor_for_user user) (ai_rationale p) rt safety))))))))"

section \<open>A dry run does nothing\<close>

text \<open>A handler that leaves no trace: no row, no event, no device write, and no change of the runtime state of its own.\<close>

definition harmless :: "'a handler \<Rightarrow> bool" where
  "harmless h \<longleftrightarrow> silent h \<and> (\<forall>P. keeps P h)"

named_theorems harmless_intros \<open>composition of handlers that leave no trace\<close>

lemma harmless_steps [harmless_intros]:
  "harmless (hreturn x)" "harmless (hresult r)" "harmless (hfail e)" "harmless (hany a)" "harmless (hpanic y)" "harmless (db_call f)"
  "harmless safety_of" "harmless (check_snapshot g)" "harmless (read_lock l)"
  by (auto simp: harmless_def silent_def hreturn_def hresult_def hfail_def hany_def hpanic_def db_call_def safety_of_def
      check_snapshot_def read_lock_def with_lock_def keeps_def api_rely_def Let_def split: prod.splits)

lemma harmless_bind [harmless_intros]:
  assumes "harmless h" "\<And>a. harmless (k a)"
  shows "harmless (hbind h k)"
proof -
  have "silent h" "\<And>a. silent (k a)" using assms by (simp_all add: harmless_def)
  then have "silent (hbind h k)" unfolding silent_def hbind_Some_iff by metis
  then show ?thesis using assms by (auto simp: harmless_def intro: keeps_bind)
qed

lemma harmless_attempt [harmless_intros]: "harmless h \<Longrightarrow> harmless (hattempt h)"
  using keeps_attempt [of _ h] by (auto simp: harmless_def silent_def hattempt_def)

lemma harmless_cases [harmless_intros]:
  "(b \<Longrightarrow> harmless h) \<Longrightarrow> (\<not> b \<Longrightarrow> harmless g) \<Longrightarrow> harmless (if b then h else g)"
  "harmless h' \<Longrightarrow> (\<And>x. harmless (k x)) \<Longrightarrow> harmless (case y of None \<Rightarrow> h' | Some x \<Rightarrow> k x)"
  "(\<And>e. harmless (f e)) \<Longrightarrow> (\<And>x. harmless (g' x)) \<Longrightarrow> harmless (case z of Inl e \<Rightarrow> f e | Inr x \<Rightarrow> g' x)"
  "(\<And>u v. harmless (q u v)) \<Longrightarrow> harmless (case p of (u, v) \<Rightarrow> q u v)"
  by (auto split: option.splits sum.splits prod.splits)

lemma harmless_parts [harmless_intros]:
  "harmless (ai_control_safety_of ae rt)" "harmless (process_start_block_reason allow rt safety)" "harmless (generated gen)"
  "harmless process_detail_or_bad_request" "harmless (select_ai_process ae preferred)"
  unfolding ai_control_safety_of_def live_alarms_for_def device_status_summary_with_db_def process_start_block_reason_def generated_def
    process_detail_or_bad_request_def select_ai_process_def Let_def
  by (intro harmless_intros)+

lemma harmless_plans [harmless_intros]:
  "harmless (ai_preflight ae True)" "harmless (ai_recommendation ae True allow actor)" "harmless (adjust_targets True allow actor rt tg)"
  "harmless (start_selected_process True allow actor rt reason selected plan)" "harmless (runtime_after_process True rt actions)"
  "harmless (control_running_process ae True halt component actor safety tg rt plan)"
  unfolding ai_preflight_def ai_recommendation_def adjust_targets_def start_selected_process_def runtime_after_process_def
    control_running_process_def Let_def if_True simp_thms
  by (intro harmless_intros; simp)+

lemma harmless_act: "harmless (ai_act ae True start halt component adjust preferred actor why rt safety)"
  unfolding ai_act_def Let_def if_True by (intro harmless_intros)

definition is_dry_run :: "ai_control_request \<Rightarrow> bool" where
  "is_dry_run p \<longleftrightarrow> rq_dry_run p = None \<or> rq_dry_run p = Some (Some True)"

lemma dry_run_cases:
  obtains "is_dry_run p" "optional_present_bool (rq_dry_run p) field = Ok (if rq_dry_run p = None then None else Some True)"
  | "rq_dry_run p = Some (Some False)" "\<not> is_dry_run p" | e where "optional_present_bool (rq_dry_run p) field = Err e" "\<not> is_dry_run p"
  by (cases "rq_dry_run p"; cases "the (rq_dry_run p)"; cases "the (the (rq_dry_run p))") (auto simp: is_dry_run_def)

lemma harmless_control: "is_dry_run p \<Longrightarrow> harmless (ai_control ae session p)"
  unfolding ai_control_def is_dry_run_def
  by (elim disjE; simp add: hbind_checked) (intro harmless_intros harmless_act; simp)+

text \<open>C19: A dry run of the AI master control, which is what a request without the field \<open>dry_run\<close> asks for, does nothing: whatever the
  recommendation, the alarms, the database and the other tasks do, it writes nothing to the device, adds no row and no audit
  event, and changes no bit of the runtime state; every predicate that the other tasks keep is kept.\<close>

theorem ai_dry_run_harmless:
  assumes "rq_dry_run p = None \<or> rq_dry_run p = Some (Some True)" "ai_control ae session p env s = Some (r, s')"
  shows "h_writes s' = h_writes s \<and> h_db s' = h_db s \<and> h_events s' = h_events s
     \<and> (\<forall>P. api_rely P env \<longrightarrow> P (h_rt s) \<longrightarrow> P (h_rt s'))"
proof -
  have "harmless (ai_control ae session p)" using assms(1) by (intro harmless_control) (simp add: is_dry_run_def)
  then show ?thesis using assms(2) unfolding harmless_def silent_def keeps_def by blast
qed

section \<open>The targets of a recommendation\<close>

lemma ai_write_fails_faulted:
  "fails_faulted (hbind (device_write command) (\<lambda>written. case written of
       Inl err \<Rightarrow>
         hbind (latch_control_write_fault err) (\<lambda>_.
         hfail (service_unavailable (''AI target write to device failed: '' @ err_display err)))
     | Inr _ \<Rightarrow>
         hbind (hattempt (commit_targets_after_final_interlock tg DesiredTargets (Some expected) (Some acknowledged)))
           (\<lambda>committed. case committed of
              Inl err \<Rightarrow>
                hbind (latch_tail_failure_after_device_action ''AI target final interlock'' (err_message err)) (\<lambda>_.
                hfail err)
            | Inr _ \<Rightarrow> hreturn ())))"
  by (intro fault_intros)

lemma apply_ai_closed: "device_fails_closed (apply_ai_targets tg reason actor)"
  unfolding apply_ai_targets_def Let_def
  by (intro device_fails_closed_bind [OF no_writes_more(2)] device_fails_closed_bind [OF no_writes_intros(10)]
      device_fails_closed_bind [OF no_writes_intros(4)] device_fails_closed_bind [OF no_writes_intros(3)]
      device_fails_closed_bind [OF no_writes_events] device_fails_closed_bind [OF no_writes_intros(9)]
      device_fails_closed_weaken(1) ai_write_fails_faulted)


lemma run_ai_audit:
  "hbind (insert_event actor b ty c r) (\<lambda>audited. hbind (hany audited) k) env s = Some (Ok x, s') \<longleftrightarrow>
     a_audit env (h_tick s) = Ok () \<and> k () env (s\<lparr>h_tick := h_tick s + 1, h_events := h_events s @
        [\<lparr>ev_actor = actor, ev_batch = b, ev_type = ty, ev_command = c, ev_reason = r\<rparr>]\<rparr>) = Some (Ok x, s')"
  by (cases "a_audit env (h_tick s)") (auto simp: hbind_Ok_iff run_insert_event run_primitives)

lemma run_guarded:
  fixes h :: "unit handler"
  shows "hbind (hattempt h) (\<lambda>r. case r of Inl e \<Rightarrow> hbind (f e) (\<lambda>_. hfail (g e)) | Inr u \<Rightarrow> hreturn u) env s
      = Some (Ok x, s') \<longleftrightarrow> h env s = Some (Ok (), s')"
proof (cases "h env s")
  case (Some a)
  then show ?thesis
    by (cases a; cases "fst a") (auto simp: hbind_Ok_iff run_primitives run_attempt)
qed (simp add: hbind_Ok_iff run_attempt)

lemma run_ai_write:
  "hbind (device_write command) (\<lambda>written. case written of
       Inl err \<Rightarrow>
         hbind (latch_control_write_fault err) (\<lambda>_.
         hfail (service_unavailable (''AI target write to device failed: '' @ err_display err)))
     | Inr _ \<Rightarrow>
         hbind (hattempt (commit_targets_after_final_interlock tg DesiredTargets expected acknowledged))
           (\<lambda>committed. case committed of
              Inl err \<Rightarrow>
                hbind (latch_tail_failure_after_device_action ''AI target final interlock'' (err_message err)) (\<lambda>_.
                hfail err)
            | Inr _ \<Rightarrow> hreturn ())) env s = Some (Ok x, s') \<longleftrightarrow>
     a_write env (h_tick s) = Ok () \<and> commit_targets_after_final_interlock tg DesiredTargets expected acknowledged env
       (s\<lparr>h_tick := h_tick s + 1, h_writes := h_writes s @ [command]\<rparr>) = Some (Ok (), s')"
proof (cases "a_write env (h_tick s)")
  case (Inr u)
  then show ?thesis
    by (simp add: hbind_Ok_iff [of "device_write _"] run_primitives run_guarded)
qed (simp add: hbind_Ok_iff run_primitives)

lemma run_apply_ai_targets:
  "apply_ai_targets tg reason actor env s = Some (Ok (), s') \<longleftrightarrow>
     (\<exists>seen. seen = (a_interfere env (h_tick s + 1) (a_interfere env (h_tick s) (h_rt s)))\<lparr>auto_enabled := False\<rparr>
        \<and> field_clear (a_clock env (h_tick s + 1)) (a_safety env) seen
        \<and> find_forbidden_control_zone (a_safety env) (t_temperature_c tg) (t_stirrer_rpm tg) = None
        \<and> a_audit env (h_tick s + 2) = Ok () \<and> a_write env (h_tick s + 3) = Ok ()
        \<and> commit_targets_after_final_interlock tg DesiredTargets (Some (targets (a_interfere env (h_tick s) (h_rt s))))
            (Some (latches_from_runtime seen)) env
            (s\<lparr>h_rt := seen,
               h_events := h_events s @ [\<lparr>ev_actor = actor, ev_batch = None, ev_type = ''ai_targets_updated'',
                 ev_command = Some (safe_command_from_runtime_targets tg reason), ev_reason = reason\<rparr>],
               h_tick := h_tick s + 4, h_writes := h_writes s @ [safe_command_from_runtime_targets tg reason]\<rparr>) = Some (Ok (), s'))"
  unfolding apply_ai_targets_def Let_def
  by (simp only: run_ai_audit run_ai_write hbind_Ok_iff [of "read_lock targets"] hbind_Ok_iff [of "with_lock _"]
        hbind_Ok_iff [of safety_of] hbind_Ok_iff [of "hresult _"])
     (simp add: run_simps interlock_clear_iff targets_allowed_iff bind_res_Ok_iff eval_nat_numeral cong: conj_cong)

text \<open>C18: When the AI master control applies targets to the device, exactly one command with those targets went out, the pair
  is outside every forbidden zone, and at the commit the field was clear, no latch had changed since the acknowledgement, the
  persisted batches agreed and nobody had changed the targets in between; an application that has written and does
  not succeed ends with automatic control off and a latched fault.\<close>

theorem ai_targets_committed:
  assumes "apply_ai_targets tg reason actor env s = Some (r, s')"
  shows "case r of
      Inl e \<Rightarrow> h_writes s' \<noteq> h_writes s \<longrightarrow> faulted (h_rt s')
    | Inr _ \<Rightarrow> (\<exists>live. h_writes s' = h_writes s @ [safe_command_from_runtime_targets tg reason]
        \<and> find_forbidden_control_zone (a_safety env) (t_temperature_c tg) (t_stirrer_rpm tg) = None
        \<and> field_clear (a_clock env (h_tick s + 5)) (a_safety env) live
        \<and> same_generations (a_interfere env (h_tick s + 1) (a_interfere env (h_tick s) (h_rt s))) live
        \<and> batches_agree (a_unfinished env (h_tick s + 4)) live
        \<and> targets_eq (targets live) (targets (a_interfere env (h_tick s) (h_rt s)))
        \<and> h_rt s' = live\<lparr>targets := tg\<rparr>)"
proof (cases r)
  case (Inl e)
  then show ?thesis using apply_ai_closed assms unfolding device_fails_closed_def by simp
next
  case (Inr u)
  with assms have "apply_ai_targets tg reason actor env s = Some (Ok (), s')" by simp
  then obtain seen where seen: "seen = (a_interfere env (h_tick s + 1) (a_interfere env (h_tick s) (h_rt s)))\<lparr>auto_enabled := False\<rparr>"
    and zone: "find_forbidden_control_zone (a_safety env) (t_temperature_c tg) (t_stirrer_rpm tg) = None"
    and commit: "commit_targets_after_final_interlock tg DesiredTargets (Some (targets (a_interfere env (h_tick s) (h_rt s))))
       (Some (latches_from_runtime seen)) env
       (s\<lparr>h_rt := seen, h_events := h_events s @ [\<lparr>ev_actor = actor, ev_batch = None, ev_type = ''ai_targets_updated'',
             ev_command = Some (safe_command_from_runtime_targets tg reason), ev_reason = reason\<rparr>],
          h_tick := h_tick s + 4, h_writes := h_writes s @ [safe_command_from_runtime_targets tg reason]\<rparr>) = Some (Ok (), s')"
    unfolding run_apply_ai_targets by blast
  have "same_generations (rt\<lparr>auto_enabled := False\<rparr>) live \<longleftrightarrow> same_generations rt live" for rt live
    by (simp add: same_generations_def latches_from_runtime_def)
  with zone commit Inr show ?thesis
    unfolding run_commit_targets seen by (auto simp: eval_nat_numeral)
qed

section \<open>What must hold before the device is written\<close>

lemma hbind_wrote:
  assumes "hbind h k env s = Some (r, s')" "h_writes s' \<noteq> h_writes s" "no_writes h"
  obtains a s1 where "h env s = Some (Ok a, s1)" "k a env s1 = Some (r, s')" "h_writes s' \<noteq> h_writes s1"
  using assms by (fastforce simp: hbind_Some_iff no_writes_def)

lemma hbind_result_wrote:
  assumes "hbind (hresult x) k env s = Some (r, s')" "h_writes s' \<noteq> h_writes s"
  obtains a where "x = Ok a" "k a env s = Some (r, s')"
  using hbind_wrote [OF assms no_writes_intros(3)] by (metis run_primitives(2))

lemma run_device_summary:
  "device_status_summary_with_db ae rt env s = Some (Ok summary, s') \<longleftrightarrow>
     (\<exists>batches. a_unfinished env (h_tick s) = Ok batches \<and> s' = s\<lparr>h_tick := h_tick s + 1\<rparr>
        \<and> summary = device_status_summary_with_batch_status (ae_device_mode ae) (ae_capabilities ae) (a_safety env)
            (a_clock env (h_tick s)) rt (unfinished_batch_status_from_batches batches rt))"
  by (auto simp: device_status_summary_with_db_def run_simps)

lemma run_live_alarms:
  "live_alarms_for memory rt sample env s = Some (Ok alarms, s') \<longleftrightarrow>
     (\<exists>batches. a_unfinished env (h_tick s) = Ok batches \<and> s' = s\<lparr>h_tick := h_tick s + 1\<rparr>
        \<and> alarms = live_alarms_for_with_batch_status (a_safety env) (a_clock env (h_tick s)) rt sample memory
            (unfinished_batch_status_from_batches batches rt))"
  by (auto simp: live_alarms_for_def run_simps)

lemma run_ai_safety:
  assumes "ai_control_safety_of ae rt env s = Some (Ok safety, s')"
  obtains batches where "a_unfinished env (h_tick s + 2) = Ok batches" "as_emergency safety = emergency_stop rt"
    "as_locked safety = manual_lock rt"
    "as_device_online safety \<longleftrightarrow> 0 < su_online_count (device_status_summary_with_batch_status (ae_device_mode ae) (ae_capabilities ae)
       (a_safety env) (a_clock env (h_tick s + 2)) rt (unfinished_batch_status_from_batches batches rt))"
  using assms
  by (auto simp: ai_control_safety_of_def Let_def run_simps run_attempt run_live_alarms run_device_summary eval_nat_numeral)

lemma run_ai_preflight:
  assumes "ai_preflight ae False env s = Some (Ok (rt, safety), s')"
  shows "rt = a_interfere env (h_tick s) (h_rt s) \<and> fresh_input (a_clock env (h_tick s + 1)) (a_safety env) rt
     \<and> \<not> emergency_stop rt \<and> \<not> manual_lock rt
     \<and> (\<exists>batches. a_unfinished env (h_tick s + 4) = Ok batches
         \<and> 0 < su_online_count (device_status_summary_with_batch_status (ae_device_mode ae) (ae_capabilities ae) (a_safety env)
             (a_clock env (h_tick s + 4)) rt (unfinished_batch_status_from_batches batches rt)))"
proof -
  let ?rt = "a_interfere env (h_tick s) (h_rt s)" and ?s1 = "s\<lparr>h_rt := a_interfere env (h_tick s) (h_rt s), h_tick := h_tick s + 2\<rparr>"
  from assms obtain safety1 s2 where fresh: "fresh_input (a_clock env (h_tick s + 1)) (a_safety env) ?rt"
    and run: "ai_control_safety_of ae ?rt env ?s1 = Some (Ok safety1, s2)"
    and gates: "\<not> as_emergency safety1" "\<not> as_locked safety1" "as_device_online safety1" "rt = ?rt"
    unfolding ai_preflight_def
    by (auto simp: run_simps run_attempt check_snapshot_def Let_def ensure_fresh_sample_iff [symmetric] eval_nat_numeral split: sum.splits if_splits)
  from run gates fresh show ?thesis by (auto elim!: run_ai_safety simp: eval_nat_numeral)
qed

lemma no_writes_attempt: "no_writes h \<Longrightarrow> no_writes (hattempt h)"
  by (auto simp: no_writes_def hattempt_def)

lemma no_writes_harmless: "harmless h \<Longrightarrow> no_writes h"
  by (auto simp: harmless_def silent_def no_writes_def)

lemma no_writes_sum: "(\<And>e. no_writes (f e)) \<Longrightarrow> (\<And>x. no_writes (g x)) \<Longrightarrow> no_writes (case z of Inl e \<Rightarrow> f e | Inr x \<Rightarrow> g x)"
  by (cases z) auto

lemma no_writes_preflight: "no_writes (ai_preflight ae dry)"
  unfolding ai_preflight_def disable_auto_control_def
  by (intro no_writes_bind no_writes_attempt no_writes_sum no_writes_if no_writes_intros no_writes_more
      no_writes_harmless [OF harmless_parts(1)])

lemma ai_control_wrote:
  assumes "ai_control ae session p env s = Some (r, s')" "h_writes s' \<noteq> h_writes s"
  obtains user rt safety s1 start halt component adjust preferred
  where "session ApplyAiSuggestion = Ok user" "rq_dry_run p = Some (Some False)"
    "ai_preflight ae False env s = Some (Ok (rt, safety), s1)"
    "ai_act ae False start halt component adjust preferred (audit_actor_for_user user) (ai_rationale p) rt safety env s1 = Some (r, s')"
proof -
  have "\<not> is_dry_run p"
    using harmless_control assms unfolding harmless_def silent_def by blast
  then have modes: "rq_dry_run p = Some (Some False) \<or> rq_dry_run p = Some None"
    by (cases "rq_dry_run p"; cases "the (rq_dry_run p)") (auto simp: is_dry_run_def)
  obtain user dry start halt component adjust preferred where user: "session ApplyAiSuggestion = Ok user"
    and dry: "optional_present_bool (rq_dry_run p) ''dry_run'' = Ok dry"
    and rest: "hbind (ai_preflight ae (unwrap_or dry True)) (\<lambda>(rt, safety).
     ai_act ae (unwrap_or dry True) (unwrap_or start True) (unwrap_or halt True) (unwrap_or component True) (unwrap_or adjust True)
       preferred (audit_actor_for_user user) (ai_rationale p) rt safety) env s = Some (r, s')"
  proof -
    from assms show thesis
      unfolding ai_control_def
      apply (elim hbind_result_wrote)
      apply assumption+
      apply (rule that)
      apply assumption+
      done
  qed
  have dry_run: "rq_dry_run p = Some (Some False)" "dry = Some False"
    using dry modes by auto
  obtain a s1 where pre: "ai_preflight ae False env s = Some (Ok a, s1)"
      and act: "(case a of (rt, safety) \<Rightarrow> ai_act ae False (unwrap_or start True) (unwrap_or halt True) (unwrap_or component True)
         (unwrap_or adjust True) preferred (audit_actor_for_user user) (ai_rationale p) rt safety) env s1 = Some (r, s')"
    by (rule hbind_wrote [OF rest [unfolded dry_run unwrap_or.simps] assms(2) no_writes_preflight]) (rule that)
  show thesis using that [OF user dry_run(1), of "fst a" "snd a" s1] pre act by (simp add: split_def)
qed

text \<open>C17: When the AI master control wrote anything to the device, the user may apply AI suggestions, the request asked for
  execution explicitly, the runtime state it read carried neither an emergency stop nor a manual lock, the sample
  was fresh, the device was healthy with no failed command and the unfinished batches of the database
  agreed with the runtime.\<close>

theorem ai_control_interlocked:
  assumes "ai_control ae session p env s = Some (r, s')" "h_writes s' \<noteq> h_writes s"
  shows "\<exists>user rt batches. session ApplyAiSuggestion = Ok user \<and> rq_dry_run p = Some (Some False)
     \<and> rt = a_interfere env (h_tick s) (h_rt s) \<and> \<not> emergency_stop rt \<and> \<not> manual_lock rt
     \<and> fresh_input (a_clock env (h_tick s + 1)) (a_safety env) rt
     \<and> a_unfinished env (h_tick s + 4) = Ok batches \<and> batches_agree (Ok batches) rt
     \<and> (case device_status rt of
          Some st \<Rightarrow> healthy_status (a_clock env (h_tick s + 4)) (sensor_timeout_ms (control (a_safety env))) st
            \<and> last_command_ok st \<noteq> Some False
        | None \<Rightarrow> \<not> require_device_status_for_control (control (a_safety env)))"
proof -
  obtain user rt safety s1 where user: "session ApplyAiSuggestion = Ok user" "rq_dry_run p = Some (Some False)"
    and run: "ai_preflight ae False env s = Some (Ok (rt, safety), s1)"
    by (rule ai_control_wrote [OF assms]) (rule that)
  from run_ai_preflight [OF run] obtain batches where rt: "rt = a_interfere env (h_tick s) (h_rt s)"
      "fresh_input (a_clock env (h_tick s + 1)) (a_safety env) rt" "\<not> emergency_stop rt" "\<not> manual_lock rt"
    and batches: "a_unfinished env (h_tick s + 4) = Ok batches"
    and online: "0 < su_online_count (device_status_summary_with_batch_status (ae_device_mode ae) (ae_capabilities ae) (a_safety env)
             (a_clock env (h_tick s + 4)) rt (unfinished_batch_status_from_batches batches rt))"
    by blast
  have agree: "batches_agree (Ok batches) rt"
    using online unfolding online_count_iff by (simp add: batches_agree_def recovery_required_iff)
  have "case device_status rt of
          Some st \<Rightarrow> healthy_status (a_clock env (h_tick s + 4)) (sensor_timeout_ms (control (a_safety env))) st
            \<and> last_command_ok st \<noteq> Some False
        | None \<Rightarrow> \<not> require_device_status_for_control (control (a_safety env))"
    using online unfolding online_count_iff by (simp split: option.splits)
  with user rt batches agree show ?thesis by blast
qed

section \<open>Latches and termination\<close>

lemma keeps_disable_auto [latch_keeps]: "keeps latches_hold disable_auto_control"
  unfolding disable_auto_control_def by (intro keeps_intros) (simp add: latches_hold_def)

lemma keeps_apply_ai [latch_keeps]: "keeps latches_hold (apply_ai_targets tg reason actor)"
  unfolding apply_ai_targets_def Let_def by (intro keeps_intros latch_keeps) (simp add: latches_hold_def)

lemma keeps_ai_parts [latch_keeps]:
  assumes "\<And>command current. keeps latches_hold (ae_write ae command current)"
  shows "keeps latches_hold (ai_control_safety_of ae rt)" "keeps latches_hold (ai_preflight ae dry)"
    "keeps latches_hold (process_start_block_reason allow rt safety)" "keeps latches_hold (select_ai_process ae preferred)"
    "keeps latches_hold (ai_recommendation ae dry allow actor)" "keeps latches_hold (adjust_targets dry allow actor rt tg)"
    "keeps latches_hold (start_selected_process dry allow actor rt reason selected plan)"
    "keeps latches_hold (runtime_after_process dry rt actions)"
    "keeps latches_hold (control_running_process ae dry halt component actor safety tg rt plan)"
    "keeps latches_hold (audit_decision ae actor tg decision why actions)"
proof -
  have safe: "keeps latches_hold (ai_control_safety_of ae rt)" for rt using harmless_parts(1) by (simp add: harmless_def)
  then show "keeps latches_hold (ai_control_safety_of ae rt)" .
  show "keeps latches_hold (ai_preflight ae dry)" unfolding ai_preflight_def by (intro keeps_intros latch_keeps safe)
  show "keeps latches_hold (process_start_block_reason allow rt safety)" "keeps latches_hold (select_ai_process ae preferred)"
    using harmless_parts by (simp_all add: harmless_def)
  show "keeps latches_hold (ai_recommendation ae dry allow actor)"
    unfolding ai_recommendation_def insert_recommendation_with_audit_def generated_def Let_def by (intro keeps_intros latch_keeps)
  show "keeps latches_hold (adjust_targets dry allow actor rt tg)"
    unfolding adjust_targets_def Let_def by (intro keeps_intros latch_keeps)
  show "keeps latches_hold (start_selected_process dry allow actor rt reason selected plan)"
    unfolding start_selected_process_def Let_def by (intro keeps_intros latch_keeps)
  show "keeps latches_hold (runtime_after_process dry rt actions)"
    unfolding runtime_after_process_def by (intro keeps_intros latch_keeps)
  show "keeps latches_hold (control_running_process ae dry halt component actor safety tg rt plan)"
    unfolding control_running_process_def Let_def by (intro keeps_intros latch_keeps assms)
  show "keeps latches_hold (audit_decision ae actor tg decision why actions)"
    unfolding audit_decision_def by (intro keeps_intros latch_keeps)
qed

lemma keeps_ai_control:
  assumes "\<And>command current. keeps latches_hold (ae_write ae command current)"
  shows "keeps latches_hold (ai_control ae session p)"
  unfolding ai_control_def ai_act_def Let_def by (intro keeps_intros keeps_ai_parts [where ae = ae, OF assms])

lemma returns_generated [returns_intros]: "(\<And>t. gen t \<noteq> None) \<Longrightarrow> returns (generated gen)"
  by (auto simp: returns_def generated_def hbind_def db_call_def hpanic_def hresult_def Let_def split: option.splits sum.splits)

lemma returns_ai_parts:
  "returns (ai_preflight ae dry)" "returns (process_start_block_reason allow rt safety)" "returns (select_ai_process ae preferred)"
  "returns (apply_ai_targets tg reason actor)" "returns (adjust_targets dry allow actor rt recommended)"
  "returns (start_selected_process dry allow actor rt block selected plan)" "returns (runtime_after_process dry rt actions)"
  "returns (audit_decision ae actor recommended decision why actions)"
  unfolding ai_preflight_def ai_control_safety_of_def live_alarms_for_def device_status_summary_with_db_def disable_auto_control_def
    process_start_block_reason_def select_ai_process_def process_detail_or_bad_request_def apply_ai_targets_def adjust_targets_def
    start_selected_process_def runtime_after_process_def audit_decision_def Let_def
  by (intro returns_intros)+

lemma returns_ai_control:
  assumes "\<And>t. ae_generate ae t \<noteq> None" "\<And>command current. returns (ae_write ae command current)"
  shows "returns (ai_control ae session p)"
proof -
  have recommendation: "returns (ai_recommendation ae dry allow actor)" for dry allow actor
    unfolding ai_recommendation_def insert_recommendation_with_audit_def Let_def by (intro returns_intros assms(1))
  have running: "returns (control_running_process ae dry halt component actor safety tg rt plan)" for dry halt component actor safety tg rt plan
    unfolding control_running_process_def execute_component_control_def prove_safe_field_def zone_check_def finish_component_control_def
      commit_component_targets_after_final_interlock_def Let_def
    by (intro returns_intros assms(2))
  show ?thesis
    unfolding ai_control_def ai_act_def Let_def by (intro returns_intros returns_ai_parts recommendation running)
qed

section \<open>Witnesses\<close>

definition demo_recommended :: recommendation_result where
  "demo_recommended = \<lparr>based_on_batch_count = 1, r_temperature_c = Num 70, r_stirrer_rpm = Num 300, r_heating_minutes = Num 30,
     r_stirring_minutes = Num 30, expected_score = Num 80, rationale_text = ''stored''\<rparr>"

definition demo_ai :: ai_env where
  "demo_ai = \<lparr>ae_memory = demo_memory, ae_provider = None, ae_device_mode = Esp32Serial, ae_capabilities = esp32_capabilities,
     ae_write = serial_write_component ''m'', ae_latest = (\<lambda>_. Ok (Some demo_recommended)),
     ae_generate = (\<lambda>_. Some (Ok demo_recommended)), ae_processes = (\<lambda>_. Ok []), ae_render = (\<lambda>_ _ _. [])\<rparr>"

definition demo_ai_request :: "bool option option \<Rightarrow> ai_control_request" where
  "demo_ai_request dry = \<lparr>rq_intent = None, rq_mode = None, rq_dry_run = dry, rq_allow_process_start = Some (Some False),
     rq_allow_process_stop = None, rq_allow_component_control = None, rq_allow_target_adjustment = None,
     rq_preferred_process_id = None\<rparr>"

theorem ai_dry_run_harmless_witness:
  "\<exists>r s'. ai_control demo_ai demo_session (demo_ai_request None) (demo_api (\<lambda>_. Ok ())) (demo_hstate None) = Some (r, s')
     \<and> h_writes s' = [] \<and> h_db s' = [] \<and> h_events s' = []"
proof -
  have "returns (ai_control demo_ai demo_session (demo_ai_request None))"
    by (rule returns_ai_control) (auto simp: demo_ai_def serial_write_component_def Let_def intro!: returns_intros)
  moreover have "wf_safety (a_safety (demo_api (\<lambda>_. Ok ())))" by (simp add: demo_api_def)
  ultimately obtain r s' where
    run: "ai_control demo_ai demo_session (demo_ai_request None) (demo_api (\<lambda>_. Ok ())) (demo_hstate None) = Some (r, s')"
    unfolding returns_def by (metis option.exhaust surj_pair)
  have dry: "rq_dry_run (demo_ai_request None) = None \<or> rq_dry_run (demo_ai_request None) = Some (Some True)"
    by (simp add: demo_ai_request_def)
  from ai_dry_run_harmless [OF dry run] run show ?thesis by (auto simp: demo_hstate_def)
qed

lemma demo_ai_apply:
  assumes "find_forbidden_control_zone shipped_safety (t_temperature_c tg) (t_stirrer_rpm tg) = None"
  shows "\<exists>s'. apply_ai_targets tg reason actor (demo_api (\<lambda>_. Ok ())) ((demo_hstate None)\<lparr>h_tick := t\<rparr>) = Some (Ok (), s')"
proof -
  have "batches_agree (Ok []) (h_rt (demo_hstate None))" "same_generations rt rt"
    "targets_eq (targets (h_rt (demo_hstate None))) (targets (h_rt (demo_hstate None)))" for rt
    by (simp_all add: batches_agree_def demo_hstate_def from_safety_def same_generations_def latches_changed_iff targets_eq_def
        shipped_safety_def f64_eq_def)
  then show ?thesis
    using assms by (simp add: run_apply_ai_targets run_commit_targets demo_api_def demo_disarmed demo_field_clear)
qed

theorem ai_targets_committed_witness:
  "\<exists>s'. apply_ai_targets (targets (from_safety shipped_safety)) ''r'' system_actor (demo_api (\<lambda>_. Ok ())) (demo_hstate None) = Some (Ok (), s')
     \<and> length (h_writes s') = 1 \<and> targets (h_rt s') = targets (from_safety shipped_safety)"
proof -
  have "find_forbidden_control_zone shipped_safety (t_temperature_c (targets (from_safety shipped_safety)))
     (t_stirrer_rpm (targets (from_safety shipped_safety))) = None"
    by (simp add: from_safety_def shipped_safety_def find_forbidden_control_zone_def zone_contains_def)
  from demo_ai_apply [OF this, where t = "h_tick (demo_hstate None)"] obtain s' where run: "apply_ai_targets (targets (from_safety shipped_safety)) ''r'' system_actor
     (demo_api (\<lambda>_. Ok ())) (demo_hstate None) = Some (Ok (), s')" by auto
  from ai_targets_committed [OF run] run show ?thesis by (auto simp: demo_hstate_def)
qed

lemma demo_ai_write_fails:
  assumes "find_forbidden_control_zone shipped_safety (t_temperature_c tg) (t_stirrer_rpm tg) = None"
  shows "\<exists>e s'. apply_ai_targets tg reason actor (demo_api (\<lambda>_. Err [''closed''])) ((demo_hstate None)\<lparr>h_tick := t\<rparr>) = Some (Err e, s')
     \<and> h_writes s' \<noteq> []"
proof -
  have "ensure_target_update_interlock_clear shipped_safety 0 ((h_rt (demo_hstate None))\<lparr>auto_enabled := False\<rparr>) DesiredTargets = Ok ()"
    by (simp add: interlock_clear_iff demo_disarmed demo_field_clear)
  moreover have "ensure_targets_allowed shipped_safety tg = Ok ()" using assms by (simp add: targets_allowed_iff)
  ultimately show ?thesis
    by (simp add: apply_ai_targets_def hbind_def read_lock_def with_lock_def safety_of_def hresult_def hany_def hfail_def insert_event_def
        device_write_def latch_control_write_fault_def demo_api_def Let_def)
qed

lemma demo_ai_preflight:
  "\<exists>safety. ai_preflight demo_ai False (demo_api w) (demo_hstate None)
     = Some (Ok (h_rt (demo_hstate None), safety), (demo_hstate None)\<lparr>h_tick := 6\<rparr>)"
proof -
  let ?rt = "h_rt (demo_hstate None)"
  have fresh: "ensure_fresh_sample shipped_safety 0 ?rt = Ok ()"
    using demo_field_clear by (simp add: ensure_fresh_sample_iff field_clear_def)
  have rt: "emergency_stop ?rt = False" "manual_lock ?rt = False"
    using demo_field_clear by (simp_all add: field_clear_def)
  have status: "device_status ?rt = Some demo_status" by (simp add: demo_hstate_def)
  have "batches_agree (Ok []) ?rt" by (simp add: batches_agree_def demo_hstate_def from_safety_def)
  then have agree: "\<not> recovery_required (unfinished_batch_status_from_batches [] ?rt)"
    by (simp add: batches_agree_def recovery_required_iff)
  have online: "0 < su_online_count (device_status_summary_with_batch_status Esp32Serial esp32_capabilities shipped_safety 0 ?rt
      (unfinished_batch_status_from_batches [] ?rt))"
    unfolding online_count_iff using rt agree demo_status_clear status by (simp add: status_clear_def)
  have t: "h_tick (demo_hstate None) = 0" by (simp add: demo_hstate_def)
  show ?thesis
    using fresh rt online
    by (simp add: ai_preflight_def ai_control_safety_of_def live_alarms_for_def device_status_summary_with_db_def hbind_def hattempt_def
        check_snapshot_def read_lock_def with_lock_def db_call_def hany_def hresult_def hreturn_def safety_of_def demo_api_def demo_ai_def t Let_def)
qed

abbreviation demo_next :: control_targets where
  "demo_next \<equiv> (targets (from_safety shipped_safety))\<lparr>t_temperature_c := Num 70, t_heat_time_s := Num 1800, t_hold_time_s := Num 1800\<rparr>"

lemma demo_ai_targets:
  "ai_targets_from_recommendation shipped_safety (h_rt (demo_hstate None)) demo_recommended = Ok (round_targets demo_next)"
proof -
  have tg: "\<lparr>t_temperature_c = r_temperature_c demo_recommended, t_heat_time_s = f64_mul (r_heating_minutes demo_recommended) (lit 60),
        t_hold_time_s = f64_mul (r_stirring_minutes demo_recommended) (lit 60), t_cool_time_s = t_cool_time_s (targets (h_rt (demo_hstate None))),
        t_stirrer_rpm = r_stirrer_rpm demo_recommended, t_shake_speed_cpm = t_shake_speed_cpm (targets (h_rt (demo_hstate None))),
        t_target_pressure_mpa = t_target_pressure_mpa (targets (h_rt (demo_hstate None)))\<rparr> = demo_next"
    by (simp add: demo_recommended_def demo_hstate_def from_safety_def shipped_safety_def f64_mul_def)
  have "is_ok (validate_target_temperature shipped_safety (Num 70))" "is_ok (validate_stir_speed shipped_safety (Num 300))"
    by (simp add: target_temperature_ok in_range_Num, simp add: shipped_safety_def) (simp add: stir_speed_ok in_range_Num, simp add: shipped_safety_def)
  moreover have "default_target_rpm (stirrer shipped_safety) = Num 300" "ob_max_heating_minutes (optimizer shipped_safety) = Num 240"
    "ob_max_stirring_minutes (optimizer shipped_safety) = Num 240"
    by (simp_all add: shipped_safety_def)
  ultimately show ?thesis
    unfolding ai_targets_from_recommendation_def tg validate_ai_recommendation_targets_def
    by (simp add: bind_res_Ok_iff run_checks_Ok_iff api_validate_range_ok in_range_Num from_safety_def f64_mul_def half_two_decimals
        del: run_checks.simps)
qed

lemma demo_next_differs: "targets_differ (targets (h_rt (demo_hstate None))) (round_targets demo_next)"
  "find_forbidden_control_zone shipped_safety (t_temperature_c (round_targets demo_next)) (t_stirrer_rpm (round_targets demo_next)) = None"
proof -
  have "f64_lt (rnd (1 / 100)) (Num 10)"
    using rnd_mono [of "1 / 100" 1] rnd_sign(1) [of "1 / 100"] by (cases "rnd (1 / 100)") (auto simp: f64_lt_def)
  then show "targets_differ (targets (h_rt (demo_hstate None))) (round_targets demo_next)"
    by (simp add: targets_differ_def round_targets_def from_safety_def shipped_safety_def half_two_decimals demo_hstate_def
        f64_sub_def f64_add_def f64_neg_def f64_abs_def)
  show "find_forbidden_control_zone shipped_safety (t_temperature_c (round_targets demo_next)) (t_stirrer_rpm (round_targets demo_next)) = None"
    by (simp add: round_targets_def from_safety_def shipped_safety_def find_forbidden_control_zone_def zone_contains_def)
qed

theorem ai_control_interlocked_witness:
  "\<exists>e s'. ai_control demo_ai demo_session (demo_ai_request (Some (Some False))) (demo_api (\<lambda>_. Err [''closed''])) (demo_hstate None)
       = Some (Err e, s') \<and> h_writes s' \<noteq> h_writes (demo_hstate None)
     \<and> \<not> emergency_stop (h_rt (demo_hstate None))"
proof -
  let ?env = "demo_api (\<lambda>_. Err [''closed''])" and ?rt = "h_rt (demo_hstate None)"
  obtain safety where pre: "ai_preflight demo_ai False ?env (demo_hstate None) = Some (Ok (?rt, safety), (demo_hstate None)\<lparr>h_tick := 6\<rparr>)"
    using demo_ai_preflight by blast
  obtain e s' where apply_fails: "apply_ai_targets (round_targets demo_next) ''AI master control adjusted targets''
       (audit_actor_for_user (make_auth_user ''op'' Operator)) ?env ((demo_hstate None)\<lparr>h_tick := 7\<rparr>) = Some (Err e, s')" "h_writes s' \<noteq> []"
    using demo_ai_write_fails [OF demo_next_differs(2)] by blast
  have latest: "ai_recommendation demo_ai False True actor ?env ((demo_hstate None)\<lparr>h_tick := 6\<rparr>)
      = Some (Ok (Some demo_recommended), (demo_hstate None)\<lparr>h_tick := 7\<rparr>)" for actor
    by (simp add: ai_recommendation_def hbind_def db_call_def hany_def hresult_def hreturn_def demo_ai_def demo_recommended_def
        provider_allows_recommendation_def)
  have "a_safety ?env = shipped_safety" by (simp add: demo_api_def)
  then have act: "ai_act demo_ai False False True True True None (audit_actor_for_user (make_auth_user ''op'' Operator)) why ?rt safety ?env
      ((demo_hstate None)\<lparr>h_tick := 6\<rparr>) = Some (Err e, s')" for why
    using latest apply_fails demo_next_differs(1) demo_ai_targets
    by (simp add: ai_act_def process_start_block_reason_def adjust_targets_def safety_of_def hresult_def hreturn_def hbind_def Let_def)
  have run: "ai_control demo_ai demo_session (demo_ai_request (Some (Some False))) ?env (demo_hstate None) = Some (Err e, s')"
    using pre act by (simp add: ai_control_def hbind_def hresult_def demo_ai_request_def demo_session_def)
  have wrote: "h_writes s' \<noteq> h_writes (demo_hstate None)" using apply_fails(2) by (simp add: demo_hstate_def)
  from ai_control_interlocked [OF run wrote] run wrote show ?thesis by (auto simp: demo_api_def)
qed

text \<open>The process of a request is looked up only after the targets have been applied: a request that names a process that does not
  exist is answered with 404, after the device was written, and without the audit row of the decision.\<close>

lemma ai_control_writes_then_404:
  "\<exists>s'. ai_control demo_ai demo_session ((demo_ai_request (Some (Some False)))\<lparr>rq_preferred_process_id := Some (Some 1)\<rparr>)
       (demo_api (\<lambda>_. Ok ())) (demo_hstate None) = Some (Err (not_found ''preferred process not found''), s')
     \<and> length (h_writes s') = 1 \<and> last_control_error (h_rt s') = None
     \<and> map ev_type (h_events s') = [''ai_targets_updated'']"
proof -
  let ?env = "demo_api (\<lambda>_. Ok ())" and ?rt = "h_rt (demo_hstate None)" and ?s = "(demo_hstate None)\<lparr>h_tick := 7\<rparr>"
  obtain safety where pre: "ai_preflight demo_ai False ?env (demo_hstate None) = Some (Ok (?rt, safety), (demo_hstate None)\<lparr>h_tick := 6\<rparr>)"
    using demo_ai_preflight by blast
  obtain s' where applied: "apply_ai_targets (round_targets demo_next) ''AI master control adjusted targets''
       (audit_actor_for_user (make_auth_user ''op'' Operator)) ?env ?s = Some (Ok (), s')"
    using demo_ai_apply [OF demo_next_differs(2)] by blast
  have written: "length (h_writes s') = 1" "last_control_error (h_rt s') = None" "map ev_type (h_events s') = [''ai_targets_updated'']"
    using applied by (auto simp: run_apply_ai_targets run_commit_targets demo_hstate_def demo_api_def)
  have latest: "ai_recommendation demo_ai False True actor ?env ((demo_hstate None)\<lparr>h_tick := 6\<rparr>) = Some (Ok (Some demo_recommended), ?s)" for actor
    by (simp add: ai_recommendation_def hbind_def db_call_def hany_def hresult_def hreturn_def demo_ai_def demo_recommended_def
        provider_allows_recommendation_def)
  have selected: "select_ai_process demo_ai (Some 1) ?env s' = Some (Err (not_found ''preferred process not found''), s'\<lparr>h_tick := h_tick s' + 1\<rparr>)"
    by (simp add: select_ai_process_def process_detail_or_bad_request_def hbind_def db_call_def hfail_def hresult_def hreturn_def demo_api_def)
  have "a_safety ?env = shipped_safety" by (simp add: demo_api_def)
  then have act: "ai_act demo_ai False False True True True (Some 1) (audit_actor_for_user (make_auth_user ''op'' Operator)) why ?rt safety ?env
      ((demo_hstate None)\<lparr>h_tick := 6\<rparr>) = Some (Err (not_found ''preferred process not found''), s'\<lparr>h_tick := h_tick s' + 1\<rparr>)" for why
    using latest applied demo_next_differs(1) demo_ai_targets selected
    by (simp add: ai_act_def process_start_block_reason_def adjust_targets_def safety_of_def hresult_def hreturn_def hbind_def Let_def)
  show ?thesis
    using pre act written by (simp add: ai_control_def hbind_def hresult_def demo_ai_request_def demo_session_def)
qed

end
