(* ===== verification/Spec2Isabelle.thy ===== *)
theory Spec2Isabelle
  imports Component_Api Modbus_Tcp Audit_Chain Optimizer Mqtt_Bridge Ai_Control
begin

text \<open>
  Verification of the ReactorOS edge daemon (the Rust crate under \<open>src/src\<close>).

  The daemon runs beside a chemical reactor. It reads samples from a device (Modbus RTU, an ESP32 on a serial line,
  a JSON file bridge) or from an external data pipeline, keeps one shared runtime state, lets a control loop
  write set points to the device, and serves an HTTP interface through which operators enable automatic control,
  engage and release latches, change targets, run processes and batches and drive single components.

  \<^bold>\<open>Parts and theories.\<close>
  \<^item> \<open>Prelude\<close>: results (\<open>Ok\<close>, \<open>Err\<close>), sequences of checks, strings, machine integers.
  \<^item> \<open>F64\<close> and \<open>Text_Format\<close>: IEEE-754 binary64 as rounding of rationals, \<open>clamp\<close>, casts, \<open>number.rs\<close>; rendering
    and parsing of numbers, the JSON value type.
  \<^item> \<open>Config\<close> (\<open>config.rs\<close>): configuration records, defaults and validation; \<open>wf_safety\<close> is what a validated safety
    configuration satisfies.
  \<^item> \<open>State\<close> (\<open>state.rs\<close>): samples, targets, device status, the runtime record and its operations; the latch
    invariant \<open>latches_hold\<close>.
  \<^item> \<open>Control\<close> (\<open>control.rs\<close>): the control decision, the step limiter, forbidden zones, clamping of targets.
  \<^item> \<open>Control_Loop\<close> (\<open>main.rs\<close>): one iteration as input, enforcement, decision, final interlock and delivery, the loop
    over iterations, the handshake classification and the monitor of the loop task. Locale \<open>loop_invariant\<close>.
  \<^item> \<open>Auth\<close> (\<open>api_auth.rs\<close>, \<open>api_response.rs\<close>, \<open>bootstrap.rs\<close>): roles, session tokens, login, password change, the gate on
    network exposure.
  \<^item> \<open>Memory\<close> (\<open>memory.rs\<close>): the operator-maintained AI memory and the sensor limits.
  \<^item> \<open>Operator_Text\<close> (\<open>api.rs\<close>): UTF-8 and the normalisation of operator text.
  \<^item> \<open>Esp32\<close> and \<open>Json_Bridge\<close> (\<open>device.rs\<close>): frames, checksums, bounded reading, handshakes, Modbus registers; the JSON
    bridge.
  \<^item> \<open>Api_Env\<close>: how a handler runs. \<open>Interlock\<close>, \<open>Safety_Api\<close>, \<open>Process_Api\<close>, \<open>Production_Api\<close>, \<open>Component_Api\<close>,
    \<open>Pipeline_Api\<close> (\<open>api.rs\<close>): the checks that guard risk-increasing requests, the safety handlers, the process life
    cycle, batches and version-1 requests, component control, pipeline samples and alarms. Locales
    \<open>api_invariant\<close>, \<open>resettable_invariant\<close>, \<open>target_invariant\<close>.
  \<^item> \<open>Modbus_Tcp\<close> (\<open>modbus_registers.rs\<close>, \<open>modbus_tcp.rs\<close>): the register map over HTTP and Modbus TCP, target writes, coils and
    inputs as bits, protocol data units and the frames of a connection.
  \<^item> \<open>Audit_Chain\<close> (\<open>db.rs\<close>): the hash chain of control events and its verification; the digest is a parameter.
  \<^item> \<open>Integration_Db\<close> (\<open>db.rs\<close>) and \<open>Integration\<close> (\<open>api_integrations.rs\<close>): the table of remote tasks with its row validation
    and unique index, and the requests that store, claim, execute and answer a task. Between any two accesses other
    requests may change the table, and every database call may fail before or after its effect. Locale \<open>task_store\<close>:
    a store whose operations only advance the status of a row executes each row at most once.
  \<^item> \<open>Mqtt_Bridge\<close> (\<open>mqtt.rs\<close>): configuration, status, receipts, alert snapshots, and the event loop as a step function
    over the events of the client library.
  \<^item> \<open>Optimizer\<close> (\<open>optimizer.rs\<close>): candidate points around reference batches and their score; the random generator,
    square root and exponential are parameters.
  \<^item> \<open>Ai_Provider\<close> (\<open>ai_provider.rs\<close>): recommendations of a language-model service, their retries, extraction and validation.
  \<^item> \<open>Db_Records\<close> (\<open>db.rs\<close>) and \<open>Production_Basis\<close> (\<open>api.rs\<close>): the validation of rows; the requests that change processes, steps,
    product results and recommendations.
  \<^item> \<open>Device_Status\<close> and \<open>Ai_Control\<close> (\<open>api.rs\<close>): the reported state of the device; the AI master control, which plans or executes
    targets, process start and stop and the shaker in one request.
  \<^item> this theory: the routes that change the control state, what a restart restores from the database
    (\<open>runtime_recovery.rs\<close>), and the properties that hold across components.

  \<^bold>\<open>State and effects.\<close> \<open>RuntimeState\<close> behind its lock is the record \<open>runtime_state\<close>. A handler is a function of an
  environment (\<open>api_env\<close>) and a handler state; every lock acquisition, database call and device call takes one
  tick, and the environment says for every tick what the other tasks do to the runtime state before it, what the
  clock shows and what the database and the device answer. A theorem for all environments therefore holds for all
  interleavings at the points where the code releases the lock, and for all failures. A predicate that the other
  tasks keep is a rely condition (\<open>api_rely\<close>). Errors are values of a sum type, a panic is \<open>None\<close>. The control loop is
  modelled in the same way over a list with one environment per iteration, so no fuel is needed; the handshake
  loops run over the list of events that arrive before the deadline.

  \<^bold>\<open>What is shown.\<close> A device write of the loop happens only when every interlock permits it, inside the limits, and a
  write that is not confirmed and audited ends with a latched fault. Automatic control is never on under a latch, in
  the loop and in every history of requests. Each safety handler succeeds exactly under the stated conditions.
  Process, batch, version-1 and component requests either commit what they wrote on a clear field with unchanged
  latches or fail closed. Frames and session tokens read back; corrupted frames are refused; a confirmed write is
  held by the device. The audit chain that insertions built verifies and determines its contents. Every Modbus data
  unit is answered, and register reads agree with the HTTP interface. A recommendation lies inside the
  bounds and outside the forbidden zones. A remote
  task is begun at most once while claims are exclusive, its receipt is the stored result of its action, and an action
  without a stored or published receipt latches a fault; the MQTT loop survives every event. After a restart automatic control is off whatever the database returned. A dry
  run of the AI master control has no effect, and its device writes need an explicit request and a clear field. Processes
  change only while no batch is open, and a stored step can be started. No
  handler panics under a validated configuration.

  \<^bold>\<open>Parameters.\<close> The keyed hash of session tokens, the digest of the audit chain, \<open>sin\<close>, the random generator, the answers of the
  model service and the decoder of their JSON text, the Modbus RTU client, the serial reader, the files of
  the JSON bridge, the clock, the database's answers, the events of the MQTT
  client, the reading of stored JSON text and environment variables are arguments of the definitions.

  \<^bold>\<open>Not modelled.\<close> Reading configuration files, opening ports and sockets, TLS, HTTP decoding and static files, SQL text and
  migrations, the MQTT client library and its transport, the HTTP client and prompt of the model service, the local model programs and the command-line console: they are input and output
  around the parts above, or services outside the repository. The manifest lists each of them.
\<close>

section \<open>The requests that change the control state\<close>

text \<open>Each constructor is a route of the router whose handler changes the control state, with the decoded path,
  query and body, and the data units that arrive over Modbus TCP. A component request goes to a device that writes
  all set points (Modbus, ESP32). The Modbus debug route asks for the administrator instead of a permission.
  The requests that generate a recommendation carry the outcomes of the generation, one for every tick.\<close>

datatype request =
  SetAuto bool
| SetManualLock bool
| ResetControlFault
| ResetEmergencyStop
| EmergencyStop
| SetTargets f64 f64 "f64 option option"
| ApplyProcess int
| StartProcess int "string option"
| StopProcess int "string option"
| StopCurrentProcess "string option"
| StartBatch start_batch_request
| FinishBatchRequest int
| V1Control string "string option" "bool option option" v1_control_params
| V1Process string "v1_process_phase list"
| ControlComponent string string component_request
| PipelineSample string "string + pipeline_sample_request"
| ModbusRegisterWrite "app_error + auth_user" string f64 "string option"
| ModbusPdu "u8 list"
| AinasTask "nat \<Rightarrow> task_table \<Rightarrow> task_table" "nat \<Rightarrow> db_fault" "request_value \<Rightarrow> request_value" task_table ainas_task_request
| AiControl "nat \<Rightarrow> app_error + recommendation_result" ai_env ai_control_request
| CreateProcessRoute "string option" "string option"
| UpdateProcessRoute "nat \<Rightarrow> bool" int "string option" "string option" "string option"
| AddStepRoute "nat \<Rightarrow> bool" int process_step_request
| UpdateStepRoute "nat \<Rightarrow> bool" int int process_step_request
| ProductResults "ai_provider_config option" "nat \<Rightarrow> app_error + recommendation_result" int f64 f64 "string option"

definition answer :: "'a handler \<Rightarrow> unit handler" where
  "answer h = hbind h (\<lambda>_. hreturn ())"

fun serve :: "registers_config \<Rightarrow> (f64 \<Rightarrow> f64) \<Rightarrow> ai_memory \<Rightarrow> device_component list \<Rightarrow> string \<Rightarrow> session \<Rightarrow> request \<Rightarrow> unit handler" where
  "serve regs sin_f memory caps msg session (SetAuto enabled) = set_auto session enabled"
| "serve regs sin_f memory caps msg session (SetManualLock locked) = set_manual_lock session locked"
| "serve regs sin_f memory caps msg session ResetControlFault = reset_control_fault session"
| "serve regs sin_f memory caps msg session ResetEmergencyStop = reset_emergency_stop session"
| "serve regs sin_f memory caps msg session EmergencyStop = emergency_stop_handler session"
| "serve regs sin_f memory caps msg session (SetTargets temp rpm shake) = answer (set_targets session temp rpm shake)"
| "serve regs sin_f memory caps msg session (ApplyProcess pid) = answer (apply_process session pid)"
| "serve regs sin_f memory caps msg session (StartProcess pid name) = answer (start_process session pid name)"
| "serve regs sin_f memory caps msg session (StopProcess pid reason) = answer (stop_process_by_id session pid reason)"
| "serve regs sin_f memory caps msg session (StopCurrentProcess reason) = answer (stop_current_process session reason)"
| "serve regs sin_f memory caps msg session (StartBatch req) = answer (start_batch session req)"
| "serve regs sin_f memory caps msg session (FinishBatchRequest b) = finish_batch session b"
| "serve regs sin_f memory caps msg session (V1Control device_id cid auto params) = answer (v1_control session device_id cid auto params)"
| "serve regs sin_f memory caps msg session (V1Process device_id phases) = answer (v1_process session device_id phases)"
| "serve regs sin_f memory caps msg session (ControlComponent device_id cid payload) =
     answer (control_component session caps (serial_write_component msg) device_id cid payload)"
| "serve regs sin_f memory caps msg session (PipelineSample device_id decoded) =
     answer (v1_pipeline_sample sin_f memory session device_id decoded)"
| "serve regs sin_f memory caps msg session (ModbusRegisterWrite admin register value reason) =
     answer (modbus_register_write regs admin register value reason)"
| "serve regs sin_f memory caps msg session (ModbusPdu pdu) = answer (handle_modbus_tcp_pdu regs memory pdu)"
| "serve regs sin_f memory caps msg session (AinasTask others hits reparse tbl payload) =
     answer (with_tasks others hits reparse tbl (create_ainas_task session payload))"
| "serve regs sin_f memory caps msg session (AiControl gen ae payload) =
     answer (ai_control (ae\<lparr>ae_write := serial_write_component msg, ae_generate := \<lambda>t. Some (gen t)\<rparr>) session payload)"
| "serve regs sin_f memory caps msg session (CreateProcessRoute name description) = create_process session name description"
| "serve regs sin_f memory caps msg session (UpdateProcessRoute found pid name description status) =
     update_process session found pid name description status"
| "serve regs sin_f memory caps msg session (AddStepRoute found pid payload) = add_process_step session found pid payload"
| "serve regs sin_f memory caps msg session (UpdateStepRoute found pid sid payload) = update_process_step session found pid sid payload"
| "serve regs sin_f memory caps msg session (ProductResults provider gen b y ratio notes) =
     answer (product_results session provider (\<lambda>t. Some (gen t)) b y ratio notes)"

text \<open>A history of the daemon as the control state sees it: requests answered one after the other, each in its own
  environment, whose interference stands for the control loop and the requests that run at the same time.\<close>

inductive history :: "(api_env \<Rightarrow> bool) \<Rightarrow> hstate \<Rightarrow> hstate \<Rightarrow> bool" for admitted where
  history_start: "history admitted s s"
| history_request: "history admitted s s1 \<Longrightarrow> admitted env \<Longrightarrow> serve regs sin_f memory caps msg session req env s1 = Some (r, s2)
     \<Longrightarrow> history admitted s s2"

inductive_simps history_first: "history admitted s s'"

lemma serve_keeps_latches: "keeps latches_hold (serve regs sin_f memory caps msg session req)"
  by (cases req)
     (auto simp: answer_def apply_process_def start_process_def stop_process_by_id_def stop_current_process_def
        control_component_def intro!: keeps_intros latch_keeps keeps_serial_writer
        api_latches.keeps_set_auto api_latches.keeps_set_manual_lock api_latches.keeps_reset_control_fault
        api_latches.keeps_reset_emergency_stop api_latches.keeps_emergency_stop keeps_set_targets_latches keeps_modbus_route keeps_modbus_pdu keeps_ainas_route
        keeps_ai_control)

lemma history_keeps_latches:
  assumes "history (api_rely latches_hold) s s'" "latches_hold (h_rt s)"
  shows "latches_hold (h_rt s')"
  using assms by (induction rule: history.induct) (auto dest: keepsD [OF serve_keeps_latches])

text \<open>C1: Automatic control is never on under a latch: in every history of requests that starts with automatic
  control off under the manual lock, the emergency stop and a control fault, automatic control is off
  whenever one of the three is engaged, on every success and error path of every handler that changes the
  control state, provided that what the control loop and concurrent requests do in between keeps it so (the
  control loop does).\<close>

theorem no_auto_under_latch:
  assumes "history (api_rely latches_hold) s s'" "latches_hold (h_rt s)"
  shows "latches_hold (h_rt s')"
  using assms by (rule history_keeps_latches)

section \<open>Start of the daemon\<close>

text \<open>\<open>recover_runtime_from_db\<close>: the state after a restart, from the batches that the database has as unfinished.\<close>

definition recover_runtime_from_db :: "anyhow + batch list \<Rightarrow> safety_config \<Rightarrow> anyhow + runtime_state" where
  "recover_runtime_from_db unfinished safety = bind_res unfinished (\<lambda>batches. Ok (case batches of
       [] \<Rightarrow> from_safety safety
     | b # _ \<Rightarrow> fst (latch_control_fault
         (''daemon restarted with unfinished batch '' @ show_int (batch_id b) @ ''; unfinished batch ids [''
           @ join_with '','' (map (show_int \<circ> batch_id) batches)
           @ ''] require field verification and stop/finish repair before production control resumes'')
         ((from_safety safety)\<lparr>active_batch_id := Some (batch_id b), auto_enabled := False\<rparr>))))"

text \<open>C36: A restart is safe: whatever requests follow, automatic control is never on under a latch; and where the
  database still has an unfinished batch, the daemon starts with that batch active, automatic control off and a
  latched control fault, so no field is clear and nothing risk-increasing can be committed before the fault is
  reset. The number of the batch that needs repair is the one the consistency checks expect.\<close>

theorem restart_fails_closed:
  assumes "recover_runtime_from_db unfinished safety = Ok rt" "h_rt s = rt" "history (api_rely latches_hold) s s'"
  shows "latches_hold (h_rt s') \<and> (\<forall>b bs now. unfinished = Ok (b # bs) \<longrightarrow> active_batch_id rt = Some (batch_id b)
     \<and> \<not> auto_enabled rt \<and> last_control_error rt \<noteq> None \<and> \<not> field_clear now safety rt)"
proof -
  have "latches_hold rt"
    using assms(1) by (cases unfinished) (auto simp: recover_runtime_from_db_def latch_simps from_safety_def latches_hold_def split: list.splits)
  then have "latches_hold (h_rt s')" using history_keeps_latches assms(2,3) by blast
  moreover have "active_batch_id rt = Some (batch_id b) \<and> \<not> auto_enabled rt \<and> last_control_error rt \<noteq> None"
    if "unfinished = Ok (b # bs)" for b bs
    using assms(1) that by (auto simp: recover_runtime_from_db_def latch_simps)
  moreover have "\<not> field_clear now safety rt" if "last_control_error rt \<noteq> None" for now
    using that by (auto simp: field_clear_def)
  ultimately show ?thesis by blast
qed

lemma returns_basis:
  "returns (create_process session name description)" "returns (update_process session found pid name description status)"
  "returns (add_process_step session found pid step)" "returns (update_process_step session found pid sid step)"
  "(\<And>t. gen t \<noteq> None) \<Longrightarrow> returns (product_results session provider gen b y ratio notes)"
  unfolding create_process_def update_process_def add_process_step_def update_process_step_def product_results_def
    ensure_production_basis_write_allowed_def ensure_batch_ready_for_product_result_def process_detail_or_bad_request_def
    transact_existing_def insert_recommendation_with_audit_def Let_def
  by (intro returns_intros; simp)+

lemma returns_component: "returns (control_component session caps (serial_write_component msg) device_id cid payload)"
  unfolding control_component_def execute_component_control_def prove_safe_field_def zone_check_def
    serial_write_component_def finish_component_control_def commit_component_targets_after_final_interlock_def Let_def
  by (intro returns_intros)

lemma returns_serial_writer: "returns (serial_write_component msg command current)"
  unfolding serial_write_component_def Let_def by (intro returns_intros)



lemma demo_api_rely: "api_rely P (demo_api w)"
  by (simp add: api_rely_def demo_api_def)

theorem no_auto_under_latch_witness:
  "\<exists>s'. history (api_rely latches_hold) (demo_hstate None) s' \<and> manual_lock (h_rt s') \<and> \<not> auto_enabled (h_rt s')"
proof -
  obtain s' where run: "set_manual_lock demo_session True (demo_api (\<lambda>_. Ok ())) (demo_hstate None) = Some (Ok (), s')"
    and locked: "manual_lock (h_rt s')"
    by (simp add: set_manual_lock_def demo_session_def demo_api_def run_simps engage_manual_lock_def Let_def)
  have h: "history (api_rely latches_hold) (demo_hstate None) s'"
    by (rule history_request [OF history_start, where env = "demo_api (\<lambda>_. Ok ())" and req = "SetManualLock True"
          and session = demo_session]) (simp_all add: run demo_api_rely)
  have "latches_hold (h_rt (demo_hstate None))"
    by (simp add: latches_hold_def demo_hstate_def from_safety_def)
  from no_auto_under_latch [OF h this] locked h show ?thesis by (auto simp: latches_hold_def)
qed

definition demo_unfinished :: batch where
  "demo_unfinished = \<lparr>batch_id = 7, process_id = None, batch_name = ''b'', started_at = 0, finished_at = None,
     batch_target_temperature_c = Num 60, batch_target_stirrer_rpm = Num 300, heating_minutes = Num 1, stirring_minutes = Num 1\<rparr>"

theorem restart_fails_closed_witness:
  "\<exists>rt. recover_runtime_from_db (Ok [demo_unfinished]) shipped_safety = Ok rt \<and> active_batch_id rt = Some 7 \<and> \<not> field_clear 0 shipped_safety rt"
proof -
  obtain rt where run: "recover_runtime_from_db (Ok [demo_unfinished]) shipped_safety = Ok rt"
    by (simp add: recover_runtime_from_db_def)
  have s: "h_rt ((demo_hstate None)\<lparr>h_rt := rt\<rparr>) = rt" by simp
  show ?thesis using run restart_fails_closed [OF run s history_start] by (auto simp: demo_unfinished_def)
qed

end
